(* ===== verification/Prelude.thy ===== *)
theory Prelude
  imports Main "HOL-Library.Word" "HOL-Library.Sublist" "HOL-Library.List_Lexorder" "HOL-Library.Char_ord"
begin

text \<open>
  What every component of the model shares: machine integers and their little-endian byte
  form, results that distinguish an error value from a panic, the length-prefixed byte
  strings that stand for Rust's \<open>String\<close>, UTF-8 validation, and the few operations of
  \<open>str\<close> the sources use (\<open>trim\<close>, \<open>lines\<close>, \<open>split_once\<close>,
  \<open>strip_prefix\<close>, \<open>strip_suffix\<close>).
\<close>

unbundle bit_operations_syntax

section \<open>Machine integers\<close>

type_synonym u8 = "8 word"
type_synonym u16 = "16 word"
type_synonym u32 = "32 word"
type_synonym u64 = "64 word"

text \<open>
  The proof methods of the development's components draw on three collections: facts that
  compose parsers, facts that compute on strings and facts that open definitions which only
  rearrange their input.
\<close>

named_theorems parse_intros \<open>introduction rules that follow the structure of a parser\<close>
named_theorems str_simps \<open>rules that compute string operations\<close>
named_theorems view_defs \<open>definitions that only rearrange their input\<close>

section \<open>Results: success, error or panic\<close>

text \<open>
  A Rust function that returns \<open>Result\<close> and may also panic (an index out of range, an
  \<open>expect\<close> on \<open>None\<close>) has three outcomes. A panic is a value of the model, so
  that its absence is a theorem and not an assumption.
\<close>

datatype 'e fault = Err 'e | Panic

type_synonym ('a, 'e) result = "'e fault + 'a"

abbreviation Ok :: "'a \<Rightarrow> ('a, 'e) result" where
  "Ok v \<equiv> Inr v"

abbreviation Error :: "'e \<Rightarrow> ('a, 'e) result" where
  "Error e \<equiv> Inl (Err e)"

abbreviation Panicked :: "('a, 'e) result" where
  "Panicked \<equiv> Inl Panic"

text \<open>The \<open>?\<close> operator: the first fault ends the function.\<close>

definition rbind :: "('a, 'e) result \<Rightarrow> ('a \<Rightarrow> ('b, 'e) result) \<Rightarrow> ('b, 'e) result" where
  "rbind r f = (case r of Inl e \<Rightarrow> Inl e | Inr v \<Rightarrow> f v)"

definition rmap :: "('a \<Rightarrow> 'b) \<Rightarrow> ('a, 'e) result \<Rightarrow> ('b, 'e) result" where
  "rmap f r = (case r of Inl e \<Rightarrow> Inl e | Inr v \<Rightarrow> Inr (f v))"

definition rmap_err :: "('e \<Rightarrow> 'f) \<Rightarrow> ('a, 'e) result \<Rightarrow> ('a, 'f) result" where
  "rmap_err f r = (case r of Inl Panic \<Rightarrow> Inl Panic | Inl (Err e) \<Rightarrow> Inl (Err (f e)) | Inr v \<Rightarrow> Inr v)"

definition ok_or :: "'a option \<Rightarrow> 'e \<Rightarrow> ('a, 'e) result" where
  "ok_or x e = (case x of None \<Rightarrow> Error e | Some v \<Rightarrow> Ok v)"

lemma rbind_simps [simp]:
  "rbind (Inl e) f = Inl e"
  "rbind (Inr v) f = f v"
  by (simp_all add: rbind_def)

lemma rmap_simps [simp]:
  "rmap f (Inl e) = Inl e"
  "rmap f (Inr v) = Inr (f v)"
  by (simp_all add: rmap_def)

lemma rmap_err_simps [simp]:
  "rmap_err f (Inl Panic) = Inl Panic"
  "rmap_err f (Inl (Err e)) = Inl (Err (f e))"
  "rmap_err f (Inr v) = Inr v"
  by (simp_all add: rmap_err_def)

lemma ok_or_simps [simp]:
  "ok_or None e = Error e"
  "ok_or (Some v) e = Ok v"
  by (simp_all add: ok_or_def)

lemma rbind_eq_Inr_iff: "rbind r f = Inr w \<longleftrightarrow> (\<exists>v. r = Inr v \<and> f v = Inr w)"
  by (cases r) auto

lemma rbind_eq_Inl_iff: "rbind r f = Inl e \<longleftrightarrow> r = Inl e \<or> (\<exists>v. r = Inr v \<and> f v = Inl e)"
  by (cases r) auto

lemma rmap_eq_Inr_iff: "rmap f r = Inr w \<longleftrightarrow> (\<exists>v. r = Inr v \<and> w = f v)"
  by (cases r) auto

lemma rmap_eq_Inl_iff: "rmap f r = Inl e \<longleftrightarrow> r = Inl e"
  by (cases r) auto

lemma rmap_err_eq_Inr_iff: "rmap_err f r = Inr w \<longleftrightarrow> r = Inr w"
  by (cases r; cases "projl r") auto

lemma rmap_err_eq_Panic_iff: "rmap_err f r = Panicked \<longleftrightarrow> r = Panicked"
  by (cases r; cases "projl r") auto

lemma ok_or_eq_Inr_iff: "ok_or x e = Inr w \<longleftrightarrow> x = Some w"
  by (cases x) auto

section \<open>Sizes\<close>

text \<open>
  \<open>usize\<close> is 64 bits wide on the supported targets. A length in memory is a natural
  number; the places where the code does checked arithmetic or a narrowing conversion on a
  length are written out with that width.
\<close>

definition usize_bound :: nat where
  "usize_bound = 2 ^ 64"

definition usize_checked_add :: "nat \<Rightarrow> nat \<Rightarrow> nat option" where
  "usize_checked_add a b = (if a + b < usize_bound then Some (a + b) else None)"

definition usize_saturating_add :: "nat \<Rightarrow> nat \<Rightarrow> nat" where
  "usize_saturating_add a b = min (a + b) (usize_bound - 1)"

definition u16_try_from :: "nat \<Rightarrow> u16 option" where
  "u16_try_from n = (if n < 2 ^ 16 then Some (word_of_nat n) else None)"

definition u32_try_from :: "nat \<Rightarrow> u32 option" where
  "u32_try_from n = (if n < 2 ^ 32 then Some (word_of_nat n) else None)"

definition u64_saturating_add :: "u64 \<Rightarrow> u64 \<Rightarrow> u64" where
  "u64_saturating_add a b = (if unat a + unat b < 2 ^ 64 then a + b else - 1)"

definition u64_saturating_sub :: "u64 \<Rightarrow> u64 \<Rightarrow> u64" where
  "u64_saturating_sub a b = (if b \<le> a then a - b else 0)"

definition u64_checked_sub :: "u64 \<Rightarrow> u64 \<Rightarrow> u64 option" where
  "u64_checked_sub a b = (if b \<le> a then Some (a - b) else None)"

lemma u16_try_from_Some: "u16_try_from n = Some w \<longleftrightarrow> n < 2 ^ 16 \<and> w = word_of_nat n"
  by (auto simp: u16_try_from_def)

lemma u32_try_from_Some: "u32_try_from n = Some w \<longleftrightarrow> n < 2 ^ 32 \<and> w = word_of_nat n"
  by (auto simp: u32_try_from_def)

text \<open>
  The bounds as integers: the kernel's evaluation counts a natural number in unary, and would
  never finish counting to \<open>2 ^ 32\<close>.
\<close>

lemma u16_try_from_code [code]:
  "u16_try_from n = (if int n < 65536 then Some (word_of_int (int n)) else None)"
  by (auto simp: u16_try_from_def)

lemma u32_try_from_code [code]:
  "u32_try_from n = (if int n < 4294967296 then Some (word_of_int (int n)) else None)"
  by (auto simp: u32_try_from_def)

lemma usize_checked_add_code [code]:
  "usize_checked_add a b = (if int a + int b < 18446744073709551616 then Some (a + b) else None)"
  by (auto simp: usize_checked_add_def usize_bound_def)

lemma usize_saturating_add_code [code]:
  "usize_saturating_add a b =
     (if int a + int b < 18446744073709551616 then a + b else usize_bound - 1)"
  by (auto simp: usize_saturating_add_def usize_bound_def)

lemma u64_saturating_add_code [code]: "u64_saturating_add a b = (if a \<le> a + b then a + b else - 1)"
proof -
  have "unat a + unat b < 2 ^ 64 \<longleftrightarrow> a \<le> a + b"
    using no_olen_add_nat [of a b] by simp
  then show ?thesis by (simp add: u64_saturating_add_def)
qed

lemma unat_u16_of_nat: "n < 2 ^ 16 \<Longrightarrow> unat (word_of_nat n :: u16) = n"
  by (simp add: unat_of_nat take_bit_nat_eq_self)

lemma unat_u32_of_nat: "n < 2 ^ 32 \<Longrightarrow> unat (word_of_nat n :: u32) = n"
  by (simp add: unat_of_nat take_bit_nat_eq_self)

lemma unat_u32_less: "unat (w :: u32) < 4294967296"
  using unsigned_less [of w] by simp

lemma unat_u16_less: "unat (w :: u16) < 65536"
  using unsigned_less [of w] by simp

lemma unat_u64_less: "unat (w :: u64) < 18446744073709551616"
  using unsigned_less [of w] by simp

lemma u64_checked_sub_Some:
  "u64_checked_sub a b = Some c \<longleftrightarrow> unat b \<le> unat a \<and> c = a - b"
  by (auto simp: u64_checked_sub_def word_le_nat_alt)

lemma unat_u64_diff: "unat b \<le> unat a \<Longrightarrow> unat (a - b :: u64) = unat a - unat b"
  by (simp add: unat_sub word_le_nat_alt)

lemma unat_minus_one_u64: "unat (- 1 :: u64) = 18446744073709551615"
  by (simp add: unsigned_minus_1_eq_mask mask_eq_exp_minus_1)

lemma u64_saturating_add_unat:
  "unat (u64_saturating_add a b) = min (unat a + unat b) (2 ^ 64 - 1)"
proof (cases "unat a + unat b < 2 ^ 64")
  case True
  then show ?thesis by (simp add: u64_saturating_add_def unat_word_ariths)
next
  case False
  then show ?thesis by (simp add: u64_saturating_add_def unat_minus_one_u64)
qed

lemma u64_saturating_sub_unat:
  "unat (u64_saturating_sub a b) = unat a - unat b"
  by (simp add: u64_saturating_sub_def word_le_nat_alt unat_u64_diff)

section \<open>Little-endian bytes\<close>

text \<open>\<open>uN::to_le_bytes\<close> and \<open>uN::from_le_bytes\<close>.\<close>

definition u16_to_le_bytes :: "u16 \<Rightarrow> u8 list" where
  "u16_to_le_bytes w = [ucast w, ucast (drop_bit 8 w)]"

definition u32_to_le_bytes :: "u32 \<Rightarrow> u8 list" where
  "u32_to_le_bytes w =
     [ucast w, ucast (drop_bit 8 w), ucast (drop_bit 16 w), ucast (drop_bit 24 w)]"

definition u64_to_le_bytes :: "u64 \<Rightarrow> u8 list" where
  "u64_to_le_bytes w =
     [ucast w, ucast (drop_bit 8 w), ucast (drop_bit 16 w), ucast (drop_bit 24 w),
      ucast (drop_bit 32 w), ucast (drop_bit 40 w), ucast (drop_bit 48 w), ucast (drop_bit 56 w)]"

definition u16_from_le_bytes :: "u8 \<Rightarrow> u8 \<Rightarrow> u16" where
  "u16_from_le_bytes b0 b1 = ucast b0 OR push_bit 8 (ucast b1)"

definition u32_from_le_bytes :: "u8 \<Rightarrow> u8 \<Rightarrow> u8 \<Rightarrow> u8 \<Rightarrow> u32" where
  "u32_from_le_bytes b0 b1 b2 b3 =
     ucast b0 OR push_bit 8 (ucast b1) OR push_bit 16 (ucast b2) OR push_bit 24 (ucast b3)"

definition u64_from_le_bytes ::
  "u8 \<Rightarrow> u8 \<Rightarrow> u8 \<Rightarrow> u8 \<Rightarrow> u8 \<Rightarrow> u8 \<Rightarrow> u8 \<Rightarrow> u8 \<Rightarrow> u64" where
  "u64_from_le_bytes b0 b1 b2 b3 b4 b5 b6 b7 =
     ucast b0 OR push_bit 8 (ucast b1) OR push_bit 16 (ucast b2) OR push_bit 24 (ucast b3)
     OR push_bit 32 (ucast b4) OR push_bit 40 (ucast b5) OR push_bit 48 (ucast b6)
     OR push_bit 56 (ucast b7)"

lemma length_le_bytes [simp]:
  "length (u16_to_le_bytes a) = 2"
  "length (u32_to_le_bytes b) = 4"
  "length (u64_to_le_bytes c) = 8"
  by (simp_all add: u16_to_le_bytes_def u32_to_le_bytes_def u64_to_le_bytes_def)

lemma u8_bit_high: "8 \<le> n \<Longrightarrow> \<not> bit (b :: u8) n"
  using bit_imp_le_length [of b n] by auto

lemma u16_from_to_le: "u16_from_le_bytes (ucast w) (ucast (drop_bit 8 w)) = w"
  unfolding u16_from_le_bytes_def by (rule bit_word_eqI) (auto simp: bit_simps)

lemma u32_from_to_le:
  "u32_from_le_bytes (ucast w) (ucast (drop_bit 8 w)) (ucast (drop_bit 16 w))
     (ucast (drop_bit 24 w)) = w"
  (is "?l = w")
proof (rule bit_word_eqI)
  fix n assume "n < LENGTH(32)"
  then have n: "n < 32" by simp
  have "bit ?l n \<longleftrightarrow> (n < 8 \<and> bit w n \<or> 8 \<le> n \<and> n < 16 \<and> bit w n \<or> 16 \<le> n \<and> n < 24 \<and> bit w n
      \<or> 24 \<le> n \<and> n < 32 \<and> bit w n)"
    using n unfolding u32_from_le_bytes_def
    by (simp add: bit_simps less_diff_conv2 disj_assoc cong: conj_cong)
  also have "\<dots> \<longleftrightarrow> bit w n"
    using n by (cases "bit w n"; simp; linarith)
  finally show "bit ?l n \<longleftrightarrow> bit w n" .
qed

lemma u64_from_to_le:
  "u64_from_le_bytes (ucast w) (ucast (drop_bit 8 w)) (ucast (drop_bit 16 w))
     (ucast (drop_bit 24 w)) (ucast (drop_bit 32 w)) (ucast (drop_bit 40 w))
     (ucast (drop_bit 48 w)) (ucast (drop_bit 56 w)) = w"
  (is "?l = w")
proof (rule bit_word_eqI)
  fix n assume "n < LENGTH(64)"
  then have n: "n < 64" by simp
  have "bit ?l n \<longleftrightarrow> (n < 8 \<and> bit w n \<or> 8 \<le> n \<and> n < 16 \<and> bit w n \<or> 16 \<le> n \<and> n < 24 \<and> bit w n
      \<or> 24 \<le> n \<and> n < 32 \<and> bit w n \<or> 32 \<le> n \<and> n < 40 \<and> bit w n \<or> 40 \<le> n \<and> n < 48 \<and> bit w n
      \<or> 48 \<le> n \<and> n < 56 \<and> bit w n \<or> 56 \<le> n \<and> n < 64 \<and> bit w n)"
    using n unfolding u64_from_le_bytes_def
    by (simp add: bit_simps less_diff_conv2 disj_assoc cong: conj_cong)
  also have "\<dots> \<longleftrightarrow> bit w n"
    using n by (cases "bit w n"; simp; linarith)
  finally show "bit ?l n \<longleftrightarrow> bit w n" .
qed

lemma u16_to_from_le: "u16_to_le_bytes (u16_from_le_bytes b0 b1) = [b0, b1]"
  unfolding u16_to_le_bytes_def u16_from_le_bytes_def
  by (auto intro!: bit_word_eqI simp: bit_simps u8_bit_high)

lemma u32_to_from_le: "u32_to_le_bytes (u32_from_le_bytes b0 b1 b2 b3) = [b0, b1, b2, b3]"
  unfolding u32_to_le_bytes_def u32_from_le_bytes_def
  by (auto intro!: bit_word_eqI simp: bit_simps u8_bit_high)

lemma u64_to_from_le:
  "u64_to_le_bytes (u64_from_le_bytes b0 b1 b2 b3 b4 b5 b6 b7) = [b0, b1, b2, b3, b4, b5, b6, b7]"
  unfolding u64_to_le_bytes_def u64_from_le_bytes_def
  by (simp, intro conjI; rule bit_word_eqI; simp add: bit_simps u8_bit_high)

section \<open>Strings\<close>

text \<open>
  A Rust \<open>String\<close> is a sequence of bytes that is valid UTF-8. It is modelled by a
  list of characters, one character per byte, so \<open>length\<close> is \<open>str::len\<close>;
  the validity of the bytes is the predicate \<open>utf8_string\<close>.
\<close>

definition as_bytes :: "string \<Rightarrow> u8 list" where
  "as_bytes s = map (\<lambda>c. word_of_nat (of_char c)) s"

definition of_bytes :: "u8 list \<Rightarrow> string" where
  "of_bytes bs = map (\<lambda>b. char_of (unat b)) bs"

lemma length_as_bytes [simp]: "length (as_bytes s) = length s"
  by (simp add: as_bytes_def)

lemma as_bytes_append [simp]: "as_bytes (s @ t) = as_bytes s @ as_bytes t"
  by (simp add: as_bytes_def)

lemma byte_char_byte: "word_of_nat (of_char (char_of (unat b) :: char)) = (b :: u8)"
proof -
  have "unat b < 2 ^ LENGTH(8)" by (rule unsigned_less)
  then have "unat b mod 256 = unat b" by simp
  then show ?thesis by simp
qed

lemma char_byte_char: "char_of (unat (word_of_nat (of_char c) :: u8)) = (c :: char)"
  by (simp add: unat_of_nat)

lemma of_bytes_as_bytes [simp]: "of_bytes (as_bytes s) = s"
  by (simp add: as_bytes_def of_bytes_def comp_def char_byte_char)

lemma as_bytes_of_bytes [simp]: "as_bytes (of_bytes bs) = bs"
  unfolding as_bytes_def of_bytes_def map_map comp_def byte_char_byte by simp

lemma as_bytes_inject [simp]: "as_bytes s = as_bytes t \<longleftrightarrow> s = t"
  by (metis of_bytes_as_bytes)

subsection \<open>UTF-8 validation\<close>

text \<open>
  \<open>String::from_utf8\<close> accepts exactly the well-formed sequences of the Unicode
  standard (no overlong form, no surrogate, nothing above U+10FFFF).
  \<open>utf8_char_len bs\<close> is the length of the encoded character at the head of
  \<open>bs\<close>, or 0 when there is none.
\<close>

definition utf8_cont :: "u8 \<Rightarrow> bool" where
  "utf8_cont b \<longleftrightarrow> 0x80 \<le> b \<and> b \<le> 0xBF"

definition utf8_second_ok :: "u8 \<Rightarrow> u8 \<Rightarrow> bool" where
  "utf8_second_ok b c \<longleftrightarrow>
     (if b = 0xE0 then 0xA0 \<le> c \<and> c \<le> 0xBF
      else if b = 0xED then 0x80 \<le> c \<and> c \<le> 0x9F
      else if b = 0xF0 then 0x90 \<le> c \<and> c \<le> 0xBF
      else if b = 0xF4 then 0x80 \<le> c \<and> c \<le> 0x8F
      else utf8_cont c)"

definition utf8_width :: "u8 \<Rightarrow> nat" where
  "utf8_width b =
     (if b < 0x80 then 1
      else if 0xC2 \<le> b \<and> b \<le> 0xDF then 2
      else if 0xE0 \<le> b \<and> b \<le> 0xEF then 3
      else if 0xF0 \<le> b \<and> b \<le> 0xF4 then 4
      else 0)"

fun utf8_char_len :: "u8 list \<Rightarrow> nat" where
  "utf8_char_len [] = 0"
| "utf8_char_len (b # bs) =
     (if utf8_width b = 1 then 1
      else if 2 \<le> utf8_width b \<and> utf8_width b \<le> length (b # bs) \<and> utf8_second_ok b (hd bs)
              \<and> list_all utf8_cont (take (utf8_width b - 2) (tl bs))
      then utf8_width b
      else 0)"

function utf8_valid :: "u8 list \<Rightarrow> bool" where
  "utf8_valid bs =
     (if bs = [] then True
      else if utf8_char_len bs = 0 then False
      else utf8_valid (drop (utf8_char_len bs) bs))"
  by pat_completeness auto
termination
  by (relation "measure length") simp_all

declare utf8_valid.simps [simp del]

definition utf8_string :: "string \<Rightarrow> bool" where
  "utf8_string s \<longleftrightarrow> utf8_valid (as_bytes s)"

lemma sample_utf8:
  "utf8_string ''cam-1''" "utf8_string ''run-1''" "utf8_string ''run-9''" "utf8_string '' ''"
  by code_simp+

lemma char_of_194: "char_of (194 :: nat) = CHR 0xC2"
  by code_simp

definition from_utf8 :: "u8 list \<Rightarrow> string option" where
  "from_utf8 bs = (if utf8_valid bs then Some (of_bytes bs) else None)"

lemma from_utf8_as_bytes: "utf8_string s \<Longrightarrow> from_utf8 (as_bytes s) = Some s"
  by (simp add: from_utf8_def utf8_string_def)

lemma from_utf8_Some:
  "from_utf8 bs = Some s \<longleftrightarrow> utf8_string s \<and> bs = as_bytes s"
  by (auto simp: from_utf8_def utf8_string_def)

lemma utf8_valid_Nil [simp]: "utf8_valid []"
  by (subst utf8_valid.simps) simp

lemma utf8_valid_ascii: "b < 0x80 \<Longrightarrow> utf8_valid (b # bs) = utf8_valid bs"
  by (subst utf8_valid.simps) (simp add: utf8_width_def)

lemma utf8_string_ascii: "list_all (\<lambda>c. (of_char c :: nat) < 0x80) s \<Longrightarrow> utf8_string s"
  unfolding utf8_string_def as_bytes_def
  by (induction s) (auto simp: utf8_valid_ascii word_less_nat_alt unat_of_nat)

end
