(* ===== verification/Byte_Parser.thy ===== *)
theory Byte_Parser
  imports Prelude
begin

text \<open>
  The readers of both wire formats (\<open>PayloadReader\<close> of the protocol crate and the
  \<open>read_*\<close> functions of net-core) walk a byte slice with an offset and return a value
  and the next offset, or an error. This theory gives that shape a type, the two ways such
  readers are chained, and two judgements that compose along the chain: what a reader
  returns on the bytes a writer produced, and what it may consume of arbitrary bytes. The
  locale \<open>field_codec\<close> is the contract between one writer and one reader.
\<close>

section \<open>Readers\<close>

type_synonym ('a, 'e) parser = "u8 list \<Rightarrow> nat \<Rightarrow> ('a \<times> nat, 'e) result"

definition preturn :: "'a \<Rightarrow> ('a, 'e) parser" where
  "preturn v = (\<lambda>bs i. Ok (v, i))"

definition pbind :: "('a, 'e) parser \<Rightarrow> ('a \<Rightarrow> ('b, 'e) parser) \<Rightarrow> ('b, 'e) parser" where
  "pbind p f = (\<lambda>bs i. rbind (p bs i) (\<lambda>(v, j). f v bs j))"

text \<open>A fallible conversion of a value already read, as in \<open>Codec::try_from(..)?\<close>.\<close>

definition plift :: "('a, 'e) result \<Rightarrow> ('a, 'e) parser" where
  "plift r = (\<lambda>bs i. rmap (\<lambda>v. (v, i)) r)"

definition run_parser :: "('a, 'e) parser \<Rightarrow> u8 list \<Rightarrow> ('a, 'e) result" where
  "run_parser p bs = rmap fst (p bs 0)"

text \<open>Indexing and slicing panic out of range.\<close>

definition byte_at :: "u8 list \<Rightarrow> nat \<Rightarrow> (u8, 'e) result" where
  "byte_at bs i = (if i < length bs then Ok (bs ! i) else Panicked)"

definition slice_range :: "u8 list \<Rightarrow> nat \<Rightarrow> nat \<Rightarrow> (u8 list, 'e) result" where
  "slice_range bs i j = (if i \<le> j \<and> j \<le> length bs then Ok (take (j - i) (drop i bs)) else Panicked)"

lemma byte_at_ok [simp]: "i < length bs \<Longrightarrow> byte_at bs i = Ok (bs ! i)"
  by (simp add: byte_at_def)

lemma slice_range_ok [simp]:
  "i \<le> j \<Longrightarrow> j \<le> length bs \<Longrightarrow> slice_range bs i j = Ok (take (j - i) (drop i bs))"
  by (simp add: slice_range_def)

section \<open>What a reader returns on the writer's bytes\<close>

definition parses :: "('a, 'e) parser \<Rightarrow> u8 list \<Rightarrow> 'a \<Rightarrow> bool" where
  "parses p cs v \<longleftrightarrow>
     (\<forall>pre suf. length pre + length cs + length suf < usize_bound \<longrightarrow>
        p (pre @ cs @ suf) (length pre) = Ok (v, length pre + length cs))"

lemma parsesI:
  assumes "\<And>pre suf. length pre + length cs + length suf < usize_bound \<Longrightarrow>
     p (pre @ cs @ suf) (length pre) = Ok (v, length pre + length cs)"
  shows "parses p cs v"
  using assms by (simp add: parses_def)

lemma parsesD:
  assumes "parses p cs v" and "length pre + length cs + length suf < usize_bound"
  shows "p (pre @ cs @ suf) (length pre) = Ok (v, length pre + length cs)"
  using assms by (simp add: parses_def)

lemma parses_return [parse_intros]: "parses (preturn v) [] v"
  by (simp add: parses_def preturn_def)

lemma parses_return_eq: "v = w \<Longrightarrow> parses (preturn v) [] w"
  by (simp add: parses_return)

lemma parses_lift [parse_intros]: "r = Ok v \<Longrightarrow> parses (plift r) [] v"
  by (simp add: parses_def plift_def)

lemma parses_bind [parse_intros]:
  assumes p: "parses p cs v" and f: "parses (f v) ds w"
  shows "parses (pbind p f) (cs @ ds) w"
proof (rule parsesI)
  fix pre suf :: "u8 list"
  assume len: "length pre + length (cs @ ds) + length suf < usize_bound"
  have "p (pre @ cs @ ds @ suf) (length pre) = Ok (v, length pre + length cs)"
    using parsesD [OF p, of pre "ds @ suf"] len by simp
  moreover have "f v (pre @ cs @ ds @ suf) (length pre + length cs)
      = Ok (w, length pre + length cs + length ds)"
    using parsesD [OF f, of "pre @ cs" suf] len by simp
  ultimately show "pbind p f (pre @ (cs @ ds) @ suf) (length pre)
      = Ok (w, length pre + length (cs @ ds))"
    by (simp add: pbind_def)
qed

lemma parses_bind_empty:
  "parses p [] v \<Longrightarrow> parses (f v) ds w \<Longrightarrow> parses (pbind p f) ds w"
  using parses_bind [of p "[]" v f ds w] by simp

lemma parses_lift_bind:
  "r = Ok v \<Longrightarrow> parses (f v) ds w \<Longrightarrow> parses (pbind (plift r) f) ds w"
  by (rule parses_bind_empty [OF parses_lift])

lemma parses_bind_last:
  "parses p cs v \<Longrightarrow> parses (f v) [] w \<Longrightarrow> parses (pbind p f) cs w"
  using parses_bind [of p cs v f "[]" w] by simp

lemma run_parser_parses:
  assumes "parses p bs v" and "length bs < usize_bound"
  shows "run_parser p bs = Ok v" and "p bs 0 = Ok (v, length bs)"
  using parsesD [OF assms(1), of "[]" "[]"] assms(2) by (simp_all add: run_parser_def)

section \<open>What a reader may do on arbitrary bytes\<close>

text \<open>
  \<open>sound p E\<close>: started inside the slice, \<open>p\<close> never panics; when it succeeds it
  has moved forward, stays inside the slice, and the value \<open>v\<close> it returns and the bytes
  \<open>cs\<close> it consumed satisfy \<open>E v cs\<close>.
\<close>

definition sound :: "('a, 'e) parser \<Rightarrow> ('a \<Rightarrow> u8 list \<Rightarrow> bool) \<Rightarrow> bool" where
  "sound p E \<longleftrightarrow>
     (\<forall>bs i. i \<le> length bs \<and> length bs < usize_bound \<longrightarrow>
        (case p bs i of
           Inl e \<Rightarrow> e \<noteq> Panic
         | Inr (v, j) \<Rightarrow> i \<le> j \<and> j \<le> length bs \<and> E v (take (j - i) (drop i bs))))"

lemma soundI:
  assumes "\<And>bs i. i \<le> length bs \<Longrightarrow> length bs < usize_bound \<Longrightarrow> p bs i \<noteq> Panicked"
    and "\<And>bs i v j. i \<le> length bs \<Longrightarrow> length bs < usize_bound \<Longrightarrow> p bs i = Ok (v, j) \<Longrightarrow>
           i \<le> j \<and> j \<le> length bs \<and> E v (take (j - i) (drop i bs))"
  shows "sound p E"
  unfolding sound_def
proof (intro allI impI, elim conjE)
  fix bs :: "u8 list" and i
  assume i: "i \<le> length bs" "length bs < usize_bound"
  show "case p bs i of Inl e \<Rightarrow> e \<noteq> Panic
      | Inr (v, j) \<Rightarrow> i \<le> j \<and> j \<le> length bs \<and> E v (take (j - i) (drop i bs))"
    using assms(1) [OF i] assms(2) [OF i] by (cases "p bs i") auto
qed

lemma soundD:
  assumes "sound p E" and "i \<le> length bs" and "length bs < usize_bound"
  shows "case p bs i of Inl e \<Rightarrow> e \<noteq> Panic
      | Inr (v, j) \<Rightarrow> i \<le> j \<and> j \<le> length bs \<and> E v (take (j - i) (drop i bs))"
  using assms unfolding sound_def by blast

lemma sound_no_panic:
  "sound p E \<Longrightarrow> i \<le> length bs \<Longrightarrow> length bs < usize_bound \<Longrightarrow> p bs i \<noteq> Panicked"
  by (drule (2) soundD) auto

lemma sound_Ok:
  "sound p E \<Longrightarrow> i \<le> length bs \<Longrightarrow> length bs < usize_bound \<Longrightarrow> p bs i = Ok (v, j) \<Longrightarrow>
     i \<le> j \<and> j \<le> length bs \<and> E v (take (j - i) (drop i bs))"
  by (drule (2) soundD) auto

lemma sound_mono: "sound p E \<Longrightarrow> (\<And>v cs. E v cs \<Longrightarrow> F v cs) \<Longrightarrow> sound p F"
  by (rule soundI) (auto dest: sound_no_panic sound_Ok)

lemma sound_return: "sound (preturn v) (\<lambda>w cs. w = v \<and> cs = [])"
  by (rule soundI) (auto simp: preturn_def)

lemma sound_lift:
  "r \<noteq> Panicked \<Longrightarrow> sound (plift r) (\<lambda>w cs. r = Ok w \<and> cs = [])"
  by (rule soundI) (auto simp: plift_def rmap_eq_Inr_iff rmap_eq_Inl_iff)

lemma take_drop_split:
  "i \<le> j \<Longrightarrow> j \<le> k \<Longrightarrow> take (k - i) (drop i xs) = take (j - i) (drop i xs) @ take (k - j) (drop j xs)"
  using take_add [of "j - i" "k - j" "drop i xs"] by simp

lemma sound_bind:
  assumes p: "sound p E" and f: "\<And>v. sound (f v) (F v)"
  shows "sound (pbind p f) (\<lambda>w cs. \<exists>v c1 c2. cs = c1 @ c2 \<and> E v c1 \<and> F v w c2)"
proof (rule soundI)
  fix bs :: "u8 list" and i
  assume i: "i \<le> length bs" "length bs < usize_bound"
  show "pbind p f bs i \<noteq> Panicked"
    using sound_no_panic [OF p i] sound_Ok [OF p i] sound_no_panic [OF f] i(2)
    by (fastforce simp: pbind_def rbind_eq_Inl_iff)
next
  fix bs :: "u8 list" and i w k
  assume i: "i \<le> length bs" "length bs < usize_bound" and ok: "pbind p f bs i = Ok (w, k)"
  then obtain v j where v: "p bs i = Ok (v, j)" and w: "f v bs j = Ok (w, k)"
    by (auto simp: pbind_def rbind_eq_Inr_iff)
  have ij: "i \<le> j" "j \<le> length bs" and E: "E v (take (j - i) (drop i bs))"
    using sound_Ok [OF p i v] by auto
  have jk: "j \<le> k" "k \<le> length bs" and F: "F v w (take (k - j) (drop j bs))"
    using sound_Ok [OF f ij(2) i(2) w] by auto
  show "i \<le> k \<and> k \<le> length bs
      \<and> (\<exists>v c1 c2. take (k - i) (drop i bs) = c1 @ c2 \<and> E v c1 \<and> F v w c2)"
    using ij jk E F take_drop_split [OF ij(1) jk(1)] by auto
qed

text \<open>The same judgement without a claim about the value: the reader is panic free.\<close>

abbreviation safe :: "('a, 'e) parser \<Rightarrow> bool" where
  "safe p \<equiv> sound p (\<lambda>_ _. True)"

lemma sound_safe: "sound p E \<Longrightarrow> safe p"
  by (erule sound_mono) (rule TrueI)

lemma safe_return: "safe (preturn v)"
  by (rule sound_safe [OF sound_return])

lemma safe_lift: "r \<noteq> Panicked \<Longrightarrow> safe (plift r)"
  by (rule sound_safe [OF sound_lift])

lemma safe_bind: "safe p \<Longrightarrow> (\<And>v. safe (f v)) \<Longrightarrow> safe (pbind p f)"
  by (rule sound_safe [OF sound_bind])

section \<open>The contract between a writer and a reader\<close>

text \<open>
  \<open>put\<close> appends the encoded value to an output buffer or fails; \<open>bytes\<close> names the
  encoding and \<open>wf\<close> the values that are decoded from it. The reader returns exactly what was
  written, and succeeds on arbitrary bytes only if they are an encoding.
\<close>

locale field_codec =
  fixes put :: "u8 list \<Rightarrow> 'a \<Rightarrow> (u8 list, 'e) result"
    and bytes :: "'a \<Rightarrow> u8 list"
    and get :: "('a, 'e) parser"
    and wf :: "'a \<Rightarrow> bool"
  assumes put_wf: "wf v \<Longrightarrow> put out v = Ok (out @ bytes v)"
    and put_Ok: "put out v = Ok out' \<Longrightarrow> out' = out @ bytes v"
    and put_no_panic: "put out v \<noteq> Panicked"
    and get_put: "wf v \<Longrightarrow> parses get (bytes v) v"
    and get_sound: "sound get (\<lambda>v cs. wf v \<and> cs = bytes v)"
begin

lemma put_extends: "put out v = Ok out' \<Longrightarrow> prefix out out'"
  by (auto dest: put_Ok)

text \<open>An appended encoding reads back whatever was in the buffer before it.\<close>

lemma put_then_get:
  assumes "wf v" and "put out v = Ok out'" and "length out' < usize_bound"
  shows "get out' (length out) = Ok (v, length out')"
  using parsesD [OF get_put [OF \<open>wf v\<close>], of out "[]"] assms(3) put_Ok [OF assms(2)] by simp

lemma get_safe: "safe get"
  using get_sound by (rule sound_safe)

lemma bytes_prefix_free:
  assumes "wf v" and "wf w" and eq: "bytes v @ r = bytes w @ s"
    and len: "length (bytes v @ r) < usize_bound"
  shows "v = w \<and> r = s"
proof -
  have "get (bytes v @ r) 0 = Ok (v, length (bytes v))"
    using parsesD [OF get_put [OF \<open>wf v\<close>], of "[]" r] len by simp
  moreover have "get (bytes w @ s) 0 = Ok (w, length (bytes w))"
    using parsesD [OF get_put [OF \<open>wf w\<close>], of "[]" s] len eq by simp
  ultimately show ?thesis using eq by simp
qed

end

end
