(* ===== verification/Protocol_Types.thy ===== *)
theory Protocol_Types
  imports Prelude
begin

text \<open>
  The data of the wire protocol (crates/protocol/src/lib.rs): identifiers, the constants of
  the layout, the fixed header, the eight message structs, their enums with the conversions
  from and to wire codes, the message sum and the error type. A variant \<open>T::V\<close> whose
  bare name is used by two enums is written \<open>T_V\<close>; a struct field carries a short prefix
  of its struct.
\<close>

section \<open>Identifiers and constants\<close>

type_synonym ClientId = string
type_synonym RunId = string
type_synonym ProtocolVersion = u32
type_synonym AppVersion = string
type_synonym TimestampMicros = u64

definition FIXED_HEADER_LEN :: u16 where "FIXED_HEADER_LEN = 16"
definition HEADER_MESSAGE_TYPE_OFFSET :: nat where "HEADER_MESSAGE_TYPE_OFFSET = 0"
definition HEADER_LENGTH_OFFSET :: nat where "HEADER_LENGTH_OFFSET = 2"
definition HEADER_PROTOCOL_VERSION_OFFSET :: nat where "HEADER_PROTOCOL_VERSION_OFFSET = 4"
definition HEADER_PAYLOAD_LENGTH_OFFSET :: nat where "HEADER_PAYLOAD_LENGTH_OFFSET = 8"
definition HEADER_FLAGS_OFFSET :: nat where "HEADER_FLAGS_OFFSET = 12"
definition HEADER_RESERVED_OFFSET :: nat where "HEADER_RESERVED_OFFSET = 14"
definition PAYLOAD_STRING_LEN_PREFIX_LEN :: u16 where "PAYLOAD_STRING_LEN_PREFIX_LEN = 2"
definition PAYLOAD_OPTION_TAG_LEN :: u16 where "PAYLOAD_OPTION_TAG_LEN = 1"
definition SERVER_NOTICE_TYPE_LEN :: u16 where "SERVER_NOTICE_TYPE_LEN = 2"
definition CODEC_H264_WIRE_VALUE :: u16 where "CODEC_H264_WIRE_VALUE = 1"
definition VIDEO_FRAME_NUMERIC_METADATA_LEN :: u16 where "VIDEO_FRAME_NUMERIC_METADATA_LEN = 46"
definition VIDEO_FRAME_FRAGMENT_NUMERIC_METADATA_LEN :: u16 where
  "VIDEO_FRAME_FRAGMENT_NUMERIC_METADATA_LEN = 45"
definition CLIENT_STATS_BASE_NUMERIC_PAYLOAD_LEN :: u16 where
  "CLIENT_STATS_BASE_NUMERIC_PAYLOAD_LEN = 25"
definition CLIENT_STATS_HEARTBEAT_OBSERVATION_BLOCK_LEN :: u16 where
  "CLIENT_STATS_HEARTBEAT_OBSERVATION_BLOCK_LEN = 32"

section \<open>Enums\<close>

datatype MessageType =
    MessageType_AuthRequest
  | MessageType_AuthResponse
  | MessageType_Heartbeat
  | MessageType_HeartbeatAck
  | MessageType_VideoFrame
  | MessageType_ClientStats
  | MessageType_ServerNotice
  | MessageType_VideoFrameFragment

datatype AuthResponseReasonCode =
    ReasonCode_Ok
  | InvalidToken
  | UnknownClient
  | ProtocolMismatch
  | AlreadyConnected
  | InternalError

datatype Codec = H264

datatype NoticeType =
    NoticeType_Warning
  | NoticeType_Disconnect
  | NoticeType_ProtocolError
  | NoticeType_AuthExpired
  | NoticeType_ServerShutdown

datatype ProtocolError =
    BufferTooShort
  | InvalidHeaderLength u16
  | InvalidPayloadLength u32 nat
  | InvalidOptionalTag u8
  | InvalidBoolValue u8
  | InvalidMetadataReserved "u8 \<times> u8 \<times> u8"
  | InvalidUtf8String
  | UnsupportedAuthResponseReasonCode u16
  | UnsupportedCodec u16
  | UnsupportedNoticeType u16
  | UnknownMessageType u16
  | UnexpectedMessageType MessageType MessageType
  | UnsupportedProtocolVersion ProtocolVersion ProtocolVersion
  | PayloadStringTooLong nat
  | PayloadDecodeNotImplemented MessageType
  | EncodeNotImplemented MessageType

text \<open>\<open>message_type as u16\<close>: the discriminants of the \<open>repr(u16)\<close> enum.\<close>

fun MessageType_as_u16 :: "MessageType \<Rightarrow> u16" where
  "MessageType_as_u16 MessageType_AuthRequest = 1"
| "MessageType_as_u16 MessageType_AuthResponse = 2"
| "MessageType_as_u16 MessageType_Heartbeat = 3"
| "MessageType_as_u16 MessageType_HeartbeatAck = 4"
| "MessageType_as_u16 MessageType_VideoFrame = 5"
| "MessageType_as_u16 MessageType_ClientStats = 6"
| "MessageType_as_u16 MessageType_ServerNotice = 7"
| "MessageType_as_u16 MessageType_VideoFrameFragment = 8"

definition MessageType_try_from :: "u16 \<Rightarrow> (MessageType, ProtocolError) result" where
  "MessageType_try_from value =
     (if value = 1 then Ok MessageType_AuthRequest
      else if value = 2 then Ok MessageType_AuthResponse
      else if value = 3 then Ok MessageType_Heartbeat
      else if value = 4 then Ok MessageType_HeartbeatAck
      else if value = 5 then Ok MessageType_VideoFrame
      else if value = 6 then Ok MessageType_ClientStats
      else if value = 7 then Ok MessageType_ServerNotice
      else if value = 8 then Ok MessageType_VideoFrameFragment
      else Error (UnknownMessageType value))"

fun AuthResponseReasonCode_wire_code :: "AuthResponseReasonCode \<Rightarrow> u16" where
  "AuthResponseReasonCode_wire_code ReasonCode_Ok = 0"
| "AuthResponseReasonCode_wire_code InvalidToken = 1"
| "AuthResponseReasonCode_wire_code UnknownClient = 2"
| "AuthResponseReasonCode_wire_code ProtocolMismatch = 3"
| "AuthResponseReasonCode_wire_code AlreadyConnected = 4"
| "AuthResponseReasonCode_wire_code InternalError = 5"

definition AuthResponseReasonCode_try_from ::
  "u16 \<Rightarrow> (AuthResponseReasonCode, ProtocolError) result" where
  "AuthResponseReasonCode_try_from value =
     (if value = 0 then Ok ReasonCode_Ok
      else if value = 1 then Ok InvalidToken
      else if value = 2 then Ok UnknownClient
      else if value = 3 then Ok ProtocolMismatch
      else if value = 4 then Ok AlreadyConnected
      else if value = 5 then Ok InternalError
      else Error (UnsupportedAuthResponseReasonCode value))"

fun Codec_wire_code :: "Codec \<Rightarrow> u16" where
  "Codec_wire_code H264 = CODEC_H264_WIRE_VALUE"

definition Codec_try_from :: "u16 \<Rightarrow> (Codec, ProtocolError) result" where
  "Codec_try_from value =
     (if value = CODEC_H264_WIRE_VALUE then Ok H264 else Error (UnsupportedCodec value))"

fun NoticeType_wire_code :: "NoticeType \<Rightarrow> u16" where
  "NoticeType_wire_code NoticeType_Warning = 1"
| "NoticeType_wire_code NoticeType_Disconnect = 2"
| "NoticeType_wire_code NoticeType_ProtocolError = 3"
| "NoticeType_wire_code NoticeType_AuthExpired = 4"
| "NoticeType_wire_code NoticeType_ServerShutdown = 5"

definition NoticeType_try_from :: "u16 \<Rightarrow> (NoticeType, ProtocolError) result" where
  "NoticeType_try_from value =
     (if value = 1 then Ok NoticeType_Warning
      else if value = 2 then Ok NoticeType_Disconnect
      else if value = 3 then Ok NoticeType_ProtocolError
      else if value = 4 then Ok NoticeType_AuthExpired
      else if value = 5 then Ok NoticeType_ServerShutdown
      else Error (UnsupportedNoticeType value))"

section \<open>Structs\<close>

record FixedHeader =
  fh_message_type :: MessageType
  fh_header_length :: u16
  fh_protocol_version :: ProtocolVersion
  fh_payload_length :: u32
  fh_flags :: u16
  fh_reserved :: u16

record PacketView =
  pv_header :: FixedHeader
  pv_payload :: "u8 list"

record DecodeContext =
  dc_expected_protocol_version :: ProtocolVersion

record EncodeContext =
  ec_protocol_version :: ProtocolVersion

record AuthRequest =
  areq_message_type :: MessageType
  areq_protocol_version :: ProtocolVersion
  areq_client_id :: ClientId
  areq_run_id :: RunId
  areq_app_version :: AppVersion
  areq_shared_token :: string
  areq_display_name :: "string option"
  areq_capabilities :: "string list"
  areq_requested_video_profile :: "string option"

record AuthResponse =
  aresp_message_type :: MessageType
  aresp_protocol_version :: ProtocolVersion
  aresp_client_id :: ClientId
  aresp_run_id :: RunId
  aresp_accepted :: bool
  aresp_reason_code :: AuthResponseReasonCode
  aresp_message :: "string option"
  aresp_server_time :: "TimestampMicros option"
  aresp_expected_protocol_version :: "ProtocolVersion option"

record Heartbeat =
  hb_message_type :: MessageType
  hb_protocol_version :: ProtocolVersion
  hb_client_id :: ClientId
  hb_run_id :: RunId
  hb_sent_at :: TimestampMicros
  hb_local_time :: "TimestampMicros option"
  hb_short_status :: "string option"

record HeartbeatAck =
  hba_message_type :: MessageType
  hba_protocol_version :: ProtocolVersion
  hba_client_id :: ClientId
  hba_run_id :: RunId
  hba_echoed_sent_at :: TimestampMicros
  hba_server_received_at :: TimestampMicros
  hba_server_sent_at :: TimestampMicros

record HeartbeatAckObservation =
  obs_client_id :: ClientId
  obs_run_id :: RunId
  obs_echoed_sent_at :: TimestampMicros
  obs_server_received_at :: TimestampMicros
  obs_server_sent_at :: TimestampMicros
  obs_client_received_at :: TimestampMicros

record HeartbeatObservationCarrier =
  hoc_message_type :: MessageType
  hoc_protocol_version :: ProtocolVersion
  hoc_observation :: HeartbeatAckObservation

record VideoFrame =
  vf_message_type :: MessageType
  vf_protocol_version :: ProtocolVersion
  vf_client_id :: ClientId
  vf_run_id :: RunId
  vf_frame_id :: u64
  vf_capture_timestamp :: TimestampMicros
  vf_send_timestamp :: TimestampMicros
  vf_is_keyframe :: bool
  vf_metadata_reserved :: "u8 \<times> u8 \<times> u8"
  vf_width :: u32
  vf_height :: u32
  vf_fps_nominal :: u32
  vf_codec :: Codec
  vf_payload_size :: nat
  vf_payload :: "u8 list"

record VideoFrameFragment =
  vff_message_type :: MessageType
  vff_protocol_version :: ProtocolVersion
  vff_client_id :: ClientId
  vff_run_id :: RunId
  vff_frame_id :: u64
  vff_capture_timestamp :: TimestampMicros
  vff_is_keyframe :: bool
  vff_width :: u32
  vff_height :: u32
  vff_fps_nominal :: u32
  vff_total_payload_len :: u32
  vff_chunk_index :: u32
  vff_chunk_count :: u32
  vff_chunk_payload_len :: nat
  vff_chunk_payload :: "u8 list"

record ClientStats =
  cs_message_type :: MessageType
  cs_protocol_version :: ProtocolVersion
  cs_client_id :: ClientId
  cs_run_id :: RunId
  cs_sent_at :: TimestampMicros
  cs_capture_fps :: u32
  cs_dropped_frames :: u64
  cs_bitrate_kbps :: u32
  cs_heartbeat_observation :: "HeartbeatAckObservation option"

record ServerNotice =
  sn_message_type :: MessageType
  sn_protocol_version :: ProtocolVersion
  sn_run_id :: RunId
  sn_notice_type :: NoticeType
  sn_message :: string

record ClientStatsPayloadPlan =
  csp_base_numeric_payload_len :: u16
  csp_heartbeat_observation_present :: bool
  csp_heartbeat_observation_block_len :: u16

record ServerNoticePayloadPlan =
  snp_notice_type_len :: u16
  snp_run_id_byte_len :: u16
  snp_message_byte_len :: u16

datatype ProtocolMessage =
    Message_AuthRequest AuthRequest
  | Message_AuthResponse AuthResponse
  | Message_Heartbeat Heartbeat
  | Message_HeartbeatAck HeartbeatAck
  | Message_VideoFrame VideoFrame
  | Message_VideoFrameFragment VideoFrameFragment
  | Message_ClientStats ClientStats
  | Message_ServerNotice ServerNotice

fun ProtocolMessage_message_type :: "ProtocolMessage \<Rightarrow> MessageType" where
  "ProtocolMessage_message_type (Message_AuthRequest _) = MessageType_AuthRequest"
| "ProtocolMessage_message_type (Message_AuthResponse _) = MessageType_AuthResponse"
| "ProtocolMessage_message_type (Message_Heartbeat _) = MessageType_Heartbeat"
| "ProtocolMessage_message_type (Message_HeartbeatAck _) = MessageType_HeartbeatAck"
| "ProtocolMessage_message_type (Message_VideoFrame _) = MessageType_VideoFrame"
| "ProtocolMessage_message_type (Message_VideoFrameFragment _) = MessageType_VideoFrameFragment"
| "ProtocolMessage_message_type (Message_ClientStats _) = MessageType_ClientStats"
| "ProtocolMessage_message_type (Message_ServerNotice _) = MessageType_ServerNotice"

section \<open>Wire codes are bijective on their enums\<close>

text \<open>
  One contract for every enum with a wire code: decoding inverts encoding, a decoded code is
  the encoding of what it decodes to, and a decode never panics.
\<close>

locale wire_enum =
  fixes code :: "'a \<Rightarrow> 'w" and try_from :: "'w \<Rightarrow> ('a, 'e) result"
  assumes try_from_code: "try_from (code v) = Ok v"
    and code_of_try_from: "try_from w = Ok v \<Longrightarrow> w = code v"
    and try_from_no_panic: "try_from w \<noteq> Panicked"
begin

lemma try_from_eq_Ok_iff: "try_from w = Ok v \<longleftrightarrow> w = code v"
  by (metis try_from_code code_of_try_from)

lemma code_inject: "code v = code v' \<longleftrightarrow> v = v'"
  by (metis sum.inject(2) try_from_code)

lemma unknown_code_errors: "w \<notin> range code \<Longrightarrow> \<exists>e. try_from w = Error e"
proof (cases "try_from w")
  case (Inl e)
  then show ?thesis using try_from_no_panic [of w] by (cases e) auto
next
  case (Inr v)
  assume "w \<notin> range code"
  then show ?thesis using code_of_try_from [OF Inr] by auto
qed

end

interpretation message_type: wire_enum MessageType_as_u16 MessageType_try_from
proof unfold_locales
  show "MessageType_try_from (MessageType_as_u16 v) = Ok v" for v
    by (cases v) (simp_all add: MessageType_try_from_def)
qed (auto simp: MessageType_try_from_def split: if_splits)

interpretation reason_code: wire_enum AuthResponseReasonCode_wire_code AuthResponseReasonCode_try_from
proof unfold_locales
  show "AuthResponseReasonCode_try_from (AuthResponseReasonCode_wire_code v) = Ok v" for v
    by (cases v) (simp_all add: AuthResponseReasonCode_try_from_def)
qed (auto simp: AuthResponseReasonCode_try_from_def split: if_splits)

interpretation codec: wire_enum Codec_wire_code Codec_try_from
proof unfold_locales
  show "Codec_try_from (Codec_wire_code v) = Ok v" for v
    by (cases v) (simp_all add: Codec_try_from_def)
qed (auto simp: Codec_try_from_def split: if_splits)

interpretation notice_type: wire_enum NoticeType_wire_code NoticeType_try_from
proof unfold_locales
  show "NoticeType_try_from (NoticeType_wire_code v) = Ok v" for v
    by (cases v) (simp_all add: NoticeType_try_from_def)
qed (auto simp: NoticeType_try_from_def split: if_splits)

end
