(* ===== verification/Protocol_Reader.thy ===== *)
theory Protocol_Reader
  imports Byte_Parser Protocol_Types
begin

text \<open>
  The field level of crates/protocol/src/lib.rs: the little-endian slice readers, the
  methods of \<open>PayloadReader\<close> (its two fields \<open>payload\<close> and \<open>offset\<close> are
  the two arguments of a parser) and the \<open>write_*\<close> helpers, with the interpretations
  that prove each pair of them a \<open>field_codec\<close>.
\<close>

section \<open>Slice readers\<close>

definition read_u16_le :: "u8 list \<Rightarrow> nat \<Rightarrow> (u16, 'e) result" where
  "read_u16_le packet offset =
     rbind (byte_at packet offset) (\<lambda>b0.
     rbind (byte_at packet (offset + 1)) (\<lambda>b1.
     Ok (u16_from_le_bytes b0 b1)))"

definition read_u32_le :: "u8 list \<Rightarrow> nat \<Rightarrow> (u32, 'e) result" where
  "read_u32_le packet offset =
     rbind (byte_at packet offset) (\<lambda>b0.
     rbind (byte_at packet (offset + 1)) (\<lambda>b1.
     rbind (byte_at packet (offset + 2)) (\<lambda>b2.
     rbind (byte_at packet (offset + 3)) (\<lambda>b3.
     Ok (u32_from_le_bytes b0 b1 b2 b3)))))"

definition read_u64_le :: "u8 list \<Rightarrow> nat \<Rightarrow> (u64, 'e) result" where
  "read_u64_le packet offset =
     rbind (byte_at packet offset) (\<lambda>b0.
     rbind (byte_at packet (offset + 1)) (\<lambda>b1.
     rbind (byte_at packet (offset + 2)) (\<lambda>b2.
     rbind (byte_at packet (offset + 3)) (\<lambda>b3.
     rbind (byte_at packet (offset + 4)) (\<lambda>b4.
     rbind (byte_at packet (offset + 5)) (\<lambda>b5.
     rbind (byte_at packet (offset + 6)) (\<lambda>b6.
     rbind (byte_at packet (offset + 7)) (\<lambda>b7.
     Ok (u64_from_le_bytes b0 b1 b2 b3 b4 b5 b6 b7)))))))))"

definition read_u8_at :: "u8 list \<Rightarrow> nat \<Rightarrow> (u8, 'e) result" where
  "read_u8_at packet offset = byte_at packet offset"

section \<open>\<open>PayloadReader\<close>\<close>

definition PayloadReader_ensure_available :: "nat \<Rightarrow> u8 list \<Rightarrow> nat \<Rightarrow> (unit, ProtocolError) result" where
  "PayloadReader_ensure_available len payload offset =
     rbind (ok_or (usize_checked_add offset len)
              (InvalidPayloadLength 0xFFFFFFFF (length payload))) (\<lambda>expected.
     if expected \<le> length payload then Ok ()
     else Error (InvalidPayloadLength (word_of_nat expected) (length payload)))"

definition PayloadReader_finish :: "u8 list \<Rightarrow> nat \<Rightarrow> (unit, ProtocolError) result" where
  "PayloadReader_finish payload offset =
     (if offset = length payload then Ok ()
      else Error (InvalidPayloadLength (word_of_nat offset) (length payload)))"

definition PayloadReader_read_u16 :: "(u16, ProtocolError) parser" where
  "PayloadReader_read_u16 = (\<lambda>payload offset.
     rbind (PayloadReader_ensure_available 2 payload offset) (\<lambda>_.
     rbind (read_u16_le payload offset) (\<lambda>value. Ok (value, offset + 2))))"

definition PayloadReader_read_u32 :: "(u32, ProtocolError) parser" where
  "PayloadReader_read_u32 = (\<lambda>payload offset.
     rbind (PayloadReader_ensure_available 4 payload offset) (\<lambda>_.
     rbind (read_u32_le payload offset) (\<lambda>value. Ok (value, offset + 4))))"

definition PayloadReader_read_u64 :: "(u64, ProtocolError) parser" where
  "PayloadReader_read_u64 = (\<lambda>payload offset.
     rbind (PayloadReader_ensure_available 8 payload offset) (\<lambda>_.
     rbind (read_u64_le payload offset) (\<lambda>value. Ok (value, offset + 8))))"

definition PayloadReader_read_bool :: "(bool, ProtocolError) parser" where
  "PayloadReader_read_bool = (\<lambda>payload offset.
     rbind (PayloadReader_ensure_available 1 payload offset) (\<lambda>_.
     rbind (read_u8_at payload offset) (\<lambda>value.
     if value = 0 then Ok (False, offset + 1)
     else if value = 1 then Ok (True, offset + 1)
     else Error (InvalidBoolValue value))))"

definition PayloadReader_read_array_3 :: "(u8 \<times> u8 \<times> u8, ProtocolError) parser" where
  "PayloadReader_read_array_3 = (\<lambda>payload offset.
     rbind (PayloadReader_ensure_available 3 payload offset) (\<lambda>_.
     rbind (byte_at payload offset) (\<lambda>b0.
     rbind (byte_at payload (offset + 1)) (\<lambda>b1.
     rbind (byte_at payload (offset + 2)) (\<lambda>b2.
     Ok ((b0, b1, b2), offset + 3))))))"

definition PayloadReader_read_exact_bytes :: "nat \<Rightarrow> (u8 list, ProtocolError) parser" where
  "PayloadReader_read_exact_bytes len = (\<lambda>payload offset.
     rbind (PayloadReader_ensure_available len payload offset) (\<lambda>_.
     rbind (slice_range payload offset (offset + len)) (\<lambda>bytes. Ok (bytes, offset + len))))"

definition PayloadReader_read_string :: "(string, ProtocolError) parser" where
  "PayloadReader_read_string = (\<lambda>payload offset.
     let len_prefix_len = unat PAYLOAD_STRING_LEN_PREFIX_LEN in
     rbind (PayloadReader_ensure_available len_prefix_len payload offset) (\<lambda>_.
     rbind (read_u16_le payload offset) (\<lambda>len.
     let byte_len = unat (len :: u16); offset = offset + len_prefix_len in
     rbind (PayloadReader_ensure_available byte_len payload offset) (\<lambda>_.
     rbind (slice_range payload offset (offset + byte_len)) (\<lambda>bytes.
     rbind (ok_or (from_utf8 bytes) InvalidUtf8String) (\<lambda>s.
     Ok (s, offset + byte_len)))))))"

text \<open>The presence tag, common to the four \<open>read_optional_*\<close> methods.\<close>

definition PayloadReader_read_optional ::
  "('a, ProtocolError) parser \<Rightarrow> ('a option, ProtocolError) parser" where
  "PayloadReader_read_optional read = (\<lambda>payload offset.
     rbind (PayloadReader_ensure_available (unat PAYLOAD_OPTION_TAG_LEN) payload offset) (\<lambda>_.
     rbind (read_u8_at payload offset) (\<lambda>present.
     let offset = offset + unat PAYLOAD_OPTION_TAG_LEN in
     if present = 0 then Ok (None, offset)
     else if present = 1 then rmap (\<lambda>(v, offset). (Some v, offset)) (read payload offset)
     else Error (InvalidOptionalTag present))))"

definition PayloadReader_read_optional_string :: "(string option, ProtocolError) parser" where
  "PayloadReader_read_optional_string = PayloadReader_read_optional PayloadReader_read_string"

definition PayloadReader_read_optional_u64 :: "(u64 option, ProtocolError) parser" where
  "PayloadReader_read_optional_u64 = PayloadReader_read_optional PayloadReader_read_u64"

definition PayloadReader_read_optional_u32 :: "(u32 option, ProtocolError) parser" where
  "PayloadReader_read_optional_u32 = PayloadReader_read_optional PayloadReader_read_u32"

definition read_heartbeat_observation_block ::
  "ClientId \<Rightarrow> RunId \<Rightarrow> (HeartbeatAckObservation, ProtocolError) parser" where
  "read_heartbeat_observation_block client_id run_id =
     pbind PayloadReader_read_u64 (\<lambda>echoed_sent_at.
     pbind PayloadReader_read_u64 (\<lambda>server_received_at.
     pbind PayloadReader_read_u64 (\<lambda>server_sent_at.
     pbind PayloadReader_read_u64 (\<lambda>client_received_at.
     preturn \<lparr> obs_client_id = client_id, obs_run_id = run_id,
       obs_echoed_sent_at = echoed_sent_at, obs_server_received_at = server_received_at,
       obs_server_sent_at = server_sent_at, obs_client_received_at = client_received_at \<rparr>))))"

definition PayloadReader_read_optional_heartbeat_observation ::
  "ClientId \<Rightarrow> RunId \<Rightarrow> (HeartbeatAckObservation option, ProtocolError) parser" where
  "PayloadReader_read_optional_heartbeat_observation client_id run_id =
     PayloadReader_read_optional (read_heartbeat_observation_block client_id run_id)"

section \<open>Writers\<close>

text \<open>Each takes the output buffer and returns it extended.\<close>

definition write_string :: "u8 list \<Rightarrow> string \<Rightarrow> (u8 list, ProtocolError) result" where
  "write_string output value =
     rbind (ok_or (u16_try_from (length value)) (PayloadStringTooLong (length value))) (\<lambda>byte_len.
     Ok (output @ u16_to_le_bytes byte_len @ as_bytes value))"

definition write_bool :: "u8 list \<Rightarrow> bool \<Rightarrow> u8 list" where
  "write_bool output value = output @ [if value then 1 else 0]"

definition write_optional_string :: "u8 list \<Rightarrow> string option \<Rightarrow> (u8 list, ProtocolError) result" where
  "write_optional_string output value =
     (case value of
        Some value \<Rightarrow> write_string (output @ [1]) value
      | None \<Rightarrow> Ok (output @ [0]))"

definition write_optional_u64 :: "u8 list \<Rightarrow> u64 option \<Rightarrow> u8 list" where
  "write_optional_u64 output value =
     (case value of
        Some value \<Rightarrow> output @ [1] @ u64_to_le_bytes value
      | None \<Rightarrow> output @ [0])"

definition write_optional_protocol_version :: "u8 list \<Rightarrow> ProtocolVersion option \<Rightarrow> u8 list" where
  "write_optional_protocol_version output value =
     (case value of
        Some value \<Rightarrow> output @ [1] @ u32_to_le_bytes value
      | None \<Rightarrow> output @ [0])"

definition write_optional_heartbeat_observation ::
  "u8 list \<Rightarrow> HeartbeatAckObservation option \<Rightarrow> u8 list" where
  "write_optional_heartbeat_observation output value =
     (case value of
        Some observation \<Rightarrow>
          output @ [1]
            @ u64_to_le_bytes (obs_echoed_sent_at observation)
            @ u64_to_le_bytes (obs_server_received_at observation)
            @ u64_to_le_bytes (obs_server_sent_at observation)
            @ u64_to_le_bytes (obs_client_received_at observation)
      | None \<Rightarrow> output @ [0])"

section \<open>Readers invert writers\<close>

lemma ensure_available_Ok [simp]:
  "PayloadReader_ensure_available len payload offset = Ok u \<longleftrightarrow>
     offset + len \<le> length payload \<and> offset + len < usize_bound"
  by (auto simp: PayloadReader_ensure_available_def usize_checked_add_def rbind_eq_Inr_iff
      ok_or_eq_Inr_iff)

lemma ensure_available_no_panic [simp]:
  "PayloadReader_ensure_available len payload offset \<noteq> Panicked"
  by (auto simp: PayloadReader_ensure_available_def usize_checked_add_def)

lemma ensure_available_fits:
  "offset + len \<le> length payload \<Longrightarrow> length payload < usize_bound \<Longrightarrow>
     PayloadReader_ensure_available len payload offset = Ok ()"
  by simp

lemma take_drop_Suc:
  "i < length bs \<Longrightarrow> take (Suc n) (drop i bs) = bs ! i # take n (drop (Suc i) bs)"
  by (simp flip: Cons_nth_drop_Suc)

text \<open>
  Every reader below first asks \<open>ensure_available\<close>, then reads a fixed number of bytes.
  Both judgements reduce to one fact about what it does when the bytes are there.
\<close>

lemma guarded_sound:
  assumes "\<And>bs i. i + n \<le> length bs \<Longrightarrow>
      (case body bs i of Inl e \<Rightarrow> e \<noteq> Panic
       | Inr (v, j) \<Rightarrow> i \<le> j \<and> j \<le> length bs \<and> E v (take (j - i) (drop i bs)))"
  shows "sound (\<lambda>bs i. rbind (PayloadReader_ensure_available n bs i) (\<lambda>_. body bs i)) E"
proof (rule soundI)
  fix bs :: "u8 list" and i
  show "rbind (PayloadReader_ensure_available n bs i) (\<lambda>_. body bs i) \<noteq> Panicked"
    using assms [of i bs] by (auto simp: rbind_eq_Inl_iff split: sum.splits)
next
  fix bs :: "u8 list" and i v j
  assume "rbind (PayloadReader_ensure_available n bs i) (\<lambda>_. body bs i) = Ok (v, j)"
  then have "body bs i = Ok (v, j)" and "i + n \<le> length bs"
    by (auto simp: rbind_eq_Inr_iff)
  then show "i \<le> j \<and> j \<le> length bs \<and> E v (take (j - i) (drop i bs))"
    using assms [of i bs] by simp
qed

lemma guarded_parses:
  assumes "\<And>pre suf. body (pre @ cs @ suf) (length pre) = Ok (v, length pre + length cs)"
    and "n \<le> length cs"
  shows "parses (\<lambda>bs i. rbind (PayloadReader_ensure_available n bs i) (\<lambda>_. body bs i)) cs v"
  by (rule parsesI) (use assms in \<open>simp add: ensure_available_fits\<close>)

lemma read_u16_parses [parse_intros]: "parses PayloadReader_read_u16 (u16_to_le_bytes v) v"
  unfolding PayloadReader_read_u16_def
  by (rule guarded_parses)
    (simp_all add: read_u16_le_def u16_to_le_bytes_def nth_append u16_from_to_le)

lemma read_u16_sound: "sound PayloadReader_read_u16 (\<lambda>v cs. True \<and> cs = u16_to_le_bytes v)"
  unfolding PayloadReader_read_u16_def
  by (rule guarded_sound)
    (simp add: read_u16_le_def u16_to_from_le take_drop_Suc eval_nat_numeral)

lemma read_u32_parses [parse_intros]: "parses PayloadReader_read_u32 (u32_to_le_bytes v) v"
  unfolding PayloadReader_read_u32_def
  by (rule guarded_parses)
    (simp_all add: read_u32_le_def u32_to_le_bytes_def nth_append u32_from_to_le)

lemma read_u32_sound: "sound PayloadReader_read_u32 (\<lambda>v cs. True \<and> cs = u32_to_le_bytes v)"
  unfolding PayloadReader_read_u32_def
  by (rule guarded_sound)
    (simp add: read_u32_le_def u32_to_from_le take_drop_Suc eval_nat_numeral)

lemma read_u64_parses [parse_intros]: "parses PayloadReader_read_u64 (u64_to_le_bytes v) v"
  unfolding PayloadReader_read_u64_def
  by (rule guarded_parses)
    (simp_all add: read_u64_le_def u64_to_le_bytes_def nth_append u64_from_to_le)

lemma read_u64_sound: "sound PayloadReader_read_u64 (\<lambda>v cs. True \<and> cs = u64_to_le_bytes v)"
  unfolding PayloadReader_read_u64_def
  by (rule guarded_sound)
    (simp add: read_u64_le_def u64_to_from_le take_drop_Suc eval_nat_numeral)

definition bool_bytes :: "bool \<Rightarrow> u8 list" where
  "bool_bytes b = [if b then 1 else 0]"

lemma read_bool_parses [parse_intros]: "parses PayloadReader_read_bool (bool_bytes v) v"
  unfolding PayloadReader_read_bool_def
  by (rule guarded_parses) (simp_all add: read_u8_at_def bool_bytes_def nth_append)

lemma read_bool_sound: "sound PayloadReader_read_bool (\<lambda>v cs. True \<and> cs = bool_bytes v)"
  unfolding PayloadReader_read_bool_def
  by (rule guarded_sound) (simp add: read_u8_at_def bool_bytes_def take_drop_Suc)

definition array_3_bytes :: "u8 \<times> u8 \<times> u8 \<Rightarrow> u8 list" where
  "array_3_bytes a = (case a of (b0, b1, b2) \<Rightarrow> [b0, b1, b2])"

lemma read_array_3_parses [parse_intros]: "parses PayloadReader_read_array_3 (array_3_bytes v) v"
  unfolding PayloadReader_read_array_3_def
  by (rule guarded_parses) (simp_all add: array_3_bytes_def nth_append split: prod.split)

lemma read_array_3_sound: "sound PayloadReader_read_array_3 (\<lambda>v cs. True \<and> cs = array_3_bytes v)"
  unfolding PayloadReader_read_array_3_def
  by (rule guarded_sound) (simp add: array_3_bytes_def take_drop_Suc eval_nat_numeral)

lemma read_exact_bytes_parses [parse_intros]:
  "n = length cs \<Longrightarrow> parses (PayloadReader_read_exact_bytes n) cs cs"
  unfolding PayloadReader_read_exact_bytes_def by (rule guarded_parses) simp_all

lemma read_exact_bytes_sound:
  "sound (PayloadReader_read_exact_bytes n) (\<lambda>v cs. cs = v \<and> length v = n)"
  unfolding PayloadReader_read_exact_bytes_def by (rule guarded_sound) simp

definition string_fits :: "string \<Rightarrow> bool" where
  "string_fits s \<longleftrightarrow> utf8_string s \<and> length s < 65536"

definition string_bytes :: "string \<Rightarrow> u8 list" where
  "string_bytes s = u16_to_le_bytes (word_of_nat (length s)) @ as_bytes s"

text \<open>
  \<open>read_string\<close> is a length prefix, that many bytes and a UTF-8 check: the same reader
  written with the combinators.
\<close>

lemma read_string_eq:
  "PayloadReader_read_string =
     pbind PayloadReader_read_u16 (\<lambda>len.
     pbind (PayloadReader_read_exact_bytes (unat len)) (\<lambda>bytes.
     plift (ok_or (from_utf8 bytes) InvalidUtf8String)))"
proof (intro ext)
  fix bs :: "u8 list" and i
  have rmap: "rbind r (\<lambda>s. Ok (s, k)) = rmap (\<lambda>v. (v, k)) r"
    for r :: "(string, ProtocolError) result" and k :: nat
    by (cases r) simp_all
  show "PayloadReader_read_string bs i =
     pbind PayloadReader_read_u16 (\<lambda>len.
     pbind (PayloadReader_read_exact_bytes (unat len)) (\<lambda>bytes.
     plift (ok_or (from_utf8 bytes) InvalidUtf8String))) bs i"
    unfolding PayloadReader_read_string_def pbind_def PayloadReader_read_u16_def
      PayloadReader_read_exact_bytes_def plift_def PAYLOAD_STRING_LEN_PREFIX_LEN_def
    by (simp add: rbind_def rmap Let_def del: ensure_available_Ok split: sum.split)
qed

lemma read_string_parses [parse_intros]:
  assumes "string_fits s"
  shows "parses PayloadReader_read_string (string_bytes s) s"
proof -
  let ?n = "word_of_nat (length s) :: u16"
  have n: "unat ?n = length (as_bytes s)"
    using assms by (simp add: string_fits_def unat_u16_of_nat)
  have "parses (pbind (PayloadReader_read_exact_bytes (unat ?n))
      (\<lambda>bytes. plift (ok_or (from_utf8 bytes) InvalidUtf8String))) (as_bytes s @ []) s"
    using assms
    by (intro parses_bind [OF read_exact_bytes_parses [OF n] parses_lift])
      (simp add: string_fits_def from_utf8_as_bytes)
  then have "parses (pbind (PayloadReader_read_exact_bytes (unat ?n))
      (\<lambda>bytes. plift (ok_or (from_utf8 bytes) InvalidUtf8String))) (as_bytes s) s"
    by simp
  then show ?thesis
    unfolding read_string_eq string_bytes_def by (rule parses_bind [OF read_u16_parses])
qed

lemma read_string_sound:
  "sound PayloadReader_read_string (\<lambda>s cs. string_fits s \<and> cs = string_bytes s)"
proof -
  have "sound PayloadReader_read_string (\<lambda>s cs. \<exists>len c1 c2. cs = c1 @ c2 \<and> (True \<and> c1 = u16_to_le_bytes len)
      \<and> (\<exists>b d1 d2. c2 = d1 @ d2 \<and> (d1 = b \<and> length b = unat len)
           \<and> ok_or (from_utf8 b) InvalidUtf8String = Ok s \<and> d2 = []))"
    unfolding read_string_eq
    by (intro sound_bind read_u16_sound read_exact_bytes_sound sound_lift)
      (simp add: ok_or_def split: option.split)
  then show ?thesis
  proof (rule sound_mono)
    fix s cs
    assume "\<exists>len c1 c2. cs = c1 @ c2 \<and> (True \<and> c1 = u16_to_le_bytes len)
      \<and> (\<exists>b d1 d2. c2 = d1 @ d2 \<and> (d1 = b \<and> length b = unat len)
           \<and> ok_or (from_utf8 b) InvalidUtf8String = Ok s \<and> d2 = [])"
    then obtain len :: u16 where cs: "cs = u16_to_le_bytes len @ as_bytes s"
      and s: "utf8_string s" and len: "length s = unat len"
      by (auto simp: ok_or_eq_Inr_iff from_utf8_Some)
    have "cs = string_bytes s"
      unfolding string_bytes_def len cs by simp
    moreover have "string_fits s"
      unfolding string_fits_def len using s unat_u16_less by simp
    ultimately show "string_fits s \<and> cs = string_bytes s" by simp
  qed
qed

definition option_bytes :: "('a \<Rightarrow> u8 list) \<Rightarrow> 'a option \<Rightarrow> u8 list" where
  "option_bytes f x = (case x of None \<Rightarrow> [0] | Some v \<Rightarrow> 1 # f v)"

definition option_fits :: "('a \<Rightarrow> bool) \<Rightarrow> 'a option \<Rightarrow> bool" where
  "option_fits P x = (case x of None \<Rightarrow> True | Some v \<Rightarrow> P v)"

definition read_tag :: "(bool, ProtocolError) parser" where
  "read_tag = (\<lambda>payload offset.
     rbind (PayloadReader_ensure_available 1 payload offset) (\<lambda>_.
     rbind (read_u8_at payload offset) (\<lambda>present.
     if present = 0 then Ok (False, offset + 1)
     else if present = 1 then Ok (True, offset + 1)
     else Error (InvalidOptionalTag present))))"

lemma read_tag_parses: "parses read_tag (bool_bytes v) v"
  unfolding read_tag_def
  by (rule guarded_parses) (simp_all add: read_u8_at_def bool_bytes_def nth_append)

lemma read_tag_sound: "sound read_tag (\<lambda>v cs. True \<and> cs = bool_bytes v)"
  unfolding read_tag_def
  by (rule guarded_sound) (simp add: read_u8_at_def bool_bytes_def take_drop_Suc)

lemma read_optional_eq:
  "PayloadReader_read_optional read =
     pbind read_tag (\<lambda>present.
       if present then pbind read (\<lambda>v. preturn (Some v)) else preturn None)"
proof (intro ext)
  fix bs :: "u8 list" and i
  have *: "rmap (\<lambda>(v, offset). (Some v, offset)) r = rbind r (\<lambda>(v, j). Ok (Some v, j))"
    for r :: "('a \<times> nat, ProtocolError) result"
    by (cases r) auto
  show "PayloadReader_read_optional read bs i =
     pbind read_tag (\<lambda>present.
       if present then pbind read (\<lambda>v. preturn (Some v)) else preturn None) bs i"
    unfolding PayloadReader_read_optional_def pbind_def read_tag_def preturn_def
      PAYLOAD_OPTION_TAG_LEN_def
    by (cases "PayloadReader_ensure_available (Suc 0) bs i";
        cases "read_u8_at bs i :: (u8, ProtocolError) result")
      (simp_all add: * del: ensure_available_Ok)
qed

lemma read_optional_parses [parse_intros]:
  assumes "option_fits P x" and "\<And>v. P v \<Longrightarrow> parses read (f v) v"
  shows "parses (PayloadReader_read_optional read) (option_bytes f x) x"
proof (cases x)
  case None
  have "parses (PayloadReader_read_optional read) (bool_bytes False @ []) None"
    unfolding read_optional_eq by (rule parses_bind [OF read_tag_parses]) (simp add: parses_return)
  then show ?thesis using None by (simp add: option_bytes_def bool_bytes_def)
next
  case (Some v)
  then have "parses read (f v) v" using assms by (simp add: option_fits_def)
  then have "parses (pbind read (\<lambda>v. preturn (Some v))) (f v @ []) (Some v)"
    by (rule parses_bind) (rule parses_return)
  then have "parses (PayloadReader_read_optional read) (bool_bytes True @ f v) (Some v)"
    unfolding read_optional_eq by (intro parses_bind [OF read_tag_parses]) simp
  then show ?thesis using Some by (simp add: option_bytes_def bool_bytes_def)
qed

lemma read_optional_sound:
  assumes "sound read (\<lambda>v cs. P v \<and> cs = f v)"
  shows "sound (PayloadReader_read_optional read) (\<lambda>x cs. option_fits P x \<and> cs = option_bytes f x)"
proof -
  have "sound (if b then pbind read (\<lambda>v. preturn (Some v)) else preturn None)
      (\<lambda>x cs. if b then \<exists>v c1 c2. cs = c1 @ c2 \<and> (P v \<and> c1 = f v) \<and> (x = Some v \<and> c2 = [])
              else x = None \<and> cs = [])" for b
    using sound_bind [OF assms, of "\<lambda>v. preturn (Some v)" "\<lambda>v x cs. x = Some v \<and> cs = []",
        OF sound_return] sound_return [of None]
    by (cases b) simp_all
  then have "sound (PayloadReader_read_optional read) (\<lambda>x cs. \<exists>b c1 c2. cs = c1 @ c2
      \<and> (True \<and> c1 = bool_bytes b) \<and> (if b then \<exists>v d1 d2. c2 = d1 @ d2 \<and> (P v \<and> d1 = f v)
        \<and> (x = Some v \<and> d2 = []) else x = None \<and> c2 = []))"
    unfolding read_optional_eq by (rule sound_bind [OF read_tag_sound])
  then show ?thesis
    by (rule sound_mono) (auto simp: option_fits_def option_bytes_def bool_bytes_def split: if_splits)
qed

lemma read_observation_block_parses:
  assumes "obs_client_id v = client_id \<and> obs_run_id v = run_id"
  shows "parses (read_heartbeat_observation_block client_id run_id)
    (u64_to_le_bytes (obs_echoed_sent_at v) @ u64_to_le_bytes (obs_server_received_at v)
      @ u64_to_le_bytes (obs_server_sent_at v) @ u64_to_le_bytes (obs_client_received_at v) @ []) v"
  unfolding read_heartbeat_observation_block_def
  by (rule parses_bind read_u64_parses parses_return_eq)+ (use assms in simp)

lemma read_observation_block_sound:
  "sound (read_heartbeat_observation_block client_id run_id) (\<lambda>v cs.
     (obs_client_id v = client_id \<and> obs_run_id v = run_id) \<and>
     cs = u64_to_le_bytes (obs_echoed_sent_at v) @ u64_to_le_bytes (obs_server_received_at v)
      @ u64_to_le_bytes (obs_server_sent_at v) @ u64_to_le_bytes (obs_client_received_at v) @ [])"
  unfolding read_heartbeat_observation_block_def
  by (rule sound_mono, (rule sound_bind read_u64_sound sound_return)+) auto

section \<open>Interpretations of the field contract\<close>

interpretation u16_field: field_codec
  "\<lambda>out v. Ok (out @ u16_to_le_bytes v)" u16_to_le_bytes PayloadReader_read_u16 "\<lambda>_. True"
  by unfold_locales (simp_all add: read_u16_parses read_u16_sound [simplified])

interpretation u32_field: field_codec
  "\<lambda>out v. Ok (out @ u32_to_le_bytes v)" u32_to_le_bytes PayloadReader_read_u32 "\<lambda>_. True"
  by unfold_locales (simp_all add: read_u32_parses read_u32_sound [simplified])

interpretation u64_field: field_codec
  "\<lambda>out v. Ok (out @ u64_to_le_bytes v)" u64_to_le_bytes PayloadReader_read_u64 "\<lambda>_. True"
  by unfold_locales (simp_all add: read_u64_parses read_u64_sound [simplified])

lemma write_bool_eq: "write_bool out v = out @ bool_bytes v"
  by (simp add: write_bool_def bool_bytes_def)

interpretation bool_field: field_codec
  "\<lambda>out v. Ok (write_bool out v)" bool_bytes PayloadReader_read_bool "\<lambda>_. True"
  by unfold_locales
    (use read_bool_sound in \<open>simp_all add: write_bool_eq read_bool_parses\<close>)

lemma write_string_wf: "string_fits v \<Longrightarrow> write_string out v = Ok (out @ string_bytes v)"
  by (simp add: write_string_def string_fits_def u16_try_from_def string_bytes_def)

lemma write_string_Ok_iff:
  "write_string out v = Ok out' \<longleftrightarrow> length v < 65536 \<and> out' = out @ string_bytes v"
  by (auto simp: write_string_def string_bytes_def u16_try_from_def rbind_eq_Inr_iff ok_or_eq_Inr_iff)

lemma write_string_no_panic: "write_string out v \<noteq> Panicked"
  by (simp add: write_string_def u16_try_from_def)

interpretation string_field: field_codec
  write_string string_bytes PayloadReader_read_string string_fits
  by unfold_locales
    (simp_all add: write_string_wf write_string_Ok_iff write_string_no_panic
      read_string_parses read_string_sound)

lemma write_optional_string_Ok_iff:
  "write_optional_string out v = Ok out' \<longleftrightarrow>
     (\<forall>s. v = Some s \<longrightarrow> length s < 65536) \<and> out' = out @ option_bytes string_bytes v"
  by (auto simp: write_optional_string_def option_bytes_def write_string_Ok_iff split: option.split)

lemma write_optional_string_no_panic: "write_optional_string out v \<noteq> Panicked"
  by (simp add: write_optional_string_def write_string_no_panic split: option.split)

interpretation optional_string_field: field_codec
  write_optional_string "option_bytes string_bytes" PayloadReader_read_optional_string
  "option_fits string_fits"
proof unfold_locales
  show "option_fits string_fits v \<Longrightarrow>
      write_optional_string out v = Ok (out @ option_bytes string_bytes v)" for out v
    by (auto simp: write_optional_string_Ok_iff option_fits_def string_fits_def)
  show "option_fits string_fits v \<Longrightarrow>
      parses PayloadReader_read_optional_string (option_bytes string_bytes v) v" for v
    unfolding PayloadReader_read_optional_string_def
    by (erule read_optional_parses) (rule read_string_parses)
  show "sound PayloadReader_read_optional_string
      (\<lambda>v cs. option_fits string_fits v \<and> cs = option_bytes string_bytes v)"
    unfolding PayloadReader_read_optional_string_def
    by (rule read_optional_sound [OF read_string_sound])
qed (auto simp: write_optional_string_Ok_iff write_optional_string_no_panic)

lemma option_fits_True [simp]: "option_fits (\<lambda>_. True) x"
  by (simp add: option_fits_def split: option.split)

lemma write_optional_u64_eq: "write_optional_u64 out v = out @ option_bytes u64_to_le_bytes v"
  by (simp add: write_optional_u64_def option_bytes_def split: option.split)

interpretation optional_u64_field: field_codec
  "\<lambda>out v. Ok (write_optional_u64 out v)" "option_bytes u64_to_le_bytes"
  PayloadReader_read_optional_u64 "option_fits (\<lambda>_. True)"
proof unfold_locales
  show "option_fits (\<lambda>_. True) v \<Longrightarrow>
      parses PayloadReader_read_optional_u64 (option_bytes u64_to_le_bytes v) v" for v :: "u64 option"
    unfolding PayloadReader_read_optional_u64_def
    by (erule read_optional_parses) (rule read_u64_parses)
  show "sound PayloadReader_read_optional_u64
      (\<lambda>v cs. option_fits (\<lambda>_. True) v \<and> cs = option_bytes u64_to_le_bytes v)"
    unfolding PayloadReader_read_optional_u64_def
    by (rule read_optional_sound [OF read_u64_sound])
qed (simp_all add: write_optional_u64_eq)

lemma write_optional_protocol_version_eq:
  "write_optional_protocol_version out v = out @ option_bytes u32_to_le_bytes v"
  by (simp add: write_optional_protocol_version_def option_bytes_def split: option.split)

interpretation optional_u32_field: field_codec
  "\<lambda>out v. Ok (write_optional_protocol_version out v)" "option_bytes u32_to_le_bytes"
  PayloadReader_read_optional_u32 "option_fits (\<lambda>_. True)"
proof unfold_locales
  show "option_fits (\<lambda>_. True) v \<Longrightarrow>
      parses PayloadReader_read_optional_u32 (option_bytes u32_to_le_bytes v) v" for v :: "u32 option"
    unfolding PayloadReader_read_optional_u32_def
    by (erule read_optional_parses) (rule read_u32_parses)
  show "sound PayloadReader_read_optional_u32
      (\<lambda>v cs. option_fits (\<lambda>_. True) v \<and> cs = option_bytes u32_to_le_bytes v)"
    unfolding PayloadReader_read_optional_u32_def
    by (rule read_optional_sound [OF read_u32_sound])
qed (simp_all add: write_optional_protocol_version_eq)

definition observation_bytes :: "HeartbeatAckObservation \<Rightarrow> u8 list" where
  "observation_bytes v =
     u64_to_le_bytes (obs_echoed_sent_at v) @ u64_to_le_bytes (obs_server_received_at v)
       @ u64_to_le_bytes (obs_server_sent_at v) @ u64_to_le_bytes (obs_client_received_at v) @ []"

definition observation_of :: "ClientId \<Rightarrow> RunId \<Rightarrow> HeartbeatAckObservation \<Rightarrow> bool" where
  "observation_of client_id run_id v \<longleftrightarrow> obs_client_id v = client_id \<and> obs_run_id v = run_id"

lemma write_optional_observation_eq:
  "write_optional_heartbeat_observation out v = out @ option_bytes observation_bytes v"
  by (simp add: write_optional_heartbeat_observation_def option_bytes_def observation_bytes_def
      split: option.split)

interpretation optional_observation_field: field_codec
  "\<lambda>out v. Ok (write_optional_heartbeat_observation out v)" "option_bytes observation_bytes"
  "PayloadReader_read_optional_heartbeat_observation client_id run_id"
  "option_fits (observation_of client_id run_id)"
  for client_id run_id
proof unfold_locales
  show "option_fits (observation_of client_id run_id) v \<Longrightarrow>
      parses (PayloadReader_read_optional_heartbeat_observation client_id run_id)
        (option_bytes observation_bytes v) v" for v
    unfolding PayloadReader_read_optional_heartbeat_observation_def
    by (erule read_optional_parses)
      (rule read_observation_block_parses [folded observation_of_def observation_bytes_def])
  show "sound (PayloadReader_read_optional_heartbeat_observation client_id run_id)
      (\<lambda>v cs. option_fits (observation_of client_id run_id) v \<and> cs = option_bytes observation_bytes v)"
    unfolding PayloadReader_read_optional_heartbeat_observation_def
    by (rule read_optional_sound)
      (rule read_observation_block_sound [folded observation_of_def observation_bytes_def])
qed (simp_all add: write_optional_observation_eq)

lemmas field_get_sound =
  u16_field.get_sound u32_field.get_sound u64_field.get_sound bool_field.get_sound
  string_field.get_sound optional_string_field.get_sound optional_u64_field.get_sound
  optional_u32_field.get_sound optional_observation_field.get_sound read_array_3_sound
  read_exact_bytes_sound

lemmas field_get_put =
  read_u16_parses read_u32_parses read_u64_parses read_bool_parses string_field.get_put
  optional_string_field.get_put optional_u64_field.get_put optional_u32_field.get_put
  optional_observation_field.get_put read_array_3_parses read_exact_bytes_parses

end
