(* ===== verification/Protocol_Header.thy ===== *)
theory Protocol_Header
  imports Protocol_Reader
begin

text \<open>
  The packet level of crates/protocol/src/lib.rs: the 16-byte fixed header, the version
  check, and the frame that all eight payload decoders and all eight packet encoders of the
  crate share (type check, length check, reader, \<open>finish\<close>; payload into a fresh
  buffer, length conversion, header, payload). The locale \<open>payload_codec\<close> is what a
  message has to provide; the packet round trip is proved once inside it.
\<close>

section \<open>The fixed header\<close>

definition decode_fixed_header :: "u8 list \<Rightarrow> (PacketView, ProtocolError) result" where
  "decode_fixed_header packet =
     (let fixed_header_len = unat FIXED_HEADER_LEN in
      if length packet < fixed_header_len then Error BufferTooShort
      else
        rbind (read_u16_le packet HEADER_MESSAGE_TYPE_OFFSET) (\<lambda>type_code.
        rbind (MessageType_try_from type_code) (\<lambda>message_type.
        rbind (read_u16_le packet HEADER_LENGTH_OFFSET) (\<lambda>header_length.
        if header_length \<noteq> FIXED_HEADER_LEN then Error (InvalidHeaderLength header_length)
        else
          rbind (read_u32_le packet HEADER_PROTOCOL_VERSION_OFFSET) (\<lambda>protocol_version.
          rbind (read_u32_le packet HEADER_PAYLOAD_LENGTH_OFFSET) (\<lambda>payload_length.
          rbind (read_u16_le packet HEADER_FLAGS_OFFSET) (\<lambda>flags.
          rbind (read_u16_le packet HEADER_RESERVED_OFFSET) (\<lambda>reserved.
          rbind (ok_or (usize_checked_add fixed_header_len (unat payload_length))
                   (InvalidPayloadLength payload_length (length packet - fixed_header_len)))
                (\<lambda>expected_packet_len.
          if length packet \<noteq> expected_packet_len
          then Error (InvalidPayloadLength payload_length (length packet - fixed_header_len))
          else
            rbind (slice_range packet fixed_header_len (length packet)) (\<lambda>payload.
            Ok \<lparr> pv_header = \<lparr> fh_message_type = message_type, fh_header_length = header_length,
                   fh_protocol_version = protocol_version, fh_payload_length = payload_length,
                   fh_flags = flags, fh_reserved = reserved \<rparr>,
                 pv_payload = payload \<rparr>))))))))))"

definition encode_fixed_header ::
  "MessageType \<Rightarrow> ProtocolVersion \<Rightarrow> u32 \<Rightarrow> u8 list \<Rightarrow> u8 list" where
  "encode_fixed_header message_type protocol_version payload_length output =
     output @ u16_to_le_bytes (MessageType_as_u16 message_type)
       @ u16_to_le_bytes FIXED_HEADER_LEN
       @ u32_to_le_bytes protocol_version
       @ u32_to_le_bytes payload_length
       @ u16_to_le_bytes 0
       @ u16_to_le_bytes 0"

definition validate_protocol_version ::
  "DecodeContext \<Rightarrow> FixedHeader \<Rightarrow> (unit, ProtocolError) result" where
  "validate_protocol_version context header =
     (if fh_protocol_version header = dc_expected_protocol_version context then Ok ()
      else Error (UnsupportedProtocolVersion (dc_expected_protocol_version context)
                    (fh_protocol_version header)))"

lemma header_offsets [simp]:
  "unat FIXED_HEADER_LEN = 16"
  "HEADER_MESSAGE_TYPE_OFFSET = 0" "HEADER_LENGTH_OFFSET = 2" "HEADER_PROTOCOL_VERSION_OFFSET = 4"
  "HEADER_PAYLOAD_LENGTH_OFFSET = 8" "HEADER_FLAGS_OFFSET = 12" "HEADER_RESERVED_OFFSET = 14"
  by (simp_all add: FIXED_HEADER_LEN_def HEADER_MESSAGE_TYPE_OFFSET_def HEADER_LENGTH_OFFSET_def
      HEADER_PROTOCOL_VERSION_OFFSET_def HEADER_PAYLOAD_LENGTH_OFFSET_def HEADER_FLAGS_OFFSET_def
      HEADER_RESERVED_OFFSET_def)

lemma read_le_in_range:
  "i + 2 \<le> length bs \<Longrightarrow> read_u16_le bs i = Ok (u16_from_le_bytes (bs ! i) (bs ! (i + 1)))"
  "i + 4 \<le> length bs \<Longrightarrow> read_u32_le bs i
     = Ok (u32_from_le_bytes (bs ! i) (bs ! (i + 1)) (bs ! (i + 2)) (bs ! (i + 3)))"
  by (simp_all add: read_u16_le_def read_u32_le_def)

lemma usize_checked_add_u32: "usize_checked_add 16 (unat (n :: u32)) = Some (16 + unat n)"
  using unat_u32_less [of n] by (simp add: usize_checked_add_def usize_bound_def)

text \<open>The complete behaviour of the header decoder, check by check.\<close>

lemma decode_fixed_header_cases:
  "decode_fixed_header packet =
     (if length packet < 16 then Error BufferTooShort
      else
        rbind (MessageType_try_from (u16_from_le_bytes (packet ! 0) (packet ! 1))) (\<lambda>message_type.
        let header_length = u16_from_le_bytes (packet ! 2) (packet ! 3);
            version = u32_from_le_bytes (packet ! 4) (packet ! 5) (packet ! 6) (packet ! 7);
            payload_length = u32_from_le_bytes (packet ! 8) (packet ! 9) (packet ! 10) (packet ! 11)
        in if header_length \<noteq> FIXED_HEADER_LEN then Error (InvalidHeaderLength header_length)
           else if length packet \<noteq> 16 + unat payload_length
           then Error (InvalidPayloadLength payload_length (length packet - 16))
           else Ok \<lparr> pv_header = \<lparr> fh_message_type = message_type, fh_header_length = header_length,
                   fh_protocol_version = version, fh_payload_length = payload_length,
                   fh_flags = u16_from_le_bytes (packet ! 12) (packet ! 13),
                   fh_reserved = u16_from_le_bytes (packet ! 14) (packet ! 15) \<rparr>,
                 pv_payload = drop 16 packet \<rparr>))"
  by (simp add: decode_fixed_header_def read_le_in_range usize_checked_add_u32 Let_def rbind_def
      cong: if_cong split: sum.split)

lemma decode_fixed_header_no_panic: "decode_fixed_header packet \<noteq> Panicked"
  by (auto simp: decode_fixed_header_cases Let_def rbind_eq_Inl_iff message_type.try_from_no_panic)

lemma length_encode_fixed_header [simp]:
  "length (encode_fixed_header t v n output) = length output + 16"
  by (simp add: encode_fixed_header_def)

lemma decode_encoded_header:
  assumes "length payload = unat n"
  shows "decode_fixed_header (encode_fixed_header t v n [] @ payload) =
    Ok \<lparr> pv_header = \<lparr> fh_message_type = t, fh_header_length = FIXED_HEADER_LEN,
           fh_protocol_version = v, fh_payload_length = n, fh_flags = 0, fh_reserved = 0 \<rparr>,
         pv_payload = payload \<rparr>"
  using assms
  by (simp add: decode_fixed_header_cases encode_fixed_header_def u16_to_le_bytes_def
      u32_to_le_bytes_def u16_from_to_le u32_from_to_le message_type.try_from_code Let_def
      u16_from_to_le [of 0, simplified])

section \<open>The frame shared by the payload decoders and the packet encoders\<close>

definition decode_checked_payload ::
  "MessageType \<Rightarrow> ('m, ProtocolError) parser \<Rightarrow> FixedHeader \<Rightarrow> u8 list \<Rightarrow> ('m, ProtocolError) result"
  where
  "decode_checked_payload expected reader header payload =
     (if fh_message_type header \<noteq> expected
      then Error (UnexpectedMessageType expected (fh_message_type header))
      else if length payload \<noteq> unat (fh_payload_length header)
      then Error (InvalidPayloadLength (fh_payload_length header) (length payload))
      else
        rbind (reader payload 0) (\<lambda>(message, offset).
        rbind (PayloadReader_finish payload offset) (\<lambda>_. Ok message)))"

definition encode_packet ::
  "MessageType \<Rightarrow> EncodeContext \<Rightarrow> (u8 list \<Rightarrow> (u8 list, ProtocolError) result) \<Rightarrow> u8 list
     \<Rightarrow> (u8 list, ProtocolError) result" where
  "encode_packet message_type context encode_payload output =
     rbind (encode_payload []) (\<lambda>payload.
     rbind (ok_or (u32_try_from (length payload))
              (InvalidPayloadLength 0xFFFFFFFF (length payload))) (\<lambda>payload_length.
     Ok (encode_fixed_header message_type (ec_protocol_version context) payload_length output
         @ payload)))"

definition check_metadata_reserved :: "u8 \<times> u8 \<times> u8 \<Rightarrow> (unit, ProtocolError) result" where
  "check_metadata_reserved metadata_reserved =
     (if metadata_reserved \<noteq> (0, 0, 0) then Error (InvalidMetadataReserved metadata_reserved)
      else Ok ())"

lemma check_metadata_reserved_iff [simp]:
  "check_metadata_reserved m = Ok u \<longleftrightarrow> m = (0, 0, 0)"
  "check_metadata_reserved m \<noteq> Panicked"
  by (auto simp: check_metadata_reserved_def)

lemma check_metadata_reserved_zero [simp]: "check_metadata_reserved (0, 0, 0) = Ok ()"
  by (simp add: check_metadata_reserved_def)

lemma finish_iff [simp]:
  "PayloadReader_finish payload offset = Ok u \<longleftrightarrow> offset = length payload"
  "PayloadReader_finish payload offset \<noteq> Panicked"
  by (auto simp: PayloadReader_finish_def)

section \<open>The contract of a message payload\<close>

locale payload_codec =
  fixes kind :: MessageType
    and encode :: "'m \<Rightarrow> u8 list \<Rightarrow> (u8 list, ProtocolError) result"
    and reader :: "ProtocolVersion \<Rightarrow> ('m, ProtocolError) parser"
    and bytes :: "'m \<Rightarrow> u8 list"
    and wf :: "ProtocolVersion \<Rightarrow> 'm \<Rightarrow> bool"
  assumes encodes: "wf pv m \<Longrightarrow> encode m out = Ok (out @ bytes m)"
    and encode_Ok: "encode m out = Ok out' \<Longrightarrow> out' = out @ bytes m"
    and encode_no_panic: "encode m out \<noteq> Panicked"
    and reader_parses: "wf pv m \<Longrightarrow> parses (reader pv) (bytes m) m"
    and reader_sound: "sound (reader pv) (\<lambda>m cs. wf pv m \<and> cs = bytes m)"
begin

text \<open>For a fixed protocol version, the payload is one field of the field contract.\<close>

sublocale payload: field_codec "\<lambda>out m. encode m out" bytes "reader pv" "wf pv" for pv
  by unfold_locales
    (simp_all add: encodes encode_Ok encode_no_panic reader_parses reader_sound)

abbreviation decode where
  "decode \<equiv> \<lambda>header. decode_checked_payload kind (reader (fh_protocol_version header)) header"

lemma decode_no_panic: "length p < usize_bound \<Longrightarrow> decode h p \<noteq> Panicked"
  using sound_no_panic [OF reader_sound, of 0 p]
  by (auto simp: decode_checked_payload_def rbind_eq_Inl_iff)

lemma decode_Ok_iff:
  assumes "length p < usize_bound"
  shows "decode h p = Ok m \<longleftrightarrow>
    fh_message_type h = kind \<and> length p = unat (fh_payload_length h) \<and>
    wf (fh_protocol_version h) m \<and> p = bytes m"
proof
  assume ok: "decode h p = Ok m"
  then obtain k where r: "reader (fh_protocol_version h) p 0 = Ok (m, k)" "k = length p"
    by (auto simp: decode_checked_payload_def rbind_eq_Inr_iff split: if_splits)
  with sound_Ok [OF reader_sound _ assms r(1)]
  have "wf (fh_protocol_version h) m \<and> p = bytes m" by simp
  with ok show "fh_message_type h = kind \<and> length p = unat (fh_payload_length h) \<and>
    wf (fh_protocol_version h) m \<and> p = bytes m"
    by (auto simp: decode_checked_payload_def split: if_splits)
next
  assume h: "fh_message_type h = kind \<and> length p = unat (fh_payload_length h) \<and>
    wf (fh_protocol_version h) m \<and> p = bytes m"
  then have "reader (fh_protocol_version h) p 0 = Ok (m, length p)"
    using run_parser_parses(2) [OF reader_parses] assms by blast
  with h show "decode h p = Ok m"
    by (clarsimp simp: decode_checked_payload_def PayloadReader_finish_def)
qed

lemma encode_packet_Ok:
  assumes "wf (ec_protocol_version ctx) m" and "length (bytes m) < 2 ^ 32"
  shows "encode_packet kind ctx (encode m) out =
    Ok (encode_fixed_header kind (ec_protocol_version ctx) (word_of_nat (length (bytes m))) out
        @ bytes m)"
  using assms encodes [OF assms(1), of "[]"] by (simp add: encode_packet_def u32_try_from_def)

lemma encode_packet_no_panic: "encode_packet kind ctx (encode m) out \<noteq> Panicked"
  using encode_no_panic [of m "[]"]
  by (auto simp: encode_packet_def rbind_eq_Inl_iff u32_try_from_def)

text \<open>An encoded packet decodes to the message it was made from.\<close>

lemma packet_roundtrip:
  assumes wf: "wf (ec_protocol_version ctx) m" and len: "length (bytes m) < 2 ^ 32"
    and enc: "encode_packet kind ctx (encode m) [] = Ok packet"
  obtains h where "decode_fixed_header packet = Ok \<lparr> pv_header = h, pv_payload = bytes m \<rparr>"
    and "fh_message_type h = kind" and "fh_protocol_version h = ec_protocol_version ctx"
    and "decode h (bytes m) = Ok m"
proof -
  let ?n = "word_of_nat (length (bytes m)) :: u32"
  let ?h = "\<lparr> fh_message_type = kind, fh_header_length = FIXED_HEADER_LEN,
    fh_protocol_version = ec_protocol_version ctx, fh_payload_length = ?n,
    fh_flags = 0, fh_reserved = 0 \<rparr>"
  have n: "length (bytes m) = unat ?n" using len by (simp add: unat_u32_of_nat)
  have packet: "packet = encode_fixed_header kind (ec_protocol_version ctx) ?n [] @ bytes m"
    using enc encode_packet_Ok [OF wf len, of "[]"] by simp
  have "decode_fixed_header packet = Ok \<lparr> pv_header = ?h, pv_payload = bytes m \<rparr>"
    unfolding packet by (rule decode_encoded_header [OF n])
  moreover have "length (bytes m) < usize_bound"
    using len by (simp add: usize_bound_def)
  then have "decode ?h (bytes m) = Ok m"
    using wf n decode_Ok_iff [of "bytes m" ?h m] by simp
  ultimately show thesis by (intro that [of ?h]) simp_all
qed

end

end
