(* ===== verification/Protocol_Control.thy ===== *)
theory Protocol_Control
  imports Protocol_Header
begin

text \<open>
  The four control messages of crates/protocol/src/lib.rs (authentication and heartbeat):
  reader, payload decoder, payload encoder and packet encoder of each, its layout as a list
  of fields, the messages that layout can carry, and the proof that the four fulfil the
  \<open>payload_codec\<close> contract.
\<close>

section \<open>\<open>AuthRequest\<close>\<close>

definition auth_request_reader :: "ProtocolVersion \<Rightarrow> (AuthRequest, ProtocolError) parser" where
  "auth_request_reader protocol_version =
     pbind PayloadReader_read_string (\<lambda>client_id.
     pbind PayloadReader_read_string (\<lambda>run_id.
     pbind PayloadReader_read_string (\<lambda>app_version.
     pbind PayloadReader_read_string (\<lambda>shared_token.
     pbind PayloadReader_read_optional_string (\<lambda>display_name.
     preturn \<lparr> areq_message_type = MessageType_AuthRequest,
       areq_protocol_version = protocol_version,
       areq_client_id = client_id,
       areq_run_id = run_id,
       areq_app_version = app_version,
       areq_shared_token = shared_token,
       areq_display_name = display_name,
       areq_capabilities = [],
       areq_requested_video_profile = None \<rparr>)))))"

definition decode_auth_request_payload :: "FixedHeader \<Rightarrow> u8 list \<Rightarrow> (AuthRequest, ProtocolError) result" where
  "decode_auth_request_payload header payload =
     decode_checked_payload MessageType_AuthRequest (auth_request_reader (fh_protocol_version header)) header payload"

definition encode_auth_request_payload :: "AuthRequest \<Rightarrow> u8 list \<Rightarrow> (u8 list, ProtocolError) result" where
  "encode_auth_request_payload request output =
     rbind (write_string output (areq_client_id request)) (\<lambda>output.
     rbind (write_string output (areq_run_id request)) (\<lambda>output.
     rbind (write_string output (areq_app_version request)) (\<lambda>output.
     rbind (write_string output (areq_shared_token request)) (\<lambda>output.
     write_optional_string output (areq_display_name request)))))"

definition encode_auth_request ::
  "EncodeContext \<Rightarrow> AuthRequest \<Rightarrow> u8 list \<Rightarrow> (u8 list, ProtocolError) result" where
  "encode_auth_request context request output =
     encode_packet MessageType_AuthRequest context (encode_auth_request_payload request) output"

definition auth_request_bytes :: "AuthRequest \<Rightarrow> u8 list" where
  "auth_request_bytes m =
     string_bytes (areq_client_id m) @
     string_bytes (areq_run_id m) @
     string_bytes (areq_app_version m) @
     string_bytes (areq_shared_token m) @
     option_bytes string_bytes (areq_display_name m)"

definition auth_request_wf :: "ProtocolVersion \<Rightarrow> AuthRequest \<Rightarrow> bool" where
  "auth_request_wf protocol_version m \<longleftrightarrow>
     areq_message_type m = MessageType_AuthRequest \<and>
     areq_protocol_version m = protocol_version \<and>
     string_fits (areq_client_id m) \<and>
     string_fits (areq_run_id m) \<and>
     string_fits (areq_app_version m) \<and>
     string_fits (areq_shared_token m) \<and>
     option_fits string_fits (areq_display_name m) \<and>
     areq_capabilities m = [] \<and>
     areq_requested_video_profile m = None"

section \<open>\<open>AuthResponse\<close>\<close>

definition auth_response_reader :: "ProtocolVersion \<Rightarrow> (AuthResponse, ProtocolError) parser" where
  "auth_response_reader protocol_version =
     pbind PayloadReader_read_string (\<lambda>client_id.
     pbind PayloadReader_read_string (\<lambda>run_id.
     pbind PayloadReader_read_bool (\<lambda>accepted.
     pbind PayloadReader_read_u16 (\<lambda>reason_code_code.
     pbind (plift (AuthResponseReasonCode_try_from reason_code_code)) (\<lambda>reason_code.
     pbind PayloadReader_read_optional_string (\<lambda>message.
     pbind PayloadReader_read_optional_u64 (\<lambda>server_time.
     pbind PayloadReader_read_optional_u32 (\<lambda>expected_protocol_version.
     preturn \<lparr> aresp_message_type = MessageType_AuthResponse,
       aresp_protocol_version = protocol_version,
       aresp_client_id = client_id,
       aresp_run_id = run_id,
       aresp_accepted = accepted,
       aresp_reason_code = reason_code,
       aresp_message = message,
       aresp_server_time = server_time,
       aresp_expected_protocol_version = expected_protocol_version \<rparr>))))))))"

definition decode_auth_response_payload :: "FixedHeader \<Rightarrow> u8 list \<Rightarrow> (AuthResponse, ProtocolError) result" where
  "decode_auth_response_payload header payload =
     decode_checked_payload MessageType_AuthResponse (auth_response_reader (fh_protocol_version header)) header payload"

definition encode_auth_response_payload :: "AuthResponse \<Rightarrow> u8 list \<Rightarrow> (u8 list, ProtocolError) result" where
  "encode_auth_response_payload response output =
     rbind (write_string output (aresp_client_id response)) (\<lambda>output.
     rbind (write_string output (aresp_run_id response)) (\<lambda>output.
     (let output = write_bool output (aresp_accepted response) in
     (let output = output @ u16_to_le_bytes (AuthResponseReasonCode_wire_code (aresp_reason_code response)) in
     rbind (write_optional_string output (aresp_message response)) (\<lambda>output.
     (let output = write_optional_u64 output (aresp_server_time response) in
     Ok (write_optional_protocol_version output (aresp_expected_protocol_version response))))))))"

definition encode_auth_response ::
  "EncodeContext \<Rightarrow> AuthResponse \<Rightarrow> u8 list \<Rightarrow> (u8 list, ProtocolError) result" where
  "encode_auth_response context response output =
     encode_packet MessageType_AuthResponse context (encode_auth_response_payload response) output"

definition auth_response_bytes :: "AuthResponse \<Rightarrow> u8 list" where
  "auth_response_bytes m =
     string_bytes (aresp_client_id m) @
     string_bytes (aresp_run_id m) @
     bool_bytes (aresp_accepted m) @
     u16_to_le_bytes (AuthResponseReasonCode_wire_code (aresp_reason_code m)) @
     option_bytes string_bytes (aresp_message m) @
     option_bytes u64_to_le_bytes (aresp_server_time m) @
     option_bytes u32_to_le_bytes (aresp_expected_protocol_version m)"

definition auth_response_wf :: "ProtocolVersion \<Rightarrow> AuthResponse \<Rightarrow> bool" where
  "auth_response_wf protocol_version m \<longleftrightarrow>
     aresp_message_type m = MessageType_AuthResponse \<and>
     aresp_protocol_version m = protocol_version \<and>
     string_fits (aresp_client_id m) \<and>
     string_fits (aresp_run_id m) \<and>
     option_fits string_fits (aresp_message m)"

section \<open>\<open>Heartbeat\<close>\<close>

definition heartbeat_reader :: "ProtocolVersion \<Rightarrow> (Heartbeat, ProtocolError) parser" where
  "heartbeat_reader protocol_version =
     pbind PayloadReader_read_string (\<lambda>client_id.
     pbind PayloadReader_read_string (\<lambda>run_id.
     pbind PayloadReader_read_u64 (\<lambda>sent_at.
     pbind PayloadReader_read_optional_u64 (\<lambda>local_time.
     pbind PayloadReader_read_optional_string (\<lambda>short_status.
     preturn \<lparr> hb_message_type = MessageType_Heartbeat,
       hb_protocol_version = protocol_version,
       hb_client_id = client_id,
       hb_run_id = run_id,
       hb_sent_at = sent_at,
       hb_local_time = local_time,
       hb_short_status = short_status \<rparr>)))))"

definition decode_heartbeat_payload :: "FixedHeader \<Rightarrow> u8 list \<Rightarrow> (Heartbeat, ProtocolError) result" where
  "decode_heartbeat_payload header payload =
     decode_checked_payload MessageType_Heartbeat (heartbeat_reader (fh_protocol_version header)) header payload"

definition encode_heartbeat_payload :: "Heartbeat \<Rightarrow> u8 list \<Rightarrow> (u8 list, ProtocolError) result" where
  "encode_heartbeat_payload heartbeat output =
     rbind (write_string output (hb_client_id heartbeat)) (\<lambda>output.
     rbind (write_string output (hb_run_id heartbeat)) (\<lambda>output.
     (let output = output @ u64_to_le_bytes (hb_sent_at heartbeat) in
     (let output = write_optional_u64 output (hb_local_time heartbeat) in
     write_optional_string output (hb_short_status heartbeat)))))"

definition encode_heartbeat ::
  "EncodeContext \<Rightarrow> Heartbeat \<Rightarrow> u8 list \<Rightarrow> (u8 list, ProtocolError) result" where
  "encode_heartbeat context heartbeat output =
     encode_packet MessageType_Heartbeat context (encode_heartbeat_payload heartbeat) output"

definition heartbeat_bytes :: "Heartbeat \<Rightarrow> u8 list" where
  "heartbeat_bytes m =
     string_bytes (hb_client_id m) @
     string_bytes (hb_run_id m) @
     u64_to_le_bytes (hb_sent_at m) @
     option_bytes u64_to_le_bytes (hb_local_time m) @
     option_bytes string_bytes (hb_short_status m)"

definition heartbeat_wf :: "ProtocolVersion \<Rightarrow> Heartbeat \<Rightarrow> bool" where
  "heartbeat_wf protocol_version m \<longleftrightarrow>
     hb_message_type m = MessageType_Heartbeat \<and>
     hb_protocol_version m = protocol_version \<and>
     string_fits (hb_client_id m) \<and>
     string_fits (hb_run_id m) \<and>
     option_fits string_fits (hb_short_status m)"

section \<open>\<open>HeartbeatAck\<close>\<close>

definition heartbeat_ack_reader :: "ProtocolVersion \<Rightarrow> (HeartbeatAck, ProtocolError) parser" where
  "heartbeat_ack_reader protocol_version =
     pbind PayloadReader_read_string (\<lambda>client_id.
     pbind PayloadReader_read_string (\<lambda>run_id.
     pbind PayloadReader_read_u64 (\<lambda>echoed_sent_at.
     pbind PayloadReader_read_u64 (\<lambda>server_received_at.
     pbind PayloadReader_read_u64 (\<lambda>server_sent_at.
     preturn \<lparr> hba_message_type = MessageType_HeartbeatAck,
       hba_protocol_version = protocol_version,
       hba_client_id = client_id,
       hba_run_id = run_id,
       hba_echoed_sent_at = echoed_sent_at,
       hba_server_received_at = server_received_at,
       hba_server_sent_at = server_sent_at \<rparr>)))))"

definition decode_heartbeat_ack_payload :: "FixedHeader \<Rightarrow> u8 list \<Rightarrow> (HeartbeatAck, ProtocolError) result" where
  "decode_heartbeat_ack_payload header payload =
     decode_checked_payload MessageType_HeartbeatAck (heartbeat_ack_reader (fh_protocol_version header)) header payload"

definition encode_heartbeat_ack_payload :: "HeartbeatAck \<Rightarrow> u8 list \<Rightarrow> (u8 list, ProtocolError) result" where
  "encode_heartbeat_ack_payload ack output =
     rbind (write_string output (hba_client_id ack)) (\<lambda>output.
     rbind (write_string output (hba_run_id ack)) (\<lambda>output.
     (let output = output @ u64_to_le_bytes (hba_echoed_sent_at ack) in
     (let output = output @ u64_to_le_bytes (hba_server_received_at ack) in
     Ok (output @ u64_to_le_bytes (hba_server_sent_at ack))))))"

definition encode_heartbeat_ack ::
  "EncodeContext \<Rightarrow> HeartbeatAck \<Rightarrow> u8 list \<Rightarrow> (u8 list, ProtocolError) result" where
  "encode_heartbeat_ack context ack output =
     encode_packet MessageType_HeartbeatAck context (encode_heartbeat_ack_payload ack) output"

definition heartbeat_ack_bytes :: "HeartbeatAck \<Rightarrow> u8 list" where
  "heartbeat_ack_bytes m =
     string_bytes (hba_client_id m) @
     string_bytes (hba_run_id m) @
     u64_to_le_bytes (hba_echoed_sent_at m) @
     u64_to_le_bytes (hba_server_received_at m) @
     u64_to_le_bytes (hba_server_sent_at m)"

definition heartbeat_ack_wf :: "ProtocolVersion \<Rightarrow> HeartbeatAck \<Rightarrow> bool" where
  "heartbeat_ack_wf protocol_version m \<longleftrightarrow>
     hba_message_type m = MessageType_HeartbeatAck \<and>
     hba_protocol_version m = protocol_version \<and>
     string_fits (hba_client_id m) \<and>
     string_fits (hba_run_id m)"

section \<open>Proof support\<close>

text \<open>
  One lemma per step of a reader; a payload's layout is a list of fields, so following it
  field by field proves that the reader inverts the layout, and reading the same list
  backwards gives what a successful read says about the bytes.
\<close>

lemmas reader_steps = parses_lift_bind parses_bind parses_bind_last field_get_put parses_return_eq

lemmas sound_lifts =
  sound_lift [OF reason_code.try_from_no_panic] sound_lift [OF codec.try_from_no_panic]
  sound_lift [OF notice_type.try_from_no_panic] sound_lift [OF check_metadata_reserved_iff(2)]

lemmas sound_steps = sound_bind field_get_sound sound_lifts sound_return

lemmas encode_simps =
  write_string_wf string_field.put_wf optional_string_field.put_wf write_bool_eq
  write_optional_u64_eq write_optional_protocol_version_eq write_optional_observation_eq
  u32_try_from_def Let_def

lemmas encode_Ok_simps =
  rbind_eq_Inr_iff write_string_Ok_iff write_optional_string_Ok_iff write_bool_eq
  write_optional_u64_eq write_optional_protocol_version_eq write_optional_observation_eq
  ok_or_eq_Inr_iff u32_try_from_Some Let_def

lemmas encode_panic_simps =
  rbind_eq_Inl_iff write_string_no_panic write_optional_string_no_panic Let_def u32_try_from_def

lemmas reader_side_simps =
  reason_code.try_from_code codec.try_from_code notice_type.try_from_code unat_u32_of_nat

lemmas sound_result_simps =
  reason_code.try_from_eq_Ok_iff codec.try_from_eq_Ok_iff notice_type.try_from_eq_Ok_iff
  unat_u32_less

section \<open>The contract holds\<close>

lemma auth_request_encodes:
  "auth_request_wf pv m \<Longrightarrow> encode_auth_request_payload m out = Ok (out @ auth_request_bytes m)"
  by (simp add: encode_auth_request_payload_def auth_request_wf_def auth_request_bytes_def encode_simps)

lemma auth_request_encode_Ok:
  "encode_auth_request_payload m out = Ok out' \<Longrightarrow> out' = out @ auth_request_bytes m"
  by (auto simp: encode_auth_request_payload_def auth_request_bytes_def encode_Ok_simps split: if_splits)

lemma auth_request_encode_no_panic: "encode_auth_request_payload m out \<noteq> Panicked"
  by (auto simp: encode_auth_request_payload_def encode_panic_simps split: if_splits)

lemma auth_request_reader_parses:
  "auth_request_wf pv m \<Longrightarrow> parses (auth_request_reader pv) (auth_request_bytes m) m"
  unfolding auth_request_reader_def auth_request_bytes_def auth_request_wf_def
  by (elim conjE, (rule reader_steps | simp add: reader_side_simps)+)

lemma auth_request_reader_sound:
  "sound (auth_request_reader pv) (\<lambda>m cs. auth_request_wf pv m \<and> cs = auth_request_bytes m)"
  unfolding auth_request_reader_def
  by (rule sound_mono, (rule sound_steps)+) (auto simp: auth_request_wf_def auth_request_bytes_def sound_result_simps)

interpretation auth_request: payload_codec MessageType_AuthRequest encode_auth_request_payload auth_request_reader auth_request_bytes auth_request_wf
  by (unfold_locales; rule auth_request_encodes auth_request_encode_Ok auth_request_encode_no_panic auth_request_reader_parses auth_request_reader_sound; assumption?)

lemma auth_response_encodes:
  "auth_response_wf pv m \<Longrightarrow> encode_auth_response_payload m out = Ok (out @ auth_response_bytes m)"
  by (simp add: encode_auth_response_payload_def auth_response_wf_def auth_response_bytes_def encode_simps)

lemma auth_response_encode_Ok:
  "encode_auth_response_payload m out = Ok out' \<Longrightarrow> out' = out @ auth_response_bytes m"
  by (auto simp: encode_auth_response_payload_def auth_response_bytes_def encode_Ok_simps split: if_splits)

lemma auth_response_encode_no_panic: "encode_auth_response_payload m out \<noteq> Panicked"
  by (auto simp: encode_auth_response_payload_def encode_panic_simps split: if_splits)

lemma auth_response_reader_parses:
  "auth_response_wf pv m \<Longrightarrow> parses (auth_response_reader pv) (auth_response_bytes m) m"
  unfolding auth_response_reader_def auth_response_bytes_def auth_response_wf_def
  by (elim conjE, (rule reader_steps | simp add: reader_side_simps)+)

lemma auth_response_reader_sound:
  "sound (auth_response_reader pv) (\<lambda>m cs. auth_response_wf pv m \<and> cs = auth_response_bytes m)"
  unfolding auth_response_reader_def
  by (rule sound_mono, (rule sound_steps)+) (auto simp: auth_response_wf_def auth_response_bytes_def sound_result_simps)

interpretation auth_response: payload_codec MessageType_AuthResponse encode_auth_response_payload auth_response_reader auth_response_bytes auth_response_wf
  by (unfold_locales; rule auth_response_encodes auth_response_encode_Ok auth_response_encode_no_panic auth_response_reader_parses auth_response_reader_sound; assumption?)

lemma heartbeat_encodes:
  "heartbeat_wf pv m \<Longrightarrow> encode_heartbeat_payload m out = Ok (out @ heartbeat_bytes m)"
  by (simp add: encode_heartbeat_payload_def heartbeat_wf_def heartbeat_bytes_def encode_simps)

lemma heartbeat_encode_Ok:
  "encode_heartbeat_payload m out = Ok out' \<Longrightarrow> out' = out @ heartbeat_bytes m"
  by (auto simp: encode_heartbeat_payload_def heartbeat_bytes_def encode_Ok_simps split: if_splits)

lemma heartbeat_encode_no_panic: "encode_heartbeat_payload m out \<noteq> Panicked"
  by (auto simp: encode_heartbeat_payload_def encode_panic_simps split: if_splits)

lemma heartbeat_reader_parses:
  "heartbeat_wf pv m \<Longrightarrow> parses (heartbeat_reader pv) (heartbeat_bytes m) m"
  unfolding heartbeat_reader_def heartbeat_bytes_def heartbeat_wf_def
  by (elim conjE, (rule reader_steps | simp add: reader_side_simps)+)

lemma heartbeat_reader_sound:
  "sound (heartbeat_reader pv) (\<lambda>m cs. heartbeat_wf pv m \<and> cs = heartbeat_bytes m)"
  unfolding heartbeat_reader_def
  by (rule sound_mono, (rule sound_steps)+) (auto simp: heartbeat_wf_def heartbeat_bytes_def sound_result_simps)

interpretation heartbeat: payload_codec MessageType_Heartbeat encode_heartbeat_payload heartbeat_reader heartbeat_bytes heartbeat_wf
  by (unfold_locales; rule heartbeat_encodes heartbeat_encode_Ok heartbeat_encode_no_panic heartbeat_reader_parses heartbeat_reader_sound; assumption?)

lemma heartbeat_ack_encodes:
  "heartbeat_ack_wf pv m \<Longrightarrow> encode_heartbeat_ack_payload m out = Ok (out @ heartbeat_ack_bytes m)"
  by (simp add: encode_heartbeat_ack_payload_def heartbeat_ack_wf_def heartbeat_ack_bytes_def encode_simps)

lemma heartbeat_ack_encode_Ok:
  "encode_heartbeat_ack_payload m out = Ok out' \<Longrightarrow> out' = out @ heartbeat_ack_bytes m"
  by (auto simp: encode_heartbeat_ack_payload_def heartbeat_ack_bytes_def encode_Ok_simps split: if_splits)

lemma heartbeat_ack_encode_no_panic: "encode_heartbeat_ack_payload m out \<noteq> Panicked"
  by (auto simp: encode_heartbeat_ack_payload_def encode_panic_simps split: if_splits)

lemma heartbeat_ack_reader_parses:
  "heartbeat_ack_wf pv m \<Longrightarrow> parses (heartbeat_ack_reader pv) (heartbeat_ack_bytes m) m"
  unfolding heartbeat_ack_reader_def heartbeat_ack_bytes_def heartbeat_ack_wf_def
  by (elim conjE, (rule reader_steps | simp add: reader_side_simps)+)

lemma heartbeat_ack_reader_sound:
  "sound (heartbeat_ack_reader pv) (\<lambda>m cs. heartbeat_ack_wf pv m \<and> cs = heartbeat_ack_bytes m)"
  unfolding heartbeat_ack_reader_def
  by (rule sound_mono, (rule sound_steps)+) (auto simp: heartbeat_ack_wf_def heartbeat_ack_bytes_def sound_result_simps)

interpretation heartbeat_ack: payload_codec MessageType_HeartbeatAck encode_heartbeat_ack_payload heartbeat_ack_reader heartbeat_ack_bytes heartbeat_ack_wf
  by (unfold_locales; rule heartbeat_ack_encodes heartbeat_ack_encode_Ok heartbeat_ack_encode_no_panic heartbeat_ack_reader_parses heartbeat_ack_reader_sound; assumption?)

end
