(* ===== verification/Protocol_Media.thy ===== *)
theory Protocol_Media
  imports Protocol_Control
begin

text \<open>
  The video, statistics and notice messages of crates/protocol/src/lib.rs, in the same form
  as the control messages.
\<close>

section \<open>\<open>VideoFrame\<close>\<close>

definition video_frame_reader :: "ProtocolVersion \<Rightarrow> (VideoFrame, ProtocolError) parser" where
  "video_frame_reader protocol_version =
     pbind PayloadReader_read_string (\<lambda>client_id.
     pbind PayloadReader_read_string (\<lambda>run_id.
     pbind PayloadReader_read_u64 (\<lambda>frame_id.
     pbind PayloadReader_read_u64 (\<lambda>capture_timestamp.
     pbind PayloadReader_read_u64 (\<lambda>send_timestamp.
     pbind PayloadReader_read_bool (\<lambda>is_keyframe.
     pbind PayloadReader_read_array_3 (\<lambda>metadata_reserved.
     pbind (plift (check_metadata_reserved metadata_reserved)) (\<lambda>_.
     pbind PayloadReader_read_u32 (\<lambda>width.
     pbind PayloadReader_read_u32 (\<lambda>height.
     pbind PayloadReader_read_u32 (\<lambda>fps_nominal.
     pbind PayloadReader_read_u16 (\<lambda>codec_code.
     pbind (plift (Codec_try_from codec_code)) (\<lambda>codec.
     pbind PayloadReader_read_u32 (\<lambda>payload_size.
     pbind (PayloadReader_read_exact_bytes (unat payload_size)) (\<lambda>payload.
     preturn \<lparr> vf_message_type = MessageType_VideoFrame,
       vf_protocol_version = protocol_version,
       vf_client_id = client_id,
       vf_run_id = run_id,
       vf_frame_id = frame_id,
       vf_capture_timestamp = capture_timestamp,
       vf_send_timestamp = send_timestamp,
       vf_is_keyframe = is_keyframe,
       vf_metadata_reserved = metadata_reserved,
       vf_width = width,
       vf_height = height,
       vf_fps_nominal = fps_nominal,
       vf_codec = codec,
       vf_payload_size = unat payload_size,
       vf_payload = payload \<rparr>)))))))))))))))"

definition decode_video_frame_payload :: "FixedHeader \<Rightarrow> u8 list \<Rightarrow> (VideoFrame, ProtocolError) result" where
  "decode_video_frame_payload header payload =
     decode_checked_payload MessageType_VideoFrame (video_frame_reader (fh_protocol_version header)) header payload"

definition encode_video_frame_payload :: "VideoFrame \<Rightarrow> u8 list \<Rightarrow> (u8 list, ProtocolError) result" where
  "encode_video_frame_payload frame output =
     rbind (check_metadata_reserved (vf_metadata_reserved frame)) (\<lambda>_.
     rbind (ok_or (u32_try_from (length (vf_payload frame)))
              (InvalidPayloadLength 0xFFFFFFFF (length (vf_payload frame)))) (\<lambda>payload_size.
     if vf_payload_size frame \<noteq> length (vf_payload frame)
     then Error (InvalidPayloadLength payload_size (vf_payload_size frame))
     else
     rbind (write_string output (vf_client_id frame)) (\<lambda>output.
     rbind (write_string output (vf_run_id frame)) (\<lambda>output.
     (let output = output @ u64_to_le_bytes (vf_frame_id frame) in
     (let output = output @ u64_to_le_bytes (vf_capture_timestamp frame) in
     (let output = output @ u64_to_le_bytes (vf_send_timestamp frame) in
     (let output = write_bool output (vf_is_keyframe frame) in
     (let output = output @ array_3_bytes (vf_metadata_reserved frame) in
     (let output = output @ u32_to_le_bytes (vf_width frame) in
     (let output = output @ u32_to_le_bytes (vf_height frame) in
     (let output = output @ u32_to_le_bytes (vf_fps_nominal frame) in
     (let output = output @ u16_to_le_bytes (Codec_wire_code (vf_codec frame)) in
     (let output = output @ u32_to_le_bytes payload_size in
     Ok (output @ vf_payload frame)))))))))))))))"

definition encode_video_frame ::
  "EncodeContext \<Rightarrow> VideoFrame \<Rightarrow> u8 list \<Rightarrow> (u8 list, ProtocolError) result" where
  "encode_video_frame context frame output =
     encode_packet MessageType_VideoFrame context (encode_video_frame_payload frame) output"

definition video_frame_bytes :: "VideoFrame \<Rightarrow> u8 list" where
  "video_frame_bytes m =
     string_bytes (vf_client_id m) @
     string_bytes (vf_run_id m) @
     u64_to_le_bytes (vf_frame_id m) @
     u64_to_le_bytes (vf_capture_timestamp m) @
     u64_to_le_bytes (vf_send_timestamp m) @
     bool_bytes (vf_is_keyframe m) @
     array_3_bytes (vf_metadata_reserved m) @
     u32_to_le_bytes (vf_width m) @
     u32_to_le_bytes (vf_height m) @
     u32_to_le_bytes (vf_fps_nominal m) @
     u16_to_le_bytes (Codec_wire_code (vf_codec m)) @
     u32_to_le_bytes (word_of_nat (length (vf_payload m))) @
     vf_payload m"

definition video_frame_wf :: "ProtocolVersion \<Rightarrow> VideoFrame \<Rightarrow> bool" where
  "video_frame_wf protocol_version m \<longleftrightarrow>
     vf_message_type m = MessageType_VideoFrame \<and>
     vf_protocol_version m = protocol_version \<and>
     string_fits (vf_client_id m) \<and>
     string_fits (vf_run_id m) \<and>
     vf_metadata_reserved m = (0, 0, 0) \<and>
     vf_payload_size m = length (vf_payload m) \<and>
     length (vf_payload m) < 2 ^ 32"

section \<open>\<open>VideoFrameFragment\<close>\<close>

definition video_frame_fragment_reader :: "ProtocolVersion \<Rightarrow> (VideoFrameFragment, ProtocolError) parser" where
  "video_frame_fragment_reader protocol_version =
     pbind PayloadReader_read_string (\<lambda>client_id.
     pbind PayloadReader_read_string (\<lambda>run_id.
     pbind PayloadReader_read_u64 (\<lambda>frame_id.
     pbind PayloadReader_read_u64 (\<lambda>capture_timestamp.
     pbind PayloadReader_read_bool (\<lambda>is_keyframe.
     pbind PayloadReader_read_u32 (\<lambda>width.
     pbind PayloadReader_read_u32 (\<lambda>height.
     pbind PayloadReader_read_u32 (\<lambda>fps_nominal.
     pbind PayloadReader_read_u32 (\<lambda>total_payload_len.
     pbind PayloadReader_read_u32 (\<lambda>chunk_index.
     pbind PayloadReader_read_u32 (\<lambda>chunk_count.
     pbind PayloadReader_read_u32 (\<lambda>chunk_payload_len.
     pbind (PayloadReader_read_exact_bytes (unat chunk_payload_len)) (\<lambda>chunk_payload.
     preturn \<lparr> vff_message_type = MessageType_VideoFrameFragment,
       vff_protocol_version = protocol_version,
       vff_client_id = client_id,
       vff_run_id = run_id,
       vff_frame_id = frame_id,
       vff_capture_timestamp = capture_timestamp,
       vff_is_keyframe = is_keyframe,
       vff_width = width,
       vff_height = height,
       vff_fps_nominal = fps_nominal,
       vff_total_payload_len = total_payload_len,
       vff_chunk_index = chunk_index,
       vff_chunk_count = chunk_count,
       vff_chunk_payload_len = unat chunk_payload_len,
       vff_chunk_payload = chunk_payload \<rparr>)))))))))))))"

definition decode_video_frame_fragment_payload :: "FixedHeader \<Rightarrow> u8 list \<Rightarrow> (VideoFrameFragment, ProtocolError) result" where
  "decode_video_frame_fragment_payload header payload =
     decode_checked_payload MessageType_VideoFrameFragment (video_frame_fragment_reader (fh_protocol_version header)) header payload"

definition encode_video_frame_fragment_payload :: "VideoFrameFragment \<Rightarrow> u8 list \<Rightarrow> (u8 list, ProtocolError) result" where
  "encode_video_frame_fragment_payload fragment output =
     rbind (ok_or (u32_try_from (length (vff_chunk_payload fragment)))
              (InvalidPayloadLength 0xFFFFFFFF (length (vff_chunk_payload fragment)))) (\<lambda>chunk_payload_len.
     if vff_chunk_payload_len fragment \<noteq> length (vff_chunk_payload fragment)
     then Error (InvalidPayloadLength chunk_payload_len (vff_chunk_payload_len fragment))
     else
     rbind (write_string output (vff_client_id fragment)) (\<lambda>output.
     rbind (write_string output (vff_run_id fragment)) (\<lambda>output.
     (let output = output @ u64_to_le_bytes (vff_frame_id fragment) in
     (let output = output @ u64_to_le_bytes (vff_capture_timestamp fragment) in
     (let output = write_bool output (vff_is_keyframe fragment) in
     (let output = output @ u32_to_le_bytes (vff_width fragment) in
     (let output = output @ u32_to_le_bytes (vff_height fragment) in
     (let output = output @ u32_to_le_bytes (vff_fps_nominal fragment) in
     (let output = output @ u32_to_le_bytes (vff_total_payload_len fragment) in
     (let output = output @ u32_to_le_bytes (vff_chunk_index fragment) in
     (let output = output @ u32_to_le_bytes (vff_chunk_count fragment) in
     (let output = output @ u32_to_le_bytes chunk_payload_len in
     Ok (output @ vff_chunk_payload fragment))))))))))))))"

definition encode_video_frame_fragment ::
  "EncodeContext \<Rightarrow> VideoFrameFragment \<Rightarrow> u8 list \<Rightarrow> (u8 list, ProtocolError) result" where
  "encode_video_frame_fragment context fragment output =
     encode_packet MessageType_VideoFrameFragment context (encode_video_frame_fragment_payload fragment) output"

definition video_frame_fragment_bytes :: "VideoFrameFragment \<Rightarrow> u8 list" where
  "video_frame_fragment_bytes m =
     string_bytes (vff_client_id m) @
     string_bytes (vff_run_id m) @
     u64_to_le_bytes (vff_frame_id m) @
     u64_to_le_bytes (vff_capture_timestamp m) @
     bool_bytes (vff_is_keyframe m) @
     u32_to_le_bytes (vff_width m) @
     u32_to_le_bytes (vff_height m) @
     u32_to_le_bytes (vff_fps_nominal m) @
     u32_to_le_bytes (vff_total_payload_len m) @
     u32_to_le_bytes (vff_chunk_index m) @
     u32_to_le_bytes (vff_chunk_count m) @
     u32_to_le_bytes (word_of_nat (length (vff_chunk_payload m))) @
     vff_chunk_payload m"

definition video_frame_fragment_wf :: "ProtocolVersion \<Rightarrow> VideoFrameFragment \<Rightarrow> bool" where
  "video_frame_fragment_wf protocol_version m \<longleftrightarrow>
     vff_message_type m = MessageType_VideoFrameFragment \<and>
     vff_protocol_version m = protocol_version \<and>
     string_fits (vff_client_id m) \<and>
     string_fits (vff_run_id m) \<and>
     vff_chunk_payload_len m = length (vff_chunk_payload m) \<and>
     length (vff_chunk_payload m) < 2 ^ 32"

section \<open>\<open>ClientStats\<close>\<close>

definition client_stats_reader :: "ProtocolVersion \<Rightarrow> (ClientStats, ProtocolError) parser" where
  "client_stats_reader protocol_version =
     pbind PayloadReader_read_string (\<lambda>client_id.
     pbind PayloadReader_read_string (\<lambda>run_id.
     pbind PayloadReader_read_u64 (\<lambda>sent_at.
     pbind PayloadReader_read_u32 (\<lambda>capture_fps.
     pbind PayloadReader_read_u64 (\<lambda>dropped_frames.
     pbind PayloadReader_read_u32 (\<lambda>bitrate_kbps.
     pbind (PayloadReader_read_optional_heartbeat_observation client_id run_id) (\<lambda>heartbeat_observation.
     preturn \<lparr> cs_message_type = MessageType_ClientStats,
       cs_protocol_version = protocol_version,
       cs_client_id = client_id,
       cs_run_id = run_id,
       cs_sent_at = sent_at,
       cs_capture_fps = capture_fps,
       cs_dropped_frames = dropped_frames,
       cs_bitrate_kbps = bitrate_kbps,
       cs_heartbeat_observation = heartbeat_observation \<rparr>)))))))"

definition decode_client_stats_payload :: "FixedHeader \<Rightarrow> u8 list \<Rightarrow> (ClientStats, ProtocolError) result" where
  "decode_client_stats_payload header payload =
     decode_checked_payload MessageType_ClientStats (client_stats_reader (fh_protocol_version header)) header payload"

definition encode_client_stats_payload :: "ClientStats \<Rightarrow> u8 list \<Rightarrow> (u8 list, ProtocolError) result" where
  "encode_client_stats_payload stats output =
     rbind (write_string output (cs_client_id stats)) (\<lambda>output.
     rbind (write_string output (cs_run_id stats)) (\<lambda>output.
     (let output = output @ u64_to_le_bytes (cs_sent_at stats) in
     (let output = output @ u32_to_le_bytes (cs_capture_fps stats) in
     (let output = output @ u64_to_le_bytes (cs_dropped_frames stats) in
     (let output = output @ u32_to_le_bytes (cs_bitrate_kbps stats) in
     Ok (write_optional_heartbeat_observation output (cs_heartbeat_observation stats))))))))"

definition encode_client_stats ::
  "EncodeContext \<Rightarrow> ClientStats \<Rightarrow> u8 list \<Rightarrow> (u8 list, ProtocolError) result" where
  "encode_client_stats context stats output =
     encode_packet MessageType_ClientStats context (encode_client_stats_payload stats) output"

definition client_stats_bytes :: "ClientStats \<Rightarrow> u8 list" where
  "client_stats_bytes m =
     string_bytes (cs_client_id m) @
     string_bytes (cs_run_id m) @
     u64_to_le_bytes (cs_sent_at m) @
     u32_to_le_bytes (cs_capture_fps m) @
     u64_to_le_bytes (cs_dropped_frames m) @
     u32_to_le_bytes (cs_bitrate_kbps m) @
     option_bytes observation_bytes (cs_heartbeat_observation m)"

definition client_stats_wf :: "ProtocolVersion \<Rightarrow> ClientStats \<Rightarrow> bool" where
  "client_stats_wf protocol_version m \<longleftrightarrow>
     cs_message_type m = MessageType_ClientStats \<and>
     cs_protocol_version m = protocol_version \<and>
     string_fits (cs_client_id m) \<and>
     string_fits (cs_run_id m) \<and>
     option_fits (observation_of (cs_client_id m) (cs_run_id m)) (cs_heartbeat_observation m)"

section \<open>\<open>ServerNotice\<close>\<close>

definition server_notice_reader :: "ProtocolVersion \<Rightarrow> (ServerNotice, ProtocolError) parser" where
  "server_notice_reader protocol_version =
     pbind PayloadReader_read_string (\<lambda>run_id.
     pbind PayloadReader_read_u16 (\<lambda>notice_type_code.
     pbind (plift (NoticeType_try_from notice_type_code)) (\<lambda>notice_type.
     pbind PayloadReader_read_string (\<lambda>message.
     preturn \<lparr> sn_message_type = MessageType_ServerNotice,
       sn_protocol_version = protocol_version,
       sn_run_id = run_id,
       sn_notice_type = notice_type,
       sn_message = message \<rparr>))))"

definition decode_server_notice_payload :: "FixedHeader \<Rightarrow> u8 list \<Rightarrow> (ServerNotice, ProtocolError) result" where
  "decode_server_notice_payload header payload =
     decode_checked_payload MessageType_ServerNotice (server_notice_reader (fh_protocol_version header)) header payload"

definition encode_server_notice_payload :: "ServerNotice \<Rightarrow> u8 list \<Rightarrow> (u8 list, ProtocolError) result" where
  "encode_server_notice_payload notice output =
     rbind (write_string output (sn_run_id notice)) (\<lambda>output.
     (let output = output @ u16_to_le_bytes (NoticeType_wire_code (sn_notice_type notice)) in
     write_string output (sn_message notice)))"

definition encode_server_notice ::
  "EncodeContext \<Rightarrow> ServerNotice \<Rightarrow> u8 list \<Rightarrow> (u8 list, ProtocolError) result" where
  "encode_server_notice context notice output =
     encode_packet MessageType_ServerNotice context (encode_server_notice_payload notice) output"

definition server_notice_bytes :: "ServerNotice \<Rightarrow> u8 list" where
  "server_notice_bytes m =
     string_bytes (sn_run_id m) @
     u16_to_le_bytes (NoticeType_wire_code (sn_notice_type m)) @
     string_bytes (sn_message m)"

definition server_notice_wf :: "ProtocolVersion \<Rightarrow> ServerNotice \<Rightarrow> bool" where
  "server_notice_wf protocol_version m \<longleftrightarrow>
     sn_message_type m = MessageType_ServerNotice \<and>
     sn_protocol_version m = protocol_version \<and>
     string_fits (sn_run_id m) \<and>
     string_fits (sn_message m)"

section \<open>The contract holds\<close>

lemma video_frame_encodes:
  "video_frame_wf pv m \<Longrightarrow> encode_video_frame_payload m out = Ok (out @ video_frame_bytes m)"
  by (simp add: encode_video_frame_payload_def video_frame_wf_def video_frame_bytes_def encode_simps)

lemma video_frame_encode_Ok:
  "encode_video_frame_payload m out = Ok out' \<Longrightarrow> out' = out @ video_frame_bytes m"
  by (auto simp: encode_video_frame_payload_def video_frame_bytes_def encode_Ok_simps split: if_splits)

lemma video_frame_encode_no_panic: "encode_video_frame_payload m out \<noteq> Panicked"
  by (auto simp: encode_video_frame_payload_def encode_panic_simps split: if_splits)

lemma video_frame_reader_parses:
  "video_frame_wf pv m \<Longrightarrow> parses (video_frame_reader pv) (video_frame_bytes m) m"
  unfolding video_frame_reader_def video_frame_bytes_def video_frame_wf_def
  by (elim conjE, (rule reader_steps | simp add: reader_side_simps)+)

lemma video_frame_reader_sound:
  "sound (video_frame_reader pv) (\<lambda>m cs. video_frame_wf pv m \<and> cs = video_frame_bytes m)"
  unfolding video_frame_reader_def
  by (rule sound_mono, (rule sound_steps)+) (auto simp: video_frame_wf_def video_frame_bytes_def sound_result_simps)

interpretation video_frame: payload_codec MessageType_VideoFrame encode_video_frame_payload video_frame_reader video_frame_bytes video_frame_wf
  by (unfold_locales; rule video_frame_encodes video_frame_encode_Ok video_frame_encode_no_panic video_frame_reader_parses video_frame_reader_sound; assumption?)

lemma video_frame_fragment_encodes:
  "video_frame_fragment_wf pv m \<Longrightarrow> encode_video_frame_fragment_payload m out = Ok (out @ video_frame_fragment_bytes m)"
  by (simp add: encode_video_frame_fragment_payload_def video_frame_fragment_wf_def video_frame_fragment_bytes_def encode_simps)

lemma video_frame_fragment_encode_Ok:
  "encode_video_frame_fragment_payload m out = Ok out' \<Longrightarrow> out' = out @ video_frame_fragment_bytes m"
  by (auto simp: encode_video_frame_fragment_payload_def video_frame_fragment_bytes_def encode_Ok_simps split: if_splits)

lemma video_frame_fragment_encode_no_panic: "encode_video_frame_fragment_payload m out \<noteq> Panicked"
  by (auto simp: encode_video_frame_fragment_payload_def encode_panic_simps split: if_splits)

lemma video_frame_fragment_reader_parses:
  "video_frame_fragment_wf pv m \<Longrightarrow> parses (video_frame_fragment_reader pv) (video_frame_fragment_bytes m) m"
  unfolding video_frame_fragment_reader_def video_frame_fragment_bytes_def video_frame_fragment_wf_def
  by (elim conjE, (rule reader_steps | simp add: reader_side_simps)+)

lemma video_frame_fragment_reader_sound:
  "sound (video_frame_fragment_reader pv) (\<lambda>m cs. video_frame_fragment_wf pv m \<and> cs = video_frame_fragment_bytes m)"
  unfolding video_frame_fragment_reader_def
  by (rule sound_mono, (rule sound_steps)+) (auto simp: video_frame_fragment_wf_def video_frame_fragment_bytes_def sound_result_simps)

interpretation video_frame_fragment: payload_codec MessageType_VideoFrameFragment encode_video_frame_fragment_payload video_frame_fragment_reader video_frame_fragment_bytes video_frame_fragment_wf
  by (unfold_locales; rule video_frame_fragment_encodes video_frame_fragment_encode_Ok video_frame_fragment_encode_no_panic video_frame_fragment_reader_parses video_frame_fragment_reader_sound; assumption?)

lemma client_stats_encodes:
  "client_stats_wf pv m \<Longrightarrow> encode_client_stats_payload m out = Ok (out @ client_stats_bytes m)"
  by (simp add: encode_client_stats_payload_def client_stats_wf_def client_stats_bytes_def encode_simps)

lemma client_stats_encode_Ok:
  "encode_client_stats_payload m out = Ok out' \<Longrightarrow> out' = out @ client_stats_bytes m"
  by (auto simp: encode_client_stats_payload_def client_stats_bytes_def encode_Ok_simps split: if_splits)

lemma client_stats_encode_no_panic: "encode_client_stats_payload m out \<noteq> Panicked"
  by (auto simp: encode_client_stats_payload_def encode_panic_simps split: if_splits)

lemma client_stats_reader_parses:
  "client_stats_wf pv m \<Longrightarrow> parses (client_stats_reader pv) (client_stats_bytes m) m"
  unfolding client_stats_reader_def client_stats_bytes_def client_stats_wf_def
  by (elim conjE, (rule reader_steps | simp add: reader_side_simps)+)

lemma client_stats_reader_sound:
  "sound (client_stats_reader pv) (\<lambda>m cs. client_stats_wf pv m \<and> cs = client_stats_bytes m)"
  unfolding client_stats_reader_def
  by (rule sound_mono, (rule sound_steps)+) (auto simp: client_stats_wf_def client_stats_bytes_def sound_result_simps)

interpretation client_stats: payload_codec MessageType_ClientStats encode_client_stats_payload client_stats_reader client_stats_bytes client_stats_wf
  by (unfold_locales; rule client_stats_encodes client_stats_encode_Ok client_stats_encode_no_panic client_stats_reader_parses client_stats_reader_sound; assumption?)

lemma server_notice_encodes:
  "server_notice_wf pv m \<Longrightarrow> encode_server_notice_payload m out = Ok (out @ server_notice_bytes m)"
  by (simp add: encode_server_notice_payload_def server_notice_wf_def server_notice_bytes_def encode_simps)

lemma server_notice_encode_Ok:
  "encode_server_notice_payload m out = Ok out' \<Longrightarrow> out' = out @ server_notice_bytes m"
  by (auto simp: encode_server_notice_payload_def server_notice_bytes_def encode_Ok_simps split: if_splits)

lemma server_notice_encode_no_panic: "encode_server_notice_payload m out \<noteq> Panicked"
  by (auto simp: encode_server_notice_payload_def encode_panic_simps split: if_splits)

lemma server_notice_reader_parses:
  "server_notice_wf pv m \<Longrightarrow> parses (server_notice_reader pv) (server_notice_bytes m) m"
  unfolding server_notice_reader_def server_notice_bytes_def server_notice_wf_def
  by (elim conjE, (rule reader_steps | simp add: reader_side_simps)+)

lemma server_notice_reader_sound:
  "sound (server_notice_reader pv) (\<lambda>m cs. server_notice_wf pv m \<and> cs = server_notice_bytes m)"
  unfolding server_notice_reader_def
  by (rule sound_mono, (rule sound_steps)+) (auto simp: server_notice_wf_def server_notice_bytes_def sound_result_simps)

interpretation server_notice: payload_codec MessageType_ServerNotice encode_server_notice_payload server_notice_reader server_notice_bytes server_notice_wf
  by (unfold_locales; rule server_notice_encodes server_notice_encode_Ok server_notice_encode_no_panic server_notice_reader_parses server_notice_reader_sound; assumption?)

end
