(* ===== verification/Protocol_Dispatch.thy ===== *)
theory Protocol_Dispatch
  imports Protocol_Media
begin

text \<open>
  The message level of crates/protocol/src/lib.rs: the payload decoders behind the
  \<open>PayloadDecoder\<close> trait, the dispatch on the header's message type, the encoder
  boundary that dispatches on the message, and the small boundaries around heartbeat
  observations and payload plans. The lemmas lift the eight payload contracts to
  \<open>ProtocolMessage\<close>.
\<close>

section \<open>Decoding by message type\<close>

definition AuthRequestPayloadDecoder_decode_payload ::
  "DecodeContext \<Rightarrow> FixedHeader \<Rightarrow> u8 list \<Rightarrow> (ProtocolMessage, ProtocolError) result" where
  "AuthRequestPayloadDecoder_decode_payload context header payload =
     rmap Message_AuthRequest (decode_auth_request_payload header payload)"

definition AuthResponsePayloadDecoder_decode_payload ::
  "DecodeContext \<Rightarrow> FixedHeader \<Rightarrow> u8 list \<Rightarrow> (ProtocolMessage, ProtocolError) result" where
  "AuthResponsePayloadDecoder_decode_payload context header payload =
     rmap Message_AuthResponse (decode_auth_response_payload header payload)"

definition HeartbeatPayloadDecoder_decode_payload ::
  "DecodeContext \<Rightarrow> FixedHeader \<Rightarrow> u8 list \<Rightarrow> (ProtocolMessage, ProtocolError) result" where
  "HeartbeatPayloadDecoder_decode_payload context header payload =
     rmap Message_Heartbeat (decode_heartbeat_payload header payload)"

definition HeartbeatAckPayloadDecoder_decode_payload ::
  "DecodeContext \<Rightarrow> FixedHeader \<Rightarrow> u8 list \<Rightarrow> (ProtocolMessage, ProtocolError) result" where
  "HeartbeatAckPayloadDecoder_decode_payload context header payload =
     rmap Message_HeartbeatAck (decode_heartbeat_ack_payload header payload)"

definition VideoFramePayloadDecoder_decode_payload ::
  "DecodeContext \<Rightarrow> FixedHeader \<Rightarrow> u8 list \<Rightarrow> (ProtocolMessage, ProtocolError) result" where
  "VideoFramePayloadDecoder_decode_payload context header payload =
     rmap Message_VideoFrame (decode_video_frame_payload header payload)"

definition VideoFrameFragmentPayloadDecoder_decode_payload ::
  "DecodeContext \<Rightarrow> FixedHeader \<Rightarrow> u8 list \<Rightarrow> (ProtocolMessage, ProtocolError) result" where
  "VideoFrameFragmentPayloadDecoder_decode_payload context header payload =
     rmap Message_VideoFrameFragment (decode_video_frame_fragment_payload header payload)"

definition ClientStatsPayloadDecoder_decode_payload ::
  "DecodeContext \<Rightarrow> FixedHeader \<Rightarrow> u8 list \<Rightarrow> (ProtocolMessage, ProtocolError) result" where
  "ClientStatsPayloadDecoder_decode_payload context header payload =
     rmap Message_ClientStats (decode_client_stats_payload header payload)"

definition ServerNoticePayloadDecoder_decode_payload ::
  "DecodeContext \<Rightarrow> FixedHeader \<Rightarrow> u8 list \<Rightarrow> (ProtocolMessage, ProtocolError) result" where
  "ServerNoticePayloadDecoder_decode_payload context header payload =
     rmap Message_ServerNotice (decode_server_notice_payload header payload)"

definition decode_payload_by_message_type ::
  "DecodeContext \<Rightarrow> FixedHeader \<Rightarrow> u8 list \<Rightarrow> (ProtocolMessage, ProtocolError) result" where
  "decode_payload_by_message_type context header payload =
     (case fh_message_type header of
        MessageType_AuthRequest \<Rightarrow> AuthRequestPayloadDecoder_decode_payload context header payload
      | MessageType_AuthResponse \<Rightarrow> AuthResponsePayloadDecoder_decode_payload context header payload
      | MessageType_Heartbeat \<Rightarrow> HeartbeatPayloadDecoder_decode_payload context header payload
      | MessageType_HeartbeatAck \<Rightarrow> HeartbeatAckPayloadDecoder_decode_payload context header payload
      | MessageType_VideoFrame \<Rightarrow> VideoFramePayloadDecoder_decode_payload context header payload
      | MessageType_VideoFrameFragment \<Rightarrow>
          VideoFrameFragmentPayloadDecoder_decode_payload context header payload
      | MessageType_ClientStats \<Rightarrow> ClientStatsPayloadDecoder_decode_payload context header payload
      | MessageType_ServerNotice \<Rightarrow> ServerNoticePayloadDecoder_decode_payload context header payload)"

section \<open>Encoding by message\<close>

fun ProtocolMessageEncoderBoundary_encode_message ::
  "EncodeContext \<Rightarrow> ProtocolMessage \<Rightarrow> u8 list \<Rightarrow> (u8 list, ProtocolError) result" where
  "ProtocolMessageEncoderBoundary_encode_message context (Message_AuthRequest request) output =
     encode_auth_request context request output"
| "ProtocolMessageEncoderBoundary_encode_message context (Message_AuthResponse response) output =
     encode_auth_response context response output"
| "ProtocolMessageEncoderBoundary_encode_message context (Message_Heartbeat heartbeat) output =
     encode_heartbeat context heartbeat output"
| "ProtocolMessageEncoderBoundary_encode_message context (Message_HeartbeatAck ack) output =
     encode_heartbeat_ack context ack output"
| "ProtocolMessageEncoderBoundary_encode_message context (Message_VideoFrame frame) output =
     encode_video_frame context frame output"
| "ProtocolMessageEncoderBoundary_encode_message context (Message_VideoFrameFragment fragment) output =
     encode_video_frame_fragment context fragment output"
| "ProtocolMessageEncoderBoundary_encode_message context (Message_ClientStats stats) output =
     encode_client_stats context stats output"
| "ProtocolMessageEncoderBoundary_encode_message context (Message_ServerNotice notice) output =
     encode_server_notice context notice output"

section \<open>Heartbeat observations and payload plans\<close>

definition HeartbeatAckObservationBoundary_observe ::
  "HeartbeatAck \<Rightarrow> TimestampMicros \<Rightarrow> HeartbeatAckObservation" where
  "HeartbeatAckObservationBoundary_observe ack client_received_at =
     \<lparr> obs_client_id = hba_client_id ack, obs_run_id = hba_run_id ack,
       obs_echoed_sent_at = hba_echoed_sent_at ack,
       obs_server_received_at = hba_server_received_at ack,
       obs_server_sent_at = hba_server_sent_at ack,
       obs_client_received_at = client_received_at \<rparr>"

definition HeartbeatObservationCarrierBoundary_build_client_stats_carrier ::
  "ProtocolVersion \<Rightarrow> HeartbeatAckObservation \<Rightarrow> HeartbeatObservationCarrier" where
  "HeartbeatObservationCarrierBoundary_build_client_stats_carrier protocol_version observation =
     \<lparr> hoc_message_type = MessageType_ClientStats, hoc_protocol_version = protocol_version,
       hoc_observation = observation \<rparr>"

definition ClientStatsPayloadPlanBoundary_build_plan :: "ClientStats \<Rightarrow> ClientStatsPayloadPlan" where
  "ClientStatsPayloadPlanBoundary_build_plan stats =
     \<lparr> csp_base_numeric_payload_len = CLIENT_STATS_BASE_NUMERIC_PAYLOAD_LEN,
       csp_heartbeat_observation_present = (cs_heartbeat_observation stats \<noteq> None),
       csp_heartbeat_observation_block_len =
         (case cs_heartbeat_observation stats of
            Some _ \<Rightarrow> CLIENT_STATS_HEARTBEAT_OBSERVATION_BLOCK_LEN
          | None \<Rightarrow> 0) \<rparr>"

definition ServerNoticePayloadPlanBoundary_build_plan ::
  "ServerNotice \<Rightarrow> (ServerNoticePayloadPlan, ProtocolError) result" where
  "ServerNoticePayloadPlanBoundary_build_plan notice =
     rbind (ok_or (u16_try_from (length (sn_run_id notice)))
              (PayloadStringTooLong (length (sn_run_id notice)))) (\<lambda>run_id_byte_len.
     rbind (ok_or (u16_try_from (length (sn_message notice)))
              (PayloadStringTooLong (length (sn_message notice)))) (\<lambda>message_byte_len.
     Ok \<lparr> snp_notice_type_len = SERVER_NOTICE_TYPE_LEN, snp_run_id_byte_len = run_id_byte_len,
          snp_message_byte_len = message_byte_len \<rparr>))"

section \<open>The messages the wire carries\<close>

text \<open>
  \<open>message_bytes\<close> is the payload layout of a message and \<open>message_wf v\<close> says that a
  message of protocol version \<open>v\<close> survives that layout: its discriminant matches, its
  strings are UTF-8 and fit their 16-bit length, its lengths agree, its reserved bytes are
  zero, and the fields the layout leaves out have the values the decoder puts there.
\<close>

fun message_bytes :: "ProtocolMessage \<Rightarrow> u8 list" where
  "message_bytes (Message_AuthRequest m) = auth_request_bytes m"
| "message_bytes (Message_AuthResponse m) = auth_response_bytes m"
| "message_bytes (Message_Heartbeat m) = heartbeat_bytes m"
| "message_bytes (Message_HeartbeatAck m) = heartbeat_ack_bytes m"
| "message_bytes (Message_VideoFrame m) = video_frame_bytes m"
| "message_bytes (Message_VideoFrameFragment m) = video_frame_fragment_bytes m"
| "message_bytes (Message_ClientStats m) = client_stats_bytes m"
| "message_bytes (Message_ServerNotice m) = server_notice_bytes m"

fun message_wf :: "ProtocolVersion \<Rightarrow> ProtocolMessage \<Rightarrow> bool" where
  "message_wf v (Message_AuthRequest m) = auth_request_wf v m"
| "message_wf v (Message_AuthResponse m) = auth_response_wf v m"
| "message_wf v (Message_Heartbeat m) = heartbeat_wf v m"
| "message_wf v (Message_HeartbeatAck m) = heartbeat_ack_wf v m"
| "message_wf v (Message_VideoFrame m) = video_frame_wf v m"
| "message_wf v (Message_VideoFrameFragment m) = video_frame_fragment_wf v m"
| "message_wf v (Message_ClientStats m) = client_stats_wf v m"
| "message_wf v (Message_ServerNotice m) = server_notice_wf v m"

lemmas payload_decoder_defs =
  AuthRequestPayloadDecoder_decode_payload_def AuthResponsePayloadDecoder_decode_payload_def
  HeartbeatPayloadDecoder_decode_payload_def HeartbeatAckPayloadDecoder_decode_payload_def
  VideoFramePayloadDecoder_decode_payload_def VideoFrameFragmentPayloadDecoder_decode_payload_def
  ClientStatsPayloadDecoder_decode_payload_def ServerNoticePayloadDecoder_decode_payload_def
  decode_auth_request_payload_def decode_auth_response_payload_def decode_heartbeat_payload_def
  decode_heartbeat_ack_payload_def decode_video_frame_payload_def
  decode_video_frame_fragment_payload_def decode_client_stats_payload_def
  decode_server_notice_payload_def

lemmas message_encoder_defs =
  encode_auth_request_def encode_auth_response_def encode_heartbeat_def encode_heartbeat_ack_def
  encode_video_frame_def encode_video_frame_fragment_def encode_client_stats_def
  encode_server_notice_def

lemmas payload_decode_Ok_iff =
  auth_request.decode_Ok_iff auth_response.decode_Ok_iff heartbeat.decode_Ok_iff
  heartbeat_ack.decode_Ok_iff video_frame.decode_Ok_iff video_frame_fragment.decode_Ok_iff
  client_stats.decode_Ok_iff server_notice.decode_Ok_iff

lemmas payload_decode_no_panic =
  auth_request.decode_no_panic auth_response.decode_no_panic heartbeat.decode_no_panic
  heartbeat_ack.decode_no_panic video_frame.decode_no_panic video_frame_fragment.decode_no_panic
  client_stats.decode_no_panic server_notice.decode_no_panic

lemmas packet_encode_Ok =
  auth_request.encode_packet_Ok auth_response.encode_packet_Ok heartbeat.encode_packet_Ok
  heartbeat_ack.encode_packet_Ok video_frame.encode_packet_Ok video_frame_fragment.encode_packet_Ok
  client_stats.encode_packet_Ok server_notice.encode_packet_Ok

lemmas packet_encode_no_panic =
  auth_request.encode_packet_no_panic auth_response.encode_packet_no_panic
  heartbeat.encode_packet_no_panic heartbeat_ack.encode_packet_no_panic
  video_frame.encode_packet_no_panic video_frame_fragment.encode_packet_no_panic
  client_stats.encode_packet_no_panic server_notice.encode_packet_no_panic

lemma message_kind_wf_iff:
  "message_wf v m \<Longrightarrow> ProtocolMessage_message_type m = t \<longleftrightarrow>
     (case m of
        Message_AuthRequest a \<Rightarrow> areq_message_type a = t
      | Message_AuthResponse a \<Rightarrow> aresp_message_type a = t
      | Message_Heartbeat a \<Rightarrow> hb_message_type a = t
      | Message_HeartbeatAck a \<Rightarrow> hba_message_type a = t
      | Message_VideoFrame a \<Rightarrow> vf_message_type a = t
      | Message_VideoFrameFragment a \<Rightarrow> vff_message_type a = t
      | Message_ClientStats a \<Rightarrow> cs_message_type a = t
      | Message_ServerNotice a \<Rightarrow> sn_message_type a = t)"
  by (cases m) (simp_all add: auth_request_wf_def auth_response_wf_def heartbeat_wf_def
      heartbeat_ack_wf_def video_frame_wf_def video_frame_fragment_wf_def client_stats_wf_def
      server_notice_wf_def)

lemma decode_payload_Ok_iff:
  assumes "length payload < usize_bound"
  shows "decode_payload_by_message_type ctx h payload = Ok m \<longleftrightarrow>
    fh_message_type h = ProtocolMessage_message_type m \<and>
    length payload = unat (fh_payload_length h) \<and>
    message_wf (fh_protocol_version h) m \<and> payload = message_bytes m"
  using assms
  by (cases "fh_message_type h"; cases m)
    (simp_all add: decode_payload_by_message_type_def payload_decoder_defs rmap_eq_Inr_iff
      payload_decode_Ok_iff)

lemma decode_payload_no_panic:
  "length payload < usize_bound \<Longrightarrow> decode_payload_by_message_type ctx h payload \<noteq> Panicked"
  by (cases "fh_message_type h")
    (simp_all add: decode_payload_by_message_type_def payload_decoder_defs rmap_eq_Inl_iff
      payload_decode_no_panic)

lemma encode_message_Ok:
  assumes "message_wf (ec_protocol_version ctx) m" and "length (message_bytes m) < 2 ^ 32"
  shows "ProtocolMessageEncoderBoundary_encode_message ctx m out =
    Ok (encode_fixed_header (ProtocolMessage_message_type m) (ec_protocol_version ctx)
          (word_of_nat (length (message_bytes m))) out @ message_bytes m)"
  using assms by (cases m) (simp_all add: message_encoder_defs packet_encode_Ok)

lemma encode_message_no_panic:
  "ProtocolMessageEncoderBoundary_encode_message ctx m out \<noteq> Panicked"
  by (cases m) (simp_all add: message_encoder_defs packet_encode_no_panic)

end
