(* ===== verification/Net_Packets.thy ===== *)
theory Net_Packets
  imports Protocol_Dispatch
begin

text \<open>
  The packet boundaries of crates/net-core/src/lib.rs: endpoints, the receive-side decoder
  that runs the protocol crate's entry points in order, and the send-side bridge from a typed
  message to packet bytes. A socket address is data of the standard library (an IPv4 or IPv6
  endpoint); the code only copies and compares it.
\<close>

section \<open>Endpoints and packets\<close>

datatype SocketAddr =
    SocketAddrV4 u32 u16
  | SocketAddrV6 "128 word" u16 u32 u32

record PacketSource =
  src_address :: SocketAddr

record PacketDestination =
  dst_address :: SocketAddr

definition PacketDestination_from_source :: "PacketSource \<Rightarrow> PacketDestination" where
  "PacketDestination_from_source source = \<lparr> dst_address = src_address source \<rparr>"

record InboundPacket =
  ib_source :: PacketSource
  ib_bytes :: "u8 list"

record DecodedInboundPacket =
  dip_source :: PacketSource
  dip_message :: ProtocolMessage

record OutboundPacket =
  op_destination :: PacketDestination
  op_message :: ProtocolMessage

record OutboundQueueItem =
  oqi_packet :: OutboundPacket

record OutboundEncodeRequest =
  oer_destination :: PacketDestination
  oer_context :: EncodeContext
  oer_message :: ProtocolMessage

record EncodedOutboundPacket =
  eop_destination :: PacketDestination
  eop_bytes :: "u8 list"

datatype NetDecodeError = NetDecodeError_Protocol PacketSource ProtocolError

datatype NetEncodeError = NetEncodeError_Protocol PacketDestination ProtocolError

section \<open>Receiving\<close>

definition protocol_error :: "PacketSource \<Rightarrow> ProtocolError \<Rightarrow> NetDecodeError" where
  "protocol_error source error = NetDecodeError_Protocol source error"

definition InboundPacketDecoder_decode ::
  "DecodeContext \<Rightarrow> InboundPacket \<Rightarrow> (DecodedInboundPacket, NetDecodeError) result" where
  "InboundPacketDecoder_decode context packet =
     rbind (rmap_err (protocol_error (ib_source packet))
              (decode_fixed_header (ib_bytes packet))) (\<lambda>packet_view.
     rbind (rmap_err (protocol_error (ib_source packet))
              (validate_protocol_version context (pv_header packet_view))) (\<lambda>_.
     rbind (rmap_err (protocol_error (ib_source packet))
              (decode_payload_by_message_type context (pv_header packet_view)
                 (pv_payload packet_view))) (\<lambda>message.
     Ok \<lparr> dip_source = ib_source packet, dip_message = message \<rparr>)))"

section \<open>Sending\<close>

text \<open>\<open>encode_with\<close> is generic in the \<open>MessageEncoder\<close> trait; its parameter is the trait's one method.\<close>

type_synonym MessageEncoder =
  "EncodeContext \<Rightarrow> ProtocolMessage \<Rightarrow> u8 list \<Rightarrow> (u8 list, ProtocolError) result"

definition OutboundPacketEncoderBoundary_prepare_encode ::
  "EncodeContext \<Rightarrow> OutboundQueueItem \<Rightarrow> OutboundEncodeRequest" where
  "OutboundPacketEncoderBoundary_prepare_encode context item =
     \<lparr> oer_destination = op_destination (oqi_packet item), oer_context = context,
       oer_message = op_message (oqi_packet item) \<rparr>"

definition OutboundPacketEncoderBoundary_encode_with ::
  "MessageEncoder \<Rightarrow> OutboundEncodeRequest \<Rightarrow> (EncodedOutboundPacket, NetEncodeError) result" where
  "OutboundPacketEncoderBoundary_encode_with encoder request =
     rbind (rmap_err (NetEncodeError_Protocol (oer_destination request))
              (encoder (oer_context request) (oer_message request) [])) (\<lambda>bytes.
     Ok \<lparr> eop_destination = oer_destination request, eop_bytes = bytes \<rparr>)"

section \<open>What the two sides guarantee each other\<close>

lemma drop_usize: "length (xs :: u8 list) < usize_bound \<Longrightarrow> length (drop n xs) < usize_bound"
  by simp

text \<open>The bytes a receiver accepts, described without the decoder.\<close>

definition packet_of :: "ProtocolVersion \<Rightarrow> ProtocolMessage \<Rightarrow> u16 \<Rightarrow> u16 \<Rightarrow> u8 list" where
  "packet_of version m flags reserved =
     u16_to_le_bytes (MessageType_as_u16 (ProtocolMessage_message_type m))
       @ u16_to_le_bytes FIXED_HEADER_LEN
       @ u32_to_le_bytes version
       @ u32_to_le_bytes (word_of_nat (length (message_bytes m)))
       @ u16_to_le_bytes flags
       @ u16_to_le_bytes reserved
       @ message_bytes m"

lemma inbound_decode_no_panic:
  assumes "length (ib_bytes p) < usize_bound"
  shows "InboundPacketDecoder_decode ctx p \<noteq> Panicked"
proof -
  have "decode_payload_by_message_type ctx (pv_header v) (pv_payload v) \<noteq> Panicked"
    if "decode_fixed_header (ib_bytes p) = Ok v" for v
  proof -
    have "pv_payload v = drop 16 (ib_bytes p)"
      using that by (auto simp: decode_fixed_header_cases Let_def rbind_eq_Inr_iff split: if_splits)
    then show ?thesis using decode_payload_no_panic assms by simp
  qed
  moreover have "validate_protocol_version ctx h \<noteq> Panicked" for h
    by (simp add: validate_protocol_version_def)
  ultimately show ?thesis
    using decode_fixed_header_no_panic [of "ib_bytes p"]
    by (auto simp: InboundPacketDecoder_decode_def rbind_eq_Inl_iff rmap_err_eq_Panic_iff
        rmap_err_eq_Inr_iff)
qed

lemma list_16_split:
  assumes "16 \<le> length xs"
  shows "xs = [xs ! 0, xs ! 1, xs ! 2, xs ! 3, xs ! 4, xs ! 5, xs ! 6, xs ! 7, xs ! 8, xs ! 9,
    xs ! 10, xs ! 11, xs ! 12, xs ! 13, xs ! 14, xs ! 15] @ drop 16 xs"
proof -
  have "take 16 xs = map ((!) xs) [0..<16]"
    using assms by (intro nth_equalityI) simp_all
  also have "\<dots> = [xs ! 0, xs ! 1, xs ! 2, xs ! 3, xs ! 4, xs ! 5, xs ! 6, xs ! 7, xs ! 8,
      xs ! 9, xs ! 10, xs ! 11, xs ! 12, xs ! 13, xs ! 14, xs ! 15]"
    by (simp add: upt_conv_Cons eval_nat_numeral)
  finally show ?thesis by (metis append_take_drop_id)
qed

lemma decode_fixed_header_Ok:
  assumes "decode_fixed_header p = Ok v"
  shows "p = u16_to_le_bytes (MessageType_as_u16 (fh_message_type (pv_header v)))
       @ u16_to_le_bytes FIXED_HEADER_LEN
       @ u32_to_le_bytes (fh_protocol_version (pv_header v))
       @ u32_to_le_bytes (fh_payload_length (pv_header v))
       @ u16_to_le_bytes (fh_flags (pv_header v))
       @ u16_to_le_bytes (fh_reserved (pv_header v))
       @ pv_payload v"
    and "length (pv_payload v) = unat (fh_payload_length (pv_header v))"
proof -
  have len: "16 \<le> length p"
    using assms by (auto simp: decode_fixed_header_cases split: if_splits)
  obtain t where t: "u16_from_le_bytes (p ! 0) (p ! 1) = MessageType_as_u16 t"
    and hl: "u16_from_le_bytes (p ! 2) (p ! 3) = FIXED_HEADER_LEN"
    and pl: "length p = 16 + unat (u32_from_le_bytes (p ! 8) (p ! 9) (p ! 10) (p ! 11))"
    and v: "v = \<lparr> pv_header = \<lparr> fh_message_type = t, fh_header_length = FIXED_HEADER_LEN,
             fh_protocol_version = u32_from_le_bytes (p ! 4) (p ! 5) (p ! 6) (p ! 7),
             fh_payload_length = u32_from_le_bytes (p ! 8) (p ! 9) (p ! 10) (p ! 11),
             fh_flags = u16_from_le_bytes (p ! 12) (p ! 13),
             fh_reserved = u16_from_le_bytes (p ! 14) (p ! 15) \<rparr>, pv_payload = drop 16 p \<rparr>"
    using assms len
    by (auto simp: decode_fixed_header_cases Let_def rbind_eq_Inr_iff message_type.try_from_eq_Ok_iff
        simp del: header_offsets split: if_splits)
  show "length (pv_payload v) = unat (fh_payload_length (pv_header v))"
    using pl v by simp
  have "p = u16_to_le_bytes (u16_from_le_bytes (p ! 0) (p ! 1))
      @ u16_to_le_bytes (u16_from_le_bytes (p ! 2) (p ! 3))
      @ u32_to_le_bytes (u32_from_le_bytes (p ! 4) (p ! 5) (p ! 6) (p ! 7))
      @ u32_to_le_bytes (u32_from_le_bytes (p ! 8) (p ! 9) (p ! 10) (p ! 11))
      @ u16_to_le_bytes (u16_from_le_bytes (p ! 12) (p ! 13))
      @ u16_to_le_bytes (u16_from_le_bytes (p ! 14) (p ! 15)) @ drop 16 p"
    using list_16_split [OF len] unfolding u16_to_from_le u32_to_from_le by simp
  then show "p = u16_to_le_bytes (MessageType_as_u16 (fh_message_type (pv_header v)))
       @ u16_to_le_bytes FIXED_HEADER_LEN
       @ u32_to_le_bytes (fh_protocol_version (pv_header v))
       @ u32_to_le_bytes (fh_payload_length (pv_header v))
       @ u16_to_le_bytes (fh_flags (pv_header v))
       @ u16_to_le_bytes (fh_reserved (pv_header v))
       @ pv_payload v"
    unfolding t hl v by simp
qed

text \<open>The receive path as one equation: what is accepted, and what it is decoded to.\<close>

lemma inbound_decode_Ok_iff:
  assumes len: "length (ib_bytes p) < usize_bound"
  shows "InboundPacketDecoder_decode ctx p = Ok d \<longleftrightarrow>
    dip_source d = ib_source p \<and> length (message_bytes (dip_message d)) < 2 ^ 32 \<and>
    message_wf (dc_expected_protocol_version ctx) (dip_message d) \<and>
    (\<exists>flags reserved. ib_bytes p =
       packet_of (dc_expected_protocol_version ctx) (dip_message d) flags reserved)"
    (is "?l \<longleftrightarrow> ?r")
proof
  assume ?l
  then obtain v where v: "decode_fixed_header (ib_bytes p) = Ok v"
    and ver: "fh_protocol_version (pv_header v) = dc_expected_protocol_version ctx"
    and m: "decode_payload_by_message_type ctx (pv_header v) (pv_payload v) = Ok (dip_message d)"
    and src: "dip_source d = ib_source p"
    by (auto simp: InboundPacketDecoder_decode_def rbind_eq_Inr_iff rmap_err_eq_Inr_iff
        validate_protocol_version_def split: if_splits)
  note h = decode_fixed_header_Ok [OF v]
  have "length (pv_payload v) < usize_bound"
    using len arg_cong [OF h(1), of length] by simp
  note m = m [unfolded decode_payload_Ok_iff [OF this]]
  have n: "length (message_bytes (dip_message d)) = unat (fh_payload_length (pv_header v))"
    using h(2) m by simp
  have "ib_bytes p = packet_of (dc_expected_protocol_version ctx) (dip_message d)
      (fh_flags (pv_header v)) (fh_reserved (pv_header v))"
    unfolding packet_of_def n using h(1) m ver by simp
  then show ?r using src m ver n unat_u32_less [of "fh_payload_length (pv_header v)"] by auto
next
  assume ?r
  then obtain flags reserved where src: "dip_source d = ib_source p"
    and size: "length (message_bytes (dip_message d)) < 2 ^ 32"
    and wf: "message_wf (dc_expected_protocol_version ctx) (dip_message d)"
    and bytes: "ib_bytes p = packet_of (dc_expected_protocol_version ctx) (dip_message d) flags reserved"
    by blast
  let ?m = "dip_message d" and ?n = "word_of_nat (length (message_bytes (dip_message d))) :: u32"
  let ?h = "\<lparr> fh_message_type = ProtocolMessage_message_type ?m, fh_header_length = FIXED_HEADER_LEN,
    fh_protocol_version = dc_expected_protocol_version ctx, fh_payload_length = ?n,
    fh_flags = flags, fh_reserved = reserved \<rparr>"
  have "decode_fixed_header (ib_bytes p) = Ok \<lparr> pv_header = ?h, pv_payload = message_bytes ?m \<rparr>"
    unfolding bytes packet_of_def u16_to_le_bytes_def u32_to_le_bytes_def
    using size
    by (simp add: decode_fixed_header_cases u16_from_to_le u32_from_to_le
        message_type.try_from_code Let_def unat_u32_of_nat)
  moreover have "length (message_bytes ?m) < usize_bound"
    using size by (simp add: usize_bound_def)
  then have "decode_payload_by_message_type ctx ?h (message_bytes ?m) = Ok ?m"
    using wf size by (simp add: decode_payload_Ok_iff unat_u32_of_nat)
  ultimately show ?l
    using src by (simp add: InboundPacketDecoder_decode_def validate_protocol_version_def)
qed

lemma encoded_packet_of:
  assumes "message_wf (ec_protocol_version ctx) m" and "length (message_bytes m) < 2 ^ 32"
  shows "ProtocolMessageEncoderBoundary_encode_message ctx m []
    = Ok (packet_of (ec_protocol_version ctx) m 0 0)"
  by (simp add: encode_message_Ok [OF assms] encode_fixed_header_def packet_of_def)

section \<open>The encoder contract\<close>

text \<open>
  What the send side relies on when it is handed a \<open>MessageEncoder\<close>: no panic, and every
  message in range gives bytes the receive side decodes to that message. The protocol crate's
  encoder boundary fulfils it, so whatever is sent through \<open>encode_with\<close> arrives intact.
\<close>

locale message_encoder =
  fixes encoder :: MessageEncoder
  assumes encoder_no_panic: "encoder ctx m out \<noteq> Panicked"
    and encoder_decodes:
      "message_wf (ec_protocol_version ctx) m \<Longrightarrow> length (message_bytes m) < 2 ^ 32 \<Longrightarrow>
       \<exists>bs. encoder ctx m [] = Ok bs \<and>
         (\<forall>source. InboundPacketDecoder_decode
            \<lparr> dc_expected_protocol_version = ec_protocol_version ctx \<rparr>
            \<lparr> ib_source = source, ib_bytes = bs \<rparr>
          = Ok \<lparr> dip_source = source, dip_message = m \<rparr>)"
begin

lemma encode_with_no_panic: "OutboundPacketEncoderBoundary_encode_with encoder r \<noteq> Panicked"
  by (auto simp: OutboundPacketEncoderBoundary_encode_with_def rbind_eq_Inl_iff
      rmap_err_eq_Panic_iff encoder_no_panic)

lemma encode_with_delivers:
  assumes "message_wf (ec_protocol_version (oer_context r)) (oer_message r)"
    and "length (message_bytes (oer_message r)) < 2 ^ 32"
  shows "\<exists>packet. OutboundPacketEncoderBoundary_encode_with encoder r = Ok packet \<and>
    eop_destination packet = oer_destination r \<and>
    (\<forall>source. InboundPacketDecoder_decode
       \<lparr> dc_expected_protocol_version = ec_protocol_version (oer_context r) \<rparr>
       \<lparr> ib_source = source, ib_bytes = eop_bytes packet \<rparr>
     = Ok \<lparr> dip_source = source, dip_message = oer_message r \<rparr>)"
  using encoder_decodes [OF assms]
  by (auto simp: OutboundPacketEncoderBoundary_encode_with_def)

end

lemma length_packet_of [simp]: "length (packet_of v m f r) = 16 + length (message_bytes m)"
  by (simp add: packet_of_def)

interpretation boundary: message_encoder ProtocolMessageEncoderBoundary_encode_message
proof unfold_locales
  fix ctx :: EncodeContext and m
  assume wf: "message_wf (ec_protocol_version ctx) m" and len: "length (message_bytes m) < 2 ^ 32"
  have "InboundPacketDecoder_decode \<lparr> dc_expected_protocol_version = ec_protocol_version ctx \<rparr>
      \<lparr> ib_source = source, ib_bytes = packet_of (ec_protocol_version ctx) m 0 0 \<rparr>
    = Ok \<lparr> dip_source = source, dip_message = m \<rparr>" for source
    using wf len by (subst inbound_decode_Ok_iff) (auto simp: usize_bound_def)
  then show "\<exists>bs. ProtocolMessageEncoderBoundary_encode_message ctx m [] = Ok bs \<and>
      (\<forall>source. InboundPacketDecoder_decode
         \<lparr> dc_expected_protocol_version = ec_protocol_version ctx \<rparr>
         \<lparr> ib_source = source, ib_bytes = bs \<rparr>
       = Ok \<lparr> dip_source = source, dip_message = m \<rparr>)"
    unfolding encoded_packet_of [OF wf len] by blast
qed (simp add: encode_message_no_panic)

end
