(* ===== verification/Net_Outbound.thy ===== *)
theory Net_Outbound
  imports Net_Packets
begin

text \<open>
  The send side of crates/net-core/src/lib.rs: queue items and their lifecycle, admission and
  storage planning for a bounded queue, the checkpoints of one send-loop tick, the lifecycle
  of the continuous loop, and the log events both produce.
\<close>

section \<open>Queue items\<close>

datatype OutboundQueueItemState =
  QueueItem_Queued | QueueItem_ReadyForEncode | QueueItem_Encoded | QueueItem_Sent | QueueItem_Dropped

record QueuedOutboundItem =
  qoi_item :: OutboundQueueItem
  qoi_state :: OutboundQueueItemState

record OutboundQueueSendHandoff =
  oqsh_item :: OutboundQueueItem

definition OutboundPacketQueueBoundary_handoff :: "OutboundPacket \<Rightarrow> OutboundQueueItem" where
  "OutboundPacketQueueBoundary_handoff packet = \<lparr> oqi_packet = packet \<rparr>"

definition OutboundQueueLifecycleBoundary_hold_for_send :: "OutboundQueueItem \<Rightarrow> QueuedOutboundItem" where
  "OutboundQueueLifecycleBoundary_hold_for_send item =
     \<lparr> qoi_item = item, qoi_state = QueueItem_Queued \<rparr>"

definition OutboundQueueLifecycleBoundary_handoff_to_send_layer ::
  "QueuedOutboundItem \<Rightarrow> OutboundQueueSendHandoff" where
  "OutboundQueueLifecycleBoundary_handoff_to_send_layer queued = \<lparr> oqsh_item = qoi_item queued \<rparr>"

definition OutboundQueueLifecycleBoundary_mark_encoded ::
  "EncodedOutboundPacket \<Rightarrow> OutboundQueueItemState" where
  "OutboundQueueLifecycleBoundary_mark_encoded packet = QueueItem_Encoded"

definition OutboundQueueLifecycleBoundary_mark_send_completed :: OutboundQueueItemState where
  "OutboundQueueLifecycleBoundary_mark_send_completed = QueueItem_Sent"

definition OutboundQueueLifecycleBoundary_mark_dropped :: OutboundQueueItemState where
  "OutboundQueueLifecycleBoundary_mark_dropped = QueueItem_Dropped"

section \<open>Admission\<close>

datatype OutboundQueueItemClass = Class_Control | Class_TimeSensitiveVideo | Class_Telemetry

datatype OutboundQueueBackpressureAction =
  Backpressure_Accept | Backpressure_DropIncoming | Backpressure_DropOldestThenAccept

datatype OutboundQueueDropReason = CapacityReached

datatype OutboundQueueAdmissionDecision =
    Admission_Accepted OutboundQueueItemClass
  | Admission_DropIncoming OutboundQueueItemClass OutboundQueueDropReason
  | Admission_DropOldestThenAccept OutboundQueueItemClass OutboundQueueDropReason

record OutboundQueueCapacityPolicy =
  max_items :: nat
  control_when_full :: OutboundQueueBackpressureAction
  video_when_full :: OutboundQueueBackpressureAction
  telemetry_when_full :: OutboundQueueBackpressureAction

definition OutboundQueueCapacityPolicy_default :: OutboundQueueCapacityPolicy where
  "OutboundQueueCapacityPolicy_default =
     \<lparr> max_items = 64, control_when_full = Backpressure_DropIncoming,
       video_when_full = Backpressure_DropOldestThenAccept,
       telemetry_when_full = Backpressure_DropIncoming \<rparr>"

fun outbound_queue_item_class :: "ProtocolMessage \<Rightarrow> OutboundQueueItemClass" where
  "outbound_queue_item_class (Message_VideoFrame _) = Class_TimeSensitiveVideo"
| "outbound_queue_item_class (Message_VideoFrameFragment _) = Class_TimeSensitiveVideo"
| "outbound_queue_item_class (Message_ClientStats _) = Class_Telemetry"
| "outbound_queue_item_class (Message_AuthRequest _) = Class_Control"
| "outbound_queue_item_class (Message_AuthResponse _) = Class_Control"
| "outbound_queue_item_class (Message_Heartbeat _) = Class_Control"
| "outbound_queue_item_class (Message_HeartbeatAck _) = Class_Control"
| "outbound_queue_item_class (Message_ServerNotice _) = Class_Control"

record OutboundQueueStorageState =
  oqs_len :: nat
  oqs_capacity :: nat

definition OutboundQueueStorageState_from_policy ::
  "OutboundQueueCapacityPolicy \<Rightarrow> nat \<Rightarrow> OutboundQueueStorageState" where
  "OutboundQueueStorageState_from_policy policy len =
     \<lparr> oqs_len = len, oqs_capacity = max_items policy \<rparr>"

definition OutboundQueueStorageState_has_capacity :: "OutboundQueueStorageState \<Rightarrow> bool" where
  "OutboundQueueStorageState_has_capacity self \<longleftrightarrow> oqs_len self < oqs_capacity self"

definition OutboundQueueStorageState_is_full :: "OutboundQueueStorageState \<Rightarrow> bool" where
  "OutboundQueueStorageState_is_full self \<longleftrightarrow> \<not> OutboundQueueStorageState_has_capacity self"

record OutboundQueueStorageDecision =
  osd_state_before :: OutboundQueueStorageState
  osd_admission :: OutboundQueueAdmissionDecision

definition OutboundQueueStorageDecision_accepts_candidate :: "OutboundQueueStorageDecision \<Rightarrow> bool" where
  "OutboundQueueStorageDecision_accepts_candidate self =
     (case osd_admission self of
        Admission_Accepted _ \<Rightarrow> True
      | Admission_DropOldestThenAccept _ _ \<Rightarrow> True
      | Admission_DropIncoming _ _ \<Rightarrow> False)"

definition OutboundQueueStorageDecision_planned_len_after :: "OutboundQueueStorageDecision \<Rightarrow> nat" where
  "OutboundQueueStorageDecision_planned_len_after self =
     (case osd_admission self of
        Admission_Accepted _ \<Rightarrow> usize_saturating_add (oqs_len (osd_state_before self)) 1
      | Admission_DropIncoming _ _ \<Rightarrow> oqs_len (osd_state_before self)
      | Admission_DropOldestThenAccept _ _ \<Rightarrow> oqs_capacity (osd_state_before self))"

definition OutboundQueueAdmissionPolicyBoundary_evaluate ::
  "OutboundQueueCapacityPolicy \<Rightarrow> nat \<Rightarrow> OutboundQueueItem \<Rightarrow> OutboundQueueAdmissionDecision" where
  "OutboundQueueAdmissionPolicyBoundary_evaluate policy current_len item =
     (let item_class = outbound_queue_item_class (op_message (oqi_packet item)) in
      if current_len < max_items policy then Admission_Accepted item_class
      else
        let action = (case item_class of
            Class_Control \<Rightarrow> control_when_full policy
          | Class_TimeSensitiveVideo \<Rightarrow> video_when_full policy
          | Class_Telemetry \<Rightarrow> telemetry_when_full policy) in
        (case action of
           Backpressure_Accept \<Rightarrow> Admission_Accepted item_class
         | Backpressure_DropIncoming \<Rightarrow> Admission_DropIncoming item_class CapacityReached
         | Backpressure_DropOldestThenAccept \<Rightarrow>
             Admission_DropOldestThenAccept item_class CapacityReached))"

definition OutboundQueueStorageBoundary_evaluate_push ::
  "OutboundQueueCapacityPolicy \<Rightarrow> nat \<Rightarrow> OutboundQueueItem \<Rightarrow> OutboundQueueStorageDecision" where
  "OutboundQueueStorageBoundary_evaluate_push policy current_len item =
     \<lparr> osd_state_before = OutboundQueueStorageState_from_policy policy current_len,
       osd_admission = OutboundQueueAdmissionPolicyBoundary_evaluate policy current_len item \<rparr>"

section \<open>Send logging\<close>

datatype SendLogStage = Stage_Encode | Stage_BeforeSocketSend | Stage_SocketSend

datatype SendFailureKind =
    EncodeFailed
  | DestinationUnavailable
  | PacketTooLarge
  | SocketWouldBlock
  | SocketInterrupted
  | ConnectionRefused
  | NetworkUnreachable
  | PermissionDenied
  | OtherSocketError

datatype SendFailureDisposition = RetryCandidate | DropCandidate | WarningCandidate

fun SendFailureKind_disposition :: "SendFailureKind \<Rightarrow> SendFailureDisposition" where
  "SendFailureKind_disposition SocketWouldBlock = RetryCandidate"
| "SendFailureKind_disposition SocketInterrupted = RetryCandidate"
| "SendFailureKind_disposition EncodeFailed = DropCandidate"
| "SendFailureKind_disposition DestinationUnavailable = DropCandidate"
| "SendFailureKind_disposition PacketTooLarge = DropCandidate"
| "SendFailureKind_disposition ConnectionRefused = WarningCandidate"
| "SendFailureKind_disposition NetworkUnreachable = WarningCandidate"
| "SendFailureKind_disposition PermissionDenied = WarningCandidate"
| "SendFailureKind_disposition OtherSocketError = WarningCandidate"

record OutboundSendLogContext =
  oslc_destination :: PacketDestination
  oslc_message_type :: MessageType
  oslc_run_id :: "RunId option"
  oslc_client_id :: "ClientId option"

record SendLogEvent =
  sle_context :: OutboundSendLogContext
  sle_stage :: SendLogStage
  sle_encoded_len :: "nat option"
  sle_failure :: "SendFailureKind option"
  sle_disposition :: "SendFailureDisposition option"

fun outbound_message_ids :: "ProtocolMessage \<Rightarrow> RunId option \<times> ClientId option" where
  "outbound_message_ids (Message_AuthRequest m) = (Some (areq_run_id m), Some (areq_client_id m))"
| "outbound_message_ids (Message_AuthResponse m) = (Some (aresp_run_id m), Some (aresp_client_id m))"
| "outbound_message_ids (Message_Heartbeat m) = (Some (hb_run_id m), Some (hb_client_id m))"
| "outbound_message_ids (Message_HeartbeatAck m) = (Some (hba_run_id m), Some (hba_client_id m))"
| "outbound_message_ids (Message_VideoFrame m) = (Some (vf_run_id m), Some (vf_client_id m))"
| "outbound_message_ids (Message_VideoFrameFragment m) = (Some (vff_run_id m), Some (vff_client_id m))"
| "outbound_message_ids (Message_ClientStats m) = (Some (cs_run_id m), Some (cs_client_id m))"
| "outbound_message_ids (Message_ServerNotice m) = (Some (sn_run_id m), None)"

definition OutboundSendLogContext_from_packet :: "OutboundPacket \<Rightarrow> OutboundSendLogContext" where
  "OutboundSendLogContext_from_packet packet =
     (let (run_id, client_id) = outbound_message_ids (op_message packet) in
      \<lparr> oslc_destination = op_destination packet,
        oslc_message_type = ProtocolMessage_message_type (op_message packet),
        oslc_run_id = run_id, oslc_client_id = client_id \<rparr>)"

definition SendLogEvent_encode_succeeded :: "OutboundSendLogContext \<Rightarrow> nat \<Rightarrow> SendLogEvent" where
  "SendLogEvent_encode_succeeded log_context encoded_len =
     \<lparr> sle_context = log_context, sle_stage = Stage_Encode, sle_encoded_len = Some encoded_len,
       sle_failure = None, sle_disposition = None \<rparr>"

definition SendLogEvent_send_failed ::
  "OutboundSendLogContext \<Rightarrow> SendLogStage \<Rightarrow> nat option \<Rightarrow> SendFailureKind \<Rightarrow> SendLogEvent" where
  "SendLogEvent_send_failed log_context stage encoded_len failure =
     \<lparr> sle_context = log_context, sle_stage = stage, sle_encoded_len = encoded_len,
       sle_failure = Some failure,
       sle_disposition = Some (SendFailureKind_disposition failure) \<rparr>"

section \<open>One send-loop tick\<close>

datatype OutboundSendLoopTickState =
  Tick_ReadyForEncode | Tick_Encoded | Tick_SocketSendSucceeded | Tick_Failed

record OutboundSendLoopTickPlan =
  tick_state :: OutboundSendLoopTickState
  tick_encode_request :: OutboundEncodeRequest
  tick_log_context :: OutboundSendLogContext

record OutboundSendLoopEvent =
  ose_state :: OutboundSendLoopTickState
  ose_log_event :: "SendLogEvent option"

definition OutboundSendLoopTickBoundary_plan_encode ::
  "EncodeContext \<Rightarrow> OutboundQueueSendHandoff \<Rightarrow> OutboundSendLoopTickPlan" where
  "OutboundSendLoopTickBoundary_plan_encode log_context handoff =
     \<lparr> tick_state = Tick_ReadyForEncode,
       tick_encode_request = OutboundPacketEncoderBoundary_prepare_encode log_context (oqsh_item handoff),
       tick_log_context = OutboundSendLogContext_from_packet (oqi_packet (oqsh_item handoff)) \<rparr>"

definition OutboundSendLoopTickBoundary_observe_encode_success ::
  "OutboundSendLoopTickPlan \<Rightarrow> EncodedOutboundPacket \<Rightarrow> OutboundSendLoopEvent" where
  "OutboundSendLoopTickBoundary_observe_encode_success plan encoded =
     \<lparr> ose_state = Tick_Encoded,
       ose_log_event = Some (SendLogEvent_encode_succeeded (tick_log_context plan)
         (length (eop_bytes encoded))) \<rparr>"

definition OutboundSendLoopTickBoundary_observe_encode_failure ::
  "OutboundSendLoopTickPlan \<Rightarrow> OutboundSendLoopEvent" where
  "OutboundSendLoopTickBoundary_observe_encode_failure plan =
     \<lparr> ose_state = Tick_Failed,
       ose_log_event = Some (SendLogEvent_send_failed (tick_log_context plan) Stage_Encode None
         EncodeFailed) \<rparr>"

definition OutboundSendLoopTickBoundary_observe_socket_send_success :: OutboundSendLoopEvent where
  "OutboundSendLoopTickBoundary_observe_socket_send_success =
     \<lparr> ose_state = Tick_SocketSendSucceeded, ose_log_event = None \<rparr>"

definition OutboundSendLoopTickBoundary_observe_socket_send_failure ::
  "OutboundSendLoopTickPlan \<Rightarrow> nat \<Rightarrow> SendFailureKind \<Rightarrow> OutboundSendLoopEvent" where
  "OutboundSendLoopTickBoundary_observe_socket_send_failure plan encoded_len failure =
     \<lparr> ose_state = Tick_Failed,
       ose_log_event = Some (SendLogEvent_send_failed (tick_log_context plan) Stage_SocketSend
         (Some encoded_len) failure) \<rparr>"

section \<open>The continuous loop\<close>

datatype OutboundSendLoopLifecycleState =
  SendLoop_Stopped | SendLoop_WaitingForQueueItem | SendLoop_ProcessingOneItem | SendLoop_RetryDeferred

datatype OutboundSendLoopDequeueStatus = NoReadyItem | ReadyItem

datatype OutboundSendLoopLifecycleAction =
  SendLoop_Stop | SendLoop_WaitForQueueItem | SendLoop_ProcessOneItem | SendLoop_DeferRetry

record OutboundSendLoopLifecycleInput =
  osli_stop_requested :: bool
  osli_dequeue_status :: OutboundSendLoopDequeueStatus

record OutboundSendLoopLifecyclePlan =
  oslp_state :: OutboundSendLoopLifecycleState
  oslp_action :: OutboundSendLoopLifecycleAction

definition OutboundSendLoopLifecycleBoundary_plan_next ::
  "OutboundSendLoopLifecycleInput \<Rightarrow> OutboundSendLoopLifecyclePlan" where
  "OutboundSendLoopLifecycleBoundary_plan_next input =
     (if osli_stop_requested input
      then \<lparr> oslp_state = SendLoop_Stopped, oslp_action = SendLoop_Stop \<rparr>
      else (case osli_dequeue_status input of
        NoReadyItem \<Rightarrow>
          \<lparr> oslp_state = SendLoop_WaitingForQueueItem, oslp_action = SendLoop_WaitForQueueItem \<rparr>
      | ReadyItem \<Rightarrow>
          \<lparr> oslp_state = SendLoop_ProcessingOneItem, oslp_action = SendLoop_ProcessOneItem \<rparr>))"

definition OutboundSendLoopLifecycleBoundary_plan_after_send_failure ::
  "SendFailureDisposition \<Rightarrow> OutboundSendLoopLifecyclePlan" where
  "OutboundSendLoopLifecycleBoundary_plan_after_send_failure disposition =
     (case disposition of
        RetryCandidate \<Rightarrow>
          \<lparr> oslp_state = SendLoop_RetryDeferred, oslp_action = SendLoop_DeferRetry \<rparr>
      | _ \<Rightarrow>
          \<lparr> oslp_state = SendLoop_WaitingForQueueItem, oslp_action = SendLoop_WaitForQueueItem \<rparr>)"

section \<open>A bounded queue that follows the decisions\<close>

text \<open>
  The specification the storage decisions are made for: a queue of items that carries a
  decision out. \<open>planned_len_after\<close> is the length this queue then has.
\<close>

definition apply_decision ::
  "OutboundQueueStorageDecision \<Rightarrow> 'a \<Rightarrow> 'a list \<Rightarrow> 'a list" where
  "apply_decision decision item queue =
     (case osd_admission decision of
        Admission_Accepted _ \<Rightarrow> queue @ [item]
      | Admission_DropIncoming _ _ \<Rightarrow> queue
      | Admission_DropOldestThenAccept _ _ \<Rightarrow> tl queue @ [item])"

lemmas admission_defs =
  OutboundQueueStorageBoundary_evaluate_push_def OutboundQueueStorageState_from_policy_def
  OutboundQueueAdmissionPolicyBoundary_evaluate_def Let_def

definition never_accepts_when_full :: "OutboundQueueCapacityPolicy \<Rightarrow> bool" where
  "never_accepts_when_full policy \<longleftrightarrow>
     Backpressure_Accept \<notin>
       {control_when_full policy, video_when_full policy, telemetry_when_full policy}"

lemma default_never_accepts_when_full: "never_accepts_when_full OutboundQueueCapacityPolicy_default"
  by (simp add: never_accepts_when_full_def OutboundQueueCapacityPolicy_default_def)

lemma planned_len_is_applied_len:
  assumes "0 < max_items policy" and "length queue \<le> max_items policy"
    and "max_items policy < usize_bound" and "never_accepts_when_full policy"
  shows "OutboundQueueStorageDecision_planned_len_after
      (OutboundQueueStorageBoundary_evaluate_push policy (length queue) item)
    = length (apply_decision
        (OutboundQueueStorageBoundary_evaluate_push policy (length queue) item) item queue)"
  using assms
  by (cases "outbound_queue_item_class (op_message (oqi_packet item))")
    (auto simp: OutboundQueueStorageDecision_planned_len_after_def apply_decision_def admission_defs
      usize_saturating_add_def never_accepts_when_full_def
      split: OutboundQueueBackpressureAction.splits)

lemma applied_len_bounded:
  assumes "0 < max_items policy" and "length queue \<le> max_items policy"
    and "never_accepts_when_full policy"
  shows "length (apply_decision
      (OutboundQueueStorageBoundary_evaluate_push policy (length queue) item) item queue)
    \<le> max_items policy"
  using assms
  by (cases "outbound_queue_item_class (op_message (oqi_packet item))")
    (auto simp: apply_decision_def admission_defs never_accepts_when_full_def
      split: OutboundQueueBackpressureAction.splits)

lemma accepted_item_is_last:
  "OutboundQueueStorageDecision_accepts_candidate d \<Longrightarrow> last (apply_decision d item queue) = item"
  by (auto simp: OutboundQueueStorageDecision_accepts_candidate_def apply_decision_def
      split: OutboundQueueAdmissionDecision.splits)

text \<open>
  Over any sequence of pushes a queue that starts within the bound stays within it, and what
  it holds is a suffix of what was offered when every item is video.
\<close>

definition push_all ::
  "OutboundQueueCapacityPolicy \<Rightarrow> OutboundQueueItem list \<Rightarrow> OutboundQueueItem list \<Rightarrow> OutboundQueueItem list" where
  "push_all policy items queue =
     fold (\<lambda>item queue. apply_decision
       (OutboundQueueStorageBoundary_evaluate_push policy (length queue) item) item queue) items queue"

lemma push_all_bounded:
  assumes "0 < max_items policy" and "never_accepts_when_full policy"
    and "length queue \<le> max_items policy"
  shows "length (push_all policy items queue) \<le> max_items policy"
  using assms(3)
  by (induction items arbitrary: queue)
    (simp_all add: push_all_def applied_len_bounded assms(1,2))

section \<open>Properties\<close>

text \<open>
  An outbound queue that follows the storage decisions of a policy that never accepts
  into a full queue stays within its capacity over every sequence of pushes, and the length
  each decision plans is the length the queue then has.
\<close>

theorem outbound_queue_bounded:
  assumes "0 < max_items policy" and "max_items policy < usize_bound"
    and "never_accepts_when_full policy" and "length queue \<le> max_items policy"
  shows "length (push_all policy items queue) \<le> max_items policy \<and>
    OutboundQueueStorageDecision_planned_len_after
      (OutboundQueueStorageBoundary_evaluate_push policy (length (push_all policy items queue)) item)
    = length (push_all policy (items @ [item]) queue)"
proof -
  have bounded: "length (push_all policy items queue) \<le> max_items policy"
    by (rule push_all_bounded [OF assms(1,3,4)])
  have "push_all policy (items @ [item]) queue = apply_decision
      (OutboundQueueStorageBoundary_evaluate_push policy (length (push_all policy items queue)) item)
      item (push_all policy items queue)"
    by (simp add: push_all_def)
  with bounded planned_len_is_applied_len [OF assms(1) bounded assms(2,3)] show ?thesis by simp
qed

definition notice_item :: OutboundQueueItem where
  "notice_item = \<lparr> oqi_packet = \<lparr> op_destination = \<lparr> dst_address = SocketAddrV4 0x7F000001 5000 \<rparr>,
     op_message = Message_ServerNotice \<lparr> sn_message_type = MessageType_ServerNotice,
       sn_protocol_version = 1, sn_run_id = ''run-1'', sn_notice_type = NoticeType_Warning,
       sn_message = ''soon'' \<rparr> \<rparr> \<rparr>"

lemma outbound_queue_bounded_witness:
  "length (push_all OutboundQueueCapacityPolicy_default [notice_item, notice_item] []) \<le> 64 \<and>
   OutboundQueueStorageDecision_planned_len_after (OutboundQueueStorageBoundary_evaluate_push
     OutboundQueueCapacityPolicy_default
     (length (push_all OutboundQueueCapacityPolicy_default [notice_item, notice_item] [])) notice_item)
   = length (push_all OutboundQueueCapacityPolicy_default ([notice_item, notice_item] @ [notice_item]) [])"
  using outbound_queue_bounded [of OutboundQueueCapacityPolicy_default "[]"
      "[notice_item, notice_item]" notice_item] default_never_accepts_when_full
  by (simp add: OutboundQueueCapacityPolicy_default_def usize_bound_def)

text \<open>
  With the default policy a queue of fewer than 64 items takes every item at its end; a
  full queue gives up its oldest item for a video packet and turns control and telemetry
  packets away unchanged.
\<close>

lemma default_policy_by_class:
  "apply_decision (OutboundQueueStorageBoundary_evaluate_push OutboundQueueCapacityPolicy_default
       (length queue) item) item queue =
     (if length queue < 64 then queue @ [item]
      else if outbound_queue_item_class (op_message (oqi_packet item)) = Class_TimeSensitiveVideo
      then tl queue @ [item]
      else queue)"
  by (cases "outbound_queue_item_class (op_message (oqi_packet item))")
    (simp_all add: apply_decision_def admission_defs OutboundQueueCapacityPolicy_default_def)

end
