(* ===== verification/Timebase.thy ===== *)
theory Timebase
  imports Prelude "HOL-Library.Signed_Division"
begin

text \<open>
  crates/timebase/src/lib.rs: the plan built from a heartbeat sample, the four-timestamp RTT
  and clock-offset calculation, and the moving average that smooths its results. The code
  computes in \<open>i128\<close>; the model computes in \<open>int\<close>, with Rust's truncating
  division, and the theory proves that every intermediate value fits 128 bits.
\<close>

section \<open>Integers\<close>

definition u64_as_i128 :: "u64 \<Rightarrow> int" where
  "u64_as_i128 w = uint w"

definition i64_as_i128 :: "64 word \<Rightarrow> int" where
  "i64_as_i128 w = sint w"

definition i64_MIN :: int where "i64_MIN = - (2 ^ 63)"
definition i64_MAX :: int where "i64_MAX = 2 ^ 63 - 1"

definition i128_fits :: "int \<Rightarrow> bool" where
  "i128_fits n \<longleftrightarrow> - (2 ^ 127) \<le> n \<and> n < 2 ^ 127"

text \<open>\<open>i64::try_from\<close> and \<open>u64::try_from\<close> of an \<open>i128\<close>.\<close>

definition i64_try_from :: "int \<Rightarrow> 64 word option" where
  "i64_try_from n = (if i64_MIN \<le> n \<and> n \<le> i64_MAX then Some (word_of_int n) else None)"

definition u64_try_from :: "int \<Rightarrow> u64 option" where
  "u64_try_from n = (if 0 \<le> n \<and> n < 2 ^ 64 then Some (word_of_int n) else None)"

lemma u64_as_i128_bounds: "0 \<le> u64_as_i128 w" "u64_as_i128 w < 18446744073709551616"
  using uint_ge_0 [of w] uint_lt2p [of w] by (simp_all add: u64_as_i128_def)

lemma i64_as_i128_bounds:
  "- 9223372036854775808 \<le> i64_as_i128 w" "i64_as_i128 w < 9223372036854775808"
  using sint_range_size [of w] by (simp_all add: i64_as_i128_def word_size)

lemma u64_as_i128_eq_unat: "u64_as_i128 w = int (unat w)"
  by (simp add: u64_as_i128_def)

lemma i64_try_from_Some:
  "i64_try_from n = Some w \<longleftrightarrow> i64_MIN \<le> n \<and> n \<le> i64_MAX \<and> i64_as_i128 w = n"
proof -
  have "sint (word_of_int n :: 64 word) = n" if "i64_MIN \<le> n" "n \<le> i64_MAX"
    using that by (simp add: sint_sbintrunc' signed_take_bit_int_eq_self i64_MIN_def i64_MAX_def)
  then show ?thesis by (auto simp: i64_try_from_def i64_as_i128_def)
qed

lemma u64_as_i128_diff:
  "u64_as_i128 b \<le> u64_as_i128 a \<Longrightarrow> u64_as_i128 (a - b) = u64_as_i128 a - u64_as_i128 b"
  by (simp add: u64_as_i128_def uint_minus_simple_alt [symmetric] word_le_def)

lemma u64_try_from_Some: "u64_try_from n = Some w \<longleftrightarrow> 0 \<le> n \<and> n < 2 ^ 64 \<and> u64_as_i128 w = n"
proof -
  have "uint (word_of_int n :: u64) = n" if "0 \<le> n" "n < 2 ^ 64"
    using that by (simp add: uint_word_of_int)
  then show ?thesis by (auto simp: u64_try_from_def u64_as_i128_def)
qed

section \<open>The plan of a heartbeat sample\<close>

record HeartbeatTimebaseSample =
  hts_client_sent_at_micros :: u64
  hts_client_local_time_micros :: "u64 option"
  hts_server_received_at_micros :: u64
  hts_server_sent_at_micros :: u64

datatype RttEstimatePlan = RequiresClientAckObservation u64 u64

datatype ClockOffsetEstimatePlan =
    CandidateRequiresDelayCompensation u64 u64
  | MissingClientLocalTime

datatype OffsetSmoothingPlan = Smoothing_Deferred

record HeartbeatTimebaseEstimatePlan =
  htp_sample :: HeartbeatTimebaseSample
  htp_rtt :: RttEstimatePlan
  htp_offset :: ClockOffsetEstimatePlan
  htp_smoothing :: OffsetSmoothingPlan

definition HeartbeatTimebasePlanBoundary_build_plan ::
  "HeartbeatTimebaseSample \<Rightarrow> HeartbeatTimebaseEstimatePlan" where
  "HeartbeatTimebasePlanBoundary_build_plan sample =
     \<lparr> htp_sample = sample,
       htp_rtt = RequiresClientAckObservation (hts_client_sent_at_micros sample)
         (hts_server_sent_at_micros sample),
       htp_offset = (case hts_client_local_time_micros sample of
           Some client_time_micros \<Rightarrow>
             CandidateRequiresDelayCompensation client_time_micros
               (hts_server_received_at_micros sample)
         | None \<Rightarrow> MissingClientLocalTime),
       htp_smoothing = Smoothing_Deferred \<rparr>"

section \<open>One RTT and offset calculation\<close>

record HeartbeatExchangeObservation =
  heo_client_sent_at_micros :: u64
  heo_server_received_at_micros :: u64
  heo_server_sent_at_micros :: u64
  heo_client_received_at_micros :: u64

record HeartbeatRttOffsetEstimate =
  est_rtt_micros :: u64
  est_server_processing_micros :: u64
  est_clock_offset_micros :: "64 word"

datatype HeartbeatRttOffsetCalculationError =
    ClientReceiveBeforeSend
  | ServerSendBeforeReceive
  | RoundTripShorterThanServerProcessing
  | ClockOffsetOutOfRange

definition exchange_offset :: "HeartbeatExchangeObservation \<Rightarrow> int" where
  "exchange_offset observation =
     (let client_to_server = u64_as_i128 (heo_server_received_at_micros observation)
            - u64_as_i128 (heo_client_sent_at_micros observation);
          server_to_client = u64_as_i128 (heo_server_sent_at_micros observation)
            - u64_as_i128 (heo_client_received_at_micros observation)
      in (client_to_server + server_to_client) sdiv 2)"

definition HeartbeatRttOffsetCalculator_calculate ::
  "HeartbeatExchangeObservation \<Rightarrow>
     (HeartbeatRttOffsetEstimate, HeartbeatRttOffsetCalculationError) result" where
  "HeartbeatRttOffsetCalculator_calculate observation =
     rbind (ok_or (u64_checked_sub (heo_client_received_at_micros observation)
              (heo_client_sent_at_micros observation)) ClientReceiveBeforeSend) (\<lambda>total_client_elapsed.
     rbind (ok_or (u64_checked_sub (heo_server_sent_at_micros observation)
              (heo_server_received_at_micros observation)) ServerSendBeforeReceive) (\<lambda>server_processing.
     rbind (ok_or (u64_checked_sub total_client_elapsed server_processing)
              RoundTripShorterThanServerProcessing) (\<lambda>rtt_micros.
     rbind (ok_or (i64_try_from (exchange_offset observation)) ClockOffsetOutOfRange) (\<lambda>clock_offset_micros.
     Ok \<lparr> est_rtt_micros = rtt_micros, est_server_processing_micros = server_processing,
          est_clock_offset_micros = clock_offset_micros \<rparr>))))"

section \<open>Smoothing\<close>

definition HEARTBEAT_RTT_OFFSET_EMA_NUMERATOR :: u64 where
  "HEARTBEAT_RTT_OFFSET_EMA_NUMERATOR = 1"

definition HEARTBEAT_RTT_OFFSET_EMA_DENOMINATOR :: u64 where
  "HEARTBEAT_RTT_OFFSET_EMA_DENOMINATOR = 4"

definition ema_u64 :: "u64 \<Rightarrow> u64 \<Rightarrow> u64 \<Rightarrow> u64 \<Rightarrow> u64" where
  "ema_u64 previous latest numerator denominator =
     (if numerator = 0 \<or> denominator = 0 \<or> numerator \<ge> denominator then latest
      else
        let delta = u64_as_i128 latest - u64_as_i128 previous;
            next_value = u64_as_i128 previous
              + (delta * u64_as_i128 numerator) sdiv u64_as_i128 denominator
        in if next_value \<le> 0 then 0
           else (case u64_try_from next_value of Some w \<Rightarrow> w | None \<Rightarrow> - 1))"

definition ema_i64 :: "64 word \<Rightarrow> 64 word \<Rightarrow> u64 \<Rightarrow> u64 \<Rightarrow> 64 word" where
  "ema_i64 previous latest numerator denominator =
     (if numerator = 0 \<or> denominator = 0 \<or> numerator \<ge> denominator then latest
      else
        let next_value = i64_as_i128 previous
              + ((i64_as_i128 latest - i64_as_i128 previous) * u64_as_i128 numerator)
                  sdiv u64_as_i128 denominator
        in (case i64_try_from next_value of
              Some w \<Rightarrow> w
            | None \<Rightarrow> if next_value < 0 then word_of_int i64_MIN else word_of_int i64_MAX))"

record HeartbeatRttOffsetSmoothedEstimate =
  sm_rtt_micros :: u64
  sm_clock_offset_micros :: "64 word"
  sm_samples_applied :: u64

definition HeartbeatRttOffsetSmoothingBoundary_smooth ::
  "HeartbeatRttOffsetSmoothedEstimate option \<Rightarrow> HeartbeatRttOffsetEstimate \<Rightarrow>
     HeartbeatRttOffsetSmoothedEstimate" where
  "HeartbeatRttOffsetSmoothingBoundary_smooth previous latest =
     (case previous of
        Some previous \<Rightarrow>
          \<lparr> sm_rtt_micros = ema_u64 (sm_rtt_micros previous) (est_rtt_micros latest)
              HEARTBEAT_RTT_OFFSET_EMA_NUMERATOR HEARTBEAT_RTT_OFFSET_EMA_DENOMINATOR,
            sm_clock_offset_micros = ema_i64 (sm_clock_offset_micros previous)
              (est_clock_offset_micros latest)
              HEARTBEAT_RTT_OFFSET_EMA_NUMERATOR HEARTBEAT_RTT_OFFSET_EMA_DENOMINATOR,
            sm_samples_applied = u64_saturating_add (sm_samples_applied previous) 1 \<rparr>
      | None \<Rightarrow>
          \<lparr> sm_rtt_micros = est_rtt_micros latest,
            sm_clock_offset_micros = est_clock_offset_micros latest,
            sm_samples_applied = 1 \<rparr>)"

section \<open>The calculation\<close>

lemma exchange_offset_fits:
  "- (2 ^ 65) < exchange_offset observation \<and> exchange_offset observation < 2 ^ 65"
  unfolding exchange_offset_def Let_def signed_divide_int_def
  using u64_as_i128_bounds [of "heo_server_received_at_micros observation"]
    u64_as_i128_bounds [of "heo_client_sent_at_micros observation"]
    u64_as_i128_bounds [of "heo_server_sent_at_micros observation"]
    u64_as_i128_bounds [of "heo_client_received_at_micros observation"]
  by (auto simp: sgn_if abs_if split: if_splits)

lemma calculate_Ok_iff:
  "HeartbeatRttOffsetCalculator_calculate obs = Ok e \<longleftrightarrow>
     (let cs = unat (heo_client_sent_at_micros obs); cr = unat (heo_client_received_at_micros obs);
          sr = unat (heo_server_received_at_micros obs); ss = unat (heo_server_sent_at_micros obs) in
      cs \<le> cr \<and> sr \<le> ss \<and> ss - sr \<le> cr - cs \<and>
      i64_MIN \<le> exchange_offset obs \<and> exchange_offset obs \<le> i64_MAX \<and>
      unat (est_server_processing_micros e) = ss - sr \<and>
      unat (est_rtt_micros e) = cr - cs - (ss - sr) \<and>
      i64_as_i128 (est_clock_offset_micros e) = exchange_offset obs)"
  (is "?l \<longleftrightarrow> ?r")
proof
  show "?l \<Longrightarrow> ?r"
    by (auto simp: HeartbeatRttOffsetCalculator_calculate_def rbind_eq_Inr_iff ok_or_eq_Inr_iff
        u64_checked_sub_Some i64_try_from_Some unat_u64_diff Let_def)
  assume r: ?r
  then have r': "est_server_processing_micros e
        = heo_server_sent_at_micros obs - heo_server_received_at_micros obs"
      "est_rtt_micros e = heo_client_received_at_micros obs - heo_client_sent_at_micros obs
        - (heo_server_sent_at_micros obs - heo_server_received_at_micros obs)"
    by (simp_all add: Let_def word_unat_eq_iff unat_u64_diff)
  show ?l
    using r r' unfolding HeartbeatRttOffsetCalculator_calculate_def
    by (auto simp: rbind_eq_Inr_iff ok_or_eq_Inr_iff u64_checked_sub_Some i64_try_from_Some
        unat_u64_diff Let_def)
qed

lemma calculate_no_panic: "HeartbeatRttOffsetCalculator_calculate obs \<noteq> Panicked"
  by (auto simp: HeartbeatRttOffsetCalculator_calculate_def rbind_eq_Inl_iff ok_or_def
      split: option.splits)

text \<open>
  A symmetric exchange: the same network delay both ways and a constant offset between the
  clocks. The calculation recovers both exactly.
\<close>

lemma exchange_offset_symmetric:
  assumes "u64_as_i128 (heo_server_received_at_micros obs)
      = u64_as_i128 (heo_client_sent_at_micros obs) + delay + offset"
    and "u64_as_i128 (heo_client_received_at_micros obs)
      = u64_as_i128 (heo_server_sent_at_micros obs) - offset + delay"
  shows "exchange_offset obs = offset"
proof -
  have "(2 * n) sdiv 2 = n" for n :: int
    by (simp add: signed_divide_int_def sgn_if abs_if)
      (metis minus_minus mult_minus_right nonzero_mult_div_cancel_left zero_neq_numeral)
  then show ?thesis using assms by (simp add: exchange_offset_def Let_def)
qed

section \<open>The moving average\<close>

text \<open>Truncating division of a product with a weight below one never overshoots.\<close>

lemma sdiv_shrinks:
  fixes d n m :: int
  assumes "0 < n" and "n < m"
  shows "0 \<le> d \<Longrightarrow> 0 \<le> (d * n) sdiv m \<and> (d * n) sdiv m \<le> d"
    and "d \<le> 0 \<Longrightarrow> d \<le> (d * n) sdiv m \<and> (d * n) sdiv m \<le> 0"
proof -
  have nonneg: "0 \<le> (d * n) sdiv m \<and> (d * n) sdiv m \<le> d" if "0 \<le> d" for d
  proof -
    have "d * n \<le> d * m" using that assms by (simp add: mult_left_mono)
    then have "(d * n) div m \<le> (d * m) div m" using assms by (intro zdiv_mono1) auto
    then show ?thesis
      using that assms by (simp add: signed_divide_int_def sgn_if pos_imp_zdiv_nonneg_iff)
  qed
  show "0 \<le> d \<Longrightarrow> 0 \<le> (d * n) sdiv m \<and> (d * n) sdiv m \<le> d" by (rule nonneg)
  assume "d \<le> 0"
  then have "(d * n) sdiv m = - ((- d * n) sdiv m)"
    using assms by (cases "d = 0") (simp_all add: signed_divide_int_def sgn_mult abs_mult)
  then show "d \<le> (d * n) sdiv m \<and> (d * n) sdiv m \<le> 0"
    using nonneg [of "- d"] \<open>d \<le> 0\<close> by simp
qed

definition between :: "int \<Rightarrow> int \<Rightarrow> int \<Rightarrow> bool" where
  "between a b c \<longleftrightarrow> min a b \<le> c \<and> c \<le> max a b"

lemma ema_step_between:
  fixes p l n m :: int
  assumes "0 < n" and "n < m"
  shows "between p l (p + ((l - p) * n) sdiv m)"
  using sdiv_shrinks [OF assms, of "l - p"]
  by (cases "p \<le> l") (auto simp: between_def)

lemma u64_as_i128_0_iff: "u64_as_i128 n = 0 \<longleftrightarrow> n = 0"
  by (simp add: u64_as_i128_def uint_0_iff)

lemma u64_as_i128_less: "n < m \<longleftrightarrow> u64_as_i128 n < u64_as_i128 m"
  by (simp add: u64_as_i128_def word_less_def)

lemma ema_u64_value:
  assumes "n \<noteq> 0" and "n < m"
  shows "u64_as_i128 (ema_u64 p l n m)
    = u64_as_i128 p + ((u64_as_i128 l - u64_as_i128 p) * u64_as_i128 n) sdiv u64_as_i128 m"
    (is "_ = ?next")
proof -
  have nm: "0 < u64_as_i128 n" "u64_as_i128 n < u64_as_i128 m"
    using assms u64_as_i128_0_iff [of n] u64_as_i128_bounds(1) [of n]
    by (simp_all add: u64_as_i128_less)
  have "between (u64_as_i128 p) (u64_as_i128 l) ?next"
    by (rule ema_step_between [OF nm])
  then have range: "0 \<le> ?next" "?next < 2 ^ 64"
    using u64_as_i128_bounds [of p] u64_as_i128_bounds [of l] by (auto simp: between_def)
  then obtain w where "u64_try_from ?next = Some w" and w: "u64_as_i128 w = ?next"
    using u64_try_from_Some [of ?next] by (auto simp: u64_try_from_def)
  moreover have "m \<noteq> 0" and "\<not> m \<le> n" using assms by auto
  ultimately show ?thesis
    using assms range by (auto simp: ema_u64_def Let_def u64_as_i128_0_iff u64_as_i128_def)
qed

lemma ema_i64_value:
  assumes "n \<noteq> 0" and "n < m"
  shows "i64_as_i128 (ema_i64 p l n m)
    = i64_as_i128 p + ((i64_as_i128 l - i64_as_i128 p) * u64_as_i128 n) sdiv u64_as_i128 m"
    (is "_ = ?next")
proof -
  have nm: "0 < u64_as_i128 n" "u64_as_i128 n < u64_as_i128 m"
    using assms u64_as_i128_0_iff [of n] u64_as_i128_bounds(1) [of n]
    by (simp_all add: u64_as_i128_less)
  have "between (i64_as_i128 p) (i64_as_i128 l) ?next"
    by (rule ema_step_between [OF nm])
  then have "i64_MIN \<le> ?next" "?next \<le> i64_MAX"
    using i64_as_i128_bounds [of p] i64_as_i128_bounds [of l]
    by (auto simp: between_def i64_MIN_def i64_MAX_def)
  then obtain w where "i64_try_from ?next = Some w" and w: "i64_as_i128 w = ?next"
    using i64_try_from_Some [of ?next] by (auto simp: i64_try_from_def)
  moreover have "m \<noteq> 0" and "\<not> m \<le> n" using assms by auto
  ultimately show ?thesis
    using assms by (simp add: ema_i64_def Let_def)
qed

text \<open>
  No intermediate value of the code's \<open>i128\<close> arithmetic overflows: a difference of two
  64-bit values times a 64-bit weight needs 129 bits in general, but the weight the code uses is one.
\<close>

lemma ema_intermediate_fits:
  "i128_fits ((u64_as_i128 l - u64_as_i128 p) * u64_as_i128 HEARTBEAT_RTT_OFFSET_EMA_NUMERATOR)"
proof -
  have "u64_as_i128 HEARTBEAT_RTT_OFFSET_EMA_NUMERATOR = 1"
    by (simp add: HEARTBEAT_RTT_OFFSET_EMA_NUMERATOR_def u64_as_i128_def)
  then show ?thesis
    using u64_as_i128_bounds [of p] u64_as_i128_bounds [of l] by (simp add: i128_fits_def)
qed

lemma smooth_Some:
  "HeartbeatRttOffsetSmoothingBoundary_smooth (Some p) e = s \<Longrightarrow>
     u64_as_i128 (sm_rtt_micros s) = u64_as_i128 (sm_rtt_micros p)
       + (u64_as_i128 (est_rtt_micros e) - u64_as_i128 (sm_rtt_micros p)) sdiv 4 \<and>
     i64_as_i128 (sm_clock_offset_micros s) = i64_as_i128 (sm_clock_offset_micros p)
       + (i64_as_i128 (est_clock_offset_micros e) - i64_as_i128 (sm_clock_offset_micros p)) sdiv 4"
  using ema_u64_value [of 1 4 "sm_rtt_micros p" "est_rtt_micros e"]
    ema_i64_value [of 1 4 "sm_clock_offset_micros p" "est_clock_offset_micros e"]
  by (auto simp: HeartbeatRttOffsetSmoothingBoundary_smooth_def
      HEARTBEAT_RTT_OFFSET_EMA_NUMERATOR_def HEARTBEAT_RTT_OFFSET_EMA_DENOMINATOR_def
      u64_as_i128_def)

definition smooth_all ::
  "HeartbeatRttOffsetSmoothedEstimate option \<Rightarrow> HeartbeatRttOffsetEstimate list \<Rightarrow>
     HeartbeatRttOffsetSmoothedEstimate option" where
  "smooth_all start samples =
     fold (\<lambda>e p. Some (HeartbeatRttOffsetSmoothingBoundary_smooth p e)) samples start"

lemma ema_step_in_range:
  fixes p l :: int
  assumes "lo \<le> p" "p \<le> hi" "lo \<le> l" "l \<le> hi"
  shows "lo \<le> p + (l - p) sdiv 4 \<and> p + (l - p) sdiv 4 \<le> hi"
  using ema_step_between [of 1 4 p l] assms by (auto simp: between_def)

text \<open>The smoothed values never leave the range of the samples they were made from.\<close>

definition sample_in :: "int \<Rightarrow> int \<Rightarrow> int \<Rightarrow> int \<Rightarrow> HeartbeatRttOffsetEstimate \<Rightarrow> bool" where
  "sample_in rlo rhi olo ohi e \<longleftrightarrow>
     rlo \<le> u64_as_i128 (est_rtt_micros e) \<and> u64_as_i128 (est_rtt_micros e) \<le> rhi \<and>
     olo \<le> i64_as_i128 (est_clock_offset_micros e) \<and> i64_as_i128 (est_clock_offset_micros e) \<le> ohi"

definition smoothed_in :: "int \<Rightarrow> int \<Rightarrow> int \<Rightarrow> int \<Rightarrow> HeartbeatRttOffsetSmoothedEstimate \<Rightarrow> bool" where
  "smoothed_in rlo rhi olo ohi s \<longleftrightarrow>
     rlo \<le> u64_as_i128 (sm_rtt_micros s) \<and> u64_as_i128 (sm_rtt_micros s) \<le> rhi \<and>
     olo \<le> i64_as_i128 (sm_clock_offset_micros s) \<and> i64_as_i128 (sm_clock_offset_micros s) \<le> ohi"

lemma smooth_in_range:
  assumes "\<And>s. p = Some s \<Longrightarrow> smoothed_in rlo rhi olo ohi s" and "sample_in rlo rhi olo ohi e"
  shows "smoothed_in rlo rhi olo ohi (HeartbeatRttOffsetSmoothingBoundary_smooth p e)"
proof (cases p)
  case None
  with assms(2) show ?thesis
    by (simp add: HeartbeatRttOffsetSmoothingBoundary_smooth_def smoothed_in_def sample_in_def)
next
  case (Some s)
  then have s: "smoothed_in rlo rhi olo ohi s" using assms(1) by simp
  show ?thesis
    using smooth_Some [of s e, OF refl] Some
      ema_step_in_range [of rlo "u64_as_i128 (sm_rtt_micros s)" rhi "u64_as_i128 (est_rtt_micros e)"]
      ema_step_in_range [of olo "i64_as_i128 (sm_clock_offset_micros s)" ohi
        "i64_as_i128 (est_clock_offset_micros e)"]
      s assms(2)
    by (simp add: smoothed_in_def sample_in_def)
qed

lemma smooth_all_in_range:
  assumes "\<And>s. start = Some s \<Longrightarrow> smoothed_in rlo rhi olo ohi s"
    and "list_all (sample_in rlo rhi olo ohi) samples"
    and "smooth_all start samples = Some s"
  shows "smoothed_in rlo rhi olo ohi s"
  using assms
proof (induction samples arbitrary: start)
  case Nil
  then show ?case by (simp add: smooth_all_def)
next
  case (Cons e es)
  have "smoothed_in rlo rhi olo ohi (HeartbeatRttOffsetSmoothingBoundary_smooth start e)"
    using Cons.prems(1,2) by (intro smooth_in_range) simp_all
  then show ?case
    using Cons.IH [of "Some (HeartbeatRttOffsetSmoothingBoundary_smooth start e)"] Cons.prems(2,3)
    by (simp add: smooth_all_def)
qed

text \<open>
  A constant input: each step removes a quarter of the distance, rounded towards zero, so
  the distance never grows, shrinks while it is 4 or more, and a distance below 4 stays.
\<close>

lemma sdiv_4_step:
  fixes d :: int
  shows "\<bar>d - d sdiv 4\<bar> \<le> \<bar>d\<bar>"
    and "4 \<le> \<bar>d\<bar> \<Longrightarrow> \<bar>d - d sdiv 4\<bar> < \<bar>d\<bar>"
    and "\<bar>d\<bar> < 4 \<Longrightarrow> d sdiv 4 = 0"
  by (auto simp: signed_divide_int_def sgn_if abs_if split: if_splits)

section \<open>Properties\<close>

text \<open>
  In an exchange with the same network delay both ways and a constant clock offset the
  calculation succeeds and recovers the round-trip time, the server's processing time and the
  offset exactly.
\<close>

theorem symmetric_exchange_is_exact:
  assumes "u64_as_i128 (heo_server_received_at_micros obs)
      = u64_as_i128 (heo_client_sent_at_micros obs) + delay + offset"
    and "u64_as_i128 (heo_server_sent_at_micros obs)
      = u64_as_i128 (heo_server_received_at_micros obs) + processing"
    and "u64_as_i128 (heo_client_received_at_micros obs)
      = u64_as_i128 (heo_server_sent_at_micros obs) - offset + delay"
    and "0 \<le> delay" and "0 \<le> processing" and "i64_MIN \<le> offset" and "offset \<le> i64_MAX"
  shows "\<exists>e. HeartbeatRttOffsetCalculator_calculate obs = Ok e \<and>
    u64_as_i128 (est_rtt_micros e) = 2 * delay \<and>
    u64_as_i128 (est_server_processing_micros e) = processing \<and>
    i64_as_i128 (est_clock_offset_micros e) = offset"
proof -
  have off: "exchange_offset obs = offset"
    by (rule exchange_offset_symmetric [OF assms(1,3)])
  have sent: "u64_as_i128 (heo_client_sent_at_micros obs) \<le> u64_as_i128 (heo_client_received_at_micros obs)"
    and served: "u64_as_i128 (heo_server_received_at_micros obs) \<le> u64_as_i128 (heo_server_sent_at_micros obs)"
    using assms by linarith+
  note sub = u64_as_i128_diff
  let ?e = "\<lparr> est_rtt_micros = heo_client_received_at_micros obs - heo_client_sent_at_micros obs
        - (heo_server_sent_at_micros obs - heo_server_received_at_micros obs),
      est_server_processing_micros = heo_server_sent_at_micros obs - heo_server_received_at_micros obs,
      est_clock_offset_micros = word_of_int offset \<rparr>"
  have "HeartbeatRttOffsetCalculator_calculate obs = Ok ?e"
    using sent served assms off i64_try_from_Some [of offset] sub
    by (auto simp: HeartbeatRttOffsetCalculator_calculate_def u64_checked_sub_def word_le_def
        i64_try_from_def i64_MIN_def i64_MAX_def simp flip: u64_as_i128_def)
  then show ?thesis
    using sent served assms off sub calculate_Ok_iff [of obs ?e]
    by (intro exI [of _ ?e]) (simp add: Let_def)
qed

lemma symmetric_exchange_is_exact_witness:
  "\<exists>e. HeartbeatRttOffsetCalculator_calculate
      \<lparr> heo_client_sent_at_micros = 1000, heo_server_received_at_micros = 900,
        heo_server_sent_at_micros = 920, heo_client_received_at_micros = 1120 \<rparr> = Ok e \<and>
    u64_as_i128 (est_rtt_micros e) = 100 \<and> u64_as_i128 (est_server_processing_micros e) = 20 \<and>
    i64_as_i128 (est_clock_offset_micros e) = -150"
  using symmetric_exchange_is_exact [of
      "\<lparr> heo_client_sent_at_micros = 1000, heo_server_received_at_micros = 900,
        heo_server_sent_at_micros = 920, heo_client_received_at_micros = 1120 \<rparr>" 50 "-150" 20]
  by (simp add: u64_as_i128_def i64_MIN_def i64_MAX_def)

text \<open>
  The calculation succeeds exactly when both clocks run forward, the server's time fits
  into the round trip and the halved offset is a 64-bit value; the round-trip time then
  excludes the server's time.
\<close>

theorem calculate_succeeds_iff:
  "HeartbeatRttOffsetCalculator_calculate obs = Ok e \<longleftrightarrow>
     (let cs = unat (heo_client_sent_at_micros obs); cr = unat (heo_client_received_at_micros obs);
          sr = unat (heo_server_received_at_micros obs); ss = unat (heo_server_sent_at_micros obs) in
      cs \<le> cr \<and> sr \<le> ss \<and> ss - sr \<le> cr - cs \<and>
      i64_MIN \<le> exchange_offset obs \<and> exchange_offset obs \<le> i64_MAX \<and>
      unat (est_server_processing_micros e) = ss - sr \<and>
      unat (est_rtt_micros e) = cr - cs - (ss - sr) \<and>
      i64_as_i128 (est_clock_offset_micros e) = exchange_offset obs)"
  by (rule calculate_Ok_iff)

text \<open>
  Smoothed over any sequence of samples, round-trip time and offset stay within the range
  of the samples.
\<close>

theorem smoothing_stays_in_range:
  assumes "list_all (sample_in rlo rhi olo ohi) samples"
    and "smooth_all None samples = Some s"
  shows "smoothed_in rlo rhi olo ohi s"
  by (rule smooth_all_in_range [OF _ assms]) simp

lemma smoothing_stays_in_range_witness:
  "smoothed_in 8 100 (-4) 40 (the (smooth_all None
     [\<lparr> est_rtt_micros = 100, est_server_processing_micros = 0, est_clock_offset_micros = 40 \<rparr>,
      \<lparr> est_rtt_micros = 8, est_server_processing_micros = 0, est_clock_offset_micros = - 4 \<rparr>]))"
  by (rule smoothing_stays_in_range [of _ _ _ _
      "[\<lparr> est_rtt_micros = 100, est_server_processing_micros = 0, est_clock_offset_micros = 40 \<rparr>,
        \<lparr> est_rtt_micros = 8, est_server_processing_micros = 0, est_clock_offset_micros = - 4 \<rparr>]"])
    (simp_all add: sample_in_def u64_as_i128_def i64_as_i128_def smooth_all_def)

text \<open>
  One smoothing step never moves away from the sample. It comes strictly closer while the
  distance is at least 4 microseconds, and does not move at all below that: the average of a
  constant input can stay up to 3 microseconds away from it for ever.
\<close>

theorem smoothing_step:
  fixes p e
  defines "s \<equiv> HeartbeatRttOffsetSmoothingBoundary_smooth (Some p) e"
  defines "before \<equiv> u64_as_i128 (est_rtt_micros e) - u64_as_i128 (sm_rtt_micros p)"
  defines "after \<equiv> u64_as_i128 (est_rtt_micros e) - u64_as_i128 (sm_rtt_micros s)"
  shows "\<bar>after\<bar> \<le> \<bar>before\<bar> \<and>
    (if 4 \<le> \<bar>before\<bar> then \<bar>after\<bar> < \<bar>before\<bar> else sm_rtt_micros s = sm_rtt_micros p)"
proof -
  have stepped: "u64_as_i128 (sm_rtt_micros s) = u64_as_i128 (sm_rtt_micros p) + before sdiv 4"
    using smooth_Some [of p e s] by (simp add: s_def before_def)
  then have after: "after = before - before sdiv 4" by (simp add: after_def before_def)
  show ?thesis
  proof (cases "4 \<le> \<bar>before\<bar>")
    case False
    then have "u64_as_i128 (sm_rtt_micros s) = u64_as_i128 (sm_rtt_micros p)"
      using stepped sdiv_4_step(3) [of before] by simp
    then have "sm_rtt_micros s = sm_rtt_micros p" by (simp add: u64_as_i128_def word_uint_eq_iff)
    with False after sdiv_4_step(1) [of before] show ?thesis by simp
  qed (simp add: after sdiv_4_step)
qed

end
