(* ===== verification/Rust_Str.thy ===== *)
theory Rust_Str
  imports Prelude
begin

text \<open>
  The operations of Rust's \<open>str\<close> the sources use, on the byte-per-character strings of
  the prelude: Unicode whitespace and \<open>trim\<close>, \<open>lines\<close>, \<open>split_once\<close>,
  prefix and suffix stripping, slicing at a byte index (which panics inside a character) and
  ASCII case folding.
\<close>

section \<open>Whitespace and \<open>trim\<close>\<close>

text \<open>The UTF-8 encodings of the characters with the Unicode property \<open>White_Space\<close>.\<close>

definition whitespace_encodings :: "string list" where
  "whitespace_encodings =
     [[CHR 0x09], [CHR 0x0A], [CHR 0x0B], [CHR 0x0C], [CHR 0x0D], [CHR 0x20],
      [CHR 0xC2, CHR 0x85], [CHR 0xC2, CHR 0xA0], [CHR 0xE1, CHR 0x9A, CHR 0x80],
      [CHR 0xE2, CHR 0x80, CHR 0x80], [CHR 0xE2, CHR 0x80, CHR 0x81],
      [CHR 0xE2, CHR 0x80, CHR 0x82], [CHR 0xE2, CHR 0x80, CHR 0x83],
      [CHR 0xE2, CHR 0x80, CHR 0x84], [CHR 0xE2, CHR 0x80, CHR 0x85],
      [CHR 0xE2, CHR 0x80, CHR 0x86], [CHR 0xE2, CHR 0x80, CHR 0x87],
      [CHR 0xE2, CHR 0x80, CHR 0x88], [CHR 0xE2, CHR 0x80, CHR 0x89],
      [CHR 0xE2, CHR 0x80, CHR 0x8A], [CHR 0xE2, CHR 0x80, CHR 0xA8],
      [CHR 0xE2, CHR 0x80, CHR 0xA9], [CHR 0xE2, CHR 0x80, CHR 0xAF],
      [CHR 0xE2, CHR 0x81, CHR 0x9F], [CHR 0xE3, CHR 0x80, CHR 0x80]]"

lemma whitespace_nonempty: "w \<in> set whitespace_encodings \<Longrightarrow> w \<noteq> []"
  by (auto simp: whitespace_encodings_def)

function trim_start :: "string \<Rightarrow> string" where
  "trim_start s =
     (case find (\<lambda>w. prefix w s) whitespace_encodings of
        None \<Rightarrow> s
      | Some w \<Rightarrow> trim_start (drop (length w) s))"
  by pat_completeness auto
termination
  by (relation "measure length")
    (auto simp: find_Some_iff dest!: nth_mem whitespace_nonempty
      intro!: diff_less dest: prefix_length_le)

function trim_end :: "string \<Rightarrow> string" where
  "trim_end s =
     (case find (\<lambda>w. suffix w s) whitespace_encodings of
        None \<Rightarrow> s
      | Some w \<Rightarrow> trim_end (take (length s - length w) s))"
  by pat_completeness auto
termination
  by (relation "measure length")
    (auto simp: find_Some_iff dest!: nth_mem whitespace_nonempty
      intro!: diff_less dest: suffix_length_le)

declare trim_start.simps [simp del] trim_end.simps [simp del]

definition trim :: "string \<Rightarrow> string" where
  "trim s = trim_end (trim_start s)"

section \<open>Lines and splitting\<close>

abbreviation NEWLINE :: char where "NEWLINE \<equiv> CHR 0x0A"
abbreviation CARRIAGE_RETURN :: char where "CARRIAGE_RETURN \<equiv> CHR 0x0D"

fun split_inclusive :: "char \<Rightarrow> string \<Rightarrow> string list" where
  "split_inclusive c [] = []"
| "split_inclusive c (x # xs) =
     (if x = c then [x] # split_inclusive c xs
      else (case split_inclusive c xs of [] \<Rightarrow> [[x]] | l # ls \<Rightarrow> (x # l) # ls))"

definition strip_suffix_char :: "char \<Rightarrow> string \<Rightarrow> string option" where
  "strip_suffix_char c s = (if s \<noteq> [] \<and> last s = c then Some (butlast s) else None)"

definition strip_prefix_char :: "char \<Rightarrow> string \<Rightarrow> string option" where
  "strip_prefix_char c s = (case s of [] \<Rightarrow> None | x # xs \<Rightarrow> if x = c then Some xs else None)"

definition strip_prefix_str :: "string \<Rightarrow> string \<Rightarrow> string option" where
  "strip_prefix_str p s = (if prefix p s then Some (drop (length p) s) else None)"

definition line_of :: "string \<Rightarrow> string" where
  "line_of s =
     (case strip_suffix_char NEWLINE s of
        None \<Rightarrow> s
      | Some line \<Rightarrow>
          (case strip_suffix_char CARRIAGE_RETURN line of None \<Rightarrow> line | Some line \<Rightarrow> line))"

definition lines :: "string \<Rightarrow> string list" where
  "lines s = map line_of (split_inclusive NEWLINE s)"

fun split_once :: "char \<Rightarrow> string \<Rightarrow> (string \<times> string) option" where
  "split_once c [] = None"
| "split_once c (x # xs) =
     (if x = c then Some ([], xs)
      else map_option (\<lambda>(before, after). (x # before, after)) (split_once c xs))"

section \<open>Slicing and case folding\<close>

definition is_char_boundary :: "nat \<Rightarrow> string \<Rightarrow> bool" where
  "is_char_boundary i s \<longleftrightarrow>
     i = 0 \<or> i = length s \<or> (i < length s \<and> \<not> utf8_cont (word_of_nat (of_char (s ! i))))"

definition str_slice_to :: "string \<Rightarrow> nat \<Rightarrow> (string, 'e) result" where
  "str_slice_to s i = (if is_char_boundary i s then Ok (take i s) else Panicked)"

definition str_slice_from :: "string \<Rightarrow> nat \<Rightarrow> (string, 'e) result" where
  "str_slice_from s i = (if is_char_boundary i s then Ok (drop i s) else Panicked)"

definition to_ascii_lowercase :: "char \<Rightarrow> char" where
  "to_ascii_lowercase c =
     (if 65 \<le> (of_char c :: nat) \<and> (of_char c :: nat) \<le> 90 then char_of (of_char c + 32 :: nat) else c)"

definition eq_ignore_ascii_case :: "string \<Rightarrow> string \<Rightarrow> bool" where
  "eq_ignore_ascii_case s t \<longleftrightarrow> map to_ascii_lowercase s = map to_ascii_lowercase t"

section \<open>Facts about trimming\<close>

definition no_ws_prefix :: "string \<Rightarrow> bool" where
  "no_ws_prefix s \<longleftrightarrow> (\<forall>w \<in> set whitespace_encodings. \<not> prefix w s)"

definition no_ws_suffix :: "string \<Rightarrow> bool" where
  "no_ws_suffix s \<longleftrightarrow> (\<forall>w \<in> set whitespace_encodings. \<not> suffix w s)"

definition trimmed :: "string \<Rightarrow> bool" where
  "trimmed s \<longleftrightarrow> no_ws_prefix s \<and> no_ws_suffix s"

lemma trim_start_no_ws: "no_ws_prefix s \<Longrightarrow> trim_start s = s"
proof -
  assume "no_ws_prefix s"
  then have "find (\<lambda>w. prefix w s) whitespace_encodings = None"
    by (simp add: find_None_iff no_ws_prefix_def)
  then show ?thesis by (subst trim_start.simps) simp
qed

lemma trim_end_no_ws: "no_ws_suffix s \<Longrightarrow> trim_end s = s"
proof -
  assume "no_ws_suffix s"
  then have "find (\<lambda>w. suffix w s) whitespace_encodings = None"
    by (simp add: find_None_iff no_ws_suffix_def)
  then show ?thesis by (subst trim_end.simps) simp
qed

lemma trimmed_trim: "trimmed s \<Longrightarrow> trim s = s"
  by (simp add: trimmed_def trim_def trim_start_no_ws trim_end_no_ws)

lemma trim_start_result: "no_ws_prefix (trim_start s) \<and> suffix (trim_start s) s"
proof (induction s rule: trim_start.induct)
  case (1 s)
  show ?case
  proof (cases "find (\<lambda>w. prefix w s) whitespace_encodings")
    case None
    then have "no_ws_prefix s" by (auto simp: find_None_iff no_ws_prefix_def)
    then show ?thesis by (simp add: trim_start_no_ws)
  next
    case (Some w)
    then have "trim_start s = trim_start (drop (length w) s)" by (subst trim_start.simps) simp
    then show ?thesis using 1 [OF Some] suffix_drop [of "length w" s] suffix_order.trans by metis
  qed
qed

lemma trim_end_result: "no_ws_suffix (trim_end s) \<and> prefix (trim_end s) s"
proof (induction s rule: trim_end.induct)
  case (1 s)
  show ?case
  proof (cases "find (\<lambda>w. suffix w s) whitespace_encodings")
    case None
    then have "no_ws_suffix s" by (auto simp: find_None_iff no_ws_suffix_def)
    then show ?thesis by (simp add: trim_end_no_ws)
  next
    case (Some w)
    then have "trim_end s = trim_end (take (length s - length w) s)" by (subst trim_end.simps) simp
    then show ?thesis using 1 [OF Some] take_is_prefix prefix_order.trans by metis
  qed
qed

lemma no_ws_prefix_of_prefix: "no_ws_prefix s \<Longrightarrow> prefix t s \<Longrightarrow> no_ws_prefix t"
  by (meson no_ws_prefix_def prefix_order.trans)

lemma trim_trimmed: "trimmed (trim s)"
  using trim_start_result [of s] trim_end_result [of "trim_start s"]
  by (auto simp: trimmed_def trim_def intro: no_ws_prefix_of_prefix)

lemma trim_idem [simp]: "trim (trim s) = trim s"
  by (rule trimmed_trim [OF trim_trimmed])

lemma trim_Nil [simp]: "trim [] = []"
  by (rule trimmed_trim)
    (simp add: trimmed_def no_ws_prefix_def no_ws_suffix_def whitespace_nonempty)

lemma set_trim: "set (trim s) \<subseteq> set s"
  using trim_start_result [of s] trim_end_result [of "trim_start s"]
  by (auto simp: trim_def dest!: set_mono_suffix set_mono_prefix)

text \<open>
  The first byte of a whitespace encoding and the last one are in a short list, so a string
  whose ends are printable ASCII is not touched by \<open>trim\<close>.
\<close>

definition printable :: "char \<Rightarrow> bool" where
  "printable c \<longleftrightarrow> 0x20 < (of_char c :: nat) \<and> (of_char c :: nat) < 0x7F"

lemma whitespace_not_printable: "w \<in> set whitespace_encodings \<Longrightarrow> c \<in> set w \<Longrightarrow> \<not> printable c"
  by (auto simp: whitespace_encodings_def printable_def)

lemma no_ws_prefix_printable: "printable c \<Longrightarrow> no_ws_prefix (c # s)"
  unfolding no_ws_prefix_def
  using whitespace_nonempty whitespace_not_printable
  by (metis list.set_intros(1) prefix_Cons)

lemma no_ws_suffix_printable: "printable c \<Longrightarrow> no_ws_suffix (s @ [c])"
  unfolding no_ws_suffix_def
  using whitespace_nonempty whitespace_not_printable
  by (metis in_set_conv_decomp suffix_snoc)

lemma trim_printable_ends:
  "printable c \<Longrightarrow> printable d \<Longrightarrow> trim (c # s @ [d]) = c # s @ [d]"
  by (rule trimmed_trim)
    (use no_ws_prefix_printable [of c "s @ [d]"] no_ws_suffix_printable [of d "c # s"]
     in \<open>simp add: trimmed_def\<close>)

lemma trim_start_space: "trim_start (CHR 0x20 # s) = trim_start s"
  by (subst trim_start.simps) (simp add: whitespace_encodings_def)

lemma trim_end_space: "trim_end (s @ [CHR 0x20]) = trim_end s"
proof -
  have "find (\<lambda>w. suffix w (s @ [CHR 0x20])) whitespace_encodings = Some [CHR 0x20]"
    by (simp add: whitespace_encodings_def)
  then show ?thesis by (subst trim_end.simps) simp
qed

section \<open>Facts about lines\<close>

lemma split_inclusive_line:
  "c \<notin> set l \<Longrightarrow> split_inclusive c (l @ c # rest) = (l @ [c]) # split_inclusive c rest"
  by (induction l) auto

lemma lines_append:
  assumes "NEWLINE \<notin> set l" and "l = [] \<or> last l \<noteq> CARRIAGE_RETURN"
  shows "lines (l @ NEWLINE # rest) = l # lines rest"
  using assms
  by (auto simp: lines_def split_inclusive_line line_of_def strip_suffix_char_def)

lemma lines_Nil [simp]: "lines [] = []"
  by (simp add: lines_def)

lemma split_once_None: "c \<notin> set s \<Longrightarrow> split_once c s = None"
  by (induction s) auto

lemma split_once_append: "c \<notin> set s \<Longrightarrow> split_once c (s @ c # t) = Some (s, t)"
  by (induction s) auto

lemma split_once_Some_iff:
  "split_once c s = Some (a, b) \<longleftrightarrow> s = a @ c # b \<and> c \<notin> set a"
proof
  show "split_once c s = Some (a, b) \<Longrightarrow> s = a @ c # b \<and> c \<notin> set a"
    by (induction s arbitrary: a) (auto split: if_splits)
qed (auto simp: split_once_append)

lemma sample_trim: "trim ''frames'' = ''frames''" "trimmed ''cam-1''" "trim ''CAM_1_TOKEN'' \<noteq> []"
  by code_simp+

section \<open>Decimal numbers\<close>

text \<open>Decimal \<open>Display\<close> of an unsigned integer.\<close>

fun display_nat :: "nat \<Rightarrow> string" where
  "display_nat n =
     (if n < 10 then [char_of (48 + n)] else display_nat (n div 10) @ [char_of (48 + n mod 10)])"

declare display_nat.simps [simp del]

definition display_u64 :: "u64 \<Rightarrow> string" where
  "display_u64 w = display_nat (unat w)"

end
