(* ===== verification/Ordered_Map.thy ===== *)
theory Ordered_Map
  imports Prelude
begin

text \<open>
  \<open>std::collections::BTreeMap\<close>, as far as the sources use it: lookup, insertion,
  removal and iteration in key order. The contract is the locale \<open>ordered_map\<close>, its
  model an association list in strictly increasing key order (the order in which the code
  iterates). Strings are ordered bytewise, as Rust orders \<open>String\<close>.
\<close>

section \<open>The contract\<close>

locale ordered_map =
  fixes empty :: 'm
    and lookup :: "'m \<Rightarrow> 'k::linorder \<Rightarrow> 'v option"
    and insert :: "'k \<Rightarrow> 'v \<Rightarrow> 'm \<Rightarrow> 'm"
    and remove :: "'k \<Rightarrow> 'm \<Rightarrow> 'm"
    and entries :: "'m \<Rightarrow> ('k \<times> 'v) list"
    and inv :: "'m \<Rightarrow> bool"
  assumes inv_empty: "inv empty"
    and inv_insert: "inv m \<Longrightarrow> inv (insert k v m)"
    and inv_remove: "inv m \<Longrightarrow> inv (remove k m)"
    and lookup_empty: "lookup empty k = None"
    and lookup_insert: "inv m \<Longrightarrow> lookup (insert k v m) j = (if j = k then Some v else lookup m j)"
    and lookup_remove: "inv m \<Longrightarrow> lookup (remove k m) j = (if j = k then None else lookup m j)"
    and entries_lookup: "inv m \<Longrightarrow> (k, v) \<in> set (entries m) \<longleftrightarrow> lookup m k = Some v"
    and entries_sorted: "inv m \<Longrightarrow> sorted_wrt (<) (List.map fst (entries m))"
    and entries_inject: "inv m \<Longrightarrow> inv n \<Longrightarrow> entries m = entries n \<Longrightarrow> m = n"
begin

lemma distinct_keys: "inv m \<Longrightarrow> distinct (List.map fst (entries m))"
  using entries_sorted strict_sorted_iff by blast

text \<open>The key order makes a map a function of its lookups.\<close>

lemma extensionality:
  assumes "inv m" and "inv n" and "\<And>k. lookup m k = lookup n k"
  shows "m = n"
proof (rule entries_inject [OF assms(1,2)])
  have entries: "set (entries m) = set (entries n)"
    using assms by (auto simp: entries_lookup)
  have sd: "sorted (List.map fst (entries x)) \<and> distinct (List.map fst (entries x))" if "inv x" for x
    using entries_sorted [OF that] strict_sorted_iff by blast
  have keys: "List.map fst (entries m) = List.map fst (entries n)"
    using sd [OF assms(1)] sd [OF assms(2)] entries by (intro sorted_distinct_set_unique) simp_all
  have pair: "p = (fst p, the (lookup x (fst p)))" if "inv x" "p \<in> set (entries x)" for p x
    using that entries_lookup [of x "fst p" "snd p"] by simp
  have "List.map (\<lambda>p. (fst p, the (lookup x (fst p)))) (entries x) = entries x" if "inv x" for x
    by (rule map_idI) (rule pair [OF that, symmetric])
  then have rebuild: "List.map (\<lambda>k. (k, the (lookup x k))) (List.map fst (entries x)) = entries x"
    if "inv x" for x using that by (simp add: comp_def)
  show "entries m = entries n"
    using rebuild [OF assms(1)] rebuild [OF assms(2)] keys assms(3) by simp
qed

lemma insert_insert: "inv m \<Longrightarrow> insert k v (insert k w m) = insert k v m"
  by (rule extensionality) (simp_all add: inv_insert lookup_insert)

lemma insert_commute: "inv m \<Longrightarrow> j \<noteq> k \<Longrightarrow> insert j v (insert k w m) = insert k w (insert j v m)"
  by (rule extensionality) (simp_all add: inv_insert lookup_insert)

lemma remove_insert: "inv m \<Longrightarrow> lookup m k = None \<Longrightarrow> remove k (insert k v m) = m"
  by (rule extensionality) (simp_all add: inv_insert inv_remove lookup_insert lookup_remove)

lemma insert_same: "inv m \<Longrightarrow> lookup m k = Some v \<Longrightarrow> insert k v m = m"
  by (rule extensionality) (simp_all add: inv_insert lookup_insert)

end

section \<open>The model\<close>

type_synonym ('k, 'v) btree_map = "('k \<times> 'v) list"

definition btree_inv :: "('k::linorder, 'v) btree_map \<Rightarrow> bool" where
  "btree_inv m \<longleftrightarrow> sorted_wrt (<) (List.map fst m)"

fun btree_get :: "('k, 'v) btree_map \<Rightarrow> 'k \<Rightarrow> 'v option" where
  "btree_get [] k = None"
| "btree_get ((j, v) # m) k = (if j = k then Some v else btree_get m k)"

fun btree_insert :: "'k::linorder \<Rightarrow> 'v \<Rightarrow> ('k, 'v) btree_map \<Rightarrow> ('k, 'v) btree_map" where
  "btree_insert k v [] = [(k, v)]"
| "btree_insert k v ((j, w) # m) =
     (if k < j then (k, v) # (j, w) # m
      else if k = j then (k, v) # m
      else (j, w) # btree_insert k v m)"

definition btree_remove :: "'k \<Rightarrow> ('k, 'v) btree_map \<Rightarrow> ('k, 'v) btree_map" where
  "btree_remove k m = filter (\<lambda>(j, _). j \<noteq> k) m"

definition btree_contains_key :: "('k, 'v) btree_map \<Rightarrow> 'k \<Rightarrow> bool" where
  "btree_contains_key m k \<longleftrightarrow> btree_get m k \<noteq> None"

definition btree_values :: "('k, 'v) btree_map \<Rightarrow> 'v list" where
  "btree_values m = List.map snd m"

lemma keys_btree_insert: "fst ` set (btree_insert k v m) = insert k (fst ` set m)"
  by (induction k v m rule: btree_insert.induct) auto

lemma btree_inv_insert: "btree_inv m \<Longrightarrow> btree_inv (btree_insert k v m)"
  unfolding btree_inv_def
proof (induction k v m rule: btree_insert.induct)
  case (2 k v j w m)
  then show ?case
    using keys_btree_insert [of k v m] by (auto simp: image_iff Ball_def)
qed simp

lemma btree_inv_remove: "btree_inv m \<Longrightarrow> btree_inv (btree_remove k m)"
  by (induction m) (auto simp: btree_inv_def btree_remove_def)

lemma btree_get_None: "k \<notin> fst ` set m \<Longrightarrow> btree_get m k = None"
  by (induction m) auto

lemma btree_get_insert:
  "btree_inv m \<Longrightarrow> btree_get (btree_insert k v m) j = (if j = k then Some v else btree_get m j)"
  unfolding btree_inv_def
proof (induction k v m rule: btree_insert.induct)
  case (2 k v i w m)
  then show ?case by auto
qed simp

lemma btree_get_remove: "btree_get (btree_remove k m) j = (if j = k then None else btree_get m j)"
  by (induction m) (auto simp: btree_remove_def)

lemma btree_get_in_set: "btree_inv m \<Longrightarrow> (k, v) \<in> set m \<longleftrightarrow> btree_get m k = Some v"
  by (induction m) (force simp: btree_inv_def)+

interpretation btree: ordered_map
  "[] :: ('k::linorder, 'v) btree_map" btree_get btree_insert btree_remove "\<lambda>m. m" btree_inv
  by unfold_locales
    (simp_all add: btree_inv_insert btree_inv_remove btree_get_insert btree_get_remove
      btree_get_in_set, simp_all add: btree_inv_def)

lemma set_btree_insert: "set (btree_insert k v m) \<subseteq> insert (k, v) (set m)"
  by (induction k v m rule: btree_insert.induct) auto

text \<open>Inserting keys in increasing order appends them.\<close>

lemma btree_insert_append: "\<forall>j \<in> fst ` set m. j < k \<Longrightarrow> btree_insert k v m = m @ [(k, v)]"
  by (induction m) (auto dest: order.asym)

lemma btree_insert_last: "\<forall>j \<in> fst ` set m. j < k \<Longrightarrow> btree_insert k v (m @ [(k, w)]) = m @ [(k, v)]"
  by (induction m) (auto dest: order.asym)

lemma btree_get_append: "k \<notin> fst ` set m \<Longrightarrow> btree_get (m @ n) k = btree_get n k"
  by (induction m) auto

end
