(* ===== verification/Config_Toml.thy ===== *)
theory Config_Toml
  imports Rust_Str Ordered_Map
begin

text \<open>
  crates/config/src/lib.rs: the server's authentication section, parsed line by line from a
  TOML subset, and the checks that turn it into a whitelist with its token references. The
  parser's two mutable variables are the state threaded through \<open>parse_line\<close>. The named-pipe path
  normalisation of crates/net-core/src/lib.rs, the other client of these string operations, closes the theory.
\<close>

section \<open>Configuration data\<close>

record SecretStoreSecretRef =
  ssr_store_id :: string
  ssr_secret_id :: string
  ssr_version :: "string option"

datatype SharedTokenSecretRef =
    InlinePlaceholder string
  | EnvironmentVariable string
  | SecretStore SecretStoreSecretRef

record AllowedClientConfig =
  acc_client_id :: string
  acc_shared_token_id :: string

record SharedTokenConfig =
  stc_token_id :: string
  stc_secret_ref :: SharedTokenSecretRef

record ServerAuthConfig =
  sac_allowed_clients :: "AllowedClientConfig list"
  sac_shared_tokens :: "SharedTokenConfig list"

datatype SharedTokenRotationMode = DisabledForMvp | ManualOverlapPlaceholder u64

record SharedTokenRotationConfig =
  strc_mode :: SharedTokenRotationMode

definition SharedTokenRotationConfig_disabled_for_mvp :: SharedTokenRotationConfig where
  "SharedTokenRotationConfig_disabled_for_mvp = \<lparr> strc_mode = DisabledForMvp \<rparr>"

definition SharedTokenRotationConfig_manual_overlap_placeholder :: "u64 \<Rightarrow> SharedTokenRotationConfig" where
  "SharedTokenRotationConfig_manual_overlap_placeholder overlap_window_seconds =
     \<lparr> strc_mode = ManualOverlapPlaceholder overlap_window_seconds \<rparr>"

datatype ConfigLoadError =
    ConfigIo string string
  | InvalidTomlLine nat string
  | InvalidTomlString nat string
  | MissingAuthSection
  | NoAuthClients
  | MissingSharedToken string
  | ConflictingSharedTokenRefs string

record ParsedAuthClientToml =
  pact_shared_token :: "string option"
  pact_shared_token_env :: "string option"

record ParsedAuthToml =
  pat_saw_auth_section :: bool
  pat_clients :: "(string, ParsedAuthClientToml) btree_map"

definition ParsedAuthClientToml_default :: ParsedAuthClientToml where
  "ParsedAuthClientToml_default = \<lparr> pact_shared_token = None, pact_shared_token_env = None \<rparr>"

definition ParsedAuthToml_default :: ParsedAuthToml where
  "ParsedAuthToml_default = \<lparr> pat_saw_auth_section = False, pat_clients = [] \<rparr>"

section \<open>Parsing\<close>

definition strip_comment :: "string \<Rightarrow> string" where
  "strip_comment line = (case split_once (CHR ''#'') line of Some (before_comment, _) \<Rightarrow> before_comment
     | None \<Rightarrow> line)"

definition parse_toml_string :: "string \<Rightarrow> nat \<Rightarrow> string \<Rightarrow> (string, ConfigLoadError) result" where
  "parse_toml_string text line key =
     ok_or (Option.bind (strip_prefix_char (CHR 0x22) text) (strip_suffix_char (CHR 0x22)))
       (InvalidTomlString line key)"

text \<open>\<open>entry(key).or_default()\<close>, then a change of the entry.\<close>

definition entry_or_default ::
  "string \<Rightarrow> (ParsedAuthClientToml \<Rightarrow> ParsedAuthClientToml) \<Rightarrow>
     (string, ParsedAuthClientToml) btree_map \<Rightarrow> (string, ParsedAuthClientToml) btree_map" where
  "entry_or_default key change clients =
     btree_insert key (change (case btree_get clients key of
       Some client \<Rightarrow> client | None \<Rightarrow> ParsedAuthClientToml_default)) clients"

definition parse_section ::
  "nat \<Rightarrow> string \<Rightarrow> ParsedAuthToml \<Rightarrow> string option \<Rightarrow>
     (ParsedAuthToml \<times> string option, ConfigLoadError) result" where
  "parse_section line_number section_name parsed current_client_id =
     (if section_name = ''auth'' \<or> section_name = ''auth.clients''
      then Ok (parsed \<lparr> pat_saw_auth_section := True \<rparr>, None)
      else (case strip_prefix_str ''auth.clients.'' section_name of
        Some client_id \<Rightarrow>
          let parsed = parsed \<lparr> pat_saw_auth_section := True \<rparr> in
          if trim client_id = []
          then Error (InvalidTomlLine line_number ''auth client table name is empty'')
          else
            let client_id = trim client_id in
            Ok (parsed \<lparr> pat_clients := entry_or_default client_id (\<lambda>c. c) (pat_clients parsed) \<rparr>,
                Some client_id)
      | None \<Rightarrow> Ok (parsed, None)))"

definition parse_key_value ::
  "nat \<Rightarrow> string \<Rightarrow> string \<Rightarrow> ParsedAuthToml \<Rightarrow> string option \<Rightarrow>
     (ParsedAuthToml \<times> string option, ConfigLoadError) result" where
  "parse_key_value line_number key raw_value parsed current_client_id =
     (let key = trim key; raw_value = trim raw_value in
      case current_client_id of
        None \<Rightarrow> Ok (parsed, None)
      | Some client_id \<Rightarrow>
          if key = ''shared_token'' then
            rbind (parse_toml_string raw_value line_number key) (\<lambda>text.
            Ok (parsed \<lparr> pat_clients := entry_or_default client_id
                  (\<lambda>c. c \<lparr> pact_shared_token := Some text \<rparr>) (pat_clients parsed) \<rparr>,
                Some client_id))
          else if key = ''shared_token_env'' then
            rbind (parse_toml_string raw_value line_number key) (\<lambda>text.
            Ok (parsed \<lparr> pat_clients := entry_or_default client_id
                  (\<lambda>c. c \<lparr> pact_shared_token_env := Some text \<rparr>) (pat_clients parsed) \<rparr>,
                Some client_id))
          else Ok (parsed, Some client_id))"

definition parse_line ::
  "nat \<Rightarrow> string \<Rightarrow> ParsedAuthToml \<Rightarrow> string option \<Rightarrow>
     (ParsedAuthToml \<times> string option, ConfigLoadError) result" where
  "parse_line line_number raw_line parsed current_client_id =
     (let line = trim (strip_comment raw_line) in
      if line = [] then Ok (parsed, current_client_id)
      else (case Option.bind (strip_prefix_char (CHR ''['') line) (strip_suffix_char (CHR '']'')) of
        Some section_name \<Rightarrow> parse_section line_number section_name parsed current_client_id
      | None \<Rightarrow>
          (case split_once (CHR ''='') line of
             None \<Rightarrow> Error (InvalidTomlLine line_number ''expected key = value'')
           | Some (key, raw_value) \<Rightarrow>
               parse_key_value line_number key raw_value parsed current_client_id)))"

fun parse_lines ::
  "nat \<Rightarrow> string list \<Rightarrow> ParsedAuthToml \<Rightarrow> string option \<Rightarrow> (ParsedAuthToml, ConfigLoadError) result" where
  "parse_lines line_number [] parsed current_client_id = Ok parsed"
| "parse_lines line_number (raw_line # rest) parsed current_client_id =
     rbind (parse_line line_number raw_line parsed current_client_id) (\<lambda>(parsed, current_client_id).
     parse_lines (line_number + 1) rest parsed current_client_id)"

definition parse_auth_clients :: "string \<Rightarrow> (ParsedAuthToml, ConfigLoadError) result" where
  "parse_auth_clients input =
     rbind (parse_lines 1 (lines input) ParsedAuthToml_default None) (\<lambda>parsed.
     if \<not> pat_saw_auth_section parsed then Error MissingAuthSection else Ok parsed)"

section \<open>Loading\<close>

definition secret_ref_of :: "string \<Rightarrow> ParsedAuthClientToml \<Rightarrow> (SharedTokenSecretRef, ConfigLoadError) result" where
  "secret_ref_of client_id client =
     (case (pact_shared_token client, pact_shared_token_env client) of
        (Some _, Some _) \<Rightarrow> Error (ConflictingSharedTokenRefs client_id)
      | (Some shared_token, None) \<Rightarrow>
          if trim shared_token = [] then Error (MissingSharedToken client_id)
          else Ok (InlinePlaceholder shared_token)
      | (None, Some environment_variable) \<Rightarrow>
          if trim environment_variable = [] then Error (MissingSharedToken client_id)
          else Ok (EnvironmentVariable environment_variable)
      | (None, None) \<Rightarrow> Error (MissingSharedToken client_id))"

fun load_clients ::
  "(string \<times> ParsedAuthClientToml) list \<Rightarrow> AllowedClientConfig list \<Rightarrow> SharedTokenConfig list \<Rightarrow>
     (ServerAuthConfig, ConfigLoadError) result" where
  "load_clients [] allowed_clients shared_tokens =
     Ok \<lparr> sac_allowed_clients = allowed_clients, sac_shared_tokens = shared_tokens \<rparr>"
| "load_clients ((client_id, client) # rest) allowed_clients shared_tokens =
     rbind (secret_ref_of client_id client) (\<lambda>secret_ref.
     load_clients rest
       (allowed_clients @ [\<lparr> acc_client_id = client_id, acc_shared_token_id = client_id \<rparr>])
       (shared_tokens @ [\<lparr> stc_token_id = client_id, stc_secret_ref = secret_ref \<rparr>]))"

definition load_from_str :: "string \<Rightarrow> (ServerAuthConfig, ConfigLoadError) result" where
  "load_from_str input =
     rbind (parse_auth_clients input) (\<lambda>parsed.
     if pat_clients parsed = [] then Error NoAuthClients
     else load_clients (pat_clients parsed) [] [])"

text \<open>The file is read by the standard library; its content or its error is the argument.\<close>

definition load_server_auth_config ::
  "string \<Rightarrow> (string, string) result \<Rightarrow> (ServerAuthConfig, ConfigLoadError) result" where
  "load_server_auth_config path content =
     rbind (rmap_err (\<lambda>message. ConfigIo path message) content) load_from_str"

section \<open>The parser's invariant\<close>

lemma entry_or_default_inv: "btree_inv m \<Longrightarrow> btree_inv (entry_or_default k f m)"
  by (simp add: entry_or_default_def btree.inv_insert)

text \<open>The names a parse has seen a table for.\<close>

definition client_names :: "(string, ParsedAuthClientToml) btree_map \<Rightarrow> string set" where
  "client_names m = fst ` set m"

lemma client_names_simps [simp]:
  "client_names [] = {}"
  "client_names (entry_or_default k f m) = insert k (client_names m)"
  by (simp_all add: client_names_def entry_or_default_def keys_btree_insert)

definition parsed_ok :: "ParsedAuthToml \<Rightarrow> bool" where
  "parsed_ok parsed \<longleftrightarrow>
     btree_inv (pat_clients parsed) \<and>
     (\<forall>k \<in> client_names (pat_clients parsed). k \<noteq> [] \<and> trimmed k) \<and>
     (pat_clients parsed \<noteq> [] \<longrightarrow> pat_saw_auth_section parsed)"

definition current_ok :: "ParsedAuthToml \<Rightarrow> string option \<Rightarrow> bool" where
  "current_ok parsed current \<longleftrightarrow> (\<forall>k. current = Some k \<longrightarrow> k \<in> client_names (pat_clients parsed))"

lemma parsed_ok_saw: "parsed_ok p \<Longrightarrow> parsed_ok (p \<lparr> pat_saw_auth_section := True \<rparr>)"
  by (simp add: parsed_ok_def)

lemma current_ok_None: "current_ok p None"
  by (simp add: current_ok_def)

lemma parsed_ok_add:
  assumes "parsed_ok p" and "k \<noteq> []" and "trimmed k" and "pat_saw_auth_section q"
    and "pat_clients q = entry_or_default k f (pat_clients p)"
  shows "parsed_ok q \<and> current_ok q (Some k)"
  using assms by (simp add: parsed_ok_def current_ok_def entry_or_default_inv)

lemma current_name_ok:
  "parsed_ok p \<Longrightarrow> current_ok p (Some k) \<Longrightarrow> k \<noteq> [] \<and> trimmed k \<and> pat_saw_auth_section p"
  by (auto simp: parsed_ok_def current_ok_def)

lemma parse_section_ok:
  assumes "parsed_ok p" and "parse_section n s p cur = Ok (q, cur')"
  shows "parsed_ok q \<and> current_ok q cur'"
proof (cases "s = ''auth'' \<or> s = ''auth.clients''")
  case True
  then show ?thesis using assms
    by (auto simp: parse_section_def parsed_ok_saw current_ok_None)
next
  case False
  show ?thesis
  proof (cases "strip_prefix_str ''auth.clients.'' s")
    case None
    then show ?thesis using False assms by (simp add: parse_section_def current_ok_None)
  next
    case (Some k)
    then have "trim k \<noteq> []" and q: "cur' = Some (trim k)" "pat_saw_auth_section q"
        "pat_clients q = entry_or_default (trim k) (\<lambda>c. c) (pat_clients p)"
      using False assms(2) by (auto simp: parse_section_def Let_def split: if_splits)
    then show ?thesis using parsed_ok_add [OF assms(1) _ trim_trimmed q(2,3)] by simp
  qed
qed

lemma parse_key_value_ok:
  assumes p: "parsed_ok p" and cur: "current_ok p cur"
    and ok: "parse_key_value n k v p cur = Ok (q, cur')"
  shows "parsed_ok q \<and> current_ok q cur'"
proof (cases cur)
  case None
  then show ?thesis using p ok by (simp add: parse_key_value_def current_ok_None)
next
  case (Some c)
  then have c: "c \<noteq> [] \<and> trimmed c \<and> pat_saw_auth_section p"
    using current_name_ok p cur by simp
  have "cur' = Some c \<and> (q = p \<or> pat_saw_auth_section q = pat_saw_auth_section p \<and>
      (\<exists>f. pat_clients q = entry_or_default c f (pat_clients p)))"
    using ok Some by (auto simp: parse_key_value_def Let_def rbind_eq_Inr_iff split: if_splits)
  then show ?thesis using p cur Some c parsed_ok_add [OF p] by auto
qed

lemma parse_line_ok:
  "parsed_ok p \<Longrightarrow> current_ok p cur \<Longrightarrow> parse_line n l p cur = Ok (q, cur') \<Longrightarrow>
     parsed_ok q \<and> current_ok q cur'"
  by (auto simp: parse_line_def Let_def dest: parse_section_ok parse_key_value_ok
      split: if_splits option.splits prod.splits)

lemma parse_lines_ok:
  "parsed_ok p \<Longrightarrow> current_ok p cur \<Longrightarrow> parse_lines n ls p cur = Ok q \<Longrightarrow> parsed_ok q"
proof (induction n ls p cur rule: parse_lines.induct)
  case (2 n l ls p cur)
  then obtain p' cur' where l: "parse_line n l p cur = Ok (p', cur')"
    and rest: "parse_lines (n + 1) ls p' cur' = Ok q"
    by (auto simp: rbind_eq_Inr_iff)
  show ?case
    using "2.IH" [OF _ _ rest] parse_line_ok [OF "2.prems"(1,2) l] by simp
qed simp

lemma parse_auth_clients_ok:
  "parse_auth_clients s = Ok p \<Longrightarrow> parsed_ok p \<and> pat_saw_auth_section p"
  using parse_lines_ok [of ParsedAuthToml_default None 1 "lines s"]
  by (auto simp: parse_auth_clients_def rbind_eq_Inr_iff ParsedAuthToml_default_def parsed_ok_def
      current_ok_def btree.inv_empty split: if_splits)

section \<open>What a loaded configuration guarantees\<close>

fun secret_text :: "SharedTokenSecretRef \<Rightarrow> string" where
  "secret_text (InlinePlaceholder s) = s"
| "secret_text (EnvironmentVariable s) = s"
| "secret_text (SecretStore r) = ssr_secret_id r"

definition config_ok :: "ServerAuthConfig \<Rightarrow> bool" where
  "config_ok c \<longleftrightarrow>
     sac_allowed_clients c \<noteq> [] \<and>
     sorted_wrt (<) (map acc_client_id (sac_allowed_clients c)) \<and>
     map acc_shared_token_id (sac_allowed_clients c) = map acc_client_id (sac_allowed_clients c) \<and>
     map stc_token_id (sac_shared_tokens c) = map acc_client_id (sac_allowed_clients c) \<and>
     (\<forall>a \<in> set (sac_allowed_clients c). acc_client_id a \<noteq> [] \<and> trimmed (acc_client_id a)) \<and>
     (\<forall>t \<in> set (sac_shared_tokens c). trim (secret_text (stc_secret_ref t)) \<noteq> [] \<and>
        (\<forall>r. stc_secret_ref t \<noteq> SecretStore r))"

lemma secret_ref_of_Ok:
  "secret_ref_of k c = Ok r \<longleftrightarrow>
     (case r of
        InlinePlaceholder s \<Rightarrow> pact_shared_token c = Some s \<and> pact_shared_token_env c = None \<and> trim s \<noteq> []
      | EnvironmentVariable s \<Rightarrow> pact_shared_token c = None \<and> pact_shared_token_env c = Some s \<and> trim s \<noteq> []
      | SecretStore _ \<Rightarrow> False)"
  by (auto simp: secret_ref_of_def split: option.splits if_splits SharedTokenSecretRef.splits)

lemma load_clients_Ok:
  "load_clients cs as ts = Ok c \<Longrightarrow>
     \<exists>refs. list_all2 (\<lambda>(k, p) r. secret_ref_of k p = Ok r) cs refs \<and>
       sac_allowed_clients c = as @ map (\<lambda>(k, _). \<lparr> acc_client_id = k, acc_shared_token_id = k \<rparr>) cs \<and>
       sac_shared_tokens c = ts @ map (\<lambda>((k, _), r). \<lparr> stc_token_id = k, stc_secret_ref = r \<rparr>) (zip cs refs)"
proof (induction cs as ts rule: load_clients.induct)
  case (2 k p cs as ts)
  then obtain r where r: "secret_ref_of k p = Ok r"
    and rest: "load_clients cs (as @ [\<lparr> acc_client_id = k, acc_shared_token_id = k \<rparr>])
      (ts @ [\<lparr> stc_token_id = k, stc_secret_ref = r \<rparr>]) = Ok c"
    by (auto simp: rbind_eq_Inr_iff)
  from "2.IH" [OF rest] obtain refs where
    "list_all2 (\<lambda>(k, p) r. secret_ref_of k p = Ok r) cs refs"
    "sac_allowed_clients c = (as @ [\<lparr> acc_client_id = k, acc_shared_token_id = k \<rparr>])
       @ map (\<lambda>(k, _). \<lparr> acc_client_id = k, acc_shared_token_id = k \<rparr>) cs"
    "sac_shared_tokens c = (ts @ [\<lparr> stc_token_id = k, stc_secret_ref = r \<rparr>])
       @ map (\<lambda>((k, _), r). \<lparr> stc_token_id = k, stc_secret_ref = r \<rparr>) (zip cs refs)"
    by blast
  then show ?case using r by (intro exI [of _ "r # refs"]) simp
qed auto

lemma list_all2_zip_map_fst:
  "list_all2 P xs ys \<Longrightarrow> map (\<lambda>p. f (fst p)) (zip xs ys) = map f xs"
  by (induction rule: list_all2_induct) auto

lemma load_from_str_ok: "load_from_str s = Ok c \<Longrightarrow> config_ok c"
proof -
  assume "load_from_str s = Ok c"
  then obtain p where p: "parse_auth_clients s = Ok p" and ne: "pat_clients p \<noteq> []"
    and load: "load_clients (pat_clients p) [] [] = Ok c"
    by (auto simp: load_from_str_def rbind_eq_Inr_iff split: if_splits)
  obtain refs where refs: "list_all2 (\<lambda>(k, p) r. secret_ref_of k p = Ok r) (pat_clients p) refs"
    and a: "sac_allowed_clients c
      = map (\<lambda>(k, _). \<lparr> acc_client_id = k, acc_shared_token_id = k \<rparr>) (pat_clients p)"
    and t: "sac_shared_tokens c
      = map (\<lambda>((k, _), r). \<lparr> stc_token_id = k, stc_secret_ref = r \<rparr>) (zip (pat_clients p) refs)"
    using load_clients_Ok [OF load] by auto
  have ok: "parsed_ok p" using parse_auth_clients_ok [OF p] by simp
  have ids: "map acc_client_id (sac_allowed_clients c) = map fst (pat_clients p)"
    by (simp add: a case_prod_unfold comp_def)
  have tids: "map stc_token_id (sac_shared_tokens c) = map fst (pat_clients p)"
    using list_all2_zip_map_fst [OF refs, of fst] by (simp add: t case_prod_unfold comp_def)
  have secret: "trim (secret_text r) \<noteq> [] \<and> (\<forall>q. r \<noteq> SecretStore q)"
    if "secret_ref_of k q = Ok r" for k q r
    using that by (cases r) (simp_all add: secret_ref_of_Ok)
  have "\<forall>t \<in> set (sac_shared_tokens c). trim (secret_text (stc_secret_ref t)) \<noteq> [] \<and>
      (\<forall>r. stc_secret_ref t \<noteq> SecretStore r)"
    using refs secret by (auto simp: t list_all2_iff case_prod_unfold)
  moreover have "map acc_shared_token_id (sac_allowed_clients c) = map fst (pat_clients p)"
    by (simp add: a case_prod_unfold comp_def)
  moreover have "\<forall>a \<in> set (sac_allowed_clients c). acc_client_id a \<noteq> [] \<and> trimmed (acc_client_id a)"
    using ok by (auto simp: a parsed_ok_def client_names_def)
  ultimately show "config_ok c"
    using ids tids ne ok unfolding config_ok_def ids tids parsed_ok_def btree_inv_def
    by (auto simp: a)
qed

end
