(* ===== verification/Config_Roundtrip.thy ===== *)
theory Config_Roundtrip
  imports Config_Toml
begin

text \<open>
  The inverse direction of the configuration parser: a whitelist rendered in the layout of the
  repository's example configuration is loaded back exactly. The second part models the pipe
  path normalisation of crates/net-core/src/lib.rs, which uses the same string operations and
  whose byte-indexed slice can fall inside a character.
\<close>

section \<open>Rendering\<close>

definition secret_key :: "SharedTokenSecretRef \<Rightarrow> string" where
  "secret_key r = (case r of EnvironmentVariable _ \<Rightarrow> ''shared_token_env'' | _ \<Rightarrow> ''shared_token'')"

definition section_line :: "string \<Rightarrow> string" where
  "section_line k = ''[auth.clients.'' @ k @ '']''"

definition secret_line :: "SharedTokenSecretRef \<Rightarrow> string" where
  "secret_line r = secret_key r @ '' = '' @ [CHR 0x22] @ secret_text r @ [CHR 0x22]"

fun render_clients :: "(string \<times> SharedTokenSecretRef) list \<Rightarrow> string" where
  "render_clients [] = []"
| "render_clients ((k, r) # cs) =
     section_line k @ NEWLINE # secret_line r @ NEWLINE # render_clients cs"

definition render_config :: "(string \<times> SharedTokenSecretRef) list \<Rightarrow> string" where
  "render_config cs = ''[auth]'' @ NEWLINE # render_clients cs"

definition config_of :: "(string \<times> SharedTokenSecretRef) list \<Rightarrow> ServerAuthConfig" where
  "config_of cs =
     \<lparr> sac_allowed_clients = map (\<lambda>(k, _). \<lparr> acc_client_id = k, acc_shared_token_id = k \<rparr>) cs,
       sac_shared_tokens = map (\<lambda>(k, r). \<lparr> stc_token_id = k, stc_secret_ref = r \<rparr>) cs \<rparr>"

text \<open>What the line format can carry: no line break and no comment sign, nothing to trim in a name.\<close>

definition plain :: "string \<Rightarrow> bool" where
  "plain s \<longleftrightarrow> NEWLINE \<notin> set s \<and> CHR ''#'' \<notin> set s"

definition renderable :: "string \<times> SharedTokenSecretRef \<Rightarrow> bool" where
  "renderable c \<longleftrightarrow> (case c of (k, r) \<Rightarrow>
     k \<noteq> [] \<and> trimmed k \<and> plain k \<and> plain (secret_text r) \<and> trim (secret_text r) \<noteq> [] \<and>
     (\<forall>s. r \<noteq> SecretStore s))"

section \<open>The two lines of a client\<close>

lemma strip_comment_plain: "CHR ''#'' \<notin> set s \<Longrightarrow> strip_comment s = s"
  by (simp add: strip_comment_def split_once_None)

lemma prefix_auth_clients: "strip_prefix_str ''auth.clients.'' (''auth.clients.'' @ k) = Some k"
  by (simp only: strip_prefix_str_def) simp

lemma parse_section_line:
  assumes "k \<noteq> []" and "trimmed k" and "plain k"
  shows "parse_line n (section_line k) p cur =
    Ok (p \<lparr> pat_saw_auth_section := True,
            pat_clients := entry_or_default k (\<lambda>c. c) (pat_clients p) \<rparr>, Some k)"
proof -
  have "strip_comment (section_line k) = section_line k"
    using assms(3) by (intro strip_comment_plain) (simp add: section_line_def plain_def)
  moreover have "trim (section_line k) = section_line k"
    using trim_printable_ends [of "CHR ''[''" "CHR '']''" "''auth.clients.'' @ k"]
    by (simp add: section_line_def printable_def)
  moreover have "section_line k \<noteq> []" by (simp add: section_line_def)
  moreover have "Option.bind (strip_prefix_char (CHR ''['') (section_line k))
      (strip_suffix_char (CHR '']'')) = Some (''auth.clients.'' @ k)"
    by (simp add: section_line_def strip_prefix_char_def strip_suffix_char_def butlast_append)
  moreover have "parse_section n (''auth.clients.'' @ k) p cur =
      Ok (p \<lparr> pat_saw_auth_section := True,
              pat_clients := entry_or_default k (\<lambda>c. c) (pat_clients p) \<rparr>, Some k)"
    using assms(1) trimmed_trim [OF assms(2)] prefix_auth_clients [of k]
    by (simp add: parse_section_def)
  ultimately show ?thesis by (simp add: parse_line_def)
qed

definition set_secret :: "SharedTokenSecretRef \<Rightarrow> ParsedAuthClientToml \<Rightarrow> ParsedAuthClientToml" where
  "set_secret r c =
     (case r of
        InlinePlaceholder s \<Rightarrow> c \<lparr> pact_shared_token := Some s \<rparr>
      | EnvironmentVariable s \<Rightarrow> c \<lparr> pact_shared_token_env := Some s \<rparr>
      | SecretStore _ \<Rightarrow> c)"

lemma parse_quoted: "parse_toml_string (CHR 0x22 # s @ [CHR 0x22]) n k = Ok s"
  by (simp add: parse_toml_string_def strip_prefix_char_def strip_suffix_char_def)

lemma trim_quoted_value: "trim (CHR 0x20 # CHR 0x22 # s @ [CHR 0x22]) = CHR 0x22 # s @ [CHR 0x22]"
  using trim_printable_ends [of "CHR 0x22" "CHR 0x22" s]
  by (simp add: trim_def trim_start_space printable_def)

lemma trim_trailing_space:
  assumes "printable c" and "printable d"
  shows "trim (c # s @ d # '' '') = c # s @ [d]"
proof -
  have "trim_start (c # s @ d # '' '') = (c # s @ [d]) @ '' ''"
    using no_ws_prefix_printable [OF assms(1)] by (simp add: trim_start_no_ws)
  moreover have "trim_end (c # s @ [d]) = c # s @ [d]"
    using no_ws_suffix_printable [OF assms(2), of "c # s"] by (simp add: trim_end_no_ws)
  ultimately show ?thesis
    unfolding trim_def using trim_end_space [of "c # s @ [d]"] by simp
qed

lemma trim_key:
  assumes "k = ''shared_token'' \<or> k = ''shared_token_env''"
  shows "trim (k @ '' '') = k"
  using assms trim_trailing_space [of "CHR ''s''" "CHR ''n''" "''hared_toke''"]
    trim_trailing_space [of "CHR ''s''" "CHR ''v''" "''hared_token_en''"]
  by (auto simp: printable_def)

lemma parse_secret_line:
  assumes "plain (secret_text r)" and "\<forall>s. r \<noteq> SecretStore s"
  shows "parse_line n (secret_line r) p (Some k) =
    Ok (p \<lparr> pat_clients := entry_or_default k (set_secret r) (pat_clients p) \<rparr>, Some k)"
proof -
  have key: "secret_key r = ''shared_token'' \<or> secret_key r = ''shared_token_env''"
    by (simp add: secret_key_def split: SharedTokenSecretRef.split)
  have "strip_comment (secret_line r) = secret_line r"
    using assms(1) key by (intro strip_comment_plain) (auto simp: secret_line_def plain_def)
  moreover have "trim (secret_line r) = secret_line r"
    using key trim_printable_ends [of "CHR ''s''" "CHR 0x22" "tl (secret_key r) @ '' = '' @ [CHR 0x22] @ secret_text r"]
    by (auto simp: secret_line_def printable_def)
  moreover have "secret_line r \<noteq> []" by (simp add: secret_line_def)
  moreover have "strip_prefix_char (CHR ''['') (secret_line r) = None"
    using key by (auto simp: secret_line_def strip_prefix_char_def)
  moreover have "split_once (CHR ''='') (secret_line r)
      = Some (secret_key r @ '' '', CHR 0x20 # CHR 0x22 # secret_text r @ [CHR 0x22])"
    using key by (auto simp: secret_line_def)
  moreover have "parse_key_value n (secret_key r @ '' '') (CHR 0x20 # CHR 0x22 # secret_text r @ [CHR 0x22]) p (Some k)
      = Ok (p \<lparr> pat_clients := entry_or_default k (set_secret r) (pat_clients p) \<rparr>, Some k)"
    unfolding parse_key_value_def Let_def trim_key [OF key] trim_quoted_value parse_quoted
    using assms(2)
    by (cases r) (simp_all add: secret_key_def set_secret_def [abs_def])
  ultimately show ?thesis by (simp add: parse_line_def)
qed

section \<open>The whole file\<close>

definition parsed_client :: "SharedTokenSecretRef \<Rightarrow> ParsedAuthClientToml" where
  "parsed_client r = set_secret r ParsedAuthClientToml_default"

lemma entry_new: "\<forall>j \<in> fst ` set m. j < k \<Longrightarrow>
    entry_or_default k f m = m @ [(k, f ParsedAuthClientToml_default)]"
proof -
  assume less: "\<forall>j \<in> fst ` set m. j < k"
  then have "k \<notin> fst ` set m" by blast
  then show ?thesis by (simp add: entry_or_default_def btree_insert_append [OF less] btree_get_None)
qed

lemma entry_last: "\<forall>j \<in> fst ` set m. j < k \<Longrightarrow>
    entry_or_default k f (m @ [(k, c)]) = m @ [(k, f c)]"
proof -
  assume less: "\<forall>j \<in> fst ` set m. j < k"
  then have "k \<notin> fst ` set m" by blast
  then show ?thesis
    by (simp add: entry_or_default_def btree_insert_last [OF less] btree_get_append)
qed

lemma lines_render_client:
  assumes "renderable (k, r)"
  shows "lines (render_clients ((k, r) # cs)) = section_line k # secret_line r # lines (render_clients cs)"
proof -
  have "secret_key r = ''shared_token'' \<or> secret_key r = ''shared_token_env''"
    by (simp add: secret_key_def split: SharedTokenSecretRef.split)
  then have "NEWLINE \<notin> set (section_line k)" and "NEWLINE \<notin> set (secret_line r)"
    using assms by (auto simp: renderable_def plain_def section_line_def secret_line_def)
  moreover have "last (section_line k) \<noteq> CARRIAGE_RETURN" and "last (secret_line r) \<noteq> CARRIAGE_RETURN"
    by (simp_all add: section_line_def secret_line_def)
  ultimately show ?thesis
    by (simp add: lines_append)
qed

lemma parse_rendered_clients:
  assumes "list_all renderable cs" and "sorted_wrt (<) (map fst cs)"
    and "\<forall>j \<in> fst ` set (pat_clients p). \<forall>k \<in> fst ` set cs. j < k"
    and "pat_saw_auth_section p"
  shows "parse_lines n (lines (render_clients cs)) p cur =
    Ok (p \<lparr> pat_clients := pat_clients p @ map (\<lambda>(k, r). (k, parsed_client r)) cs \<rparr>)"
  using assms
proof (induction cs arbitrary: n p cur)
  case Nil
  then show ?case by simp
next
  case (Cons c cs)
  obtain k r where c: "c = (k, r)" by (cases c)
  have ok: "renderable (k, r)" and new: "\<forall>j \<in> fst ` set (pat_clients p). j < k"
    using Cons.prems c by auto
  let ?q = "p \<lparr> pat_clients := pat_clients p @ [(k, parsed_client r)] \<rparr>"
  have saw: "p \<lparr> pat_saw_auth_section := True \<rparr> = p" using Cons.prems(4) by simp
  have one: "parse_line n (section_line k) p cur =
      Ok (p \<lparr> pat_clients := pat_clients p @ [(k, ParsedAuthClientToml_default)] \<rparr>, Some k)"
    using ok Cons.prems(4) by (simp add: renderable_def parse_section_line entry_new [OF new])
  have two: "parse_line (n + 1) (secret_line r)
      (p \<lparr> pat_clients := pat_clients p @ [(k, ParsedAuthClientToml_default)] \<rparr>) (Some k) = Ok (?q, Some k)"
    using ok by (simp add: renderable_def parse_secret_line entry_last [OF new] parsed_client_def)
  have rest: "parse_lines (n + 1 + 1) (lines (render_clients cs)) ?q (Some k) =
      Ok (?q \<lparr> pat_clients := pat_clients ?q @ map (\<lambda>(k, r). (k, parsed_client r)) cs \<rparr>)"
    using Cons.prems c by (intro Cons.IH) auto
  show ?case
    unfolding c lines_render_client [OF ok] parse_lines.simps one
    using rest two by simp
qed

lemma load_parsed_clients:
  assumes "list_all renderable cs"
  shows "load_clients (map (\<lambda>(k, r). (k, parsed_client r)) cs) as ts =
    Ok \<lparr> sac_allowed_clients = as @ sac_allowed_clients (config_of cs),
         sac_shared_tokens = ts @ sac_shared_tokens (config_of cs) \<rparr>"
  using assms
proof (induction cs arbitrary: as ts)
  case Nil
  then show ?case by (simp add: config_of_def)
next
  case (Cons c cs)
  obtain k r where c: "c = (k, r)" by (cases c)
  have "secret_ref_of k (parsed_client r) = Ok r"
    using Cons.prems c
    by (cases r) (auto simp: renderable_def secret_ref_of_def parsed_client_def set_secret_def
        ParsedAuthClientToml_default_def)
  then show ?case using Cons by (simp add: c config_of_def)
qed

lemma parse_auth_line:
  "parse_line n ''[auth]'' p cur = Ok (p \<lparr> pat_saw_auth_section := True \<rparr>, None)"
proof -
  have "trim ''[auth]'' = ''[auth]''"
    using trim_printable_ends [of "CHR ''[''" "CHR '']''" "''auth''"] by (simp add: printable_def)
  then show ?thesis
    by (simp add: parse_line_def strip_comment_plain strip_prefix_char_def strip_suffix_char_def
        parse_section_def)
qed

lemma load_rendered:
  assumes "cs \<noteq> []" and "list_all renderable cs" and "sorted_wrt (<) (map fst cs)"
  shows "load_from_str (render_config cs) = Ok (config_of cs)"
proof -
  let ?p = "ParsedAuthToml_default \<lparr> pat_saw_auth_section := True \<rparr>"
  have "lines (render_config cs) = ''[auth]'' # lines (render_clients cs)"
    unfolding render_config_def by (rule lines_append) simp_all
  then have "parse_auth_clients (render_config cs)
      = Ok (?p \<lparr> pat_clients := map (\<lambda>(k, r). (k, parsed_client r)) cs \<rparr>)"
    using parse_rendered_clients [OF assms(2,3), of ?p]
    by (simp add: parse_auth_clients_def parse_auth_line ParsedAuthToml_default_def)
  then show ?thesis
    using assms by (simp add: load_from_str_def load_parsed_clients)
qed

section \<open>Named-pipe paths\<close>

text \<open>\<open>io::ErrorKind::InvalidInput\<close> with the message; the prefix is \<open>\\.\pipe\\<close>.\<close>

datatype PipePathError = PipePath_InvalidInput string

abbreviation BACKSLASH :: char where "BACKSLASH \<equiv> CHR 0x5C"

definition WINDOWS_LOCAL_NAMED_PIPE_PREFIX :: string where
  "WINDOWS_LOCAL_NAMED_PIPE_PREFIX = [BACKSLASH, BACKSLASH, CHR ''.'', BACKSLASH] @ ''pipe'' @ [BACKSLASH]"

definition strip_windows_local_named_pipe_prefix :: "string \<Rightarrow> (string option, PipePathError) result" where
  "strip_windows_local_named_pipe_prefix text =
     (if length text \<ge> length WINDOWS_LOCAL_NAMED_PIPE_PREFIX then
        rbind (str_slice_to text (length WINDOWS_LOCAL_NAMED_PIPE_PREFIX)) (\<lambda>head.
        if eq_ignore_ascii_case head WINDOWS_LOCAL_NAMED_PIPE_PREFIX then
          rmap Some (str_slice_from text (length WINDOWS_LOCAL_NAMED_PIPE_PREFIX))
        else Ok None)
      else Ok None)"

definition normalize_windows_local_named_pipe_path :: "string \<Rightarrow> (string, PipePathError) result" where
  "normalize_windows_local_named_pipe_path pipe_name =
     (let trimmed_name = trim pipe_name in
      if trimmed_name = [] then Error (PipePath_InvalidInput ''named pipe name must not be empty'')
      else
        rbind (strip_windows_local_named_pipe_prefix trimmed_name) (\<lambda>stripped.
        let suffix = (case stripped of None \<Rightarrow> trimmed_name | Some s \<Rightarrow> s) in
        if suffix = [] then Error (PipePath_InvalidInput ''named pipe name must not be empty'')
        else Ok (WINDOWS_LOCAL_NAMED_PIPE_PREFIX @ suffix)))"

lemma length_pipe_prefix: "length WINDOWS_LOCAL_NAMED_PIPE_PREFIX = 9"
  by (simp add: WINDOWS_LOCAL_NAMED_PIPE_PREFIX_def)

lemma eq_ignore_ascii_case_refl [simp]: "eq_ignore_ascii_case s s"
  by (simp add: eq_ignore_ascii_case_def)

text \<open>The slice panics exactly when its end is inside a character.\<close>

lemma strip_pipe_prefix_cases:
  "strip_windows_local_named_pipe_prefix s =
     (if 9 \<le> length s \<and> \<not> is_char_boundary 9 s then Panicked
      else if 9 \<le> length s \<and> eq_ignore_ascii_case (take 9 s) WINDOWS_LOCAL_NAMED_PIPE_PREFIX
      then Ok (Some (drop 9 s)) else Ok None)"
  by (simp add: strip_windows_local_named_pipe_prefix_def length_pipe_prefix str_slice_to_def
      str_slice_from_def)

lemma normalize_cases:
  "normalize_windows_local_named_pipe_path name =
     (let s = trim name in
      if s = [] then Error (PipePath_InvalidInput ''named pipe name must not be empty'')
      else if 9 \<le> length s \<and> \<not> is_char_boundary 9 s then Panicked
      else if 9 \<le> length s \<and> eq_ignore_ascii_case (take 9 s) WINDOWS_LOCAL_NAMED_PIPE_PREFIX
      then (if length s = 9 then Error (PipePath_InvalidInput ''named pipe name must not be empty'')
            else Ok (WINDOWS_LOCAL_NAMED_PIPE_PREFIX @ drop 9 s))
      else Ok (WINDOWS_LOCAL_NAMED_PIPE_PREFIX @ s))"
  unfolding normalize_windows_local_named_pipe_path_def strip_pipe_prefix_cases Let_def
  by simp

lemma normalize_panics_iff:
  "normalize_windows_local_named_pipe_path name = Panicked \<longleftrightarrow>
     9 \<le> length (trim name) \<and> \<not> is_char_boundary 9 (trim name)"
  by (auto simp: normalize_cases Let_def)

lemma suffix_of_append_printable:
  assumes "suffix w (a @ b)" and "b \<noteq> []" and "no_ws_suffix b" and "w \<in> set whitespace_encodings"
    and "a = [] \<or> printable (last a)"
  shows False
proof (cases "length w \<le> length b")
  case True
  then have "suffix w b" using assms(1) by (metis suffix_append suffix_length_suffix suffixI)
  then show False using assms(3,4) by (simp add: no_ws_suffix_def)
next
  case False
  then obtain c where c: "w = c @ b" "suffix c a" "c \<noteq> []"
    using assms(1) by (metis append_Nil le_refl suffix_append suffix_length_le)
  then have "a \<noteq> []" by auto
  moreover have "last a \<in> set w" using c by (metis UnCI last_appendR last_in_set set_append suffixE)
  ultimately show False
    using assms(4,5) whitespace_not_printable by blast
qed

lemma printable_pipe_prefix: "printable (last WINDOWS_LOCAL_NAMED_PIPE_PREFIX)"
  by (simp add: WINDOWS_LOCAL_NAMED_PIPE_PREFIX_def printable_def)

lemma trimmed_prefixed:
  assumes "b \<noteq> []" and "no_ws_suffix b"
  shows "trimmed (WINDOWS_LOCAL_NAMED_PIPE_PREFIX @ b)"
proof -
  have "no_ws_prefix (WINDOWS_LOCAL_NAMED_PIPE_PREFIX @ b)"
    using no_ws_prefix_printable [of BACKSLASH]
    by (simp add: WINDOWS_LOCAL_NAMED_PIPE_PREFIX_def printable_def)
  moreover have "no_ws_suffix (WINDOWS_LOCAL_NAMED_PIPE_PREFIX @ b)"
    unfolding no_ws_suffix_def
    using suffix_of_append_printable [OF _ assms] printable_pipe_prefix by blast
  ultimately show ?thesis by (simp add: trimmed_def)
qed

lemma no_ws_suffix_drop: "no_ws_suffix s \<Longrightarrow> no_ws_suffix (drop n s)"
  unfolding no_ws_suffix_def by (meson suffix_drop suffix_order.trans)

text \<open>A path that came out of the function is a fixed point of it.\<close>

lemma normalize_fixed_point:
  assumes "normalize_windows_local_named_pipe_path name = Ok path"
    and "is_char_boundary 9 path"
  shows "normalize_windows_local_named_pipe_path path = Ok path"
proof -
  have tr: "trimmed (trim name)" by (rule trim_trimmed)
  then have ns: "no_ws_suffix (trim name)" by (simp add: trimmed_def)
  have "\<exists>b. b \<noteq> [] \<and> no_ws_suffix b \<and> path = WINDOWS_LOCAL_NAMED_PIPE_PREFIX @ b"
    using assms(1) ns no_ws_suffix_drop [OF ns, of 9]
    by (auto simp: normalize_cases Let_def split: if_splits)
  then obtain b where b: "b \<noteq> []" "no_ws_suffix b" and path: "path = WINDOWS_LOCAL_NAMED_PIPE_PREFIX @ b"
    by blast
  have "trim path = path"
    unfolding path by (rule trimmed_trim [OF trimmed_prefixed [OF b]])
  moreover have "take 9 path = WINDOWS_LOCAL_NAMED_PIPE_PREFIX" "drop 9 path = b" "9 < length path"
    using b(1) by (simp_all add: path length_pipe_prefix)
  moreover have "path \<noteq> []" using b(1) path by simp
  ultimately show ?thesis
    using assms(2) by (simp add: normalize_cases Let_def flip: path)
qed

section \<open>Properties\<close>

text \<open>
  C38: Every configuration the loader accepts is a well-formed whitelist: it has clients, in
  strictly increasing order of their trimmed, non-empty ids, one token entry per client with
  that client's id, and every token reference has text that is not blank.
\<close>

theorem loaded_config_is_well_formed:
  assumes "load_from_str text = Ok config"
  shows "config_ok config"
  by (rule load_from_str_ok [OF assms])

definition two_clients :: "(string \<times> SharedTokenSecretRef) list" where
  "two_clients = [(''cam-1'', EnvironmentVariable ''CAM_1_TOKEN''), (''cam-2'', InlinePlaceholder ''dev'')]"

lemma two_clients_renderable: "list_all renderable two_clients" "sorted_wrt (<) (map fst two_clients)"
proof -
  have "trimmed ''cam-1'' \<and> trimmed ''cam-2'' \<and> trim ''dev'' \<noteq> [] \<and> trim ''CAM_1_TOKEN'' \<noteq> []"
    by code_simp
  then show "list_all renderable two_clients" by (simp add: two_clients_def renderable_def plain_def)
  show "sorted_wrt (<) (map fst two_clients)" by code_simp
qed

lemma loaded_config_is_well_formed_witness: "config_ok (config_of two_clients)"
  by (rule loaded_config_is_well_formed [of "render_config two_clients"], rule load_rendered)
    (use two_clients_renderable in \<open>simp_all add: two_clients_def\<close>)

text \<open>
  A whitelist written out in the layout of the example configuration is loaded back
  exactly, for ids and tokens without line breaks and comment signs.
\<close>

theorem rendered_config_loads_back:
  assumes "clients \<noteq> []" and "list_all renderable clients" and "sorted_wrt (<) (map fst clients)"
  shows "load_from_str (render_config clients) = Ok (config_of clients)"
  by (rule load_rendered [OF assms])

lemma rendered_config_loads_back_witness:
  "load_from_str (render_config two_clients) = Ok (config_of two_clients)"
  by (rule rendered_config_loads_back) (use two_clients_renderable in \<open>simp_all add: two_clients_def\<close>)

text \<open>
  A comment sign ends a line even inside a quoted value, so a token that contains one is
  not loaded; the same text without it is.
\<close>

theorem comment_sign_in_token:
  "load_from_str (''[auth.clients.a]'' @ NEWLINE # ''shared_token = '' @ [CHR 0x22] @ ''x#y'' @ [CHR 0x22])
     = Error (InvalidTomlString 2 ''shared_token'') \<and>
   load_from_str (''[auth.clients.a]'' @ NEWLINE # ''shared_token = '' @ [CHR 0x22] @ ''xy'' @ [CHR 0x22])
     = Ok (config_of [(''a'', InlinePlaceholder ''xy'')])"
  by code_simp

text \<open>
  The normalisation of a pipe name has these outcomes and no other: it rejects a name
  that is blank or only the local prefix, it panics when the ninth byte of the trimmed name
  is inside a character, and otherwise it returns the prefix followed by the name without one.
\<close>

theorem normalize_outcomes:
  "normalize_windows_local_named_pipe_path name =
     (let s = trim name in
      if s = [] then Error (PipePath_InvalidInput ''named pipe name must not be empty'')
      else if 9 \<le> length s \<and> \<not> is_char_boundary 9 s then Panicked
      else if 9 \<le> length s \<and> eq_ignore_ascii_case (take 9 s) WINDOWS_LOCAL_NAMED_PIPE_PREFIX
      then (if length s = 9 then Error (PipePath_InvalidInput ''named pipe name must not be empty'')
            else Ok (WINDOWS_LOCAL_NAMED_PIPE_PREFIX @ drop 9 s))
      else Ok (WINDOWS_LOCAL_NAMED_PIPE_PREFIX @ s))"
  by (rule normalize_cases)

text \<open>
  A legal pipe name of eight ASCII letters and a two-byte character makes the
  normalisation panic.
\<close>

theorem normalize_panics_on_multibyte_name:
  "utf8_string (''camfeed1'' @ [CHR 0xC3, CHR 0xA9]) \<and>
   normalize_windows_local_named_pipe_path (''camfeed1'' @ [CHR 0xC3, CHR 0xA9]) = Panicked"
  by code_simp

end
