(* ===== verification/Server_Auth.thy ===== *)
theory Server_Auth
  imports Net_Outbound Config_Toml
begin

text \<open>
  Authentication in apps/server/src/lib.rs: the routing of decoded packets, the preparation of
  an auth check from a request and the configured whitelist, the resolution of token
  references (the process environment is the argument \<open>env_var\<close>), the decision, and
  the flow from a request to the queued response.
\<close>

section \<open>Routing\<close>

datatype ServerDecodeErrorAction = DropPacket | RejectProtocolVersion | UnsupportedInboundMessage

definition classify_protocol_error :: "ProtocolError \<Rightarrow> ServerDecodeErrorAction" where
  "classify_protocol_error error =
     (case error of
        UnsupportedProtocolVersion _ _ \<Rightarrow> RejectProtocolVersion
      | PayloadDecodeNotImplemented _ \<Rightarrow> UnsupportedInboundMessage
      | _ \<Rightarrow> DropPacket)"

datatype ServerInboundRoute =
    Route_AuthRequest PacketSource AuthRequest
  | Route_Heartbeat PacketSource Heartbeat
  | Route_VideoFrame PacketSource VideoFrame
  | Route_VideoFrameFragment PacketSource VideoFrameFragment
  | Route_ClientStats PacketSource ClientStats
  | Route_UnsupportedForServer PacketSource MessageType ProtocolMessage

definition ServerInboundRouter_route :: "DecodedInboundPacket \<Rightarrow> ServerInboundRoute" where
  "ServerInboundRouter_route packet =
     (case dip_message packet of
        Message_AuthRequest request \<Rightarrow> Route_AuthRequest (dip_source packet) request
      | Message_Heartbeat heartbeat \<Rightarrow> Route_Heartbeat (dip_source packet) heartbeat
      | Message_VideoFrame frame \<Rightarrow> Route_VideoFrame (dip_source packet) frame
      | Message_VideoFrameFragment fragment \<Rightarrow> Route_VideoFrameFragment (dip_source packet) fragment
      | Message_ClientStats stats \<Rightarrow> Route_ClientStats (dip_source packet) stats
      | message \<Rightarrow> Route_UnsupportedForServer (dip_source packet)
          (ProtocolMessage_message_type message) message)"

fun route_source :: "ServerInboundRoute \<Rightarrow> PacketSource" where
  "route_source (Route_AuthRequest s _) = s"
| "route_source (Route_Heartbeat s _) = s"
| "route_source (Route_VideoFrame s _) = s"
| "route_source (Route_VideoFrameFragment s _) = s"
| "route_source (Route_ClientStats s _) = s"
| "route_source (Route_UnsupportedForServer s _ _) = s"

section \<open>The check and its input\<close>

record ServerAuthCheck =
  sach_source :: PacketSource
  sach_request :: AuthRequest

datatype ServerAuthBoundaryError = UnexpectedRoute MessageType

definition ServerAuthHandlerBoundary_prepare_auth_check ::
  "PacketSource \<Rightarrow> AuthRequest \<Rightarrow> ServerAuthCheck" where
  "ServerAuthHandlerBoundary_prepare_auth_check source request =
     \<lparr> sach_source = source, sach_request = request \<rparr>"

definition ServerAuthHandlerBoundary_prepare_from_route ::
  "ServerInboundRoute \<Rightarrow> (ServerAuthCheck, ServerAuthBoundaryError) result" where
  "ServerAuthHandlerBoundary_prepare_from_route route =
     (case route of
        Route_AuthRequest source request \<Rightarrow>
          Ok (ServerAuthHandlerBoundary_prepare_auth_check source request)
      | Route_Heartbeat _ _ \<Rightarrow> Error (UnexpectedRoute MessageType_Heartbeat)
      | Route_VideoFrame _ _ \<Rightarrow> Error (UnexpectedRoute MessageType_VideoFrame)
      | Route_VideoFrameFragment _ _ \<Rightarrow> Error (UnexpectedRoute MessageType_VideoFrameFragment)
      | Route_ClientStats _ _ \<Rightarrow> Error (UnexpectedRoute MessageType_ClientStats)
      | Route_UnsupportedForServer _ message_type _ \<Rightarrow> Error (UnexpectedRoute message_type))"

record ServerAllowedClientAuthInput =
  saca_client_id :: ClientId
  saca_shared_token_id :: string

record ServerSharedTokenAuthInput =
  ssta_token_id :: string
  ssta_secret_ref :: SharedTokenSecretRef

record ServerAuthCheckInput =
  saci_check :: ServerAuthCheck
  saci_allowed_clients :: "ServerAllowedClientAuthInput list"
  saci_shared_tokens :: "ServerSharedTokenAuthInput list"

definition ServerAuthConfigInputBoundary_prepare_check_input ::
  "ServerAuthCheck \<Rightarrow> ServerAuthConfig \<Rightarrow> ServerAuthCheckInput" where
  "ServerAuthConfigInputBoundary_prepare_check_input check config =
     \<lparr> saci_check = check,
       saci_allowed_clients = map (\<lambda>client. \<lparr> saca_client_id = acc_client_id client,
          saca_shared_token_id = acc_shared_token_id client \<rparr>) (sac_allowed_clients config),
       saci_shared_tokens = map (\<lambda>token. \<lparr> ssta_token_id = stc_token_id token,
          ssta_secret_ref = stc_secret_ref token \<rparr>) (sac_shared_tokens config) \<rparr>"

section \<open>Resolving token references\<close>

datatype VarError = VarError_NotPresent | VarError_NotUnicode

datatype ServerSecretResolutionError =
    MissingEnvironmentVariable string string
  | EmptyEnvironmentVariable string string
  | InvalidEnvironmentVariable string string
  | UnsupportedSecretStore string SecretStoreSecretRef

datatype ServerResolvedSharedTokenMaterial =
    Material_PoCInline string
  | Material_EnvironmentVariable string

fun ServerResolvedSharedTokenMaterial_as_str :: "ServerResolvedSharedTokenMaterial \<Rightarrow> string" where
  "ServerResolvedSharedTokenMaterial_as_str (Material_PoCInline text) = text"
| "ServerResolvedSharedTokenMaterial_as_str (Material_EnvironmentVariable text) = text"

record ServerResolvedSharedTokenAuthInput =
  srst_token_id :: string
  srst_material :: ServerResolvedSharedTokenMaterial

record ServerResolvedAuthCheckInput =
  srac_check :: ServerAuthCheck
  srac_allowed_clients :: "ServerAllowedClientAuthInput list"
  srac_shared_tokens :: "ServerResolvedSharedTokenAuthInput list"

datatype ServerSharedTokenSecretResolutionStatus =
    InlinePlaceholderAvailable
  | EnvironmentVariablePending string
  | SecretStorePending SecretStoreSecretRef

definition ServerSharedTokenAuthInput_secret_resolution_status ::
  "ServerSharedTokenAuthInput \<Rightarrow> ServerSharedTokenSecretResolutionStatus" where
  "ServerSharedTokenAuthInput_secret_resolution_status self =
     (case ssta_secret_ref self of
        InlinePlaceholder _ \<Rightarrow> InlinePlaceholderAvailable
      | EnvironmentVariable name \<Rightarrow> EnvironmentVariablePending name
      | SecretStore reference \<Rightarrow> SecretStorePending reference)"

definition ServerSecretResolverBoundary_resolve_token ::
  "(string \<Rightarrow> string + VarError) \<Rightarrow> ServerSharedTokenAuthInput \<Rightarrow>
     (ServerResolvedSharedTokenAuthInput, ServerSecretResolutionError) result" where
  "ServerSecretResolverBoundary_resolve_token env_var token =
     (case ssta_secret_ref token of
        InlinePlaceholder text \<Rightarrow>
          Ok \<lparr> srst_token_id = ssta_token_id token, srst_material = Material_PoCInline text \<rparr>
      | EnvironmentVariable name \<Rightarrow>
          (case env_var name of
             Inl text \<Rightarrow>
               if trim text = [] then Error (EmptyEnvironmentVariable (ssta_token_id token) name)
               else Ok \<lparr> srst_token_id = ssta_token_id token,
                         srst_material = Material_EnvironmentVariable text \<rparr>
           | Inr VarError_NotPresent \<Rightarrow> Error (MissingEnvironmentVariable (ssta_token_id token) name)
           | Inr VarError_NotUnicode \<Rightarrow> Error (InvalidEnvironmentVariable (ssta_token_id token) name))
      | SecretStore reference \<Rightarrow> Error (UnsupportedSecretStore (ssta_token_id token) reference))"

text \<open>\<open>collect::<Result<Vec<_>, _>>()\<close>: the first error ends it.\<close>

fun collect_results :: "('a \<Rightarrow> ('b, 'e) result) \<Rightarrow> 'a list \<Rightarrow> ('b list, 'e) result" where
  "collect_results f [] = Ok []"
| "collect_results f (x # xs) = rbind (f x) (\<lambda>y. rmap ((#) y) (collect_results f xs))"

definition ServerSecretResolverBoundary_resolve_auth_input ::
  "(string \<Rightarrow> string + VarError) \<Rightarrow> ServerAuthCheckInput \<Rightarrow>
     (ServerResolvedAuthCheckInput, ServerSecretResolutionError) result" where
  "ServerSecretResolverBoundary_resolve_auth_input env_var input =
     rbind (collect_results (ServerSecretResolverBoundary_resolve_token env_var)
              (saci_shared_tokens input)) (\<lambda>shared_tokens.
     Ok \<lparr> srac_check = saci_check input, srac_allowed_clients = saci_allowed_clients input,
          srac_shared_tokens = shared_tokens \<rparr>)"

datatype ServerSecretResolutionPlan =
    AlreadyResolved ServerResolvedSharedTokenAuthInput
  | NeedsEnvironmentVariable string string
  | NeedsSecretStore string SecretStoreSecretRef

definition ServerSecretResolverBoundary_plan_resolution ::
  "ServerSharedTokenAuthInput \<Rightarrow> ServerSecretResolutionPlan" where
  "ServerSecretResolverBoundary_plan_resolution token =
     (case ssta_secret_ref token of
        InlinePlaceholder text \<Rightarrow> AlreadyResolved
          \<lparr> srst_token_id = ssta_token_id token, srst_material = Material_PoCInline text \<rparr>
      | EnvironmentVariable name \<Rightarrow> NeedsEnvironmentVariable (ssta_token_id token) name
      | SecretStore reference \<Rightarrow> NeedsSecretStore (ssta_token_id token) reference)"

section \<open>Decisions\<close>

record ServerAuthDecision =
  sad_source :: PacketSource
  sad_client_id :: ClientId
  sad_run_id :: RunId
  sad_app_version :: "AppVersion option"
  sad_protocol_version :: ProtocolVersion
  sad_accepted :: bool
  sad_reason_code :: AuthResponseReasonCode
  sad_message :: "string option"
  sad_server_time :: "TimestampMicros option"
  sad_expected_protocol_version :: "ProtocolVersion option"

definition ServerAuthDecision_accepted ::
  "PacketSource \<Rightarrow> ClientId \<Rightarrow> RunId \<Rightarrow> ProtocolVersion \<Rightarrow> TimestampMicros option \<Rightarrow> ServerAuthDecision" where
  "ServerAuthDecision_accepted source client_id run_id protocol_version server_time =
     \<lparr> sad_source = source, sad_client_id = client_id, sad_run_id = run_id,
       sad_app_version = None, sad_protocol_version = protocol_version, sad_accepted = True,
       sad_reason_code = ReasonCode_Ok, sad_message = None, sad_server_time = server_time,
       sad_expected_protocol_version = None \<rparr>"

definition ServerAuthDecision_rejected ::
  "PacketSource \<Rightarrow> ClientId \<Rightarrow> RunId \<Rightarrow> ProtocolVersion \<Rightarrow> AuthResponseReasonCode \<Rightarrow>
     string option \<Rightarrow> ProtocolVersion option \<Rightarrow> ServerAuthDecision" where
  "ServerAuthDecision_rejected source client_id run_id protocol_version reason_code message
       expected_protocol_version =
     \<lparr> sad_source = source, sad_client_id = client_id, sad_run_id = run_id,
       sad_app_version = None, sad_protocol_version = protocol_version, sad_accepted = False,
       sad_reason_code = reason_code, sad_message = message, sad_server_time = None,
       sad_expected_protocol_version = expected_protocol_version \<rparr>"

definition ServerAuthDecision_with_app_version ::
  "AppVersion \<Rightarrow> ServerAuthDecision \<Rightarrow> ServerAuthDecision" where
  "ServerAuthDecision_with_app_version app_version self =
     self \<lparr> sad_app_version := Some app_version \<rparr>"

definition ServerAuthDecisionBoundary_decide_resolved ::
  "ServerResolvedAuthCheckInput \<Rightarrow> ServerAuthDecision" where
  "ServerAuthDecisionBoundary_decide_resolved input =
     (let request = sach_request (srac_check input);
          source = sach_source (srac_check input);
          client_id = areq_client_id request;
          run_id = areq_run_id request;
          protocol_version = areq_protocol_version request;
          app_version = areq_app_version request in
      case find (\<lambda>client. saca_client_id client = client_id) (srac_allowed_clients input) of
        None \<Rightarrow>
          ServerAuthDecision_with_app_version app_version
            (ServerAuthDecision_rejected source client_id run_id protocol_version UnknownClient
               (Some ''unknown client_id'') None)
      | Some allowed_client \<Rightarrow>
          (case find (\<lambda>token. srst_token_id token = saca_shared_token_id allowed_client)
              (srac_shared_tokens input) of
             None \<Rightarrow>
               ServerAuthDecision_with_app_version app_version
                 (ServerAuthDecision_rejected source client_id run_id protocol_version InternalError
                    (Some ''configured token reference was not found'') None)
           | Some shared_token \<Rightarrow>
               if areq_shared_token request
                    = ServerResolvedSharedTokenMaterial_as_str (srst_material shared_token)
               then ServerAuthDecision_with_app_version app_version
                 (ServerAuthDecision_accepted source client_id run_id protocol_version None)
               else ServerAuthDecision_with_app_version app_version
                 (ServerAuthDecision_rejected source client_id run_id protocol_version InvalidToken
                    (Some ''invalid shared_token'') None)))"

definition secret_resolution_error_message :: "ServerSecretResolutionError \<Rightarrow> string" where
  "secret_resolution_error_message error =
     (case error of
        MissingEnvironmentVariable _ _ \<Rightarrow> ''token secret environment variable is missing''
      | EmptyEnvironmentVariable _ _ \<Rightarrow> ''token secret environment variable is empty''
      | InvalidEnvironmentVariable _ _ \<Rightarrow> ''token secret environment variable is invalid''
      | UnsupportedSecretStore _ _ \<Rightarrow> ''token secret store reference is not supported'')"

definition ServerAuthDecisionBoundary_reject_secret_resolution_error ::
  "ServerAuthCheck \<Rightarrow> ServerSecretResolutionError \<Rightarrow> ServerAuthDecision" where
  "ServerAuthDecisionBoundary_reject_secret_resolution_error check error =
     ServerAuthDecision_with_app_version (areq_app_version (sach_request check))
       (ServerAuthDecision_rejected (sach_source check) (areq_client_id (sach_request check))
          (areq_run_id (sach_request check)) (areq_protocol_version (sach_request check))
          InternalError (Some (secret_resolution_error_message error)) None)"

definition ServerAuthDecisionBoundary_decide :: "ServerAuthCheckInput \<Rightarrow> ServerAuthDecision" where
  "ServerAuthDecisionBoundary_decide input =
     (let request = sach_request (saci_check input);
          source = sach_source (saci_check input);
          client_id = areq_client_id request;
          run_id = areq_run_id request;
          protocol_version = areq_protocol_version request;
          app_version = areq_app_version request in
      case find (\<lambda>client. saca_client_id client = client_id) (saci_allowed_clients input) of
        None \<Rightarrow>
          ServerAuthDecision_with_app_version app_version
            (ServerAuthDecision_rejected source client_id run_id protocol_version UnknownClient
               (Some ''unknown client_id'') None)
      | Some allowed_client \<Rightarrow>
          (case find (\<lambda>token. ssta_token_id token = saca_shared_token_id allowed_client)
              (saci_shared_tokens input) of
             None \<Rightarrow>
               ServerAuthDecision_with_app_version app_version
                 (ServerAuthDecision_rejected source client_id run_id protocol_version InternalError
                    (Some ''configured token reference was not found'') None)
           | Some shared_token \<Rightarrow>
               (case ssta_secret_ref shared_token of
                  InlinePlaceholder expected_token \<Rightarrow>
                    if areq_shared_token request = expected_token
                    then ServerAuthDecision_with_app_version app_version
                      (ServerAuthDecision_accepted source client_id run_id protocol_version None)
                    else ServerAuthDecision_with_app_version app_version
                      (ServerAuthDecision_rejected source client_id run_id protocol_version
                         InvalidToken (Some ''invalid shared_token'') None)
                | _ \<Rightarrow>
                    ServerAuthDecision_with_app_version app_version
                      (ServerAuthDecision_rejected source client_id run_id protocol_version
                         InternalError (Some ''token secret is not resolved'') None))))"

datatype ServerSharedTokenRotationPlan =
  RotationPlan_DisabledForMvp | RotationPlan_ManualOverlapPlaceholder u64

definition ServerSharedTokenRotationBoundary_plan ::
  "SharedTokenRotationConfig \<Rightarrow> ServerSharedTokenRotationPlan" where
  "ServerSharedTokenRotationBoundary_plan config =
     (case strc_mode config of
        DisabledForMvp \<Rightarrow> RotationPlan_DisabledForMvp
      | ManualOverlapPlaceholder overlap_window_seconds \<Rightarrow>
          RotationPlan_ManualOverlapPlaceholder overlap_window_seconds)"

section \<open>Summaries, logs and responses\<close>

datatype ServerOperationalConditionStatus =
  Status_Continue | Status_Reject | Status_ReconnectRequired | Status_InvestigationRequired

datatype ServerAuthOperationalReason =
    AuthReason_Accepted
  | AuthReason_InvalidToken
  | AuthReason_UnknownClient
  | AuthReason_ProtocolMismatch
  | AuthReason_AlreadyConnected
  | AuthReason_InternalError

record ServerAuthOperationalSummary =
  saos_status :: ServerOperationalConditionStatus
  saos_client_id :: ClientId
  saos_run_id :: RunId
  saos_reason :: ServerAuthOperationalReason

definition auth_operational_summary_from_decision ::
  "ServerAuthDecision \<Rightarrow> ServerAuthOperationalSummary" where
  "auth_operational_summary_from_decision decision =
     (let reason = (case sad_reason_code decision of
            ReasonCode_Ok \<Rightarrow> AuthReason_Accepted
          | InvalidToken \<Rightarrow> AuthReason_InvalidToken
          | UnknownClient \<Rightarrow> AuthReason_UnknownClient
          | ProtocolMismatch \<Rightarrow> AuthReason_ProtocolMismatch
          | AlreadyConnected \<Rightarrow> AuthReason_AlreadyConnected
          | InternalError \<Rightarrow> AuthReason_InternalError);
          status = (case sad_reason_code decision of
            ReasonCode_Ok \<Rightarrow> Status_Continue
          | InternalError \<Rightarrow> Status_InvestigationRequired
          | _ \<Rightarrow> Status_Reject) in
      \<lparr> saos_status = status, saos_client_id = sad_client_id decision,
        saos_run_id = sad_run_id decision, saos_reason = reason \<rparr>)"

datatype ServerAuthLogOutcome = AuthLog_Success | AuthLog_Failure

record ServerAuthLogInput =
  sali_source :: PacketSource
  sali_client_id :: ClientId
  sali_run_id :: RunId
  sali_app_version :: "AppVersion option"
  sali_protocol_version :: ProtocolVersion
  sali_outcome :: ServerAuthLogOutcome
  sali_reason_code :: AuthResponseReasonCode
  sali_message :: "string option"
  sali_server_time :: "TimestampMicros option"
  sali_expected_protocol_version :: "ProtocolVersion option"

definition ServerAuthLogHandoffBoundary_handoff :: "ServerAuthDecision \<Rightarrow> ServerAuthLogInput" where
  "ServerAuthLogHandoffBoundary_handoff decision =
     \<lparr> sali_source = sad_source decision, sali_client_id = sad_client_id decision,
       sali_run_id = sad_run_id decision, sali_app_version = sad_app_version decision,
       sali_protocol_version = sad_protocol_version decision,
       sali_outcome = (if sad_accepted decision then AuthLog_Success else AuthLog_Failure),
       sali_reason_code = sad_reason_code decision, sali_message = sad_message decision,
       sali_server_time = sad_server_time decision,
       sali_expected_protocol_version = sad_expected_protocol_version decision \<rparr>"

record ServerOutboundAuthResponse =
  soar_destination :: PacketSource
  soar_message :: ProtocolMessage

definition ServerAuthResponseBoundary_build_for_send ::
  "ServerAuthDecision \<Rightarrow> ServerOutboundAuthResponse" where
  "ServerAuthResponseBoundary_build_for_send decision =
     \<lparr> soar_destination = sad_source decision,
       soar_message = Message_AuthResponse
         \<lparr> aresp_message_type = MessageType_AuthResponse,
           aresp_protocol_version = sad_protocol_version decision,
           aresp_client_id = sad_client_id decision, aresp_run_id = sad_run_id decision,
           aresp_accepted = sad_accepted decision,
           aresp_reason_code = sad_reason_code decision, aresp_message = sad_message decision,
           aresp_server_time = sad_server_time decision,
           aresp_expected_protocol_version = sad_expected_protocol_version decision \<rparr> \<rparr>"

definition ServerOutboundAuthResponse_into_outbound_packet ::
  "ServerOutboundAuthResponse \<Rightarrow> OutboundPacket" where
  "ServerOutboundAuthResponse_into_outbound_packet self =
     \<lparr> op_destination = PacketDestination_from_source (soar_destination self),
       op_message = soar_message self \<rparr>"

definition ServerOutboundQueueBoundary_handoff_auth_response ::
  "ServerOutboundAuthResponse \<Rightarrow> OutboundQueueItem" where
  "ServerOutboundQueueBoundary_handoff_auth_response response =
     OutboundPacketQueueBoundary_handoff (ServerOutboundAuthResponse_into_outbound_packet response)"

record AuthenticatedSenderRegistration =
  reg_client_id :: ClientId
  reg_source :: PacketSource
  reg_run_id :: RunId
  reg_protocol_version :: ProtocolVersion
  reg_registered_at :: "TimestampMicros option"

definition AuthenticatedSenderRegistryBoundary_registration_from_decision ::
  "ServerAuthDecision \<Rightarrow> AuthenticatedSenderRegistration option" where
  "AuthenticatedSenderRegistryBoundary_registration_from_decision decision =
     (if sad_accepted decision
      then Some \<lparr> reg_client_id = sad_client_id decision, reg_source = sad_source decision,
        reg_run_id = sad_run_id decision, reg_protocol_version = sad_protocol_version decision,
        reg_registered_at = sad_server_time decision \<rparr>
      else None)"

section \<open>The flow\<close>

record ServerAuthFlowOutcome =
  safo_decision :: ServerAuthDecision
  safo_operational_summary :: ServerAuthOperationalSummary
  safo_auth_log_input :: ServerAuthLogInput
  safo_registry_registration :: "AuthenticatedSenderRegistration option"
  safo_outbound_response :: ServerOutboundAuthResponse
  safo_queue_item :: OutboundQueueItem

definition ServerAuthFlowStep_handle_auth_check ::
  "(string \<Rightarrow> string + VarError) \<Rightarrow> ServerAuthCheck \<Rightarrow> ServerAuthConfig \<Rightarrow>
     (ServerAuthFlowOutcome, unit) result" where
  "ServerAuthFlowStep_handle_auth_check env_var check config =
     (let auth_input = ServerAuthConfigInputBoundary_prepare_check_input check config in
      rbind
        (case ServerSecretResolverBoundary_resolve_auth_input env_var auth_input of
           Inr resolved \<Rightarrow> Ok (ServerAuthDecisionBoundary_decide_resolved resolved)
         | Inl (Err error) \<Rightarrow>
             Ok (ServerAuthDecisionBoundary_reject_secret_resolution_error (saci_check auth_input) error)
         | Inl Panic \<Rightarrow> Panicked) (\<lambda>decision.
      let outbound_response = ServerAuthResponseBoundary_build_for_send decision in
      Ok \<lparr> safo_decision = decision,
           safo_operational_summary = auth_operational_summary_from_decision decision,
           safo_auth_log_input = ServerAuthLogHandoffBoundary_handoff decision,
           safo_registry_registration =
             AuthenticatedSenderRegistryBoundary_registration_from_decision decision,
           safo_outbound_response = outbound_response,
           safo_queue_item = ServerOutboundQueueBoundary_handoff_auth_response outbound_response \<rparr>))"

definition ServerAuthFlowStep_handle_auth_route ::
  "(string \<Rightarrow> string + VarError) \<Rightarrow> ServerInboundRoute \<Rightarrow> ServerAuthConfig \<Rightarrow>
     (ServerAuthFlowOutcome, ServerAuthBoundaryError) result" where
  "ServerAuthFlowStep_handle_auth_route env_var route config =
     rbind (ServerAuthHandlerBoundary_prepare_from_route route) (\<lambda>check.
     case ServerAuthFlowStep_handle_auth_check env_var check config of
       Inr outcome \<Rightarrow> Ok outcome | Inl _ \<Rightarrow> Panicked)"

section \<open>What the flow decides\<close>

lemmas decision_defs =
  ServerAuthDecision_with_app_version_def ServerAuthDecision_accepted_def
  ServerAuthDecision_rejected_def

lemma resolve_token_no_panic: "ServerSecretResolverBoundary_resolve_token env t \<noteq> Panicked"
  by (simp add: ServerSecretResolverBoundary_resolve_token_def
      split: SharedTokenSecretRef.split sum.split VarError.split)

lemma collect_results_no_panic: "(\<And>x. f x \<noteq> Panicked) \<Longrightarrow> collect_results f xs \<noteq> Panicked"
  by (induction xs) (auto simp: rbind_eq_Inl_iff rmap_eq_Inl_iff)

lemma collect_results_Ok_iff:
  "collect_results f xs = Ok ys \<longleftrightarrow> list_all2 (\<lambda>x y. f x = Ok y) xs ys"
proof (induction xs arbitrary: ys)
  case (Cons x xs)
  then show ?case by (cases ys) (auto simp: rbind_eq_Inr_iff rmap_eq_Inr_iff)
qed auto

lemma resolve_token_id:
  "ServerSecretResolverBoundary_resolve_token env t = Ok r \<Longrightarrow> srst_token_id r = ssta_token_id t"
  by (auto simp: ServerSecretResolverBoundary_resolve_token_def
      split: SharedTokenSecretRef.splits sum.splits VarError.splits if_splits)

text \<open>The token a client is expected to present, without the detour through the resolver.\<close>

definition token_material :: "(string \<Rightarrow> string + VarError) \<Rightarrow> SharedTokenSecretRef \<Rightarrow> string option" where
  "token_material env_var r =
     (case r of
        InlinePlaceholder text \<Rightarrow> Some text
      | EnvironmentVariable name \<Rightarrow>
          (case env_var name of
             Inl text \<Rightarrow> if trim text = [] then None else Some text
           | Inr _ \<Rightarrow> None)
      | SecretStore _ \<Rightarrow> None)"

definition resolvable :: "(string \<Rightarrow> string + VarError) \<Rightarrow> ServerAuthConfig \<Rightarrow> bool" where
  "resolvable env_var config \<longleftrightarrow>
     (\<forall>t \<in> set (sac_shared_tokens config). token_material env_var (stc_secret_ref t) \<noteq> None)"

lemma resolve_token_material:
  "(\<exists>r. ServerSecretResolverBoundary_resolve_token env t = Ok r) \<longleftrightarrow>
     token_material env (ssta_secret_ref t) \<noteq> None"
  by (auto simp: ServerSecretResolverBoundary_resolve_token_def token_material_def
      split: SharedTokenSecretRef.split sum.split VarError.split)

lemma resolve_token_Some:
  "ServerSecretResolverBoundary_resolve_token env t = Ok r \<Longrightarrow>
     token_material env (ssta_secret_ref t)
       = Some (ServerResolvedSharedTokenMaterial_as_str (srst_material r))"
  by (auto simp: ServerSecretResolverBoundary_resolve_token_def token_material_def
      split: SharedTokenSecretRef.splits sum.splits VarError.splits if_splits)

lemma list_all2_ex: "(\<exists>ys. list_all2 R xs ys) \<longleftrightarrow> (\<forall>x \<in> set xs. \<exists>y. R x y)"
  by (induction xs) (auto simp: list_all2_Cons1)

lemma resolve_auth_input_cases:
  "(\<exists>r. ServerSecretResolverBoundary_resolve_auth_input env
        (ServerAuthConfigInputBoundary_prepare_check_input check config) = Ok r)
     \<longleftrightarrow> resolvable env config"
proof -
  have "(\<exists>r. ServerSecretResolverBoundary_resolve_auth_input env
        (ServerAuthConfigInputBoundary_prepare_check_input check config) = Ok r)
     \<longleftrightarrow> (\<exists>ys. list_all2 (\<lambda>x y. ServerSecretResolverBoundary_resolve_token env x = Ok y)
       (saci_shared_tokens (ServerAuthConfigInputBoundary_prepare_check_input check config)) ys)"
    by (simp add: ServerSecretResolverBoundary_resolve_auth_input_def rbind_eq_Inr_iff
        collect_results_Ok_iff)
  also have "\<dots> \<longleftrightarrow> resolvable env config"
    unfolding list_all2_ex resolve_token_material resolvable_def
    by (simp add: ServerAuthConfigInputBoundary_prepare_check_input_def)
  finally show ?thesis .
qed

lemma resolve_auth_input_no_panic:
  "ServerSecretResolverBoundary_resolve_auth_input env input \<noteq> Panicked"
  by (simp add: ServerSecretResolverBoundary_resolve_auth_input_def rbind_eq_Inl_iff
      collect_results_no_panic resolve_token_no_panic)

text \<open>The first whitelist entry of a client and the first token entry with its id.\<close>

definition expected_token ::
  "(string \<Rightarrow> string + VarError) \<Rightarrow> ServerAuthConfig \<Rightarrow> ClientId \<Rightarrow> string option" where
  "expected_token env_var config client_id =
     Option.bind (find (\<lambda>c. acc_client_id c = client_id) (sac_allowed_clients config)) (\<lambda>c.
     Option.bind (find (\<lambda>t. stc_token_id t = acc_shared_token_id c) (sac_shared_tokens config)) (\<lambda>t.
     token_material env_var (stc_secret_ref t)))"

lemma find_map: "find P (map f xs) = map_option f (find (\<lambda>x. P (f x)) xs)"
  by (induction xs) auto

lemma find_list_all2:
  assumes "list_all2 R xs ys" and "\<And>x y. R x y \<Longrightarrow> P x = Q y"
  shows "(case find P xs of None \<Rightarrow> find Q ys = None | Some x \<Rightarrow> \<exists>y. find Q ys = Some y \<and> R x y)"
  using assms(1)
proof (induction rule: list_all2_induct)
  case (Cons x xs y ys)
  then show ?case using assms(2) [OF Cons(1)] by (simp split: option.splits)
qed simp

lemma handle_auth_check_total:
  "\<exists>outcome. ServerAuthFlowStep_handle_auth_check env check config = Ok outcome"
  using resolve_auth_input_no_panic
  by (auto simp: ServerAuthFlowStep_handle_auth_check_def Let_def split: sum.split fault.split)

lemma decide_resolved_accepts:
  assumes "ServerSecretResolverBoundary_resolve_auth_input env
      (ServerAuthConfigInputBoundary_prepare_check_input check config) = Ok r"
  shows "sad_accepted (ServerAuthDecisionBoundary_decide_resolved r) \<longleftrightarrow>
    expected_token env config (areq_client_id (sach_request check))
      = Some (areq_shared_token (sach_request check))"
proof -
  let ?input = "ServerAuthConfigInputBoundary_prepare_check_input check config"
  let ?client = "areq_client_id (sach_request check)"
  obtain ts where r: "r = \<lparr> srac_check = check, srac_allowed_clients = saci_allowed_clients ?input,
      srac_shared_tokens = ts \<rparr>"
    and ts: "list_all2 (\<lambda>t y. ServerSecretResolverBoundary_resolve_token env t = Ok y)
      (saci_shared_tokens ?input) ts"
    using assms by (auto simp: ServerSecretResolverBoundary_resolve_auth_input_def rbind_eq_Inr_iff
        collect_results_Ok_iff ServerAuthConfigInputBoundary_prepare_check_input_def)
  have tok: "list_all2 (\<lambda>t y. stc_token_id t = srst_token_id y \<and>
      token_material env (stc_secret_ref t)
        = Some (ServerResolvedSharedTokenMaterial_as_str (srst_material y))) (sac_shared_tokens config) ts"
    using ts
    by (simp add: ServerAuthConfigInputBoundary_prepare_check_input_def list_all2_map1)
      (erule list_all2_mono, auto dest: resolve_token_id resolve_token_Some)
  show ?thesis
  proof (cases "find (\<lambda>c. acc_client_id c = ?client) (sac_allowed_clients config)")
    case None
    then show ?thesis
      by (simp add: r ServerAuthDecisionBoundary_decide_resolved_def expected_token_def find_map
          decision_defs Let_def ServerAuthConfigInputBoundary_prepare_check_input_def)
  next
    case (Some c)
    show ?thesis
      using find_list_all2 [OF tok, of "\<lambda>t. stc_token_id t = acc_shared_token_id c"
          "\<lambda>y. srst_token_id y = acc_shared_token_id c"] Some
      by (auto simp: r ServerAuthDecisionBoundary_decide_resolved_def expected_token_def find_map
          decision_defs Let_def ServerAuthConfigInputBoundary_prepare_check_input_def
          split: option.splits)
  qed
qed

lemma handle_auth_check_accepts_iff:
  assumes "ServerAuthFlowStep_handle_auth_check env check config = Ok outcome"
  shows "sad_accepted (safo_decision outcome) \<longleftrightarrow>
    resolvable env config \<and>
    expected_token env config (areq_client_id (sach_request check))
      = Some (areq_shared_token (sach_request check))"
proof (cases "ServerSecretResolverBoundary_resolve_auth_input env
    (ServerAuthConfigInputBoundary_prepare_check_input check config)")
  case (Inr r)
  then have "resolvable env config" using resolve_auth_input_cases by blast
  then show ?thesis
    using assms Inr decide_resolved_accepts [OF Inr]
    by (auto simp: ServerAuthFlowStep_handle_auth_check_def Let_def)
next
  case (Inl e)
  then have "\<not> resolvable env config" using resolve_auth_input_cases [of env check config] by auto
  then show ?thesis
    using assms Inl
    by (cases e) (auto simp: ServerAuthFlowStep_handle_auth_check_def Let_def decision_defs
        ServerAuthDecisionBoundary_reject_secret_resolution_error_def)
qed

text \<open>Every decision carries the request's identity, and its code agrees with its verdict.\<close>

definition decision_consistent :: "ServerAuthCheck \<Rightarrow> ServerAuthDecision \<Rightarrow> bool" where
  "decision_consistent check d \<longleftrightarrow>
     sad_source d = sach_source check \<and>
     sad_client_id d = areq_client_id (sach_request check) \<and>
     sad_run_id d = areq_run_id (sach_request check) \<and>
     sad_protocol_version d = areq_protocol_version (sach_request check) \<and>
     sad_app_version d = Some (areq_app_version (sach_request check)) \<and>
     (sad_accepted d \<longleftrightarrow> sad_reason_code d = ReasonCode_Ok) \<and>
     (sad_accepted d \<longleftrightarrow> sad_message d = None) \<and>
     sad_reason_code d \<in> {ReasonCode_Ok, UnknownClient, InvalidToken, InternalError}"

lemma decide_resolved_consistent:
  "decision_consistent (srac_check r) (ServerAuthDecisionBoundary_decide_resolved r)"
  by (simp add: decision_consistent_def ServerAuthDecisionBoundary_decide_resolved_def
      decision_defs Let_def split: option.split)

lemma reject_resolution_consistent:
  "decision_consistent check (ServerAuthDecisionBoundary_reject_secret_resolution_error check e)"
  by (simp add: decision_consistent_def decision_defs
      ServerAuthDecisionBoundary_reject_secret_resolution_error_def)

lemma handle_auth_check_consistent:
  assumes "ServerAuthFlowStep_handle_auth_check env check config = Ok outcome"
  shows "decision_consistent check (safo_decision outcome)"
proof (cases "ServerSecretResolverBoundary_resolve_auth_input env
    (ServerAuthConfigInputBoundary_prepare_check_input check config)")
  case (Inr r)
  then have "srac_check r = check"
    by (auto simp: ServerSecretResolverBoundary_resolve_auth_input_def rbind_eq_Inr_iff
        ServerAuthConfigInputBoundary_prepare_check_input_def)
  then show ?thesis
    using assms Inr decide_resolved_consistent [of r]
    by (auto simp: ServerAuthFlowStep_handle_auth_check_def Let_def)
next
  case (Inl e)
  then show ?thesis
    using assms reject_resolution_consistent
    by (cases e) (auto simp: ServerAuthFlowStep_handle_auth_check_def Let_def
        ServerAuthConfigInputBoundary_prepare_check_input_def)
qed

text \<open>Without environment or store references the two decision functions agree.\<close>

lemma decide_inline_agrees:
  assumes "list_all (\<lambda>t. \<exists>s. ssta_secret_ref t = InlinePlaceholder s) (saci_shared_tokens input)"
    and "ServerSecretResolverBoundary_resolve_auth_input env input = Ok r"
  shows "ServerAuthDecisionBoundary_decide input = ServerAuthDecisionBoundary_decide_resolved r"
proof -
  obtain ts where r: "r = \<lparr> srac_check = saci_check input,
      srac_allowed_clients = saci_allowed_clients input, srac_shared_tokens = ts \<rparr>"
    and ts: "list_all2 (\<lambda>t y. ServerSecretResolverBoundary_resolve_token env t = Ok y)
      (saci_shared_tokens input) ts"
    using assms(2) by (auto simp: ServerSecretResolverBoundary_resolve_auth_input_def
        rbind_eq_Inr_iff collect_results_Ok_iff)
  have "list_all2 (\<lambda>t y. ssta_token_id t = srst_token_id y \<and>
      ssta_secret_ref t = InlinePlaceholder (ServerResolvedSharedTokenMaterial_as_str (srst_material y)))
    (saci_shared_tokens input) ts"
    using ts assms(1)
    by (induction rule: list_all2_induct) (auto simp: ServerSecretResolverBoundary_resolve_token_def)
  note both = find_list_all2 [OF this]
  show ?thesis
  proof (cases "find (\<lambda>c. saca_client_id c = areq_client_id (sach_request (saci_check input)))
      (saci_allowed_clients input)")
    case None
    then show ?thesis
      by (simp add: r ServerAuthDecisionBoundary_decide_def
          ServerAuthDecisionBoundary_decide_resolved_def Let_def)
  next
    case (Some c)
    then show ?thesis
      using both [of "\<lambda>t. ssta_token_id t = saca_shared_token_id c"
          "\<lambda>y. srst_token_id y = saca_shared_token_id c"]
      by (auto simp: r ServerAuthDecisionBoundary_decide_def
          ServerAuthDecisionBoundary_decide_resolved_def Let_def split: option.splits)
  qed
qed

text \<open>The registration handed on is the decision's.\<close>

lemma flow_registration:
  "ServerAuthFlowStep_handle_auth_check env check config = Ok outcome \<Longrightarrow>
     safo_registry_registration outcome =
       AuthenticatedSenderRegistryBoundary_registration_from_decision (safo_decision outcome)"
  by (auto simp: ServerAuthFlowStep_handle_auth_check_def Let_def rbind_eq_Inr_iff)

section \<open>Properties\<close>

text \<open>
  C20: Every auth check has an outcome. It is accepted exactly when every token reference of
  the whitelist can be resolved and the request carries the token of the first whitelist entry
  of its client; the decision names the request's source, client and run, its reason code
  agrees with its verdict, and a registration is handed on exactly when it is accepted.
\<close>

theorem auth_check_decides:
  "\<exists>outcome. ServerAuthFlowStep_handle_auth_check env_var check config = Ok outcome \<and>
     decision_consistent check (safo_decision outcome) \<and>
     (sad_accepted (safo_decision outcome) \<longleftrightarrow>
        resolvable env_var config \<and>
        expected_token env_var config (areq_client_id (sach_request check))
          = Some (areq_shared_token (sach_request check))) \<and>
     (safo_registry_registration outcome \<noteq> None \<longleftrightarrow> sad_accepted (safo_decision outcome))"
proof -
  obtain outcome where o: "ServerAuthFlowStep_handle_auth_check env_var check config = Ok outcome"
    using handle_auth_check_total by blast
  have "safo_registry_registration outcome \<noteq> None \<longleftrightarrow> sad_accepted (safo_decision outcome)"
    unfolding flow_registration [OF o]
    by (simp add: AuthenticatedSenderRegistryBoundary_registration_from_decision_def)
  with handle_auth_check_consistent [OF o] handle_auth_check_accepts_iff [OF o] o show ?thesis by blast
qed

text \<open>
  One token reference that cannot be resolved, of whichever client, rejects every auth
  request of every client with an internal error.
\<close>

theorem one_unresolvable_token_rejects_all:
  assumes "t \<in> set (sac_shared_tokens config)" and "token_material env_var (stc_secret_ref t) = None"
  shows "\<exists>outcome. ServerAuthFlowStep_handle_auth_check env_var check config = Ok outcome \<and>
    \<not> sad_accepted (safo_decision outcome) \<and> sad_reason_code (safo_decision outcome) = InternalError"
proof -
  have "\<not> resolvable env_var config" using assms by (auto simp: resolvable_def)
  then obtain e where "ServerSecretResolverBoundary_resolve_auth_input env_var
      (ServerAuthConfigInputBoundary_prepare_check_input check config) = Error e"
    using resolve_auth_input_cases [of env_var check config] resolve_auth_input_no_panic
    by (metis fault.exhaust sumE)
  then show ?thesis
    by (simp add: ServerAuthFlowStep_handle_auth_check_def Let_def decision_defs
        ServerAuthDecisionBoundary_reject_secret_resolution_error_def)
qed

definition studio_config :: ServerAuthConfig where
  "studio_config =
     \<lparr> sac_allowed_clients = [\<lparr> acc_client_id = ''cam-1'', acc_shared_token_id = ''cam-1'' \<rparr>,
         \<lparr> acc_client_id = ''cam-2'', acc_shared_token_id = ''cam-2'' \<rparr>],
       sac_shared_tokens = [\<lparr> stc_token_id = ''cam-1'', stc_secret_ref = InlinePlaceholder ''t1'' \<rparr>,
         \<lparr> stc_token_id = ''cam-2'', stc_secret_ref = EnvironmentVariable ''CAM_2_TOKEN'' \<rparr>] \<rparr>"

definition cam_1_check :: ServerAuthCheck where
  "cam_1_check =
     \<lparr> sach_source = \<lparr> src_address = SocketAddrV4 0x0A000001 40000 \<rparr>,
       sach_request = \<lparr> areq_message_type = MessageType_AuthRequest, areq_protocol_version = 1,
         areq_client_id = ''cam-1'', areq_run_id = ''run-1'', areq_app_version = ''0.1.0'',
         areq_shared_token = ''t1'', areq_display_name = None, areq_capabilities = [],
         areq_requested_video_profile = None \<rparr> \<rparr>"

lemma one_unresolvable_token_rejects_all_witness:
  "\<exists>outcome. ServerAuthFlowStep_handle_auth_check (\<lambda>_. Inr VarError_NotPresent) cam_1_check studio_config
      = Ok outcome \<and>
    \<not> sad_accepted (safo_decision outcome) \<and> sad_reason_code (safo_decision outcome) = InternalError"
  by (rule one_unresolvable_token_rejects_all [of
      "\<lparr> stc_token_id = ''cam-2'', stc_secret_ref = EnvironmentVariable ''CAM_2_TOKEN'' \<rparr>"])
    (simp_all add: studio_config_def token_material_def)

text \<open>
  For a whitelist whose tokens are all written inline, the decision function that reads
  the configuration directly and the one behind the secret resolver give the same decision.
\<close>

theorem inline_and_resolved_decisions_agree:
  assumes "list_all (\<lambda>t. \<exists>s. ssta_secret_ref t = InlinePlaceholder s) (saci_shared_tokens input)"
    and "ServerSecretResolverBoundary_resolve_auth_input env_var input = Ok resolved"
  shows "ServerAuthDecisionBoundary_decide input = ServerAuthDecisionBoundary_decide_resolved resolved"
  by (rule decide_inline_agrees [OF assms])

lemma inline_and_resolved_decisions_agree_witness:
  "ServerAuthDecisionBoundary_decide \<lparr> saci_check = cam_1_check,
      saci_allowed_clients = [\<lparr> saca_client_id = ''cam-1'', saca_shared_token_id = ''cam-1'' \<rparr>],
      saci_shared_tokens = [\<lparr> ssta_token_id = ''cam-1'', ssta_secret_ref = InlinePlaceholder ''t1'' \<rparr>] \<rparr>
   = ServerAuthDecisionBoundary_decide_resolved (projr
       (ServerSecretResolverBoundary_resolve_auth_input (\<lambda>_. Inr VarError_NotPresent) \<lparr> saci_check = cam_1_check,
          saci_allowed_clients = [\<lparr> saca_client_id = ''cam-1'', saca_shared_token_id = ''cam-1'' \<rparr>],
          saci_shared_tokens = [\<lparr> ssta_token_id = ''cam-1'', ssta_secret_ref = InlinePlaceholder ''t1'' \<rparr>] \<rparr>))"
  by (rule inline_and_resolved_decisions_agree [where env_var = "\<lambda>_. Inr VarError_NotPresent"])
    (simp_all add: ServerSecretResolverBoundary_resolve_auth_input_def
      ServerSecretResolverBoundary_resolve_token_def)

end
