(* ===== verification/Server_Registry.thy ===== *)
theory Server_Registry
  imports Server_Auth
begin

text \<open>
  The authenticated-sender registry of apps/server/src/lib.rs, the acceptance gate in front of
  the handlers and the conversion of an accepted route to handler input. The registry is the
  code's map from client id to entry; its invariant is that an entry sits under its own id.
\<close>

section \<open>The registry\<close>

record AuthenticatedSenderEntry =
  ase_client_id :: ClientId
  ase_source :: PacketSource
  ase_run_id :: RunId
  ase_protocol_version :: ProtocolVersion
  ase_registered_at :: "TimestampMicros option"

record AuthenticatedSenderRegistry =
  entries_by_client_id :: "(string, AuthenticatedSenderEntry) btree_map"

definition AuthenticatedSenderRegistry_default :: AuthenticatedSenderRegistry where
  "AuthenticatedSenderRegistry_default = \<lparr> entries_by_client_id = [] \<rparr>"

definition AuthenticatedSenderRegistry_entries ::
  "AuthenticatedSenderRegistry \<Rightarrow> AuthenticatedSenderEntry list" where
  "AuthenticatedSenderRegistry_entries self = btree_values (entries_by_client_id self)"

definition AuthenticatedSenderRegistry_get ::
  "AuthenticatedSenderRegistry \<Rightarrow> ClientId \<Rightarrow> AuthenticatedSenderEntry option" where
  "AuthenticatedSenderRegistry_get self client_id = btree_get (entries_by_client_id self) client_id"

definition AuthenticatedSenderRegistry_contains_source ::
  "AuthenticatedSenderRegistry \<Rightarrow> PacketSource \<Rightarrow> bool" where
  "AuthenticatedSenderRegistry_contains_source self source \<longleftrightarrow>
     list_ex (\<lambda>entry. ase_source entry = source) (btree_values (entries_by_client_id self))"

definition AuthenticatedSenderRegistration_into_entry ::
  "AuthenticatedSenderRegistration \<Rightarrow> AuthenticatedSenderEntry" where
  "AuthenticatedSenderRegistration_into_entry self =
     \<lparr> ase_client_id = reg_client_id self, ase_source = reg_source self,
       ase_run_id = reg_run_id self, ase_protocol_version = reg_protocol_version self,
       ase_registered_at = reg_registered_at self \<rparr>"

datatype AuthenticatedSenderRegistrationReason =
    FreshRegistration
  | IdempotentReregistration
  | RunReplaced
  | SourceReplaced
  | SourceAndRunReplaced

record AuthenticatedSenderRegistrationSummary =
  asrs_status :: ServerOperationalConditionStatus
  asrs_client_id :: ClientId
  asrs_previous_source :: "PacketSource option"
  asrs_current_source :: PacketSource
  asrs_previous_run_id :: "RunId option"
  asrs_current_run_id :: RunId
  asrs_reason :: AuthenticatedSenderRegistrationReason
  asrs_entry :: AuthenticatedSenderEntry

definition registration_summary_from_entries ::
  "AuthenticatedSenderEntry option \<Rightarrow> AuthenticatedSenderEntry \<Rightarrow>
     AuthenticatedSenderRegistrationSummary" where
  "registration_summary_from_entries previous_entry entry =
     (let reason = (case previous_entry of
            None \<Rightarrow> FreshRegistration
          | Some previous \<Rightarrow>
              if ase_source previous = ase_source entry \<and> ase_run_id previous = ase_run_id entry
              then IdempotentReregistration
              else if ase_source previous = ase_source entry then RunReplaced
              else if ase_run_id previous = ase_run_id entry then SourceReplaced
              else SourceAndRunReplaced) in
      \<lparr> asrs_status = Status_Continue, asrs_client_id = ase_client_id entry,
        asrs_previous_source = map_option ase_source previous_entry,
        asrs_current_source = ase_source entry,
        asrs_previous_run_id = map_option ase_run_id previous_entry,
        asrs_current_run_id = ase_run_id entry,
        asrs_reason = reason, asrs_entry = entry \<rparr>)"

definition AuthenticatedSenderRegistryBoundary_register_with_summary ::
  "AuthenticatedSenderRegistry \<Rightarrow> AuthenticatedSenderRegistration \<Rightarrow>
     AuthenticatedSenderRegistry \<times> AuthenticatedSenderRegistrationSummary" where
  "AuthenticatedSenderRegistryBoundary_register_with_summary registry registration =
     (let entry = AuthenticatedSenderRegistration_into_entry registration;
          previous_entry = btree_get (entries_by_client_id registry) (ase_client_id entry) in
      (registry \<lparr> entries_by_client_id :=
         btree_insert (ase_client_id entry) entry (entries_by_client_id registry) \<rparr>,
       registration_summary_from_entries previous_entry entry))"

definition AuthenticatedSenderRegistryBoundary_register ::
  "AuthenticatedSenderRegistry \<Rightarrow> AuthenticatedSenderRegistration \<Rightarrow>
     AuthenticatedSenderRegistry \<times> AuthenticatedSenderEntry" where
  "AuthenticatedSenderRegistryBoundary_register registry registration =
     (let (registry, summary) =
        AuthenticatedSenderRegistryBoundary_register_with_summary registry registration in
      (registry, asrs_entry summary))"

datatype AuthenticatedSenderInvalidationReason = HeartbeatTimeout

record AuthenticatedSenderInvalidation =
  asi_client_id :: ClientId
  asi_source :: PacketSource
  asi_run_id :: RunId
  asi_protocol_version :: ProtocolVersion
  asi_reason :: AuthenticatedSenderInvalidationReason
  asi_invalidated_at :: TimestampMicros

record AuthenticatedSenderInvalidationOutcome =
  asio_invalidation :: AuthenticatedSenderInvalidation
  asio_removed_entry :: "AuthenticatedSenderEntry option"

definition AuthenticatedSenderRegistryBoundary_invalidate ::
  "AuthenticatedSenderRegistry \<Rightarrow> AuthenticatedSenderInvalidation \<Rightarrow>
     AuthenticatedSenderRegistry \<times> AuthenticatedSenderInvalidationOutcome" where
  "AuthenticatedSenderRegistryBoundary_invalidate registry invalidation =
     (registry \<lparr> entries_by_client_id :=
        btree_remove (asi_client_id invalidation) (entries_by_client_id registry) \<rparr>,
      \<lparr> asio_invalidation = invalidation,
        asio_removed_entry =
          btree_get (entries_by_client_id registry) (asi_client_id invalidation) \<rparr>)"

datatype AuthenticatedSenderRejectReason =
    SenderReject_UnknownClient
  | SenderReject_EndpointMismatch
  | SenderReject_RunIdMismatch

datatype AuthenticatedSenderCheck =
    Sender_Accepted AuthenticatedSenderEntry
  | Sender_Rejected AuthenticatedSenderRejectReason

definition AuthenticatedSenderRegistryBoundary_check_packet_scope ::
  "AuthenticatedSenderRegistry \<Rightarrow> ClientId \<Rightarrow> RunId option \<Rightarrow> PacketSource \<Rightarrow>
     AuthenticatedSenderCheck" where
  "AuthenticatedSenderRegistryBoundary_check_packet_scope registry client_id run_id source =
     (case AuthenticatedSenderRegistry_get registry client_id of
        None \<Rightarrow> Sender_Rejected SenderReject_UnknownClient
      | Some entry \<Rightarrow>
          if ase_source entry \<noteq> source then Sender_Rejected SenderReject_EndpointMismatch
          else (case run_id of
              Some run_id \<Rightarrow>
                if ase_run_id entry \<noteq> run_id then Sender_Rejected SenderReject_RunIdMismatch
                else Sender_Accepted entry
            | None \<Rightarrow> Sender_Accepted entry))"

definition AuthenticatedSenderRegistryBoundary_check_source ::
  "AuthenticatedSenderRegistry \<Rightarrow> ClientId \<Rightarrow> PacketSource \<Rightarrow> AuthenticatedSenderCheck" where
  "AuthenticatedSenderRegistryBoundary_check_source registry client_id source =
     AuthenticatedSenderRegistryBoundary_check_packet_scope registry client_id None source"

section \<open>The acceptance gate\<close>

datatype PacketAcceptanceRejectReason =
    PacketReject_UnauthenticatedSource
  | PacketReject_UnknownClient
  | PacketReject_EndpointMismatch
  | PacketReject_RunIdMismatch

record PacketAcceptanceRejection =
  par_source :: PacketSource
  par_message_type :: MessageType
  par_client_id :: "ClientId option"
  par_run_id :: "RunId option"
  par_reason :: PacketAcceptanceRejectReason

datatype PacketAcceptanceDecision =
  Packet_Accepted | Packet_Rejected PacketAcceptanceRejection

definition PacketAcceptanceGateBoundary_reject ::
  "PacketSource \<Rightarrow> MessageType \<Rightarrow> ClientId option \<Rightarrow> RunId option \<Rightarrow>
     PacketAcceptanceRejectReason \<Rightarrow> PacketAcceptanceDecision" where
  "PacketAcceptanceGateBoundary_reject source message_type client_id run_id reason =
     Packet_Rejected \<lparr> par_source = source, par_message_type = message_type,
       par_client_id = client_id, par_run_id = run_id, par_reason = reason \<rparr>"

definition PacketAcceptanceGateBoundary_evaluate_client_packet ::
  "AuthenticatedSenderRegistry \<Rightarrow> PacketSource \<Rightarrow> ClientId \<Rightarrow> RunId \<Rightarrow> MessageType \<Rightarrow>
     PacketAcceptanceDecision" where
  "PacketAcceptanceGateBoundary_evaluate_client_packet registry source client_id run_id message_type =
     (case AuthenticatedSenderRegistryBoundary_check_packet_scope registry client_id (Some run_id) source of
        Sender_Accepted _ \<Rightarrow> Packet_Accepted
      | Sender_Rejected SenderReject_EndpointMismatch \<Rightarrow>
          PacketAcceptanceGateBoundary_reject source message_type (Some client_id) (Some run_id)
            PacketReject_EndpointMismatch
      | Sender_Rejected SenderReject_RunIdMismatch \<Rightarrow>
          PacketAcceptanceGateBoundary_reject source message_type (Some client_id) (Some run_id)
            PacketReject_RunIdMismatch
      | Sender_Rejected SenderReject_UnknownClient \<Rightarrow>
          PacketAcceptanceGateBoundary_reject source message_type (Some client_id) (Some run_id)
            (if AuthenticatedSenderRegistry_contains_source registry source
             then PacketReject_UnknownClient else PacketReject_UnauthenticatedSource))"

definition PacketAcceptanceGateBoundary_evaluate_route ::
  "AuthenticatedSenderRegistry \<Rightarrow> ServerInboundRoute \<Rightarrow> PacketAcceptanceDecision" where
  "PacketAcceptanceGateBoundary_evaluate_route registry route =
     (case route of
        Route_AuthRequest _ _ \<Rightarrow> Packet_Accepted
      | Route_Heartbeat source heartbeat \<Rightarrow>
          PacketAcceptanceGateBoundary_evaluate_client_packet registry source
            (hb_client_id heartbeat) (hb_run_id heartbeat) MessageType_Heartbeat
      | Route_VideoFrame source frame \<Rightarrow>
          PacketAcceptanceGateBoundary_evaluate_client_packet registry source
            (vf_client_id frame) (vf_run_id frame) MessageType_VideoFrame
      | Route_VideoFrameFragment source fragment \<Rightarrow>
          PacketAcceptanceGateBoundary_evaluate_client_packet registry source
            (vff_client_id fragment) (vff_run_id fragment) MessageType_VideoFrameFragment
      | Route_ClientStats source stats \<Rightarrow>
          PacketAcceptanceGateBoundary_evaluate_client_packet registry source
            (cs_client_id stats) (cs_run_id stats) MessageType_ClientStats
      | Route_UnsupportedForServer _ _ _ \<Rightarrow> Packet_Accepted)"

record ServerRuntimePacketOperationalSummary =
  srpos_status :: ServerOperationalConditionStatus
  srpos_message_type :: MessageType
  srpos_client_id :: "ClientId option"
  srpos_run_id :: "RunId option"
  srpos_reason :: PacketAcceptanceRejectReason

definition packet_operational_summary_from_rejection ::
  "PacketAcceptanceRejection \<Rightarrow> ServerRuntimePacketOperationalSummary" where
  "packet_operational_summary_from_rejection rejection =
     \<lparr> srpos_status = Status_Reject, srpos_message_type = par_message_type rejection,
       srpos_client_id = par_client_id rejection, srpos_run_id = par_run_id rejection,
       srpos_reason = par_reason rejection \<rparr>"

section \<open>Handler input\<close>

record ServerRegisteredHeartbeatPacket =
  srh_source :: PacketSource
  srh_authenticated_sender :: AuthenticatedSenderEntry
  srh_heartbeat :: Heartbeat

record ServerRegisteredVideoFramePacket =
  srv_source :: PacketSource
  srv_authenticated_sender :: AuthenticatedSenderEntry
  srv_frame :: VideoFrame

record ServerRegisteredVideoFrameFragmentPacket =
  srf_source :: PacketSource
  srf_authenticated_sender :: AuthenticatedSenderEntry
  srf_fragment :: VideoFrameFragment

record ServerRegisteredClientStatsPacket =
  src_stats_source :: PacketSource
  src_authenticated_sender :: AuthenticatedSenderEntry
  src_stats :: ClientStats

datatype ServerRegisteredClientPacket =
    Registered_Heartbeat ServerRegisteredHeartbeatPacket
  | Registered_VideoFrame ServerRegisteredVideoFramePacket
  | Registered_VideoFrameFragment ServerRegisteredVideoFrameFragmentPacket
  | Registered_ClientStats ServerRegisteredClientStatsPacket

datatype ServerRegisteredPacketBoundaryError =
    NotClientScoped MessageType
  | NotAccepted PacketAcceptanceRejection

definition ServerRegisteredPacketBoundary_require_sender ::
  "AuthenticatedSenderRegistry \<Rightarrow> ClientId \<Rightarrow> RunId \<Rightarrow> PacketSource \<Rightarrow> MessageType \<Rightarrow>
     (AuthenticatedSenderEntry, ServerRegisteredPacketBoundaryError) result" where
  "ServerRegisteredPacketBoundary_require_sender registry client_id run_id source message_type =
     (let reject = (\<lambda>reason. Error (NotAccepted \<lparr> par_source = source,
            par_message_type = message_type, par_client_id = Some client_id,
            par_run_id = Some run_id, par_reason = reason \<rparr>)) in
      case AuthenticatedSenderRegistryBoundary_check_packet_scope registry client_id (Some run_id) source of
        Sender_Accepted entry \<Rightarrow> Ok entry
      | Sender_Rejected SenderReject_EndpointMismatch \<Rightarrow> reject PacketReject_EndpointMismatch
      | Sender_Rejected SenderReject_RunIdMismatch \<Rightarrow> reject PacketReject_RunIdMismatch
      | Sender_Rejected SenderReject_UnknownClient \<Rightarrow>
          reject (if AuthenticatedSenderRegistry_contains_source registry source
                  then PacketReject_UnknownClient else PacketReject_UnauthenticatedSource))"

definition ServerRegisteredPacketBoundary_attach_sender ::
  "AuthenticatedSenderRegistry \<Rightarrow> ServerInboundRoute \<Rightarrow>
     (ServerRegisteredClientPacket, ServerRegisteredPacketBoundaryError) result" where
  "ServerRegisteredPacketBoundary_attach_sender registry route =
     (case route of
        Route_Heartbeat source heartbeat \<Rightarrow>
          rbind (ServerRegisteredPacketBoundary_require_sender registry (hb_client_id heartbeat)
                   (hb_run_id heartbeat) source MessageType_Heartbeat) (\<lambda>sender.
          Ok (Registered_Heartbeat \<lparr> srh_source = source, srh_authenticated_sender = sender,
                srh_heartbeat = heartbeat \<rparr>))
      | Route_VideoFrame source frame \<Rightarrow>
          rbind (ServerRegisteredPacketBoundary_require_sender registry (vf_client_id frame)
                   (vf_run_id frame) source MessageType_VideoFrame) (\<lambda>sender.
          Ok (Registered_VideoFrame \<lparr> srv_source = source, srv_authenticated_sender = sender,
                srv_frame = frame \<rparr>))
      | Route_VideoFrameFragment source fragment \<Rightarrow>
          rbind (ServerRegisteredPacketBoundary_require_sender registry (vff_client_id fragment)
                   (vff_run_id fragment) source MessageType_VideoFrameFragment) (\<lambda>sender.
          Ok (Registered_VideoFrameFragment \<lparr> srf_source = source,
                srf_authenticated_sender = sender, srf_fragment = fragment \<rparr>))
      | Route_ClientStats source stats \<Rightarrow>
          rbind (ServerRegisteredPacketBoundary_require_sender registry (cs_client_id stats)
                   (cs_run_id stats) source MessageType_ClientStats) (\<lambda>sender.
          Ok (Registered_ClientStats \<lparr> src_stats_source = source,
                src_authenticated_sender = sender, src_stats = stats \<rparr>))
      | Route_AuthRequest _ _ \<Rightarrow> Error (NotClientScoped MessageType_AuthRequest)
      | Route_UnsupportedForServer _ message_type _ \<Rightarrow> Error (NotClientScoped message_type))"

definition ServerRegisteredPacketBoundary_prepare_for_handler ::
  "AuthenticatedSenderRegistry \<Rightarrow> ServerInboundRoute \<Rightarrow>
     (ServerRegisteredClientPacket, ServerRegisteredPacketBoundaryError) result" where
  "ServerRegisteredPacketBoundary_prepare_for_handler registry route =
     (case PacketAcceptanceGateBoundary_evaluate_route registry route of
        Packet_Accepted \<Rightarrow> ServerRegisteredPacketBoundary_attach_sender registry route
      | Packet_Rejected rejection \<Rightarrow> Error (NotAccepted rejection))"

section \<open>The registry's contract\<close>

text \<open>
  What the handlers behind the gate rely on, whatever the registry is made of: an id is
  bound to at most one entry, registering binds it, invalidating unbinds it, and neither
  touches another client.
\<close>

locale sender_registry =
  fixes get :: "'r \<Rightarrow> ClientId \<Rightarrow> AuthenticatedSenderEntry option"
    and register :: "'r \<Rightarrow> AuthenticatedSenderRegistration \<Rightarrow> 'r"
    and invalidate :: "'r \<Rightarrow> ClientId \<Rightarrow> 'r"
    and ok :: "'r \<Rightarrow> bool"
  assumes ok_register: "ok r \<Longrightarrow> ok (register r g)"
    and ok_invalidate: "ok r \<Longrightarrow> ok (invalidate r c)"
    and get_register: "ok r \<Longrightarrow> get (register r g) c =
      (if c = reg_client_id g then Some (AuthenticatedSenderRegistration_into_entry g) else get r c)"
    and get_invalidate: "ok r \<Longrightarrow> get (invalidate r c) d = (if d = c then None else get r d)"
    and get_client: "ok r \<Longrightarrow> get r c = Some e \<Longrightarrow> ase_client_id e = c"
begin

text \<open>A run of registrations and invalidations, in order.\<close>

fun apply_all :: "(AuthenticatedSenderRegistration + ClientId) list \<Rightarrow> 'r \<Rightarrow> 'r" where
  "apply_all [] r = r"
| "apply_all (Inl g # es) r = apply_all es (register r g)"
| "apply_all (Inr c # es) r = apply_all es (invalidate r c)"

lemma ok_apply_all: "ok r \<Longrightarrow> ok (apply_all es r)"
  by (induction es r rule: apply_all.induct) (simp_all add: ok_register ok_invalidate)

definition last_event ::
  "ClientId \<Rightarrow> (AuthenticatedSenderRegistration + ClientId) list \<Rightarrow>
     AuthenticatedSenderRegistration option option" where
  "last_event c es = fold (\<lambda>e acc. case e of
      Inl g \<Rightarrow> if reg_client_id g = c then Some (Some g) else acc
    | Inr d \<Rightarrow> if d = c then Some None else acc) es None"

text \<open>The binding of a client is decided by the last event that names it.\<close>

lemma get_apply_all:
  assumes "ok r"
  shows "get (apply_all es r) c =
    (case last_event c es of
       None \<Rightarrow> get r c
     | Some None \<Rightarrow> None
     | Some (Some g) \<Rightarrow> Some (AuthenticatedSenderRegistration_into_entry g))"
  using assms
proof (induction es arbitrary: r rule: rev_induct)
  case Nil
  then show ?case by (simp add: last_event_def)
next
  case (snoc e es)
  have step: "apply_all (es @ [e]) r = apply_all [e] (apply_all es r)" for r
    by (induction es r rule: apply_all.induct) simp_all
  have "ok (apply_all es r)" using snoc.prems by (rule ok_apply_all)
  then show ?case
    using snoc.IH [OF snoc.prems] unfolding step
    by (cases e) (auto simp: last_event_def get_register get_invalidate)
qed

end

definition registry_ok :: "AuthenticatedSenderRegistry \<Rightarrow> bool" where
  "registry_ok r \<longleftrightarrow>
     btree_inv (entries_by_client_id r) \<and>
     (\<forall>(c, e) \<in> set (entries_by_client_id r). ase_client_id e = c)"

definition invalidate_client :: "AuthenticatedSenderRegistry \<Rightarrow> ClientId \<Rightarrow> AuthenticatedSenderRegistry" where
  "invalidate_client r c = r \<lparr> entries_by_client_id := btree_remove c (entries_by_client_id r) \<rparr>"

lemma invalidate_state:
  "fst (AuthenticatedSenderRegistryBoundary_invalidate r i) = invalidate_client r (asi_client_id i)"
  by (simp add: AuthenticatedSenderRegistryBoundary_invalidate_def invalidate_client_def)

lemma register_state:
  "fst (AuthenticatedSenderRegistryBoundary_register_with_summary r g) =
     r \<lparr> entries_by_client_id := btree_insert (reg_client_id g)
           (AuthenticatedSenderRegistration_into_entry g) (entries_by_client_id r) \<rparr>"
  by (simp add: AuthenticatedSenderRegistryBoundary_register_with_summary_def Let_def
      AuthenticatedSenderRegistration_into_entry_def)

lemma registry_ok_default: "registry_ok AuthenticatedSenderRegistry_default"
  by (simp add: registry_ok_def AuthenticatedSenderRegistry_default_def btree.inv_empty)

interpretation registry: sender_registry
  AuthenticatedSenderRegistry_get
  "\<lambda>r g. fst (AuthenticatedSenderRegistryBoundary_register_with_summary r g)"
  invalidate_client registry_ok
proof unfold_locales
  fix r g assume "registry_ok r"
  then show "registry_ok (fst (AuthenticatedSenderRegistryBoundary_register_with_summary r g))"
    using set_btree_insert [of "reg_client_id g" "AuthenticatedSenderRegistration_into_entry g"
        "entries_by_client_id r"]
    by (auto simp: register_state registry_ok_def btree.inv_insert
        AuthenticatedSenderRegistration_into_entry_def)
next
  fix r c assume "registry_ok r"
  then show "registry_ok (invalidate_client r c)"
    using btree.inv_remove [of "entries_by_client_id r" c]
    by (auto simp: invalidate_client_def registry_ok_def btree_remove_def)
next
  fix r g c assume "registry_ok r"
  then show "AuthenticatedSenderRegistry_get
      (fst (AuthenticatedSenderRegistryBoundary_register_with_summary r g)) c =
    (if c = reg_client_id g then Some (AuthenticatedSenderRegistration_into_entry g)
     else AuthenticatedSenderRegistry_get r c)"
    by (simp add: register_state AuthenticatedSenderRegistry_get_def registry_ok_def
        btree.lookup_insert)
next
  fix r c d assume "registry_ok r"
  then show "AuthenticatedSenderRegistry_get (invalidate_client r c) d =
    (if d = c then None else AuthenticatedSenderRegistry_get r d)"
    by (simp add: invalidate_client_def AuthenticatedSenderRegistry_get_def registry_ok_def
        btree.lookup_remove)
next
  fix r c e assume ok: "registry_ok r" and "AuthenticatedSenderRegistry_get r c = Some e"
  then have "(c, e) \<in> set (entries_by_client_id r)"
    by (simp add: AuthenticatedSenderRegistry_get_def registry_ok_def btree_get_in_set)
  then show "ase_client_id e = c" using ok by (auto simp: registry_ok_def)
qed

section \<open>Behind the gate\<close>

lemma check_scope_accepted_iff:
  "AuthenticatedSenderRegistryBoundary_check_packet_scope r c (Some run) s = Sender_Accepted e \<longleftrightarrow>
     AuthenticatedSenderRegistry_get r c = Some e \<and> ase_source e = s \<and> ase_run_id e = run"
  by (auto simp: AuthenticatedSenderRegistryBoundary_check_packet_scope_def split: option.split)

lemma gate_client_packet_iff:
  "PacketAcceptanceGateBoundary_evaluate_client_packet r s c run t = Packet_Accepted \<longleftrightarrow>
     (\<exists>e. AuthenticatedSenderRegistry_get r c = Some e \<and> ase_source e = s \<and> ase_run_id e = run)"
  by (auto simp: PacketAcceptanceGateBoundary_evaluate_client_packet_def
      PacketAcceptanceGateBoundary_reject_def AuthenticatedSenderRegistryBoundary_check_packet_scope_def
      split: option.split)

lemma require_sender_Ok_iff:
  "ServerRegisteredPacketBoundary_require_sender r c run s t = Ok e \<longleftrightarrow>
     AuthenticatedSenderRegistry_get r c = Some e \<and> ase_source e = s \<and> ase_run_id e = run"
  by (auto simp: ServerRegisteredPacketBoundary_require_sender_def Let_def
      AuthenticatedSenderRegistryBoundary_check_packet_scope_def split: option.split)

text \<open>The gate's rejection and the second check's rejection are the same value.\<close>

lemma gate_and_require_agree:
  "PacketAcceptanceGateBoundary_evaluate_client_packet r s c run t = Packet_Rejected j \<longleftrightarrow>
     ServerRegisteredPacketBoundary_require_sender r c run s t = Error (NotAccepted j)"
  by (auto simp: PacketAcceptanceGateBoundary_evaluate_client_packet_def
      PacketAcceptanceGateBoundary_reject_def ServerRegisteredPacketBoundary_require_sender_def Let_def
      split: AuthenticatedSenderCheck.split AuthenticatedSenderRejectReason.split)

text \<open>The scope of a client packet: who claims to send it, in which run, from where.\<close>

fun packet_scope :: "ServerRegisteredClientPacket \<Rightarrow> ClientId \<times> RunId \<times> PacketSource" where
  "packet_scope (Registered_Heartbeat p) =
     (hb_client_id (srh_heartbeat p), hb_run_id (srh_heartbeat p), srh_source p)"
| "packet_scope (Registered_VideoFrame p) =
     (vf_client_id (srv_frame p), vf_run_id (srv_frame p), srv_source p)"
| "packet_scope (Registered_VideoFrameFragment p) =
     (vff_client_id (srf_fragment p), vff_run_id (srf_fragment p), srf_source p)"
| "packet_scope (Registered_ClientStats p) =
     (cs_client_id (src_stats p), cs_run_id (src_stats p), src_stats_source p)"

fun packet_sender :: "ServerRegisteredClientPacket \<Rightarrow> AuthenticatedSenderEntry" where
  "packet_sender (Registered_Heartbeat p) = srh_authenticated_sender p"
| "packet_sender (Registered_VideoFrame p) = srv_authenticated_sender p"
| "packet_sender (Registered_VideoFrameFragment p) = srf_authenticated_sender p"
| "packet_sender (Registered_ClientStats p) = src_authenticated_sender p"

fun packet_route :: "ServerRegisteredClientPacket \<Rightarrow> ServerInboundRoute" where
  "packet_route (Registered_Heartbeat p) = Route_Heartbeat (srh_source p) (srh_heartbeat p)"
| "packet_route (Registered_VideoFrame p) = Route_VideoFrame (srv_source p) (srv_frame p)"
| "packet_route (Registered_VideoFrameFragment p) =
     Route_VideoFrameFragment (srf_source p) (srf_fragment p)"
| "packet_route (Registered_ClientStats p) = Route_ClientStats (src_stats_source p) (src_stats p)"

text \<open>The gate in front adds nothing to the lookup behind it: the two always agree.\<close>

lemma gate_then_require:
  "(case PacketAcceptanceGateBoundary_evaluate_client_packet r s c run t of
      Packet_Accepted \<Rightarrow> rbind (ServerRegisteredPacketBoundary_require_sender r c run s t) f
    | Packet_Rejected j \<Rightarrow> Error (NotAccepted j))
   = rbind (ServerRegisteredPacketBoundary_require_sender r c run s t) f"
  by (auto simp: PacketAcceptanceGateBoundary_evaluate_client_packet_def
      PacketAcceptanceGateBoundary_reject_def ServerRegisteredPacketBoundary_require_sender_def Let_def
      split: AuthenticatedSenderCheck.split AuthenticatedSenderRejectReason.split)

lemma prepare_is_attach:
  "ServerRegisteredPacketBoundary_prepare_for_handler r route =
     ServerRegisteredPacketBoundary_attach_sender r route"
  by (cases route)
    (simp_all add: ServerRegisteredPacketBoundary_prepare_for_handler_def gate_then_require
      ServerRegisteredPacketBoundary_attach_sender_def PacketAcceptanceGateBoundary_evaluate_route_def
      cong: PacketAcceptanceDecision.case_cong)

lemma prepare_for_handler_Ok_iff:
  "ServerRegisteredPacketBoundary_prepare_for_handler r route = Ok p \<longleftrightarrow>
     route = packet_route p \<and>
     (case packet_scope p of (c, run, s) \<Rightarrow>
        AuthenticatedSenderRegistry_get r c = Some (packet_sender p) \<and>
        ase_source (packet_sender p) = s \<and> ase_run_id (packet_sender p) = run)"
  unfolding prepare_is_attach
  by (cases route; cases p)
    (auto simp: ServerRegisteredPacketBoundary_attach_sender_def rbind_eq_Inr_iff
      require_sender_Ok_iff)

section \<open>Properties\<close>

text \<open>Registrations and invalidations in the order in which they happen.\<close>

definition apply_registry_events ::
  "(AuthenticatedSenderRegistration + AuthenticatedSenderInvalidation) list \<Rightarrow>
     AuthenticatedSenderRegistry \<Rightarrow> AuthenticatedSenderRegistry" where
  "apply_registry_events events r = fold (\<lambda>event r. case event of
       Inl g \<Rightarrow> fst (AuthenticatedSenderRegistryBoundary_register_with_summary r g)
     | Inr i \<Rightarrow> fst (AuthenticatedSenderRegistryBoundary_invalidate r i)) events r"

definition event_client :: "AuthenticatedSenderRegistration + AuthenticatedSenderInvalidation \<Rightarrow> ClientId" where
  "event_client event = (case event of Inl g \<Rightarrow> reg_client_id g | Inr i \<Rightarrow> asi_client_id i)"

lemma apply_registry_events_ok: "registry_ok r \<Longrightarrow> registry_ok (apply_registry_events events r)"
  by (induction events arbitrary: r)
    (auto simp: apply_registry_events_def invalidate_state registry.ok_register registry.ok_invalidate
      split: sum.split)

text \<open>
  C22: After any sequence of registrations and invalidations a client is bound exactly when the
  last event that names it is a registration, and then to that registration's source and run.
\<close>

theorem registry_follows_last_event:
  "AuthenticatedSenderRegistry_get (apply_registry_events events AuthenticatedSenderRegistry_default) c =
     (case rev (filter (\<lambda>event. event_client event = c) events) of
        Inl g # _ \<Rightarrow> Some (AuthenticatedSenderRegistration_into_entry g)
      | _ \<Rightarrow> None)"
proof (induction events rule: rev_induct)
  case Nil
  then show ?case
    by (simp add: apply_registry_events_def AuthenticatedSenderRegistry_get_def
        AuthenticatedSenderRegistry_default_def)
next
  case (snoc event events)
  have "registry_ok (apply_registry_events events AuthenticatedSenderRegistry_default)"
    by (rule apply_registry_events_ok [OF registry_ok_default])
  with snoc show ?case
    by (cases event) (simp_all add: apply_registry_events_def event_client_def invalidate_state
        registry.get_register registry.get_invalidate)
qed

text \<open>
  C32: A packet reaches a handler exactly when its client is registered with the packet's
  source and run, and it arrives there unchanged, together with that registration.
\<close>

theorem handlers_see_registered_packets_only:
  "ServerRegisteredPacketBoundary_prepare_for_handler r route = Ok p \<longleftrightarrow>
     route = packet_route p \<and>
     (case packet_scope p of (c, run, s) \<Rightarrow>
        AuthenticatedSenderRegistry_get r c = Some (packet_sender p) \<and>
        ase_source (packet_sender p) = s \<and> ase_run_id (packet_sender p) = run)"
  by (rule prepare_for_handler_Ok_iff)

text \<open>
  The gate's answer for a client packet is a function of the registry: accepted for the
  registered source and run, otherwise the first of these that applies: a wrong endpoint, a
  wrong run, an unknown client at a known endpoint, an unauthenticated source.
\<close>

theorem gate_reasons:
  "PacketAcceptanceGateBoundary_evaluate_client_packet r s c run t =
     (case AuthenticatedSenderRegistry_get r c of
        Some e \<Rightarrow>
          if ase_source e = s \<and> ase_run_id e = run then Packet_Accepted
          else PacketAcceptanceGateBoundary_reject s t (Some c) (Some run)
            (if ase_source e \<noteq> s then PacketReject_EndpointMismatch else PacketReject_RunIdMismatch)
      | None \<Rightarrow> PacketAcceptanceGateBoundary_reject s t (Some c) (Some run)
          (if \<exists>d e. (d, e) \<in> set (entries_by_client_id r) \<and> ase_source e = s
           then PacketReject_UnknownClient else PacketReject_UnauthenticatedSource))"
proof -
  have source: "AuthenticatedSenderRegistry_contains_source r s \<longleftrightarrow>
      (\<exists>d e. (d, e) \<in> set (entries_by_client_id r) \<and> ase_source e = s)"
    by (force simp: AuthenticatedSenderRegistry_contains_source_def btree_values_def list_ex_iff)
  show ?thesis
    unfolding source [symmetric]
    by (simp add: PacketAcceptanceGateBoundary_evaluate_client_packet_def
        AuthenticatedSenderRegistryBoundary_check_packet_scope_def split: option.split)
qed

text \<open>
  Once an accepted auth outcome is registered, the gate lets the client's packets through
  from the endpoint and in the run of that request only, whatever was registered for it
  before, and decides about every other client as before.
\<close>

theorem accepted_auth_opens_gate:
  assumes "registry_ok r"
    and "ServerAuthFlowStep_handle_auth_check env_var check config = Ok outcome"
    and "safo_registry_registration outcome = Some g"
  defines "r' \<equiv> fst (AuthenticatedSenderRegistryBoundary_register_with_summary r g)"
  shows "PacketAcceptanceGateBoundary_evaluate_client_packet r' s c run t = Packet_Accepted \<longleftrightarrow>
    (if c = areq_client_id (sach_request check)
     then s = sach_source check \<and> run = areq_run_id (sach_request check)
     else PacketAcceptanceGateBoundary_evaluate_client_packet r s c run t = Packet_Accepted)"
proof -
  have "AuthenticatedSenderRegistryBoundary_registration_from_decision (safo_decision outcome) = Some g"
    using assms(2,3) by (simp add: flow_registration)
  then have "reg_client_id g = sad_client_id (safo_decision outcome)"
      "reg_source g = sad_source (safo_decision outcome)" "reg_run_id g = sad_run_id (safo_decision outcome)"
    by (auto simp: AuthenticatedSenderRegistryBoundary_registration_from_decision_def split: if_splits)
  with handle_auth_check_consistent [OF assms(2)]
  have "reg_client_id g = areq_client_id (sach_request check)" "reg_source g = sach_source check"
      "reg_run_id g = areq_run_id (sach_request check)"
    by (simp_all add: decision_consistent_def)
  then show ?thesis
    unfolding gate_client_packet_iff r'_def
    by (auto simp: registry.get_register [OF assms(1)] AuthenticatedSenderRegistration_into_entry_def)
qed

definition cam_1_outcome :: ServerAuthFlowOutcome where
  "cam_1_outcome = projr (ServerAuthFlowStep_handle_auth_check (\<lambda>_. Inl ''t2'') cam_1_check studio_config)"

lemma accepted_auth_opens_gate_witness:
  "PacketAcceptanceGateBoundary_evaluate_client_packet
     (fst (AuthenticatedSenderRegistryBoundary_register_with_summary AuthenticatedSenderRegistry_default
       (the (safo_registry_registration cam_1_outcome))))
     (sach_source cam_1_check) ''cam-1'' ''run-1'' MessageType_Heartbeat = Packet_Accepted"
proof -
  have "ServerAuthFlowStep_handle_auth_check (\<lambda>_. Inl ''t2'') cam_1_check studio_config = Ok cam_1_outcome"
    using handle_auth_check_total [of "\<lambda>_. Inl ''t2''" cam_1_check studio_config]
    by (auto simp: cam_1_outcome_def)
  moreover have "safo_registry_registration cam_1_outcome \<noteq> None" by code_simp
  ultimately show ?thesis
    using accepted_auth_opens_gate [OF registry_ok_default, of "\<lambda>_. Inl ''t2''" cam_1_check studio_config
        cam_1_outcome "the (safo_registry_registration cam_1_outcome)" "sach_source cam_1_check" "''cam-1''" "''run-1''"]
    by (simp add: cam_1_check_def)
qed

end
