(* ===== verification/Server_Heartbeat.thy ===== *)
theory Server_Heartbeat
  imports Server_Registry Timebase
begin

text \<open>
  Heartbeats in apps/server/src/lib.rs: the acknowledgement built for a registered heartbeat,
  the inputs it yields for liveness and timebase, server notices, the liveness state and its
  timeout evaluation, and the loop over all registered clients that applies a timeout's
  effects. The in-memory outbound queue the loop stores notices in is a FIFO list.
\<close>

section \<open>Acknowledgements and notices\<close>

record ServerHeartbeatAckInput =
  shai_destination :: PacketSource
  shai_protocol_version :: ProtocolVersion
  shai_client_id :: ClientId
  shai_run_id :: RunId
  shai_echoed_sent_at :: TimestampMicros
  shai_server_received_at :: TimestampMicros
  shai_server_sent_at :: TimestampMicros

record ServerOutboundHeartbeatAck =
  soha_destination :: PacketSource
  soha_message :: ProtocolMessage

definition ServerHeartbeatAckBoundary_build_for_send ::
  "ServerHeartbeatAckInput \<Rightarrow> ServerOutboundHeartbeatAck" where
  "ServerHeartbeatAckBoundary_build_for_send input =
     \<lparr> soha_destination = shai_destination input,
       soha_message = Message_HeartbeatAck
         \<lparr> hba_message_type = MessageType_HeartbeatAck,
           hba_protocol_version = shai_protocol_version input,
           hba_client_id = shai_client_id input, hba_run_id = shai_run_id input,
           hba_echoed_sent_at = shai_echoed_sent_at input,
           hba_server_received_at = shai_server_received_at input,
           hba_server_sent_at = shai_server_sent_at input \<rparr> \<rparr>"

definition ServerOutboundQueueBoundary_handoff_heartbeat_ack ::
  "ServerOutboundHeartbeatAck \<Rightarrow> OutboundQueueItem" where
  "ServerOutboundQueueBoundary_handoff_heartbeat_ack ack =
     OutboundPacketQueueBoundary_handoff
       \<lparr> op_destination = PacketDestination_from_source (soha_destination ack),
         op_message = soha_message ack \<rparr>"

record ServerNoticeInput =
  sni_destination :: PacketSource
  sni_protocol_version :: ProtocolVersion
  sni_run_id :: RunId
  sni_notice_type :: NoticeType
  sni_message :: string

datatype ServerNoticeTriggerSource =
  Trigger_Warning | Trigger_Disconnect | Trigger_ProtocolError | Trigger_AuthExpired | Trigger_ServerShutdown

fun ServerNoticeTriggerSource_notice_type :: "ServerNoticeTriggerSource \<Rightarrow> NoticeType" where
  "ServerNoticeTriggerSource_notice_type Trigger_Warning = NoticeType_Warning"
| "ServerNoticeTriggerSource_notice_type Trigger_Disconnect = NoticeType_Disconnect"
| "ServerNoticeTriggerSource_notice_type Trigger_ProtocolError = NoticeType_ProtocolError"
| "ServerNoticeTriggerSource_notice_type Trigger_AuthExpired = NoticeType_AuthExpired"
| "ServerNoticeTriggerSource_notice_type Trigger_ServerShutdown = NoticeType_ServerShutdown"

record ServerNoticeTriggerInput =
  snti_destination :: PacketSource
  snti_protocol_version :: ProtocolVersion
  snti_run_id :: RunId
  snti_source :: ServerNoticeTriggerSource
  snti_message :: string

record ServerNoticeTriggerPlan =
  sntp_source :: ServerNoticeTriggerSource
  sntp_notice :: ServerNoticeInput

definition ServerNoticeTriggerPolicyBoundary_plan_notice ::
  "ServerNoticeTriggerInput \<Rightarrow> ServerNoticeTriggerPlan" where
  "ServerNoticeTriggerPolicyBoundary_plan_notice input =
     \<lparr> sntp_source = snti_source input,
       sntp_notice = \<lparr> sni_destination = snti_destination input,
         sni_protocol_version = snti_protocol_version input, sni_run_id = snti_run_id input,
         sni_notice_type = ServerNoticeTriggerSource_notice_type (snti_source input),
         sni_message = snti_message input \<rparr> \<rparr>"

record ServerOutboundNotice =
  son_destination :: PacketSource
  son_message :: ProtocolMessage

definition ServerNoticeBoundary_build_for_send :: "ServerNoticeInput \<Rightarrow> ServerOutboundNotice" where
  "ServerNoticeBoundary_build_for_send input =
     \<lparr> son_destination = sni_destination input,
       son_message = Message_ServerNotice
         \<lparr> sn_message_type = MessageType_ServerNotice,
           sn_protocol_version = sni_protocol_version input, sn_run_id = sni_run_id input,
           sn_notice_type = sni_notice_type input, sn_message = sni_message input \<rparr> \<rparr>"

definition ServerOutboundQueueBoundary_handoff_notice :: "ServerOutboundNotice \<Rightarrow> OutboundQueueItem" where
  "ServerOutboundQueueBoundary_handoff_notice notice =
     OutboundPacketQueueBoundary_handoff
       \<lparr> op_destination = PacketDestination_from_source (son_destination notice),
         op_message = son_message notice \<rparr>"

definition ServerOutboundQueueBoundary_evaluate_storage_push ::
  "nat \<Rightarrow> OutboundQueueItem \<Rightarrow> OutboundQueueStorageDecision" where
  "ServerOutboundQueueBoundary_evaluate_storage_push current_len item =
     OutboundQueueStorageBoundary_evaluate_push OutboundQueueCapacityPolicy_default current_len item"

section \<open>The heartbeat handler\<close>

record ServerHeartbeatAckTiming =
  shat_server_received_at :: TimestampMicros
  shat_server_sent_at :: TimestampMicros

record ServerHeartbeatStateInput =
  shsi_source :: PacketSource
  shsi_authenticated_sender :: AuthenticatedSenderEntry
  shsi_client_id :: ClientId
  shsi_run_id :: RunId
  shsi_protocol_version :: ProtocolVersion
  shsi_heartbeat_sent_at :: TimestampMicros
  shsi_server_received_at :: TimestampMicros
  shsi_short_status :: "string option"

record ServerHeartbeatTimebaseInput =
  shti_client_id :: ClientId
  shti_run_id :: RunId
  shti_client_sent_at :: TimestampMicros
  shti_client_local_time :: "TimestampMicros option"
  shti_server_received_at :: TimestampMicros
  shti_server_sent_at :: TimestampMicros

record ServerHeartbeatTimebasePlan =
  shtp_client_id :: ClientId
  shtp_run_id :: RunId
  shtp_estimate :: HeartbeatTimebaseEstimatePlan

definition ServerHeartbeatTimebasePlanBoundary_build_plan ::
  "ServerHeartbeatTimebaseInput \<Rightarrow> ServerHeartbeatTimebasePlan" where
  "ServerHeartbeatTimebasePlanBoundary_build_plan input =
     \<lparr> shtp_client_id = shti_client_id input, shtp_run_id = shti_run_id input,
       shtp_estimate = HeartbeatTimebasePlanBoundary_build_plan
         \<lparr> hts_client_sent_at_micros = shti_client_sent_at input,
           hts_client_local_time_micros = shti_client_local_time input,
           hts_server_received_at_micros = shti_server_received_at input,
           hts_server_sent_at_micros = shti_server_sent_at input \<rparr> \<rparr>"

record ServerHeartbeatProcessingInputs =
  shpi_state :: ServerHeartbeatStateInput
  shpi_timebase :: ServerHeartbeatTimebaseInput
  shpi_timebase_plan :: ServerHeartbeatTimebasePlan
  shpi_ack_timing :: ServerHeartbeatAckTiming

definition ServerHeartbeatInputBoundary_prepare_inputs ::
  "ServerRegisteredHeartbeatPacket \<Rightarrow> ServerHeartbeatAckTiming \<Rightarrow> ServerHeartbeatProcessingInputs" where
  "ServerHeartbeatInputBoundary_prepare_inputs packet timing =
     (let heartbeat = srh_heartbeat packet;
          timebase = \<lparr> shti_client_id = hb_client_id heartbeat, shti_run_id = hb_run_id heartbeat,
            shti_client_sent_at = hb_sent_at heartbeat,
            shti_client_local_time = hb_local_time heartbeat,
            shti_server_received_at = shat_server_received_at timing,
            shti_server_sent_at = shat_server_sent_at timing \<rparr> in
      \<lparr> shpi_state = \<lparr> shsi_source = srh_source packet,
          shsi_authenticated_sender = srh_authenticated_sender packet,
          shsi_client_id = hb_client_id heartbeat, shsi_run_id = hb_run_id heartbeat,
          shsi_protocol_version = hb_protocol_version heartbeat,
          shsi_heartbeat_sent_at = hb_sent_at heartbeat,
          shsi_server_received_at = shat_server_received_at timing,
          shsi_short_status = hb_short_status heartbeat \<rparr>,
        shpi_timebase = timebase,
        shpi_timebase_plan = ServerHeartbeatTimebasePlanBoundary_build_plan timebase,
        shpi_ack_timing = timing \<rparr>)"

record ServerHeartbeatAckHandoff =
  shah_registered_packet :: ServerRegisteredHeartbeatPacket
  shah_processing_inputs :: ServerHeartbeatProcessingInputs
  shah_ack_input :: ServerHeartbeatAckInput
  shah_outbound_ack :: ServerOutboundHeartbeatAck
  shah_queue_item :: OutboundQueueItem

definition ServerHeartbeatHandlerBoundary_handoff_ack ::
  "ServerRegisteredHeartbeatPacket \<Rightarrow> ServerHeartbeatAckTiming \<Rightarrow> ServerHeartbeatAckHandoff" where
  "ServerHeartbeatHandlerBoundary_handoff_ack packet timing =
     (let heartbeat = srh_heartbeat packet;
          ack_input = \<lparr> shai_destination = srh_source packet,
            shai_protocol_version = hb_protocol_version heartbeat,
            shai_client_id = hb_client_id heartbeat, shai_run_id = hb_run_id heartbeat,
            shai_echoed_sent_at = hb_sent_at heartbeat,
            shai_server_received_at = shat_server_received_at timing,
            shai_server_sent_at = shat_server_sent_at timing \<rparr>;
          outbound_ack = ServerHeartbeatAckBoundary_build_for_send ack_input in
      \<lparr> shah_registered_packet = packet,
        shah_processing_inputs = ServerHeartbeatInputBoundary_prepare_inputs packet timing,
        shah_ack_input = ack_input, shah_outbound_ack = outbound_ack,
        shah_queue_item = ServerOutboundQueueBoundary_handoff_heartbeat_ack outbound_ack \<rparr>)"

section \<open>Liveness\<close>

datatype ServerHeartbeatLivenessStatus = Liveness_Alive | Liveness_TimedOut

record ServerHeartbeatLivenessEntry =
  shle_source :: PacketSource
  shle_authenticated_sender :: AuthenticatedSenderEntry
  shle_client_id :: ClientId
  shle_run_id :: RunId
  shle_protocol_version :: ProtocolVersion
  shle_last_heartbeat_sent_at :: TimestampMicros
  shle_last_server_received_at :: TimestampMicros
  shle_last_short_status :: "string option"
  shle_received_heartbeats :: u64
  shle_status :: ServerHeartbeatLivenessStatus

record ServerHeartbeatLivenessState =
  liveness_entries :: "(string, ServerHeartbeatLivenessEntry) btree_map"

definition ServerHeartbeatLivenessState_get ::
  "ServerHeartbeatLivenessState \<Rightarrow> ClientId \<Rightarrow> ServerHeartbeatLivenessEntry option" where
  "ServerHeartbeatLivenessState_get self client_id = btree_get (liveness_entries self) client_id"

record ServerHeartbeatLivenessCommitOutcome =
  shlc_previous :: "ServerHeartbeatLivenessEntry option"
  shlc_committed :: ServerHeartbeatLivenessEntry

definition ServerHeartbeatLivenessCommitBoundary_commit ::
  "ServerHeartbeatLivenessState \<Rightarrow> ServerHeartbeatStateInput \<Rightarrow>
     ServerHeartbeatLivenessState \<times> ServerHeartbeatLivenessCommitOutcome" where
  "ServerHeartbeatLivenessCommitBoundary_commit state input =
     (let key = shsi_client_id input;
          previous = btree_get (liveness_entries state) key;
          received_heartbeats = (case previous of
              Some entry \<Rightarrow> u64_saturating_add (shle_received_heartbeats entry) 1
            | None \<Rightarrow> 1);
          committed = \<lparr> shle_source = shsi_source input,
            shle_authenticated_sender = shsi_authenticated_sender input,
            shle_client_id = shsi_client_id input, shle_run_id = shsi_run_id input,
            shle_protocol_version = shsi_protocol_version input,
            shle_last_heartbeat_sent_at = shsi_heartbeat_sent_at input,
            shle_last_server_received_at = shsi_server_received_at input,
            shle_last_short_status = shsi_short_status input,
            shle_received_heartbeats = received_heartbeats, shle_status = Liveness_Alive \<rparr> in
      (state \<lparr> liveness_entries := btree_insert key committed (liveness_entries state) \<rparr>,
       \<lparr> shlc_previous = previous, shlc_committed = committed \<rparr>))"

record ServerHeartbeatTimeoutPolicy =
  timeout_after_micros :: u64

datatype ServerHeartbeatTimeoutEvaluation =
    Timeout_NoHeartbeat ClientId
  | Timeout_Alive ClientId TimestampMicros u64 u64
  | Timeout_TimedOut ClientId TimestampMicros u64 u64

definition ServerHeartbeatLivenessCommitBoundary_evaluate_timeout ::
  "ServerHeartbeatLivenessState \<Rightarrow> ClientId \<Rightarrow> TimestampMicros \<Rightarrow> ServerHeartbeatTimeoutPolicy \<Rightarrow>
     ServerHeartbeatTimeoutEvaluation" where
  "ServerHeartbeatLivenessCommitBoundary_evaluate_timeout state client_id now policy =
     (case ServerHeartbeatLivenessState_get state client_id of
        None \<Rightarrow> Timeout_NoHeartbeat client_id
      | Some entry \<Rightarrow>
          let elapsed_micros = u64_saturating_sub now (shle_last_server_received_at entry) in
          if elapsed_micros \<ge> timeout_after_micros policy
          then Timeout_TimedOut client_id (shle_last_server_received_at entry) elapsed_micros
                 (timeout_after_micros policy)
          else Timeout_Alive client_id (shle_last_server_received_at entry) elapsed_micros
                 (timeout_after_micros policy))"

datatype ServerHeartbeatOperationalReason =
  HeartbeatReason_NoHeartbeatYet | HeartbeatReason_Alive | HeartbeatReason_TimedOut

record ServerHeartbeatOperationalSummary =
  shos_status :: ServerOperationalConditionStatus
  shos_client_id :: ClientId
  shos_reason :: ServerHeartbeatOperationalReason
  shos_last_server_received_at :: "TimestampMicros option"
  shos_elapsed_micros :: "u64 option"
  shos_timeout_after_micros :: "u64 option"

definition heartbeat_operational_summary_from_evaluation ::
  "ServerHeartbeatTimeoutEvaluation \<Rightarrow> ServerHeartbeatOperationalSummary" where
  "heartbeat_operational_summary_from_evaluation evaluation =
     (case evaluation of
        Timeout_NoHeartbeat client_id \<Rightarrow>
          \<lparr> shos_status = Status_Continue, shos_client_id = client_id,
            shos_reason = HeartbeatReason_NoHeartbeatYet, shos_last_server_received_at = None,
            shos_elapsed_micros = None, shos_timeout_after_micros = None \<rparr>
      | Timeout_Alive client_id last_received elapsed timeout_after \<Rightarrow>
          \<lparr> shos_status = Status_Continue, shos_client_id = client_id,
            shos_reason = HeartbeatReason_Alive, shos_last_server_received_at = Some last_received,
            shos_elapsed_micros = Some elapsed, shos_timeout_after_micros = Some timeout_after \<rparr>
      | Timeout_TimedOut client_id last_received elapsed timeout_after \<Rightarrow>
          \<lparr> shos_status = Status_ReconnectRequired, shos_client_id = client_id,
            shos_reason = HeartbeatReason_TimedOut,
            shos_last_server_received_at = Some last_received,
            shos_elapsed_micros = Some elapsed, shos_timeout_after_micros = Some timeout_after \<rparr>)"

section \<open>Timeout actions\<close>

record ServerHeartbeatTimeoutLogInput =
  shtl_source :: PacketSource
  shtl_client_id :: ClientId
  shtl_run_id :: RunId
  shtl_protocol_version :: ProtocolVersion
  shtl_last_server_received_at :: TimestampMicros
  shtl_evaluated_at :: TimestampMicros
  shtl_elapsed_micros :: u64
  shtl_timeout_after_micros :: u64
  shtl_registry_invalidation_planned :: bool
  shtl_notice_planned :: bool

record ServerHeartbeatTimeoutActionPlan =
  stap_evaluation :: ServerHeartbeatTimeoutEvaluation
  stap_registry_invalidation :: "AuthenticatedSenderInvalidation option"
  stap_timeout_log :: "ServerHeartbeatTimeoutLogInput option"
  stap_notice :: "ServerNoticeTriggerPlan option"

definition ServerHeartbeatTimeoutActionBoundary_plan_actions ::
  "ServerHeartbeatLivenessState \<Rightarrow> ServerHeartbeatTimeoutEvaluation \<Rightarrow> TimestampMicros \<Rightarrow>
     ServerHeartbeatTimeoutActionPlan" where
  "ServerHeartbeatTimeoutActionBoundary_plan_actions state evaluation evaluated_at =
     (let nothing = \<lparr> stap_evaluation = evaluation, stap_registry_invalidation = None,
            stap_timeout_log = None, stap_notice = None \<rparr> in
      case evaluation of
        Timeout_TimedOut client_id last_received elapsed timeout_after \<Rightarrow>
          (case ServerHeartbeatLivenessState_get state client_id of
             None \<Rightarrow> nothing
           | Some entry \<Rightarrow>
               \<lparr> stap_evaluation = evaluation,
                 stap_registry_invalidation = Some
                   \<lparr> asi_client_id = shle_client_id entry, asi_source = shle_source entry,
                     asi_run_id = shle_run_id entry,
                     asi_protocol_version = shle_protocol_version entry,
                     asi_reason = HeartbeatTimeout, asi_invalidated_at = evaluated_at \<rparr>,
                 stap_timeout_log = Some
                   \<lparr> shtl_source = shle_source entry, shtl_client_id = shle_client_id entry,
                     shtl_run_id = shle_run_id entry,
                     shtl_protocol_version = shle_protocol_version entry,
                     shtl_last_server_received_at = last_received,
                     shtl_evaluated_at = evaluated_at, shtl_elapsed_micros = elapsed,
                     shtl_timeout_after_micros = timeout_after,
                     shtl_registry_invalidation_planned = True, shtl_notice_planned = True \<rparr>,
                 stap_notice = Some (ServerNoticeTriggerPolicyBoundary_plan_notice
                   \<lparr> snti_destination = shle_source entry,
                     snti_protocol_version = shle_protocol_version entry,
                     snti_run_id = shle_run_id entry, snti_source = Trigger_AuthExpired,
                     snti_message = ''heartbeat timeout: elapsed_micros='' @ display_u64 elapsed
                       @ '' timeout_after_micros='' @ display_u64 timeout_after \<rparr>) \<rparr>)
      | _ \<Rightarrow> nothing)"

record ServerHeartbeatTimeoutNoticeHandoff =
  stnh_trigger_plan :: ServerNoticeTriggerPlan
  stnh_outbound_notice :: ServerOutboundNotice
  stnh_queue_item :: OutboundQueueItem

record ServerHeartbeatTimeoutApplyResult =
  star_evaluation :: ServerHeartbeatTimeoutEvaluation
  star_registry_invalidation :: "AuthenticatedSenderInvalidationOutcome option"
  star_timeout_log_event :: "ServerHeartbeatTimeoutLogInput option"
  star_notice_handoff :: "ServerHeartbeatTimeoutNoticeHandoff option"

text \<open>
  The caller's log writer is a state \<open>'w\<close> and a function that writes one timeout record to
  it and may fail. The event is the log input with a constant name in front. When a write
  fails the registry has already been changed, so the state is returned on both outcomes.
\<close>

definition ServerHeartbeatTimeoutApplyBoundary_apply_plan ::
  "('w \<Rightarrow> ServerHeartbeatTimeoutLogInput \<Rightarrow> 'w \<times> (unit, 'io) result) \<Rightarrow>
     AuthenticatedSenderRegistry \<Rightarrow> ServerHeartbeatTimeoutActionPlan \<Rightarrow> 'w \<Rightarrow>
     AuthenticatedSenderRegistry \<times> 'w \<times> (ServerHeartbeatTimeoutApplyResult, 'io) result" where
  "ServerHeartbeatTimeoutApplyBoundary_apply_plan write_event registry plan writer =
     (let (registry, registry_invalidation) = (case stap_registry_invalidation plan of
            None \<Rightarrow> (registry, None)
          | Some invalidation \<Rightarrow> map_prod id Some
              (AuthenticatedSenderRegistryBoundary_invalidate registry invalidation));
          (writer, written) = (case stap_timeout_log plan of
            None \<Rightarrow> (writer, Ok None)
          | Some input \<Rightarrow> map_prod id (rmap (\<lambda>_. Some input)) (write_event writer input)) in
      (registry, writer,
       rmap (\<lambda>timeout_log_event.
         \<lparr> star_evaluation = stap_evaluation plan,
           star_registry_invalidation = registry_invalidation,
           star_timeout_log_event = timeout_log_event,
           star_notice_handoff = map_option (\<lambda>trigger_plan.
             let outbound_notice = ServerNoticeBoundary_build_for_send (sntp_notice trigger_plan) in
             \<lparr> stnh_trigger_plan = trigger_plan, stnh_outbound_notice = outbound_notice,
               stnh_queue_item = ServerOutboundQueueBoundary_handoff_notice outbound_notice \<rparr>)
             (stap_notice plan) \<rparr>) written))"

section \<open>The outbound queue\<close>

record ServerOutboundQueueCollection =
  soqc_items :: "QueuedOutboundItem list"

datatype ServerOutboundQueueDequeueRuntimeResult =
  Dequeue_Ready QueuedOutboundItem | Dequeue_Empty

definition ServerOutboundQueueCollectionBoundary_dequeue_one ::
  "ServerOutboundQueueCollection \<Rightarrow>
     ServerOutboundQueueCollection \<times> ServerOutboundQueueDequeueRuntimeResult" where
  "ServerOutboundQueueCollectionBoundary_dequeue_one collection =
     (case soqc_items collection of
        [] \<Rightarrow> (collection, Dequeue_Empty)
      | item # rest \<Rightarrow> (collection \<lparr> soqc_items := rest \<rparr>, Dequeue_Ready item))"

datatype ServerHeartbeatTimeoutNoticeSendWakeupReason = TimeoutNoticeQueued

datatype ServerHeartbeatTimeoutNoticeSendWakeupPlan =
    Wakeup_NotRequested
  | RequestSendLoopWakeup ServerHeartbeatTimeoutNoticeSendWakeupReason

datatype ServerHeartbeatTimeoutNoticeQueueStorageResult =
    Notice_NoNotice ServerHeartbeatTimeoutNoticeSendWakeupPlan
  | Notice_Stored OutboundQueueStorageDecision QueuedOutboundItem nat ServerHeartbeatTimeoutNoticeSendWakeupPlan
  | Notice_Dropped OutboundQueueStorageDecision nat ServerHeartbeatTimeoutNoticeSendWakeupPlan

definition ServerHeartbeatTimeoutNoticeQueueStorageBoundary_store_notice ::
  "ServerOutboundQueueCollection \<Rightarrow> ServerHeartbeatTimeoutApplyResult \<Rightarrow>
     ServerOutboundQueueCollection \<times> ServerHeartbeatTimeoutNoticeQueueStorageResult" where
  "ServerHeartbeatTimeoutNoticeQueueStorageBoundary_store_notice collection apply_result =
     (case star_notice_handoff apply_result of
        None \<Rightarrow> (collection, Notice_NoNotice Wakeup_NotRequested)
      | Some notice \<Rightarrow>
          let decision = ServerOutboundQueueBoundary_evaluate_storage_push
                (length (soqc_items collection)) (stnh_queue_item notice) in
          if \<not> OutboundQueueStorageDecision_accepts_candidate decision
          then (collection, Notice_Dropped decision (length (soqc_items collection)) Wakeup_NotRequested)
          else
            let queued_item = OutboundQueueLifecycleBoundary_hold_for_send (stnh_queue_item notice);
                collection = collection \<lparr> soqc_items := soqc_items collection @ [queued_item] \<rparr> in
            (collection, Notice_Stored decision queued_item (length (soqc_items collection))
               (RequestSendLoopWakeup TimeoutNoticeQueued)))"

section \<open>The timeout loop\<close>

record ServerHeartbeatTimeoutLoopTickInput =
  stli_client_id :: ClientId
  stli_evaluated_at :: TimestampMicros
  stli_policy :: ServerHeartbeatTimeoutPolicy

record ServerHeartbeatTimeoutLoopTickResult =
  stlr_input :: ServerHeartbeatTimeoutLoopTickInput
  stlr_operational_summary :: ServerHeartbeatOperationalSummary
  stlr_action_plan :: ServerHeartbeatTimeoutActionPlan
  stlr_apply :: ServerHeartbeatTimeoutApplyResult

definition ServerHeartbeatTimeoutLoopTickBoundary_run_one_client ::
  "('w \<Rightarrow> ServerHeartbeatTimeoutLogInput \<Rightarrow> 'w \<times> (unit, 'io) result) \<Rightarrow>
     ServerHeartbeatLivenessState \<Rightarrow> AuthenticatedSenderRegistry \<Rightarrow>
     ServerHeartbeatTimeoutLoopTickInput \<Rightarrow> 'w \<Rightarrow>
     AuthenticatedSenderRegistry \<times> 'w \<times> (ServerHeartbeatTimeoutLoopTickResult, 'io) result" where
  "ServerHeartbeatTimeoutLoopTickBoundary_run_one_client write_event liveness registry input writer =
     (let evaluation = ServerHeartbeatLivenessCommitBoundary_evaluate_timeout liveness
            (stli_client_id input) (stli_evaluated_at input) (stli_policy input);
          action_plan = ServerHeartbeatTimeoutActionBoundary_plan_actions liveness evaluation
            (stli_evaluated_at input);
          (registry, writer, applied) =
            ServerHeartbeatTimeoutApplyBoundary_apply_plan write_event registry action_plan writer in
      (registry, writer,
       rmap (\<lambda>result. \<lparr> stlr_input = input,
         stlr_operational_summary = heartbeat_operational_summary_from_evaluation evaluation,
         stlr_action_plan = action_plan, stlr_apply = result \<rparr>) applied))"

record ServerHeartbeatTimeoutMultiClientLoopInput =
  smli_evaluated_at :: TimestampMicros
  smli_policy :: ServerHeartbeatTimeoutPolicy

record ServerHeartbeatTimeoutMultiClientLoopClientResult =
  smlc_client_id :: ClientId
  smlc_tick :: ServerHeartbeatTimeoutLoopTickResult
  smlc_notice_queue_storage :: ServerHeartbeatTimeoutNoticeQueueStorageResult

datatype ServerHeartbeatTimeoutMultiClientLoopResult =
    NoClientsAvailable ServerHeartbeatTimeoutMultiClientLoopInput
  | AllClientsProcessed ServerHeartbeatTimeoutMultiClientLoopInput
      "ServerHeartbeatTimeoutMultiClientLoopClientResult list" nat

definition has_timeout_action :: "ServerHeartbeatTimeoutApplyResult \<Rightarrow> bool" where
  "has_timeout_action r \<longleftrightarrow>
     star_registry_invalidation r \<noteq> None \<or> star_timeout_log_event r \<noteq> None \<or>
     star_notice_handoff r \<noteq> None"

fun timeout_loop ::
  "('w \<Rightarrow> ServerHeartbeatTimeoutLogInput \<Rightarrow> 'w \<times> (unit, 'io) result) \<Rightarrow>
     ServerHeartbeatLivenessState \<Rightarrow> ServerHeartbeatTimeoutMultiClientLoopInput \<Rightarrow> ClientId list \<Rightarrow>
     AuthenticatedSenderRegistry \<Rightarrow> ServerOutboundQueueCollection \<Rightarrow> 'w \<Rightarrow>
     ServerHeartbeatTimeoutMultiClientLoopClientResult list \<Rightarrow> nat \<Rightarrow>
     AuthenticatedSenderRegistry \<times> ServerOutboundQueueCollection \<times> 'w \<times>
       (ServerHeartbeatTimeoutMultiClientLoopResult, 'io) result" where
  "timeout_loop write_event liveness input [] registry queue writer processed actions =
     (registry, queue, writer, Ok (AllClientsProcessed input processed actions))"
| "timeout_loop write_event liveness input (client_id # rest) registry queue writer processed actions =
     (let (registry, writer, ticked) =
            ServerHeartbeatTimeoutLoopTickBoundary_run_one_client write_event liveness registry
              \<lparr> stli_client_id = client_id, stli_evaluated_at = smli_evaluated_at input,
                stli_policy = smli_policy input \<rparr> writer in
      case ticked of
        Inl e \<Rightarrow> (registry, queue, writer, Inl e)
      | Inr tick \<Rightarrow>
          let actions = (if has_timeout_action (stlr_apply tick)
                then usize_saturating_add actions 1 else actions);
              (queue, storage) =
                ServerHeartbeatTimeoutNoticeQueueStorageBoundary_store_notice queue (stlr_apply tick) in
          timeout_loop write_event liveness input rest registry queue writer
            (processed @ [\<lparr> smlc_client_id = client_id, smlc_tick = tick,
               smlc_notice_queue_storage = storage \<rparr>]) actions)"

definition ServerHeartbeatTimeoutMultiClientLoopBoundary_run_all_registered ::
  "('w \<Rightarrow> ServerHeartbeatTimeoutLogInput \<Rightarrow> 'w \<times> (unit, 'io) result) \<Rightarrow>
     ServerHeartbeatLivenessState \<Rightarrow> AuthenticatedSenderRegistry \<Rightarrow>
     ServerOutboundQueueCollection \<Rightarrow> ServerHeartbeatTimeoutMultiClientLoopInput \<Rightarrow> 'w \<Rightarrow>
     AuthenticatedSenderRegistry \<times> ServerOutboundQueueCollection \<times> 'w \<times>
       (ServerHeartbeatTimeoutMultiClientLoopResult, 'io) result" where
  "ServerHeartbeatTimeoutMultiClientLoopBoundary_run_all_registered write_event liveness registry
       queue input writer =
     (let client_ids = map ase_client_id (AuthenticatedSenderRegistry_entries registry) in
      if client_ids = [] then (registry, queue, writer, Ok (NoClientsAvailable input))
      else timeout_loop write_event liveness input client_ids registry queue writer [] 0)"

section \<open>Liveness of one client\<close>

definition liveness_ok :: "ServerHeartbeatLivenessState \<Rightarrow> bool" where
  "liveness_ok st \<longleftrightarrow>
     btree_inv (liveness_entries st) \<and> (\<forall>(c, e) \<in> set (liveness_entries st). shle_client_id e = c)"

lemma liveness_get_client:
  "liveness_ok st \<Longrightarrow> ServerHeartbeatLivenessState_get st c = Some e \<Longrightarrow> shle_client_id e = c"
  by (auto simp: liveness_ok_def ServerHeartbeatLivenessState_get_def dest: btree_get_in_set [THEN iffD2])

lemma commit_ok:
  assumes "liveness_ok st"
  shows "liveness_ok (fst (ServerHeartbeatLivenessCommitBoundary_commit st input))"
proof -
  let ?e = "shlc_committed (snd (ServerHeartbeatLivenessCommitBoundary_commit st input))"
  have "fst (ServerHeartbeatLivenessCommitBoundary_commit st input) = st \<lparr> liveness_entries :=
      btree_insert (shsi_client_id input) ?e (liveness_entries st) \<rparr>"
    and "shle_client_id ?e = shsi_client_id input"
    by (simp_all add: ServerHeartbeatLivenessCommitBoundary_commit_def Let_def)
  then show ?thesis
    using assms set_btree_insert [of "shsi_client_id input" ?e "liveness_entries st"]
    by (auto simp: liveness_ok_def btree.inv_insert)
qed

lemma commit_get:
  assumes "liveness_ok st"
  shows "ServerHeartbeatLivenessState_get (fst (ServerHeartbeatLivenessCommitBoundary_commit st input)) c
    = (if c = shsi_client_id input
       then Some (shlc_committed (snd (ServerHeartbeatLivenessCommitBoundary_commit st input)))
       else ServerHeartbeatLivenessState_get st c)"
  using assms
  by (simp add: ServerHeartbeatLivenessCommitBoundary_commit_def Let_def liveness_ok_def
      ServerHeartbeatLivenessState_get_def btree.lookup_insert)

definition commit_all ::
  "ServerHeartbeatStateInput list \<Rightarrow> ServerHeartbeatLivenessState \<Rightarrow> ServerHeartbeatLivenessState" where
  "commit_all inputs st = fold (\<lambda>i st. fst (ServerHeartbeatLivenessCommitBoundary_commit st i)) inputs st"

definition heartbeat_count :: "ServerHeartbeatLivenessState \<Rightarrow> ClientId \<Rightarrow> nat" where
  "heartbeat_count st c =
     (case ServerHeartbeatLivenessState_get st c of
        None \<Rightarrow> 0 | Some e \<Rightarrow> unat (shle_received_heartbeats e))"

lemma commit_count:
  assumes "liveness_ok st"
  shows "heartbeat_count (fst (ServerHeartbeatLivenessCommitBoundary_commit st i)) c =
    (if c = shsi_client_id i then min (heartbeat_count st c + 1) (2 ^ 64 - 1)
     else heartbeat_count st c)"
  using commit_get [OF assms]
  by (auto simp: heartbeat_count_def ServerHeartbeatLivenessCommitBoundary_commit_def Let_def
      ServerHeartbeatLivenessState_get_def u64_saturating_add_unat split: option.split)

lemma heartbeat_count_less: "heartbeat_count st c < 2 ^ 64"
  by (simp add: heartbeat_count_def unat_u64_less split: option.split)

lemma commit_all_count:
  assumes "liveness_ok st"
  shows "heartbeat_count (commit_all is st) c =
    min (heartbeat_count st c + length (filter (\<lambda>i. shsi_client_id i = c) is)) (2 ^ 64 - 1)"
  using assms
proof (induction "is" arbitrary: st)
  case Nil
  then show ?case using heartbeat_count_less [of st c] by (simp add: commit_all_def)
next
  case (Cons i rest)
  let ?st = "fst (ServerHeartbeatLivenessCommitBoundary_commit st i)"
  have "heartbeat_count (commit_all rest ?st) c =
      min (heartbeat_count ?st c + length (filter (\<lambda>i. shsi_client_id i = c) rest)) (2 ^ 64 - 1)"
    using Cons.prems by (intro Cons.IH) (simp_all add: commit_ok commit_count)
  then show ?case
    using Cons.prems by (simp add: commit_all_def commit_count) (auto simp: min_def)
qed

definition timed_out ::
  "ServerHeartbeatLivenessState \<Rightarrow> TimestampMicros \<Rightarrow> ServerHeartbeatTimeoutPolicy \<Rightarrow> ClientId \<Rightarrow> bool" where
  "timed_out st now policy c \<longleftrightarrow>
     (\<exists>e. ServerHeartbeatLivenessState_get st c = Some e \<and>
        unat (timeout_after_micros policy) \<le> unat now - unat (shle_last_server_received_at e))"

lemma evaluate_timeout_cases:
  "ServerHeartbeatLivenessCommitBoundary_evaluate_timeout st c now policy =
     (case ServerHeartbeatLivenessState_get st c of
        None \<Rightarrow> Timeout_NoHeartbeat c
      | Some e \<Rightarrow>
          (if timed_out st now policy c then Timeout_TimedOut else Timeout_Alive) c
            (shle_last_server_received_at e)
            (u64_saturating_sub now (shle_last_server_received_at e))
            (timeout_after_micros policy))"
  by (simp add: ServerHeartbeatLivenessCommitBoundary_evaluate_timeout_def timed_out_def Let_def
      word_le_nat_alt u64_saturating_sub_unat split: option.split)

section \<open>The loop over all clients\<close>

lemma one_client_registry:
  assumes "liveness_ok st"
  shows "fst (ServerHeartbeatTimeoutLoopTickBoundary_run_one_client wr st reg i w) =
    (if timed_out st (stli_evaluated_at i) (stli_policy i) (stli_client_id i)
     then invalidate_client reg (stli_client_id i) else reg)"
  using liveness_get_client [OF assms, of "stli_client_id i"]
  by (auto simp: ServerHeartbeatTimeoutLoopTickBoundary_run_one_client_def Let_def
      evaluate_timeout_cases ServerHeartbeatTimeoutActionBoundary_plan_actions_def
      ServerHeartbeatTimeoutApplyBoundary_apply_plan_def timed_out_def case_prod_unfold
      invalidate_state split: option.splits)

text \<open>Whether the loop finishes or stops at a failed log write, it only ever removes timed-out clients.\<close>

lemma timeout_loop_registry:
  assumes "liveness_ok st" and "registry_ok reg"
  shows "registry_ok (fst (timeout_loop wr st i cs reg q w ps n)) \<and>
    (\<forall>c. AuthenticatedSenderRegistry_get (fst (timeout_loop wr st i cs reg q w ps n)) c
        \<in> {AuthenticatedSenderRegistry_get reg c, None} \<and>
      (\<not> (c \<in> set cs \<and> timed_out st (smli_evaluated_at i) (smli_policy i) c) \<longrightarrow>
        AuthenticatedSenderRegistry_get (fst (timeout_loop wr st i cs reg q w ps n)) c
          = AuthenticatedSenderRegistry_get reg c))"
  using assms(2)
proof (induction cs arbitrary: reg q w ps n)
  case (Cons d cs)
  let ?in = "\<lparr> stli_client_id = d, stli_evaluated_at = smli_evaluated_at i,
    stli_policy = smli_policy i \<rparr>"
  obtain reg' w' tick where one:
    "ServerHeartbeatTimeoutLoopTickBoundary_run_one_client wr st reg ?in w = (reg', w', tick)"
    by (metis prod_cases3)
  have reg': "reg' = (if timed_out st (smli_evaluated_at i) (smli_policy i) d
      then invalidate_client reg d else reg)"
    using one_client_registry [OF assms(1), of wr reg ?in w] one by simp
  have ok': "registry_ok reg'" using Cons.prems by (simp add: reg' registry.ok_invalidate)
  have get': "AuthenticatedSenderRegistry_get reg' c =
      (if c = d \<and> timed_out st (smli_evaluated_at i) (smli_policy i) d then None
       else AuthenticatedSenderRegistry_get reg c)" for c
    using Cons.prems by (simp add: reg' registry.get_invalidate)
  show ?case
  proof (cases tick)
    case (Inl e)
    then show ?thesis using one ok' get' by (auto simp: Let_def)
  next
    case (Inr t)
    then show ?thesis
      using one Cons.IH [OF ok'] get'
      by (simp add: Let_def case_prod_unfold) (metis (no_types))
  qed
qed simp

lemma timeout_loop_complete:
  assumes "liveness_ok st" and "registry_ok reg"
    and "timeout_loop wr st i cs reg q w ps n = (reg', q', w', Ok r)"
    and "c \<in> set cs" and "timed_out st (smli_evaluated_at i) (smli_policy i) c"
  shows "AuthenticatedSenderRegistry_get reg' c = None"
  using assms(2,3,4)
proof (induction cs arbitrary: reg q w ps n)
  case (Cons d cs)
  let ?in = "\<lparr> stli_client_id = d, stli_evaluated_at = smli_evaluated_at i,
    stli_policy = smli_policy i \<rparr>"
  obtain reg1 w1 tick where one:
    "ServerHeartbeatTimeoutLoopTickBoundary_run_one_client wr st reg ?in w = (reg1, w1, tick)"
    by (metis prod_cases3)
  have reg1: "reg1 = (if timed_out st (smli_evaluated_at i) (smli_policy i) d
      then invalidate_client reg d else reg)"
    using one_client_registry [OF assms(1), of wr reg ?in w] one by simp
  have ok1: "registry_ok reg1" using Cons.prems by (simp add: reg1 registry.ok_invalidate)
  obtain t where t: "tick = Inr t" using Cons.prems(2) one by (cases tick) (auto simp: Let_def)
  obtain q1 ps1 n1 where rest: "timeout_loop wr st i cs reg1 q1 w1 ps1 n1 = (reg', q', w', Ok r)"
    using Cons.prems(2) one t by (auto simp: Let_def case_prod_unfold)
  show ?case
  proof (cases "c = d")
    case True
    then have "AuthenticatedSenderRegistry_get reg1 c = None"
      using Cons.prems(1) assms(5) by (simp add: reg1 registry.get_invalidate)
    then show ?thesis
      using timeout_loop_registry [OF assms(1) ok1, of wr i cs q1 w1 ps1 n1, THEN conjunct2,
          rule_format, of c] rest by simp
  next
    case False
    then show ?thesis using Cons.IH [OF ok1 rest] Cons.prems(3) by simp
  qed
qed simp

lemma registered_ids: "registry_ok reg \<Longrightarrow>
    c \<in> set (map ase_client_id (AuthenticatedSenderRegistry_entries reg)) \<longleftrightarrow>
    AuthenticatedSenderRegistry_get reg c \<noteq> None"
proof -
  assume ok: "registry_ok reg"
  have "map ase_client_id (AuthenticatedSenderRegistry_entries reg) = map fst (entries_by_client_id reg)"
    using ok by (auto simp: registry_ok_def AuthenticatedSenderRegistry_entries_def btree_values_def)
  then show ?thesis
    using ok btree_get_in_set [of "entries_by_client_id reg" c]
    by (auto simp: registry_ok_def AuthenticatedSenderRegistry_get_def image_iff)
      (metis fst_conv)
qed

lemma run_all_registered_effect:
  assumes "liveness_ok st" and "registry_ok reg"
    and run: "ServerHeartbeatTimeoutMultiClientLoopBoundary_run_all_registered wr st reg q i w
      = (reg', q', w', Ok r)"
  shows "AuthenticatedSenderRegistry_get reg' c =
    (if timed_out st (smli_evaluated_at i) (smli_policy i) c then None
     else AuthenticatedSenderRegistry_get reg c)"
proof (cases "map ase_client_id (AuthenticatedSenderRegistry_entries reg) = []")
  case True
  then have "reg' = reg" and "AuthenticatedSenderRegistry_get reg c = None"
    using run registered_ids [OF assms(2), of c]
    by (auto simp: ServerHeartbeatTimeoutMultiClientLoopBoundary_run_all_registered_def)
  then show ?thesis by simp
next
  case False
  then have loop: "timeout_loop wr st i (map ase_client_id (AuthenticatedSenderRegistry_entries reg))
      reg q w [] 0 = (reg', q', w', Ok r)"
    using run by (simp add: ServerHeartbeatTimeoutMultiClientLoopBoundary_run_all_registered_def
        del: map_is_Nil_conv)
  show ?thesis
    using timeout_loop_complete [OF assms(1,2) loop, of c] registered_ids [OF assms(2), of c]
      timeout_loop_registry [OF assms(1,2), of wr i "map ase_client_id (AuthenticatedSenderRegistry_entries reg)" q w "[]" 0]
      loop
    by auto
qed

section \<open>The notice queue stays bounded\<close>

lemma store_notice_bounded:
  "length (soqc_items q) \<le> 64 \<Longrightarrow> star_notice_handoff r = Some h \<Longrightarrow>
     outbound_queue_item_class (op_message (oqi_packet (stnh_queue_item h))) = Class_Control \<Longrightarrow>
     length (soqc_items (fst (ServerHeartbeatTimeoutNoticeQueueStorageBoundary_store_notice q r))) \<le> 64"
  by (auto simp: ServerHeartbeatTimeoutNoticeQueueStorageBoundary_store_notice_def Let_def
      ServerOutboundQueueBoundary_evaluate_storage_push_def admission_defs
      OutboundQueueStorageDecision_accepts_candidate_def OutboundQueueCapacityPolicy_default_def)

lemma apply_notice_control:
  assumes "snd (snd (ServerHeartbeatTimeoutApplyBoundary_apply_plan wr reg p w)) = Ok r"
    and "star_notice_handoff r = Some h"
  shows "outbound_queue_item_class (op_message (oqi_packet (stnh_queue_item h))) = Class_Control"
  using assms
  by (auto simp: ServerHeartbeatTimeoutApplyBoundary_apply_plan_def Let_def case_prod_unfold
      rmap_eq_Inr_iff ServerOutboundQueueBoundary_handoff_notice_def
      OutboundPacketQueueBoundary_handoff_def ServerNoticeBoundary_build_for_send_def)

lemma timeout_loop_queue_bounded:
  "length (soqc_items q) \<le> 64 \<Longrightarrow>
     length (soqc_items (fst (snd (timeout_loop wr st i cs reg q w ps n)))) \<le> 64"
proof (induction cs arbitrary: reg q w ps n)
  case (Cons d cs)
  let ?in = "\<lparr> stli_client_id = d, stli_evaluated_at = smli_evaluated_at i,
    stli_policy = smli_policy i \<rparr>"
  obtain reg' w' tick where one:
    "ServerHeartbeatTimeoutLoopTickBoundary_run_one_client wr st reg ?in w = (reg', w', tick)"
    by (metis prod_cases3)
  show ?case
  proof (cases tick)
    case (Inl e)
    then show ?thesis using one Cons.prems by (simp add: Let_def)
  next
    case (Inr t)
    have ap: "\<exists>p. snd (snd (ServerHeartbeatTimeoutApplyBoundary_apply_plan wr reg p w))
        = Ok (stlr_apply t)"
      using one Inr by (auto simp: ServerHeartbeatTimeoutLoopTickBoundary_run_one_client_def Let_def
          case_prod_unfold rmap_eq_Inr_iff)
    have "length (soqc_items (fst
        (ServerHeartbeatTimeoutNoticeQueueStorageBoundary_store_notice q (stlr_apply t)))) \<le> 64"
    proof (cases "star_notice_handoff (stlr_apply t)")
      case None
      then show ?thesis using Cons.prems
        by (simp add: ServerHeartbeatTimeoutNoticeQueueStorageBoundary_store_notice_def)
    next
      case (Some h)
      obtain p where "snd (snd (ServerHeartbeatTimeoutApplyBoundary_apply_plan wr reg p w))
          = Ok (stlr_apply t)"
        using ap by blast
      from apply_notice_control [OF this Some]
      show ?thesis by (rule store_notice_bounded [OF Cons.prems Some])
    qed
    then show ?thesis using one Inr Cons.IH by (simp add: Let_def case_prod_unfold)
  qed
qed simp

section \<open>Properties\<close>

text \<open>
  The acknowledgement of a registered heartbeat goes back to the endpoint it came from,
  names its client and run, echoes its send time and carries the server's two times; the
  liveness and timebase inputs are about the same client, run and times.
\<close>

theorem heartbeat_ack_echoes:
  fixes packet timing
  defines "h \<equiv> ServerHeartbeatHandlerBoundary_handoff_ack packet timing"
  shows "dst_address (op_destination (oqi_packet (shah_queue_item h))) = src_address (srh_source packet) \<and>
    (\<exists>ack. op_message (oqi_packet (shah_queue_item h)) = Message_HeartbeatAck ack \<and>
       hba_client_id ack = hb_client_id (srh_heartbeat packet) \<and>
       hba_run_id ack = hb_run_id (srh_heartbeat packet) \<and>
       hba_echoed_sent_at ack = hb_sent_at (srh_heartbeat packet) \<and>
       hba_server_received_at ack = shat_server_received_at timing \<and>
       hba_server_sent_at ack = shat_server_sent_at timing) \<and>
    shsi_client_id (shpi_state (shah_processing_inputs h)) = hb_client_id (srh_heartbeat packet) \<and>
    shsi_server_received_at (shpi_state (shah_processing_inputs h)) = shat_server_received_at timing \<and>
    shti_client_sent_at (shpi_timebase (shah_processing_inputs h)) = hb_sent_at (srh_heartbeat packet)"
  by (simp add: h_def ServerHeartbeatHandlerBoundary_handoff_ack_def Let_def
      ServerOutboundQueueBoundary_handoff_heartbeat_ack_def OutboundPacketQueueBoundary_handoff_def
      PacketDestination_from_source_def ServerHeartbeatAckBoundary_build_for_send_def
      ServerHeartbeatInputBoundary_prepare_inputs_def)

definition liveness_start :: ServerHeartbeatLivenessState where
  "liveness_start = \<lparr> liveness_entries = [] \<rparr>"

lemma liveness_start_ok: "liveness_ok liveness_start"
  by (simp add: liveness_ok_def liveness_start_def btree.inv_empty)

text \<open>
  From an empty state the heartbeat count of a client is the number of its heartbeats
  committed, saturating at the largest 64-bit value; heartbeats of other clients do not count.
\<close>

theorem heartbeats_are_counted_per_client:
  "heartbeat_count (commit_all heartbeats liveness_start) c =
     min (length (filter (\<lambda>i. shsi_client_id i = c) heartbeats)) (2 ^ 64 - 1)"
  using commit_all_count [OF liveness_start_ok, of heartbeats c]
  by (simp add: heartbeat_count_def ServerHeartbeatLivenessState_get_def liveness_start_def)

text \<open>
  A client is timed out from the microsecond on at which the time since its last heartbeat
  reaches the limit; a clock that has gone back counts as no time, and a client without a
  heartbeat is never timed out.
\<close>

theorem timeout_evaluation:
  "ServerHeartbeatLivenessCommitBoundary_evaluate_timeout st c now policy =
     (case ServerHeartbeatLivenessState_get st c of
        None \<Rightarrow> Timeout_NoHeartbeat c
      | Some e \<Rightarrow>
          (if unat (timeout_after_micros policy) \<le> unat now - unat (shle_last_server_received_at e)
           then Timeout_TimedOut else Timeout_Alive) c
            (shle_last_server_received_at e)
            (u64_saturating_sub now (shle_last_server_received_at e))
            (timeout_after_micros policy))"
  by (simp add: evaluate_timeout_cases timed_out_def split: option.split)

text \<open>
  C21: When a pass over all registered clients finishes, exactly the timed-out ones are no
  longer registered and every other registration is as it was.
\<close>

theorem pass_removes_exactly_timed_out:
  assumes "liveness_ok st" and "registry_ok reg"
    and "ServerHeartbeatTimeoutMultiClientLoopBoundary_run_all_registered write_event st reg q i w
      = (reg', q', w', Ok r)"
  shows "AuthenticatedSenderRegistry_get reg' c =
    (if timed_out st (smli_evaluated_at i) (smli_policy i) c then None
     else AuthenticatedSenderRegistry_get reg c)"
  by (rule run_all_registered_effect [OF assms])

definition cam_1_entry :: "u64 \<Rightarrow> AuthenticatedSenderEntry" where
  "cam_1_entry registered_at =
     \<lparr> ase_client_id = ''cam-1'', ase_source = \<lparr> src_address = SocketAddrV4 0x0A000001 40000 \<rparr>,
       ase_run_id = ''run-1'', ase_protocol_version = 1, ase_registered_at = Some registered_at \<rparr>"

definition cam_1_registry :: "u64 \<Rightarrow> AuthenticatedSenderRegistry" where
  "cam_1_registry registered_at = \<lparr> entries_by_client_id = [(''cam-1'', cam_1_entry registered_at)] \<rparr>"

definition cam_1_liveness :: ServerHeartbeatLivenessState where
  "cam_1_liveness = \<lparr> liveness_entries = [(''cam-1'',
     \<lparr> shle_source = \<lparr> src_address = SocketAddrV4 0x0A000001 40000 \<rparr>,
       shle_authenticated_sender = cam_1_entry 10, shle_client_id = ''cam-1'',
       shle_run_id = ''run-1'', shle_protocol_version = 1, shle_last_heartbeat_sent_at = 90,
       shle_last_server_received_at = 100, shle_last_short_status = None,
       shle_received_heartbeats = 3, shle_status = Liveness_Alive \<rparr>)] \<rparr>"

definition pass_at :: "u64 \<Rightarrow> ServerHeartbeatTimeoutMultiClientLoopInput" where
  "pass_at now = \<lparr> smli_evaluated_at = now, smli_policy = \<lparr> timeout_after_micros = 1000 \<rparr> \<rparr>"

definition run_pass ::
  "u64 \<Rightarrow> AuthenticatedSenderRegistry \<Rightarrow> AuthenticatedSenderRegistry \<times> ServerOutboundQueueCollection
     \<times> nat \<times> (ServerHeartbeatTimeoutMultiClientLoopResult, unit) result" where
  "run_pass now reg = ServerHeartbeatTimeoutMultiClientLoopBoundary_run_all_registered
     (\<lambda>w _. (w + 1, Ok ())) cam_1_liveness reg \<lparr> soqc_items = [] \<rparr> (pass_at now) 0"

lemma cam_1_ok: "liveness_ok cam_1_liveness" "registry_ok (cam_1_registry t)"
  by (simp_all add: liveness_ok_def cam_1_liveness_def registry_ok_def cam_1_registry_def cam_1_entry_def
      btree_inv_def)

lemma run_pass_finishes:
  "\<exists>r. run_pass now (cam_1_registry t) =
     (fst (run_pass now (cam_1_registry t)), fst (snd (run_pass now (cam_1_registry t))),
      fst (snd (snd (run_pass now (cam_1_registry t)))), Ok r)"
  by (simp add: run_pass_def cam_1_registry_def cam_1_entry_def pass_at_def cam_1_liveness_def
      ServerHeartbeatTimeoutMultiClientLoopBoundary_run_all_registered_def
      AuthenticatedSenderRegistry_entries_def btree_values_def Let_def case_prod_unfold
      ServerHeartbeatTimeoutLoopTickBoundary_run_one_client_def
      ServerHeartbeatTimeoutApplyBoundary_apply_plan_def split: option.split)

lemma pass_removes_exactly_timed_out_witness:
  "AuthenticatedSenderRegistry_get (fst (run_pass 1100 (cam_1_registry 10))) ''cam-1'' = None \<and>
   AuthenticatedSenderRegistry_get (fst (run_pass 1099 (cam_1_registry 10))) ''cam-1'' = Some (cam_1_entry 10)"
proof -
  have get: "AuthenticatedSenderRegistry_get (fst (run_pass now (cam_1_registry 10))) ''cam-1'' =
      (if timed_out cam_1_liveness now \<lparr> timeout_after_micros = 1000 \<rparr> ''cam-1'' then None
       else AuthenticatedSenderRegistry_get (cam_1_registry 10) ''cam-1'')" for now
  proof -
    obtain r where "run_pass now (cam_1_registry 10) = (fst (run_pass now (cam_1_registry 10)),
        fst (snd (run_pass now (cam_1_registry 10))), fst (snd (snd (run_pass now (cam_1_registry 10)))), Ok r)"
      using run_pass_finishes by blast
    from pass_removes_exactly_timed_out [OF cam_1_ok this [unfolded run_pass_def], of "''cam-1''"]
    show ?thesis by (simp add: pass_at_def run_pass_def)
  qed
  show ?thesis
    unfolding get
    by (simp add: timed_out_def cam_1_liveness_def ServerHeartbeatLivenessState_get_def
        AuthenticatedSenderRegistry_get_def cam_1_registry_def)
qed

text \<open>
  However many clients time out, and even when a pass stops at a failed log write, the
  notices queued stay within the outbound capacity of 64 items.
\<close>

theorem notice_queue_stays_bounded:
  assumes "length (soqc_items q) \<le> 64"
  shows "length (soqc_items (fst (snd
    (ServerHeartbeatTimeoutMultiClientLoopBoundary_run_all_registered write_event st reg q i w)))) \<le> 64"
  using assms
  by (simp add: ServerHeartbeatTimeoutMultiClientLoopBoundary_run_all_registered_def Let_def
      timeout_loop_queue_bounded)

lemma notice_queue_stays_bounded_witness:
  "length (soqc_items (fst (snd (run_pass 5000 (cam_1_registry 10))))) \<le> 64"
  unfolding run_pass_def by (rule notice_queue_stays_bounded) simp

end
