(* ===== verification/Server_Rtt.thy ===== *)
theory Server_Rtt
  imports Server_Heartbeat
begin

text \<open>
  The round-trip and clock-offset estimates of apps/server/src/lib.rs: the observation carried
  back in client stats, its validation against the server's own heartbeat record, the outlier
  policy, the commit with smoothing, and the counters of rejected candidates.
\<close>

section \<open>Observations\<close>

record ServerHeartbeatClientAckObservation =
  shco_client_id :: ClientId
  shco_run_id :: RunId
  shco_echoed_client_sent_at :: TimestampMicros
  shco_server_received_at :: TimestampMicros
  shco_server_sent_at :: TimestampMicros
  shco_client_received_at :: TimestampMicros

definition ServerHeartbeatClientAckObservationBoundary_prepare ::
  "HeartbeatAckObservation \<Rightarrow> ServerHeartbeatClientAckObservation" where
  "ServerHeartbeatClientAckObservationBoundary_prepare observation =
     \<lparr> shco_client_id = obs_client_id observation, shco_run_id = obs_run_id observation,
       shco_echoed_client_sent_at = obs_echoed_sent_at observation,
       shco_server_received_at = obs_server_received_at observation,
       shco_server_sent_at = obs_server_sent_at observation,
       shco_client_received_at = obs_client_received_at observation \<rparr>"

record ServerClientStatsStateInput =
  scss_source :: PacketSource
  scss_authenticated_sender :: AuthenticatedSenderEntry
  scss_client_id :: ClientId
  scss_run_id :: RunId
  scss_protocol_version :: ProtocolVersion
  scss_sent_at :: TimestampMicros
  scss_capture_fps :: u32
  scss_dropped_frames :: u64
  scss_bitrate_kbps :: u32

record ServerClientStatsHandlerInput =
  scsh_state :: ServerClientStatsStateInput
  scsh_heartbeat_observation :: "ServerHeartbeatClientAckObservation option"

definition ServerClientStatsHandlerBoundary_prepare_input ::
  "ServerRegisteredClientStatsPacket \<Rightarrow> ServerClientStatsHandlerInput" where
  "ServerClientStatsHandlerBoundary_prepare_input packet =
     (let stats = src_stats packet in
      \<lparr> scsh_state = \<lparr> scss_source = src_stats_source packet,
          scss_authenticated_sender = src_authenticated_sender packet,
          scss_client_id = cs_client_id stats, scss_run_id = cs_run_id stats,
          scss_protocol_version = cs_protocol_version stats, scss_sent_at = cs_sent_at stats,
          scss_capture_fps = cs_capture_fps stats, scss_dropped_frames = cs_dropped_frames stats,
          scss_bitrate_kbps = cs_bitrate_kbps stats \<rparr>,
        scsh_heartbeat_observation = map_option ServerHeartbeatClientAckObservationBoundary_prepare
          (cs_heartbeat_observation stats) \<rparr>)"

section \<open>Calculation\<close>

record ServerHeartbeatRttOffsetCalculation =
  shrc_client_id :: ClientId
  shrc_run_id :: RunId
  shrc_estimate :: HeartbeatRttOffsetEstimate

datatype ServerHeartbeatRttOffsetCalculationError =
    ClientIdMismatch
  | RunIdMismatch
  | EchoedSentAtMismatch TimestampMicros TimestampMicros
  | ServerReceivedAtMismatch TimestampMicros TimestampMicros
  | ServerSentAtMismatch TimestampMicros TimestampMicros
  | Calculation HeartbeatRttOffsetCalculationError

definition ServerHeartbeatRttOffsetCalculationBoundary_calculate ::
  "ServerHeartbeatTimebasePlan \<Rightarrow> ServerHeartbeatClientAckObservation \<Rightarrow>
     (ServerHeartbeatRttOffsetCalculation, ServerHeartbeatRttOffsetCalculationError) result" where
  "ServerHeartbeatRttOffsetCalculationBoundary_calculate plan observation =
     (let sample = htp_sample (shtp_estimate plan) in
      if shtp_client_id plan \<noteq> shco_client_id observation then Error ClientIdMismatch
      else if shtp_run_id plan \<noteq> shco_run_id observation then Error RunIdMismatch
      else if hts_client_sent_at_micros sample \<noteq> shco_echoed_client_sent_at observation
      then Error (EchoedSentAtMismatch (hts_client_sent_at_micros sample)
             (shco_echoed_client_sent_at observation))
      else if hts_server_received_at_micros sample \<noteq> shco_server_received_at observation
      then Error (ServerReceivedAtMismatch (hts_server_received_at_micros sample)
             (shco_server_received_at observation))
      else if hts_server_sent_at_micros sample \<noteq> shco_server_sent_at observation
      then Error (ServerSentAtMismatch (hts_server_sent_at_micros sample)
             (shco_server_sent_at observation))
      else
        rbind (rmap_err Calculation (HeartbeatRttOffsetCalculator_calculate
          \<lparr> heo_client_sent_at_micros = hts_client_sent_at_micros sample,
            heo_server_received_at_micros = hts_server_received_at_micros sample,
            heo_server_sent_at_micros = hts_server_sent_at_micros sample,
            heo_client_received_at_micros = shco_client_received_at observation \<rparr>)) (\<lambda>estimate.
        Ok \<lparr> shrc_client_id = shtp_client_id plan, shrc_run_id = shtp_run_id plan,
             shrc_estimate = estimate \<rparr>))"

datatype ServerHeartbeatObservationReturnError =
    MissingHeartbeatObservation
  | ObservationCalculation ServerHeartbeatRttOffsetCalculationError

definition ServerHeartbeatObservationReturnBoundary_calculate_from_client_stats ::
  "ServerHeartbeatAckHandoff \<Rightarrow> ServerClientStatsHandlerInput \<Rightarrow>
     (ServerHeartbeatRttOffsetCalculation, ServerHeartbeatObservationReturnError) result" where
  "ServerHeartbeatObservationReturnBoundary_calculate_from_client_stats heartbeat_handoff client_stats =
     rbind (ok_or (scsh_heartbeat_observation client_stats) MissingHeartbeatObservation) (\<lambda>observation.
     rmap_err ObservationCalculation (ServerHeartbeatRttOffsetCalculationBoundary_calculate
       (shpi_timebase_plan (shah_processing_inputs heartbeat_handoff)) observation))"

section \<open>State and outlier policy\<close>

record ServerHeartbeatRttOffsetStateEntry =
  shre_client_id :: ClientId
  shre_run_id :: RunId
  shre_latest_estimate :: HeartbeatRttOffsetEstimate
  shre_smoothed_estimate :: HeartbeatRttOffsetSmoothedEstimate
  shre_committed_samples :: u64
  shre_last_committed_at :: "TimestampMicros option"

record ServerHeartbeatRttOffsetState =
  rtt_entries :: "(string, ServerHeartbeatRttOffsetStateEntry) btree_map"

definition ServerHeartbeatRttOffsetState_get ::
  "ServerHeartbeatRttOffsetState \<Rightarrow> ClientId \<Rightarrow> ServerHeartbeatRttOffsetStateEntry option" where
  "ServerHeartbeatRttOffsetState_get self client_id = btree_get (rtt_entries self) client_id"

datatype ServerHeartbeatRttOffsetSmoothingMode = SmoothingMode_Deferred

record ServerHeartbeatRttOffsetOutlierPolicy =
  max_rtt_delta_micros :: "u64 option"
  max_clock_offset_delta_micros :: "u64 option"

record ServerHeartbeatRttOffsetCandidatePolicy =
  shcp_smoothing :: ServerHeartbeatRttOffsetSmoothingMode
  shcp_outlier :: ServerHeartbeatRttOffsetOutlierPolicy

datatype ServerHeartbeatRttOffsetOutlierReason =
    RttDeltaExceeded u64 u64 u64 u64
  | ClockOffsetDeltaExceeded "64 word" "64 word" u64 u64

datatype ServerHeartbeatRttOffsetCandidatePolicyDecision =
    Candidate_Accept ServerHeartbeatRttOffsetSmoothingMode
  | Candidate_RejectOutlier ServerHeartbeatRttOffsetOutlierReason

record ServerHeartbeatRttOffsetCandidatePolicyResult =
  shpr_client_id :: ClientId
  shpr_run_id :: RunId
  shpr_previous :: "ServerHeartbeatRttOffsetStateEntry option"
  shpr_candidate :: HeartbeatRttOffsetEstimate
  shpr_decision :: ServerHeartbeatRttOffsetCandidatePolicyDecision

text \<open>\<open>u64::abs_diff\<close> and \<open>i64::abs_diff\<close>, which returns the distance as \<open>u64\<close>.\<close>

definition u64_abs_diff :: "u64 \<Rightarrow> u64 \<Rightarrow> u64" where
  "u64_abs_diff a b = (if a < b then b - a else a - b)"

definition i64_abs_diff :: "64 word \<Rightarrow> 64 word \<Rightarrow> u64" where
  "i64_abs_diff a b = (if a <s b then b - a else a - b)"

definition ServerHeartbeatRttOffsetCandidatePolicyBoundary_evaluate_outlier ::
  "HeartbeatRttOffsetEstimate \<Rightarrow> HeartbeatRttOffsetEstimate \<Rightarrow>
     ServerHeartbeatRttOffsetOutlierPolicy \<Rightarrow> ServerHeartbeatRttOffsetOutlierReason option" where
  "ServerHeartbeatRttOffsetCandidatePolicyBoundary_evaluate_outlier previous candidate policy =
     (let check_offset = (case max_clock_offset_delta_micros policy of
            None \<Rightarrow> None
          | Some max_delta \<Rightarrow>
              let delta = i64_abs_diff (est_clock_offset_micros previous)
                    (est_clock_offset_micros candidate) in
              if delta > max_delta
              then Some (ClockOffsetDeltaExceeded (est_clock_offset_micros previous)
                     (est_clock_offset_micros candidate) delta max_delta)
              else None) in
      case max_rtt_delta_micros policy of
        None \<Rightarrow> check_offset
      | Some max_delta \<Rightarrow>
          let delta = u64_abs_diff (est_rtt_micros previous) (est_rtt_micros candidate) in
          if delta > max_delta
          then Some (RttDeltaExceeded (est_rtt_micros previous) (est_rtt_micros candidate)
                 delta max_delta)
          else check_offset)"

text \<open>\<open>Option::filter\<close> on the entry of the same run.\<close>

definition same_run ::
  "RunId \<Rightarrow> ServerHeartbeatRttOffsetStateEntry option \<Rightarrow> ServerHeartbeatRttOffsetStateEntry option" where
  "same_run run_id previous =
     (case previous of
        Some entry \<Rightarrow> if shre_run_id entry = run_id then Some entry else None
      | None \<Rightarrow> None)"

definition ServerHeartbeatRttOffsetCandidatePolicyBoundary_evaluate ::
  "ServerHeartbeatRttOffsetState \<Rightarrow> ServerHeartbeatRttOffsetCalculation \<Rightarrow>
     ServerHeartbeatRttOffsetCandidatePolicy \<Rightarrow> ServerHeartbeatRttOffsetCandidatePolicyResult" where
  "ServerHeartbeatRttOffsetCandidatePolicyBoundary_evaluate state calculation policy =
     (let previous = ServerHeartbeatRttOffsetState_get state (shrc_client_id calculation);
          decision = (case Option.bind (same_run (shrc_run_id calculation) previous) (\<lambda>entry.
                ServerHeartbeatRttOffsetCandidatePolicyBoundary_evaluate_outlier
                  (shre_latest_estimate entry) (shrc_estimate calculation) (shcp_outlier policy)) of
              Some reason \<Rightarrow> Candidate_RejectOutlier reason
            | None \<Rightarrow> Candidate_Accept (shcp_smoothing policy)) in
      \<lparr> shpr_client_id = shrc_client_id calculation, shpr_run_id = shrc_run_id calculation,
        shpr_previous = previous, shpr_candidate = shrc_estimate calculation,
        shpr_decision = decision \<rparr>)"

section \<open>Commit\<close>

record ServerHeartbeatRttOffsetCommitInput =
  shci_calculation :: ServerHeartbeatRttOffsetCalculation
  shci_committed_at :: "TimestampMicros option"

record ServerHeartbeatRttOffsetCommitOutcome =
  shcu_previous :: "ServerHeartbeatRttOffsetStateEntry option"
  shcu_committed :: ServerHeartbeatRttOffsetStateEntry
  shcu_replaced_previous_run :: bool

definition ServerHeartbeatRttOffsetCommitBoundary_commit ::
  "ServerHeartbeatRttOffsetState \<Rightarrow> ServerHeartbeatRttOffsetCommitInput \<Rightarrow>
     ServerHeartbeatRttOffsetState \<times> ServerHeartbeatRttOffsetCommitOutcome" where
  "ServerHeartbeatRttOffsetCommitBoundary_commit state input =
     (let calculation = shci_calculation input;
          key = shrc_client_id calculation;
          run_id = shrc_run_id calculation;
          previous = btree_get (rtt_entries state) key;
          replaced_previous_run = (case previous of
              Some entry \<Rightarrow> shre_run_id entry \<noteq> run_id | None \<Rightarrow> False);
          committed_samples = (case same_run run_id previous of
              Some entry \<Rightarrow> u64_saturating_add (shre_committed_samples entry) 1 | None \<Rightarrow> 1);
          previous_smoothed = map_option shre_smoothed_estimate (same_run run_id previous);
          smoothed_estimate =
            HeartbeatRttOffsetSmoothingBoundary_smooth previous_smoothed (shrc_estimate calculation);
          committed = \<lparr> shre_client_id = shrc_client_id calculation, shre_run_id = run_id,
            shre_latest_estimate = shrc_estimate calculation,
            shre_smoothed_estimate = smoothed_estimate,
            shre_committed_samples = committed_samples,
            shre_last_committed_at = shci_committed_at input \<rparr> in
      (state \<lparr> rtt_entries := btree_insert key committed (rtt_entries state) \<rparr>,
       \<lparr> shcu_previous = previous, shcu_committed = committed,
         shcu_replaced_previous_run = replaced_previous_run \<rparr>))"

datatype ServerHeartbeatRttOffsetPolicyCommitResult =
    PolicyCommit_Committed ServerHeartbeatRttOffsetCommitOutcome
  | PolicyCommit_Skipped ServerHeartbeatRttOffsetOutlierReason

record ServerHeartbeatRttOffsetPolicyCommitOutcome =
  shpc_policy :: ServerHeartbeatRttOffsetCandidatePolicyResult
  shpc_result :: ServerHeartbeatRttOffsetPolicyCommitResult

definition ServerHeartbeatRttOffsetPolicyCommitBoundary_evaluate_and_commit ::
  "ServerHeartbeatRttOffsetState \<Rightarrow> ServerHeartbeatRttOffsetCalculation \<Rightarrow>
     ServerHeartbeatRttOffsetCandidatePolicy \<Rightarrow> TimestampMicros option \<Rightarrow>
     ServerHeartbeatRttOffsetState \<times> ServerHeartbeatRttOffsetPolicyCommitOutcome" where
  "ServerHeartbeatRttOffsetPolicyCommitBoundary_evaluate_and_commit state calculation
       candidate_policy committed_at =
     (let policy = ServerHeartbeatRttOffsetCandidatePolicyBoundary_evaluate state calculation
            candidate_policy in
      case shpr_decision policy of
        Candidate_Accept _ \<Rightarrow>
          let (state, outcome) = ServerHeartbeatRttOffsetCommitBoundary_commit state
                \<lparr> shci_calculation = calculation, shci_committed_at = committed_at \<rparr> in
          (state, \<lparr> shpc_policy = policy, shpc_result = PolicyCommit_Committed outcome \<rparr>)
      | Candidate_RejectOutlier reason \<Rightarrow>
          (state, \<lparr> shpc_policy = policy, shpc_result = PolicyCommit_Skipped reason \<rparr>))"

section \<open>Rejected-candidate counters\<close>

record ServerHeartbeatRttOffsetRejectedCandidateMetricsHandoff =
  shmh_client_id :: ClientId
  shmh_run_id :: RunId
  shmh_reason :: ServerHeartbeatRttOffsetOutlierReason
  shmh_rejected_candidates_delta :: u64
  shmh_skipped_commits_delta :: u64

record ServerHeartbeatRttOffsetRejectedCandidateMetricsStateEntry =
  rcme_client_id :: ClientId
  rcme_run_id :: RunId
  rcme_total_rejected_candidates :: u64
  rcme_total_skipped_commits :: u64
  rcme_rtt_delta_rejections :: u64
  rcme_clock_offset_delta_rejections :: u64
  rcme_last_updated_at :: "TimestampMicros option"

text \<open>The map's key is the pair of ids; lists of strings have the order of Rust's tuples of strings.\<close>

record ServerHeartbeatRttOffsetRejectedCandidateMetricsState =
  metrics_entries ::
    "(string list, ServerHeartbeatRttOffsetRejectedCandidateMetricsStateEntry) btree_map"

definition ServerHeartbeatRttOffsetRejectedCandidateMetricsState_entries ::
  "ServerHeartbeatRttOffsetRejectedCandidateMetricsState \<Rightarrow>
     ServerHeartbeatRttOffsetRejectedCandidateMetricsStateEntry list" where
  "ServerHeartbeatRttOffsetRejectedCandidateMetricsState_entries state =
     btree_values (metrics_entries state)"

definition ServerHeartbeatRttOffsetRejectedCandidateMetricsState_get ::
  "ServerHeartbeatRttOffsetRejectedCandidateMetricsState \<Rightarrow> ClientId \<Rightarrow> RunId \<Rightarrow>
     ServerHeartbeatRttOffsetRejectedCandidateMetricsStateEntry option" where
  "ServerHeartbeatRttOffsetRejectedCandidateMetricsState_get state client_id run_id =
     btree_get (metrics_entries state) [client_id, run_id]"

definition ServerHeartbeatRttOffsetRejectedCandidateMetricsState_len ::
  "ServerHeartbeatRttOffsetRejectedCandidateMetricsState \<Rightarrow> nat" where
  "ServerHeartbeatRttOffsetRejectedCandidateMetricsState_len state = length (metrics_entries state)"

record ServerHeartbeatRttOffsetRejectedCandidateMetricsCommitInput =
  rcmi_handoff :: ServerHeartbeatRttOffsetRejectedCandidateMetricsHandoff
  rcmi_updated_at :: "TimestampMicros option"

record ServerHeartbeatRttOffsetRejectedCandidateMetricsCommitOutcome =
  rcmo_previous :: "ServerHeartbeatRttOffsetRejectedCandidateMetricsStateEntry option"
  rcmo_committed :: ServerHeartbeatRttOffsetRejectedCandidateMetricsStateEntry

definition ServerHeartbeatRttOffsetRejectedCandidateMetricsCommitBoundary_commit ::
  "ServerHeartbeatRttOffsetRejectedCandidateMetricsState \<Rightarrow>
     ServerHeartbeatRttOffsetRejectedCandidateMetricsCommitInput \<Rightarrow>
     ServerHeartbeatRttOffsetRejectedCandidateMetricsState
       \<times> ServerHeartbeatRttOffsetRejectedCandidateMetricsCommitOutcome" where
  "ServerHeartbeatRttOffsetRejectedCandidateMetricsCommitBoundary_commit state input =
     (let handoff = rcmi_handoff input;
          key = [shmh_client_id handoff, shmh_run_id handoff];
          previous = btree_get (metrics_entries state) key;
          start = (case previous of
              Some entry \<Rightarrow> entry
            | None \<Rightarrow> \<lparr> rcme_client_id = shmh_client_id handoff, rcme_run_id = shmh_run_id handoff,
                rcme_total_rejected_candidates = 0, rcme_total_skipped_commits = 0,
                rcme_rtt_delta_rejections = 0, rcme_clock_offset_delta_rejections = 0,
                rcme_last_updated_at = None \<rparr>);
          delta = shmh_rejected_candidates_delta handoff;
          committed = start \<lparr>
            rcme_total_rejected_candidates :=
              u64_saturating_add (rcme_total_rejected_candidates start) delta,
            rcme_total_skipped_commits :=
              u64_saturating_add (rcme_total_skipped_commits start) (shmh_skipped_commits_delta handoff),
            rcme_rtt_delta_rejections := (case shmh_reason handoff of
                RttDeltaExceeded _ _ _ _ \<Rightarrow>
                  u64_saturating_add (rcme_rtt_delta_rejections start) delta
              | _ \<Rightarrow> rcme_rtt_delta_rejections start),
            rcme_clock_offset_delta_rejections := (case shmh_reason handoff of
                ClockOffsetDeltaExceeded _ _ _ _ \<Rightarrow>
                  u64_saturating_add (rcme_clock_offset_delta_rejections start) delta
              | _ \<Rightarrow> rcme_clock_offset_delta_rejections start),
            rcme_last_updated_at := rcmi_updated_at input \<rparr> in
      (state \<lparr> metrics_entries := btree_insert key committed (metrics_entries state) \<rparr>,
       \<lparr> rcmo_previous = previous, rcmo_committed = committed \<rparr>))"

record ServerHeartbeatRttOffsetRejectedCandidateMetricsExportRecord =
  rcmx_client_id :: ClientId
  rcmx_run_id :: RunId
  rcmx_total_rejected_candidates :: u64
  rcmx_total_skipped_commits :: u64
  rcmx_rtt_delta_rejections :: u64
  rcmx_clock_offset_delta_rejections :: u64
  rcmx_last_updated_at :: "TimestampMicros option"

record ServerHeartbeatRttOffsetRejectedCandidateMetricsSnapshot =
  rcms_records :: "ServerHeartbeatRttOffsetRejectedCandidateMetricsExportRecord list"

definition ServerHeartbeatRttOffsetRejectedCandidateMetricsExportBoundary_snapshot ::
  "ServerHeartbeatRttOffsetRejectedCandidateMetricsState \<Rightarrow>
     ServerHeartbeatRttOffsetRejectedCandidateMetricsSnapshot" where
  "ServerHeartbeatRttOffsetRejectedCandidateMetricsExportBoundary_snapshot state =
     \<lparr> rcms_records = List.map (\<lambda>entry.
         \<lparr> rcmx_client_id = rcme_client_id entry, rcmx_run_id = rcme_run_id entry,
           rcmx_total_rejected_candidates = rcme_total_rejected_candidates entry,
           rcmx_total_skipped_commits = rcme_total_skipped_commits entry,
           rcmx_rtt_delta_rejections = rcme_rtt_delta_rejections entry,
           rcmx_clock_offset_delta_rejections = rcme_clock_offset_delta_rejections entry,
           rcmx_last_updated_at = rcme_last_updated_at entry \<rparr>)
         (ServerHeartbeatRttOffsetRejectedCandidateMetricsState_entries state) \<rparr>"

section \<open>Distances\<close>

lemma u64_abs_diff_value: "u64_as_i128 (u64_abs_diff a b) = \<bar>u64_as_i128 a - u64_as_i128 b\<bar>"
  using u64_as_i128_diff [of a b] u64_as_i128_diff [of b a]
  by (auto simp: u64_abs_diff_def u64_as_i128_less)

lemma i64_abs_diff_value: "u64_as_i128 (i64_abs_diff a b) = \<bar>i64_as_i128 a - i64_as_i128 b\<bar>"
proof -
  have diff: "uint (x - y) = sint x - sint y" if "sint y \<le> sint x" for x y :: "64 word"
  proof -
    have "0 \<le> sint x - sint y" and "sint x - sint y < 2 ^ 64"
      using that i64_as_i128_bounds [of x] i64_as_i128_bounds [of y] by (auto simp: i64_as_i128_def)
    then have "uint (word_of_int (sint x - sint y) :: 64 word) = sint x - sint y"
      unfolding uint_word_of_int by simp
    moreover have "(word_of_int (sint x - sint y) :: 64 word) = x - y" by simp
    ultimately show ?thesis by simp
  qed
  show ?thesis
    using diff [of a b] diff [of b a]
    by (auto simp: i64_abs_diff_def u64_as_i128_def i64_as_i128_def word_sless_alt)
qed

section \<open>What is committed\<close>

definition rtt_ok :: "ServerHeartbeatRttOffsetState \<Rightarrow> bool" where
  "rtt_ok st \<longleftrightarrow> btree_inv (rtt_entries st)"

lemma evaluate_and_commit_ok:
  "rtt_ok st \<Longrightarrow>
     rtt_ok (fst (ServerHeartbeatRttOffsetPolicyCommitBoundary_evaluate_and_commit st c p t))"
  by (simp add: ServerHeartbeatRttOffsetPolicyCommitBoundary_evaluate_and_commit_def Let_def
      ServerHeartbeatRttOffsetCommitBoundary_commit_def rtt_ok_def btree.inv_insert
      split: ServerHeartbeatRttOffsetCandidatePolicyDecision.split)

text \<open>What the policy accepts next to a previous estimate of the same run.\<close>

definition within_policy ::
  "ServerHeartbeatRttOffsetOutlierPolicy \<Rightarrow> HeartbeatRttOffsetEstimate \<Rightarrow> HeartbeatRttOffsetEstimate \<Rightarrow> bool" where
  "within_policy p a b \<longleftrightarrow>
     (\<forall>m. max_rtt_delta_micros p = Some m \<longrightarrow>
        \<bar>u64_as_i128 (est_rtt_micros a) - u64_as_i128 (est_rtt_micros b)\<bar> \<le> u64_as_i128 m) \<and>
     (\<forall>m. max_clock_offset_delta_micros p = Some m \<longrightarrow>
        \<bar>i64_as_i128 (est_clock_offset_micros a) - i64_as_i128 (est_clock_offset_micros b)\<bar>
          \<le> u64_as_i128 m)"

lemma evaluate_outlier_None_iff:
  "ServerHeartbeatRttOffsetCandidatePolicyBoundary_evaluate_outlier a b p = None \<longleftrightarrow> within_policy p a b"
proof -
  have less: "m < d \<longleftrightarrow> u64_as_i128 m < u64_as_i128 d" for m d :: u64
    by (simp add: u64_as_i128_less)
  show ?thesis
    by (auto simp: ServerHeartbeatRttOffsetCandidatePolicyBoundary_evaluate_outlier_def within_policy_def
      Let_def less u64_abs_diff_value i64_abs_diff_value simp del: u64_as_i128_less split: option.split)
qed

lemma evaluate_and_commit_cases:
  assumes "rtt_ok st"
  shows "ServerHeartbeatRttOffsetState_get
      (fst (ServerHeartbeatRttOffsetPolicyCommitBoundary_evaluate_and_commit st c p t)) d =
    (if d = shrc_client_id c \<and>
        (\<forall>e. same_run (shrc_run_id c) (ServerHeartbeatRttOffsetState_get st (shrc_client_id c)) = Some e \<longrightarrow>
           within_policy (shcp_outlier p) (shre_latest_estimate e) (shrc_estimate c))
     then Some (shcu_committed (snd (ServerHeartbeatRttOffsetCommitBoundary_commit st
            \<lparr> shci_calculation = c, shci_committed_at = t \<rparr>)))
     else ServerHeartbeatRttOffsetState_get st d)"
proof -
  let ?prev = "same_run (shrc_run_id c) (ServerHeartbeatRttOffsetState_get st (shrc_client_id c))"
  have decision: "shpr_decision (ServerHeartbeatRttOffsetCandidatePolicyBoundary_evaluate st c p)
      = Candidate_Accept (shcp_smoothing p)
    \<longleftrightarrow> (\<forall>e. ?prev = Some e \<longrightarrow> within_policy (shcp_outlier p) (shre_latest_estimate e) (shrc_estimate c))"
    by (cases ?prev) (auto simp: ServerHeartbeatRttOffsetCandidatePolicyBoundary_evaluate_def Let_def
        evaluate_outlier_None_iff [symmetric] split: option.split)
  have get: "ServerHeartbeatRttOffsetState_get (fst (ServerHeartbeatRttOffsetCommitBoundary_commit st i)) d
      = (if d = shrc_client_id (shci_calculation i)
         then Some (shcu_committed (snd (ServerHeartbeatRttOffsetCommitBoundary_commit st i)))
         else ServerHeartbeatRttOffsetState_get st d)" for i
    using assms by (simp add: ServerHeartbeatRttOffsetCommitBoundary_commit_def Let_def rtt_ok_def
        ServerHeartbeatRttOffsetState_get_def btree.lookup_insert)
  show ?thesis
  proof (cases "shpr_decision (ServerHeartbeatRttOffsetCandidatePolicyBoundary_evaluate st c p)")
    case (Candidate_Accept m)
    then have "m = shcp_smoothing p" by (cases m; cases "shcp_smoothing p") simp
    with decision Candidate_Accept show ?thesis
      by (simp add: ServerHeartbeatRttOffsetPolicyCommitBoundary_evaluate_and_commit_def Let_def
          case_prod_unfold get)
  next
    case (Candidate_RejectOutlier r)
    with decision show ?thesis
      by (auto simp: ServerHeartbeatRttOffsetPolicyCommitBoundary_evaluate_and_commit_def Let_def)
  qed
qed

text \<open>
  A calculation that starts from the server's own record cannot be steered by the client's
  copies of the server timestamps: they have to match the record, and the estimate uses the
  record and the client's receive time only.
\<close>

lemma server_calculate_Ok_iff:
  "ServerHeartbeatRttOffsetCalculationBoundary_calculate plan obs = Ok c \<longleftrightarrow>
     shtp_client_id plan = shco_client_id obs \<and> shtp_run_id plan = shco_run_id obs \<and>
     hts_client_sent_at_micros (htp_sample (shtp_estimate plan)) = shco_echoed_client_sent_at obs \<and>
     hts_server_received_at_micros (htp_sample (shtp_estimate plan)) = shco_server_received_at obs \<and>
     hts_server_sent_at_micros (htp_sample (shtp_estimate plan)) = shco_server_sent_at obs \<and>
     shrc_client_id c = shtp_client_id plan \<and> shrc_run_id c = shtp_run_id plan \<and>
     HeartbeatRttOffsetCalculator_calculate
       \<lparr> heo_client_sent_at_micros = shco_echoed_client_sent_at obs,
         heo_server_received_at_micros = shco_server_received_at obs,
         heo_server_sent_at_micros = shco_server_sent_at obs,
         heo_client_received_at_micros = shco_client_received_at obs \<rparr> = Ok (shrc_estimate c)"
  by (cases c) (auto simp: ServerHeartbeatRttOffsetCalculationBoundary_calculate_def Let_def
      rbind_eq_Inr_iff rmap_err_eq_Inr_iff)

text \<open>
  An observation that answers the heartbeat: the client echoes the ack it received. Then the
  calculation depends on the clocks alone.
\<close>

definition echo_of :: "ServerHeartbeatAckHandoff \<Rightarrow> TimestampMicros \<Rightarrow> ServerHeartbeatClientAckObservation" where
  "echo_of handoff client_received_at =
     (let a = shah_ack_input handoff in
      \<lparr> shco_client_id = shai_client_id a, shco_run_id = shai_run_id a,
        shco_echoed_client_sent_at = shai_echoed_sent_at a,
        shco_server_received_at = shai_server_received_at a,
        shco_server_sent_at = shai_server_sent_at a,
        shco_client_received_at = client_received_at \<rparr>)"

lemma echoed_ack_calculates:
  fixes packet timing
  defines "h \<equiv> ServerHeartbeatHandlerBoundary_handoff_ack packet timing"
  shows "ServerHeartbeatRttOffsetCalculationBoundary_calculate
      (shpi_timebase_plan (shah_processing_inputs h)) (echo_of h received) = Ok c \<longleftrightarrow>
    shrc_client_id c = hb_client_id (srh_heartbeat packet) \<and>
    shrc_run_id c = hb_run_id (srh_heartbeat packet) \<and>
    HeartbeatRttOffsetCalculator_calculate
      \<lparr> heo_client_sent_at_micros = hb_sent_at (srh_heartbeat packet),
        heo_server_received_at_micros = shat_server_received_at timing,
        heo_server_sent_at_micros = shat_server_sent_at timing,
        heo_client_received_at_micros = received \<rparr> = Ok (shrc_estimate c)"
  unfolding server_calculate_Ok_iff
  by (simp add: h_def ServerHeartbeatHandlerBoundary_handoff_ack_def Let_def echo_of_def
      ServerHeartbeatInputBoundary_prepare_inputs_def ServerHeartbeatTimebasePlanBoundary_build_plan_def
      HeartbeatTimebasePlanBoundary_build_plan_def)

section \<open>Properties\<close>

text \<open>
  An observation yields a calculation exactly when it names the planned client and run,
  repeats the three recorded times and the exchange itself can be calculated; the estimate is
  then the one of the recorded times and the client's receive time.
\<close>

theorem server_calculation_uses_recorded_times:
  "ServerHeartbeatRttOffsetCalculationBoundary_calculate plan obs = Ok c \<longleftrightarrow>
     shtp_client_id plan = shco_client_id obs \<and> shtp_run_id plan = shco_run_id obs \<and>
     hts_client_sent_at_micros (htp_sample (shtp_estimate plan)) = shco_echoed_client_sent_at obs \<and>
     hts_server_received_at_micros (htp_sample (shtp_estimate plan)) = shco_server_received_at obs \<and>
     hts_server_sent_at_micros (htp_sample (shtp_estimate plan)) = shco_server_sent_at obs \<and>
     shrc_client_id c = shtp_client_id plan \<and> shrc_run_id c = shtp_run_id plan \<and>
     HeartbeatRttOffsetCalculator_calculate
       \<lparr> heo_client_sent_at_micros = shco_echoed_client_sent_at obs,
         heo_server_received_at_micros = shco_server_received_at obs,
         heo_server_sent_at_micros = shco_server_sent_at obs,
         heo_client_received_at_micros = shco_client_received_at obs \<rparr> = Ok (shrc_estimate c)"
  by (rule server_calculate_Ok_iff)

text \<open>
  A candidate estimate is committed exactly when the client has no estimate of the same
  run or the candidate is within the policy's distances of it; a rejected candidate changes
  nothing, and no other client's estimate changes in either case.
\<close>

theorem outliers_are_not_committed:
  assumes "rtt_ok st"
  shows "ServerHeartbeatRttOffsetState_get
      (fst (ServerHeartbeatRttOffsetPolicyCommitBoundary_evaluate_and_commit st c p t)) d =
    (if d = shrc_client_id c \<and>
        (\<forall>e. same_run (shrc_run_id c) (ServerHeartbeatRttOffsetState_get st (shrc_client_id c)) = Some e \<longrightarrow>
           within_policy (shcp_outlier p) (shre_latest_estimate e) (shrc_estimate c))
     then Some (shcu_committed (snd (ServerHeartbeatRttOffsetCommitBoundary_commit st
            \<lparr> shci_calculation = c, shci_committed_at = t \<rparr>)))
     else ServerHeartbeatRttOffsetState_get st d)"
  by (rule evaluate_and_commit_cases [OF assms])

definition rtt_entry :: ServerHeartbeatRttOffsetStateEntry where
  "rtt_entry = \<lparr> shre_client_id = ''cam-1'', shre_run_id = ''run-1'',
     shre_latest_estimate = \<lparr> est_rtt_micros = 100, est_server_processing_micros = 5,
       est_clock_offset_micros = 0 \<rparr>,
     shre_smoothed_estimate = \<lparr> sm_rtt_micros = 100, sm_clock_offset_micros = 0,
       sm_samples_applied = 1 \<rparr>,
     shre_committed_samples = 1, shre_last_committed_at = None \<rparr>"

lemma outliers_are_not_committed_witness:
  "ServerHeartbeatRttOffsetState_get
     (fst (ServerHeartbeatRttOffsetPolicyCommitBoundary_evaluate_and_commit
        \<lparr> rtt_entries = [(''cam-1'', rtt_entry)] \<rparr>
        \<lparr> shrc_client_id = ''cam-1'', shrc_run_id = ''run-1'',
          shrc_estimate = \<lparr> est_rtt_micros = 1000, est_server_processing_micros = 5,
            est_clock_offset_micros = 0 \<rparr> \<rparr>
        \<lparr> shcp_smoothing = SmoothingMode_Deferred,
          shcp_outlier = \<lparr> max_rtt_delta_micros = Some 200, max_clock_offset_delta_micros = None \<rparr> \<rparr>
        None)) ''cam-1'' = Some rtt_entry"
  by (subst outliers_are_not_committed)
    (simp_all add: rtt_ok_def btree_inv_def ServerHeartbeatRttOffsetState_get_def same_run_def rtt_entry_def
      within_policy_def u64_as_i128_def)

end
