(* ===== verification/Handoff_Codec.thy ===== *)
theory Handoff_Codec
  imports Protocol_Reader
begin

text \<open>
  The length-prefixed server-to-switcher codec of crates/net-core/src/lib.rs: the four wire
  enums, the request and response, the \<open>push_*\<close> writers and \<open>read_*\<close> readers,
  the framing, and the two encoders and decoders. A reader's offset is passed along as in
  \<open>Byte_Parser\<close>.
\<close>

section \<open>Data\<close>

definition SERVER_SWITCHER_HANDOFF_VERSION :: u32 where
  "SERVER_SWITCHER_HANDOFF_VERSION = 1"

definition SERVER_SWITCHER_HANDOFF_LENGTH_PREFIX_LEN :: nat where
  "SERVER_SWITCHER_HANDOFF_LENGTH_PREFIX_LEN = 4"

definition SERVER_SWITCHER_HANDOFF_RESPONSE_KIND_FRAME_READ :: u8 where
  "SERVER_SWITCHER_HANDOFF_RESPONSE_KIND_FRAME_READ = 1"

definition SERVER_SWITCHER_HANDOFF_RESPONSE_KIND_NO_FRAME :: u8 where
  "SERVER_SWITCHER_HANDOFF_RESPONSE_KIND_NO_FRAME = 2"

definition SERVER_SWITCHER_HANDOFF_RESPONSE_KIND_ERROR :: u8 where
  "SERVER_SWITCHER_HANDOFF_RESPONSE_KIND_ERROR = 3"

lemmas handoff_kinds =
  SERVER_SWITCHER_HANDOFF_RESPONSE_KIND_FRAME_READ_def
  SERVER_SWITCHER_HANDOFF_RESPONSE_KIND_NO_FRAME_def
  SERVER_SWITCHER_HANDOFF_RESPONSE_KIND_ERROR_def

datatype ReadMode = InspectOldest | InspectLatest | InspectLatestDecodable | DequeueOldest

datatype DecodableSource =
  DecodableSource_None | DecodableSource_Queue | DecodableSource_RetainedKeyframe

datatype NoFrameReason =
  NoFramesQueuedForClient | NoFramesQueuedForRequestedRun | NoDecodableFrameAvailable

datatype HandoffErrorCode =
    SourceUnavailable
  | RequestTimeout
  | InvalidScope
  | UnsupportedReadMode
  | MalformedResponse
  | SourceShutdown

datatype HandoffCodecError =
    FramePrefixTooShort nat
  | TruncatedFrame nat nat
  | TrailingBytes nat
  | UnexpectedEof nat nat
  | InvalidUtf8
  | UnknownReadMode u8
  | UnknownDecodableSource u8
  | UnknownNoFrameReason u8
  | UnknownResponseKind u8
  | UnknownHandoffErrorCode u8
  | UnknownCodec u16
  | StringTooLong string nat
  | BodyTooLong nat
  | PayloadLengthMismatch u32 nat

fun ReadMode_wire_code :: "ReadMode \<Rightarrow> u8" where
  "ReadMode_wire_code InspectOldest = 1"
| "ReadMode_wire_code InspectLatest = 2"
| "ReadMode_wire_code InspectLatestDecodable = 3"
| "ReadMode_wire_code DequeueOldest = 4"

definition ReadMode_try_from :: "u8 \<Rightarrow> (ReadMode, HandoffCodecError) result" where
  "ReadMode_try_from value =
     (if value = 1 then Ok InspectOldest
      else if value = 2 then Ok InspectLatest
      else if value = 3 then Ok InspectLatestDecodable
      else if value = 4 then Ok DequeueOldest
      else Error (UnknownReadMode value))"

fun DecodableSource_wire_code :: "DecodableSource \<Rightarrow> u8" where
  "DecodableSource_wire_code DecodableSource_None = 0"
| "DecodableSource_wire_code DecodableSource_Queue = 1"
| "DecodableSource_wire_code DecodableSource_RetainedKeyframe = 2"

definition DecodableSource_try_from :: "u8 \<Rightarrow> (DecodableSource, HandoffCodecError) result" where
  "DecodableSource_try_from value =
     (if value = 0 then Ok DecodableSource_None
      else if value = 1 then Ok DecodableSource_Queue
      else if value = 2 then Ok DecodableSource_RetainedKeyframe
      else Error (UnknownDecodableSource value))"

fun NoFrameReason_wire_code :: "NoFrameReason \<Rightarrow> u8" where
  "NoFrameReason_wire_code NoFramesQueuedForClient = 1"
| "NoFrameReason_wire_code NoFramesQueuedForRequestedRun = 2"
| "NoFrameReason_wire_code NoDecodableFrameAvailable = 3"

definition NoFrameReason_try_from :: "u8 \<Rightarrow> (NoFrameReason, HandoffCodecError) result" where
  "NoFrameReason_try_from value =
     (if value = 1 then Ok NoFramesQueuedForClient
      else if value = 2 then Ok NoFramesQueuedForRequestedRun
      else if value = 3 then Ok NoDecodableFrameAvailable
      else Error (UnknownNoFrameReason value))"

fun HandoffErrorCode_wire_code :: "HandoffErrorCode \<Rightarrow> u8" where
  "HandoffErrorCode_wire_code SourceUnavailable = 1"
| "HandoffErrorCode_wire_code RequestTimeout = 2"
| "HandoffErrorCode_wire_code InvalidScope = 3"
| "HandoffErrorCode_wire_code UnsupportedReadMode = 4"
| "HandoffErrorCode_wire_code MalformedResponse = 5"
| "HandoffErrorCode_wire_code SourceShutdown = 6"

definition HandoffErrorCode_try_from :: "u8 \<Rightarrow> (HandoffErrorCode, HandoffCodecError) result" where
  "HandoffErrorCode_try_from value =
     (if value = 1 then Ok SourceUnavailable
      else if value = 2 then Ok RequestTimeout
      else if value = 3 then Ok InvalidScope
      else if value = 4 then Ok UnsupportedReadMode
      else if value = 5 then Ok MalformedResponse
      else if value = 6 then Ok SourceShutdown
      else Error (UnknownHandoffErrorCode value))"

interpretation read_mode: wire_enum ReadMode_wire_code ReadMode_try_from
proof unfold_locales
  show "ReadMode_try_from (ReadMode_wire_code v) = Ok v" for v
    by (cases v) (simp_all add: ReadMode_try_from_def)
qed (auto simp: ReadMode_try_from_def split: if_splits)

interpretation decodable_source: wire_enum DecodableSource_wire_code DecodableSource_try_from
proof unfold_locales
  show "DecodableSource_try_from (DecodableSource_wire_code v) = Ok v" for v
    by (cases v) (simp_all add: DecodableSource_try_from_def)
qed (auto simp: DecodableSource_try_from_def split: if_splits)

interpretation no_frame_reason: wire_enum NoFrameReason_wire_code NoFrameReason_try_from
proof unfold_locales
  show "NoFrameReason_try_from (NoFrameReason_wire_code v) = Ok v" for v
    by (cases v) (simp_all add: NoFrameReason_try_from_def)
qed (auto simp: NoFrameReason_try_from_def split: if_splits)

interpretation handoff_error_code: wire_enum HandoffErrorCode_wire_code HandoffErrorCode_try_from
proof unfold_locales
  show "HandoffErrorCode_try_from (HandoffErrorCode_wire_code v) = Ok v" for v
    by (cases v) (simp_all add: HandoffErrorCode_try_from_def)
qed (auto simp: HandoffErrorCode_try_from_def split: if_splits)

record HandoffRequest =
  hreq_handoff_version :: u32
  hreq_request_id :: u64
  hreq_client_id :: ClientId
  hreq_run_id :: RunId
  hreq_read_mode :: ReadMode

record HandoffFrame =
  hf_client_id :: ClientId
  hf_run_id :: RunId
  hf_frame_id :: u64
  hf_capture_timestamp :: TimestampMicros
  hf_send_timestamp :: TimestampMicros
  hf_queued_at :: TimestampMicros
  hf_width :: u32
  hf_height :: u32
  hf_fps_nominal :: u32
  hf_is_keyframe :: bool
  hf_codec :: Codec
  hf_encoded_payload_len :: u32
  hf_encoded_payload :: "u8 list"

text \<open>The arguments of each constructor are in the order of the source's struct variants.\<close>

datatype HandoffResponse =
    FrameRead u64 u32 DecodableSource bool "u64 option" HandoffFrame
  | NoFrame u64 ClientId RunId ReadMode u32 NoFrameReason DecodableSource bool "u64 option"
  | HandoffError u64 HandoffErrorCode

section \<open>Writers and readers\<close>

definition push_u8 :: "u8 list \<Rightarrow> u8 \<Rightarrow> u8 list" where
  "push_u8 output value = output @ [value]"

definition push_u16 :: "u8 list \<Rightarrow> u16 \<Rightarrow> u8 list" where
  "push_u16 output value = output @ u16_to_le_bytes value"

definition push_u32 :: "u8 list \<Rightarrow> u32 \<Rightarrow> u8 list" where
  "push_u32 output value = output @ u32_to_le_bytes value"

definition push_u64 :: "u8 list \<Rightarrow> u64 \<Rightarrow> u8 list" where
  "push_u64 output value = output @ u64_to_le_bytes value"

definition push_string :: "u8 list \<Rightarrow> string \<Rightarrow> string \<Rightarrow> (u8 list, HandoffCodecError) result" where
  "push_string output field value =
     (let len = length value in
      rbind (ok_or (u16_try_from len) (StringTooLong field len)) (\<lambda>len_u16.
      Ok (push_u16 output len_u16 @ as_bytes value)))"

definition u8_from_bool :: "bool \<Rightarrow> u8" where
  "u8_from_bool b = (if b then 1 else 0)"

definition read_exact :: "nat \<Rightarrow> (u8 list, HandoffCodecError) parser" where
  "read_exact len = (\<lambda>input offset.
     let remaining = length input - offset in
     if remaining < len then Error (UnexpectedEof len remaining)
     else let start = offset; stop = start + len in
       rbind (slice_range input start stop) (\<lambda>bytes. Ok (bytes, stop)))"

definition read_u8 :: "(u8, HandoffCodecError) parser" where
  "read_u8 = pbind (read_exact 1) (\<lambda>bytes. plift (byte_at bytes 0))"

definition read_u16 :: "(u16, HandoffCodecError) parser" where
  "read_u16 = pbind (read_exact 2) (\<lambda>bytes. plift (read_u16_le bytes 0))"

definition read_u32 :: "(u32, HandoffCodecError) parser" where
  "read_u32 = pbind (read_exact 4) (\<lambda>bytes. plift (read_u32_le bytes 0))"

definition read_u64 :: "(u64, HandoffCodecError) parser" where
  "read_u64 = pbind (read_exact 8) (\<lambda>bytes. plift (read_u64_le bytes 0))"

definition read_string :: "(string, HandoffCodecError) parser" where
  "read_string =
     pbind read_u16 (\<lambda>len.
     pbind (read_exact (unat len)) (\<lambda>bytes.
     plift (ok_or (from_utf8 bytes) InvalidUtf8)))"

definition read_bytes :: "nat \<Rightarrow> (u8 list, HandoffCodecError) parser" where
  "read_bytes len = read_exact len"

definition ensure_consumed :: "u8 list \<Rightarrow> nat \<Rightarrow> (unit, HandoffCodecError) result" where
  "ensure_consumed body offset =
     (if offset = length body then Ok ()
      else if offset \<le> length body then Error (TrailingBytes (length body - offset))
      else Panicked)"

section \<open>Framing\<close>

definition frame_body :: "u8 list \<Rightarrow> (u8 list, HandoffCodecError) result" where
  "frame_body body =
     rbind (ok_or (u32_try_from (length body)) (BodyTooLong (length body))) (\<lambda>body_len.
     Ok (u32_to_le_bytes body_len @ body))"

definition decode_framed_body :: "u8 list \<Rightarrow> (u8 list, HandoffCodecError) result" where
  "decode_framed_body frame =
     (if length frame < SERVER_SWITCHER_HANDOFF_LENGTH_PREFIX_LEN
      then Error (FramePrefixTooShort (length frame))
      else
        rbind (read_u32_le frame 0) (\<lambda>declared.
        let declared_body_len = unat (declared :: u32);
            actual_body_len = length frame - SERVER_SWITCHER_HANDOFF_LENGTH_PREFIX_LEN in
        if actual_body_len < declared_body_len
        then Error (TruncatedFrame declared_body_len actual_body_len)
        else if actual_body_len > declared_body_len
        then Error (TrailingBytes (actual_body_len - declared_body_len))
        else slice_range frame SERVER_SWITCHER_HANDOFF_LENGTH_PREFIX_LEN (length frame)))"

section \<open>Requests\<close>

definition encode_request_frame :: "HandoffRequest \<Rightarrow> (u8 list, HandoffCodecError) result" where
  "encode_request_frame request =
     (let body = push_u32 [] (hreq_handoff_version request);
          body = push_u64 body (hreq_request_id request) in
      rbind (push_string body ''client_id'' (hreq_client_id request)) (\<lambda>body.
      rbind (push_string body ''run_id'' (hreq_run_id request)) (\<lambda>body.
      let body = push_u8 body (ReadMode_wire_code (hreq_read_mode request)) in
      frame_body body)))"

definition request_reader :: "(HandoffRequest, HandoffCodecError) parser" where
  "request_reader =
     pbind read_u32 (\<lambda>handoff_version.
     pbind read_u64 (\<lambda>request_id.
     pbind read_string (\<lambda>client_id.
     pbind read_string (\<lambda>run_id.
     pbind read_u8 (\<lambda>mode.
     pbind (plift (ReadMode_try_from mode)) (\<lambda>read_mode.
     preturn \<lparr> hreq_handoff_version = handoff_version, hreq_request_id = request_id,
       hreq_client_id = client_id, hreq_run_id = run_id, hreq_read_mode = read_mode \<rparr>))))))"

definition decode_request_frame :: "u8 list \<Rightarrow> (HandoffRequest, HandoffCodecError) result" where
  "decode_request_frame frame =
     rbind (decode_framed_body frame) (\<lambda>body.
     rbind (request_reader body 0) (\<lambda>(request, offset).
     rbind (ensure_consumed body offset) (\<lambda>_. Ok request)))"

section \<open>Responses\<close>

definition encode_response_frame :: "HandoffResponse \<Rightarrow> (u8 list, HandoffCodecError) result" where
  "encode_response_frame response =
     rbind
       (case response of
          FrameRead request_id remaining_client_queue_len decodable_source
              retained_keyframe_available retained_keyframe_frame_id frame \<Rightarrow>
            if unat (hf_encoded_payload_len frame) \<noteq> length (hf_encoded_payload frame)
            then Error (PayloadLengthMismatch (hf_encoded_payload_len frame)
                   (length (hf_encoded_payload frame)))
            else
              let body = push_u64 [] request_id;
                  body = push_u8 body SERVER_SWITCHER_HANDOFF_RESPONSE_KIND_FRAME_READ;
                  body = push_u32 body remaining_client_queue_len;
                  body = push_u8 body (DecodableSource_wire_code decodable_source);
                  body = push_u8 body (u8_from_bool retained_keyframe_available);
                  body = push_u64 body (case retained_keyframe_frame_id of None \<Rightarrow> 0 | Some i \<Rightarrow> i)
              in
              rbind (push_string body ''client_id'' (hf_client_id frame)) (\<lambda>body.
              rbind (push_string body ''run_id'' (hf_run_id frame)) (\<lambda>body.
              let body = push_u64 body (hf_frame_id frame);
                  body = push_u64 body (hf_capture_timestamp frame);
                  body = push_u64 body (hf_send_timestamp frame);
                  body = push_u64 body (hf_queued_at frame);
                  body = push_u32 body (hf_width frame);
                  body = push_u32 body (hf_height frame);
                  body = push_u32 body (hf_fps_nominal frame);
                  body = push_u8 body (u8_from_bool (hf_is_keyframe frame));
                  body = push_u16 body (Codec_wire_code (hf_codec frame));
                  body = push_u32 body (hf_encoded_payload_len frame)
              in Ok (body @ hf_encoded_payload frame)))
        | NoFrame request_id client_id run_id read_mode client_queue_len no_frame_reason
              decodable_source retained_keyframe_available retained_keyframe_frame_id \<Rightarrow>
            let body = push_u64 [] request_id;
                body = push_u8 body SERVER_SWITCHER_HANDOFF_RESPONSE_KIND_NO_FRAME;
                body = push_u32 body client_queue_len;
                body = push_u8 body (NoFrameReason_wire_code no_frame_reason);
                body = push_u8 body (DecodableSource_wire_code decodable_source);
                body = push_u8 body (u8_from_bool retained_keyframe_available);
                body = push_u64 body (case retained_keyframe_frame_id of None \<Rightarrow> 0 | Some i \<Rightarrow> i)
            in
            rbind (push_string body ''client_id'' client_id) (\<lambda>body.
            rbind (push_string body ''run_id'' run_id) (\<lambda>body.
            Ok (push_u8 body (ReadMode_wire_code read_mode))))
        | HandoffError request_id error \<Rightarrow>
            let body = push_u64 [] request_id;
                body = push_u8 body SERVER_SWITCHER_HANDOFF_RESPONSE_KIND_ERROR
            in Ok (push_u8 body (HandoffErrorCode_wire_code error)))
       frame_body"

definition then_some :: "bool \<Rightarrow> 'a \<Rightarrow> 'a option" where
  "then_some b v = (if b then Some v else None)"

definition frame_read_reader :: "u64 \<Rightarrow> (HandoffResponse, HandoffCodecError) parser" where
  "frame_read_reader request_id =
     pbind read_u32 (\<lambda>remaining_client_queue_len.
     pbind read_u8 (\<lambda>source.
     pbind (plift (DecodableSource_try_from source)) (\<lambda>decodable_source.
     pbind read_u8 (\<lambda>available.
     pbind read_u64 (\<lambda>retained_keyframe_frame_id.
     pbind read_string (\<lambda>client_id.
     pbind read_string (\<lambda>run_id.
     pbind read_u64 (\<lambda>frame_id.
     pbind read_u64 (\<lambda>capture_timestamp.
     pbind read_u64 (\<lambda>send_timestamp.
     pbind read_u64 (\<lambda>queued_at.
     pbind read_u32 (\<lambda>width.
     pbind read_u32 (\<lambda>height.
     pbind read_u32 (\<lambda>fps_nominal.
     pbind read_u8 (\<lambda>keyframe.
     pbind read_u16 (\<lambda>codec_wire.
     pbind (plift (rmap_err (\<lambda>_. UnknownCodec codec_wire) (Codec_try_from codec_wire))) (\<lambda>codec.
     pbind read_u32 (\<lambda>encoded_payload_len.
     pbind (read_bytes (unat encoded_payload_len)) (\<lambda>encoded_payload.
     preturn (FrameRead request_id remaining_client_queue_len decodable_source (available \<noteq> 0)
       (then_some (available \<noteq> 0) retained_keyframe_frame_id)
       \<lparr> hf_client_id = client_id, hf_run_id = run_id, hf_frame_id = frame_id,
         hf_capture_timestamp = capture_timestamp, hf_send_timestamp = send_timestamp,
         hf_queued_at = queued_at, hf_width = width, hf_height = height,
         hf_fps_nominal = fps_nominal, hf_is_keyframe = (keyframe \<noteq> 0), hf_codec = codec,
         hf_encoded_payload_len = encoded_payload_len,
         hf_encoded_payload = encoded_payload \<rparr>))))))))))))))))))))"

definition no_frame_reader :: "u64 \<Rightarrow> (HandoffResponse, HandoffCodecError) parser" where
  "no_frame_reader request_id =
     pbind read_u32 (\<lambda>client_queue_len.
     pbind read_u8 (\<lambda>reason.
     pbind (plift (NoFrameReason_try_from reason)) (\<lambda>no_frame_reason.
     pbind read_u8 (\<lambda>source.
     pbind (plift (DecodableSource_try_from source)) (\<lambda>decodable_source.
     pbind read_u8 (\<lambda>available.
     pbind read_u64 (\<lambda>retained_keyframe_frame_id.
     pbind read_string (\<lambda>client_id.
     pbind read_string (\<lambda>run_id.
     pbind read_u8 (\<lambda>mode.
     pbind (plift (ReadMode_try_from mode)) (\<lambda>read_mode.
     preturn (NoFrame request_id client_id run_id read_mode client_queue_len no_frame_reason
       decodable_source (available \<noteq> 0)
       (then_some (available \<noteq> 0) retained_keyframe_frame_id)))))))))))))"

definition handoff_error_reader :: "u64 \<Rightarrow> (HandoffResponse, HandoffCodecError) parser" where
  "handoff_error_reader request_id =
     pbind read_u8 (\<lambda>code.
     pbind (plift (HandoffErrorCode_try_from code)) (\<lambda>error.
     preturn (HandoffError request_id error)))"

definition response_reader :: "(HandoffResponse, HandoffCodecError) parser" where
  "response_reader =
     pbind read_u64 (\<lambda>request_id.
     pbind read_u8 (\<lambda>kind.
     if kind = SERVER_SWITCHER_HANDOFF_RESPONSE_KIND_FRAME_READ then frame_read_reader request_id
     else if kind = SERVER_SWITCHER_HANDOFF_RESPONSE_KIND_NO_FRAME then no_frame_reader request_id
     else if kind = SERVER_SWITCHER_HANDOFF_RESPONSE_KIND_ERROR then handoff_error_reader request_id
     else plift (Error (UnknownResponseKind kind))))"

definition decode_response_frame :: "u8 list \<Rightarrow> (HandoffResponse, HandoffCodecError) result" where
  "decode_response_frame frame =
     rbind (decode_framed_body frame) (\<lambda>body.
     rbind (response_reader body 0) (\<lambda>(response, offset).
     rbind (ensure_consumed body offset) (\<lambda>_. Ok response)))"

section \<open>The field readers invert the field writers\<close>

lemma read_exact_parses: "n = length cs \<Longrightarrow> parses (read_exact n) cs cs"
  by (rule parsesI) (simp add: read_exact_def)

lemma read_exact_sound: "sound (read_exact n) (\<lambda>v cs. cs = v \<and> length v = n)"
  by (rule soundI) (auto simp: read_exact_def Let_def split: if_splits)

lemma handoff_lift_parses:
  assumes "n = length cs" and "r cs = Ok v"
  shows "parses (pbind (read_exact n) (\<lambda>bytes. plift (r bytes))) cs v"
  using parses_bind [of "read_exact n" cs cs "\<lambda>bytes. plift (r bytes)" "[]" v]
    read_exact_parses [OF assms(1)] parses_lift [where r = "r cs", OF assms(2)] by simp

lemma handoff_lift_sound:
  assumes "\<And>cs. length cs = n \<Longrightarrow> \<exists>v. r cs = Ok v \<and> cs = f v"
  shows "sound (pbind (read_exact n) (\<lambda>bytes. plift (r bytes))) (\<lambda>v cs. True \<and> cs = f v)"
proof (rule soundI)
  fix bs :: "u8 list" and i
  assume i: "i \<le> length bs"
  show "pbind (read_exact n) (\<lambda>bytes. plift (r bytes)) bs i \<noteq> Panicked"
    using assms [of "take n (drop i bs)"] i
    by (auto simp: pbind_def plift_def read_exact_def Let_def)
next
  fix bs :: "u8 list" and i v j
  assume i: "i \<le> length bs" and ok: "pbind (read_exact n) (\<lambda>bytes. plift (r bytes)) bs i = Ok (v, j)"
  then show "i \<le> j \<and> j \<le> length bs \<and> True \<and> take (j - i) (drop i bs) = f v"
    using assms [of "take n (drop i bs)"]
    by (auto simp: pbind_def plift_def read_exact_def Let_def split: if_splits)
qed

lemma length_1_list: "length cs = Suc 0 \<Longrightarrow> cs = [cs ! 0]"
  by (cases cs) auto

lemma handoff_u8_parses: "parses read_u8 [v] v"
  unfolding read_u8_def by (rule handoff_lift_parses) simp_all

lemma handoff_u8_sound: "sound read_u8 (\<lambda>v cs. True \<and> cs = [v])"
  unfolding read_u8_def by (rule handoff_lift_sound) (simp add: length_1_list)

lemma handoff_u16_parses: "parses read_u16 (u16_to_le_bytes v) v"
  unfolding read_u16_def
  by (rule handoff_lift_parses) (simp_all add: read_u16_le_def u16_to_le_bytes_def u16_from_to_le)

lemma handoff_u16_sound: "sound read_u16 (\<lambda>v cs. True \<and> cs = u16_to_le_bytes v)"
  unfolding read_u16_def
  by (rule handoff_lift_sound)
    (auto simp: read_u16_le_def u16_to_from_le intro!: nth_equalityI simp: less_Suc_eq numeral_2_eq_2)

lemma handoff_u32_parses: "parses read_u32 (u32_to_le_bytes v) v"
  unfolding read_u32_def
  by (rule handoff_lift_parses) (simp_all add: read_u32_le_def u32_to_le_bytes_def u32_from_to_le)

lemma handoff_u32_sound: "sound read_u32 (\<lambda>v cs. True \<and> cs = u32_to_le_bytes v)"
  unfolding read_u32_def
  by (rule handoff_lift_sound)
    (auto simp: read_u32_le_def u32_to_from_le intro!: nth_equalityI simp: less_Suc_eq eval_nat_numeral)

lemma handoff_u64_parses: "parses read_u64 (u64_to_le_bytes v) v"
  unfolding read_u64_def
  by (rule handoff_lift_parses) (simp_all add: read_u64_le_def u64_to_le_bytes_def u64_from_to_le)

lemma handoff_u64_sound: "sound read_u64 (\<lambda>v cs. True \<and> cs = u64_to_le_bytes v)"
  unfolding read_u64_def
  by (rule handoff_lift_sound)
    (auto simp: read_u64_le_def u64_to_from_le intro!: nth_equalityI simp: less_Suc_eq eval_nat_numeral)

lemma handoff_string_parses:
  assumes "string_fits s"
  shows "parses read_string (string_bytes s) s"
proof -
  let ?n = "word_of_nat (length s) :: u16"
  have n: "unat ?n = length (as_bytes s)"
    using assms by (simp add: string_fits_def unat_u16_of_nat)
  have "parses (pbind (read_exact (unat ?n)) (\<lambda>bytes. plift (ok_or (from_utf8 bytes) InvalidUtf8)))
      (as_bytes s) s"
    using assms by (intro handoff_lift_parses [OF n]) (simp add: string_fits_def from_utf8_as_bytes)
  then show ?thesis
    unfolding read_string_def string_bytes_def by (rule parses_bind [OF handoff_u16_parses])
qed

lemma handoff_string_sound: "sound read_string (\<lambda>s cs. string_fits s \<and> cs = string_bytes s)"
proof -
  have "sound read_string (\<lambda>s cs. \<exists>len c1 c2. cs = c1 @ c2 \<and> (True \<and> c1 = u16_to_le_bytes len)
      \<and> (\<exists>b d1 d2. c2 = d1 @ d2 \<and> (d1 = b \<and> length b = unat len)
           \<and> ok_or (from_utf8 b) InvalidUtf8 = Ok s \<and> d2 = []))"
    unfolding read_string_def
    by (intro sound_bind handoff_u16_sound read_exact_sound sound_lift)
      (simp add: ok_or_def split: option.split)
  then show ?thesis
  proof (rule sound_mono)
    fix s cs
    assume "\<exists>len c1 c2. cs = c1 @ c2 \<and> (True \<and> c1 = u16_to_le_bytes len)
      \<and> (\<exists>b d1 d2. c2 = d1 @ d2 \<and> (d1 = b \<and> length b = unat len)
           \<and> ok_or (from_utf8 b) InvalidUtf8 = Ok s \<and> d2 = [])"
    then obtain len :: u16 where cs: "cs = u16_to_le_bytes len @ as_bytes s"
      and s: "utf8_string s" and len: "length s = unat len"
      by (auto simp: ok_or_eq_Inr_iff from_utf8_Some)
    have "cs = string_bytes s"
      unfolding string_bytes_def len cs by simp
    moreover have "string_fits s"
      unfolding string_fits_def len using s unat_u16_less by simp
    ultimately show "string_fits s \<and> cs = string_bytes s" by simp
  qed
qed

lemma push_string_Ok_iff:
  "push_string out field v = Ok out' \<longleftrightarrow> length v < 65536 \<and> out' = out @ string_bytes v"
  by (auto simp: push_string_def string_bytes_def push_u16_def u16_try_from_def rbind_eq_Inr_iff
      ok_or_eq_Inr_iff Let_def)

lemma push_string_wf: "string_fits v \<Longrightarrow> push_string out field v = Ok (out @ string_bytes v)"
  by (simp add: push_string_Ok_iff string_fits_def)

lemma push_string_no_panic: "push_string out field v \<noteq> Panicked"
  by (simp add: push_string_def u16_try_from_def Let_def)

interpretation handoff_string: field_codec
  "\<lambda>out v. push_string out field v" string_bytes read_string string_fits for field
  by unfold_locales
    (simp_all add: push_string_wf push_string_Ok_iff push_string_no_panic handoff_string_parses
      handoff_string_sound)

interpretation handoff_u8: field_codec "\<lambda>out v. Ok (push_u8 out v)" "\<lambda>v. [v]" read_u8 "\<lambda>_. True"
  by unfold_locales (simp_all add: push_u8_def handoff_u8_parses handoff_u8_sound [simplified])

interpretation handoff_u16: field_codec
  "\<lambda>out v. Ok (push_u16 out v)" u16_to_le_bytes read_u16 "\<lambda>_. True"
  by unfold_locales (simp_all add: push_u16_def handoff_u16_parses handoff_u16_sound [simplified])

interpretation handoff_u32: field_codec
  "\<lambda>out v. Ok (push_u32 out v)" u32_to_le_bytes read_u32 "\<lambda>_. True"
  by unfold_locales (simp_all add: push_u32_def handoff_u32_parses handoff_u32_sound [simplified])

interpretation handoff_u64: field_codec
  "\<lambda>out v. Ok (push_u64 out v)" u64_to_le_bytes read_u64 "\<lambda>_. True"
  by unfold_locales (simp_all add: push_u64_def handoff_u64_parses handoff_u64_sound [simplified])

lemmas handoff_parses =
  handoff_u8_parses handoff_u16_parses handoff_u32_parses handoff_u64_parses
  handoff_string_parses read_exact_parses

lemmas handoff_sound =
  handoff_u8.get_sound handoff_u16.get_sound handoff_u32.get_sound handoff_u64.get_sound
  handoff_string.get_sound read_exact_sound

lemmas push_defs = push_u8_def push_u16_def push_u32_def push_u64_def

end
