(* ===== verification/Server_Video_Queue.thy ===== *)
theory Server_Video_Queue
  imports Server_Registry Handoff_Codec Rust_Str
begin

text \<open>
  The server's store of encoded video frames (apps/server/src/lib.rs): the bounded queue each
  client has, the keyframe retained for each client and run, the four ways to read it, and
  the handler that answers one request of the switcher from it.
\<close>

section \<open>State\<close>

record ServerVideoFrameHandlerInput =
  vhi_registered_packet :: ServerRegisteredVideoFramePacket
  vhi_payload_len :: nat

definition ServerVideoFrameHandlerBoundary_prepare_input ::
  "ServerRegisteredVideoFramePacket \<Rightarrow> ServerVideoFrameHandlerInput" where
  "ServerVideoFrameHandlerBoundary_prepare_input packet =
     \<lparr> vhi_registered_packet = packet, vhi_payload_len = length (vf_payload (srv_frame packet)) \<rparr>"

record ServerVideoFrameQueuePolicy =
  max_frames_per_client :: nat

definition ServerVideoFrameQueuePolicy_default :: ServerVideoFrameQueuePolicy where
  "ServerVideoFrameQueuePolicy_default = \<lparr> max_frames_per_client = 8 \<rparr>"

record ServerQueuedVideoFrame =
  sqv_source :: PacketSource
  sqv_authenticated_sender :: AuthenticatedSenderEntry
  sqv_frame :: VideoFrame
  sqv_payload_len :: nat
  sqv_queued_at :: TimestampMicros

record ServerVideoFrameQueueState =
  frames_by_client_id :: "(string, ServerQueuedVideoFrame list) btree_map"
  retained_keyframe_by_client_run :: "(string, ServerQueuedVideoFrame) btree_map"

definition ServerVideoFrameQueueState_default :: ServerVideoFrameQueueState where
  "ServerVideoFrameQueueState_default =
     \<lparr> frames_by_client_id = [], retained_keyframe_by_client_run = [] \<rparr>"

definition ServerVideoFrameQueueState_client_queue_len ::
  "ServerVideoFrameQueueState \<Rightarrow> ClientId \<Rightarrow> nat" where
  "ServerVideoFrameQueueState_client_queue_len st client_id =
     (case btree_get (frames_by_client_id st) client_id of None \<Rightarrow> 0 | Some queue \<Rightarrow> length queue)"

definition ServerVideoFrameQueueState_total_len :: "ServerVideoFrameQueueState \<Rightarrow> nat" where
  "ServerVideoFrameQueueState_total_len st =
     sum_list (List.map length (btree_values (frames_by_client_id st)))"

definition ServerVideoFrameQueueState_frames_for_client ::
  "ServerVideoFrameQueueState \<Rightarrow> ClientId \<Rightarrow> ServerQueuedVideoFrame list" where
  "ServerVideoFrameQueueState_frames_for_client st client_id =
     (case btree_get (frames_by_client_id st) client_id of None \<Rightarrow> [] | Some queue \<Rightarrow> queue)"

definition ServerVideoFrameQueueState_frames_for_client_run ::
  "ServerVideoFrameQueueState \<Rightarrow> ClientId \<Rightarrow> RunId \<Rightarrow> ServerQueuedVideoFrame list" where
  "ServerVideoFrameQueueState_frames_for_client_run st client_id run_id =
     filter (\<lambda>queued. vf_run_id (sqv_frame queued) = run_id)
       (ServerVideoFrameQueueState_frames_for_client st client_id)"

text \<open>The key of the retained keyframe joins the two ids with a slash.\<close>

definition client_run_scope_key :: "ClientId \<Rightarrow> RunId \<Rightarrow> string" where
  "client_run_scope_key client_id run_id = client_id @ ''/'' @ run_id"

definition ServerVideoFrameQueueState_retained_keyframe_for_client_run ::
  "ServerVideoFrameQueueState \<Rightarrow> ClientId \<Rightarrow> RunId \<Rightarrow> ServerQueuedVideoFrame option" where
  "ServerVideoFrameQueueState_retained_keyframe_for_client_run st client_id run_id =
     btree_get (retained_keyframe_by_client_run st) (client_run_scope_key client_id run_id)"

definition ServerVideoFrameQueueState_retained_keyframe_clients ::
  "ServerVideoFrameQueueState \<Rightarrow> nat" where
  "ServerVideoFrameQueueState_retained_keyframe_clients st =
     length (retained_keyframe_by_client_run st)"

definition ServerVideoFrameQueueState_per_client_retained_keyframe_frame_id ::
  "ServerVideoFrameQueueState \<Rightarrow> (string, u64) btree_map" where
  "ServerVideoFrameQueueState_per_client_retained_keyframe_frame_id st =
     List.map (\<lambda>(key, frame). (key, vf_frame_id (sqv_frame frame))) (retained_keyframe_by_client_run st)"

text \<open>Putting back a queue one frame of which was taken: an empty queue is dropped.\<close>

definition put_queue ::
  "ServerVideoFrameQueueState \<Rightarrow> ClientId \<Rightarrow> ServerQueuedVideoFrame list \<Rightarrow> ServerVideoFrameQueueState" where
  "put_queue st client_id queue =
     st \<lparr> frames_by_client_id :=
       (if queue = [] then btree_remove client_id (frames_by_client_id st)
        else btree_insert client_id queue (frames_by_client_id st)) \<rparr>"

fun pop_front_queue :: "ServerQueuedVideoFrame list \<Rightarrow> ServerQueuedVideoFrame option \<times> ServerQueuedVideoFrame list" where
  "pop_front_queue [] = (None, [])"
| "pop_front_queue (frame # queue) = (Some frame, queue)"

definition ServerVideoFrameQueueState_pop_front ::
  "ServerVideoFrameQueueState \<Rightarrow> ClientId \<Rightarrow> ServerQueuedVideoFrame option \<times> ServerVideoFrameQueueState" where
  "ServerVideoFrameQueueState_pop_front st client_id =
     (case btree_get (frames_by_client_id st) client_id of
        None \<Rightarrow> (None, st)
      | Some queue \<Rightarrow>
          (case pop_front_queue queue of (frame, rest) \<Rightarrow> (frame, put_queue st client_id rest)))"

text \<open>\<open>Iterator::position\<close> and \<open>VecDeque::remove\<close>.\<close>

fun position_of :: "('a \<Rightarrow> bool) \<Rightarrow> 'a list \<Rightarrow> nat option" where
  "position_of P [] = None"
| "position_of P (x # xs) = (if P x then Some 0 else map_option Suc (position_of P xs))"

definition deque_remove :: "nat \<Rightarrow> 'a list \<Rightarrow> 'a option \<times> 'a list" where
  "deque_remove i xs =
     (if i < length xs then (Some (xs ! i), take i xs @ drop (Suc i) xs) else (None, xs))"

definition ServerVideoFrameQueueState_pop_front_for_client_run ::
  "ServerVideoFrameQueueState \<Rightarrow> ClientId \<Rightarrow> RunId \<Rightarrow>
     ServerQueuedVideoFrame option \<times> ServerVideoFrameQueueState" where
  "ServerVideoFrameQueueState_pop_front_for_client_run st client_id run_id =
     (case btree_get (frames_by_client_id st) client_id of
        None \<Rightarrow> (None, st)
      | Some queue \<Rightarrow>
          (case position_of (\<lambda>queued. vf_run_id (sqv_frame queued) = run_id) queue of
             None \<Rightarrow> (None, st)
           | Some frame_index \<Rightarrow>
               (case deque_remove frame_index queue of
                  (frame, rest) \<Rightarrow> (frame, put_queue st client_id rest))))"

section \<open>Storing\<close>

datatype ServerVideoFrameQueueDropReason = CapacityZero

datatype ServerVideoFrameQueueStorageResult =
    Video_Stored ServerQueuedVideoFrame nat nat "ServerQueuedVideoFrame option"
  | Video_Dropped ServerVideoFrameHandlerInput ServerVideoFrameQueueDropReason

text \<open>
  The arguments of \<open>Video_Stored\<close> are the queued frame, the queue's length before and
  after, and the frame that made room.
\<close>

definition ServerVideoFrameQueueStorageBoundary_store_frame ::
  "ServerVideoFrameQueueState \<Rightarrow> ServerVideoFrameHandlerInput \<Rightarrow> TimestampMicros \<Rightarrow>
     ServerVideoFrameQueuePolicy \<Rightarrow> ServerVideoFrameQueueState \<times> ServerVideoFrameQueueStorageResult" where
  "ServerVideoFrameQueueStorageBoundary_store_frame st input queued_at policy =
     (if max_frames_per_client policy = 0 then (st, Video_Dropped input CapacityZero)
      else
        (let packet = vhi_registered_packet input;
             client_id = vf_client_id (srv_frame packet);
             queue = (case btree_get (frames_by_client_id st) client_id of
                 None \<Rightarrow> [] | Some queue \<Rightarrow> queue);
             previous_client_queue_len = length queue;
             (dropped_oldest, queue) =
               (if max_frames_per_client policy \<le> length queue then pop_front_queue queue
                else (None, queue));
             queued = \<lparr> sqv_source = srv_source packet,
               sqv_authenticated_sender = srv_authenticated_sender packet,
               sqv_frame = srv_frame packet, sqv_payload_len = vhi_payload_len input,
               sqv_queued_at = queued_at \<rparr>;
             retained = (if vf_is_keyframe (sqv_frame queued)
               then btree_insert (client_run_scope_key (vf_client_id (sqv_frame queued))
                      (vf_run_id (sqv_frame queued))) queued (retained_keyframe_by_client_run st)
               else retained_keyframe_by_client_run st);
             queue = queue @ [queued] in
         (\<lparr> frames_by_client_id = btree_insert client_id queue (frames_by_client_id st),
            retained_keyframe_by_client_run = retained \<rparr>,
          Video_Stored queued previous_client_queue_len (length queue) dropped_oldest)))"

section \<open>Reading\<close>

datatype ServerVideoFrameQueueReadMode =
  Read_InspectOldest | Read_InspectLatest | Read_InspectLatestDecodable | Read_DequeueOldest

record ServerVideoFrameQueueReadInput =
  vqr_client_id :: ClientId
  vqr_run_id :: RunId
  vqr_mode :: ServerVideoFrameQueueReadMode

datatype ServerVideoFrameQueueReadResult =
    FrameAvailable ServerQueuedVideoFrame ServerVideoFrameQueueReadMode nat DecodableSource bool "u64 option"
  | NoFrameAvailable ClientId RunId nat NoFrameReason DecodableSource bool "u64 option"

definition determine_no_frame_reason :: "ServerVideoFrameQueueReadMode \<Rightarrow> nat \<Rightarrow> nat \<Rightarrow> NoFrameReason" where
  "determine_no_frame_reason mode client_queue_len run_queue_len =
     (if client_queue_len = 0 then NoFramesQueuedForClient
      else if run_queue_len = 0 then NoFramesQueuedForRequestedRun
      else (case mode of
          Read_InspectLatestDecodable \<Rightarrow> NoDecodableFrameAvailable
        | _ \<Rightarrow> NoFramesQueuedForRequestedRun))"

text \<open>\<open>Iterator::next\<close> and \<open>Iterator::last\<close>.\<close>

definition first_of :: "'a list \<Rightarrow> 'a option" where
  "first_of xs = (case xs of [] \<Rightarrow> None | x # _ \<Rightarrow> Some x)"

definition last_of :: "'a list \<Rightarrow> 'a option" where
  "last_of xs = (if xs = [] then None else Some (last xs))"

definition ServerVideoFrameQueueReadBoundary_read ::
  "ServerVideoFrameQueueState \<Rightarrow> ServerVideoFrameQueueReadInput \<Rightarrow>
     ServerVideoFrameQueueState \<times> ServerVideoFrameQueueReadResult" where
  "ServerVideoFrameQueueReadBoundary_read st input =
     (let client_id = vqr_client_id input; run_id = vqr_run_id input;
          client_queue_len = ServerVideoFrameQueueState_client_queue_len st client_id;
          run_frames = ServerVideoFrameQueueState_frames_for_client_run st client_id run_id;
          run_queue_len = length run_frames;
          retained_keyframe =
            ServerVideoFrameQueueState_retained_keyframe_for_client_run st client_id run_id;
          retained_keyframe_available = (retained_keyframe \<noteq> None);
          retained_keyframe_frame_id =
            map_option (\<lambda>frame. vf_frame_id (sqv_frame frame)) retained_keyframe;
          (frame, decodable_source, st') =
            (case vqr_mode input of
               Read_InspectOldest \<Rightarrow> (first_of run_frames, DecodableSource_None, st)
             | Read_InspectLatest \<Rightarrow> (last_of run_frames, DecodableSource_None, st)
             | Read_InspectLatestDecodable \<Rightarrow>
                 (case last_of (filter (\<lambda>queued. vf_is_keyframe (sqv_frame queued)) run_frames) of
                    Some frame \<Rightarrow> (Some frame, DecodableSource_Queue, st)
                  | None \<Rightarrow> (case retained_keyframe of
                      Some frame \<Rightarrow> (Some frame, DecodableSource_RetainedKeyframe, st)
                    | None \<Rightarrow> (None, DecodableSource_None, st)))
             | Read_DequeueOldest \<Rightarrow>
                 (case ServerVideoFrameQueueState_pop_front_for_client_run st client_id run_id of
                    (frame, st') \<Rightarrow> (frame, DecodableSource_None, st'))) in
      (st', case frame of
         Some frame \<Rightarrow> FrameAvailable frame (vqr_mode input)
           (ServerVideoFrameQueueState_client_queue_len st' client_id) decodable_source
           retained_keyframe_available retained_keyframe_frame_id
       | None \<Rightarrow> NoFrameAvailable client_id run_id client_queue_len
           (determine_no_frame_reason (vqr_mode input) client_queue_len run_queue_len)
           DecodableSource_None retained_keyframe_available retained_keyframe_frame_id))"

section \<open>Answering the switcher\<close>

text \<open>
  Lengths are narrowed with \<open>expect\<close>: a length that needs more than 32 bits panics, after
  a dequeued frame has left the queue.
\<close>

definition queue_len_to_u32 :: "nat \<Rightarrow> (u32, unit) result" where
  "queue_len_to_u32 len = (case u32_try_from len of None \<Rightarrow> Panicked | Some n \<Rightarrow> Ok n)"

definition payload_len_to_u32 :: "nat \<Rightarrow> (u32, unit) result" where
  "payload_len_to_u32 len = (case u32_try_from len of None \<Rightarrow> Panicked | Some n \<Rightarrow> Ok n)"

definition queue_read_mode_from_handoff :: "ReadMode \<Rightarrow> ServerVideoFrameQueueReadMode" where
  "queue_read_mode_from_handoff mode =
     (case mode of
        InspectOldest \<Rightarrow> Read_InspectOldest
      | InspectLatest \<Rightarrow> Read_InspectLatest
      | InspectLatestDecodable \<Rightarrow> Read_InspectLatestDecodable
      | DequeueOldest \<Rightarrow> Read_DequeueOldest)"

definition ServerSwitcherQueuedFrameHandoffHandlerBoundary_handle_request ::
  "ServerVideoFrameQueueState \<Rightarrow> HandoffRequest \<Rightarrow>
     ServerVideoFrameQueueState \<times> (HandoffResponse, unit) result" where
  "ServerSwitcherQueuedFrameHandoffHandlerBoundary_handle_request st request =
     (if trim (hreq_client_id request) = [] \<or> trim (hreq_run_id request) = []
      then (st, Ok (HandoffError (hreq_request_id request) InvalidScope))
      else
        (case ServerVideoFrameQueueReadBoundary_read st
            \<lparr> vqr_client_id = hreq_client_id request, vqr_run_id = hreq_run_id request,
              vqr_mode = queue_read_mode_from_handoff (hreq_read_mode request) \<rparr> of
           (st', FrameAvailable frame _ remaining source available frame_id) \<Rightarrow>
             (st', rbind (queue_len_to_u32 remaining) (\<lambda>remaining_client_queue_len.
               rbind (payload_len_to_u32 (sqv_payload_len frame)) (\<lambda>encoded_payload_len.
               Ok (FrameRead (hreq_request_id request) remaining_client_queue_len source
                 available frame_id
                 \<lparr> hf_client_id = vf_client_id (sqv_frame frame),
                   hf_run_id = vf_run_id (sqv_frame frame),
                   hf_frame_id = vf_frame_id (sqv_frame frame),
                   hf_capture_timestamp = vf_capture_timestamp (sqv_frame frame),
                   hf_send_timestamp = vf_send_timestamp (sqv_frame frame),
                   hf_queued_at = sqv_queued_at frame,
                   hf_width = vf_width (sqv_frame frame),
                   hf_height = vf_height (sqv_frame frame),
                   hf_fps_nominal = vf_fps_nominal (sqv_frame frame),
                   hf_is_keyframe = vf_is_keyframe (sqv_frame frame),
                   hf_codec = vf_codec (sqv_frame frame),
                   hf_encoded_payload_len = encoded_payload_len,
                   hf_encoded_payload = vf_payload (sqv_frame frame) \<rparr>))))
         | (st', NoFrameAvailable client_id run_id len reason source available frame_id) \<Rightarrow>
             (st', rbind (queue_len_to_u32 len) (\<lambda>client_queue_len.
               Ok (NoFrame (hreq_request_id request) client_id run_id (hreq_read_mode request)
                 client_queue_len reason source available frame_id)))))"

section \<open>The contract of a bounded store\<close>

definition keep_last :: "nat \<Rightarrow> 'a list \<Rightarrow> 'a list" where
  "keep_last n xs = drop (length xs - n) xs"

lemma keep_last_short: "length xs \<le> n \<Longrightarrow> keep_last n xs = xs"
  by (simp add: keep_last_def)

lemma length_keep_last: "length (keep_last n xs) = min n (length xs)"
  by (simp add: keep_last_def min_def)

lemma set_keep_last: "set (keep_last n xs) \<subseteq> set xs"
  by (simp add: keep_last_def set_drop_subset)

lemma keep_last_append: "keep_last n (keep_last n xs @ ys) = keep_last n (xs @ ys)"
proof (cases "length xs \<le> n")
  case False
  then have "drop (n + length ys - n) (drop (length xs - n) xs @ ys) = drop (length xs + length ys - n) (xs @ ys)"
    by (cases "length ys \<le> n") (simp_all add: drop_append add.commute)
  with False show ?thesis by (simp add: keep_last_def)
qed (simp add: keep_last_short)

text \<open>
  Who stores frames relies on this much: a store appends to the queue of one key and lets go
  of the oldest items only, and only when the queue is full.
\<close>

locale frame_store =
  fixes store :: "'s \<Rightarrow> 'i \<Rightarrow> 's"
    and contents :: "'s \<Rightarrow> 'k \<Rightarrow> 'f list"
    and inv :: "'s \<Rightarrow> bool"
    and capacity :: nat
    and key :: "'i \<Rightarrow> 'k"
    and item :: "'i \<Rightarrow> 'f"
  assumes inv_store: "inv s \<Longrightarrow> inv (store s i)"
    and contents_store: "inv s \<Longrightarrow> contents (store s i) k =
      (if k = key i then keep_last capacity (contents s k @ [item i]) else contents s k)"
    and contents_bounded: "inv s \<Longrightarrow> length (contents s k) \<le> capacity"
begin

lemma inv_store_all: "inv s \<Longrightarrow> inv (foldl store s inputs)"
  by (induction inputs arbitrary: s) (simp_all add: inv_store)

lemma contents_store_all:
  "inv s \<Longrightarrow> contents (foldl store s inputs) k =
     keep_last capacity (contents s k @ List.map item (filter (\<lambda>i. key i = k) inputs))"
proof (induction inputs arbitrary: s)
  case Nil
  then show ?case by (simp add: keep_last_short contents_bounded)
next
  case (Cons i inputs)
  have "contents (foldl store (store s i) inputs) k =
      keep_last capacity (contents (store s i) k @ List.map item (filter (\<lambda>i. key i = k) inputs))"
    by (rule Cons.IH [OF inv_store [OF Cons.prems]])
  then show ?case
    using keep_last_append [of capacity "contents s k @ [item i]"
        "List.map item (filter (\<lambda>i. key i = k) inputs)"]
    by (auto simp: contents_store [OF Cons.prems])
qed

end

section \<open>The invariant\<close>

definition queued_ok :: "ServerQueuedVideoFrame \<Rightarrow> bool" where
  "queued_ok f \<longleftrightarrow> sqv_payload_len f = length (vf_payload (sqv_frame f))"

definition frame_scope_key :: "ServerQueuedVideoFrame \<Rightarrow> string" where
  "frame_scope_key f = client_run_scope_key (vf_client_id (sqv_frame f)) (vf_run_id (sqv_frame f))"

definition video_queue_ok :: "ServerVideoFrameQueuePolicy \<Rightarrow> ServerVideoFrameQueueState \<Rightarrow> bool" where
  "video_queue_ok policy st \<longleftrightarrow>
     btree_inv (frames_by_client_id st) \<and> btree_inv (retained_keyframe_by_client_run st) \<and>
     (\<forall>c queue. btree_get (frames_by_client_id st) c = Some queue \<longrightarrow>
        queue \<noteq> [] \<and> length queue \<le> max_frames_per_client policy \<and>
        (\<forall>f \<in> set queue. queued_ok f \<and> vf_client_id (sqv_frame f) = c)) \<and>
     (\<forall>k f. btree_get (retained_keyframe_by_client_run st) k = Some f \<longrightarrow>
        queued_ok f \<and> vf_is_keyframe (sqv_frame f) \<and> frame_scope_key f = k)"

definition queued_of :: "ServerRegisteredVideoFramePacket \<Rightarrow> TimestampMicros \<Rightarrow> ServerQueuedVideoFrame" where
  "queued_of packet queued_at =
     \<lparr> sqv_source = srv_source packet, sqv_authenticated_sender = srv_authenticated_sender packet,
       sqv_frame = srv_frame packet, sqv_payload_len = length (vf_payload (srv_frame packet)),
       sqv_queued_at = queued_at \<rparr>"

definition store_packet ::
  "ServerVideoFrameQueuePolicy \<Rightarrow> ServerVideoFrameQueueState \<Rightarrow>
     ServerRegisteredVideoFramePacket \<times> TimestampMicros \<Rightarrow> ServerVideoFrameQueueState" where
  "store_packet policy st i =
     fst (ServerVideoFrameQueueStorageBoundary_store_frame st
       (ServerVideoFrameHandlerBoundary_prepare_input (fst i)) (snd i) policy)"

lemma queued_of_sel [simp]:
  "sqv_frame (queued_of packet t) = srv_frame packet"
  "queued_ok (queued_of packet t)"
  by (simp_all add: queued_of_def queued_ok_def)

text \<open>One store, in terms of the client's queue before it.\<close>

lemma pop_front_full:
  "length xs = n \<Longrightarrow> 0 < n \<Longrightarrow> snd (pop_front_queue xs) @ [x] = keep_last n (xs @ [x])"
  by (cases xs) (simp_all add: keep_last_def)

lemma store_packet_eq:
  assumes "video_queue_ok policy st" and "0 < max_frames_per_client policy"
  shows "store_packet policy st (packet, t) =
    \<lparr> frames_by_client_id = btree_insert (vf_client_id (srv_frame packet))
        (keep_last (max_frames_per_client policy)
          (ServerVideoFrameQueueState_frames_for_client st (vf_client_id (srv_frame packet))
             @ [queued_of packet t])) (frames_by_client_id st),
      retained_keyframe_by_client_run =
        (if vf_is_keyframe (srv_frame packet)
         then btree_insert (frame_scope_key (queued_of packet t)) (queued_of packet t)
                (retained_keyframe_by_client_run st)
         else retained_keyframe_by_client_run st) \<rparr>"
proof -
  let ?q = "ServerVideoFrameQueueState_frames_for_client st (vf_client_id (srv_frame packet))"
  let ?n = "max_frames_per_client policy"
  have len: "length ?q \<le> ?n"
    using assms by (auto simp: video_queue_ok_def ServerVideoFrameQueueState_frames_for_client_def
        split: option.split)
  have "(if ?n \<le> length ?q then snd (pop_front_queue ?q) else ?q) @ [x] = keep_last ?n (?q @ [x])" for x
    using len assms(2) pop_front_full [of ?q ?n x] by (simp add: keep_last_short)
  then show ?thesis
    using assms(2)
    by (simp add: store_packet_def ServerVideoFrameQueueStorageBoundary_store_frame_def Let_def
        case_prod_unfold ServerVideoFrameHandlerBoundary_prepare_input_def queued_of_def
        frame_scope_key_def ServerVideoFrameQueueState_frames_for_client_def if_distrib [of snd]
        cong: if_cong)
qed

lemma store_packet_full: "max_frames_per_client policy = 0 \<Longrightarrow> store_packet policy st i = st"
  by (simp add: store_packet_def ServerVideoFrameQueueStorageBoundary_store_frame_def)

lemma frames_for_client_ok:
  assumes "video_queue_ok policy st"
  shows "length (ServerVideoFrameQueueState_frames_for_client st c) \<le> max_frames_per_client policy"
    and "f \<in> set (ServerVideoFrameQueueState_frames_for_client st c) \<Longrightarrow>
      queued_ok f \<and> vf_client_id (sqv_frame f) = c"
  using assms by (cases "btree_get (frames_by_client_id st) c",
      auto simp: video_queue_ok_def ServerVideoFrameQueueState_frames_for_client_def)+

lemma store_packet_ok:
  assumes "video_queue_ok policy st"
  shows "video_queue_ok policy (store_packet policy st i)"
proof (cases "max_frames_per_client policy = 0")
  case False
  obtain packet t where i: "i = (packet, t)" by (cases i)
  let ?c = "vf_client_id (srv_frame packet)"
  let ?q = "ServerVideoFrameQueueState_frames_for_client st ?c @ [queued_of packet t]"
  have "queued_ok f \<and> vf_client_id (sqv_frame f) = ?c"
    if "f \<in> set (keep_last (max_frames_per_client policy) ?q)" for f
    using subsetD [OF set_keep_last that] frames_for_client_ok(2) [OF assms, of f ?c] by auto
  moreover have "keep_last (max_frames_per_client policy) ?q \<noteq> []"
    using False length_keep_last [of "max_frames_per_client policy" ?q] by auto
  ultimately show ?thesis
    using assms False length_keep_last [of "max_frames_per_client policy" ?q]
    by (simp add: i store_packet_eq) (auto simp: video_queue_ok_def btree.inv_insert btree.lookup_insert)
qed (simp add: assms store_packet_full)

interpretation video_store: frame_store
  "store_packet policy" ServerVideoFrameQueueState_frames_for_client "video_queue_ok policy"
  "max_frames_per_client policy" "\<lambda>i. vf_client_id (srv_frame (fst i))" "\<lambda>i. queued_of (fst i) (snd i)"
  for policy
proof unfold_locales
  fix st :: ServerVideoFrameQueueState and i :: "ServerRegisteredVideoFramePacket \<times> TimestampMicros"
    and c :: ClientId
  assume ok: "video_queue_ok policy st"
  show "video_queue_ok policy (store_packet policy st i)" by (rule store_packet_ok [OF ok])
  show "length (ServerVideoFrameQueueState_frames_for_client st c) \<le> max_frames_per_client policy"
    by (rule frames_for_client_ok [OF ok])
  show "ServerVideoFrameQueueState_frames_for_client (store_packet policy st i) c =
      (if c = vf_client_id (srv_frame (fst i))
       then keep_last (max_frames_per_client policy)
              (ServerVideoFrameQueueState_frames_for_client st c @ [queued_of (fst i) (snd i)])
       else ServerVideoFrameQueueState_frames_for_client st c)"
  proof (cases "max_frames_per_client policy = 0")
    case True
    then have "ServerVideoFrameQueueState_frames_for_client st c = []"
      using frames_for_client_ok(1) [OF ok, of c] by simp
    then show ?thesis by (simp add: True store_packet_full keep_last_def)
  next
    case False
    then show ?thesis
      using ok store_packet_eq [OF ok, of "fst i" "snd i"]
      by (simp add: ServerVideoFrameQueueState_frames_for_client_def btree.lookup_insert
          video_queue_ok_def)
  qed
qed

lemma video_queue_default_ok: "video_queue_ok policy ServerVideoFrameQueueState_default"
  by (simp add: video_queue_ok_def ServerVideoFrameQueueState_default_def btree.inv_empty)

section \<open>Taking frames out\<close>

lemma position_of_None: "position_of P xs = None \<longleftrightarrow> filter P xs = []"
  by (induction xs) auto

lemma position_of_Some_filter:
  "position_of P xs = Some i \<Longrightarrow>
     i < length xs \<and> filter P xs = xs ! i # filter P (take i xs @ drop (Suc i) xs)"
  by (induction xs arbitrary: i) (auto split: if_splits)

lemma position_of_Some_other:
  "position_of P xs = Some i \<Longrightarrow> (\<And>x. Q x \<Longrightarrow> \<not> P x) \<Longrightarrow>
     filter Q (take i xs @ drop (Suc i) xs) = filter Q xs"
  by (induction xs arbitrary: i) (auto split: if_splits)

lemma frames_for_client_put:
  "video_queue_ok policy st \<Longrightarrow>
     ServerVideoFrameQueueState_frames_for_client (put_queue st c queue) d =
       (if d = c then queue else ServerVideoFrameQueueState_frames_for_client st d)"
  by (simp add: put_queue_def ServerVideoFrameQueueState_frames_for_client_def video_queue_ok_def
      btree.lookup_insert btree.lookup_remove)

lemma put_queue_ok:
  assumes "video_queue_ok policy st" and "length queue \<le> max_frames_per_client policy"
    and "\<And>f. f \<in> set queue \<Longrightarrow> f \<in> set (ServerVideoFrameQueueState_frames_for_client st c)"
  shows "video_queue_ok policy (put_queue st c queue)"
  using assms(1,2) frames_for_client_ok(2) [OF assms(1) assms(3)]
  by (simp add: video_queue_ok_def put_queue_def btree.inv_insert btree.inv_remove
      btree.lookup_insert btree.lookup_remove)

lemma pop_front_for_client_run_effect:
  assumes ok: "video_queue_ok policy st"
    and pop: "ServerVideoFrameQueueState_pop_front_for_client_run st c r = (frame, st')"
  shows "frame = first_of (ServerVideoFrameQueueState_frames_for_client_run st c r)"
    and "ServerVideoFrameQueueState_frames_for_client_run st' d s =
      (if d = c \<and> s = r then tl (ServerVideoFrameQueueState_frames_for_client_run st d s)
       else ServerVideoFrameQueueState_frames_for_client_run st d s)"
    and "retained_keyframe_by_client_run st' = retained_keyframe_by_client_run st"
    and "video_queue_ok policy st'"
proof -
  let ?P = "\<lambda>queued. vf_run_id (sqv_frame queued) = r"
  let ?fs = "ServerVideoFrameQueueState_frames_for_client st c"
  have cases: "(filter ?P ?fs = [] \<and> frame = None \<and> st' = st) \<or>
      (\<exists>i. position_of ?P ?fs = Some i \<and> frame = Some (?fs ! i) \<and>
         st' = put_queue st c (take i ?fs @ drop (Suc i) ?fs))"
    using pop by (auto simp: ServerVideoFrameQueueState_pop_front_for_client_run_def
        ServerVideoFrameQueueState_frames_for_client_def position_of_None deque_remove_def
        dest: position_of_Some_filter split: option.splits if_splits)
  show "frame = first_of (ServerVideoFrameQueueState_frames_for_client_run st c r)"
    using cases by (auto simp: ServerVideoFrameQueueState_frames_for_client_run_def first_of_def
        dest: position_of_Some_filter)
  show "ServerVideoFrameQueueState_frames_for_client_run st' d s =
      (if d = c \<and> s = r then tl (ServerVideoFrameQueueState_frames_for_client_run st d s)
       else ServerVideoFrameQueueState_frames_for_client_run st d s)"
    using cases
  proof (elim disjE exE conjE)
    fix i
    assume pos: "position_of ?P ?fs = Some i" and st': "st' = put_queue st c (take i ?fs @ drop (Suc i) ?fs)"
    show ?thesis
      using position_of_Some_filter [OF pos]
        position_of_Some_other [OF pos, of "\<lambda>queued. vf_run_id (sqv_frame queued) = s"]
      by (auto simp: ServerVideoFrameQueueState_frames_for_client_run_def st'
          frames_for_client_put [OF ok] simp del: filter_append)
  qed (simp add: ServerVideoFrameQueueState_frames_for_client_run_def)
  show "retained_keyframe_by_client_run st' = retained_keyframe_by_client_run st"
    using cases by (auto simp: put_queue_def)
  show "video_queue_ok policy st'"
    using cases
  proof (elim disjE exE conjE)
    fix i
    assume pos: "position_of ?P ?fs = Some i" and st': "st' = put_queue st c (take i ?fs @ drop (Suc i) ?fs)"
    show ?thesis
      unfolding st' using frames_for_client_ok(1) [OF ok, of c] position_of_Some_filter [OF pos]
      by (intro put_queue_ok [OF ok]) (auto dest: in_set_takeD in_set_dropD)
  qed (simp add: ok)
qed

section \<open>What a read returns\<close>

text \<open>The frame a mode selects among the frames of the run and the retained keyframe.\<close>

definition selected_frame ::
  "ServerVideoFrameQueueState \<Rightarrow> ClientId \<Rightarrow> RunId \<Rightarrow> ServerVideoFrameQueueReadMode \<Rightarrow>
     ServerQueuedVideoFrame option" where
  "selected_frame st c r mode =
     (let frames = ServerVideoFrameQueueState_frames_for_client_run st c r in
      case mode of
        Read_InspectOldest \<Rightarrow> first_of frames
      | Read_InspectLatest \<Rightarrow> last_of frames
      | Read_DequeueOldest \<Rightarrow> first_of frames
      | Read_InspectLatestDecodable \<Rightarrow>
          (case last_of (filter (\<lambda>f. vf_is_keyframe (sqv_frame f)) frames) of
             Some f \<Rightarrow> Some f
           | None \<Rightarrow> ServerVideoFrameQueueState_retained_keyframe_for_client_run st c r))"

text \<open>Only a dequeue changes the state, and it takes the run's oldest frame.\<close>

definition state_after_read ::
  "ServerVideoFrameQueueState \<Rightarrow> ClientId \<Rightarrow> RunId \<Rightarrow> ServerVideoFrameQueueReadMode \<Rightarrow>
     ServerVideoFrameQueueState" where
  "state_after_read st c r mode =
     (if mode = Read_DequeueOldest
      then snd (ServerVideoFrameQueueState_pop_front_for_client_run st c r) else st)"

lemma queue_read_cases:
  fixes st input
  defines "c \<equiv> vqr_client_id input" and "r \<equiv> vqr_run_id input"
  assumes "video_queue_ok policy st"
  obtains (available) frame remaining source retained frame_id where
      "selected_frame st c r (vqr_mode input) = Some frame"
      "ServerVideoFrameQueueReadBoundary_read st input =
         (state_after_read st c r (vqr_mode input),
          FrameAvailable frame (vqr_mode input) remaining source retained frame_id)"
      "remaining = ServerVideoFrameQueueState_client_queue_len (state_after_read st c r (vqr_mode input)) c"
      "retained = (frame_id \<noteq> None)"
  | (absent) len reason source retained frame_id where
      "selected_frame st c r (vqr_mode input) = None"
      "ServerVideoFrameQueueReadBoundary_read st input =
         (state_after_read st c r (vqr_mode input),
          NoFrameAvailable c r len reason source retained frame_id)"
      "len = ServerVideoFrameQueueState_client_queue_len st c"
      "retained = (frame_id \<noteq> None)"
proof -
  have pop: "fst (ServerVideoFrameQueueState_pop_front_for_client_run st c r) =
      first_of (ServerVideoFrameQueueState_frames_for_client_run st c r)"
    using pop_front_for_client_run_effect(1) [OF assms(3), of c r] by (metis prod.collapse)
  show thesis
  proof (cases "selected_frame st c r (vqr_mode input)")
    case None
    then show thesis
      using absent pop unfolding c_def r_def
      by (cases "vqr_mode input")
        (auto simp: selected_frame_def state_after_read_def ServerVideoFrameQueueReadBoundary_read_def
          Let_def case_prod_unfold split: option.splits)
  next
    case (Some f)
    then show thesis
      using available pop unfolding c_def r_def
      by (cases "vqr_mode input")
        (auto simp: selected_frame_def state_after_read_def ServerVideoFrameQueueReadBoundary_read_def
          Let_def case_prod_unfold split: option.splits)
  qed
qed

lemma state_after_read_ok: "video_queue_ok policy st \<Longrightarrow> video_queue_ok policy (state_after_read st c r mode)"
  using pop_front_for_client_run_effect(4) [of policy st c r]
  by (auto simp: state_after_read_def) (metis prod.collapse)

lemma client_queue_len_eq:
  "ServerVideoFrameQueueState_client_queue_len st c =
     length (ServerVideoFrameQueueState_frames_for_client st c)"
  by (simp add: ServerVideoFrameQueueState_client_queue_len_def
      ServerVideoFrameQueueState_frames_for_client_def split: option.split)

lemma state_after_read_none: "selected_frame st c r mode = None \<Longrightarrow> state_after_read st c r mode = st"
  by (auto simp: state_after_read_def selected_frame_def first_of_def position_of_None [symmetric]
      ServerVideoFrameQueueState_pop_front_for_client_run_def
      ServerVideoFrameQueueState_frames_for_client_def
      ServerVideoFrameQueueState_frames_for_client_run_def split: option.splits list.splits)

section \<open>Scopes\<close>

text \<open>
  The key of the retained keyframe identifies a client and a run as long as client ids have
  no slash.
\<close>

lemma scope_key_inject:
  assumes "CHR ''/'' \<notin> set c" and "CHR ''/'' \<notin> set d"
  shows "client_run_scope_key c r = client_run_scope_key d s \<longleftrightarrow> c = d \<and> r = s"
proof
  assume eq: "client_run_scope_key c r = client_run_scope_key d s"
  have split: "takeWhile (\<lambda>x. x \<noteq> CHR ''/'') (client_run_scope_key e t) = e"
    if "CHR ''/'' \<notin> set e" for e t
    using that unfolding client_run_scope_key_def by (induction e) auto
  from eq split [OF assms(1), of r] split [OF assms(2), of s] have "c = d" by simp
  with eq show "c = d \<and> r = s" by (simp add: client_run_scope_key_def)
qed simp

definition slash_free :: "ServerVideoFrameQueueState \<Rightarrow> bool" where
  "slash_free st \<longleftrightarrow>
     (\<forall>k f. btree_get (retained_keyframe_by_client_run st) k = Some f \<longrightarrow>
        CHR ''/'' \<notin> set (vf_client_id (sqv_frame f)))"

lemma selected_frame_stored:
  assumes "selected_frame st c r mode = Some f"
  shows "f \<in> set (ServerVideoFrameQueueState_frames_for_client_run st c r) \<or>
    (mode = Read_InspectLatestDecodable \<and>
     ServerVideoFrameQueueState_retained_keyframe_for_client_run st c r = Some f)"
proof -
  have first: "g \<in> set xs" if "first_of xs = Some g" for xs :: "ServerQueuedVideoFrame list" and g
    using that by (cases xs) (auto simp: first_of_def)
  have last: "g \<in> set xs" if "last_of xs = Some g" for xs :: "ServerQueuedVideoFrame list" and g
    using that by (auto simp: last_of_def split: if_splits)
  show ?thesis
    using assms by (cases mode) (auto simp: selected_frame_def Let_def split: option.splits
        dest!: first last)
qed

lemma selected_frame_queued_ok:
  assumes "video_queue_ok policy st" and "selected_frame st c r mode = Some f"
  shows "queued_ok f"
  using selected_frame_stored [OF assms(2)] frames_for_client_ok(2) [OF assms(1)] assms(1)
  by (auto simp: ServerVideoFrameQueueState_frames_for_client_run_def video_queue_ok_def
      ServerVideoFrameQueueState_retained_keyframe_for_client_run_def)

lemma selected_frame_scope:
  assumes ok: "video_queue_ok policy st"
    and safe: "mode = Read_InspectLatestDecodable \<Longrightarrow> slash_free st \<and> CHR ''/'' \<notin> set c"
    and sel: "selected_frame st c r mode = Some f"
  shows "vf_client_id (sqv_frame f) = c \<and> vf_run_id (sqv_frame f) = r"
  using selected_frame_stored [OF sel]
proof (elim disjE conjE)
  assume "f \<in> set (ServerVideoFrameQueueState_frames_for_client_run st c r)"
  then show ?thesis
    using frames_for_client_ok(2) [OF ok, of f c]
    by (auto simp: ServerVideoFrameQueueState_frames_for_client_run_def)
next
  assume mode: "mode = Read_InspectLatestDecodable"
    and "ServerVideoFrameQueueState_retained_keyframe_for_client_run st c r = Some f"
  then have "frame_scope_key f = client_run_scope_key c r"
      and "CHR ''/'' \<notin> set (vf_client_id (sqv_frame f))"
    using ok safe [OF mode] by (auto simp: video_queue_ok_def slash_free_def
        ServerVideoFrameQueueState_retained_keyframe_for_client_run_def)
  then show ?thesis
    using safe [OF mode] scope_key_inject [of "vf_client_id (sqv_frame f)" c "vf_run_id (sqv_frame f)" r]
    by (simp add: frame_scope_key_def)
qed

section \<open>The handler\<close>

text \<open>A property of every frame the state holds, in a queue or as a retained keyframe.\<close>

definition every_stored ::
  "(ServerQueuedVideoFrame \<Rightarrow> bool) \<Rightarrow> ServerVideoFrameQueueState \<Rightarrow> bool" where
  "every_stored P st \<longleftrightarrow>
     (\<forall>c. \<forall>f \<in> set (ServerVideoFrameQueueState_frames_for_client st c). P f) \<and>
     (\<forall>k f. btree_get (retained_keyframe_by_client_run st) k = Some f \<longrightarrow> P f)"

lemma every_stored_selected:
  assumes "every_stored P st" and "selected_frame st c r mode = Some f"
  shows "P f"
  using selected_frame_stored [OF assms(2)] assms(1)
  by (auto simp: every_stored_def ServerVideoFrameQueueState_frames_for_client_run_def
      ServerVideoFrameQueueState_retained_keyframe_for_client_run_def)

lemma every_stored_mono: "every_stored P st \<Longrightarrow> (\<And>f. P f \<Longrightarrow> Q f) \<Longrightarrow> every_stored Q st"
  by (auto simp: every_stored_def)

lemma every_stored_default: "every_stored P ServerVideoFrameQueueState_default"
  by (simp add: every_stored_def ServerVideoFrameQueueState_default_def
      ServerVideoFrameQueueState_frames_for_client_def)

definition payloads_fit :: "ServerVideoFrameQueueState \<Rightarrow> bool" where
  "payloads_fit = every_stored (\<lambda>f. length (vf_payload (sqv_frame f)) < 2 ^ 32)"

lemma selected_frame_payload:
  assumes "payloads_fit st" and "selected_frame st c r mode = Some f"
  shows "length (vf_payload (sqv_frame f)) < 2 ^ 32"
  using every_stored_selected [OF assms(1) [unfolded payloads_fit_def] assms(2)] .

lemma u32_narrowing:
  "n < 2 ^ 32 \<Longrightarrow> payload_len_to_u32 n = Ok (word_of_nat n)"
  "n < 2 ^ 32 \<Longrightarrow> queue_len_to_u32 n = Ok (word_of_nat n)"
  by (simp_all add: payload_len_to_u32_def queue_len_to_u32_def u32_try_from_def)

definition request_mode :: "HandoffRequest \<Rightarrow> ServerVideoFrameQueueReadMode" where
  "request_mode request = queue_read_mode_from_handoff (hreq_read_mode request)"

definition valid_scope :: "HandoffRequest \<Rightarrow> bool" where
  "valid_scope request \<longleftrightarrow> trim (hreq_client_id request) \<noteq> [] \<and> trim (hreq_run_id request) \<noteq> []"

text \<open>What the answer copies from the stored frame.\<close>

definition frame_copied :: "HandoffFrame \<Rightarrow> ServerQueuedVideoFrame \<Rightarrow> bool" where
  "frame_copied h f \<longleftrightarrow>
     hf_client_id h = vf_client_id (sqv_frame f) \<and> hf_run_id h = vf_run_id (sqv_frame f) \<and>
     hf_frame_id h = vf_frame_id (sqv_frame f) \<and>
     hf_capture_timestamp h = vf_capture_timestamp (sqv_frame f) \<and>
     hf_send_timestamp h = vf_send_timestamp (sqv_frame f) \<and> hf_queued_at h = sqv_queued_at f \<and>
     hf_width h = vf_width (sqv_frame f) \<and> hf_height h = vf_height (sqv_frame f) \<and>
     hf_fps_nominal h = vf_fps_nominal (sqv_frame f) \<and>
     hf_is_keyframe h = vf_is_keyframe (sqv_frame f) \<and> hf_codec h = vf_codec (sqv_frame f) \<and>
     hf_encoded_payload h = vf_payload (sqv_frame f) \<and>
     unat (hf_encoded_payload_len h) = length (hf_encoded_payload h)"

text \<open>
  The three answers. With queues and payloads below 32 bits the handler always has one, and
  it answers with a frame exactly when the mode selects one.
\<close>

lemma handle_request_cases:
  fixes st request
  defines "c \<equiv> hreq_client_id request" and "r \<equiv> hreq_run_id request"
  assumes ok: "video_queue_ok policy st" and cap: "max_frames_per_client policy < 2 ^ 32"
    and fit: "payloads_fit st"
  obtains (invalid) "\<not> valid_scope request"
      "ServerSwitcherQueuedFrameHandoffHandlerBoundary_handle_request st request =
         (st, Ok (HandoffError (hreq_request_id request) InvalidScope))"
  | (frame) f n source retained frame_id h where "valid_scope request"
      "selected_frame st c r (request_mode request) = Some f"
      "ServerSwitcherQueuedFrameHandoffHandlerBoundary_handle_request st request =
         (state_after_read st c r (request_mode request),
          Ok (FrameRead (hreq_request_id request) n source retained frame_id h))"
      "retained = (frame_id \<noteq> None)" "frame_copied h f"
      "unat n = ServerVideoFrameQueueState_client_queue_len (state_after_read st c r (request_mode request)) c"
  | (none) n reason source retained frame_id where "valid_scope request"
      "selected_frame st c r (request_mode request) = None"
      "ServerSwitcherQueuedFrameHandoffHandlerBoundary_handle_request st request =
         (st, Ok (NoFrame (hreq_request_id request) c r (hreq_read_mode request) n reason source
            retained frame_id))"
      "retained = (frame_id \<noteq> None)" "unat n = ServerVideoFrameQueueState_client_queue_len st c"
proof (cases "valid_scope request")
  case False
  then show thesis
    by (intro invalid)
      (auto simp: ServerSwitcherQueuedFrameHandoffHandlerBoundary_handle_request_def valid_scope_def)
next
  case True
  let ?m = "request_mode request"
  let ?input = "\<lparr> vqr_client_id = c, vqr_run_id = r, vqr_mode = ?m \<rparr>"
  have len: "ServerVideoFrameQueueState_client_queue_len st' d < 2 ^ 32"
    if "video_queue_ok policy st'" for st' d
    using frames_for_client_ok(1) [OF that, of d] cap by (simp add: client_queue_len_eq)
  note unfold_handler = ServerSwitcherQueuedFrameHandoffHandlerBoundary_handle_request_def
    request_mode_def [symmetric] c_def [symmetric] r_def [symmetric]
  show thesis
  proof (rule queue_read_cases [OF ok, of ?input])
    fix f n source retained frame_id
    assume f: "selected_frame st (vqr_client_id ?input) (vqr_run_id ?input) (vqr_mode ?input) = Some f"
      and n: "n = ServerVideoFrameQueueState_client_queue_len (state_after_read st (vqr_client_id ?input)
          (vqr_run_id ?input) (vqr_mode ?input)) (vqr_client_id ?input)"
      and retained: "retained = (frame_id \<noteq> None)"
      and eq: "ServerVideoFrameQueueReadBoundary_read st ?input =
        (state_after_read st (vqr_client_id ?input) (vqr_run_id ?input) (vqr_mode ?input),
         FrameAvailable f (vqr_mode ?input) n source retained frame_id)"
    have small: "length (vf_payload (sqv_frame f)) < 2 ^ 32" and "queued_ok f"
      using selected_frame_payload [OF fit] selected_frame_queued_ok [OF ok] f by simp_all
    then have lens: "sqv_payload_len f = length (vf_payload (sqv_frame f))" by (simp add: queued_ok_def)
    have "n < 2 ^ 32" unfolding n by (intro len state_after_read_ok [OF ok])
    with True f eq retained small n show thesis
      by (intro frame [of f])
        (auto simp: unfold_handler valid_scope_def u32_narrowing lens frame_copied_def unat_u32_of_nat)
  next
    fix n reason source retained frame_id
    assume absent: "selected_frame st (vqr_client_id ?input) (vqr_run_id ?input) (vqr_mode ?input) = None"
      and n: "n = ServerVideoFrameQueueState_client_queue_len st (vqr_client_id ?input)"
      and retained: "retained = (frame_id \<noteq> None)"
      and eq: "ServerVideoFrameQueueReadBoundary_read st ?input =
        (state_after_read st (vqr_client_id ?input) (vqr_run_id ?input) (vqr_mode ?input),
         NoFrameAvailable (vqr_client_id ?input) (vqr_run_id ?input) n reason source retained frame_id)"
    have "n < 2 ^ 32" unfolding n by (rule len [OF ok])
    with True absent eq retained n state_after_read_none [of st c r ?m] show thesis
      by (intro none) (auto simp: unfold_handler valid_scope_def u32_narrowing unat_u32_of_nat)
  qed
qed

section \<open>Stores keep what the handler needs\<close>

lemma retained_after_store:
  assumes "video_queue_ok policy st"
  shows "btree_get (retained_keyframe_by_client_run (store_packet policy st (packet, t))) k =
    (if vf_is_keyframe (srv_frame packet) \<and> k = frame_scope_key (queued_of packet t) \<and>
        0 < max_frames_per_client policy
     then Some (queued_of packet t) else btree_get (retained_keyframe_by_client_run st) k)"
  using assms
  by (cases "max_frames_per_client policy = 0")
    (simp_all add: store_packet_full store_packet_eq btree.lookup_insert video_queue_ok_def)

lemma slash_free_store:
  assumes "video_queue_ok policy st" and "slash_free st"
    and "CHR ''/'' \<notin> set (vf_client_id (srv_frame (fst i)))"
  shows "slash_free (store_packet policy st i)"
  using assms retained_after_store [OF assms(1), of "fst i" "snd i"]
  by (auto simp: slash_free_def split: if_splits)

lemma every_stored_store:
  assumes ok: "video_queue_ok policy st" and "every_stored P st"
    and "P (queued_of (fst i) (snd i))"
  shows "every_stored P (store_packet policy st i)"
proof -
  have "f \<in> set (ServerVideoFrameQueueState_frames_for_client st c) \<or> f = queued_of (fst i) (snd i)"
    if "f \<in> set (ServerVideoFrameQueueState_frames_for_client (store_packet policy st i) c)" for c f
    using that subsetD [OF set_keep_last] by (fastforce simp: video_store.contents_store [OF ok] split: if_splits)
  then show ?thesis
    using assms retained_after_store [OF ok, of "fst i" "snd i"]
    by (fastforce simp: every_stored_def split: if_splits)
qed

lemma payloads_fit_store:
  assumes "video_queue_ok policy st" and "payloads_fit st"
    and "length (vf_payload (srv_frame (fst i))) < 2 ^ 32"
  shows "payloads_fit (store_packet policy st i)"
  using every_stored_store [OF assms(1), of "\<lambda>f. length (vf_payload (sqv_frame f)) < 2 ^ 32" i] assms(2,3)
  by (simp add: payloads_fit_def)

lemma state_after_read_keeps:
  assumes ok: "video_queue_ok policy st"
  shows "slash_free (state_after_read st c r mode) = slash_free st"
    and "every_stored P st \<Longrightarrow> every_stored P (state_after_read st c r mode)"
    and "payloads_fit st \<Longrightarrow> payloads_fit (state_after_read st c r mode)"
proof -
  obtain f st' where pop: "ServerVideoFrameQueueState_pop_front_for_client_run st c r = (f, st')"
    by (cases "ServerVideoFrameQueueState_pop_front_for_client_run st c r")
  note effect = pop_front_for_client_run_effect [OF ok pop]
  have runs: "set (ServerVideoFrameQueueState_frames_for_client_run st' d s)
      \<subseteq> set (ServerVideoFrameQueueState_frames_for_client_run st d s)" for d s
    using in_set_dropD [of _ 1] by (auto simp: effect(2) drop_Suc)
  have "set (ServerVideoFrameQueueState_frames_for_client st' d)
      \<subseteq> set (ServerVideoFrameQueueState_frames_for_client st d)" for d
  proof
    fix g
    assume "g \<in> set (ServerVideoFrameQueueState_frames_for_client st' d)"
    then show "g \<in> set (ServerVideoFrameQueueState_frames_for_client st d)"
      using subsetD [OF runs [of d "vf_run_id (sqv_frame g)"], of g]
      by (simp add: ServerVideoFrameQueueState_frames_for_client_run_def)
  qed
  then have keeps: "every_stored Q st \<Longrightarrow> every_stored Q (state_after_read st c r mode)" for Q
    using effect(3) by (auto simp: state_after_read_def pop every_stored_def)
  show "slash_free (state_after_read st c r mode) = slash_free st"
    using effect(3) by (auto simp: state_after_read_def pop slash_free_def)
  show "every_stored P st \<Longrightarrow> every_stored P (state_after_read st c r mode)"
    and "payloads_fit st \<Longrightarrow> payloads_fit (state_after_read st c r mode)"
    unfolding payloads_fit_def by (erule keeps)+
qed

section \<open>Draining a run\<close>

text \<open>Dequeuing again and again, as the switcher does, returns the run's frames in order.\<close>

primrec dequeue_many ::
  "ServerVideoFrameQueueState \<Rightarrow> ClientId \<Rightarrow> RunId \<Rightarrow> nat \<Rightarrow> ServerQueuedVideoFrame option list" where
  "dequeue_many st c r 0 = []"
| "dequeue_many st c r (Suc n) =
     (case ServerVideoFrameQueueState_pop_front_for_client_run st c r of
        (frame, st') \<Rightarrow> frame # dequeue_many st' c r n)"

lemma dequeue_many_frames:
  "video_queue_ok policy st \<Longrightarrow> n \<le> length (ServerVideoFrameQueueState_frames_for_client_run st c r) \<Longrightarrow>
     dequeue_many st c r n = List.map Some (take n (ServerVideoFrameQueueState_frames_for_client_run st c r))"
proof (induction n arbitrary: st)
  case (Suc n)
  obtain f st' where pop: "ServerVideoFrameQueueState_pop_front_for_client_run st c r = (f, st')"
    by (cases "ServerVideoFrameQueueState_pop_front_for_client_run st c r")
  note effect = pop_front_for_client_run_effect [OF Suc.prems(1) pop]
  show ?case
    using Suc.prems(2) Suc.IH [OF effect(4)] effect(1,2)
    by (cases "ServerVideoFrameQueueState_frames_for_client_run st c r") (simp_all add: pop first_of_def)
qed simp

section \<open>A sample queue\<close>

definition video_packet :: "ClientId \<Rightarrow> RunId \<Rightarrow> u64 \<Rightarrow> ServerRegisteredVideoFramePacket" where
  "video_packet c r n =
     \<lparr> srv_source = \<lparr> src_address = SocketAddrV4 0x0A000001 40000 \<rparr>,
       srv_authenticated_sender = \<lparr> ase_client_id = c,
         ase_source = \<lparr> src_address = SocketAddrV4 0x0A000001 40000 \<rparr>, ase_run_id = r,
         ase_protocol_version = 1, ase_registered_at = None \<rparr>,
       srv_frame = \<lparr> vf_message_type = MessageType_VideoFrame, vf_protocol_version = 1,
         vf_client_id = c, vf_run_id = r, vf_frame_id = n, vf_capture_timestamp = 10 * n,
         vf_send_timestamp = 10 * n + 1, vf_is_keyframe = True, vf_metadata_reserved = (0, 0, 0),
         vf_width = 640, vf_height = 360, vf_fps_nominal = 30, vf_codec = H264,
         vf_payload_size = 2, vf_payload = [1, 2] \<rparr> \<rparr>"

definition two_frames :: ServerVideoFrameQueueState where
  "two_frames = foldl (store_packet ServerVideoFrameQueuePolicy_default) ServerVideoFrameQueueState_default
     [(video_packet ''cam-1'' ''run-1'' 1, 100), (video_packet ''cam-1'' ''run-1'' 2, 200)]"

lemma two_frames_ok: "video_queue_ok ServerVideoFrameQueuePolicy_default two_frames"
  unfolding two_frames_def by (rule video_store.inv_store_all [OF video_queue_default_ok])

definition request_of :: "ClientId \<Rightarrow> RunId \<Rightarrow> ReadMode \<Rightarrow> HandoffRequest" where
  "request_of c r mode = \<lparr> hreq_handoff_version = 1, hreq_request_id = 7, hreq_client_id = c,
     hreq_run_id = r, hreq_read_mode = mode \<rparr>"

lemma two_frames_fit: "payloads_fit two_frames"
  unfolding two_frames_def
  unfolding foldl.simps
  apply (intro payloads_fit_store store_packet_ok video_queue_default_ok)
  by (simp_all add: payloads_fit_def every_stored_default video_packet_def)

section \<open>Properties\<close>

text \<open>
  C19: Whatever packets are stored in whatever order, a client's queue holds exactly the newest
  packets of that client, as many as the policy allows, in the order of their arrival.
\<close>

theorem queue_holds_newest_frames:
  "ServerVideoFrameQueueState_frames_for_client
     (foldl (store_packet policy) ServerVideoFrameQueueState_default inputs) c =
   keep_last (max_frames_per_client policy)
     (List.map (\<lambda>i. queued_of (fst i) (snd i)) (filter (\<lambda>i. vf_client_id (srv_frame (fst i)) = c) inputs))"
  using video_store.contents_store_all [OF video_queue_default_ok [of policy], of inputs c]
  by (simp add: ServerVideoFrameQueueState_frames_for_client_def ServerVideoFrameQueueState_default_def)

text \<open>
  C33: Dequeuing for a client and run returns the frames of that run that are queued, oldest
  first, each once.
\<close>

theorem dequeues_are_fifo_per_run:
  assumes "video_queue_ok policy st"
    and "n \<le> length (ServerVideoFrameQueueState_frames_for_client_run st c r)"
  shows "dequeue_many st c r n =
    List.map Some (take n (ServerVideoFrameQueueState_frames_for_client_run st c r))"
  by (rule dequeue_many_frames [OF assms])

lemma dequeues_are_fifo_per_run_witness:
  "dequeue_many two_frames ''cam-1'' ''run-1'' 2 =
     List.map Some (take 2 (ServerVideoFrameQueueState_frames_for_client_run two_frames ''cam-1'' ''run-1''))"
  by (rule dequeues_are_fifo_per_run [OF two_frames_ok]) code_simp

text \<open>
  C18: As long as queues and payloads stay below 32 bits the handler answers every request and
  never panics: an invalid scope with an error, otherwise with the frame the mode selects,
  copied field by field, or with no frame when there is none.
\<close>

theorem handler_answers_every_request:
  assumes "video_queue_ok policy st" and "max_frames_per_client policy < 2 ^ 32" and "payloads_fit st"
  shows "\<exists>st' response.
    ServerSwitcherQueuedFrameHandoffHandlerBoundary_handle_request st request = (st', Ok response) \<and>
    (case response of
       HandoffError i e \<Rightarrow> \<not> valid_scope request \<and> e = InvalidScope \<and> st' = st
     | FrameRead i n source retained frame_id h \<Rightarrow> valid_scope request \<and>
         (\<exists>f. selected_frame st (hreq_client_id request) (hreq_run_id request) (request_mode request) = Some f
            \<and> frame_copied h f)
     | NoFrame i c r mode n reason source retained frame_id \<Rightarrow> valid_scope request \<and> st' = st \<and>
         c = hreq_client_id request \<and> r = hreq_run_id request \<and>
         selected_frame st (hreq_client_id request) (hreq_run_id request) (request_mode request) = None)"
  by (rule handle_request_cases [OF assms, of request]) auto

lemma handler_answers_every_request_witness:
  "\<exists>st' response. ServerSwitcherQueuedFrameHandoffHandlerBoundary_handle_request two_frames
     (request_of ''cam-1'' ''run-1'' DequeueOldest) = (st', Ok response)"
  using handler_answers_every_request [OF two_frames_ok _ two_frames_fit, of "request_of ''cam-1'' ''run-1'' DequeueOldest"]
  by (auto simp: ServerVideoFrameQueuePolicy_default_def)

text \<open>
  C31: A frame the handler answers with belongs to the requested client and run, in every read
  mode. Only for the latest decodable frame, which may be a retained keyframe, this needs that
  neither the requested client id nor that of a retained keyframe contains a slash. Queues and
  payloads are below 32 bits.
\<close>

theorem answers_stay_in_scope:
  assumes "video_queue_ok policy st" and "max_frames_per_client policy < 2 ^ 32" and "payloads_fit st"
    and "hreq_read_mode request = InspectLatestDecodable \<longrightarrow>
      slash_free st \<and> CHR ''/'' \<notin> set (hreq_client_id request)"
    and "ServerSwitcherQueuedFrameHandoffHandlerBoundary_handle_request st request
      = (st', Ok (FrameRead i n source retained frame_id h))"
  shows "hf_client_id h = hreq_client_id request \<and> hf_run_id h = hreq_run_id request"
proof -
  have "slash_free st \<and> CHR ''/'' \<notin> set (hreq_client_id request)"
    if "request_mode request = Read_InspectLatestDecodable"
    using that assms(4) by (cases "hreq_read_mode request") (simp_all add: request_mode_def queue_read_mode_from_handoff_def)
  note scope = selected_frame_scope [OF assms(1) this]
  show ?thesis
    by (rule handle_request_cases [OF assms(1-3), of request])
      (use assms(5) scope in \<open>auto simp: frame_copied_def\<close>)
qed

lemma answers_stay_in_scope_witness:
  "\<exists>st' i n source retained frame_id h. ServerSwitcherQueuedFrameHandoffHandlerBoundary_handle_request two_frames
     (request_of ''cam-1'' ''run-1'' InspectLatestDecodable) = (st', Ok (FrameRead i n source retained frame_id h)) \<and>
   hf_client_id h = ''cam-1'' \<and> hf_run_id h = ''run-1''"
proof -
  let ?q = "request_of ''cam-1'' ''run-1'' InspectLatestDecodable"
  have cap: "max_frames_per_client ServerVideoFrameQueuePolicy_default < 2 ^ 32"
    by (simp add: ServerVideoFrameQueuePolicy_default_def)
  have "slash_free two_frames"
    unfolding two_frames_def
    by simp (intro slash_free_store store_packet_ok video_queue_default_ok,
      simp_all add: slash_free_def ServerVideoFrameQueueState_default_def video_packet_def)
  moreover have "case snd (ServerSwitcherQueuedFrameHandoffHandlerBoundary_handle_request two_frames ?q) of
      Inr (FrameRead _ _ _ _ _ _) \<Rightarrow> True | _ \<Rightarrow> False"
    by code_simp
  then obtain st' i n source retained frame_id h where
    "ServerSwitcherQueuedFrameHandoffHandlerBoundary_handle_request two_frames ?q
      = (st', Ok (FrameRead i n source retained frame_id h))"
    by (cases "ServerSwitcherQueuedFrameHandoffHandlerBoundary_handle_request two_frames ?q")
      (auto split: sum.splits HandoffResponse.splits)
  ultimately show ?thesis
    using answers_stay_in_scope [OF two_frames_ok cap two_frames_fit, of ?q st' i n source retained frame_id h]
    by (auto simp: request_of_def)
qed

text \<open>
  With a slash in an id two scopes share a retained keyframe: after client \<open>a\<close> stored a
  keyframe in run \<open>b/c\<close>, a request for client \<open>a/b\<close> and run \<open>c\<close> is
  answered with the frame of client \<open>a\<close>.
\<close>

theorem slash_scopes_collide:
  "\<exists>n source retained frame_id h.
     snd (ServerSwitcherQueuedFrameHandoffHandlerBoundary_handle_request
       (store_packet ServerVideoFrameQueuePolicy_default ServerVideoFrameQueueState_default
         (video_packet ''a'' ''b/c'' 1, 100))
       (request_of ''a/b'' ''c'' InspectLatestDecodable))
     = Ok (FrameRead 7 n source retained frame_id h) \<and> hf_client_id h = ''a'' \<and> hf_run_id h = ''b/c''"
proof -
  have "case snd (ServerSwitcherQueuedFrameHandoffHandlerBoundary_handle_request
       (store_packet ServerVideoFrameQueuePolicy_default ServerVideoFrameQueueState_default
         (video_packet ''a'' ''b/c'' 1, 100)) (request_of ''a/b'' ''c'' InspectLatestDecodable)) of
      Inr (FrameRead i _ _ _ _ h) \<Rightarrow> i = 7 \<and> hf_client_id h = ''a'' \<and> hf_run_id h = ''b/c'' | _ \<Rightarrow> False"
    by code_simp
  then show ?thesis by (auto split: sum.splits HandoffResponse.splits)
qed

text \<open>
  The state after \<open>n\<close> dequeues for a client and run.
\<close>

definition drained :: "ServerVideoFrameQueueState \<Rightarrow> ClientId \<Rightarrow> RunId \<Rightarrow> nat \<Rightarrow> ServerVideoFrameQueueState" where
  "drained st c r n = ((\<lambda>s. fst (ServerVideoFrameQueueReadBoundary_read s
     \<lparr> vqr_client_id = c, vqr_run_id = r, vqr_mode = Read_DequeueOldest \<rparr>)) ^^ n) st"

lemma dequeue_state:
  assumes "video_queue_ok policy st"
  shows "fst (ServerVideoFrameQueueReadBoundary_read st
      \<lparr> vqr_client_id = c, vqr_run_id = r, vqr_mode = Read_DequeueOldest \<rparr>) =
    snd (ServerVideoFrameQueueState_pop_front_for_client_run st c r)"
  by (rule queue_read_cases [OF assms, of "\<lparr> vqr_client_id = c, vqr_run_id = r, vqr_mode = Read_DequeueOldest \<rparr>"])
    (simp_all add: state_after_read_def)

lemma drained_ok:
  assumes "video_queue_ok policy st"
  shows "video_queue_ok policy (drained st c r n) \<and>
    retained_keyframe_by_client_run (drained st c r n) = retained_keyframe_by_client_run st"
proof (induction n)
  case 0
  show ?case using assms by (simp add: drained_def)
next
  case (Suc n)
  obtain f st' where pop: "ServerVideoFrameQueueState_pop_front_for_client_run (drained st c r n) c r = (f, st')"
    by (cases "ServerVideoFrameQueueState_pop_front_for_client_run (drained st c r n) c r")
  have "drained st c r (Suc n) = st'"
    using pop dequeue_state [OF conjunct1 [OF Suc], of c r] by (simp add: drained_def)
  then show ?case
    using Suc pop_front_for_client_run_effect(3,4) [OF conjunct1 [OF Suc] pop] by simp
qed

lemma drained_frames:
  assumes "video_queue_ok policy st"
  shows "ServerVideoFrameQueueState_frames_for_client_run (drained st c r n) c r =
    drop n (ServerVideoFrameQueueState_frames_for_client_run st c r)"
proof (induction n)
  case 0
  show ?case by (simp add: drained_def)
next
  case (Suc n)
  note ok = conjunct1 [OF drained_ok [OF assms, of c r n]]
  obtain f st' where pop: "ServerVideoFrameQueueState_pop_front_for_client_run (drained st c r n) c r = (f, st')"
    by (cases "ServerVideoFrameQueueState_pop_front_for_client_run (drained st c r n) c r")
  have "drained st c r (Suc n) = st'"
    using pop dequeue_state [OF ok, of c r] by (simp add: drained_def)
  then show ?case
    using Suc pop_front_for_client_run_effect(2) [OF ok pop, of c r] by (simp add: drop_Suc tl_drop)
qed

text \<open>A stored frame is the newest of its run.\<close>

lemma newest_in_run:
  assumes "video_queue_ok policy st" and "0 < max_frames_per_client policy"
    and "vf_client_id (srv_frame packet) = c" and "vf_run_id (srv_frame packet) = r"
  shows "\<exists>fs. ServerVideoFrameQueueState_frames_for_client_run (store_packet policy st (packet, t)) c r =
    fs @ [queued_of packet t]"
  using assms
  by (simp add: ServerVideoFrameQueueState_frames_for_client_run_def video_store.contents_store keep_last_def
      queued_of_def)

text \<open>
  C34: A keyframe stored for a client and run, under a policy with room for at least one frame per
  client, stays available to a request for the latest decodable frame after any number of dequeues
  of that run: the read returns that very keyframe, from the queue or from the retained ones.
\<close>

theorem retained_keyframe_survives_dequeues:
  assumes "video_queue_ok policy st" and "0 < max_frames_per_client policy"
    and "vf_is_keyframe (srv_frame packet)"
    and "vf_client_id (srv_frame packet) = c" and "vf_run_id (srv_frame packet) = r"
  shows "\<exists>remaining source retained frame_id. snd (ServerVideoFrameQueueReadBoundary_read
      (drained (store_packet policy st (packet, t)) c r n)
      \<lparr> vqr_client_id = c, vqr_run_id = r, vqr_mode = Read_InspectLatestDecodable \<rparr>) =
    FrameAvailable (queued_of packet t) Read_InspectLatestDecodable remaining source retained frame_id"
proof -
  let ?st = "drained (store_packet policy st (packet, t)) c r n"
  let ?q = "\<lparr> vqr_client_id = c, vqr_run_id = r, vqr_mode = Read_InspectLatestDecodable \<rparr>"
  let ?stored = "ServerVideoFrameQueueState_frames_for_client_run (store_packet policy st (packet, t)) c r"
  note stored_ok = store_packet_ok [OF assms(1), of "(packet, t)"]
  note ok = drained_ok [OF stored_ok, of c r n]
  have "btree_get (retained_keyframe_by_client_run ?st) (client_run_scope_key c r) = Some (queued_of packet t)"
    using ok retained_after_store [OF assms(1), of packet t] assms(2-5)
    by (simp add: frame_scope_key_def)
  then have retained: "ServerVideoFrameQueueState_retained_keyframe_for_client_run ?st c r = Some (queued_of packet t)"
    by (simp add: ServerVideoFrameQueueState_retained_keyframe_for_client_run_def)
  obtain fs where "?stored = fs @ [queued_of packet t]"
    using newest_in_run [OF assms(1,2,4,5)] by blast
  then have frames: "ServerVideoFrameQueueState_frames_for_client_run ?st c r = [] \<or>
      last (ServerVideoFrameQueueState_frames_for_client_run ?st c r) = queued_of packet t"
    using drained_frames [OF stored_ok, of c r n] by (cases "n \<le> length fs") auto
  have selected: "selected_frame ?st c r Read_InspectLatestDecodable = Some (queued_of packet t)"
  proof (cases "ServerVideoFrameQueueState_frames_for_client_run ?st c r" rule: rev_cases)
    case Nil
    with retained show ?thesis by (simp add: selected_frame_def last_of_def)
  next
    case (snoc gs g)
    with frames assms(3) show ?thesis by (simp add: selected_frame_def last_of_def)
  qed
  show ?thesis
    by (rule queue_read_cases [OF conjunct1 [OF ok], of ?q]) (use selected in auto)
qed

lemma retained_keyframe_survives_dequeues_witness:
  "\<exists>remaining source retained frame_id. snd (ServerVideoFrameQueueReadBoundary_read
      (drained (store_packet ServerVideoFrameQueuePolicy_default two_frames
        (video_packet ''cam-1'' ''run-1'' 3, 300)) ''cam-1'' ''run-1'' 3)
      \<lparr> vqr_client_id = ''cam-1'', vqr_run_id = ''run-1'', vqr_mode = Read_InspectLatestDecodable \<rparr>) =
    FrameAvailable (queued_of (video_packet ''cam-1'' ''run-1'' 3) 300) Read_InspectLatestDecodable
      remaining source retained frame_id"
  using retained_keyframe_survives_dequeues [OF two_frames_ok, of "video_packet ''cam-1'' ''run-1'' 3" "''cam-1''" "''run-1''" 300 3]
  by (simp add: ServerVideoFrameQueuePolicy_default_def video_packet_def)

end
