(* ===== verification/Server_Reassembly.thy ===== *)
theory Server_Reassembly
  imports Server_Video_Queue
begin

text \<open>
  The server's reassembly of fragmented video frames (apps/server/src/lib.rs): one entry per
  client, run and frame id collects the chunks, and the frame is queued when the last missing
  chunk arrives.
\<close>

section \<open>Keys\<close>

text \<open>The derived \<open>Ord\<close> of the key compares its fields in the order of their declaration.\<close>

datatype ServerVideoFrameReassemblyKey =
  ReassemblyKey (key_client_id: string) (key_run_id: string) (key_frame_id: u64)

instantiation ServerVideoFrameReassemblyKey :: linorder
begin

definition less_ServerVideoFrameReassemblyKey ::
  "ServerVideoFrameReassemblyKey \<Rightarrow> ServerVideoFrameReassemblyKey \<Rightarrow> bool" where
  "less_ServerVideoFrameReassemblyKey a b \<longleftrightarrow>
     key_client_id a < key_client_id b \<or>
     (key_client_id a = key_client_id b \<and>
       (key_run_id a < key_run_id b \<or>
        (key_run_id a = key_run_id b \<and> key_frame_id a < key_frame_id b)))"

definition less_eq_ServerVideoFrameReassemblyKey ::
  "ServerVideoFrameReassemblyKey \<Rightarrow> ServerVideoFrameReassemblyKey \<Rightarrow> bool" where
  "less_eq_ServerVideoFrameReassemblyKey a b \<longleftrightarrow> a = b \<or> a < b"

instance
proof
  fix a b c :: ServerVideoFrameReassemblyKey
  show "a < b \<longleftrightarrow> a \<le> b \<and> \<not> b \<le> a"
    by (auto simp: less_eq_ServerVideoFrameReassemblyKey_def less_ServerVideoFrameReassemblyKey_def
        dest: order.asym)
  show "a \<le> a" by (simp add: less_eq_ServerVideoFrameReassemblyKey_def)
  show "a \<le> b \<Longrightarrow> b \<le> c \<Longrightarrow> a \<le> c"
    by (auto simp: less_eq_ServerVideoFrameReassemblyKey_def less_ServerVideoFrameReassemblyKey_def)
  show "a \<le> b \<Longrightarrow> b \<le> a \<Longrightarrow> a = b"
    by (auto simp: less_eq_ServerVideoFrameReassemblyKey_def less_ServerVideoFrameReassemblyKey_def
        dest: order.asym)
  show "a \<le> b \<or> b \<le> a"
    by (cases a; cases b) (auto simp: less_eq_ServerVideoFrameReassemblyKey_def
        less_ServerVideoFrameReassemblyKey_def)
qed

end

definition ServerVideoFrameReassemblyKey_from_fragment ::
  "VideoFrameFragment \<Rightarrow> ServerVideoFrameReassemblyKey" where
  "ServerVideoFrameReassemblyKey_from_fragment fragment =
     ReassemblyKey (vff_client_id fragment) (vff_run_id fragment) (vff_frame_id fragment)"

section \<open>State\<close>

record ServerVideoFrameReassemblyFrameState =
  rfs_protocol_version :: ProtocolVersion
  rfs_capture_timestamp :: TimestampMicros
  rfs_is_keyframe :: bool
  rfs_width :: u32
  rfs_height :: u32
  rfs_fps_nominal :: u32
  rfs_total_payload_len :: u32
  rfs_chunk_count :: u32
  rfs_chunks :: "u8 list option list"
  rfs_duplicate_count :: nat

record ServerVideoFrameReassemblyState =
  reassembly_frames :: "(ServerVideoFrameReassemblyKey, ServerVideoFrameReassemblyFrameState) btree_map"

definition ServerVideoFrameReassemblyState_tracked_frame_count ::
  "ServerVideoFrameReassemblyState \<Rightarrow> nat" where
  "ServerVideoFrameReassemblyState_tracked_frame_count st = length (reassembly_frames st)"

definition ServerVideoFrameReassemblyState_contains_frame ::
  "ServerVideoFrameReassemblyState \<Rightarrow> ServerVideoFrameReassemblyKey \<Rightarrow> bool" where
  "ServerVideoFrameReassemblyState_contains_frame st key = btree_contains_key (reassembly_frames st) key"

definition ServerVideoFrameReassemblyFrameState_new ::
  "VideoFrameFragment \<Rightarrow> ServerVideoFrameReassemblyFrameState" where
  "ServerVideoFrameReassemblyFrameState_new fragment =
     \<lparr> rfs_protocol_version = vff_protocol_version fragment,
       rfs_capture_timestamp = vff_capture_timestamp fragment,
       rfs_is_keyframe = vff_is_keyframe fragment, rfs_width = vff_width fragment,
       rfs_height = vff_height fragment, rfs_fps_nominal = vff_fps_nominal fragment,
       rfs_total_payload_len = vff_total_payload_len fragment,
       rfs_chunk_count = vff_chunk_count fragment,
       rfs_chunks = replicate (unat (vff_chunk_count fragment)) None,
       rfs_duplicate_count = 0 \<rparr>"

definition ServerVideoFrameReassemblyFrameState_fragments_received ::
  "ServerVideoFrameReassemblyFrameState \<Rightarrow> nat" where
  "ServerVideoFrameReassemblyFrameState_fragments_received state =
     length (filter (\<lambda>chunk. chunk \<noteq> None) (rfs_chunks state))"

definition ServerVideoFrameReassemblyFrameState_missing_chunks ::
  "ServerVideoFrameReassemblyFrameState \<Rightarrow> u32 list" where
  "ServerVideoFrameReassemblyFrameState_missing_chunks state =
     List.map (\<lambda>(index, _). word_of_nat index)
       (filter (\<lambda>(_, chunk). chunk = None) (enumerate 0 (rfs_chunks state)))"

definition ServerVideoFrameReassemblyFrameState_is_complete ::
  "ServerVideoFrameReassemblyFrameState \<Rightarrow> bool" where
  "ServerVideoFrameReassemblyFrameState_is_complete state \<longleftrightarrow>
     ServerVideoFrameReassemblyFrameState_fragments_received state = unat (rfs_chunk_count state)"

fun append_chunks :: "u8 list \<Rightarrow> u8 list option list \<Rightarrow> u8 list" where
  "append_chunks payload [] = payload"
| "append_chunks payload (None # chunks) = append_chunks payload chunks"
| "append_chunks payload (Some chunk # chunks) = append_chunks (payload @ chunk) chunks"

definition ServerVideoFrameReassemblyFrameState_reassemble_payload ::
  "ServerVideoFrameReassemblyFrameState \<Rightarrow> u8 list" where
  "ServerVideoFrameReassemblyFrameState_reassemble_payload state = append_chunks [] (rfs_chunks state)"

record ServerVideoFrameReassemblyFrameProgress =
  rfp_key :: ServerVideoFrameReassemblyKey
  rfp_fragments_received :: nat
  rfp_fragments_expected :: nat
  rfp_fragments_missing :: nat

definition ServerVideoFrameReassemblyState_frame_progress ::
  "ServerVideoFrameReassemblyState \<Rightarrow> ServerVideoFrameReassemblyFrameProgress list" where
  "ServerVideoFrameReassemblyState_frame_progress st =
     List.map (\<lambda>(key, state).
         \<lparr> rfp_key = key,
           rfp_fragments_received = ServerVideoFrameReassemblyFrameState_fragments_received state,
           rfp_fragments_expected = unat (rfs_chunk_count state),
           rfp_fragments_missing =
             length (ServerVideoFrameReassemblyFrameState_missing_chunks state) \<rparr>)
       (reassembly_frames st)"

section \<open>Applying a fragment\<close>

datatype ServerVideoFrameFragmentRejectReason =
    ChunkCountZero
  | ChunkIndexOutOfRange
  | ChunkPayloadLenMismatch
  | MetadataMismatch
  | ReassembledPayloadLenMismatch

record ServerVideoFrameReassemblySummary =
  rsum_key :: ServerVideoFrameReassemblyKey
  rsum_fragments_received :: nat
  rsum_fragments_missing :: "u32 list"
  rsum_completed_frame_queued :: bool
  rsum_rejected_fragment_reason :: "ServerVideoFrameFragmentRejectReason option"
  rsum_duplicate_count :: nat

datatype ServerVideoFrameReassemblyApplyResult =
    FragmentStored ServerVideoFrameReassemblySummary
  | DuplicateFragmentIgnored ServerVideoFrameReassemblySummary
  | RejectedFragment ServerVideoFrameReassemblySummary
  | FrameComplete ServerVideoFrameReassemblySummary VideoFrame ServerVideoFrameQueueStorageResult

definition validate_fragment_shape ::
  "VideoFrameFragment \<Rightarrow> ServerVideoFrameFragmentRejectReason option" where
  "validate_fragment_shape fragment =
     (if vff_chunk_count fragment = 0 then Some ChunkCountZero
      else if vff_chunk_count fragment \<le> vff_chunk_index fragment then Some ChunkIndexOutOfRange
      else if vff_chunk_payload_len fragment \<noteq> length (vff_chunk_payload fragment)
      then Some ChunkPayloadLenMismatch
      else None)"

definition metadata_matches ::
  "ServerVideoFrameReassemblyFrameState \<Rightarrow> VideoFrameFragment \<Rightarrow> bool" where
  "metadata_matches state fragment \<longleftrightarrow>
     rfs_protocol_version state = vff_protocol_version fragment \<and>
     rfs_capture_timestamp state = vff_capture_timestamp fragment \<and>
     rfs_is_keyframe state = vff_is_keyframe fragment \<and>
     rfs_width state = vff_width fragment \<and>
     rfs_height state = vff_height fragment \<and>
     rfs_fps_nominal state = vff_fps_nominal fragment \<and>
     rfs_total_payload_len state = vff_total_payload_len fragment \<and>
     rfs_chunk_count state = vff_chunk_count fragment"

definition rejected_fragment_summary ::
  "ServerVideoFrameReassemblyKey \<Rightarrow> ServerVideoFrameFragmentRejectReason \<Rightarrow>
     ServerVideoFrameReassemblySummary" where
  "rejected_fragment_summary key reason =
     \<lparr> rsum_key = key, rsum_fragments_received = 0, rsum_fragments_missing = [],
       rsum_completed_frame_queued = False, rsum_rejected_fragment_reason = Some reason,
       rsum_duplicate_count = 0 \<rparr>"

definition summary_for_state ::
  "ServerVideoFrameReassemblyKey \<Rightarrow> ServerVideoFrameReassemblyFrameState \<Rightarrow> bool \<Rightarrow>
     ServerVideoFrameFragmentRejectReason option \<Rightarrow> ServerVideoFrameReassemblySummary" where
  "summary_for_state key state completed_frame_queued rejected_fragment_reason =
     \<lparr> rsum_key = key,
       rsum_fragments_received = ServerVideoFrameReassemblyFrameState_fragments_received state,
       rsum_fragments_missing = ServerVideoFrameReassemblyFrameState_missing_chunks state,
       rsum_completed_frame_queued = completed_frame_queued,
       rsum_rejected_fragment_reason = rejected_fragment_reason,
       rsum_duplicate_count = rfs_duplicate_count state \<rparr>"

text \<open>
  The index of a chunk is checked against the fragment's own chunk count; the vector's bound
  is checked where the code indexes it, and a violation is a panic.
\<close>

definition ServerVideoFrameFragmentReassemblyBoundary_apply_fragment_and_queue_if_complete ::
  "ServerVideoFrameReassemblyState \<Rightarrow> ServerVideoFrameQueueState \<Rightarrow>
     ServerRegisteredVideoFrameFragmentPacket \<Rightarrow> TimestampMicros \<Rightarrow> ServerVideoFrameQueuePolicy \<Rightarrow>
     ServerVideoFrameReassemblyState \<times> ServerVideoFrameQueueState \<times>
     (ServerVideoFrameReassemblyApplyResult, unit) result" where
  "ServerVideoFrameFragmentReassemblyBoundary_apply_fragment_and_queue_if_complete
       reassembly_state queue_state packet queued_at policy =
     (let fragment = srf_fragment packet;
          key = ServerVideoFrameReassemblyKey_from_fragment fragment in
      case validate_fragment_shape fragment of
        Some reason \<Rightarrow>
          (reassembly_state, queue_state, Ok (RejectedFragment (rejected_fragment_summary key reason)))
      | None \<Rightarrow>
          let frame_state = (case btree_get (reassembly_frames reassembly_state) key of
                  Some state \<Rightarrow> state
                | None \<Rightarrow> ServerVideoFrameReassemblyFrameState_new fragment);
              store = (\<lambda>state. reassembly_state
                \<lparr> reassembly_frames := btree_insert key state (reassembly_frames reassembly_state) \<rparr>) in
          if \<not> metadata_matches frame_state fragment
          then (store frame_state, queue_state,
                Ok (RejectedFragment (summary_for_state key frame_state False (Some MetadataMismatch))))
          else
            let chunk_index = unat (vff_chunk_index fragment) in
            if length (rfs_chunks frame_state) \<le> chunk_index
            then (store frame_state, queue_state, Panicked)
            else if rfs_chunks frame_state ! chunk_index \<noteq> None
            then
              let frame_state = frame_state
                    \<lparr> rfs_duplicate_count := rfs_duplicate_count frame_state + 1 \<rparr> in
              (store frame_state, queue_state,
               Ok (DuplicateFragmentIgnored (summary_for_state key frame_state False None)))
            else
              let frame_state = frame_state
                    \<lparr> rfs_chunks := (rfs_chunks frame_state)
                        [chunk_index := Some (vff_chunk_payload fragment)] \<rparr> in
              if \<not> ServerVideoFrameReassemblyFrameState_is_complete frame_state
              then (store frame_state, queue_state,
                    Ok (FragmentStored (summary_for_state key frame_state False None)))
              else
                let payload = ServerVideoFrameReassemblyFrameState_reassemble_payload frame_state in
                if length payload \<noteq> unat (rfs_total_payload_len frame_state)
                then (store frame_state, queue_state,
                      Ok (RejectedFragment (summary_for_state key frame_state False
                        (Some ReassembledPayloadLenMismatch))))
                else
                  let frame = \<lparr> vf_message_type = MessageType_VideoFrame,
                        vf_protocol_version = rfs_protocol_version frame_state,
                        vf_client_id = vff_client_id fragment, vf_run_id = vff_run_id fragment,
                        vf_frame_id = vff_frame_id fragment,
                        vf_capture_timestamp = rfs_capture_timestamp frame_state,
                        vf_send_timestamp = rfs_capture_timestamp frame_state,
                        vf_is_keyframe = rfs_is_keyframe frame_state,
                        vf_metadata_reserved = (0, 0, 0),
                        vf_width = rfs_width frame_state, vf_height = rfs_height frame_state,
                        vf_fps_nominal = rfs_fps_nominal frame_state, vf_codec = H264,
                        vf_payload_size = length payload, vf_payload = payload \<rparr>;
                      handler_input = \<lparr> vhi_registered_packet =
                          \<lparr> srv_source = srf_source packet,
                            srv_authenticated_sender = srf_authenticated_sender packet,
                            srv_frame = frame \<rparr>,
                        vhi_payload_len = length (vf_payload frame) \<rparr>;
                      (queue_state, queue_result) =
                        ServerVideoFrameQueueStorageBoundary_store_frame queue_state handler_input
                          queued_at policy in
                  (reassembly_state \<lparr> reassembly_frames :=
                       btree_remove key (btree_insert key frame_state (reassembly_frames reassembly_state)) \<rparr>,
                   queue_state,
                   Ok (FrameComplete (summary_for_state key frame_state True None) frame queue_result)))"

abbreviation apply_fragment ::
  "ServerVideoFrameReassemblyState \<Rightarrow> ServerVideoFrameQueueState \<Rightarrow>
     ServerRegisteredVideoFrameFragmentPacket \<Rightarrow> TimestampMicros \<Rightarrow> ServerVideoFrameQueuePolicy \<Rightarrow>
     ServerVideoFrameReassemblyState \<times> ServerVideoFrameQueueState \<times>
     (ServerVideoFrameReassemblyApplyResult, unit) result" where
  "apply_fragment \<equiv>
     ServerVideoFrameFragmentReassemblyBoundary_apply_fragment_and_queue_if_complete"

abbreviation key_of :: "ServerRegisteredVideoFrameFragmentPacket \<Rightarrow> ServerVideoFrameReassemblyKey" where
  "key_of packet \<equiv> ServerVideoFrameReassemblyKey_from_fragment (srf_fragment packet)"

section \<open>The invariant\<close>

definition frame_state_ok :: "ServerVideoFrameReassemblyFrameState \<Rightarrow> bool" where
  "frame_state_ok s \<longleftrightarrow> length (rfs_chunks s) = unat (rfs_chunk_count s)"

definition reassembly_ok :: "ServerVideoFrameReassemblyState \<Rightarrow> bool" where
  "reassembly_ok st \<longleftrightarrow> btree_inv (reassembly_frames st) \<and>
     (\<forall>k s. btree_get (reassembly_frames st) k = Some s \<longrightarrow> frame_state_ok s)"

lemma frame_state_ok_intros [simp]:
  "frame_state_ok (ServerVideoFrameReassemblyFrameState_new f)"
  "frame_state_ok s \<Longrightarrow> frame_state_ok (s \<lparr> rfs_duplicate_count := d \<rparr>)"
  "frame_state_ok s \<Longrightarrow> frame_state_ok (s \<lparr> rfs_chunks := (rfs_chunks s)[i := c] \<rparr>)"
  by (simp_all add: frame_state_ok_def ServerVideoFrameReassemblyFrameState_new_def)

lemma length_filter_all: "length (filter P xs) = length xs \<longleftrightarrow> (\<forall>x \<in> set xs. P x)"
proof (induction xs)
  case (Cons x xs)
  have "length (filter P xs) \<noteq> Suc (length xs)" using length_filter_le [of P xs] by linarith
  with Cons show ?case by simp
qed simp

lemma is_complete_iff:
  "frame_state_ok s \<Longrightarrow>
     ServerVideoFrameReassemblyFrameState_is_complete s \<longleftrightarrow> None \<notin> set (rfs_chunks s)"
  using length_filter_all [of "\<lambda>chunk. chunk \<noteq> None" "rfs_chunks s"]
  unfolding frame_state_ok_def ServerVideoFrameReassemblyFrameState_is_complete_def
    ServerVideoFrameReassemblyFrameState_fragments_received_def by metis

lemma append_chunks_all: "append_chunks payload (List.map Some chunks) = payload @ concat chunks"
  by (induction chunks arbitrary: payload) simp_all

text \<open>
  The outcomes of one fragment. \<open>entry\<close> is the frame's state before it, fresh when there
  is none.
\<close>

definition entry_for ::
  "ServerVideoFrameReassemblyState \<Rightarrow> VideoFrameFragment \<Rightarrow> ServerVideoFrameReassemblyFrameState" where
  "entry_for st f =
     (case btree_get (reassembly_frames st) (ServerVideoFrameReassemblyKey_from_fragment f) of
        Some s \<Rightarrow> s | None \<Rightarrow> ServerVideoFrameReassemblyFrameState_new f)"

definition with_entry ::
  "ServerVideoFrameReassemblyState \<Rightarrow> ServerVideoFrameReassemblyKey \<Rightarrow>
     ServerVideoFrameReassemblyFrameState \<Rightarrow> ServerVideoFrameReassemblyState" where
  "with_entry st k s = st \<lparr> reassembly_frames := btree_insert k s (reassembly_frames st) \<rparr>"

definition completed_frame :: "ServerVideoFrameReassemblyFrameState \<Rightarrow> VideoFrameFragment \<Rightarrow> u8 list \<Rightarrow> VideoFrame" where
  "completed_frame s f payload =
     \<lparr> vf_message_type = MessageType_VideoFrame, vf_protocol_version = rfs_protocol_version s,
       vf_client_id = vff_client_id f, vf_run_id = vff_run_id f, vf_frame_id = vff_frame_id f,
       vf_capture_timestamp = rfs_capture_timestamp s, vf_send_timestamp = rfs_capture_timestamp s,
       vf_is_keyframe = rfs_is_keyframe s, vf_metadata_reserved = (0, 0, 0),
       vf_width = rfs_width s, vf_height = rfs_height s, vf_fps_nominal = rfs_fps_nominal s,
       vf_codec = H264, vf_payload_size = length payload, vf_payload = payload \<rparr>"

definition completed_packet ::
  "ServerRegisteredVideoFrameFragmentPacket \<Rightarrow> VideoFrame \<Rightarrow> ServerRegisteredVideoFramePacket" where
  "completed_packet packet frame =
     \<lparr> srv_source = srf_source packet, srv_authenticated_sender = srf_authenticated_sender packet,
       srv_frame = frame \<rparr>"

lemma entry_for_ok: "reassembly_ok st \<Longrightarrow> frame_state_ok (entry_for st f)"
  by (simp add: reassembly_ok_def entry_for_def split: option.split)

lemma apply_fragment_cases:
  fixes st q packet t policy
  defines "f \<equiv> srf_fragment packet" and "k \<equiv> key_of packet"
  defines "e \<equiv> entry_for st f"
  defines "i \<equiv> unat (vff_chunk_index f)"
  defines "e' \<equiv> e \<lparr> rfs_chunks := (rfs_chunks e)[i := Some (vff_chunk_payload f)] \<rparr>"
  defines "payload \<equiv> ServerVideoFrameReassemblyFrameState_reassemble_payload e'"
  assumes ok: "reassembly_ok st"
  obtains (invalid) reason where "validate_fragment_shape f = Some reason"
      "apply_fragment st q packet t policy =
         (st, q, Ok (RejectedFragment (rejected_fragment_summary k reason)))"
  | (mismatch) "validate_fragment_shape f = None" "\<not> metadata_matches e f"
      "apply_fragment st q packet t policy = (with_entry st k e, q,
         Ok (RejectedFragment (summary_for_state k e False (Some MetadataMismatch))))"
  | (duplicate) d where "validate_fragment_shape f = None" "metadata_matches e f" "i < length (rfs_chunks e)"
      "rfs_chunks e ! i \<noteq> None" "d = e \<lparr> rfs_duplicate_count := rfs_duplicate_count e + 1 \<rparr>"
      "apply_fragment st q packet t policy = (with_entry st k d, q,
         Ok (DuplicateFragmentIgnored (summary_for_state k d False None)))"
  | (stored) "validate_fragment_shape f = None" "metadata_matches e f" "i < length (rfs_chunks e)"
      "rfs_chunks e ! i = None" "None \<in> set (rfs_chunks e')"
      "apply_fragment st q packet t policy = (with_entry st k e', q,
         Ok (FragmentStored (summary_for_state k e' False None)))"
  | (len_mismatch) "validate_fragment_shape f = None" "metadata_matches e f" "i < length (rfs_chunks e)"
      "rfs_chunks e ! i = None" "None \<notin> set (rfs_chunks e')"
      "length payload \<noteq> unat (rfs_total_payload_len e)"
      "apply_fragment st q packet t policy = (with_entry st k e', q,
         Ok (RejectedFragment (summary_for_state k e' False (Some ReassembledPayloadLenMismatch))))"
  | (complete) qr where "validate_fragment_shape f = None" "metadata_matches e f" "i < length (rfs_chunks e)"
      "rfs_chunks e ! i = None" "None \<notin> set (rfs_chunks e')"
      "length payload = unat (rfs_total_payload_len e)"
      "apply_fragment st q packet t policy =
         (st \<lparr> reassembly_frames := btree_remove k (btree_insert k e' (reassembly_frames st)) \<rparr>,
          store_packet policy q (completed_packet packet (completed_frame e f payload), t),
          Ok (FrameComplete (summary_for_state k e' True None) (completed_frame e f payload) qr))"
proof (cases "validate_fragment_shape f")
  case (Some reason)
  then show thesis
    by (intro invalid [of reason])
      (simp_all add: ServerVideoFrameFragmentReassemblyBoundary_apply_fragment_and_queue_if_complete_def
        f_def k_def)
next
  case None
  have e_ok: "frame_state_ok e" unfolding e_def by (rule entry_for_ok [OF ok])
  then have e'_ok: "frame_state_ok e'" by (simp add: e'_def)
  have bound: "i < length (rfs_chunks e)" if "metadata_matches e f"
    using None that e_ok by (auto simp: validate_fragment_shape_def metadata_matches_def
        frame_state_ok_def i_def word_less_nat_alt not_le split: if_splits)
  have entry: "(case btree_get (reassembly_frames st) k of None \<Rightarrow> ServerVideoFrameReassemblyFrameState_new f
      | Some s \<Rightarrow> s) = e"
    by (simp add: e_def entry_for_def k_def f_def cong: option.case_cong)
  have kf: "ServerVideoFrameReassemblyKey_from_fragment f = k" by (simp add: k_def f_def)
  have completeness: "ServerVideoFrameReassemblyFrameState_is_complete e' \<longleftrightarrow> None \<notin> set (rfs_chunks e')"
    by (rule is_complete_iff [OF e'_ok])
  note unfolded = ServerVideoFrameFragmentReassemblyBoundary_apply_fragment_and_queue_if_complete_def
    Let_def f_def [symmetric] None option.case kf entry i_def [symmetric] e'_def [symmetric]
  show thesis
  proof (cases "metadata_matches e f")
    case False
    with None show thesis
      by (intro mismatch) (simp_all add: unfolded with_entry_def)
  next
    case True
    note i = bound [OF True]
    show thesis
    proof (cases "rfs_chunks e ! i")
      case (Some c)
      with None True i show thesis
        by (intro duplicate) (simp_all add: unfolded with_entry_def)
    next
      case free: None
      note unfolded' = unfolded completeness payload_def [symmetric]
      note known = None True i free
      have total: "rfs_total_payload_len e' = rfs_total_payload_len e"
        "rfs_protocol_version e' = rfs_protocol_version e" "rfs_is_keyframe e' = rfs_is_keyframe e"
        "rfs_capture_timestamp e' = rfs_capture_timestamp e" "rfs_width e' = rfs_width e"
        "rfs_height e' = rfs_height e" "rfs_fps_nominal e' = rfs_fps_nominal e"
        by (simp_all add: e'_def)
      show thesis
      proof (cases "None \<in> set (rfs_chunks e')")
        case True
        with known show thesis
          by (intro stored) (simp_all add: unfolded' with_entry_def)
      next
        case False
        show thesis
        proof (cases "length payload = unat (rfs_total_payload_len e)")
          case True
          with False known show thesis
            by (intro complete [of "snd (ServerVideoFrameQueueStorageBoundary_store_frame q
                (ServerVideoFrameHandlerBoundary_prepare_input
                  (completed_packet packet (completed_frame e f payload))) t policy)"])
              (simp_all add: unfolded' total case_prod_unfold store_packet_def completed_packet_def
                completed_frame_def ServerVideoFrameHandlerBoundary_prepare_input_def)
        next
          case False
          with \<open>None \<notin> set (rfs_chunks e')\<close> known show thesis
            by (intro len_mismatch) (simp_all add: unfolded' total with_entry_def)
        qed
      qed
    qed
  qed
qed

section \<open>What a fragment can change\<close>

lemma with_entry_simps:
  assumes "reassembly_ok st"
  shows "btree_get (reassembly_frames (with_entry st k s)) j =
      (if j = k then Some s else btree_get (reassembly_frames st) j)"
    and "frame_state_ok s \<Longrightarrow> reassembly_ok (with_entry st k s)"
    and "btree_get (btree_remove k (btree_insert k s (reassembly_frames st))) j =
      (if j = k then None else btree_get (reassembly_frames st) j)"
    and "reassembly_ok (st \<lparr> reassembly_frames := btree_remove k (btree_insert k s (reassembly_frames st)) \<rparr>)"
  using assms by (auto simp: with_entry_def reassembly_ok_def btree.lookup_insert btree.lookup_remove
      btree.inv_insert btree.inv_remove)

lemma apply_fragment_ok:
  "reassembly_ok st \<Longrightarrow> reassembly_ok (fst (apply_fragment st q packet t policy))"
  by (rule apply_fragment_cases [of st packet q t policy])
    (simp_all add: with_entry_simps entry_for_ok)

lemma apply_fragment_no_panic:
  "reassembly_ok st \<Longrightarrow> snd (snd (apply_fragment st q packet t policy)) \<noteq> Panicked"
  by (rule apply_fragment_cases [of st packet q t policy]) simp_all

text \<open>Fragments of one frame never touch the entry of another.\<close>

lemma apply_fragment_other:
  "reassembly_ok st \<Longrightarrow> k \<noteq> key_of packet \<Longrightarrow>
     btree_get (reassembly_frames (fst (apply_fragment st q packet t policy))) k =
       btree_get (reassembly_frames st) k"
  by (rule apply_fragment_cases [of st packet q t policy]) (simp_all add: with_entry_simps)

text \<open>The queue only changes with a completed frame, whose payload has the announced length.\<close>

lemma apply_fragment_queue:
  assumes ok: "reassembly_ok st" and "apply_fragment st q packet t policy = (st', q', Ok r)"
  shows "(\<forall>s frame qr. r \<noteq> FrameComplete s frame qr) \<longrightarrow> q' = q"
    and "r = FrameComplete s frame qr \<Longrightarrow>
      q' = store_packet policy q (completed_packet packet frame, t) \<and>
      vf_client_id frame = vff_client_id (srf_fragment packet) \<and>
      vf_run_id frame = vff_run_id (srf_fragment packet) \<and>
      vf_frame_id frame = vff_frame_id (srf_fragment packet) \<and>
      length (vf_payload frame) = unat (vff_total_payload_len (srf_fragment packet)) \<and>
      vf_payload_size frame = length (vf_payload frame) \<and>
      btree_get (reassembly_frames st') (key_of packet) = None"
  using assms(2)
  by (cases rule: apply_fragment_cases [of st packet q t policy, OF ok];
      auto simp: completed_frame_def with_entry_simps [OF ok] metadata_matches_def)+

section \<open>The chunks of one frame\<close>

text \<open>
  A frame cut into \<open>chunks\<close> travels as the fragments \<open>fragment_of m chunks i\<close>, which
  share the metadata of \<open>m\<close>. While it is incomplete, its entry holds the chunks that have
  arrived.
\<close>

definition fragment_of :: "VideoFrameFragment \<Rightarrow> u8 list list \<Rightarrow> nat \<Rightarrow> VideoFrameFragment" where
  "fragment_of m chunks i = m
     \<lparr> vff_total_payload_len := word_of_nat (length (concat chunks)),
       vff_chunk_index := word_of_nat i, vff_chunk_count := word_of_nat (length chunks),
       vff_chunk_payload_len := length (chunks ! i), vff_chunk_payload := chunks ! i \<rparr>"

definition partial_entry ::
  "VideoFrameFragment \<Rightarrow> u8 list list \<Rightarrow> nat set \<Rightarrow> nat \<Rightarrow> ServerVideoFrameReassemblyFrameState" where
  "partial_entry m chunks arrived d =
     (ServerVideoFrameReassemblyFrameState_new (fragment_of m chunks 0))
       \<lparr> rfs_chunks := List.map (\<lambda>j. if j \<in> arrived then Some (chunks ! j) else None) [0..<length chunks],
         rfs_duplicate_count := d \<rparr>"

definition collects ::
  "ServerVideoFrameReassemblyState \<Rightarrow> VideoFrameFragment \<Rightarrow> u8 list list \<Rightarrow> nat set \<Rightarrow> bool" where
  "collects st m chunks arrived \<longleftrightarrow>
     (case btree_get (reassembly_frames st) (ServerVideoFrameReassemblyKey_from_fragment m) of
        None \<Rightarrow> arrived = {}
      | Some s \<Rightarrow> \<exists>d. s = partial_entry m chunks arrived d)"

definition sendable :: "u8 list list \<Rightarrow> bool" where
  "sendable chunks \<longleftrightarrow> length chunks < 2 ^ 32 \<and> length (concat chunks) < 2 ^ 32"

lemma key_fragment_of [simp]:
  "ServerVideoFrameReassemblyKey_from_fragment (fragment_of m chunks i) =
     ServerVideoFrameReassemblyKey_from_fragment m"
  by (simp add: ServerVideoFrameReassemblyKey_from_fragment_def fragment_of_def)

lemma fragment_of_shape:
  assumes "sendable chunks" and "i < length chunks"
  shows "validate_fragment_shape (fragment_of m chunks i) = None"
    and "metadata_matches (partial_entry m chunks arrived d) (fragment_of m chunks i)"
    and "unat (vff_chunk_index (fragment_of m chunks i)) = i"
    and "rfs_chunks (partial_entry m chunks arrived d) ! i =
      (if i \<in> arrived then Some (chunks ! i) else None)"
    and "length (rfs_chunks (partial_entry m chunks arrived d)) = length chunks"
  using assms
  by (auto simp: validate_fragment_shape_def fragment_of_def sendable_def metadata_matches_def
      partial_entry_def ServerVideoFrameReassemblyFrameState_new_def unat_u32_of_nat word_le_nat_alt
      word_unat_eq_iff)

lemma new_is_partial:
  "sendable chunks \<Longrightarrow>
     ServerVideoFrameReassemblyFrameState_new (fragment_of m chunks i) = partial_entry m chunks {} 0"
  by (simp add: ServerVideoFrameReassemblyFrameState_new_def partial_entry_def fragment_of_def
      sendable_def unat_u32_of_nat map_replicate_const)

lemma entry_collects:
  "collects st m chunks arrived \<Longrightarrow> sendable chunks \<Longrightarrow>
     \<exists>d. entry_for st (fragment_of m chunks i) = partial_entry m chunks arrived d"
  by (auto simp: collects_def entry_for_def new_is_partial split: option.splits)

lemma chunk_update:
  "(List.map (\<lambda>j. if j \<in> arrived then Some (chunks ! j) else None) [0..<n])[i := Some (chunks ! i)] =
     List.map (\<lambda>j. if j = i \<or> j \<in> arrived then Some (chunks ! j) else None) [0..<n]"
proof (rule nth_equalityI)
  fix k
  assume "k < length ((List.map (\<lambda>j. if j \<in> arrived then Some (chunks ! j) else None) [0..<n])[i := Some (chunks ! i)])"
  then show "(List.map (\<lambda>j. if j \<in> arrived then Some (chunks ! j) else None) [0..<n])[i := Some (chunks ! i)] ! k =
      List.map (\<lambda>j. if j = i \<or> j \<in> arrived then Some (chunks ! j) else None) [0..<n] ! k"
    by (cases "k = i") simp_all
qed simp

lemma partial_entry_insert:
  "i < length chunks \<Longrightarrow>
     (partial_entry m chunks arrived d) \<lparr> rfs_chunks :=
        (rfs_chunks (partial_entry m chunks arrived d))[i := Some (chunks ! i)] \<rparr> =
     partial_entry m chunks (insert i arrived) d"
  by (simp add: partial_entry_def chunk_update)

lemma partial_entry_full:
  "None \<in> set (rfs_chunks (partial_entry m chunks arrived d)) \<longleftrightarrow> \<not> {..<length chunks} \<subseteq> arrived"
  by (auto simp: partial_entry_def split: if_splits)

lemma partial_entry_payload:
  assumes "{..<length chunks} \<subseteq> arrived"
  shows "ServerVideoFrameReassemblyFrameState_reassemble_payload (partial_entry m chunks arrived d) = concat chunks"
proof -
  have "List.map (\<lambda>j. if j \<in> arrived then Some (chunks ! j) else None) [0..<length chunks] =
      List.map Some (List.map (\<lambda>j. chunks ! j) [0..<length chunks])"
    using assms by auto
  then show ?thesis
    by (simp add: ServerVideoFrameReassemblyFrameState_reassemble_payload_def partial_entry_def
        append_chunks_all map_nth del: List.map_map)
qed

text \<open>A chunk that leaves the frame incomplete is remembered; a repeated one changes nothing.\<close>

lemma apply_chunk:
  assumes ok: "reassembly_ok st" and cs: "sendable chunks" and i: "i < length chunks"
    and f: "srf_fragment packet = fragment_of m chunks i" and c: "collects st m chunks arrived"
    and more: "\<not> {..<length chunks} \<subseteq> insert i arrived"
  shows "collects (fst (apply_fragment st q packet t policy)) m chunks (insert i arrived)"
    and "fst (snd (apply_fragment st q packet t policy)) = q"
proof -
  obtain d where e: "entry_for st (fragment_of m chunks i) = partial_entry m chunks arrived d"
    using entry_collects [OF c cs] by blast
  have keep: "i \<in> arrived \<Longrightarrow> insert i arrived = arrived" by auto
  have dup: "partial_entry m chunks arrived d \<lparr> rfs_duplicate_count := n \<rparr> = partial_entry m chunks arrived n" for n
    by (simp add: partial_entry_def)
  have pay: "vff_chunk_payload (fragment_of m chunks i) = chunks ! i" by (simp add: fragment_of_def)
  note facts = e f pay dup fragment_of_shape [OF cs i] partial_entry_insert [OF i] partial_entry_full more
  show "collects (fst (apply_fragment st q packet t policy)) m chunks (insert i arrived)"
    by (cases rule: apply_fragment_cases [of st packet q t policy, OF ok])
      (auto simp: facts collects_def with_entry_simps [OF ok] keep split: if_splits)
  show "fst (snd (apply_fragment st q packet t policy)) = q"
    by (cases rule: apply_fragment_cases [of st packet q t policy, OF ok])
      (auto simp: facts split: if_splits)
qed

text \<open>The last missing chunk completes the frame with the chunks in their order.\<close>

definition frame_of_chunks :: "VideoFrameFragment \<Rightarrow> u8 list list \<Rightarrow> VideoFrame" where
  "frame_of_chunks m chunks =
     \<lparr> vf_message_type = MessageType_VideoFrame, vf_protocol_version = vff_protocol_version m,
       vf_client_id = vff_client_id m, vf_run_id = vff_run_id m, vf_frame_id = vff_frame_id m,
       vf_capture_timestamp = vff_capture_timestamp m, vf_send_timestamp = vff_capture_timestamp m,
       vf_is_keyframe = vff_is_keyframe m, vf_metadata_reserved = (0, 0, 0),
       vf_width = vff_width m, vf_height = vff_height m, vf_fps_nominal = vff_fps_nominal m,
       vf_codec = H264, vf_payload_size = length (concat chunks), vf_payload = concat chunks \<rparr>"

lemma completed_frame_of_chunks:
  "completed_frame (partial_entry m chunks arrived d) (fragment_of m chunks i) (concat chunks) =
     frame_of_chunks m chunks"
  by (simp add: completed_frame_def frame_of_chunks_def partial_entry_def fragment_of_def
      ServerVideoFrameReassemblyFrameState_new_def)

lemma apply_last_chunk:
  assumes ok: "reassembly_ok st" and cs: "sendable chunks" and i: "i < length chunks"
    and f: "srf_fragment packet = fragment_of m chunks i" and c: "collects st m chunks arrived"
    and new: "i \<notin> arrived" and full: "{..<length chunks} \<subseteq> insert i arrived"
  obtains s qr where "snd (snd (apply_fragment st q packet t policy)) =
      Ok (FrameComplete s (frame_of_chunks m chunks) qr)"
    and "fst (snd (apply_fragment st q packet t policy)) =
      store_packet policy q (completed_packet packet (frame_of_chunks m chunks), t)"
    and "btree_get (reassembly_frames (fst (apply_fragment st q packet t policy)))
      (ServerVideoFrameReassemblyKey_from_fragment m) = None"
proof -
  obtain d where e: "entry_for st (fragment_of m chunks i) = partial_entry m chunks arrived d"
    using entry_collects [OF c cs] by blast
  have pay: "vff_chunk_payload (fragment_of m chunks i) = chunks ! i" by (simp add: fragment_of_def)
  have total: "unat (rfs_total_payload_len (partial_entry m chunks arrived d)) = length (concat chunks)"
    using cs by (simp add: partial_entry_def ServerVideoFrameReassemblyFrameState_new_def fragment_of_def
        sendable_def unat_u32_of_nat del: length_concat)
  note facts = e f pay new total fragment_of_shape [OF cs i] partial_entry_insert [OF i]
    partial_entry_full full partial_entry_payload [OF full] completed_frame_of_chunks
  show thesis
    by (cases rule: apply_fragment_cases [of st packet q t policy, OF ok])
      (auto simp: facts with_entry_simps [OF ok] intro!: that simp del: length_concat)
qed

section \<open>Any order of arrival\<close>

definition apply_step ::
  "ServerVideoFrameQueuePolicy \<Rightarrow> ServerVideoFrameReassemblyState \<times> ServerVideoFrameQueueState \<Rightarrow>
     ServerRegisteredVideoFrameFragmentPacket \<times> TimestampMicros \<Rightarrow>
     ServerVideoFrameReassemblyState \<times> ServerVideoFrameQueueState" where
  "apply_step policy s i =
     (case apply_fragment (fst s) (snd s) (fst i) (snd i) policy of (st, q, _) \<Rightarrow> (st, q))"

abbreviation apply_all ::
  "ServerVideoFrameQueuePolicy \<Rightarrow> ServerVideoFrameReassemblyState \<times> ServerVideoFrameQueueState \<Rightarrow>
     (ServerRegisteredVideoFrameFragmentPacket \<times> TimestampMicros) list \<Rightarrow>
     ServerVideoFrameReassemblyState \<times> ServerVideoFrameQueueState" where
  "apply_all policy \<equiv> foldl (apply_step policy)"

lemma apply_step_simps:
  "fst (apply_step policy (st, q) i) = fst (apply_fragment st q (fst i) (snd i) policy)"
  "snd (apply_step policy (st, q) i) = fst (snd (apply_fragment st q (fst i) (snd i) policy))"
  by (simp_all add: apply_step_def case_prod_unfold)

lemma apply_all_ok: "reassembly_ok (fst s) \<Longrightarrow> reassembly_ok (fst (apply_all policy s inputs))"
  by (induction inputs arbitrary: s) (simp_all add: apply_step_def case_prod_unfold apply_fragment_ok)

text \<open>The chunks of \<open>m\<close> that a sequence of packets carries.\<close>

definition carried ::
  "VideoFrameFragment \<Rightarrow> (ServerRegisteredVideoFrameFragmentPacket \<times> TimestampMicros) list \<Rightarrow> nat set" where
  "carried m inputs =
     (\<lambda>i. unat (vff_chunk_index (srf_fragment (fst i)))) `
       {i \<in> set inputs. key_of (fst i) = ServerVideoFrameReassemblyKey_from_fragment m}"

text \<open>
  Every packet with the frame's key is one of its fragments: what an authenticated sender that
  cuts each frame once sends. Packets of other frames are arbitrary.
\<close>

definition genuine ::
  "VideoFrameFragment \<Rightarrow> u8 list list \<Rightarrow>
     (ServerRegisteredVideoFrameFragmentPacket \<times> TimestampMicros) list \<Rightarrow> bool" where
  "genuine m chunks inputs \<longleftrightarrow>
     (\<forall>i \<in> set inputs. key_of (fst i) = ServerVideoFrameReassemblyKey_from_fragment m \<longrightarrow>
        (\<exists>j < length chunks. srf_fragment (fst i) = fragment_of m chunks j))"

lemma carried_snoc:
  "carried m (inputs @ [i]) =
     (if key_of (fst i) = ServerVideoFrameReassemblyKey_from_fragment m
      then insert (unat (vff_chunk_index (srf_fragment (fst i)))) (carried m inputs)
      else carried m inputs)"
  by (auto simp: carried_def)

lemma collects_other:
  "reassembly_ok st \<Longrightarrow> key_of packet \<noteq> ServerVideoFrameReassemblyKey_from_fragment m \<Longrightarrow>
     collects (fst (apply_fragment st q packet t policy)) m chunks arrived = collects st m chunks arrived"
  by (simp add: collects_def apply_fragment_other)

lemma apply_all_collects:
  assumes "reassembly_ok (fst s)" and "sendable chunks" and "collects (fst s) m chunks {}"
    and "genuine m chunks inputs" and "\<not> {..<length chunks} \<subseteq> carried m inputs"
  shows "collects (fst (apply_all policy s inputs)) m chunks (carried m inputs)"
  using assms(4,5)
proof (induction inputs rule: rev_induct)
  case Nil
  then show ?case using assms(3) by (simp add: carried_def)
next
  case (snoc i inputs)
  obtain st q where sq: "apply_all policy s inputs = (st, q)" by (cases "apply_all policy s inputs")
  have ok: "reassembly_ok st" using apply_all_ok [OF assms(1), of policy inputs] by (simp add: sq)
  have c: "collects st m chunks (carried m inputs)"
    using snoc by (auto simp: sq genuine_def carried_snoc split: if_splits)
  show ?case
  proof (cases "key_of (fst i) = ServerVideoFrameReassemblyKey_from_fragment m")
    case True
    with snoc.prems(1) obtain j where j: "j < length chunks"
        and f: "srf_fragment (fst i) = fragment_of m chunks j"
      by (auto simp: genuine_def)
    have index: "unat (vff_chunk_index (srf_fragment (fst i))) = j"
      using fragment_of_shape(3) [OF assms(2) j] f by simp
    then show ?thesis
      using apply_chunk(1) [OF ok assms(2) j f c] snoc.prems(2) True
      by (simp add: sq apply_step_simps carried_snoc)
  next
    case False
    then show ?thesis
      using c collects_other [OF ok False] by (simp add: sq apply_step_simps carried_snoc)
  qed
qed

lemma any_order_completes:
  assumes ok: "reassembly_ok (fst s)" and cs: "sendable chunks" and fresh: "collects (fst s) m chunks {}"
    and gen: "genuine m chunks (inputs @ [(packet, t)])"
    and key: "key_of packet = ServerVideoFrameReassemblyKey_from_fragment m"
    and missing: "\<not> {..<length chunks} \<subseteq> carried m inputs"
    and all: "{..<length chunks} \<subseteq> carried m (inputs @ [(packet, t)])"
  obtains st q sm qr where "apply_all policy s inputs = (st, q)"
    and "snd (snd (apply_fragment st q packet t policy)) = Ok (FrameComplete sm (frame_of_chunks m chunks) qr)"
    and "apply_step policy (st, q) (packet, t) =
      (fst (apply_fragment st q packet t policy),
       store_packet policy q (completed_packet packet (frame_of_chunks m chunks), t))"
    and "btree_get (reassembly_frames (fst (apply_fragment st q packet t policy)))
      (ServerVideoFrameReassemblyKey_from_fragment m) = None"
proof -
  obtain st q where sq: "apply_all policy s inputs = (st, q)" by (cases "apply_all policy s inputs")
  have "reassembly_ok st" using apply_all_ok [OF ok, of policy inputs] by (simp add: sq)
  moreover have "collects st m chunks (carried m inputs)"
    using apply_all_collects [OF ok cs fresh _ missing, of policy] gen by (simp add: sq genuine_def)
  moreover obtain j where j: "j < length chunks" "srf_fragment packet = fragment_of m chunks j"
    using gen key by (auto simp: genuine_def)
  moreover have "carried m (inputs @ [(packet, t)]) = insert j (carried m inputs)"
    using key j(2) fragment_of_shape(3) [OF cs j(1), of m] by (simp add: carried_snoc)
  moreover from this have "j \<notin> carried m inputs" and "{..<length chunks} \<subseteq> insert j (carried m inputs)"
    using missing all by (auto simp: insert_absorb)
  ultimately show thesis
    by (elim apply_last_chunk [OF _ cs, of st j packet m "carried m inputs" q t policy])
      (auto intro!: that simp: sq apply_step_def case_prod_unfold)
qed

section \<open>Entries that never complete\<close>

text \<open>
  When every chunk has arrived and their total is not the announced one, the entry stays: from
  then on each fragment of the frame is a duplicate or a mismatch.
\<close>

definition stuck :: "ServerVideoFrameReassemblyState \<Rightarrow> ServerVideoFrameReassemblyKey \<Rightarrow> bool" where
  "stuck st k \<longleftrightarrow>
     (case btree_get (reassembly_frames st) k of None \<Rightarrow> False | Some s \<Rightarrow> None \<notin> set (rfs_chunks s))"

lemma apply_fragment_stuck:
  assumes ok: "reassembly_ok st" and k: "stuck st k"
  shows "stuck (fst (apply_fragment st q packet t policy)) k"
    and "key_of packet = k \<Longrightarrow> snd (snd (apply_fragment st q packet t policy)) \<noteq> Ok (FrameComplete s f qr)"
proof -
  have chunk: "rfs_chunks (entry_for st (srf_fragment packet)) ! i \<noteq> None"
    if "key_of packet = k" "i < length (rfs_chunks (entry_for st (srf_fragment packet)))" for i
    using k that by (cases "btree_get (reassembly_frames st) k") (auto simp: stuck_def entry_for_def in_set_conv_nth)
  show "stuck (fst (apply_fragment st q packet t policy)) k"
  proof (cases "key_of packet = k")
    case True
    then have entry: "None \<notin> set (rfs_chunks (entry_for st (srf_fragment packet)))"
      using k by (auto simp: stuck_def entry_for_def split: option.splits)
    show ?thesis
      using k entry chunk [OF True]
      by (cases rule: apply_fragment_cases [of st packet q t policy, OF ok])
        (simp_all add: stuck_def with_entry_simps [OF ok] True del: not_None_eq)
  next
    case False
    with k show ?thesis by (simp add: stuck_def apply_fragment_other [OF ok])
  qed
  show "snd (snd (apply_fragment st q packet t policy)) \<noteq> Ok (FrameComplete s f qr)"
    if "key_of packet = k"
    using chunk [OF that]
    by (cases rule: apply_fragment_cases [of st packet q t policy, OF ok]) (simp_all del: not_None_eq)
qed

lemma apply_all_stuck:
  "reassembly_ok (fst s) \<Longrightarrow> stuck (fst s) k \<Longrightarrow> stuck (fst (apply_all policy s inputs)) k"
  by (induction inputs arbitrary: s)
    (simp_all add: apply_step_def case_prod_unfold apply_fragment_ok apply_fragment_stuck)

section \<open>Properties\<close>

text \<open>
  C17: Applying a fragment never panics, keeps the invariant and leaves the entries of other
  frames alone. The queue changes only when the frame is complete; then it gains a frame with
  the fragment's identity, the announced length and the sender of the last fragment.
\<close>

theorem fragments_are_applied_safely:
  assumes "reassembly_ok st" and "apply_fragment st q packet t policy = (st', q', result)"
  shows "\<exists>r. result = Ok r \<and> reassembly_ok st' \<and>
    (\<forall>k. k \<noteq> key_of packet \<longrightarrow> btree_get (reassembly_frames st') k = btree_get (reassembly_frames st) k) \<and>
    (case r of
       FrameComplete _ frame _ \<Rightarrow>
         q' = store_packet policy q (completed_packet packet frame, t) \<and>
         vf_client_id frame = vff_client_id (srf_fragment packet) \<and>
         vf_run_id frame = vff_run_id (srf_fragment packet) \<and>
         vf_frame_id frame = vff_frame_id (srf_fragment packet) \<and>
         length (vf_payload frame) = unat (vff_total_payload_len (srf_fragment packet)) \<and>
         btree_get (reassembly_frames st') (key_of packet) = None
     | _ \<Rightarrow> q' = q)"
proof -
  have "\<exists>r. snd (snd (apply_fragment st q packet t policy)) = Ok r"
    by (cases rule: apply_fragment_cases [of st packet q t policy, OF assms(1)]) simp_all
  then obtain r where r: "result = Ok r" using assms(2) by auto
  have "reassembly_ok st'" using apply_fragment_ok [OF assms(1), of q packet t policy] assms(2) by simp
  moreover have "btree_get (reassembly_frames st') k = btree_get (reassembly_frames st) k"
    if "k \<noteq> key_of packet" for k
    using apply_fragment_other [OF assms(1) that, of q t policy] assms(2) by simp
  ultimately show ?thesis
    using apply_fragment_queue [OF assms(1) assms(2) [unfolded r]]
    by (auto simp: r split: ServerVideoFrameReassemblyApplyResult.split)
qed

definition fragment_packet :: "u64 \<Rightarrow> u32 \<Rightarrow> u32 \<Rightarrow> u32 \<Rightarrow> u8 list \<Rightarrow> ServerRegisteredVideoFrameFragmentPacket" where
  "fragment_packet n total_len index count chunk =
     \<lparr> srf_source = \<lparr> src_address = SocketAddrV4 0x0A000001 40000 \<rparr>,
       srf_authenticated_sender = \<lparr> ase_client_id = ''cam-1'',
         ase_source = \<lparr> src_address = SocketAddrV4 0x0A000001 40000 \<rparr>, ase_run_id = ''run-1'',
         ase_protocol_version = 1, ase_registered_at = None \<rparr>,
       srf_fragment = \<lparr> vff_message_type = MessageType_VideoFrameFragment, vff_protocol_version = 1,
         vff_client_id = ''cam-1'', vff_run_id = ''run-1'', vff_frame_id = n,
         vff_capture_timestamp = 1000, vff_is_keyframe = True, vff_width = 640, vff_height = 360,
         vff_fps_nominal = 30, vff_total_payload_len = total_len, vff_chunk_index = index,
         vff_chunk_count = count, vff_chunk_payload_len = length chunk, vff_chunk_payload = chunk \<rparr> \<rparr>"

definition no_frames :: ServerVideoFrameReassemblyState where
  "no_frames = \<lparr> reassembly_frames = [] \<rparr>"

lemma no_frames_ok: "reassembly_ok no_frames"
  by (simp add: reassembly_ok_def no_frames_def btree.inv_empty btree.lookup_empty)

lemma fragments_are_applied_safely_witness:
  "\<exists>st' q' r. apply_fragment no_frames ServerVideoFrameQueueState_default
      (fragment_packet 7 3 0 2 [1, 2]) 10 ServerVideoFrameQueuePolicy_default = (st', q', Ok r) \<and>
    reassembly_ok st'"
proof -
  obtain st' q' result where "apply_fragment no_frames ServerVideoFrameQueueState_default
      (fragment_packet 7 3 0 2 [1, 2]) 10 ServerVideoFrameQueuePolicy_default = (st', q', result)"
    by (rule prod_cases3)
  with fragments_are_applied_safely [OF no_frames_ok this] show ?thesis by blast
qed

text \<open>
  C35: Once all chunks of a frame have arrived and their length is not the announced one, the
  frame is never completed: its entry is not removed, and whatever arrives later, no fragment
  of that frame completes it.
\<close>

theorem length_mismatch_blocks_frame:
  assumes "reassembly_ok st" and "apply_fragment st q packet t policy = (st', q', Ok (RejectedFragment sm))"
    and "rsum_rejected_fragment_reason sm = Some ReassembledPayloadLenMismatch"
    and "apply_all policy (st', q') inputs = (st'', q'')" and "key_of later = key_of packet"
  shows "btree_get (reassembly_frames st'') (key_of packet) \<noteq> None \<and>
    snd (snd (apply_fragment st'' q'' later t' policy)) \<noteq> Ok (FrameComplete sm' frame qr)"
proof -
  have "stuck st' (key_of packet)"
    using assms(2,3)
    by (cases rule: apply_fragment_cases [of st packet q t policy, OF assms(1)])
      (auto simp: rejected_fragment_summary_def summary_for_state_def validate_fragment_shape_def stuck_def
        with_entry_simps [OF assms(1)] split: if_splits)
  moreover have "reassembly_ok st'" using apply_fragment_ok [OF assms(1), of q packet t policy] assms(2) by simp
  ultimately have "stuck st'' (key_of packet)" and "reassembly_ok st''"
    using apply_all_stuck [of "(st', q')" "key_of packet" policy inputs]
      apply_all_ok [of "(st', q')" policy inputs] assms(4) by simp_all
  then show ?thesis
    using apply_fragment_stuck(2) [of st'' "key_of packet" later q'' t' policy sm' frame qr] assms(5)
    by (auto simp: stuck_def split: option.splits)
qed

lemma length_mismatch_blocks_frame_witness:
  "\<forall>sm frame qr. snd (snd (case apply_fragment no_frames ServerVideoFrameQueueState_default
      (fragment_packet 7 9 0 1 [1, 2]) 10 ServerVideoFrameQueuePolicy_default of (st', q', _) \<Rightarrow>
        apply_fragment st' q' (fragment_packet 7 2 0 1 [1, 2]) 20 ServerVideoFrameQueuePolicy_default))
    \<noteq> Ok (FrameComplete sm frame qr)"
proof -
  let ?r = "apply_fragment no_frames ServerVideoFrameQueueState_default (fragment_packet 7 9 0 1 [1, 2]) 10
    ServerVideoFrameQueuePolicy_default"
  have "case snd (snd ?r) of Inr (RejectedFragment sm) \<Rightarrow>
      rsum_rejected_fragment_reason sm = Some ReassembledPayloadLenMismatch | _ \<Rightarrow> False"
    by code_simp
  then obtain st' q' sm where r: "?r = (st', q', Ok (RejectedFragment sm))"
      and sm: "rsum_rejected_fragment_reason sm = Some ReassembledPayloadLenMismatch"
    by (cases ?r) (auto split: sum.splits ServerVideoFrameReassemblyApplyResult.splits)
  have key: "key_of (fragment_packet 7 2 0 1 [1, 2]) = key_of (fragment_packet 7 9 0 1 [1, 2])"
    by (simp add: fragment_packet_def ServerVideoFrameReassemblyKey_from_fragment_def)
  have "apply_all ServerVideoFrameQueuePolicy_default (st', q') [] = (st', q')" by simp
  from length_mismatch_blocks_frame [OF no_frames_ok r sm this key] show ?thesis by (simp add: r)
qed

end
