(* ===== verification/Client_Video.thy ===== *)
theory Client_Video
  imports Net_Packets
begin

text \<open>
  The client's video sender (apps/client/src/lib.rs): building a frame from encoded bytes,
  cutting a frame that does not fit a datagram into fragments, and the send attempt that
  encodes the frame or its fragments and hands the datagrams to the socket.
\<close>

section \<open>Frames from encoded bytes\<close>

record ClientVideoFrameMetadataInput =
  vmi_protocol_version :: ProtocolVersion
  vmi_client_id :: ClientId
  vmi_run_id :: RunId
  vmi_frame_id :: u64
  vmi_capture_timestamp :: TimestampMicros
  vmi_send_timestamp :: TimestampMicros
  vmi_is_keyframe :: bool
  vmi_width :: u32
  vmi_height :: u32
  vmi_fps_nominal :: u32

datatype ClientEncodedVideoFrameSourceKind = PlaceholderH264 | RealCaptureH264

record ClientEncodedVideoFrameSource =
  evs_capture_timestamp :: TimestampMicros
  evs_width :: u32
  evs_height :: u32
  evs_fps_nominal :: u32
  evs_codec :: Codec
  evs_payload :: "u8 list"
  evs_source_kind :: ClientEncodedVideoFrameSourceKind

record ClientVideoFrameEncodedSourceInput =
  esi_protocol_version :: ProtocolVersion
  esi_client_id :: ClientId
  esi_run_id :: RunId
  esi_frame_id :: u64
  esi_send_timestamp :: TimestampMicros
  esi_is_keyframe :: bool
  esi_encoded :: ClientEncodedVideoFrameSource

datatype ClientEncodedVideoFrameSourceError = Source_EmptyPayload | Source_UnsupportedCodec

record ClientPlaceholderEncodedH264Payload =
  placeholder_bytes :: "u8 list"

datatype ClientPlaceholderEncodedH264PayloadError = Placeholder_EmptyPayload

definition ClientPlaceholderEncodedH264PayloadSourceBoundary_from_bytes ::
  "u8 list \<Rightarrow> (ClientPlaceholderEncodedH264Payload, ClientPlaceholderEncodedH264PayloadError) result" where
  "ClientPlaceholderEncodedH264PayloadSourceBoundary_from_bytes bytes =
     (if bytes = [] then Error Placeholder_EmptyPayload else Ok \<lparr> placeholder_bytes = bytes \<rparr>)"

definition ClientPlaceholderEncodedH264PayloadSourceBoundary_into_encoded_source ::
  "ClientPlaceholderEncodedH264Payload \<Rightarrow> TimestampMicros \<Rightarrow> u32 \<Rightarrow> u32 \<Rightarrow> u32 \<Rightarrow>
     (ClientEncodedVideoFrameSource, ClientPlaceholderEncodedH264PayloadError) result" where
  "ClientPlaceholderEncodedH264PayloadSourceBoundary_into_encoded_source
       payload capture_timestamp width height fps_nominal =
     (if placeholder_bytes payload = [] then Error Placeholder_EmptyPayload
      else Ok \<lparr> evs_capture_timestamp = capture_timestamp, evs_width = width, evs_height = height,
        evs_fps_nominal = fps_nominal, evs_codec = H264, evs_payload = placeholder_bytes payload,
        evs_source_kind = PlaceholderH264 \<rparr>)"

definition ClientVideoFrameMetadataConstructionBoundary_build_frame ::
  "ClientVideoFrameMetadataInput \<Rightarrow> ClientPlaceholderEncodedH264Payload \<Rightarrow>
     (VideoFrame, ClientPlaceholderEncodedH264PayloadError) result" where
  "ClientVideoFrameMetadataConstructionBoundary_build_frame input payload =
     (if placeholder_bytes payload = [] then Error Placeholder_EmptyPayload
      else Ok \<lparr> vf_message_type = MessageType_VideoFrame,
        vf_protocol_version = vmi_protocol_version input, vf_client_id = vmi_client_id input,
        vf_run_id = vmi_run_id input, vf_frame_id = vmi_frame_id input,
        vf_capture_timestamp = vmi_capture_timestamp input,
        vf_send_timestamp = vmi_send_timestamp input, vf_is_keyframe = vmi_is_keyframe input,
        vf_metadata_reserved = (0, 0, 0), vf_width = vmi_width input,
        vf_height = vmi_height input, vf_fps_nominal = vmi_fps_nominal input, vf_codec = H264,
        vf_payload_size = length (placeholder_bytes payload),
        vf_payload = placeholder_bytes payload \<rparr>)"

definition ClientVideoFrameMetadataConstructionBoundary_build_frame_from_encoded_source ::
  "ClientVideoFrameEncodedSourceInput \<Rightarrow> (VideoFrame, ClientEncodedVideoFrameSourceError) result" where
  "ClientVideoFrameMetadataConstructionBoundary_build_frame_from_encoded_source input =
     (let encoded = esi_encoded input in
      if evs_payload encoded = [] then Error Source_EmptyPayload
      else if evs_codec encoded \<noteq> H264 then Error Source_UnsupportedCodec
      else Ok \<lparr> vf_message_type = MessageType_VideoFrame,
        vf_protocol_version = esi_protocol_version input, vf_client_id = esi_client_id input,
        vf_run_id = esi_run_id input, vf_frame_id = esi_frame_id input,
        vf_capture_timestamp = evs_capture_timestamp encoded,
        vf_send_timestamp = esi_send_timestamp input, vf_is_keyframe = esi_is_keyframe input,
        vf_metadata_reserved = (0, 0, 0), vf_width = evs_width encoded,
        vf_height = evs_height encoded, vf_fps_nominal = evs_fps_nominal encoded,
        vf_codec = evs_codec encoded, vf_payload_size = length (evs_payload encoded),
        vf_payload = evs_payload encoded \<rparr>)"

section \<open>Fragmentation\<close>

definition CLIENT_VIDEO_FRAME_SAFE_MAX_DATAGRAM_LEN :: nat where
  "CLIENT_VIDEO_FRAME_SAFE_MAX_DATAGRAM_LEN = 1200"

definition CLIENT_VIDEO_FRAME_FRAGMENT_TARGET_CHUNK_PAYLOAD_LEN :: nat where
  "CLIENT_VIDEO_FRAME_FRAGMENT_TARGET_CHUNK_PAYLOAD_LEN = 1024"

text \<open>The kind of an \<open>io::Error\<close> and its message.\<close>

type_synonym io_error_kind = string

datatype ClientVideoFrameEncodeSendError =
    Send_EmptyPayload
  | Send_Encode ProtocolError
  | FragmentPayloadCapacityTooSmall nat nat
  | PacketTooLarge nat nat
  | Send_Failed io_error_kind string

record ClientVideoFrameFragmentationPolicy =
  safe_max_datagram_len :: nat
  target_chunk_payload_len :: nat

definition ClientVideoFrameFragmentationPolicy_default :: ClientVideoFrameFragmentationPolicy where
  "ClientVideoFrameFragmentationPolicy_default =
     \<lparr> safe_max_datagram_len = CLIENT_VIDEO_FRAME_SAFE_MAX_DATAGRAM_LEN,
       target_chunk_payload_len = CLIENT_VIDEO_FRAME_FRAGMENT_TARGET_CHUNK_PAYLOAD_LEN \<rparr>"

record ClientVideoFrameFragmentationPlan =
  fpl_total_payload_len :: nat
  fpl_chunk_payload_len :: nat
  fpl_chunk_count :: u32

definition ClientVideoFrameFragmentationBoundary_fragment_overhead_len :: "VideoFrame \<Rightarrow> nat" where
  "ClientVideoFrameFragmentationBoundary_fragment_overhead_len frame =
     unat FIXED_HEADER_LEN + 2 + length (vf_client_id frame) + 2 + length (vf_run_id frame)
       + unat VIDEO_FRAME_FRAGMENT_NUMERIC_METADATA_LEN"

text \<open>\<open>usize::div_ceil\<close> and \<open>slice::chunks\<close>; both panic for a zero width.\<close>

definition usize_div_ceil :: "nat \<Rightarrow> nat \<Rightarrow> nat" where
  "usize_div_ceil n d = (if n mod d = 0 then n div d else n div d + 1)"

function slice_chunks :: "nat \<Rightarrow> 'a list \<Rightarrow> 'a list list" where
  "slice_chunks n xs = (if n = 0 \<or> xs = [] then [] else take n xs # slice_chunks n (drop n xs))"
  by pat_completeness auto
termination
  by (relation "measure (\<lambda>(_, xs). length xs)") auto

declare slice_chunks.simps [simp del]

definition ClientVideoFrameFragmentationBoundary_plan ::
  "ClientVideoFrameFragmentationPolicy \<Rightarrow> VideoFrame \<Rightarrow>
     (ClientVideoFrameFragmentationPlan, ClientVideoFrameEncodeSendError) result" where
  "ClientVideoFrameFragmentationBoundary_plan policy frame =
     (let fragment_overhead_len = ClientVideoFrameFragmentationBoundary_fragment_overhead_len frame;
          too_small = FragmentPayloadCapacityTooSmall (safe_max_datagram_len policy) fragment_overhead_len in
      if safe_max_datagram_len policy \<le> fragment_overhead_len then Error too_small
      else
        (let max_chunk_payload_len = min (target_chunk_payload_len policy)
               (safe_max_datagram_len policy - fragment_overhead_len) in
         if vf_payload frame \<noteq> [] \<and> max_chunk_payload_len = 0 then Panicked
         else
           (let chunk_count = (if vf_payload frame = [] then 0
                  else usize_div_ceil (length (vf_payload frame)) max_chunk_payload_len) in
            rbind (ok_or (u32_try_from chunk_count) too_small) (\<lambda>chunk_count.
            Ok \<lparr> fpl_total_payload_len = length (vf_payload frame),
                 fpl_chunk_payload_len = max_chunk_payload_len, fpl_chunk_count = chunk_count \<rparr>))))"

fun fragment_loop ::
  "ClientVideoFrameFragmentationPolicy \<Rightarrow> VideoFrame \<Rightarrow> ClientVideoFrameFragmentationPlan \<Rightarrow> u32 \<Rightarrow>
     nat \<Rightarrow> u8 list list \<Rightarrow> VideoFrameFragment list \<Rightarrow>
     (VideoFrameFragment list, ClientVideoFrameEncodeSendError) result" where
  "fragment_loop policy frame plan total_payload_len index [] fragments = Ok fragments"
| "fragment_loop policy frame plan total_payload_len index (chunk # chunks) fragments =
     rbind (ok_or (u32_try_from index)
         (FragmentPayloadCapacityTooSmall (safe_max_datagram_len policy)
           (ClientVideoFrameFragmentationBoundary_fragment_overhead_len frame))) (\<lambda>chunk_index.
     fragment_loop policy frame plan total_payload_len (index + 1) chunks (fragments @
       [\<lparr> vff_message_type = MessageType_VideoFrameFragment,
          vff_protocol_version = vf_protocol_version frame, vff_client_id = vf_client_id frame,
          vff_run_id = vf_run_id frame, vff_frame_id = vf_frame_id frame,
          vff_capture_timestamp = vf_capture_timestamp frame,
          vff_is_keyframe = vf_is_keyframe frame, vff_width = vf_width frame,
          vff_height = vf_height frame, vff_fps_nominal = vf_fps_nominal frame,
          vff_total_payload_len = total_payload_len, vff_chunk_index = chunk_index,
          vff_chunk_count = fpl_chunk_count plan, vff_chunk_payload_len = length chunk,
          vff_chunk_payload = chunk \<rparr>]))"

definition ClientVideoFrameFragmentationBoundary_fragment ::
  "ClientVideoFrameFragmentationPolicy \<Rightarrow> VideoFrame \<Rightarrow>
     (VideoFrameFragment list, ClientVideoFrameEncodeSendError) result" where
  "ClientVideoFrameFragmentationBoundary_fragment policy frame =
     rbind (ClientVideoFrameFragmentationBoundary_plan policy frame) (\<lambda>plan.
     rbind (ok_or (u32_try_from (fpl_total_payload_len plan))
         (Send_Encode (InvalidPayloadLength 0xFFFFFFFF (fpl_total_payload_len plan))))
       (\<lambda>total_payload_len.
     if fpl_chunk_payload_len plan = 0 then Panicked
     else fragment_loop policy frame plan total_payload_len 0
            (slice_chunks (fpl_chunk_payload_len plan) (vf_payload frame)) []))"

section \<open>Sending\<close>

record ClientVideoFrameEncodeSendInput =
  vsi_destination :: SocketAddr
  vsi_frame :: VideoFrame

record ClientVideoFrameFragmentPacingPolicy =
  delay_every_fragments :: u32
  delay_micros :: u64

definition ClientVideoFrameFragmentPacingPolicy_default :: ClientVideoFrameFragmentPacingPolicy where
  "ClientVideoFrameFragmentPacingPolicy_default = \<lparr> delay_every_fragments = 0, delay_micros = 0 \<rparr>"

record ClientVideoFrameEncodedSendHandoff =
  vsh_destination :: SocketAddr
  vsh_frame :: VideoFrame
  vsh_encoded_bytes :: "u8 list"

record ClientVideoFrameFragmentEncodedSendHandoff =
  fsh_destination :: SocketAddr
  fsh_fragment :: VideoFrameFragment
  fsh_encoded_bytes :: "u8 list"

datatype ClientVideoFrameSendSummary = DirectSent | FragmentedSent u32 u32

record ClientVideoFrameEncodeSendRuntimeResult =
  vsr_summary :: ClientVideoFrameSendSummary
  vsr_handoff :: "ClientVideoFrameEncodedSendHandoff option"
  vsr_fragment_handoffs :: "ClientVideoFrameFragmentEncodedSendHandoff list"
  vsr_bytes_sent :: nat
  vsr_send_elapsed_micros :: u64
  vsr_total_fragment_pacing_sleep_micros :: u64

record ClientVideoFrameEncodeSendFailure =
  vsf_destination :: SocketAddr
  vsf_local_source :: "SocketAddr option"
  vsf_frame_id :: u64
  vsf_payload_len :: nat
  vsf_encoded_packet_len :: "nat option"
  vsf_fragments_attempted :: u32
  vsf_fragments_sent :: u32
  vsf_failed_fragment_index :: "u32 option"
  vsf_error :: ClientVideoFrameEncodeSendError
  vsf_send_elapsed_micros :: u64
  vsf_total_fragment_pacing_sleep_micros :: u64

text \<open>
  The socket as far as the sender uses it: its local address and what the n-th
  \<open>send_to\<close> of the attempt returns. The elapsed time is the clock's when the attempt
  returns.
\<close>

record UdpSocket =
  udp_local_addr :: "SocketAddr option"
  udp_send_to :: "nat \<Rightarrow> u8 list \<Rightarrow> SocketAddr \<Rightarrow> (nat, io_error_kind \<times> string) result"

definition ClientVideoFrameEncodeSendBoundary_encode_handoff ::
  "ClientVideoFrameEncodeSendInput \<Rightarrow>
     (ClientVideoFrameEncodedSendHandoff, ClientVideoFrameEncodeSendError) result" where
  "ClientVideoFrameEncodeSendBoundary_encode_handoff input =
     (if vf_payload (vsi_frame input) = [] then Error Send_EmptyPayload
      else rbind (rmap_err Send_Encode (ProtocolMessageEncoderBoundary_encode_message
             \<lparr> ec_protocol_version = vf_protocol_version (vsi_frame input) \<rparr>
             (Message_VideoFrame (vsi_frame input)) [])) (\<lambda>encoded_bytes.
        Ok \<lparr> vsh_destination = vsi_destination input, vsh_frame = vsi_frame input,
             vsh_encoded_bytes = encoded_bytes \<rparr>))"

definition ClientVideoFrameEncodeSendBoundary_encode_fragment_handoff ::
  "SocketAddr \<Rightarrow> VideoFrameFragment \<Rightarrow>
     (ClientVideoFrameFragmentEncodedSendHandoff, ClientVideoFrameEncodeSendError) result" where
  "ClientVideoFrameEncodeSendBoundary_encode_fragment_handoff destination fragment =
     rbind (rmap_err Send_Encode (ProtocolMessageEncoderBoundary_encode_message
         \<lparr> ec_protocol_version = vff_protocol_version fragment \<rparr>
         (Message_VideoFrameFragment fragment) [])) (\<lambda>encoded_bytes.
     Ok \<lparr> fsh_destination = destination, fsh_fragment = fragment,
          fsh_encoded_bytes = encoded_bytes \<rparr>)"

definition maybe_sleep_after_fragment_send :: "ClientVideoFrameFragmentPacingPolicy \<Rightarrow> nat \<Rightarrow> u64" where
  "maybe_sleep_after_fragment_send pacing fragments_sent =
     (if delay_every_fragments pacing = 0 \<or> delay_micros pacing = 0 then 0
      else if (word_of_nat fragments_sent :: u32) mod delay_every_fragments pacing = 0
      then delay_micros pacing
      else 0)"

text \<open>
  The loop over the fragments. \<open>failure\<close> fills in what every failure of the attempt
  shares: fragments attempted and sent, the failed index, the error and the time slept.
\<close>

fun send_fragments ::
  "ClientVideoFrameFragmentationPolicy \<Rightarrow> UdpSocket \<Rightarrow> SocketAddr \<Rightarrow>
     ClientVideoFrameFragmentPacingPolicy \<Rightarrow>
     (u32 \<Rightarrow> u32 \<Rightarrow> u32 option \<Rightarrow> ClientVideoFrameEncodeSendError \<Rightarrow> u64 \<Rightarrow>
        ClientVideoFrameEncodeSendFailure) \<Rightarrow>
     VideoFrameFragment list \<Rightarrow> ClientVideoFrameFragmentEncodedSendHandoff list \<Rightarrow> nat \<Rightarrow> u64 \<Rightarrow>
     (ClientVideoFrameFragmentEncodedSendHandoff list \<times> nat \<times> u64,
      ClientVideoFrameEncodeSendFailure) result" where
  "send_fragments policy socket destination pacing failure [] handoffs bytes_sent slept =
     Ok (handoffs, bytes_sent, slept)"
| "send_fragments policy socket destination pacing failure (fragment # fragments) handoffs bytes_sent slept =
     (let sent_before = word_of_nat (length handoffs);
          failed = (\<lambda>error. failure (sent_before + 1) sent_before
            (Some (vff_chunk_index fragment)) error slept) in
      rbind (rmap_err failed (ClientVideoFrameEncodeSendBoundary_encode_fragment_handoff
          destination fragment)) (\<lambda>handoff.
      if safe_max_datagram_len policy < length (fsh_encoded_bytes handoff)
      then Error (failed (PacketTooLarge (length (fsh_encoded_bytes handoff))
             (safe_max_datagram_len policy)))
      else rbind (rmap_err (\<lambda>(kind, message). failed (Send_Failed kind message))
          (udp_send_to socket (length handoffs) (fsh_encoded_bytes handoff) destination)) (\<lambda>sent.
        send_fragments policy socket destination pacing failure fragments (handoffs @ [handoff])
          (usize_saturating_add bytes_sent sent)
          (u64_saturating_add slept
            (maybe_sleep_after_fragment_send pacing (length (handoffs @ [handoff])))))))"

definition ClientVideoFrameEncodeSendBoundary_send_one_detailed_with_fragment_pacing ::
  "ClientVideoFrameFragmentationPolicy \<Rightarrow> UdpSocket \<Rightarrow> u64 \<Rightarrow> ClientVideoFrameEncodeSendInput \<Rightarrow>
     ClientVideoFrameFragmentPacingPolicy \<Rightarrow>
     (ClientVideoFrameEncodeSendRuntimeResult, ClientVideoFrameEncodeSendFailure) result" where
  "ClientVideoFrameEncodeSendBoundary_send_one_detailed_with_fragment_pacing
       policy socket elapsed input fragment_pacing =
     (let destination = vsi_destination input;
          failure = (\<lambda>encoded_packet_len attempted sent failed_index error slept.
            \<lparr> vsf_destination = destination, vsf_local_source = udp_local_addr socket,
              vsf_frame_id = vf_frame_id (vsi_frame input),
              vsf_payload_len = length (vf_payload (vsi_frame input)),
              vsf_encoded_packet_len = encoded_packet_len, vsf_fragments_attempted = attempted,
              vsf_fragments_sent = sent, vsf_failed_fragment_index = failed_index,
              vsf_error = error, vsf_send_elapsed_micros = elapsed,
              vsf_total_fragment_pacing_sleep_micros = slept \<rparr>) in
      rbind (rmap_err (\<lambda>error. failure None 0 0 None error 0)
          (ClientVideoFrameEncodeSendBoundary_encode_handoff input)) (\<lambda>handoff.
      let encoded_packet_len = length (vsh_encoded_bytes handoff);
          failure = failure (Some encoded_packet_len) in
      if encoded_packet_len \<le> safe_max_datagram_len policy
      then rbind (rmap_err (\<lambda>(kind, message). failure 0 0 None (Send_Failed kind message) 0)
          (udp_send_to socket 0 (vsh_encoded_bytes handoff) (vsh_destination handoff))) (\<lambda>bytes_sent.
        Ok \<lparr> vsr_summary = DirectSent, vsr_handoff = Some handoff, vsr_fragment_handoffs = [],
             vsr_bytes_sent = bytes_sent, vsr_send_elapsed_micros = elapsed,
             vsr_total_fragment_pacing_sleep_micros = 0 \<rparr>)
      else rbind (rmap_err (\<lambda>error. failure 0 0 None error 0)
          (ClientVideoFrameFragmentationBoundary_fragment policy (vsh_frame handoff))) (\<lambda>fragments.
        rbind (send_fragments policy socket destination fragment_pacing failure fragments [] 0 0)
          (\<lambda>(fragment_handoffs, bytes_sent, slept).
        Ok \<lparr> vsr_summary = FragmentedSent (word_of_nat (length fragment_handoffs))
               (word_of_nat (length fragment_handoffs)),
             vsr_handoff = None, vsr_fragment_handoffs = fragment_handoffs,
             vsr_bytes_sent = bytes_sent, vsr_send_elapsed_micros = elapsed,
             vsr_total_fragment_pacing_sleep_micros = slept \<rparr>))))"

definition ClientVideoFrameEncodeSendBoundary_send_one_detailed ::
  "ClientVideoFrameFragmentationPolicy \<Rightarrow> UdpSocket \<Rightarrow> u64 \<Rightarrow> ClientVideoFrameEncodeSendInput \<Rightarrow>
     (ClientVideoFrameEncodeSendRuntimeResult, ClientVideoFrameEncodeSendFailure) result" where
  "ClientVideoFrameEncodeSendBoundary_send_one_detailed policy socket elapsed input =
     ClientVideoFrameEncodeSendBoundary_send_one_detailed_with_fragment_pacing policy socket elapsed
       input ClientVideoFrameFragmentPacingPolicy_default"

definition ClientVideoFrameEncodeSendBoundary_send_one ::
  "ClientVideoFrameFragmentationPolicy \<Rightarrow> UdpSocket \<Rightarrow> u64 \<Rightarrow> ClientVideoFrameEncodeSendInput \<Rightarrow>
     (ClientVideoFrameEncodeSendRuntimeResult, ClientVideoFrameEncodeSendError) result" where
  "ClientVideoFrameEncodeSendBoundary_send_one policy socket elapsed input =
     rmap_err vsf_error
       (ClientVideoFrameEncodeSendBoundary_send_one_detailed policy socket elapsed input)"

section \<open>Chunks\<close>

lemma slice_chunks_Nil [simp]: "slice_chunks n [] = []"
  by (simp add: slice_chunks.simps)

lemma concat_slice_chunks: "0 < n \<Longrightarrow> concat (slice_chunks n xs) = xs"
  by (induction n xs rule: slice_chunks.induct) (subst slice_chunks.simps, simp)

lemma length_slice_chunks: "0 < n \<Longrightarrow> length (slice_chunks n xs) = usize_div_ceil (length xs) n"
proof (induction n xs rule: slice_chunks.induct)
  case (1 n xs)
  show ?case
  proof (cases "xs = []")
    case False
    then have "length (slice_chunks n xs) = Suc (usize_div_ceil (length xs - n) n)"
      using 1 by (subst slice_chunks.simps) simp
    also have "\<dots> = usize_div_ceil (length xs) n"
    proof (cases "n \<le> length xs")
      case True
      then show ?thesis using 1(2) by (simp add: usize_div_ceil_def le_div_geq le_mod_geq)
    next
      case less: False
      with False show ?thesis by (simp add: usize_div_ceil_def)
    qed
    finally show ?thesis .
  qed (simp add: usize_div_ceil_def)
qed

lemma in_slice_chunks: "c \<in> set (slice_chunks n xs) \<Longrightarrow> c \<noteq> [] \<and> length c \<le> n"
  by (induction n xs rule: slice_chunks.induct) (subst (asm) slice_chunks.simps, auto split: if_splits)

lemma usize_div_ceil_le: "0 < d \<Longrightarrow> usize_div_ceil n d \<le> n"
proof -
  assume "0 < d"
  have "n div d + 1 \<le> n" if "n mod d \<noteq> 0" "n div d \<noteq> 0"
    using that \<open>0 < d\<close> div_mult_mod_eq [of n d]
    by (metis One_nat_def Suc_leI add_le_mono less_eq_nat.simps(1) mult.right_neutral mult_le_mono2 neq0_conv)
  then show ?thesis
    by (cases "n div d = 0") (auto simp: usize_div_ceil_def Suc_le_eq intro: gr0I)
qed

section \<open>What fragmentation returns\<close>

definition fragment_at :: "VideoFrame \<Rightarrow> u8 list list \<Rightarrow> nat \<Rightarrow> VideoFrameFragment" where
  "fragment_at frame chunks i =
     \<lparr> vff_message_type = MessageType_VideoFrameFragment,
       vff_protocol_version = vf_protocol_version frame, vff_client_id = vf_client_id frame,
       vff_run_id = vf_run_id frame, vff_frame_id = vf_frame_id frame,
       vff_capture_timestamp = vf_capture_timestamp frame, vff_is_keyframe = vf_is_keyframe frame,
       vff_width = vf_width frame, vff_height = vf_height frame,
       vff_fps_nominal = vf_fps_nominal frame,
       vff_total_payload_len = word_of_nat (length (vf_payload frame)),
       vff_chunk_index = word_of_nat i, vff_chunk_count = word_of_nat (length chunks),
       vff_chunk_payload_len = length (chunks ! i), vff_chunk_payload = chunks ! i \<rparr>"

definition chunk_width :: "ClientVideoFrameFragmentationPolicy \<Rightarrow> VideoFrame \<Rightarrow> nat" where
  "chunk_width policy frame = min (target_chunk_payload_len policy)
     (safe_max_datagram_len policy - ClientVideoFrameFragmentationBoundary_fragment_overhead_len frame)"

definition frame_chunks :: "ClientVideoFrameFragmentationPolicy \<Rightarrow> VideoFrame \<Rightarrow> u8 list list" where
  "frame_chunks policy frame = slice_chunks (chunk_width policy frame) (vf_payload frame)"

definition room_for_chunks :: "ClientVideoFrameFragmentationPolicy \<Rightarrow> VideoFrame \<Rightarrow> bool" where
  "room_for_chunks policy frame \<longleftrightarrow>
     ClientVideoFrameFragmentationBoundary_fragment_overhead_len frame < safe_max_datagram_len policy"

lemma fragment_loop_Ok:
  assumes "index + length rest = length chunks" and "rest = drop index chunks"
    and "length chunks < 2 ^ 32" and "fpl_chunk_count plan = word_of_nat (length chunks)"
    and "total_len = word_of_nat (length (vf_payload frame))"
  shows "fragment_loop policy frame plan total_len index rest acc =
    Ok (acc @ List.map (fragment_at frame chunks) [index..<length chunks])"
  using assms(1,2)
proof (induction rest arbitrary: index acc)
  case (Cons c rest)
  have c: "chunks ! index = c" and rest: "rest = drop (Suc index) chunks"
    using Cons.prems by (metis nth_via_drop) (metis Cons.prems(2) drop_Suc drop_tl list.sel(3))
  have "index < length chunks" using Cons.prems(1) by auto
  then have split: "[index..<length chunks] = index # [Suc index..<length chunks]" by (rule upt_conv_Cons)
  have step: "fragment_loop policy frame plan total_len index (c # rest) acc =
      fragment_loop policy frame plan total_len (Suc index) rest (acc @ [fragment_at frame chunks index])"
    using \<open>index < length chunks\<close> assms(3-5) by (simp add: u32_try_from_def fragment_at_def c)
  have "Suc index + length rest = length chunks" using Cons.prems(1) by simp
  then show ?case unfolding step split by (simp add: Cons.IH [OF _ rest])
qed simp

lemma fragment_Ok:
  assumes room: "room_for_chunks policy frame" and width: "0 < target_chunk_payload_len policy"
    and small: "length (vf_payload frame) < 2 ^ 32"
  shows "ClientVideoFrameFragmentationBoundary_fragment policy frame =
    Ok (List.map (fragment_at frame (frame_chunks policy frame)) [0..<length (frame_chunks policy frame)])"
proof -
  have w: "0 < chunk_width policy frame" using room width by (simp add: chunk_width_def room_for_chunks_def)
  have count: "length (frame_chunks policy frame) = usize_div_ceil (length (vf_payload frame)) (chunk_width policy frame)"
    by (simp add: frame_chunks_def length_slice_chunks [OF w])
  have fits: "length (frame_chunks policy frame) < 2 ^ 32"
    unfolding count using usize_div_ceil_le [OF w] small by (rule le_less_trans)
  have "fragment_loop policy frame \<lparr> fpl_total_payload_len = length (vf_payload frame),
      fpl_chunk_payload_len = chunk_width policy frame,
      fpl_chunk_count = word_of_nat (length (frame_chunks policy frame)) \<rparr>
      (word_of_nat (length (vf_payload frame))) 0 (frame_chunks policy frame) [] =
    Ok ([] @ List.map (fragment_at frame (frame_chunks policy frame)) [0..<length (frame_chunks policy frame)])"
    using fits by (intro fragment_loop_Ok) simp_all
  then show ?thesis
    using room small w fits
    by (auto simp: ClientVideoFrameFragmentationBoundary_fragment_def Let_def frame_chunks_def [symmetric]
        ClientVideoFrameFragmentationBoundary_plan_def chunk_width_def [symmetric] room_for_chunks_def
        u32_try_from_def count usize_div_ceil_def)
qed

text \<open>
  Without room for a chunk there are no fragments: the ids alone fill the datagram.
\<close>

lemma fragment_no_room:
  "\<not> room_for_chunks policy frame \<Longrightarrow>
     ClientVideoFrameFragmentationBoundary_fragment policy frame =
       Error (FragmentPayloadCapacityTooSmall (safe_max_datagram_len policy)
         (ClientVideoFrameFragmentationBoundary_fragment_overhead_len frame))"
  by (simp add: ClientVideoFrameFragmentationBoundary_fragment_def Let_def
      ClientVideoFrameFragmentationBoundary_plan_def room_for_chunks_def)

section \<open>What a fragment looks like on the wire\<close>

lemma frame_chunks_bound:
  assumes "i < length (frame_chunks policy frame)"
  shows "length (frame_chunks policy frame ! i) \<le> chunk_width policy frame"
  using in_slice_chunks [of "frame_chunks policy frame ! i" "chunk_width policy frame" "vf_payload frame"]
    nth_mem [OF assms] by (simp add: frame_chunks_def)

lemma fragment_wire_length:
  assumes "room_for_chunks policy frame" and "i < length (frame_chunks policy frame)"
  shows "16 + length (message_bytes (Message_VideoFrameFragment (fragment_at frame (frame_chunks policy frame) i)))
    \<le> safe_max_datagram_len policy"
proof -
  have "length (frame_chunks policy frame ! i) \<le>
      safe_max_datagram_len policy - ClientVideoFrameFragmentationBoundary_fragment_overhead_len frame"
    using frame_chunks_bound [OF assms(2)] by (simp add: chunk_width_def)
  with assms(1) show ?thesis
    by (simp add: room_for_chunks_def ClientVideoFrameFragmentationBoundary_fragment_overhead_len_def
        fragment_at_def video_frame_fragment_bytes_def string_bytes_def bool_bytes_def FIXED_HEADER_LEN_def
        VIDEO_FRAME_FRAGMENT_NUMERIC_METADATA_LEN_def)
qed

lemma fragment_at_wf:
  assumes "string_fits (vf_client_id frame)" and "string_fits (vf_run_id frame)"
    and "length (chunks ! i) < 2 ^ 32"
  shows "message_wf (vf_protocol_version frame) (Message_VideoFrameFragment (fragment_at frame chunks i))"
  using assms by (simp add: video_frame_fragment_wf_def fragment_at_def)

section \<open>Attempts\<close>

text \<open>What a run of the loop has done when it succeeds, and when it fails.\<close>

definition encoded_fragment :: "SocketAddr \<Rightarrow> VideoFrameFragment \<Rightarrow> ClientVideoFrameFragmentEncodedSendHandoff" where
  "encoded_fragment destination f =
     \<lparr> fsh_destination = destination, fsh_fragment = f,
       fsh_encoded_bytes = packet_of (vff_protocol_version f) (Message_VideoFrameFragment f) 0 0 \<rparr>"

lemma encode_fragment_handoff_Ok:
  "message_wf (vff_protocol_version f) (Message_VideoFrameFragment f) \<Longrightarrow>
     length (message_bytes (Message_VideoFrameFragment f)) < 2 ^ 32 \<Longrightarrow>
     ClientVideoFrameEncodeSendBoundary_encode_fragment_handoff destination f =
       Ok (encoded_fragment destination f)"
  using encoded_packet_of [of "\<lparr> ec_protocol_version = vff_protocol_version f \<rparr>" "Message_VideoFrameFragment f"]
  by (simp add: ClientVideoFrameEncodeSendBoundary_encode_fragment_handoff_def encoded_fragment_def)

lemma send_fragments_Ok:
  assumes "send_fragments policy socket destination pacing failure fragments handoffs n slept = Ok (hs, n', slept')"
    and "\<And>f. f \<in> set fragments \<Longrightarrow> message_wf (vff_protocol_version f) (Message_VideoFrameFragment f) \<and>
      length (message_bytes (Message_VideoFrameFragment f)) < 2 ^ 32"
  shows "hs = handoffs @ List.map (encoded_fragment destination) fragments \<and>
    (\<forall>f \<in> set fragments. length (fsh_encoded_bytes (encoded_fragment destination f)) \<le> safe_max_datagram_len policy)"
  using assms
proof (induction fragments arbitrary: handoffs n slept)
  case (Cons f fragments)
  have enc: "ClientVideoFrameEncodeSendBoundary_encode_fragment_handoff destination f = Ok (encoded_fragment destination f)"
    using Cons.prems(2) [of f] by (intro encode_fragment_handoff_Ok) simp_all
  obtain sent where len: "length (fsh_encoded_bytes (encoded_fragment destination f)) \<le> safe_max_datagram_len policy"
    and rest: "send_fragments policy socket destination pacing failure fragments
        (handoffs @ [encoded_fragment destination f]) (usize_saturating_add n sent)
        (u64_saturating_add slept (maybe_sleep_after_fragment_send pacing
          (length (handoffs @ [encoded_fragment destination f])))) = Ok (hs, n', slept')"
    using Cons.prems(1) by (auto simp: enc Let_def rbind_eq_Inr_iff split: if_splits)
  show ?case using Cons.IH [OF rest] Cons.prems(2) len by simp
qed simp

lemma send_fragments_delivers:
  assumes "\<And>f. f \<in> set fragments \<Longrightarrow> message_wf (vff_protocol_version f) (Message_VideoFrameFragment f) \<and>
      length (message_bytes (Message_VideoFrameFragment f)) < 2 ^ 32 \<and>
      length (fsh_encoded_bytes (encoded_fragment destination f)) \<le> safe_max_datagram_len policy"
    and "\<And>i bs. \<exists>n. udp_send_to socket i bs destination = Ok n"
  shows "\<exists>n' slept'. send_fragments policy socket destination pacing failure fragments handoffs n slept =
    Ok (handoffs @ List.map (encoded_fragment destination) fragments, n', slept')"
  using assms(1)
proof (induction fragments arbitrary: handoffs n slept)
  case (Cons f fragments)
  have enc: "ClientVideoFrameEncodeSendBoundary_encode_fragment_handoff destination f = Ok (encoded_fragment destination f)"
    using Cons.prems [of f] by (intro encode_fragment_handoff_Ok) simp_all
  obtain sent where "udp_send_to socket (length handoffs) (fsh_encoded_bytes (encoded_fragment destination f)) destination = Ok sent"
    using assms(2) by blast
  then have step: "send_fragments policy socket destination pacing failure (f # fragments) handoffs n slept =
      send_fragments policy socket destination pacing failure fragments
        (handoffs @ [encoded_fragment destination f]) (usize_saturating_add n sent)
        (u64_saturating_add slept (maybe_sleep_after_fragment_send pacing
          (length (handoffs @ [encoded_fragment destination f]))))"
    using Cons.prems [of f] by (simp add: enc Let_def)
  have "\<exists>n' slept'. send_fragments policy socket destination pacing failure fragments
        (handoffs @ [encoded_fragment destination f]) (usize_saturating_add n sent)
        (u64_saturating_add slept (maybe_sleep_after_fragment_send pacing
          (length (handoffs @ [encoded_fragment destination f])))) =
      Ok ((handoffs @ [encoded_fragment destination f]) @ List.map (encoded_fragment destination) fragments, n', slept')"
    by (rule Cons.IH, rule Cons.prems) simp
  then show ?case unfolding step by simp
qed simp

lemma send_fragments_no_panic:
  assumes "\<And>i bs. udp_send_to socket i bs destination \<noteq> Panicked"
  shows "send_fragments policy socket destination pacing failure fragments handoffs n slept \<noteq> Panicked"
proof (induction fragments arbitrary: handoffs n slept)
  case (Cons f fragments)
  have "ClientVideoFrameEncodeSendBoundary_encode_fragment_handoff destination f \<noteq> Panicked"
    using encode_message_no_panic [of _ "Message_VideoFrameFragment f" "[]"]
    by (simp add: ClientVideoFrameEncodeSendBoundary_encode_fragment_handoff_def rbind_eq_Inl_iff
        rmap_err_eq_Panic_iff)
  with assms Cons.IH show ?case by (auto simp: Let_def rbind_eq_Inl_iff rmap_err_eq_Panic_iff)
qed simp

end
