(* ===== verification/Handoff_Frames.thy ===== *)
theory Handoff_Frames
  imports Handoff_Codec
begin

text \<open>
  What the handoff codec guarantees: the layout of requests and responses, the values it can
  carry, round trips through the framing, freedom from panics on arbitrary frames, and what a
  successful decode says of the bytes. The framing contract is the locale
  \<open>framed_codec\<close>; requests and responses are its two instances.
\<close>

section \<open>Framing\<close>

lemma frame_body_Ok_iff:
  "frame_body body = Ok frame \<longleftrightarrow>
     length body < 2 ^ 32 \<and> frame = u32_to_le_bytes (word_of_nat (length body)) @ body"
  by (auto simp: frame_body_def u32_try_from_def)

lemma frame_body_no_panic: "frame_body body \<noteq> Panicked"
  by (simp add: frame_body_def u32_try_from_def)

lemma read_declared_len:
  "4 \<le> length frame \<Longrightarrow>
     (read_u32_le frame 0 :: (u32, 'e) result)
       = Ok (u32_from_le_bytes (frame ! 0) (frame ! 1) (frame ! 2) (frame ! 3))"
proof -
  assume "4 \<le> length frame"
  then have "0 < length frame" "1 < length frame" "2 < length frame" "3 < length frame" by linarith+
  then show ?thesis by (simp add: read_u32_le_def byte_at_def numeral_2_eq_2)
qed

lemma decode_framed_body_cases:
  "decode_framed_body frame =
     (if length frame < 4 then Error (FramePrefixTooShort (length frame))
      else
        let declared = unat (u32_from_le_bytes (frame ! 0) (frame ! 1) (frame ! 2) (frame ! 3)) in
        if length frame - 4 < declared then Error (TruncatedFrame declared (length frame - 4))
        else if length frame - 4 > declared then Error (TrailingBytes (length frame - 4 - declared))
        else Ok (drop 4 frame))"
  by (simp add: decode_framed_body_def SERVER_SWITCHER_HANDOFF_LENGTH_PREFIX_LEN_def
      read_declared_len Let_def)

lemma decode_framed_body_no_panic: "decode_framed_body frame \<noteq> Panicked"
  by (simp add: decode_framed_body_cases Let_def)

lemma decode_framed_body_Ok_iff:
  "decode_framed_body frame = Ok body \<longleftrightarrow> frame_body body = Ok frame"
proof
  assume "decode_framed_body frame = Ok body"
  then have len: "4 \<le> length frame" and body: "body = drop 4 frame"
    and declared: "length frame - 4
        = unat (u32_from_le_bytes (frame ! 0) (frame ! 1) (frame ! 2) (frame ! 3))"
    by (auto simp: decode_framed_body_cases Let_def split: if_splits)
  let ?n = "u32_from_le_bytes (frame ! 0) (frame ! 1) (frame ! 2) (frame ! 3)"
  have n: "length body = unat ?n" using body declared by simp
  have "take 4 frame = [frame ! 0, frame ! 1, frame ! 2, frame ! 3]"
    using len by (intro nth_equalityI) (auto simp: less_Suc_eq eval_nat_numeral)
  then have "frame = u32_to_le_bytes ?n @ body"
    unfolding u32_to_from_le body by (metis append_take_drop_id)
  moreover have "word_of_nat (length body) = ?n" and "length body < 2 ^ 32"
    unfolding n using unat_u32_less [of ?n] by simp_all
  ultimately show "frame_body body = Ok frame" by (simp add: frame_body_Ok_iff)
next
  assume "frame_body body = Ok frame"
  then have "length body < 2 ^ 32" "frame = u32_to_le_bytes (word_of_nat (length body)) @ body"
    by (simp_all add: frame_body_Ok_iff)
  then show "decode_framed_body frame = Ok body"
    by (simp add: decode_framed_body_cases u32_to_le_bytes_def u32_from_to_le unat_u32_of_nat Let_def)
qed

lemma ensure_consumed_Ok_iff [simp]: "ensure_consumed body offset = Ok u \<longleftrightarrow> offset = length body"
  by (auto simp: ensure_consumed_def)

lemma ensure_consumed_no_panic: "offset \<le> length body \<Longrightarrow> ensure_consumed body offset \<noteq> Panicked"
  by (auto simp: ensure_consumed_def)

section \<open>The contract of a framed message\<close>

text \<open>
  \<open>body\<close> names the bytes inside the frame and \<open>wf\<close> the values that survive
  the trip. The reader may accept more than the canonical bytes (a flag is any nonzero byte),
  so soundness only promises a value that survives.
\<close>

locale framed_codec =
  fixes encode :: "'m \<Rightarrow> (u8 list, HandoffCodecError) result"
    and decode :: "u8 list \<Rightarrow> ('m, HandoffCodecError) result"
    and reader :: "('m, HandoffCodecError) parser"
    and body :: "'m \<Rightarrow> u8 list"
    and wf :: "'m \<Rightarrow> bool"
  assumes encode_wf: "wf m \<Longrightarrow> encode m = frame_body (body m)"
    and encode_no_panic: "encode m \<noteq> Panicked"
    and decode_eq: "decode frame =
      rbind (decode_framed_body frame) (\<lambda>b.
      rbind (reader b 0) (\<lambda>(m, offset).
      rbind (ensure_consumed b offset) (\<lambda>_. Ok m)))"
    and reader_parses: "wf m \<Longrightarrow> parses reader (body m) m"
    and reader_sound: "sound reader (\<lambda>m cs. wf m \<and> length cs = length (body m))"
begin

lemma roundtrip: "wf m \<Longrightarrow> encode m = Ok frame \<Longrightarrow> decode frame = Ok m"
proof -
  assume wf: "wf m" and enc: "encode m = Ok frame"
  then have f: "frame_body (body m) = Ok frame" by (simp add: encode_wf)
  then have "length (body m) < usize_bound"
    by (simp add: frame_body_Ok_iff usize_bound_def)
  with run_parser_parses(2) [OF reader_parses [OF wf]]
  have "reader (body m) 0 = Ok (m, length (body m))" by simp
  then show "decode frame = Ok m"
    using f by (simp add: decode_eq decode_framed_body_Ok_iff [symmetric] ensure_consumed_def)
qed

lemma encode_wf_succeeds: "wf m \<Longrightarrow> length (body m) < 2 ^ 32 \<Longrightarrow> \<exists>frame. encode m = Ok frame"
  by (simp add: encode_wf frame_body_Ok_iff)

lemma decode_no_panic: "decode frame \<noteq> Panicked"
proof
  assume panic: "decode frame = Panicked"
  then obtain b where b: "frame_body b = Ok frame"
    and r: "rbind (reader b 0) (\<lambda>(m, offset). rbind (ensure_consumed b offset) (\<lambda>_. Ok m)) = Panicked"
    by (auto simp: decode_eq rbind_eq_Inl_iff decode_framed_body_no_panic decode_framed_body_Ok_iff)
  then have len: "length b < usize_bound" by (simp add: frame_body_Ok_iff usize_bound_def)
  show False
    using r sound_no_panic [OF reader_sound _ len, of 0] sound_Ok [OF reader_sound _ len, of 0]
      ensure_consumed_no_panic [of _ b]
    by (auto simp: rbind_eq_Inl_iff)
qed

text \<open>A decoded message can be sent again, in a frame of the same length.\<close>

lemma decode_reencodes:
  assumes "decode frame = Ok m"
  shows "wf m \<and> (\<exists>frame'. encode m = Ok frame' \<and> length frame' = length frame \<and> decode frame' = Ok m)"
proof -
  obtain b k where b: "frame_body b = Ok frame" and r: "reader b 0 = Ok (m, k)" and k: "k = length b"
    using assms by (auto simp: decode_eq rbind_eq_Inr_iff decode_framed_body_Ok_iff)
  have len: "length b < usize_bound" using b by (simp add: frame_body_Ok_iff usize_bound_def)
  have wf: "wf m" and lb: "length (body m) = length b"
    using sound_Ok [OF reader_sound _ len r] k by simp_all
  obtain frame' where f: "encode m = Ok frame'" "length frame' = length frame"
    using b lb wf by (auto simp: encode_wf frame_body_Ok_iff)
  show ?thesis using wf f roundtrip [OF wf f(1)] by blast
qed

end

lemma parses_u8_bind: "parses (f v) ds w \<Longrightarrow> parses (pbind read_u8 f) (v # ds) w"
  using parses_bind [OF handoff_u8_parses, of f v ds w] by simp

lemmas handoff_steps = parses_u8_bind parses_lift_bind parses_bind parses_bind_last handoff_parses parses_return_eq

section \<open>Requests\<close>

definition request_wf :: "HandoffRequest \<Rightarrow> bool" where
  "request_wf r \<longleftrightarrow> string_fits (hreq_client_id r) \<and> string_fits (hreq_run_id r)"

definition request_body :: "HandoffRequest \<Rightarrow> u8 list" where
  "request_body r =
     u32_to_le_bytes (hreq_handoff_version r) @ u64_to_le_bytes (hreq_request_id r)
       @ string_bytes (hreq_client_id r) @ string_bytes (hreq_run_id r)
       @ [ReadMode_wire_code (hreq_read_mode r)]"

lemma request_parses: "request_wf m \<Longrightarrow> parses request_reader (request_body m) m"
  unfolding request_reader_def request_body_def request_wf_def
  by (elim conjE, (rule handoff_steps | simp add: read_mode.try_from_code)+)

interpretation request: framed_codec
  encode_request_frame decode_request_frame request_reader request_body request_wf
proof unfold_locales
  show "encode_request_frame m = frame_body (request_body m)" if "request_wf m" for m
    using that by (simp add: encode_request_frame_def request_wf_def push_string_wf push_defs
        request_body_def)
  show "encode_request_frame m \<noteq> Panicked" for m
    by (auto simp: encode_request_frame_def rbind_eq_Inl_iff push_string_no_panic
        frame_body_no_panic Let_def)
  show "parses request_reader (request_body m) m" if "request_wf m" for m
    using that by (rule request_parses)
  show "sound request_reader (\<lambda>m cs. request_wf m \<and> length cs = length (request_body m))"
    unfolding request_reader_def
    by (rule sound_mono, (rule sound_bind handoff_sound sound_lift sound_return
          read_mode.try_from_no_panic)+)
      (auto simp: request_wf_def request_body_def)
qed (simp add: decode_request_frame_def)

section \<open>Responses\<close>

text \<open>
  The retained keyframe's id travels as a number next to the flag, so the two have to agree;
  the declared payload length has to be the payload's.
\<close>

fun response_wf :: "HandoffResponse \<Rightarrow> bool" where
  "response_wf (FrameRead _ _ _ available frame_id frame) \<longleftrightarrow>
     available = (frame_id \<noteq> None) \<and> string_fits (hf_client_id frame) \<and>
     string_fits (hf_run_id frame) \<and>
     unat (hf_encoded_payload_len frame) = length (hf_encoded_payload frame)"
| "response_wf (NoFrame _ client_id run_id _ _ _ _ available frame_id) \<longleftrightarrow>
     available = (frame_id \<noteq> None) \<and> string_fits client_id \<and> string_fits run_id"
| "response_wf (HandoffError _ _) \<longleftrightarrow> True"

definition retained_bytes :: "bool \<Rightarrow> u64 option \<Rightarrow> u8 list" where
  "retained_bytes available frame_id =
     [u8_from_bool available] @ u64_to_le_bytes (case frame_id of None \<Rightarrow> 0 | Some i \<Rightarrow> i)"

fun response_body :: "HandoffResponse \<Rightarrow> u8 list" where
  "response_body (FrameRead request_id remaining source available frame_id frame) =
     u64_to_le_bytes request_id @ [SERVER_SWITCHER_HANDOFF_RESPONSE_KIND_FRAME_READ]
       @ u32_to_le_bytes remaining @ [DecodableSource_wire_code source]
       @ [u8_from_bool available]
       @ u64_to_le_bytes (case frame_id of None \<Rightarrow> 0 | Some i \<Rightarrow> i)
       @ string_bytes (hf_client_id frame) @ string_bytes (hf_run_id frame)
       @ u64_to_le_bytes (hf_frame_id frame) @ u64_to_le_bytes (hf_capture_timestamp frame)
       @ u64_to_le_bytes (hf_send_timestamp frame) @ u64_to_le_bytes (hf_queued_at frame)
       @ u32_to_le_bytes (hf_width frame) @ u32_to_le_bytes (hf_height frame)
       @ u32_to_le_bytes (hf_fps_nominal frame) @ [u8_from_bool (hf_is_keyframe frame)]
       @ u16_to_le_bytes (Codec_wire_code (hf_codec frame))
       @ u32_to_le_bytes (hf_encoded_payload_len frame) @ hf_encoded_payload frame"
| "response_body (NoFrame request_id client_id run_id read_mode queue_len reason source available frame_id) =
     u64_to_le_bytes request_id @ [SERVER_SWITCHER_HANDOFF_RESPONSE_KIND_NO_FRAME]
       @ u32_to_le_bytes queue_len @ [NoFrameReason_wire_code reason]
       @ [DecodableSource_wire_code source] @ [u8_from_bool available]
       @ u64_to_le_bytes (case frame_id of None \<Rightarrow> 0 | Some i \<Rightarrow> i)
       @ string_bytes client_id @ string_bytes run_id @ [ReadMode_wire_code read_mode]"
| "response_body (HandoffError request_id error) =
     u64_to_le_bytes request_id @ [SERVER_SWITCHER_HANDOFF_RESPONSE_KIND_ERROR]
       @ [HandoffErrorCode_wire_code error]"

lemma u8_from_bool_nonzero [simp]: "u8_from_bool b \<noteq> 0 \<longleftrightarrow> b" "u8_from_bool b = 0 \<longleftrightarrow> \<not> b"
  by (simp_all add: u8_from_bool_def)

lemma then_some_unwrap:
  "b = (x \<noteq> None) \<Longrightarrow> then_some b (case x of None \<Rightarrow> 0 | Some i \<Rightarrow> i) = x"
  by (cases x) (simp_all add: then_some_def)

lemma then_some_None_iff [simp]: "then_some b v = None \<longleftrightarrow> \<not> b"
  by (simp add: then_some_def)

lemma codec_lift: "rmap_err f (Codec_try_from (Codec_wire_code c)) = Ok c"
  by (simp add: codec.try_from_code)

lemma codec_lift_no_panic: "rmap_err f (Codec_try_from w) \<noteq> Panicked"
  by (simp add: rmap_err_eq_Panic_iff codec.try_from_no_panic)

lemmas response_codes =
  decodable_source.try_from_code no_frame_reason.try_from_code read_mode.try_from_code
  handoff_error_code.try_from_code codec_lift then_some_unwrap

lemma drop_response_head [simp]: "drop 9 (u64_to_le_bytes q @ k # cs) = cs"
  by simp

lemma frame_read_parses:
  "response_wf (FrameRead q n s a x f) \<Longrightarrow>
     parses (frame_read_reader q) (drop 9 (response_body (FrameRead q n s a x f)))
       (FrameRead q n s a x f)"
  unfolding frame_read_reader_def read_bytes_def response_body.simps response_wf.simps
    drop_response_head append_Cons [of _ "[]"] append_Nil
  by (elim conjE, (rule handoff_steps | simp add: response_codes)+)

lemma no_frame_parses:
  "response_wf (NoFrame q c r m n e s a x) \<Longrightarrow>
     parses (no_frame_reader q) (drop 9 (response_body (NoFrame q c r m n e s a x)))
       (NoFrame q c r m n e s a x)"
  unfolding no_frame_reader_def response_body.simps response_wf.simps
    drop_response_head append_Cons [of _ "[]"] append_Nil
  by (elim conjE, (rule handoff_steps | simp add: response_codes)+)

lemma handoff_error_parses:
  "parses (handoff_error_reader q) (drop 9 (response_body (HandoffError q e))) (HandoffError q e)"
  unfolding handoff_error_reader_def response_body.simps drop_response_head
    append_Cons [of _ "[]"] append_Nil
  by (rule handoff_steps | simp add: response_codes)+

lemma response_reader_parses:
  assumes "parses (if k = SERVER_SWITCHER_HANDOFF_RESPONSE_KIND_FRAME_READ then frame_read_reader q
     else if k = SERVER_SWITCHER_HANDOFF_RESPONSE_KIND_NO_FRAME then no_frame_reader q
     else if k = SERVER_SWITCHER_HANDOFF_RESPONSE_KIND_ERROR then handoff_error_reader q
     else plift (Error (UnknownResponseKind k))) cs m"
  shows "parses response_reader (u64_to_le_bytes q @ k # cs) m"
  unfolding response_reader_def by (rule parses_bind parses_u8_bind handoff_parses assms)+

lemma frame_read_sound:
  "sound (frame_read_reader q)
     (\<lambda>m cs. response_wf m \<and> 9 + length cs = length (response_body m))"
  unfolding frame_read_reader_def read_bytes_def
  by (rule sound_mono, (rule sound_bind handoff_sound sound_lift sound_return codec_lift_no_panic
        decodable_source.try_from_no_panic)+)
    auto

lemma no_frame_sound:
  "sound (no_frame_reader q)
     (\<lambda>m cs. response_wf m \<and> 9 + length cs = length (response_body m))"
  unfolding no_frame_reader_def
  by (rule sound_mono, (rule sound_bind handoff_sound sound_lift sound_return
        decodable_source.try_from_no_panic no_frame_reason.try_from_no_panic
        read_mode.try_from_no_panic)+)
    auto

lemma handoff_error_sound:
  "sound (handoff_error_reader q)
     (\<lambda>m cs. response_wf m \<and> 9 + length cs = length (response_body m))"
  unfolding handoff_error_reader_def
  by (rule sound_mono, (rule sound_bind handoff_sound sound_lift sound_return
        handoff_error_code.try_from_no_panic)+)
    auto

lemma unknown_kind_sound: "sound (plift (Error e)) E"
  by (rule soundI) (simp_all add: plift_def)

lemma response_reader_sound:
  "sound response_reader (\<lambda>m cs. response_wf m \<and> length cs = length (response_body m))"
proof -
  have "sound response_reader (\<lambda>m cs. \<exists>q c1 c2. cs = c1 @ c2 \<and> (True \<and> c1 = u64_to_le_bytes q)
      \<and> (\<exists>k d1 d2. c2 = d1 @ d2 \<and> (True \<and> d1 = [k])
          \<and> (response_wf m \<and> 9 + length d2 = length (response_body m))))"
    unfolding response_reader_def
    by (rule sound_bind handoff_sound)+
      (simp add: frame_read_sound no_frame_sound handoff_error_sound unknown_kind_sound)
  then show ?thesis by (rule sound_mono) auto
qed

interpretation response: framed_codec
  encode_response_frame decode_response_frame response_reader response_body response_wf
proof unfold_locales
  show "encode_response_frame m = frame_body (response_body m)" if "response_wf m" for m
    using that
    by (cases m) (simp_all add: encode_response_frame_def push_string_wf push_defs Let_def)
  show "encode_response_frame m \<noteq> Panicked" for m
    by (cases m) (auto simp: encode_response_frame_def rbind_eq_Inl_iff push_string_no_panic
        frame_body_no_panic Let_def)
  show "parses response_reader (response_body m) m" if "response_wf m" for m
    using that
    by (cases m)
      (use frame_read_parses no_frame_parses handoff_error_parses in
        \<open>simp_all add: response_reader_parses handoff_kinds\<close>)
  show "sound response_reader (\<lambda>m cs. response_wf m \<and> length cs = length (response_body m))"
    by (rule response_reader_sound)
qed (simp add: decode_response_frame_def)

end
