(* ===== verification/Video_Path.thy ===== *)
theory Video_Path
  imports Client_Video Server_Reassembly Handoff_Frames
begin

text \<open>
  The way of a video frame through the system: cut and encoded by the client, decoded and
  reassembled by the server, queued, and read by the switcher. The lemmas join the contracts
  of the components along that way.
\<close>

section \<open>The client's fragments are what the server collects\<close>

definition fragment_template :: "VideoFrame \<Rightarrow> VideoFrameFragment" where
  "fragment_template frame = fragment_at frame [[]] 0"

lemma fragment_at_is_fragment_of:
  "concat chunks = vf_payload frame \<Longrightarrow>
     fragment_at frame chunks i = fragment_of (fragment_template frame) chunks i"
  by (simp add: fragment_at_def fragment_of_def fragment_template_def del: length_concat)

lemma frame_chunks_concat:
  assumes "room_for_chunks policy frame" and "0 < target_chunk_payload_len policy"
  shows "concat (frame_chunks policy frame) = vf_payload frame"
  using assms by (simp add: frame_chunks_def concat_slice_chunks chunk_width_def room_for_chunks_def)

lemma frame_chunks_sendable:
  assumes "room_for_chunks policy frame" and "0 < target_chunk_payload_len policy"
    and "length (vf_payload frame) < 2 ^ 32"
  shows "sendable (frame_chunks policy frame)"
proof -
  have w: "0 < chunk_width policy frame" using assms(1,2) by (simp add: chunk_width_def room_for_chunks_def)
  have "length (frame_chunks policy frame) \<le> length (vf_payload frame)"
    by (simp add: frame_chunks_def length_slice_chunks [OF w] usize_div_ceil_le [OF w])
  with assms show ?thesis
    by (simp add: sendable_def frame_chunks_concat [OF assms(1,2)] del: length_concat)
qed

text \<open>
  What arrives: the fragment has no send timestamp, so the server puts the capture timestamp
  in its place.
\<close>

lemma frame_of_template:
  assumes "video_frame_wf v frame" and "vf_codec frame = H264" and "concat chunks = vf_payload frame"
  shows "frame_of_chunks (fragment_template frame) chunks =
    frame \<lparr> vf_send_timestamp := vf_capture_timestamp frame \<rparr>"
  using assms by (cases frame) (simp add: frame_of_chunks_def fragment_template_def fragment_at_def
      video_frame_wf_def del: length_concat)

section \<open>Successful attempts\<close>

lemma fragment_chunk_small:
  assumes "room_for_chunks policy frame" and "i < length (frame_chunks policy frame)"
    and "safe_max_datagram_len policy < 2 ^ 32"
  shows "length (message_bytes (Message_VideoFrameFragment (fragment_at frame (frame_chunks policy frame) i))) < 2 ^ 32"
    and "length (frame_chunks policy frame ! i) < 2 ^ 32"
  using fragment_wire_length [OF assms(1,2)] frame_chunks_bound [OF assms(2)] assms(3)
  unfolding chunk_width_def by linarith+

lemma fragment_handoff_length:
  assumes "room_for_chunks policy frame" and "i < length (frame_chunks policy frame)"
  shows "length (fsh_encoded_bytes (encoded_fragment d (fragment_at frame (frame_chunks policy frame) i)))
    \<le> safe_max_datagram_len policy"
  using fragment_wire_length [OF assms] by (simp add: encoded_fragment_def del: message_bytes.simps)

definition policy_ok :: "ClientVideoFrameFragmentationPolicy \<Rightarrow> bool" where
  "policy_ok policy \<longleftrightarrow> 0 < target_chunk_payload_len policy \<and> safe_max_datagram_len policy < 2 ^ 32"

lemma policy_default_ok: "policy_ok ClientVideoFrameFragmentationPolicy_default"
  by (simp add: policy_ok_def ClientVideoFrameFragmentationPolicy_default_def
      CLIENT_VIDEO_FRAME_SAFE_MAX_DATAGRAM_LEN_def
      CLIENT_VIDEO_FRAME_FRAGMENT_TARGET_CHUNK_PAYLOAD_LEN_def)

lemma frame_packet:
  assumes wf: "video_frame_wf (ec_protocol_version ctx) frame"
    and enc: "ProtocolMessageEncoderBoundary_encode_message ctx (Message_VideoFrame frame) [] = Ok bs"
  shows "bs = packet_of (ec_protocol_version ctx) (Message_VideoFrame frame) 0 0"
proof -
  have "length (video_frame_bytes frame) < 2 ^ 32"
    using enc video_frame_encodes [OF wf, of "[]"]
    by (auto simp: encode_video_frame_def encode_packet_def u32_try_from_def split: if_splits)
  then show ?thesis using encoded_packet_of [of ctx "Message_VideoFrame frame"] wf enc by simp
qed

text \<open>
  A successful attempt sent either the frame's own packet or the packets of all its fragments,
  and no datagram is longer than the policy allows.
\<close>

lemma send_one_Ok:
  assumes p: "policy_ok policy" and wf: "video_frame_wf (vf_protocol_version (vsi_frame input)) (vsi_frame input)"
    and res: "ClientVideoFrameEncodeSendBoundary_send_one_detailed_with_fragment_pacing policy socket
      elapsed input pacing = Ok r"
  defines "frame \<equiv> vsi_frame input"
  obtains (direct) "vsr_summary r = DirectSent" "vsr_fragment_handoffs r = []"
      "\<exists>h. vsr_handoff r = Some h \<and> vsh_frame h = frame \<and>
         vsh_encoded_bytes h = packet_of (vf_protocol_version frame) (Message_VideoFrame frame) 0 0 \<and>
         length (vsh_encoded_bytes h) \<le> safe_max_datagram_len policy"
  | (fragmented) n where "vsr_summary r = FragmentedSent n n" "vsr_handoff r = None"
      "room_for_chunks policy frame"
      "vsr_fragment_handoffs r = List.map (\<lambda>i. encoded_fragment (vsi_destination input)
         (fragment_at frame (frame_chunks policy frame) i)) [0..<length (frame_chunks policy frame)]"
      "\<forall>h \<in> set (vsr_fragment_handoffs r). length (fsh_encoded_bytes h) \<le> safe_max_datagram_len policy"
proof -
  have small: "length (vf_payload frame) < 2 ^ 32" and ids: "string_fits (vf_client_id frame)" "string_fits (vf_run_id frame)"
    using wf by (simp_all add: video_frame_wf_def frame_def)
  obtain handoff where h: "ClientVideoFrameEncodeSendBoundary_encode_handoff input = Ok handoff"
    using res by (auto simp: ClientVideoFrameEncodeSendBoundary_send_one_detailed_with_fragment_pacing_def
        Let_def rbind_eq_Inr_iff rmap_err_eq_Inr_iff)
  have bytes: "handoff = \<lparr> vsh_destination = vsi_destination input, vsh_frame = frame,
      vsh_encoded_bytes = packet_of (vf_protocol_version frame) (Message_VideoFrame frame) 0 0 \<rparr>"
    using h frame_packet [of "\<lparr> ec_protocol_version = vf_protocol_version frame \<rparr>" frame] wf
    by (auto simp: ClientVideoFrameEncodeSendBoundary_encode_handoff_def frame_def rbind_eq_Inr_iff
        rmap_err_eq_Inr_iff split: if_splits)
  show thesis
  proof (cases "length (vsh_encoded_bytes handoff) \<le> safe_max_datagram_len policy")
    case True
    with res show thesis
      by (intro direct) (auto simp: h bytes Let_def rbind_eq_Inr_iff rmap_err_eq_Inr_iff
          ClientVideoFrameEncodeSendBoundary_send_one_detailed_with_fragment_pacing_def)
  next
    case False
    then obtain fragments failure hs n slept where
        fragments: "ClientVideoFrameFragmentationBoundary_fragment policy frame = Ok fragments"
      and loop: "send_fragments policy socket (vsi_destination input) pacing failure fragments [] 0 0 = Ok (hs, n, slept)"
      and r: "vsr_summary r = FragmentedSent (word_of_nat (length hs)) (word_of_nat (length hs))"
        "vsr_handoff r = None" "vsr_fragment_handoffs r = hs"
      using res by (auto simp: h bytes Let_def rbind_eq_Inr_iff rmap_err_eq_Inr_iff
          ClientVideoFrameEncodeSendBoundary_send_one_detailed_with_fragment_pacing_def)
    have room: "room_for_chunks policy frame"
      using fragments fragment_no_room [of policy frame] by (cases "room_for_chunks policy frame") simp_all
    have fs: "fragments = List.map (fragment_at frame (frame_chunks policy frame)) [0..<length (frame_chunks policy frame)]"
      using fragments fragment_Ok [OF room _ small] p by (simp add: policy_ok_def)
    have "message_wf (vff_protocol_version f) (Message_VideoFrameFragment f) \<and>
        length (message_bytes (Message_VideoFrameFragment f)) < 2 ^ 32" if f: "f \<in> set fragments" for f
    proof -
      obtain i where i: "i < length (frame_chunks policy frame)" "f = fragment_at frame (frame_chunks policy frame) i"
        using f by (auto simp: fs)
      then show ?thesis
        using fragment_chunk_small [OF room i(1)] p fragment_at_wf [OF ids, of "frame_chunks policy frame" i]
        by (simp add: policy_ok_def fragment_at_def)
    qed
    then have hs: "hs = List.map (encoded_fragment (vsi_destination input)) fragments"
      using send_fragments_Ok [OF loop] by simp
    show thesis
      by (rule fragmented [OF r(1,2) room]) (auto simp: r hs fs fragment_handoff_length [OF room])
  qed
qed

section \<open>From datagrams to the queue\<close>

definition received ::
  "ProtocolVersion \<Rightarrow> u8 list \<Rightarrow> ServerRegisteredVideoFrameFragmentPacket \<Rightarrow> bool" where
  "received v datagram packet \<longleftrightarrow>
     InboundPacketDecoder_decode \<lparr> dc_expected_protocol_version = v \<rparr>
       \<lparr> ib_source = srf_source packet, ib_bytes = datagram \<rparr> =
     Ok \<lparr> dip_source = srf_source packet,
          dip_message = Message_VideoFrameFragment (srf_fragment packet) \<rparr>"

definition frame_key :: "VideoFrame \<Rightarrow> ServerVideoFrameReassemblyKey" where
  "frame_key frame = ReassemblyKey (vf_client_id frame) (vf_run_id frame) (vf_frame_id frame)"

lemma received_fragment:
  assumes "video_frame_wf v frame" and "room_for_chunks policy frame" and "policy_ok policy"
    and "i < length (frame_chunks policy frame)"
  shows "received v (fsh_encoded_bytes (encoded_fragment d (fragment_at frame (frame_chunks policy frame) i))) packet
    \<longleftrightarrow> srf_fragment packet = fragment_at frame (frame_chunks policy frame) i"
proof -
  let ?f = "fragment_at frame (frame_chunks policy frame) i"
  have v: "vff_protocol_version ?f = v" "vf_protocol_version frame = v"
    using assms(1) by (simp_all add: fragment_at_def video_frame_wf_def)
  have "message_wf v (Message_VideoFrameFragment ?f)" and "length (message_bytes (Message_VideoFrameFragment ?f)) < 2 ^ 32"
    using fragment_at_wf [of frame "frame_chunks policy frame" i] fragment_chunk_small [OF assms(2,4)] assms(1,3) v
    by (simp_all add: video_frame_wf_def policy_ok_def)
  then have "InboundPacketDecoder_decode \<lparr> dc_expected_protocol_version = v \<rparr>
      \<lparr> ib_source = s, ib_bytes = packet_of v (Message_VideoFrameFragment ?f) 0 0 \<rparr>
    = Ok \<lparr> dip_source = s, dip_message = Message_VideoFrameFragment ?f \<rparr>" for s
    by (subst inbound_decode_Ok_iff) (auto simp: usize_bound_def)
  then show ?thesis by (auto simp: received_def encoded_fragment_def v)
qed

text \<open>
  The whole way: whatever the order in which the datagrams of one frame arrive, however often
  each is repeated and whatever arrives between them, the arrival of the last missing one
  completes the frame the client sent and queues it.
\<close>

lemma datagrams_complete_frame:
  fixes policy frame v d
  defines "chunks \<equiv> frame_chunks policy frame"
  defines "D \<equiv> (\<lambda>i. fsh_encoded_bytes (encoded_fragment d (fragment_at frame chunks i))) ` {..<length chunks}"
  assumes wf: "video_frame_wf v frame" and codec: "vf_codec frame = H264"
    and room: "room_for_chunks policy frame" and p: "policy_ok policy"
    and ok: "reassembly_ok (fst s)"
    and fresh: "btree_get (reassembly_frames (fst s)) (frame_key frame) = None"
    and genuine: "\<And>i. i \<in> set (inputs @ [(packet, t)]) \<Longrightarrow> key_of (fst i) = frame_key frame \<Longrightarrow>
      \<exists>bs \<in> D. received v bs (fst i)"
    and all: "\<And>bs. bs \<in> D \<Longrightarrow> \<exists>i \<in> set (inputs @ [(packet, t)]). received v bs (fst i)"
    and new: "bs \<in> D" "received v bs packet" "\<And>i. i \<in> set inputs \<Longrightarrow> \<not> received v bs (fst i)"
  obtains st q sm qr where "apply_all qp s inputs = (st, q)"
    and "snd (snd (apply_fragment st q packet t qp)) =
      Ok (FrameComplete sm (frame \<lparr> vf_send_timestamp := vf_capture_timestamp frame \<rparr>) qr)"
    and "apply_step qp (st, q) (packet, t) =
      (fst (apply_fragment st q packet t qp),
       store_packet qp q (completed_packet packet
         (frame \<lparr> vf_send_timestamp := vf_capture_timestamp frame \<rparr>), t))"
    and "btree_get (reassembly_frames (fst (apply_fragment st q packet t qp))) (frame_key frame) = None"
proof -
  let ?m = "fragment_template frame"
  have cs: "sendable chunks" and cat: "concat chunks = vf_payload frame"
    using wf p room frame_chunks_sendable [OF room] frame_chunks_concat [OF room]
    by (simp_all add: chunks_def video_frame_wf_def policy_ok_def del: length_concat)
  have key: "ServerVideoFrameReassemblyKey_from_fragment ?m = frame_key frame"
    by (simp add: ServerVideoFrameReassemblyKey_from_fragment_def fragment_template_def fragment_at_def frame_key_def)
  have rec: "received v (fsh_encoded_bytes (encoded_fragment d (fragment_at frame chunks i))) q \<longleftrightarrow>
      srf_fragment q = fragment_of ?m chunks i" if "i < length chunks" for i q
    using received_fragment [OF wf room p, of i d q] that fragment_at_is_fragment_of [OF cat, of i]
    by (simp add: chunks_def)
  have gen: "genuine ?m chunks (inputs @ [(packet, t)])"
    unfolding genuine_def key
  proof (intro ballI impI)
    fix i assume "i \<in> set (inputs @ [(packet, t)])" "key_of (fst i) = frame_key frame"
    from genuine [OF this] show "\<exists>j<length chunks. srf_fragment (fst i) = fragment_of ?m chunks j"
      by (auto simp: D_def rec)
  qed
  have arrives: "j \<in> carried ?m is" if "j < length chunks" "i \<in> set is" "srf_fragment (fst i) = fragment_of ?m chunks j" for i j "is"
    using that fragment_of_shape(3) [OF cs that(1), of ?m]
    by (auto simp: carried_def image_iff intro!: exI [of _ "fst i"] exI [of _ "snd i"])
  have covers: "{..<length chunks} \<subseteq> carried ?m (inputs @ [(packet, t)])"
  proof
    fix j assume j: "j \<in> {..<length chunks}"
    then obtain i where i: "i \<in> set (inputs @ [(packet, t)])"
        "received v (fsh_encoded_bytes (encoded_fragment d (fragment_at frame chunks j))) (fst i)"
      using all unfolding D_def by blast
    with j show "j \<in> carried ?m (inputs @ [(packet, t)])"
      using rec by (intro arrives [OF _ i(1)]) simp_all
  qed
  obtain j where j: "j < length chunks" "bs = fsh_encoded_bytes (encoded_fragment d (fragment_at frame chunks j))"
    using new(1) by (auto simp: D_def)
  have last: "srf_fragment packet = fragment_of ?m chunks j" using new(2) rec j by simp
  have "j \<notin> carried ?m inputs"
  proof
    assume "j \<in> carried ?m inputs"
    then obtain i where i: "i \<in> set inputs" "key_of (fst i) = frame_key frame"
        "unat (vff_chunk_index (srf_fragment (fst i))) = j"
      by (auto simp: carried_def key)
    then obtain k where "k < length chunks" "srf_fragment (fst i) = fragment_of ?m chunks k"
      using gen by (auto simp: genuine_def key)
    then have "srf_fragment (fst i) = fragment_of ?m chunks j"
      using i(3) fragment_of_shape(3) [OF cs, of k ?m] by simp
    then show False using new(3) [OF i(1)] rec j by simp
  qed
  then have missing: "\<not> {..<length chunks} \<subseteq> carried ?m inputs" using j(1) by blast
  have "key_of packet = ServerVideoFrameReassemblyKey_from_fragment ?m" using last by simp
  moreover have "collects (fst s) ?m chunks {}" using fresh by (simp add: collects_def key)
  ultimately show thesis
    using any_order_completes [OF ok cs _ gen _ missing covers, of qp thesis] that
    by (simp add: frame_of_template [OF wf codec cat] key)
qed

section \<open>Properties\<close>

text \<open>
  C30: A successful attempt puts no datagram on the wire that is longer than the policy allows,
  whether the frame is sent in one packet or in fragments, and fragments carry the payload cut
  into consecutive pieces.
\<close>

theorem datagrams_stay_within_limit:
  assumes "policy_ok policy" and "video_frame_wf (vf_protocol_version (vsi_frame input)) (vsi_frame input)"
    and "ClientVideoFrameEncodeSendBoundary_send_one_detailed_with_fragment_pacing policy socket
      elapsed input pacing = Ok r"
  shows "(\<forall>h \<in> set (vsr_fragment_handoffs r). length (fsh_encoded_bytes h) \<le> safe_max_datagram_len policy) \<and>
    (case vsr_handoff r of
       Some h \<Rightarrow> vsr_fragment_handoffs r = [] \<and> length (vsh_encoded_bytes h) \<le> safe_max_datagram_len policy
     | None \<Rightarrow> concat (List.map (\<lambda>h. vff_chunk_payload (fsh_fragment h)) (vsr_fragment_handoffs r))
         = vf_payload (vsi_frame input))"
proof (rule send_one_Ok [OF assms])
  fix n
  assume room: "room_for_chunks policy (vsi_frame input)" and none: "vsr_handoff r = None"
    and hs: "vsr_fragment_handoffs r = List.map (\<lambda>i. encoded_fragment (vsi_destination input)
         (fragment_at (vsi_frame input) (frame_chunks policy (vsi_frame input)) i))
         [0..<length (frame_chunks policy (vsi_frame input))]"
    and short: "\<forall>h \<in> set (vsr_fragment_handoffs r). length (fsh_encoded_bytes h) \<le> safe_max_datagram_len policy"
  have "concat (List.map (\<lambda>h. vff_chunk_payload (fsh_fragment h)) (vsr_fragment_handoffs r))
      = concat (frame_chunks policy (vsi_frame input))"
    by (simp add: hs o_def encoded_fragment_def fragment_at_def map_nth)
  then show ?thesis
    using frame_chunks_concat [OF room] assms(1) none short by (simp add: policy_ok_def)
qed auto

definition camera_frame :: VideoFrame where
  "camera_frame = \<lparr> vf_message_type = MessageType_VideoFrame, vf_protocol_version = 1,
     vf_client_id = ''cam-1'', vf_run_id = ''run-1'', vf_frame_id = 7, vf_capture_timestamp = 1000,
     vf_send_timestamp = 1001, vf_is_keyframe = True, vf_metadata_reserved = (0, 0, 0),
     vf_width = 640, vf_height = 360, vf_fps_nominal = 30, vf_codec = H264,
     vf_payload_size = 24, vf_payload = replicate 12 1 @ replicate 12 2 \<rparr>"

definition small_policy :: ClientVideoFrameFragmentationPolicy where
  "small_policy = \<lparr> safe_max_datagram_len = 90, target_chunk_payload_len = 12 \<rparr>"

definition steady_socket :: UdpSocket where
  "steady_socket = \<lparr> udp_local_addr = None, udp_send_to = (\<lambda>_ bs _. Ok (length bs)) \<rparr>"

definition camera_input :: ClientVideoFrameEncodeSendInput where
  "camera_input = \<lparr> vsi_destination = SocketAddrV4 0x0A000002 5000, vsi_frame = camera_frame \<rparr>"

abbreviation camera_attempt ::
  "(ClientVideoFrameEncodeSendRuntimeResult, ClientVideoFrameEncodeSendFailure) result" where
  "camera_attempt \<equiv> ClientVideoFrameEncodeSendBoundary_send_one_detailed_with_fragment_pacing
     small_policy steady_socket 5 camera_input ClientVideoFrameFragmentPacingPolicy_default"

lemma small_policy_ok: "policy_ok small_policy"
  by (simp add: small_policy_def policy_ok_def)

lemma camera_frame_wf: "video_frame_wf 1 camera_frame"
  by (simp add: camera_frame_def video_frame_wf_def string_fits_def sample_utf8)

lemma camera_attempt_Ok: "\<exists>r. camera_attempt = Ok r \<and> vsr_handoff r = None"
proof -
  have "case camera_attempt of Inr r \<Rightarrow> (case vsr_handoff r of None \<Rightarrow> True | Some _ \<Rightarrow> False) | _ \<Rightarrow> False"
    by code_simp
  then show ?thesis by (auto split: sum.splits option.splits)
qed

lemma datagrams_stay_within_limit_witness:
  "\<exists>r. camera_attempt = Ok r \<and>
     concat (List.map (\<lambda>h. vff_chunk_payload (fsh_fragment h)) (vsr_fragment_handoffs r)) = vf_payload camera_frame \<and>
     list_all (\<lambda>h. length (fsh_encoded_bytes h) \<le> 90) (vsr_fragment_handoffs r)"
proof -
  obtain r where r: "camera_attempt = Ok r" "vsr_handoff r = None" using camera_attempt_Ok by blast
  show ?thesis
    using datagrams_stay_within_limit [OF small_policy_ok _ r(1)] camera_frame_wf r
    by (simp add: camera_input_def small_policy_def camera_frame_def list_all_iff)
qed

text \<open>
  C5: The whole way of a fragmented frame: when the server's decoder accepts datagrams with the
  frame's identity only if the client sent them, and every datagram of the attempt is received
  at least once, in any order, repeated or mixed with the fragments of other frames, then the
  arrival of the last missing one completes the frame the client sent and stores it in the
  queue. Only the send timestamp is lost: the capture timestamp stands in its place.
\<close>

theorem sent_frame_arrives:
  assumes p: "policy_ok policy"
    and wf: "video_frame_wf v (vsi_frame input)" and codec: "vf_codec (vsi_frame input) = H264"
    and sent: "ClientVideoFrameEncodeSendBoundary_send_one_detailed_with_fragment_pacing policy socket
      elapsed input pacing = Ok r" and fragmented: "vsr_handoff r = None"
    and ok: "reassembly_ok (fst s)"
    and fresh: "btree_get (reassembly_frames (fst s)) (frame_key (vsi_frame input)) = None"
    and genuine: "\<forall>i \<in> set (inputs @ [(packet, t)]). key_of (fst i) = frame_key (vsi_frame input) \<longrightarrow>
      (\<exists>h \<in> set (vsr_fragment_handoffs r). received v (fsh_encoded_bytes h) (fst i))"
    and all: "\<forall>h \<in> set (vsr_fragment_handoffs r). \<exists>i \<in> set (inputs @ [(packet, t)]).
      received v (fsh_encoded_bytes h) (fst i)"
    and last: "h \<in> set (vsr_fragment_handoffs r)" "received v (fsh_encoded_bytes h) packet"
      "\<forall>i \<in> set inputs. \<not> received v (fsh_encoded_bytes h) (fst i)"
    and frame: "frame = (vsi_frame input) \<lparr> vf_send_timestamp := vf_capture_timestamp (vsi_frame input) \<rparr>"
  shows "\<exists>st q summary stored. apply_all queue_policy s inputs = (st, q) \<and>
    snd (snd (apply_fragment st q packet t queue_policy)) = Ok (FrameComplete summary frame stored) \<and>
    snd (apply_step queue_policy (st, q) (packet, t)) =
      store_packet queue_policy q (completed_packet packet frame, t)"
proof -
  have v: "vf_protocol_version (vsi_frame input) = v" using wf by (simp add: video_frame_wf_def)
  show ?thesis
  proof (rule send_one_Ok [OF p _ sent])
    show "video_frame_wf (vf_protocol_version (vsi_frame input)) (vsi_frame input)" using wf v by simp
  next
    fix n
    let ?chunks = "frame_chunks policy (vsi_frame input)"
    let ?D = "(\<lambda>i. fsh_encoded_bytes (encoded_fragment (vsi_destination input)
      (fragment_at (vsi_frame input) ?chunks i))) ` {..<length ?chunks}"
    assume room: "room_for_chunks policy (vsi_frame input)"
      and hs: "vsr_fragment_handoffs r = List.map (\<lambda>i. encoded_fragment (vsi_destination input)
         (fragment_at (vsi_frame input) ?chunks i)) [0..<length ?chunks]"
    have D: "?D = fsh_encoded_bytes ` set (vsr_fragment_handoffs r)"
      by (simp add: hs image_image atLeast0LessThan)
    show ?thesis
      by (rule datagrams_complete_frame [OF wf codec room p ok fresh, of inputs packet t
            "vsi_destination input" "fsh_encoded_bytes h" queue_policy, unfolded D])
        (use genuine all last in \<open>auto simp: frame\<close>)
  qed (use fragmented in auto)
qed

definition camera_packet :: "nat \<Rightarrow> ServerRegisteredVideoFrameFragmentPacket" where
  "camera_packet i =
     \<lparr> srf_source = \<lparr> src_address = SocketAddrV4 0x0A000001 40000 \<rparr>,
       srf_authenticated_sender = \<lparr> ase_client_id = ''cam-1'',
         ase_source = \<lparr> src_address = SocketAddrV4 0x0A000001 40000 \<rparr>, ase_run_id = ''run-1'',
         ase_protocol_version = 1, ase_registered_at = None \<rparr>,
       srf_fragment = fragment_at camera_frame (frame_chunks small_policy camera_frame) i \<rparr>"

definition empty_reassembly :: ServerVideoFrameReassemblyState where
  "empty_reassembly = \<lparr> reassembly_frames = [] \<rparr>"

lemma camera_chunks: "length (frame_chunks small_policy camera_frame) = 2"
  by code_simp

lemma camera_room: "room_for_chunks small_policy camera_frame"
  by code_simp

lemma camera_received:
  assumes "i < 2"
  shows "received 1 (fsh_encoded_bytes (encoded_fragment d
      (fragment_at camera_frame (frame_chunks small_policy camera_frame) i))) (camera_packet j) \<longleftrightarrow>
    fragment_at camera_frame (frame_chunks small_policy camera_frame) j =
    fragment_at camera_frame (frame_chunks small_policy camera_frame) i"
  using received_fragment [OF camera_frame_wf camera_room small_policy_ok, of i d "camera_packet j"] assms
  by (simp add: camera_chunks camera_packet_def)

lemma sent_frame_arrives_witness:
  "\<exists>st q summary stored. apply_all ServerVideoFrameQueuePolicy_default
      (empty_reassembly, ServerVideoFrameQueueState_default) [(camera_packet 1, 10)] = (st, q) \<and>
    snd (snd (apply_fragment st q (camera_packet 0) 20 ServerVideoFrameQueuePolicy_default)) =
      Ok (FrameComplete summary (camera_frame \<lparr> vf_send_timestamp := 1000 \<rparr>) stored)"
proof -
  obtain r where r: "camera_attempt = Ok r" "vsr_handoff r = None" using camera_attempt_Ok by blast
  let ?h = "\<lambda>i. encoded_fragment (SocketAddrV4 0x0A000002 5000)
    (fragment_at camera_frame (frame_chunks small_policy camera_frame) i)"
  have wf: "video_frame_wf (vf_protocol_version (vsi_frame camera_input)) (vsi_frame camera_input)"
    using camera_frame_wf by (simp add: camera_input_def camera_frame_def)
  have two: "[0..<2] = [0, Suc 0]" by (simp add: upt_rec)
  have hs: "vsr_fragment_handoffs r = [?h 0, ?h 1]"
    by (rule send_one_Ok [OF small_policy_ok wf r(1)])
      (use r(2) in \<open>simp_all add: camera_input_def camera_chunks two\<close>)
  have distinct: "fragment_at camera_frame (frame_chunks small_policy camera_frame) 0 \<noteq>
      fragment_at camera_frame (frame_chunks small_policy camera_frame) 1"
    by (simp add: fragment_at_def)
  have "\<exists>st q summary stored. apply_all ServerVideoFrameQueuePolicy_default
      (empty_reassembly, ServerVideoFrameQueueState_default) [(camera_packet 1, 10)] = (st, q) \<and>
    snd (snd (apply_fragment st q (camera_packet 0) 20 ServerVideoFrameQueuePolicy_default)) =
      Ok (FrameComplete summary (camera_frame \<lparr> vf_send_timestamp := 1000 \<rparr>) stored) \<and>
    snd (apply_step ServerVideoFrameQueuePolicy_default (st, q) (camera_packet 0, 20)) =
      store_packet ServerVideoFrameQueuePolicy_default q
        (completed_packet (camera_packet 0) (camera_frame \<lparr> vf_send_timestamp := 1000 \<rparr>), 20)"
  proof (rule sent_frame_arrives [OF small_policy_ok _ _ r, of 1 _ _ _ _ "?h 0"])
    show "reassembly_ok (fst (empty_reassembly, ServerVideoFrameQueueState_default))"
      by (simp add: empty_reassembly_def reassembly_ok_def btree.inv_empty btree.lookup_empty)
  qed (use distinct in \<open>auto simp: hs camera_received camera_input_def camera_frame_wf
      empty_reassembly_def btree.lookup_empty\<close>, simp_all add: camera_frame_def)
  then show ?thesis by blast
qed

end
