(* ===== verification/Switcher_Source.thy ===== *)
theory Switcher_Source
  imports Server_Video_Queue Handoff_Frames
begin

text \<open>
  Where the switcher of apps/switcher/src/lib.rs gets encoded frames from: the server's queue
  in the same process, or a server behind a pipe that speaks the handoff codec. Both are
  fallible handoffs; the lemmas show that they answer alike.
\<close>

section \<open>Selected frames\<close>

record SwitcherSingleViewSelectedEncodedFrame =
  sef_client_id :: ClientId
  sef_run_id :: RunId
  sef_frame_id :: u64
  sef_capture_timestamp :: TimestampMicros
  sef_send_timestamp :: TimestampMicros
  sef_queued_at :: TimestampMicros
  sef_is_keyframe :: bool
  sef_width :: u32
  sef_height :: u32
  sef_fps_nominal :: u32
  sef_codec :: Codec
  sef_encoded_payload_len :: nat
  sef_encoded_payload :: "u8 list"

definition SelectedEncodedFrame_from_queued ::
  "ServerQueuedVideoFrame \<Rightarrow> SwitcherSingleViewSelectedEncodedFrame" where
  "SelectedEncodedFrame_from_queued queued =
     \<lparr> sef_client_id = vf_client_id (sqv_frame queued), sef_run_id = vf_run_id (sqv_frame queued),
       sef_frame_id = vf_frame_id (sqv_frame queued),
       sef_capture_timestamp = vf_capture_timestamp (sqv_frame queued),
       sef_send_timestamp = vf_send_timestamp (sqv_frame queued), sef_queued_at = sqv_queued_at queued,
       sef_is_keyframe = vf_is_keyframe (sqv_frame queued), sef_width = vf_width (sqv_frame queued),
       sef_height = vf_height (sqv_frame queued), sef_fps_nominal = vf_fps_nominal (sqv_frame queued),
       sef_codec = vf_codec (sqv_frame queued), sef_encoded_payload_len = sqv_payload_len queued,
       sef_encoded_payload = vf_payload (sqv_frame queued) \<rparr>"

datatype SwitcherSingleViewFrameSelectionResult =
    SingleView_FrameAvailable SwitcherSingleViewSelectedEncodedFrame
  | SingleView_NoFrameAvailable ClientId

definition SwitcherSingleViewLatestFrameSelectionBoundary_select_latest ::
  "ServerVideoFrameQueueState \<Rightarrow> ClientId \<Rightarrow> SwitcherSingleViewFrameSelectionResult" where
  "SwitcherSingleViewLatestFrameSelectionBoundary_select_latest queue_state client_id =
     (case last_of (ServerVideoFrameQueueState_frames_for_client queue_state client_id) of
        Some queued \<Rightarrow> SingleView_FrameAvailable (SelectedEncodedFrame_from_queued queued)
      | None \<Rightarrow> SingleView_NoFrameAvailable client_id)"

section \<open>The queue as a source\<close>

datatype SwitcherSingleClientQueueSourceMode =
  PreviewOldest | PreviewLatest | PreviewLatestDecodable | ConsumeOldest

definition SwitcherSingleClientQueueSourceMode_queue_read_mode ::
  "SwitcherSingleClientQueueSourceMode \<Rightarrow> ServerVideoFrameQueueReadMode" where
  "SwitcherSingleClientQueueSourceMode_queue_read_mode mode =
     (case mode of
        PreviewOldest \<Rightarrow> Read_InspectOldest
      | PreviewLatest \<Rightarrow> Read_InspectLatest
      | PreviewLatestDecodable \<Rightarrow> Read_InspectLatestDecodable
      | ConsumeOldest \<Rightarrow> Read_DequeueOldest)"

definition SwitcherSingleClientQueueSourceMode_handoff_read_mode ::
  "SwitcherSingleClientQueueSourceMode \<Rightarrow> ReadMode" where
  "SwitcherSingleClientQueueSourceMode_handoff_read_mode mode =
     (case mode of
        PreviewOldest \<Rightarrow> InspectOldest
      | PreviewLatest \<Rightarrow> InspectLatest
      | PreviewLatestDecodable \<Rightarrow> InspectLatestDecodable
      | ConsumeOldest \<Rightarrow> DequeueOldest)"

definition SwitcherSingleClientQueueSourceMode_from_handoff_read_mode ::
  "ReadMode \<Rightarrow> SwitcherSingleClientQueueSourceMode" where
  "SwitcherSingleClientQueueSourceMode_from_handoff_read_mode mode =
     (case mode of
        InspectOldest \<Rightarrow> PreviewOldest
      | InspectLatest \<Rightarrow> PreviewLatest
      | InspectLatestDecodable \<Rightarrow> PreviewLatestDecodable
      | DequeueOldest \<Rightarrow> ConsumeOldest)"

record SwitcherSingleClientQueueSourceInput =
  qsi_client_id :: ClientId
  qsi_run_id :: RunId
  qsi_mode :: SwitcherSingleClientQueueSourceMode

datatype SwitcherSingleClientQueueSourceResult =
    Source_FrameAvailable SwitcherSingleViewSelectedEncodedFrame SwitcherSingleClientQueueSourceMode nat
  | Source_NoFrameAvailable ClientId RunId SwitcherSingleClientQueueSourceMode nat

definition SwitcherSingleClientQueueSourceBoundary_read ::
  "ServerVideoFrameQueueState \<Rightarrow> SwitcherSingleClientQueueSourceInput \<Rightarrow>
     ServerVideoFrameQueueState \<times> SwitcherSingleClientQueueSourceResult" where
  "SwitcherSingleClientQueueSourceBoundary_read queue_state input =
     (let mode = qsi_mode input in
      case ServerVideoFrameQueueReadBoundary_read queue_state
          \<lparr> vqr_client_id = qsi_client_id input, vqr_run_id = qsi_run_id input,
            vqr_mode = SwitcherSingleClientQueueSourceMode_queue_read_mode mode \<rparr> of
        (queue_state, FrameAvailable frame _ remaining_client_queue_len _ _ _) \<Rightarrow>
          (queue_state, Source_FrameAvailable (SelectedEncodedFrame_from_queued frame) mode
             remaining_client_queue_len)
      | (queue_state, NoFrameAvailable client_id run_id client_queue_len _ _ _ _) \<Rightarrow>
          (queue_state, Source_NoFrameAvailable client_id run_id mode client_queue_len))"

text \<open>The trait \<open>SwitcherQueuedFrameSource\<close>: a read that may change the source.\<close>

type_synonym 's SwitcherQueuedFrameSource =
  "'s \<Rightarrow> SwitcherSingleClientQueueSourceInput \<Rightarrow> 's \<times> SwitcherSingleClientQueueSourceResult"

definition SwitcherInProcessServerQueueFrameSource_read_queued_frame ::
  "ServerVideoFrameQueueState SwitcherQueuedFrameSource" where
  "SwitcherInProcessServerQueueFrameSource_read_queued_frame queue_state input =
     SwitcherSingleClientQueueSourceBoundary_read queue_state input"

section \<open>Fallible handoffs\<close>

record SwitcherQueuedFrameHandoffInput =
  qhi_client_id :: ClientId
  qhi_run_id :: RunId
  qhi_mode :: SwitcherSingleClientQueueSourceMode

datatype SwitcherQueuedFrameHandoffError =
    Switcher_SourceUnavailable
  | Switcher_Timeout
  | Switcher_InvalidScope ClientId RunId
  | Switcher_UnsupportedMode SwitcherSingleClientQueueSourceMode
  | Switcher_MalformedResponse
  | Switcher_SourceShutdown

datatype SwitcherQueuedFrameHandoffResult =
    Handoff_FrameRead SwitcherSingleViewSelectedEncodedFrame SwitcherSingleClientQueueSourceMode nat
  | Handoff_NoFrameAvailable ClientId RunId SwitcherSingleClientQueueSourceMode nat
  | Handoff_Error ClientId RunId SwitcherSingleClientQueueSourceMode SwitcherQueuedFrameHandoffError

text \<open>The trait \<open>SwitcherQueuedFrameHandoff\<close>.\<close>

type_synonym 's SwitcherQueuedFrameHandoff =
  "'s \<Rightarrow> SwitcherQueuedFrameHandoffInput \<Rightarrow> 's \<times> SwitcherQueuedFrameHandoffResult"

definition SwitcherInProcessQueuedFrameHandoff_read_handoff_frame ::
  "ServerVideoFrameQueueState SwitcherQueuedFrameHandoff" where
  "SwitcherInProcessQueuedFrameHandoff_read_handoff_frame source input =
     (if trim (qhi_client_id input) = [] \<or> trim (qhi_run_id input) = []
      then (source, Handoff_Error (qhi_client_id input) (qhi_run_id input) (qhi_mode input)
              (Switcher_InvalidScope (qhi_client_id input) (qhi_run_id input)))
      else
        (case SwitcherInProcessServerQueueFrameSource_read_queued_frame source
            \<lparr> qsi_client_id = qhi_client_id input, qsi_run_id = qhi_run_id input,
              qsi_mode = qhi_mode input \<rparr> of
           (source, Source_FrameAvailable frame mode remaining_client_queue_len) \<Rightarrow>
             (source, Handoff_FrameRead frame mode remaining_client_queue_len)
         | (source, Source_NoFrameAvailable client_id run_id mode client_queue_len) \<Rightarrow>
             (source, Handoff_NoFrameAvailable client_id run_id mode client_queue_len)))"

section \<open>Requests and responses\<close>

definition SelectedEncodedFrame_from_handoff ::
  "HandoffFrame \<Rightarrow> SwitcherSingleViewSelectedEncodedFrame" where
  "SelectedEncodedFrame_from_handoff frame =
     \<lparr> sef_client_id = hf_client_id frame, sef_run_id = hf_run_id frame,
       sef_frame_id = hf_frame_id frame, sef_capture_timestamp = hf_capture_timestamp frame,
       sef_send_timestamp = hf_send_timestamp frame, sef_queued_at = hf_queued_at frame,
       sef_is_keyframe = hf_is_keyframe frame, sef_width = hf_width frame,
       sef_height = hf_height frame, sef_fps_nominal = hf_fps_nominal frame,
       sef_codec = hf_codec frame, sef_encoded_payload_len = unat (hf_encoded_payload_len frame),
       sef_encoded_payload = hf_encoded_payload frame \<rparr>"

definition SwitcherServerQueuedFrameHandoffClientAdapterBoundary_build_request ::
  "u64 \<Rightarrow> SwitcherQueuedFrameHandoffInput \<Rightarrow> HandoffRequest" where
  "SwitcherServerQueuedFrameHandoffClientAdapterBoundary_build_request request_id input =
     \<lparr> hreq_handoff_version = SERVER_SWITCHER_HANDOFF_VERSION, hreq_request_id = request_id,
       hreq_client_id = qhi_client_id input, hreq_run_id = qhi_run_id input,
       hreq_read_mode = SwitcherSingleClientQueueSourceMode_handoff_read_mode (qhi_mode input) \<rparr>"

definition map_handoff_error_code_to_switcher ::
  "SwitcherQueuedFrameHandoffInput \<Rightarrow> HandoffErrorCode \<Rightarrow> SwitcherQueuedFrameHandoffError" where
  "map_handoff_error_code_to_switcher input error =
     (case error of
        SourceUnavailable \<Rightarrow> Switcher_SourceUnavailable
      | RequestTimeout \<Rightarrow> Switcher_Timeout
      | InvalidScope \<Rightarrow> Switcher_InvalidScope (qhi_client_id input) (qhi_run_id input)
      | UnsupportedReadMode \<Rightarrow> Switcher_UnsupportedMode (qhi_mode input)
      | MalformedResponse \<Rightarrow> Switcher_MalformedResponse
      | SourceShutdown \<Rightarrow> Switcher_SourceShutdown)"

definition SwitcherServerQueuedFrameHandoffClientAdapterBoundary_map_response ::
  "SwitcherQueuedFrameHandoffInput \<Rightarrow> HandoffResponse \<Rightarrow> SwitcherQueuedFrameHandoffResult" where
  "SwitcherServerQueuedFrameHandoffClientAdapterBoundary_map_response input response =
     (case response of
        FrameRead _ remaining_client_queue_len _ _ _ frame \<Rightarrow>
          Handoff_FrameRead (SelectedEncodedFrame_from_handoff frame) (qhi_mode input)
            (unat remaining_client_queue_len)
      | NoFrame _ client_id run_id read_mode client_queue_len _ _ _ _ \<Rightarrow>
          Handoff_NoFrameAvailable client_id run_id
            (SwitcherSingleClientQueueSourceMode_from_handoff_read_mode read_mode)
            (unat client_queue_len)
      | HandoffError _ error \<Rightarrow>
          Handoff_Error (qhi_client_id input) (qhi_run_id input) (qhi_mode input)
            (map_handoff_error_code_to_switcher input error))"

end
