(* ===== verification/Rust_Io.thy ===== *)
theory Rust_Io
  imports Prelude
begin

text \<open>
  Input and output of the standard library as the sources see it: errors with a kind, writers
  that accept or refuse a string, and the sequencing of calls that change the outside world and
  may fail. The world is an argument and a component of every result.
\<close>

section \<open>Errors\<close>

datatype io_ErrorKind =
    Kind_TimedOut
  | Kind_WouldBlock
  | Kind_Interrupted
  | Kind_ConnectionRefused
  | Kind_NetworkUnreachable
  | Kind_PermissionDenied
  | Kind_BrokenPipe
  | Kind_ConnectionAborted
  | Kind_UnexpectedEof
  | Kind_Other string

record io_Error =
  ioe_kind :: io_ErrorKind
  ioe_message :: string

section \<open>Calls in sequence\<close>

text \<open>The \<open>?\<close> operator for calls that change the world.\<close>

definition io_bind ::
  "'w \<times> ('a, 'e) result \<Rightarrow> ('a \<Rightarrow> 'w \<Rightarrow> 'w \<times> ('b, 'e) result) \<Rightarrow> 'w \<times> ('b, 'e) result" where
  "io_bind r f = (case r of (w, Inr v) \<Rightarrow> f v w | (w, Inl e) \<Rightarrow> (w, Inl e))"

definition io_map_err :: "('e \<Rightarrow> 'f) \<Rightarrow> 'w \<times> ('a, 'e) result \<Rightarrow> 'w \<times> ('a, 'f) result" where
  "io_map_err f r = (fst r, rmap_err f (snd r))"

lemma io_bind_simps [simp]:
  "io_bind (w, Ok v) f = f v w"
  "io_bind (w, Error e) f = (w, Error e)"
  "io_bind (w, Panicked) f = (w, Panicked)"
  by (simp_all add: io_bind_def)

lemma io_map_err_simps [simp]:
  "io_map_err f (w, Ok v) = (w, Ok v)"
  "io_map_err f (w, Error e) = (w, Error (f e))"
  "io_map_err f (w, Panicked) = (w, Panicked)"
  by (simp_all add: io_map_err_def rmap_err_def)

lemma io_bind_eq_Ok_iff:
  "io_bind r f = (w, Ok v) \<longleftrightarrow> (\<exists>w' u. r = (w', Ok u) \<and> f u w' = (w, Ok v))"
  by (auto simp: io_bind_def split: prod.splits sum.splits)

lemma io_map_err_eq_Ok_iff [simp]: "io_map_err f r = (w, Ok v) \<longleftrightarrow> r = (w, Ok v)"
  by (cases r) (auto simp: io_map_err_def rmap_err_eq_Inr_iff)

section \<open>Writers\<close>

text \<open>\<open>io::Write\<close>: writing a string changes the world and may fail.\<close>

type_synonym 'w Writer = "string \<Rightarrow> 'w \<Rightarrow> 'w \<times> (unit, io_Error) result"

text \<open>Writes in order; the first that fails is the last.\<close>

fun write_pieces :: "'w Writer \<Rightarrow> string list \<Rightarrow> 'w \<Rightarrow> 'w \<times> (unit, io_Error) result" where
  "write_pieces writer [] w = (w, Ok ())"
| "write_pieces writer (piece # pieces) w =
     io_bind (writer piece w) (\<lambda>_ w. write_pieces writer pieces w)"

lemma write_pieces_append:
  "write_pieces writer (ps @ qs) w = io_bind (write_pieces writer ps w) (\<lambda>_ w. write_pieces writer qs w)"
  by (induction ps arbitrary: w) (auto simp: io_bind_def split: prod.split sum.split)

end
