(* ===== verification/Server_Handoff_Pipe.thy ===== *)
theory Server_Handoff_Pipe
  imports Server_Video_Queue Handoff_Frames Rust_Io
begin

text \<open>
  The server's side of the handoff pipe, apps/server/src/lib.rs: one connection is accepted, one
  request read and decoded, answered from the queue, and the answer encoded and written. The
  bounded loop serves requests until one fails and counts the outcomes. The operating system's
  calls are arguments: what each of them returns, and the bytes the peer writes.
\<close>

section \<open>The pipe\<close>

text \<open>
  A connection as the server sees it: the errors of creating, connecting, writing and flushing
  (None for success), the bytes that arrive before the peer stops writing, and the error of a
  read that finds fewer.
\<close>

record ServerPipe =
  sp_create :: "io_Error option"
  sp_connect :: "io_Error option"
  sp_incoming :: "u8 list"
  sp_end_of_input :: io_Error
  sp_write :: "io_Error option"
  sp_flush :: "io_Error option"

definition io_check :: "io_Error option \<Rightarrow> (unit, io_Error) result" where
  "io_check outcome = (case outcome of None \<Rightarrow> Ok () | Some error \<Rightarrow> Error error)"

definition io_read_exact ::
  "io_Error \<Rightarrow> nat \<Rightarrow> u8 list \<Rightarrow> (u8 list \<times> u8 list, io_Error) result" where
  "io_read_exact eof n incoming =
     (if length incoming < n then Error eof else Ok (take n incoming, drop n incoming))"

definition read_length_prefixed_frame :: "io_Error \<Rightarrow> u8 list \<Rightarrow> (u8 list, io_Error) result" where
  "read_length_prefixed_frame eof incoming =
     rbind (io_read_exact eof 4 incoming) (\<lambda>(prefix, incoming).
     let body_len = unat (u32_from_le_bytes (prefix ! 0) (prefix ! 1) (prefix ! 2) (prefix ! 3)) in
     rbind (io_read_exact eof body_len incoming) (\<lambda>(body, _).
     Ok (prefix @ body)))"

section \<open>One request\<close>

record ServerSwitcherNamedPipeOneRequestRuntimeOutput =
  spo_request :: HandoffRequest
  spo_response :: HandoffResponse
  spo_queue_len_before_read :: nat

datatype ServerSwitcherNamedPipeOneRequestRuntimeError =
    Pipe_StopRequested
  | Pipe_InvalidPipeName
  | Pipe_CreatePipe io_Error
  | Pipe_Connect io_Error
  | Pipe_ReadRequest io_Error
  | Pipe_DecodeRequest HandoffCodecError
  | Pipe_EncodeResponse HandoffCodecError
  | Pipe_WriteResponse io_Error
  | Pipe_FlushResponse io_Error

definition ServerSwitcherNamedPipeOneRequestRuntimeBoundary_accept_one_request ::
  "ServerPipe \<Rightarrow> bool \<Rightarrow> (HandoffRequest, ServerSwitcherNamedPipeOneRequestRuntimeError) result" where
  "ServerSwitcherNamedPipeOneRequestRuntimeBoundary_accept_one_request pipe stop_requested =
     rbind (rmap_err Pipe_CreatePipe (io_check (sp_create pipe))) (\<lambda>_.
     rbind (rmap_err Pipe_Connect (io_check (sp_connect pipe))) (\<lambda>_.
     if stop_requested then Error Pipe_StopRequested
     else
       rbind (rmap_err Pipe_ReadRequest
                (read_length_prefixed_frame (sp_end_of_input pipe) (sp_incoming pipe))) (\<lambda>request_frame.
       rmap_err Pipe_DecodeRequest (decode_request_frame request_frame))))"

text \<open>What is written is the response frame; it counts as sent once the write has succeeded.\<close>

definition ServerSwitcherNamedPipeOneRequestRuntimeBoundary_write_one_response ::
  "ServerPipe \<Rightarrow> HandoffResponse \<Rightarrow>
     (u8 list, ServerSwitcherNamedPipeOneRequestRuntimeError) result" where
  "ServerSwitcherNamedPipeOneRequestRuntimeBoundary_write_one_response pipe response =
     rbind (rmap_err Pipe_EncodeResponse (encode_response_frame response)) (\<lambda>response_frame.
     rbind (rmap_err Pipe_WriteResponse (io_check (sp_write pipe))) (\<lambda>_.
     rbind (rmap_err Pipe_FlushResponse (io_check (sp_flush pipe))) (\<lambda>_.
     Ok response_frame)))"

text \<open>
  The queue is read before the answer is written: when encoding or writing fails, a dequeued
  frame is gone.
\<close>

definition ServerSwitcherNamedPipeOneRequestRuntimeBoundary_serve_once ::
  "ServerPipe \<Rightarrow> ServerVideoFrameQueueState \<Rightarrow>
     ServerVideoFrameQueueState \<times> u8 list \<times>
     (ServerSwitcherNamedPipeOneRequestRuntimeOutput, ServerSwitcherNamedPipeOneRequestRuntimeError) result"
  where
  "ServerSwitcherNamedPipeOneRequestRuntimeBoundary_serve_once pipe queue_state =
     (case ServerSwitcherNamedPipeOneRequestRuntimeBoundary_accept_one_request pipe False of
        Inl failure \<Rightarrow> (queue_state, [], Inl failure)
      | Inr request \<Rightarrow>
          let queue_len_before_read =
                ServerVideoFrameQueueState_client_queue_len queue_state (hreq_client_id request) in
          (case ServerSwitcherQueuedFrameHandoffHandlerBoundary_handle_request queue_state request of
             (queue_state, Inl _) \<Rightarrow> (queue_state, [], Panicked)
           | (queue_state, Inr response) \<Rightarrow>
               (case ServerSwitcherNamedPipeOneRequestRuntimeBoundary_write_one_response pipe response of
                  Inl failure \<Rightarrow> (queue_state, [], Inl failure)
                | Inr written \<Rightarrow> (queue_state, written,
                    Ok \<lparr> spo_request = request, spo_response = response,
                         spo_queue_len_before_read = queue_len_before_read \<rparr>))))"

section \<open>The bounded loop\<close>

datatype ServerSwitcherNamedPipeRequestResultKind = Kind_FrameRead | Kind_NoFrame | Kind_HandoffError

record ServerSwitcherNamedPipeRequestServeSummary =
  sps_request_id :: u64
  sps_queue_len_before_read :: u32
  sps_queue_len_after_read :: "u32 option"
  sps_result_kind :: ServerSwitcherNamedPipeRequestResultKind
  sps_selected_client_id :: ClientId
  sps_selected_run_id :: RunId
  sps_frame_id :: "u64 option"
  sps_frame_payload_len :: "u32 option"
  sps_no_frame_reason :: "string option"
  sps_decodable_source :: DecodableSource
  sps_retained_keyframe_available :: bool
  sps_retained_keyframe_frame_id :: "u64 option"
  sps_handoff_error :: "HandoffErrorCode option"

fun NoFrameReason_debug :: "NoFrameReason \<Rightarrow> string" where
  "NoFrameReason_debug NoFramesQueuedForClient = ''NoFramesQueuedForClient''"
| "NoFrameReason_debug NoFramesQueuedForRequestedRun = ''NoFramesQueuedForRequestedRun''"
| "NoFrameReason_debug NoDecodableFrameAvailable = ''NoDecodableFrameAvailable''"

definition summarize_named_pipe_request_output ::
  "ServerSwitcherNamedPipeOneRequestRuntimeOutput \<Rightarrow>
     (ServerSwitcherNamedPipeRequestServeSummary, unit) result" where
  "summarize_named_pipe_request_output output =
     rbind (queue_len_to_u32 (spo_queue_len_before_read output)) (\<lambda>queue_len_before_read.
     Ok (case spo_response output of
        FrameRead request_id remaining source available frame_id frame \<Rightarrow>
          \<lparr> sps_request_id = request_id, sps_queue_len_before_read = queue_len_before_read,
            sps_queue_len_after_read = Some remaining, sps_result_kind = Kind_FrameRead,
            sps_selected_client_id = hf_client_id frame, sps_selected_run_id = hf_run_id frame,
            sps_frame_id = Some (hf_frame_id frame),
            sps_frame_payload_len = Some (hf_encoded_payload_len frame), sps_no_frame_reason = None,
            sps_decodable_source = source, sps_retained_keyframe_available = available,
            sps_retained_keyframe_frame_id = frame_id, sps_handoff_error = None \<rparr>
      | NoFrame request_id client_id run_id _ client_queue_len reason source available frame_id \<Rightarrow>
          \<lparr> sps_request_id = request_id, sps_queue_len_before_read = queue_len_before_read,
            sps_queue_len_after_read = Some client_queue_len, sps_result_kind = Kind_NoFrame,
            sps_selected_client_id = client_id, sps_selected_run_id = run_id, sps_frame_id = None,
            sps_frame_payload_len = None, sps_no_frame_reason = Some (NoFrameReason_debug reason),
            sps_decodable_source = source, sps_retained_keyframe_available = available,
            sps_retained_keyframe_frame_id = frame_id, sps_handoff_error = None \<rparr>
      | HandoffError request_id error \<Rightarrow>
          \<lparr> sps_request_id = request_id, sps_queue_len_before_read = queue_len_before_read,
            sps_queue_len_after_read = None, sps_result_kind = Kind_HandoffError,
            sps_selected_client_id = hreq_client_id (spo_request output),
            sps_selected_run_id = hreq_run_id (spo_request output), sps_frame_id = None,
            sps_frame_payload_len = None, sps_no_frame_reason = None,
            sps_decodable_source = DecodableSource_None, sps_retained_keyframe_available = False,
            sps_retained_keyframe_frame_id = None, sps_handoff_error = Some error \<rparr>))"

datatype ServerSwitcherNamedPipeManyRequestStopReason =
    Stop_MaxRequestsReached
  | Stop_StopRequested
  | Stop_InvalidPipeName
  | Stop_CreatePipe
  | Stop_Connect
  | Stop_ReadRequest
  | Stop_DecodeRequest
  | Stop_EncodeResponse
  | Stop_WriteResponse
  | Stop_FlushResponse

definition summarize_named_pipe_many_stop_reason ::
  "ServerSwitcherNamedPipeOneRequestRuntimeError \<Rightarrow> nat \<Rightarrow> nat \<Rightarrow>
     ServerSwitcherNamedPipeManyRequestStopReason \<times> nat \<times> nat" where
  "summarize_named_pipe_many_stop_reason error parse_error_count io_error_count =
     (let more = (\<lambda>n. usize_saturating_add n 1) in
      case error of
        Pipe_StopRequested \<Rightarrow> (Stop_StopRequested, parse_error_count, io_error_count)
      | Pipe_InvalidPipeName \<Rightarrow> (Stop_InvalidPipeName, parse_error_count, io_error_count)
      | Pipe_CreatePipe _ \<Rightarrow> (Stop_CreatePipe, parse_error_count, more io_error_count)
      | Pipe_Connect _ \<Rightarrow> (Stop_Connect, parse_error_count, more io_error_count)
      | Pipe_ReadRequest _ \<Rightarrow> (Stop_ReadRequest, parse_error_count, more io_error_count)
      | Pipe_DecodeRequest _ \<Rightarrow> (Stop_DecodeRequest, more parse_error_count, io_error_count)
      | Pipe_EncodeResponse _ \<Rightarrow> (Stop_EncodeResponse, parse_error_count, io_error_count)
      | Pipe_WriteResponse _ \<Rightarrow> (Stop_WriteResponse, parse_error_count, more io_error_count)
      | Pipe_FlushResponse _ \<Rightarrow> (Stop_FlushResponse, parse_error_count, more io_error_count))"

record ServerSwitcherNamedPipeManyRequestRuntimeOutput =
  spm_max_requests :: nat
  spm_requests_served :: nat
  spm_successful_responses :: nat
  spm_handoff_errors :: nat
  spm_frame_read_count :: nat
  spm_no_frame_count :: nat
  spm_parse_error_count :: nat
  spm_io_error_count :: nat
  spm_stop_reason :: ServerSwitcherNamedPipeManyRequestStopReason
  spm_requests :: "ServerSwitcherNamedPipeRequestServeSummary list"

definition count_request ::
  "ServerSwitcherNamedPipeRequestServeSummary \<Rightarrow> ServerSwitcherNamedPipeManyRequestRuntimeOutput \<Rightarrow>
     ServerSwitcherNamedPipeManyRequestRuntimeOutput" where
  "count_request summary out =
     (let out = (case sps_result_kind summary of
           Kind_FrameRead \<Rightarrow>
             out \<lparr> spm_frame_read_count := usize_saturating_add (spm_frame_read_count out) 1 \<rparr>
         | Kind_NoFrame \<Rightarrow>
             out \<lparr> spm_no_frame_count := usize_saturating_add (spm_no_frame_count out) 1 \<rparr>
         | Kind_HandoffError \<Rightarrow>
             out \<lparr> spm_handoff_errors := usize_saturating_add (spm_handoff_errors out) 1 \<rparr>);
         out = out \<lparr> spm_requests := spm_requests out @ [summary] \<rparr> in
      out \<lparr> spm_requests_served := length (spm_requests out),
        spm_successful_responses := length (spm_requests out) \<rparr>)"

text \<open>
  The loop of \<open>serve_many_with\<close>; the state is the queue with whatever the served
  connections depend on.
\<close>

fun serve_many_loop ::
  "('s \<Rightarrow> 's \<times> (ServerSwitcherNamedPipeOneRequestRuntimeOutput,
      ServerSwitcherNamedPipeOneRequestRuntimeError) result) \<Rightarrow>
   nat \<Rightarrow> nat \<Rightarrow> 's \<Rightarrow> ServerSwitcherNamedPipeManyRequestRuntimeOutput \<Rightarrow>
   's \<times> (ServerSwitcherNamedPipeManyRequestRuntimeOutput, unit) result" where
  "serve_many_loop serve_one max_requests 0 st out =
     (st, Ok (out \<lparr> spm_stop_reason := Stop_MaxRequestsReached \<rparr>))"
| "serve_many_loop serve_one max_requests (Suc n) st out =
     (case serve_one st of
        (st, Inr output) \<Rightarrow>
          (case summarize_named_pipe_request_output output of
             Inl _ \<Rightarrow> (st, Panicked)
           | Inr summary \<Rightarrow>
               serve_many_loop serve_one max_requests n st (count_request summary out))
      | (st, Inl (Err error)) \<Rightarrow>
          (case summarize_named_pipe_many_stop_reason error (spm_parse_error_count out)
              (spm_io_error_count out) of
             (stop_reason, parse_error_count, io_error_count) \<Rightarrow>
               (st, Ok (out \<lparr> spm_parse_error_count := parse_error_count,
                  spm_io_error_count := io_error_count, spm_stop_reason := stop_reason \<rparr>)))
      | (st, Inl Panic) \<Rightarrow> (st, Panicked))"

definition ServerSwitcherNamedPipeOneRequestRuntimeBoundary_serve_many_with ::
  "('s \<Rightarrow> 's \<times> (ServerSwitcherNamedPipeOneRequestRuntimeOutput,
      ServerSwitcherNamedPipeOneRequestRuntimeError) result) \<Rightarrow>
   's \<Rightarrow> nat \<Rightarrow> 's \<times> (ServerSwitcherNamedPipeManyRequestRuntimeOutput, unit) result" where
  "ServerSwitcherNamedPipeOneRequestRuntimeBoundary_serve_many_with serve_one st max_requests =
     serve_many_loop serve_one max_requests max_requests st
       \<lparr> spm_max_requests = max_requests, spm_requests_served = 0, spm_successful_responses = 0,
         spm_handoff_errors = 0, spm_frame_read_count = 0, spm_no_frame_count = 0,
         spm_parse_error_count = 0, spm_io_error_count = 0,
         spm_stop_reason = Stop_MaxRequestsReached, spm_requests = [] \<rparr>"

section \<open>Progress counters of the concurrent runtime\<close>

record ServerReceiveAuthVideoQueueHandoffContinuousHandoffSummary =
  chs_handoff_requests :: nat
  chs_frame_read_count :: nat
  chs_no_frame_count :: nat
  chs_decodable_source_none_count :: nat
  chs_decodable_source_queue_count :: nat
  chs_decodable_source_retained_keyframe_count :: nat
  chs_io_error_count :: nat

definition record_concurrent_handoff_decodable_source ::
  "ServerReceiveAuthVideoQueueHandoffContinuousHandoffSummary \<Rightarrow> DecodableSource \<Rightarrow>
     ServerReceiveAuthVideoQueueHandoffContinuousHandoffSummary" where
  "record_concurrent_handoff_decodable_source summary source =
     (case source of
        DecodableSource_None \<Rightarrow> summary \<lparr> chs_decodable_source_none_count :=
          usize_saturating_add (chs_decodable_source_none_count summary) 1 \<rparr>
      | DecodableSource_Queue \<Rightarrow> summary \<lparr> chs_decodable_source_queue_count :=
          usize_saturating_add (chs_decodable_source_queue_count summary) 1 \<rparr>
      | DecodableSource_RetainedKeyframe \<Rightarrow> summary \<lparr> chs_decodable_source_retained_keyframe_count :=
          usize_saturating_add (chs_decodable_source_retained_keyframe_count summary) 1 \<rparr>)"

definition record_concurrent_handoff_response_progress ::
  "ServerReceiveAuthVideoQueueHandoffContinuousHandoffSummary \<Rightarrow> HandoffResponse \<Rightarrow>
     ServerReceiveAuthVideoQueueHandoffContinuousHandoffSummary" where
  "record_concurrent_handoff_response_progress summary response =
     (let summary = summary \<lparr> chs_handoff_requests :=
            usize_saturating_add (chs_handoff_requests summary) 1 \<rparr> in
      case response of
        FrameRead _ _ source _ _ _ \<Rightarrow>
          record_concurrent_handoff_decodable_source (summary \<lparr> chs_frame_read_count :=
            usize_saturating_add (chs_frame_read_count summary) 1 \<rparr>) source
      | NoFrame _ _ _ _ _ _ source _ _ \<Rightarrow>
          record_concurrent_handoff_decodable_source (summary \<lparr> chs_no_frame_count :=
            usize_saturating_add (chs_no_frame_count summary) 1 \<rparr>) source
      | HandoffError _ _ \<Rightarrow> summary)"

section \<open>Serving next to the receive loop\<close>

text \<open>
  The receive loop owns the other fields of the shared state; the lock is held while a request
  is answered and released before the answer is written. What the loop meets is a list: the stop
  flag at the head of an iteration, the connection, and the flag after connecting. The loop ends
  by itself or goes on past the end of the list.
\<close>

record ServerReceiveAuthVideoQueueHandoffContinuousSharedState =
  css_video_queue_state :: ServerVideoFrameQueueState
  css_handoff_summary :: ServerReceiveAuthVideoQueueHandoffContinuousHandoffSummary

definition ServerSwitcherNamedPipeOneRequestRuntimeBoundary_serve_once_shared_state ::
  "ServerReceiveAuthVideoQueueHandoffContinuousSharedState \<Rightarrow> ServerPipe \<Rightarrow> bool \<Rightarrow>
     ServerReceiveAuthVideoQueueHandoffContinuousSharedState \<times> u8 list \<times>
     (ServerSwitcherNamedPipeOneRequestRuntimeOutput, ServerSwitcherNamedPipeOneRequestRuntimeError) result"
  where
  "ServerSwitcherNamedPipeOneRequestRuntimeBoundary_serve_once_shared_state shared pipe stop_requested =
     (case ServerSwitcherNamedPipeOneRequestRuntimeBoundary_accept_one_request pipe stop_requested of
        Inl failure \<Rightarrow> (shared, [], Inl failure)
      | Inr request \<Rightarrow>
          let queue_len_before_read = ServerVideoFrameQueueState_client_queue_len
                (css_video_queue_state shared) (hreq_client_id request) in
          (case ServerSwitcherQueuedFrameHandoffHandlerBoundary_handle_request
              (css_video_queue_state shared) request of
             (queue_state, Inl _) \<Rightarrow> (shared \<lparr> css_video_queue_state := queue_state \<rparr>, [], Panicked)
           | (queue_state, Inr response) \<Rightarrow>
               let shared = shared \<lparr> css_video_queue_state := queue_state,
                     css_handoff_summary := record_concurrent_handoff_response_progress
                       (css_handoff_summary shared) response \<rparr> in
               (case ServerSwitcherNamedPipeOneRequestRuntimeBoundary_write_one_response pipe response of
                  Inl failure \<Rightarrow> (shared, [], Inl failure)
                | Inr written \<Rightarrow> (shared, written,
                    Ok \<lparr> spo_request = request, spo_response = response,
                         spo_queue_len_before_read = queue_len_before_read \<rparr>))))"

fun ServerSwitcherNamedPipeOneRequestRuntimeBoundary_serve_many_shared_state ::
  "(bool \<times> ServerPipe \<times> bool) list \<Rightarrow> nat \<Rightarrow> nat \<Rightarrow>
     ServerReceiveAuthVideoQueueHandoffContinuousSharedState \<Rightarrow>
     ServerReceiveAuthVideoQueueHandoffContinuousSharedState \<times>
       (ServerSwitcherNamedPipeManyRequestStopReason, unit) result option" where
  "ServerSwitcherNamedPipeOneRequestRuntimeBoundary_serve_many_shared_state [] max_requests
       requests_served shared = (shared, None)"
| "ServerSwitcherNamedPipeOneRequestRuntimeBoundary_serve_many_shared_state
       ((stop, pipe, stop_after_connect) # events) max_requests requests_served shared =
     (if stop then (shared, Some (Ok Stop_StopRequested))
      else if max_requests \<le> requests_served then (shared, Some (Ok Stop_MaxRequestsReached))
      else
        (case ServerSwitcherNamedPipeOneRequestRuntimeBoundary_serve_once_shared_state shared pipe
            stop_after_connect of
           (shared, _, Inr _) \<Rightarrow>
             ServerSwitcherNamedPipeOneRequestRuntimeBoundary_serve_many_shared_state events
               max_requests (usize_saturating_add requests_served 1) shared
         | (shared, _, Inl Panic) \<Rightarrow> (shared, Some Panicked)
         | (shared, _, Inl (Err error)) \<Rightarrow>
             (case summarize_named_pipe_many_stop_reason error 0 0 of
                (stop_reason, _, io_error_count) \<Rightarrow>
                  (if 0 < io_error_count
                   then shared \<lparr> css_handoff_summary := (css_handoff_summary shared)
                     \<lparr> chs_io_error_count := usize_saturating_add
                         (chs_io_error_count (css_handoff_summary shared)) io_error_count \<rparr> \<rparr>
                   else shared, Some (Ok stop_reason)))))"

section \<open>What travels over the pipe\<close>

lemma read_whole_frame:
  assumes "frame_body body = Ok frame"
  shows "read_length_prefixed_frame eof (frame @ rest) = Ok frame"
  using assms
  by (auto simp: frame_body_Ok_iff read_length_prefixed_frame_def io_read_exact_def
      u32_to_le_bytes_def u32_from_to_le unat_u32_of_nat Let_def)

section \<open>The bounded loop's counters\<close>

definition served_ok :: "ServerSwitcherNamedPipeManyRequestRuntimeOutput \<Rightarrow> bool" where
  "served_ok out \<longleftrightarrow>
     spm_requests_served out = length (spm_requests out) \<and>
     spm_successful_responses out = length (spm_requests out) \<and>
     spm_frame_read_count out = length (filter (\<lambda>s. sps_result_kind s = Kind_FrameRead) (spm_requests out)) \<and>
     spm_no_frame_count out = length (filter (\<lambda>s. sps_result_kind s = Kind_NoFrame) (spm_requests out)) \<and>
     spm_handoff_errors out = length (filter (\<lambda>s. sps_result_kind s = Kind_HandoffError) (spm_requests out))"

lemma usize_add_one:
  "n < usize_bound - 1 \<Longrightarrow> usize_saturating_add n (Suc 0) = n + 1"
  "usize_saturating_add 0 (Suc 0) = 1"
  by (simp_all add: usize_saturating_add_def usize_bound_def)

lemma count_request_fields:
  "spm_requests (count_request summary out) = spm_requests out @ [summary]"
  "spm_requests_served (count_request summary out) = length (spm_requests out) + 1"
  "spm_successful_responses (count_request summary out) = length (spm_requests out) + 1"
  "spm_frame_read_count (count_request summary out) =
     (if sps_result_kind summary = Kind_FrameRead then usize_saturating_add (spm_frame_read_count out) 1
      else spm_frame_read_count out)"
  "spm_no_frame_count (count_request summary out) =
     (if sps_result_kind summary = Kind_NoFrame then usize_saturating_add (spm_no_frame_count out) 1
      else spm_no_frame_count out)"
  "spm_handoff_errors (count_request summary out) =
     (if sps_result_kind summary = Kind_HandoffError then usize_saturating_add (spm_handoff_errors out) 1
      else spm_handoff_errors out)"
  "spm_parse_error_count (count_request summary out) = spm_parse_error_count out"
  "spm_io_error_count (count_request summary out) = spm_io_error_count out"
  by (simp_all add: count_request_def Let_def split: ServerSwitcherNamedPipeRequestResultKind.split)

lemma serve_many_loop_counts:
  assumes "serve_many_loop serve_one max_requests n st out = (st', Ok out')" and "served_ok out"
    and "length (spm_requests out) + n < usize_bound"
    and "spm_parse_error_count out = 0" and "spm_io_error_count out = 0"
  shows "served_ok out' \<and> length (spm_requests out') \<le> length (spm_requests out) + n \<and>
    spm_parse_error_count out' + spm_io_error_count out' \<le> 1 \<and>
    (spm_stop_reason out' = Stop_MaxRequestsReached \<longleftrightarrow> length (spm_requests out') = length (spm_requests out) + n)"
  using assms
proof (induction n arbitrary: st out)
  case 0
  then show ?case by (auto simp: served_ok_def)
next
  case (Suc n)
  obtain st1 r where one: "serve_one st = (st1, r)" by (cases "serve_one st")
  show ?case
  proof (cases r)
    case (Inl failure)
    then obtain error where "failure = Err error" using Suc.prems(1) one by (cases failure) auto
    then show ?thesis
      using Suc.prems Inl one by (cases error) (auto simp: served_ok_def usize_add_one usize_bound_def
          summarize_named_pipe_many_stop_reason_def Let_def)
  next
    case (Inr served)
    then obtain summary where summary: "summarize_named_pipe_request_output served = Ok summary"
      using Suc.prems(1) one by (cases "summarize_named_pipe_request_output served") auto
    have "length (filter P (spm_requests out)) < usize_bound - 1" for P
      using Suc.prems(3) length_filter_le [of P "spm_requests out"] by linarith
    note small = usize_add_one(1) [OF this]
    have counted: "served_ok (count_request summary out)"
      using Suc.prems(2) by (auto simp: count_request_fields served_ok_def small)
    have "serve_many_loop serve_one max_requests n st1 (count_request summary out) = (st', Ok out')"
      using Suc.prems(1) Inr one summary by simp
    from Suc.IH [OF this counted] show ?thesis using Suc.prems(3-5) by (simp add: count_request_fields)
  qed
qed

section \<open>Properties\<close>

text \<open>
  C37: The bounded loop counts what it did: one summary per request served, at most the bound,
  the frame, no-frame and error counters are the numbers of those summaries, and it stops for
  the bound exactly when it has served that many, otherwise after one failure that is counted
  at most once.
\<close>

theorem served_requests_are_counted:
  assumes "ServerSwitcherNamedPipeOneRequestRuntimeBoundary_serve_many_with serve_one st max_requests
      = (st', Ok out)"
    and "max_requests < usize_bound"
  shows "served_ok out \<and> spm_requests_served out \<le> max_requests \<and>
    spm_frame_read_count out + spm_no_frame_count out + spm_handoff_errors out = spm_requests_served out \<and>
    spm_parse_error_count out + spm_io_error_count out \<le> 1 \<and>
    (spm_stop_reason out = Stop_MaxRequestsReached \<longleftrightarrow> spm_requests_served out = max_requests)"
proof -
  have "length (filter (\<lambda>s. sps_result_kind s = Kind_FrameRead) xs) +
      length (filter (\<lambda>s. sps_result_kind s = Kind_NoFrame) xs) +
      length (filter (\<lambda>s. sps_result_kind s = Kind_HandoffError) xs) = length xs" for xs
    by (induction xs) (auto intro: ServerSwitcherNamedPipeRequestResultKind.exhaust)
  then show ?thesis
    using serve_many_loop_counts [OF assms(1)
        [unfolded ServerSwitcherNamedPipeOneRequestRuntimeBoundary_serve_many_with_def]] assms(2)
    by (simp add: served_ok_def)
qed

definition serve_error_request ::
  "nat \<Rightarrow> nat \<times> (ServerSwitcherNamedPipeOneRequestRuntimeOutput,
     ServerSwitcherNamedPipeOneRequestRuntimeError) result" where
  "serve_error_request n =
     (n + 1, if n < 2
       then Ok \<lparr> spo_request = \<lparr> hreq_handoff_version = 1, hreq_request_id = 7, hreq_client_id = [],
           hreq_run_id = ''A'', hreq_read_mode = InspectLatest \<rparr>,
         spo_response = HandoffError 7 InvalidScope, spo_queue_len_before_read = 0 \<rparr>
       else Error (Pipe_CreatePipe \<lparr> ioe_kind = Kind_TimedOut, ioe_message = [] \<rparr>))"

lemma served_requests_are_counted_witness:
  "case snd (ServerSwitcherNamedPipeOneRequestRuntimeBoundary_serve_many_with serve_error_request 0 5) of
     Inr out \<Rightarrow> served_ok out \<and> spm_requests_served out = 2 \<and> spm_handoff_errors out = 2 \<and>
       spm_stop_reason out = Stop_CreatePipe
   | Inl _ \<Rightarrow> False"
proof -
  have "case snd (ServerSwitcherNamedPipeOneRequestRuntimeBoundary_serve_many_with serve_error_request 0 5) of
     Inr out \<Rightarrow> spm_requests_served out = 2 \<and> spm_handoff_errors out = 2 \<and>
       spm_stop_reason out = Stop_CreatePipe
   | Inl _ \<Rightarrow> False"
  proof -
    note steps = serve_many_loop.simps(2) [where n = 4, simplified] serve_many_loop.simps(2) [where n = 3, simplified]
      serve_many_loop.simps(2) [where n = 2, simplified]
    have "usize_saturating_add 1 1 = 2" by (simp add: usize_saturating_add_def usize_bound_def)
    then show ?thesis
      by (simp add: ServerSwitcherNamedPipeOneRequestRuntimeBoundary_serve_many_with_def steps
        serve_error_request_def summarize_named_pipe_request_output_def queue_len_to_u32_def u32_try_from_def
        count_request_fields usize_add_one summarize_named_pipe_many_stop_reason_def Let_def)
  qed
  then show ?thesis
    using served_requests_are_counted [of serve_error_request 0 5]
    by (cases "ServerSwitcherNamedPipeOneRequestRuntimeBoundary_serve_many_with serve_error_request 0 5")
      (auto simp: usize_bound_def split: sum.splits)
qed

end
