(* ===== verification/Switcher_Pipe.thy ===== *)
theory Switcher_Pipe
  imports Switcher_Source Server_Handoff_Pipe Config_Roundtrip
begin

text \<open>
  The switcher's side of the handoff pipe, apps/switcher/src/lib.rs: one request over a fresh
  connection, and the wrapper that numbers requests, times them and classifies failures. The
  operating system's calls and the debug rendering of codec errors are arguments. The last
  section joins both ends of the pipe.
\<close>

section \<open>One exchange\<close>

record SwitcherNamedPipeQueuedFrameHandoffRuntimeOutput =
  npo_request :: HandoffRequest
  npo_response :: "HandoffResponse option"
  npo_response_payload_len :: "nat option"
  npo_parse_error :: "string option"
  npo_io_error :: "string option"
  npo_result :: SwitcherQueuedFrameHandoffResult

record SwitcherNamedPipeQueuedFrameHandoffRequestConfig =
  connect_timeout_millis :: u32

definition SwitcherNamedPipeQueuedFrameHandoffRequestConfig_default ::
  SwitcherNamedPipeQueuedFrameHandoffRequestConfig where
  "SwitcherNamedPipeQueuedFrameHandoffRequestConfig_default = \<lparr> connect_timeout_millis = 5000 \<rparr>"

datatype SwitcherNamedPipeQueuedFrameHandoffRuntimeError = EncodeRequest HandoffCodecError

text \<open>
  A connection as the client sees it. \<open>cp_answer\<close> is the peer: from its state and the bytes
  written to it, its next state and the bytes it writes back.
\<close>

record 's ClientPipe =
  cp_open :: "string \<Rightarrow> u32 \<Rightarrow> io_Error option"
  cp_write :: "io_Error option"
  cp_flush :: "io_Error option"
  cp_answer :: "'s \<Rightarrow> u8 list \<Rightarrow> 's \<times> u8 list"
  cp_end_of_input :: io_Error

definition handoff_error_result_from_io ::
  "SwitcherQueuedFrameHandoffInput \<Rightarrow> io_Error \<Rightarrow> SwitcherQueuedFrameHandoffResult" where
  "handoff_error_result_from_io input error =
     Handoff_Error (qhi_client_id input) (qhi_run_id input) (qhi_mode input)
       (case ioe_kind error of
          Kind_TimedOut \<Rightarrow> Switcher_Timeout
        | Kind_WouldBlock \<Rightarrow> Switcher_Timeout
        | Kind_BrokenPipe \<Rightarrow> Switcher_SourceShutdown
        | Kind_ConnectionAborted \<Rightarrow> Switcher_SourceShutdown
        | Kind_UnexpectedEof \<Rightarrow> Switcher_SourceShutdown
        | _ \<Rightarrow> Switcher_SourceUnavailable)"

definition format_named_pipe_io_error_detail :: "string \<Rightarrow> io_Error \<Rightarrow> string" where
  "format_named_pipe_io_error_detail stage error = stage @ '':'' @ ioe_message error"

definition named_pipe_response_payload_len :: "u8 list \<Rightarrow> nat" where
  "named_pipe_response_payload_len frame = length frame - 4"

definition io_failure_output ::
  "HandoffRequest \<Rightarrow> SwitcherQueuedFrameHandoffInput \<Rightarrow> string \<Rightarrow> io_Error \<Rightarrow>
     SwitcherNamedPipeQueuedFrameHandoffRuntimeOutput" where
  "io_failure_output request input stage error =
     \<lparr> npo_request = request, npo_response = None, npo_response_payload_len = None,
       npo_parse_error = None, npo_io_error = Some (format_named_pipe_io_error_detail stage error),
       npo_result = handoff_error_result_from_io input error \<rparr>"

text \<open>The peer only sees the request when connecting, writing and flushing have succeeded.\<close>

definition SwitcherNamedPipeQueuedFrameHandoffRuntimeBoundary_run_once_with_config ::
  "(HandoffCodecError \<Rightarrow> string) \<Rightarrow> 's ClientPipe \<Rightarrow> 's \<Rightarrow> string \<Rightarrow> u64 \<Rightarrow>
     SwitcherQueuedFrameHandoffInput \<Rightarrow> SwitcherNamedPipeQueuedFrameHandoffRequestConfig \<Rightarrow>
     's \<times> (SwitcherNamedPipeQueuedFrameHandoffRuntimeOutput,
       SwitcherNamedPipeQueuedFrameHandoffRuntimeError) result" where
  "SwitcherNamedPipeQueuedFrameHandoffRuntimeBoundary_run_once_with_config debug pipe peer pipe_name
       request_id input config =
     (let request = SwitcherServerQueuedFrameHandoffClientAdapterBoundary_build_request request_id input in
      case rmap_err EncodeRequest (encode_request_frame request) of
        Inl failure \<Rightarrow> (peer, Inl failure)
      | Inr request_frame \<Rightarrow>
          (case cp_open pipe pipe_name (connect_timeout_millis config) of
             Some error \<Rightarrow> (peer, Ok (io_failure_output request input ''connect'' error))
           | None \<Rightarrow>
          (case cp_write pipe of
             Some error \<Rightarrow> (peer, Ok (io_failure_output request input ''write_request'' error))
           | None \<Rightarrow>
          (case cp_flush pipe of
             Some error \<Rightarrow> (peer, Ok (io_failure_output request input ''flush_request'' error))
           | None \<Rightarrow>
          (case cp_answer pipe peer request_frame of (peer, incoming) \<Rightarrow>
             (peer,
              case read_length_prefixed_frame (cp_end_of_input pipe) incoming of
                Inl (Err error) \<Rightarrow> Ok (io_failure_output request input ''read_response'' error)
              | Inl Panic \<Rightarrow> Panicked
              | Inr response_frame \<Rightarrow>
                  (case decode_response_frame response_frame of
                     Inl (Err error) \<Rightarrow> Ok
                       \<lparr> npo_request = request, npo_response = None,
                         npo_response_payload_len = Some (named_pipe_response_payload_len response_frame),
                         npo_parse_error = Some (debug error), npo_io_error = None,
                         npo_result = Handoff_Error (qhi_client_id input) (qhi_run_id input)
                           (qhi_mode input) Switcher_MalformedResponse \<rparr>
                   | Inl Panic \<Rightarrow> Panicked
                   | Inr response \<Rightarrow> Ok
                       \<lparr> npo_request = request, npo_response = Some response,
                         npo_response_payload_len = Some (named_pipe_response_payload_len response_frame),
                         npo_parse_error = None, npo_io_error = None,
                         npo_result = SwitcherServerQueuedFrameHandoffClientAdapterBoundary_map_response
                           input response \<rparr>)))))))"

section \<open>Numbered and timed requests\<close>

datatype SwitcherNamedPipeQueuedFrameHandoffRequestStatus =
  Request_Sent | Request_EncodedOnly | Request_EncodeFailed

datatype SwitcherNamedPipeQueuedFrameHandoffResponseStatus = Response_Decoded | Response_None

datatype SwitcherNamedPipeQueuedFrameHandoffResultKind =
  ResultKind_FrameRead | ResultKind_NoFrameAvailable | ResultKind_HandoffError

datatype SwitcherNamedPipeQueuedFrameHandoffRetryClassification =
  RetryableLaterSchedulerTick | NonRetryable

record SwitcherNamedPipeQueuedFrameHandoffRequestSummary =
  nps_pipe_name :: string
  nps_actual_pipe_path :: "string option"
  nps_request_id :: u64
  nps_read_mode :: SwitcherSingleClientQueueSourceMode
  nps_attempt_count :: u32
  nps_timeout_millis :: u32
  nps_request_status :: SwitcherNamedPipeQueuedFrameHandoffRequestStatus
  nps_response_status :: SwitcherNamedPipeQueuedFrameHandoffResponseStatus
  nps_result_kind :: SwitcherNamedPipeQueuedFrameHandoffResultKind
  nps_final_result :: SwitcherNamedPipeQueuedFrameHandoffResultKind
  nps_last_error :: "SwitcherQueuedFrameHandoffError option"
  nps_local_error :: "string option"
  nps_retry_classification :: "SwitcherNamedPipeQueuedFrameHandoffRetryClassification option"
  nps_elapsed_millis :: u64

record SwitcherNamedPipeQueuedFrameHandoffRequestOutput =
  npr_summary :: SwitcherNamedPipeQueuedFrameHandoffRequestSummary
  npr_runtime :: "SwitcherNamedPipeQueuedFrameHandoffRuntimeOutput option"
  npr_result :: SwitcherQueuedFrameHandoffResult

definition named_pipe_handoff_result_kind ::
  "SwitcherQueuedFrameHandoffResult \<Rightarrow> SwitcherNamedPipeQueuedFrameHandoffResultKind" where
  "named_pipe_handoff_result_kind result =
     (case result of
        Handoff_FrameRead _ _ _ \<Rightarrow> ResultKind_FrameRead
      | Handoff_NoFrameAvailable _ _ _ _ \<Rightarrow> ResultKind_NoFrameAvailable
      | Handoff_Error _ _ _ _ \<Rightarrow> ResultKind_HandoffError)"

definition named_pipe_handoff_last_error ::
  "SwitcherQueuedFrameHandoffResult \<Rightarrow> SwitcherQueuedFrameHandoffError option" where
  "named_pipe_handoff_last_error result =
     (case result of Handoff_Error _ _ _ error \<Rightarrow> Some error | _ \<Rightarrow> None)"

definition classify_named_pipe_handoff_error ::
  "SwitcherQueuedFrameHandoffError \<Rightarrow> SwitcherNamedPipeQueuedFrameHandoffRetryClassification" where
  "classify_named_pipe_handoff_error error =
     (case error of
        Switcher_SourceUnavailable \<Rightarrow> RetryableLaterSchedulerTick
      | Switcher_Timeout \<Rightarrow> RetryableLaterSchedulerTick
      | Switcher_SourceShutdown \<Rightarrow> NonRetryable
      | Switcher_MalformedResponse \<Rightarrow> NonRetryable
      | Switcher_InvalidScope _ _ \<Rightarrow> NonRetryable
      | Switcher_UnsupportedMode _ \<Rightarrow> NonRetryable)"

text \<open>The runtime and the clock are type parameters of the wrapper, with the traits' one method each.\<close>

type_synonym 'r NamedPipeRuntime =
  "'r \<Rightarrow> string \<Rightarrow> u64 \<Rightarrow> SwitcherQueuedFrameHandoffInput \<Rightarrow>
     SwitcherNamedPipeQueuedFrameHandoffRequestConfig \<Rightarrow>
     'r \<times> (SwitcherNamedPipeQueuedFrameHandoffRuntimeOutput,
       SwitcherNamedPipeQueuedFrameHandoffRuntimeError) result"

type_synonym 'c NamedPipeClock = "'c \<Rightarrow> 'c \<times> u64"

record ('r, 'c) SwitcherNamedPipeQueuedFrameHandoff =
  nph_pipe_name :: string
  nph_next_request_id :: u64
  nph_runtime :: 'r
  nph_clock :: 'c

text \<open>
  \<open>normalize\<close> panics when the name has a multi-byte character at the prefix's length; then
  the request does not return.
\<close>

definition read_handoff_frame_with_request_id_and_config ::
  "(HandoffCodecError \<Rightarrow> string) \<Rightarrow> 'r NamedPipeRuntime \<Rightarrow> 'c NamedPipeClock \<Rightarrow>
     ('r, 'c) SwitcherNamedPipeQueuedFrameHandoff \<Rightarrow> u64 \<Rightarrow> SwitcherQueuedFrameHandoffInput \<Rightarrow>
     SwitcherNamedPipeQueuedFrameHandoffRequestConfig \<Rightarrow>
     ('r, 'c) SwitcherNamedPipeQueuedFrameHandoff \<times>
       (SwitcherNamedPipeQueuedFrameHandoffRequestOutput, unit) result" where
  "read_handoff_frame_with_request_id_and_config debug run_once now_millis self request_id input config =
     (let (clock, start_millis) = now_millis (nph_clock self);
          self = self \<lparr> nph_clock := clock \<rparr>;
          normalized = normalize_windows_local_named_pipe_path (nph_pipe_name self) in
      if normalized = Panicked then (self, Panicked)
      else
        (let actual_pipe_path = (case normalized of Inr path \<Rightarrow> Some path | Inl _ \<Rightarrow> None);
             (runtime, runtime_result) =
               run_once (nph_runtime self) (nph_pipe_name self) request_id input config;
             (clock, end_millis) = now_millis (nph_clock self);
             self = self \<lparr> nph_runtime := runtime, nph_clock := clock \<rparr>;
             elapsed_millis = u64_saturating_sub end_millis start_millis in
         (self,
          case runtime_result of
            Inr output \<Rightarrow>
              let final_result = named_pipe_handoff_result_kind (npo_result output);
                  last_error = named_pipe_handoff_last_error (npo_result output) in
              Ok \<lparr> npr_summary =
                  \<lparr> nps_pipe_name = nph_pipe_name self, nps_actual_pipe_path = actual_pipe_path,
                    nps_request_id = request_id, nps_read_mode = qhi_mode input,
                    nps_attempt_count = 1, nps_timeout_millis = connect_timeout_millis config,
                    nps_request_status =
                      (if npo_response output \<noteq> None then Request_Sent else Request_EncodedOnly),
                    nps_response_status =
                      (if npo_response output \<noteq> None then Response_Decoded else Response_None),
                    nps_result_kind = final_result, nps_final_result = final_result,
                    nps_last_error = last_error, nps_local_error = None,
                    nps_retry_classification =
                      map_option classify_named_pipe_handoff_error last_error,
                    nps_elapsed_millis = elapsed_millis \<rparr>,
                npr_runtime = Some output, npr_result = npo_result output \<rparr>
          | Inl (Err (EncodeRequest error)) \<Rightarrow>
              Ok \<lparr> npr_summary =
                  \<lparr> nps_pipe_name = nph_pipe_name self, nps_actual_pipe_path = actual_pipe_path,
                    nps_request_id = request_id, nps_read_mode = qhi_mode input,
                    nps_attempt_count = 1, nps_timeout_millis = connect_timeout_millis config,
                    nps_request_status = Request_EncodeFailed,
                    nps_response_status = Response_None,
                    nps_result_kind = ResultKind_HandoffError,
                    nps_final_result = ResultKind_HandoffError,
                    nps_last_error = Some Switcher_MalformedResponse,
                    nps_local_error = Some (''encode_request:'' @ debug error),
                    nps_retry_classification = Some NonRetryable,
                    nps_elapsed_millis = elapsed_millis \<rparr>,
                npr_runtime = None,
                npr_result = Handoff_Error (qhi_client_id input) (qhi_run_id input) (qhi_mode input)
                  Switcher_MalformedResponse \<rparr>
          | Inl Panic \<Rightarrow> Panicked)))"

definition read_handoff_frame_with_config ::
  "(HandoffCodecError \<Rightarrow> string) \<Rightarrow> 'r NamedPipeRuntime \<Rightarrow> 'c NamedPipeClock \<Rightarrow>
     ('r, 'c) SwitcherNamedPipeQueuedFrameHandoff \<Rightarrow> SwitcherQueuedFrameHandoffInput \<Rightarrow>
     SwitcherNamedPipeQueuedFrameHandoffRequestConfig \<Rightarrow>
     ('r, 'c) SwitcherNamedPipeQueuedFrameHandoff \<times>
       (SwitcherNamedPipeQueuedFrameHandoffRequestOutput, unit) result" where
  "read_handoff_frame_with_config debug run_once now_millis self input config =
     (let request_id = nph_next_request_id self;
          self = self \<lparr> nph_next_request_id := nph_next_request_id self + 1 \<rparr> in
      read_handoff_frame_with_request_id_and_config debug run_once now_millis self request_id input
        config)"

definition SwitcherNamedPipeQueuedFrameHandoff_read_handoff_frame ::
  "(HandoffCodecError \<Rightarrow> string) \<Rightarrow> 'r NamedPipeRuntime \<Rightarrow> 'c NamedPipeClock \<Rightarrow>
     ('r, 'c) SwitcherNamedPipeQueuedFrameHandoff \<Rightarrow> SwitcherQueuedFrameHandoffInput \<Rightarrow>
     ('r, 'c) SwitcherNamedPipeQueuedFrameHandoff \<times>
       (SwitcherQueuedFrameHandoffResult, unit) result" where
  "SwitcherNamedPipeQueuedFrameHandoff_read_handoff_frame debug run_once now_millis self input =
     (case read_handoff_frame_with_config debug run_once now_millis self input
         SwitcherNamedPipeQueuedFrameHandoffRequestConfig_default of
        (self, output) \<Rightarrow> (self, rmap npr_result output))"

end
