(* ===== verification/Handoff_Path.thy ===== *)
theory Handoff_Path
  imports Switcher_Pipe
begin

text \<open>
  The contract of a fallible frame handoff, and its two providers: the queue in the same process
  and a server at the other end of a pipe. A read over the pipe runs the switcher's request
  (apps/switcher/src/lib.rs) against the server's one-request runtime (apps/server/src/lib.rs)
  through both codecs (crates/net-core/src/lib.rs).
\<close>

section \<open>The contract\<close>

text \<open>What a read answers and what it leaves, in terms of the queue's contents.\<close>

definition scope_ok :: "ClientId \<Rightarrow> RunId \<Rightarrow> bool" where
  "scope_ok c r \<longleftrightarrow> trim c \<noteq> [] \<and> trim r \<noteq> []"

definition source_next ::
  "ServerVideoFrameQueueState \<Rightarrow> SwitcherSingleClientQueueSourceInput \<Rightarrow> ServerVideoFrameQueueState" where
  "source_next st i = state_after_read st (qsi_client_id i) (qsi_run_id i)
     (SwitcherSingleClientQueueSourceMode_queue_read_mode (qsi_mode i))"

definition source_answer ::
  "ServerVideoFrameQueueState \<Rightarrow> SwitcherSingleClientQueueSourceInput \<Rightarrow>
     SwitcherSingleClientQueueSourceResult" where
  "source_answer st i =
     (case selected_frame st (qsi_client_id i) (qsi_run_id i)
         (SwitcherSingleClientQueueSourceMode_queue_read_mode (qsi_mode i)) of
        Some f \<Rightarrow> Source_FrameAvailable (SelectedEncodedFrame_from_queued f) (qsi_mode i)
          (ServerVideoFrameQueueState_client_queue_len (source_next st i) (qsi_client_id i))
      | None \<Rightarrow> Source_NoFrameAvailable (qsi_client_id i) (qsi_run_id i) (qsi_mode i)
          (ServerVideoFrameQueueState_client_queue_len st (qsi_client_id i)))"

definition source_input ::
  "SwitcherQueuedFrameHandoffInput \<Rightarrow> SwitcherSingleClientQueueSourceInput" where
  "source_input i = \<lparr> qsi_client_id = qhi_client_id i, qsi_run_id = qhi_run_id i, qsi_mode = qhi_mode i \<rparr>"

fun handoff_of_source ::
  "SwitcherSingleClientQueueSourceResult \<Rightarrow> SwitcherQueuedFrameHandoffResult" where
  "handoff_of_source (Source_FrameAvailable frame mode n) = Handoff_FrameRead frame mode n"
| "handoff_of_source (Source_NoFrameAvailable c r mode n) = Handoff_NoFrameAvailable c r mode n"

definition handoff_answer ::
  "ServerVideoFrameQueueState \<Rightarrow> SwitcherQueuedFrameHandoffInput \<Rightarrow> SwitcherQueuedFrameHandoffResult" where
  "handoff_answer st i =
     (if scope_ok (qhi_client_id i) (qhi_run_id i) then handoff_of_source (source_answer st (source_input i))
      else Handoff_Error (qhi_client_id i) (qhi_run_id i) (qhi_mode i)
        (Switcher_InvalidScope (qhi_client_id i) (qhi_run_id i)))"

definition handoff_next ::
  "ServerVideoFrameQueueState \<Rightarrow> SwitcherQueuedFrameHandoffInput \<Rightarrow> ServerVideoFrameQueueState" where
  "handoff_next st i =
     (if scope_ok (qhi_client_id i) (qhi_run_id i) then source_next st (source_input i) else st)"

text \<open>The answers of a sequence of reads, of a provider and by the contract.\<close>

primrec handoff_reads ::
  "'s SwitcherQueuedFrameHandoff \<Rightarrow> 's \<Rightarrow> SwitcherQueuedFrameHandoffInput list \<Rightarrow>
     SwitcherQueuedFrameHandoffResult list" where
  "handoff_reads read s [] = []"
| "handoff_reads read s (i # inputs) =
     (case read s i of (s, answer) \<Rightarrow> answer # handoff_reads read s inputs)"

primrec answers_of ::
  "ServerVideoFrameQueueState \<Rightarrow> SwitcherQueuedFrameHandoffInput list \<Rightarrow>
     SwitcherQueuedFrameHandoffResult list" where
  "answers_of st [] = []"
| "answers_of st (i # inputs) = handoff_answer st i # answers_of (handoff_next st i) inputs"

locale queued_frame_handoff =
  fixes read :: "'s SwitcherQueuedFrameHandoff"
    and queue :: "'s \<Rightarrow> ServerVideoFrameQueueState"
    and ok :: "'s \<Rightarrow> bool"
    and carries :: "ClientId \<Rightarrow> RunId \<Rightarrow> bool"
  assumes keeps_ok: "ok s \<Longrightarrow> carries (qhi_client_id i) (qhi_run_id i) \<Longrightarrow> ok (fst (read s i))"
    and answers: "ok s \<Longrightarrow> carries (qhi_client_id i) (qhi_run_id i) \<Longrightarrow>
      snd (read s i) = handoff_answer (queue s) i"
    and leaves: "ok s \<Longrightarrow> carries (qhi_client_id i) (qhi_run_id i) \<Longrightarrow>
      queue (fst (read s i)) = handoff_next (queue s) i"
begin

lemma answers_all:
  "ok s \<Longrightarrow> list_all (\<lambda>i. carries (qhi_client_id i) (qhi_run_id i)) inputs \<Longrightarrow>
     handoff_reads read s inputs = answers_of (queue s) inputs"
proof (induction inputs arbitrary: s)
  case (Cons i inputs)
  then show ?case
    using keeps_ok [of s i] answers [of s i] leaves [of s i]
    by (simp add: case_prod_unfold)
qed simp

end

text \<open>A source without handoff errors, the trait \<open>SwitcherQueuedFrameSource\<close>.\<close>

locale queued_frame_source =
  fixes read :: "'s SwitcherQueuedFrameSource"
    and queue :: "'s \<Rightarrow> ServerVideoFrameQueueState"
    and ok :: "'s \<Rightarrow> bool"
    and policy :: ServerVideoFrameQueuePolicy
  assumes well_formed: "ok s \<Longrightarrow> video_queue_ok policy (queue s)"
    and keeps_ok: "ok s \<Longrightarrow> ok (fst (read s i))"
    and answers: "ok s \<Longrightarrow> snd (read s i) = source_answer (queue s) i"
    and leaves: "ok s \<Longrightarrow> queue (fst (read s i)) = source_next (queue s) i"
begin

lemma read_cases:
  assumes "ok s"
  obtains s' where "read s i = (s', source_answer (queue s) i)" "ok s'"
    "queue s' = source_next (queue s) i" "video_queue_ok policy (queue s')"
  using keeps_ok [OF assms, of i] answers [OF assms, of i] leaves [OF assms, of i] well_formed
  by (metis prod.collapse)

end

section \<open>The queue in the same process\<close>

lemma in_process_source_read:
  assumes "video_queue_ok policy st"
  shows "SwitcherInProcessServerQueueFrameSource_read_queued_frame st i = (source_next st i, source_answer st i)"
proof -
  let ?input = "\<lparr> vqr_client_id = qsi_client_id i, vqr_run_id = qsi_run_id i,
    vqr_mode = SwitcherSingleClientQueueSourceMode_queue_read_mode (qsi_mode i) \<rparr>"
  show ?thesis
    by (rule queue_read_cases [OF assms, of ?input])
      (simp_all add: SwitcherInProcessServerQueueFrameSource_read_queued_frame_def
        SwitcherSingleClientQueueSourceBoundary_read_def Let_def source_next_def source_answer_def)
qed

lemma in_process_handoff_read:
  assumes "video_queue_ok policy st"
  shows "SwitcherInProcessQueuedFrameHandoff_read_handoff_frame st i = (handoff_next st i, handoff_answer st i)"
  using in_process_source_read [OF assms, of "source_input i"]
  by (auto simp: SwitcherInProcessQueuedFrameHandoff_read_handoff_frame_def handoff_next_def
      handoff_answer_def scope_ok_def source_input_def split: SwitcherSingleClientQueueSourceResult.split)

lemma source_next_ok: "video_queue_ok policy st \<Longrightarrow> video_queue_ok policy (source_next st i)"
  by (simp add: source_next_def state_after_read_ok)

lemma handoff_next_ok: "video_queue_ok policy st \<Longrightarrow> video_queue_ok policy (handoff_next st i)"
  by (simp add: handoff_next_def source_next_ok)

interpretation in_process_source: queued_frame_source
    SwitcherInProcessServerQueueFrameSource_read_queued_frame "\<lambda>st. st" "video_queue_ok policy" policy
  for policy
  by unfold_locales (simp_all add: in_process_source_read source_next_ok)

interpretation in_process: queued_frame_handoff SwitcherInProcessQueuedFrameHandoff_read_handoff_frame
    "\<lambda>st. st" "video_queue_ok policy" "\<lambda>_ _. True" for policy
  by unfold_locales (simp_all add: in_process_handoff_read handoff_next_ok)

section \<open>A server behind a pipe\<close>

text \<open>
  A pipe on which no call of the operating system fails: what the switcher writes arrives at the
  server's one-request runtime, and what that writes comes back.
\<close>

definition server_connection :: "io_Error \<Rightarrow> u8 list \<Rightarrow> ServerPipe" where
  "server_connection eof bytes =
     \<lparr> sp_create = None, sp_connect = None, sp_incoming = bytes, sp_end_of_input = eof,
       sp_write = None, sp_flush = None \<rparr>"

definition server_answer ::
  "io_Error \<Rightarrow> ServerVideoFrameQueueState \<Rightarrow> u8 list \<Rightarrow> ServerVideoFrameQueueState \<times> u8 list" where
  "server_answer eof st bytes =
     (case ServerSwitcherNamedPipeOneRequestRuntimeBoundary_serve_once (server_connection eof bytes) st of
        (st, written, _) \<Rightarrow> (st, written))"

definition server_pipe :: "io_Error \<Rightarrow> ServerVideoFrameQueueState ClientPipe" where
  "server_pipe eof =
     \<lparr> cp_open = (\<lambda>_ _. None), cp_write = None, cp_flush = None, cp_answer = server_answer eof,
       cp_end_of_input = eof \<rparr>"

text \<open>What fits the codec: ids of at most 65535 bytes, and answers below 32 bits.\<close>

definition wire_frame :: "ServerQueuedVideoFrame \<Rightarrow> bool" where
  "wire_frame f \<longleftrightarrow> string_fits (vf_client_id (sqv_frame f)) \<and> string_fits (vf_run_id (sqv_frame f)) \<and>
     length (vf_payload (sqv_frame f)) < 2 ^ 32 - 2 ^ 18"

definition wire_queue :: "ServerVideoFrameQueuePolicy \<Rightarrow> ServerVideoFrameQueueState \<Rightarrow> bool" where
  "wire_queue policy st \<longleftrightarrow> video_queue_ok policy st \<and> max_frames_per_client policy < 2 ^ 32 \<and>
     every_stored wire_frame st"

definition wire_scope :: "ClientId \<Rightarrow> RunId \<Rightarrow> bool" where
  "wire_scope c r \<longleftrightarrow> string_fits c \<and> string_fits r"

lemma wire_queue_fits: "wire_queue policy st \<Longrightarrow> payloads_fit st"
  unfolding payloads_fit_def wire_queue_def
  by (elim conjE, erule every_stored_mono) (simp add: wire_frame_def)

lemma wire_queue_next: "wire_queue policy st \<Longrightarrow> wire_queue policy (handoff_next st i)"
  by (auto simp: wire_queue_def handoff_next_def source_next_def state_after_read_ok
      intro: state_after_read_keeps(2))

lemma string_bytes_bound: "string_fits s \<Longrightarrow> length (string_bytes s) < 2 ^ 16 + 2"
  by (simp add: string_fits_def string_bytes_def)

lemma build_request_sel [simp]:
  "hreq_client_id (SwitcherServerQueuedFrameHandoffClientAdapterBoundary_build_request q i) = qhi_client_id i"
  "hreq_run_id (SwitcherServerQueuedFrameHandoffClientAdapterBoundary_build_request q i) = qhi_run_id i"
  "hreq_read_mode (SwitcherServerQueuedFrameHandoffClientAdapterBoundary_build_request q i)
     = SwitcherSingleClientQueueSourceMode_handoff_read_mode (qhi_mode i)"
  "hreq_request_id (SwitcherServerQueuedFrameHandoffClientAdapterBoundary_build_request q i) = q"
  by (simp_all add: SwitcherServerQueuedFrameHandoffClientAdapterBoundary_build_request_def)

lemma build_request_mode:
  "request_mode (SwitcherServerQueuedFrameHandoffClientAdapterBoundary_build_request q i)
     = SwitcherSingleClientQueueSourceMode_queue_read_mode (qhi_mode i)"
  by (cases "qhi_mode i") (simp_all add: request_mode_def queue_read_mode_from_handoff_def
      SwitcherSingleClientQueueSourceMode_handoff_read_mode_def
      SwitcherSingleClientQueueSourceMode_queue_read_mode_def)

lemma mode_back:
  "SwitcherSingleClientQueueSourceMode_from_handoff_read_mode
     (SwitcherSingleClientQueueSourceMode_handoff_read_mode m) = m"
  by (cases m) (simp_all add: SwitcherSingleClientQueueSourceMode_from_handoff_read_mode_def
      SwitcherSingleClientQueueSourceMode_handoff_read_mode_def)

lemma request_frames:
  assumes "wire_scope (qhi_client_id i) (qhi_run_id i)"
  obtains frame where
    "encode_request_frame (SwitcherServerQueuedFrameHandoffClientAdapterBoundary_build_request q i) = Ok frame"
    "\<And>eof. read_length_prefixed_frame eof frame = Ok frame"
    "decode_request_frame frame = Ok (SwitcherServerQueuedFrameHandoffClientAdapterBoundary_build_request q i)"
proof -
  let ?request = "SwitcherServerQueuedFrameHandoffClientAdapterBoundary_build_request q i"
  have wf: "request_wf ?request" using assms by (simp add: request_wf_def wire_scope_def)
  have "length (request_body ?request) < 2 ^ 32"
    using assms string_bytes_bound [of "qhi_client_id i"] string_bytes_bound [of "qhi_run_id i"]
    by (simp add: request_body_def wire_scope_def)
  then obtain frame where frame: "encode_request_frame ?request = Ok frame"
    using request.encode_wf_succeeds [OF wf] by blast
  moreover have "read_length_prefixed_frame eof frame = Ok frame" for eof
    using read_whole_frame [of "request_body ?request" frame eof "[]"] frame
    by (simp add: request.encode_wf [OF wf])
  ultimately show thesis using request.roundtrip [OF wf] that by blast
qed

lemma response_frames:
  assumes wf: "response_wf response" and small: "length (response_body response) < 2 ^ 32"
  obtains frame where "encode_response_frame response = Ok frame"
    "\<And>eof. read_length_prefixed_frame eof frame = Ok frame" "decode_response_frame frame = Ok response"
proof -
  obtain frame where frame: "encode_response_frame response = Ok frame"
    using response.encode_wf_succeeds [OF assms] by blast
  moreover have "read_length_prefixed_frame eof frame = Ok frame" for eof
    using read_whole_frame [of "response_body response" frame eof "[]"] frame
    by (simp add: response.encode_wf [OF wf])
  ultimately show thesis using response.roundtrip [OF wf] that by blast
qed

text \<open>The server's answer to a built request, as the switcher reads it, is the contract's.\<close>

lemma handled_request:
  fixes q i
  defines "request \<equiv> SwitcherServerQueuedFrameHandoffClientAdapterBoundary_build_request q i"
  assumes wire: "wire_queue policy st" and scope: "wire_scope (qhi_client_id i) (qhi_run_id i)"
  obtains response where
    "ServerSwitcherQueuedFrameHandoffHandlerBoundary_handle_request st request = (handoff_next st i, Ok response)"
    "response_wf response" "length (response_body response) < 2 ^ 32"
    "SwitcherServerQueuedFrameHandoffClientAdapterBoundary_map_response i response = handoff_answer st i"
proof -
  have ok: "video_queue_ok policy st" and cap: "max_frames_per_client policy < 2 ^ 32"
    and frames: "every_stored wire_frame st"
    using wire by (simp_all add: wire_queue_def)
  have ids: "hreq_client_id request = qhi_client_id i" "hreq_run_id request = qhi_run_id i"
      "hreq_request_id request = q"
    and mode: "request_mode request = SwitcherSingleClientQueueSourceMode_queue_read_mode (qhi_mode i)"
    and read_mode: "hreq_read_mode request = SwitcherSingleClientQueueSourceMode_handoff_read_mode (qhi_mode i)"
    and valid: "valid_scope request = scope_ok (qhi_client_id i) (qhi_run_id i)"
    by (simp_all add: request_def build_request_mode valid_scope_def scope_ok_def)
  note contract = handoff_next_def handoff_answer_def source_next_def source_answer_def source_input_def
  show thesis
  proof (cases rule: handle_request_cases [OF ok cap wire_queue_fits [OF wire], of request, case_names invalid frame none])
    case invalid
    then show thesis
      by (intro that [of "HandoffError q InvalidScope"])
        (simp_all add: valid contract ids map_handoff_error_code_to_switcher_def
          SwitcherServerQueuedFrameHandoffClientAdapterBoundary_map_response_def)
  next
    case (frame f n source retained frame_id h)
    then have copied: "SelectedEncodedFrame_from_handoff h = SelectedEncodedFrame_from_queued f"
      using selected_frame_queued_ok [OF ok frame(2)]
      by (simp add: frame_copied_def SelectedEncodedFrame_from_handoff_def
          SelectedEncodedFrame_from_queued_def queued_ok_def)
    have f: "wire_frame f" by (rule every_stored_selected [OF frames frame(2)])
    then have "length (response_body (FrameRead q n source retained frame_id h)) < 2 ^ 32"
      using frame(5) string_bytes_bound [of "hf_client_id h"] string_bytes_bound [of "hf_run_id h"]
      by (simp add: wire_frame_def frame_copied_def)
    with frame f copied show thesis
      by (intro that [of "FrameRead q n source retained frame_id h"])
        (auto simp: valid contract ids mode wire_frame_def frame_copied_def
          SwitcherServerQueuedFrameHandoffClientAdapterBoundary_map_response_def)
  next
    case (none n reason source retained frame_id)
    moreover have "length (response_body (NoFrame q (qhi_client_id i) (qhi_run_id i)
        (hreq_read_mode request) n reason source retained frame_id)) < 2 ^ 32"
      using scope string_bytes_bound [of "qhi_client_id i"] string_bytes_bound [of "qhi_run_id i"]
      by (simp add: wire_scope_def)
    ultimately show thesis
      using scope
      by (intro that [of "NoFrame q (qhi_client_id i) (qhi_run_id i) (hreq_read_mode request) n reason
            source retained frame_id"]) (auto simp: valid contract ids mode wire_scope_def state_after_read_none
          read_mode mode_back
          SwitcherServerQueuedFrameHandoffClientAdapterBoundary_map_response_def)
  qed
qed

section \<open>An exchange over the pipe\<close>

lemma serve_request:
  assumes request: "decode_request_frame frame = Ok request"
      "read_length_prefixed_frame (sp_end_of_input pipe) (sp_incoming pipe) = Ok frame"
    and pipe: "sp_create pipe = None" "sp_connect pipe = None"
    and handled: "ServerSwitcherQueuedFrameHandoffHandlerBoundary_handle_request st request = (st', Ok response)"
    and answer: "encode_response_frame response = Ok answer"
  shows "ServerSwitcherNamedPipeOneRequestRuntimeBoundary_serve_once pipe st =
    (case sp_write pipe of
       Some error \<Rightarrow> (st', [], Error (Pipe_WriteResponse error))
     | None \<Rightarrow> (case sp_flush pipe of
         Some error \<Rightarrow> (st', [], Error (Pipe_FlushResponse error))
       | None \<Rightarrow> (st', answer, Ok \<lparr> spo_request = request, spo_response = response,
           spo_queue_len_before_read =
             ServerVideoFrameQueueState_client_queue_len st (hreq_client_id request) \<rparr>)))"
  by (simp add: ServerSwitcherNamedPipeOneRequestRuntimeBoundary_serve_once_def io_check_def request pipe
      ServerSwitcherNamedPipeOneRequestRuntimeBoundary_accept_one_request_def handled answer
      ServerSwitcherNamedPipeOneRequestRuntimeBoundary_write_one_response_def split: option.split)

lemma exchange:
  assumes wire: "wire_queue policy st" and scope: "wire_scope (qhi_client_id i) (qhi_run_id i)"
  obtains out where
    "SwitcherNamedPipeQueuedFrameHandoffRuntimeBoundary_run_once_with_config debug (server_pipe eof) st
       pipe_name q i config = (handoff_next st i, Ok out)"
    "npo_result out = handoff_answer st i"
proof -
  let ?request = "SwitcherServerQueuedFrameHandoffClientAdapterBoundary_build_request q i"
  obtain frame where request: "encode_request_frame ?request = Ok frame"
      "\<And>eof. read_length_prefixed_frame eof frame = Ok frame" "decode_request_frame frame = Ok ?request"
    using request_frames [OF scope] by blast
  obtain response where response:
      "ServerSwitcherQueuedFrameHandoffHandlerBoundary_handle_request st ?request = (handoff_next st i, Ok response)"
      "response_wf response" "length (response_body response) < 2 ^ 32"
      "SwitcherServerQueuedFrameHandoffClientAdapterBoundary_map_response i response = handoff_answer st i"
    by (rule handled_request [OF wire scope, of q])
  obtain answer where answer: "encode_response_frame response = Ok answer"
      "\<And>eof. read_length_prefixed_frame eof answer = Ok answer" "decode_response_frame answer = Ok response"
    using response_frames [OF response(2,3)] by blast
  have "server_answer eof st frame = (handoff_next st i, answer)"
    using serve_request [OF request(3) _ _ _ response(1) answer(1), of "server_connection eof frame"] request(2)
    by (simp add: server_answer_def server_connection_def)
  with request answer response(4) show thesis
    by (intro that) (auto simp: SwitcherNamedPipeQueuedFrameHandoffRuntimeBoundary_run_once_with_config_def
        server_pipe_def Let_def)
qed

text \<open>The handoff over the pipe, with the server's queue as the state of the runtime.\<close>

type_synonym 'c PipeHandoff = "(ServerVideoFrameQueueState, 'c) SwitcherNamedPipeQueuedFrameHandoff"

definition pipe_read ::
  "(HandoffCodecError \<Rightarrow> string) \<Rightarrow> io_Error \<Rightarrow> 'c NamedPipeClock \<Rightarrow> 'c PipeHandoff \<Rightarrow>
     SwitcherQueuedFrameHandoffInput \<Rightarrow> 'c PipeHandoff \<times> (SwitcherQueuedFrameHandoffResult, unit) result" where
  "pipe_read debug eof now_millis =
     SwitcherNamedPipeQueuedFrameHandoff_read_handoff_frame debug
       (SwitcherNamedPipeQueuedFrameHandoffRuntimeBoundary_run_once_with_config debug (server_pipe eof))
       now_millis"

definition pipe_ok :: "ServerVideoFrameQueuePolicy \<Rightarrow> 'c PipeHandoff \<Rightarrow> bool" where
  "pipe_ok policy self \<longleftrightarrow> wire_queue policy (nph_runtime self) \<and>
     normalize_windows_local_named_pipe_path (nph_pipe_name self) \<noteq> Panicked"

lemma pipe_read_result:
  assumes ok: "pipe_ok policy self" and scope: "wire_scope (qhi_client_id i) (qhi_run_id i)"
  obtains self' where
    "pipe_read debug eof now_millis self i = (self', Ok (handoff_answer (nph_runtime self) i))"
    "nph_runtime self' = handoff_next (nph_runtime self) i"
    "nph_next_request_id self' = nph_next_request_id self + 1" "nph_pipe_name self' = nph_pipe_name self"
proof -
  let ?config = SwitcherNamedPipeQueuedFrameHandoffRequestConfig_default
  obtain out where out:
    "SwitcherNamedPipeQueuedFrameHandoffRuntimeBoundary_run_once_with_config debug (server_pipe eof)
       (nph_runtime self) (nph_pipe_name self) (nph_next_request_id self) i ?config
     = (handoff_next (nph_runtime self) i, Ok out)"
    "npo_result out = handoff_answer (nph_runtime self) i"
    using exchange [OF _ scope, of policy "nph_runtime self" debug eof] ok unfolding pipe_ok_def by blast
  show thesis
    using ok out
    by (intro that [of "fst (pipe_read debug eof now_millis self i)"])
      (simp_all add: pipe_read_def pipe_ok_def case_prod_unfold Let_def
        SwitcherNamedPipeQueuedFrameHandoff_read_handoff_frame_def read_handoff_frame_with_config_def
        read_handoff_frame_with_request_id_and_config_def)
qed

lemma pipe_ok_next:
  "pipe_ok policy self \<Longrightarrow> nph_runtime self' = handoff_next (nph_runtime self) i \<Longrightarrow>
     nph_pipe_name self' = nph_pipe_name self \<Longrightarrow> pipe_ok policy self'"
  by (simp add: pipe_ok_def wire_queue_next)

definition pipe_handoff ::
  "(HandoffCodecError \<Rightarrow> string) \<Rightarrow> io_Error \<Rightarrow> 'c NamedPipeClock \<Rightarrow> 'c PipeHandoff SwitcherQueuedFrameHandoff" where
  "pipe_handoff debug eof now_millis self i =
     (case pipe_read debug eof now_millis self i of (self, answer) \<Rightarrow> (self, projr answer))"

interpretation over_pipe: queued_frame_handoff "pipe_handoff debug eof now_millis"
    nph_runtime "pipe_ok policy" wire_scope for debug eof policy and now_millis :: "'c NamedPipeClock"
proof
  fix self :: "'c PipeHandoff" and i :: SwitcherQueuedFrameHandoffInput
  assume ok: "pipe_ok policy self" and scope: "wire_scope (qhi_client_id i) (qhi_run_id i)"
  show "pipe_ok policy (fst (pipe_handoff debug eof now_millis self i))"
    and "snd (pipe_handoff debug eof now_millis self i) = handoff_answer (nph_runtime self) i"
    and "nph_runtime (fst (pipe_handoff debug eof now_millis self i)) = handoff_next (nph_runtime self) i"
    by (rule pipe_read_result [OF ok scope, of debug eof now_millis],
      simp add: pipe_handoff_def pipe_ok_next [OF ok])+
qed

primrec pipe_reads ::
  "(HandoffCodecError \<Rightarrow> string) \<Rightarrow> io_Error \<Rightarrow> 'c NamedPipeClock \<Rightarrow> 'c PipeHandoff \<Rightarrow>
     SwitcherQueuedFrameHandoffInput list \<Rightarrow> (SwitcherQueuedFrameHandoffResult, unit) result list" where
  "pipe_reads debug eof now_millis self [] = []"
| "pipe_reads debug eof now_millis self (i # inputs) =
     (case pipe_read debug eof now_millis self i of
        (self, answer) \<Rightarrow> answer # pipe_reads debug eof now_millis self inputs)"

lemma pipe_reads_answers:
  "pipe_ok policy self \<Longrightarrow> list_all (\<lambda>i. wire_scope (qhi_client_id i) (qhi_run_id i)) inputs \<Longrightarrow>
     pipe_reads debug eof now_millis self inputs = map Ok (answers_of (nph_runtime self) inputs)"
proof (induction inputs arbitrary: self)
  case (Cons i inputs)
  then have scope: "wire_scope (qhi_client_id i) (qhi_run_id i)" by simp
  obtain self' where step: "pipe_read debug eof now_millis self i = (self', Ok (handoff_answer (nph_runtime self) i))"
      "nph_runtime self' = handoff_next (nph_runtime self) i" "nph_pipe_name self' = nph_pipe_name self"
    by (rule pipe_read_result [OF Cons.prems(1) scope])
  then show ?case
    using Cons.IH [OF pipe_ok_next [OF Cons.prems(1) step(2,3)]] Cons.prems(2) by simp
qed simp

section \<open>A sample pipe\<close>

definition end_of_pipe :: io_Error where
  "end_of_pipe = \<lparr> ioe_kind = Kind_UnexpectedEof, ioe_message = ''failed to fill whole buffer'' \<rparr>"

definition sample_handoff :: "nat PipeHandoff" where
  "sample_handoff = \<lparr> nph_pipe_name = ''frames'', nph_next_request_id = 1, nph_runtime = two_frames,
     nph_clock = 0 \<rparr>"

definition tick :: "nat NamedPipeClock" where
  "tick n = (n + 1, word_of_nat n)"

lemma sample_scope: "wire_scope ''cam-1'' ''run-1''" "wire_scope ''cam-1'' ''run-9''" "wire_scope '' '' ''run-1''"
  by (simp_all add: wire_scope_def string_fits_def sample_utf8)

lemma two_frames_wire: "wire_queue ServerVideoFrameQueuePolicy_default two_frames"
proof -
  have "every_stored wire_frame two_frames"
    unfolding two_frames_def foldl.simps
    by (intro every_stored_store store_packet_ok video_queue_default_ok every_stored_default)
      (use sample_scope(1) in \<open>simp_all add: wire_frame_def wire_scope_def video_packet_def\<close>)
  then show ?thesis
    unfolding wire_queue_def
    by (intro conjI two_frames_ok) (simp add: ServerVideoFrameQueuePolicy_default_def)
qed

lemma sample_handoff_ok: "pipe_ok ServerVideoFrameQueuePolicy_default sample_handoff"
  by (simp add: pipe_ok_def sample_handoff_def two_frames_wire normalize_panics_iff sample_trim)

section \<open>Properties\<close>

text \<open>
  C23: A switcher that reads through the pipe sees what it would see with the queue in its own
  process. Take a pipe name whose normalisation does not panic, a queue whose frames and lengths
  fit the codec, and client and run ids of at most 65535 bytes: whatever frames, keyframes or
  errors a sequence of reads has in process, the same sequence of requests and answers over the
  pipe returns them, in the same order, without a panic.
\<close>

theorem pipe_reads_like_in_process:
  assumes "pipe_ok policy self"
    and "list_all (\<lambda>i. wire_scope (qhi_client_id i) (qhi_run_id i)) inputs"
  shows "pipe_reads debug eof now_millis self inputs =
    map Ok (handoff_reads SwitcherInProcessQueuedFrameHandoff_read_handoff_frame (nph_runtime self) inputs)"
  using pipe_reads_answers [OF assms] in_process.answers_all [of policy "nph_runtime self" inputs] assms(1)
  by (simp add: pipe_ok_def wire_queue_def list_all_iff)

lemma pipe_reads_like_in_process_witness:
  "pipe_reads (\<lambda>_. []) end_of_pipe tick sample_handoff
     [\<lparr> qhi_client_id = ''cam-1'', qhi_run_id = ''run-1'', qhi_mode = ConsumeOldest \<rparr>,
      \<lparr> qhi_client_id = ''cam-1'', qhi_run_id = ''run-9'', qhi_mode = PreviewLatest \<rparr>,
      \<lparr> qhi_client_id = '' '', qhi_run_id = ''run-1'', qhi_mode = PreviewLatest \<rparr>] =
   map Ok (handoff_reads SwitcherInProcessQueuedFrameHandoff_read_handoff_frame two_frames
     [\<lparr> qhi_client_id = ''cam-1'', qhi_run_id = ''run-1'', qhi_mode = ConsumeOldest \<rparr>,
      \<lparr> qhi_client_id = ''cam-1'', qhi_run_id = ''run-9'', qhi_mode = PreviewLatest \<rparr>,
      \<lparr> qhi_client_id = '' '', qhi_run_id = ''run-1'', qhi_mode = PreviewLatest \<rparr>])"
  by (subst pipe_reads_like_in_process [OF sample_handoff_ok]) (simp_all add: sample_scope sample_handoff_def)

text \<open>
  C36: A dequeue whose answer cannot be written loses the frame: the server has taken the run's
  oldest frame from the queue before it writes, and does not put it back.
\<close>

theorem failed_write_loses_frame:
  assumes "wire_queue policy st" and "wire_scope c r" and "scope_ok c r"
    and "ServerVideoFrameQueueState_frames_for_client_run st c r = f # rest"
    and "encode_request_frame (SwitcherServerQueuedFrameHandoffClientAdapterBoundary_build_request q
      \<lparr> qhi_client_id = c, qhi_run_id = r, qhi_mode = ConsumeOldest \<rparr>) = Ok bytes"
  shows "\<exists>st'. ServerSwitcherNamedPipeOneRequestRuntimeBoundary_serve_once
      ((server_connection eof bytes) \<lparr> sp_write := Some error \<rparr>) st
    = (st', [], Error (Pipe_WriteResponse error)) \<and>
    ServerVideoFrameQueueState_frames_for_client_run st' c r = rest"
proof -
  let ?i = "\<lparr> qhi_client_id = c, qhi_run_id = r, qhi_mode = ConsumeOldest \<rparr>"
  let ?request = "SwitcherServerQueuedFrameHandoffClientAdapterBoundary_build_request q ?i"
  have scope: "wire_scope (qhi_client_id ?i) (qhi_run_id ?i)" using assms(2) by simp
  obtain response where response:
      "ServerSwitcherQueuedFrameHandoffHandlerBoundary_handle_request st ?request = (handoff_next st ?i, Ok response)"
      "response_wf response" "length (response_body response) < 2 ^ 32"
    by (rule handled_request [OF assms(1) scope, of q])
  obtain answer where answer: "encode_response_frame response = Ok answer"
    by (rule response_frames [OF response(2,3)])
  have request: "read_length_prefixed_frame e bytes = Ok bytes" "decode_request_frame bytes = Ok ?request" for e
    using request_frames [OF scope, of q] assms(5) by (metis sum.inject(2))+
  have "handoff_next st ?i = snd (ServerVideoFrameQueueState_pop_front_for_client_run st c r)"
    using assms(3) by (simp add: handoff_next_def source_next_def source_input_def state_after_read_def
        SwitcherSingleClientQueueSourceMode_queue_read_mode_def)
  moreover have "ServerVideoFrameQueueState_frames_for_client_run
      (snd (ServerVideoFrameQueueState_pop_front_for_client_run st c r)) c r = rest"
    using pop_front_for_client_run_effect(2) [of policy st c r] assms(1,4)
    by (auto simp: wire_queue_def) (metis list.sel(3) prod.collapse)
  ultimately show ?thesis
    using serve_request [OF request(2) _ _ _ response(1) answer,
        of "(server_connection eof bytes) \<lparr> sp_write := Some error \<rparr>"] request(1)
    by (simp add: server_connection_def)
qed

lemma failed_write_loses_frame_witness:
  "\<exists>bytes st'. ServerSwitcherNamedPipeOneRequestRuntimeBoundary_serve_once
      ((server_connection end_of_pipe bytes) \<lparr> sp_write := Some end_of_pipe \<rparr>) two_frames
    = (st', [], Error (Pipe_WriteResponse end_of_pipe)) \<and>
    map (\<lambda>f. vf_frame_id (sqv_frame f)) (ServerVideoFrameQueueState_frames_for_client_run st' ''cam-1'' ''run-1'') = [2]"
proof -
  let ?i = "\<lparr> qhi_client_id = ''cam-1'', qhi_run_id = ''run-1'', qhi_mode = ConsumeOldest \<rparr>"
  obtain bytes where bytes:
    "encode_request_frame (SwitcherServerQueuedFrameHandoffClientAdapterBoundary_build_request 7 ?i) = Ok bytes"
    using request_frames [of ?i 7] sample_scope(1) by auto
  have frames: "map (\<lambda>f. vf_frame_id (sqv_frame f))
      (ServerVideoFrameQueueState_frames_for_client_run two_frames ''cam-1'' ''run-1'') = [1, 2]"
    by code_simp
  then obtain f g where "ServerVideoFrameQueueState_frames_for_client_run two_frames ''cam-1'' ''run-1'' = f # [g]"
      "vf_frame_id (sqv_frame g) = 2"
    by (auto simp: map_eq_Cons_conv)
  moreover have "scope_ok ''cam-1'' ''run-1''" by code_simp
  ultimately show ?thesis
    using failed_write_loses_frame [OF two_frames_wire sample_scope(1), of f "[g]" 7 bytes end_of_pipe end_of_pipe]
      bytes by fastforce
qed

end
