(* ===== verification/Switcher_Target_Time.thy ===== *)
theory Switcher_Target_Time
  imports Handoff_Path Server_Rtt
begin

text \<open>
  Selection of one client's frame against a target time, apps/switcher/src/lib.rs: reading
  through a queue source or a fallible handoff, the clock offset of a client, and the pass that
  drops late frames from the head of a queue.
\<close>

section \<open>Offsets\<close>

text \<open>An \<open>i64\<close> is a 64-bit word that is read with \<open>sint\<close>.\<close>

type_synonym i64 = "64 word"

definition i64_unsigned_abs :: "i64 \<Rightarrow> u64" where
  "i64_unsigned_abs offset = (if sint offset < 0 then - offset else offset)"

definition apply_offset_micros :: "u64 \<Rightarrow> i64 option \<Rightarrow> u64" where
  "apply_offset_micros value offset =
     (case offset of
        Some offset \<Rightarrow> if sint offset < 0 then u64_saturating_sub value (i64_unsigned_abs offset)
          else u64_saturating_add value offset
      | None \<Rightarrow> value)"

text \<open>
  \<open>a as i64 - b as i64\<close>. The difference wraps, as in a release build; a build with
  overflow checks panics where it wraps. It is exact when both times are below \<open>2 ^ 63\<close>
  (\<open>time_delta_exact\<close>).
\<close>

definition time_delta :: "u64 \<Rightarrow> u64 \<Rightarrow> i64" where
  "time_delta a b = a - b"

datatype SwitcherClientClockOffsetUnavailableReason = Offset_UnknownClient | Offset_RunMismatch

datatype SwitcherClientClockOffsetLookupResult =
    Offset_Available ClientId RunId i64 u64
  | Offset_Unavailable ClientId RunId SwitcherClientClockOffsetUnavailableReason

definition SwitcherClientClockOffsetLookupBoundary_lookup ::
  "ServerHeartbeatRttOffsetState \<Rightarrow> ClientId \<Rightarrow> RunId \<Rightarrow> SwitcherClientClockOffsetLookupResult" where
  "SwitcherClientClockOffsetLookupBoundary_lookup state client_id run_id =
     (case ServerHeartbeatRttOffsetState_get state client_id of
        None \<Rightarrow> Offset_Unavailable client_id run_id Offset_UnknownClient
      | Some entry \<Rightarrow>
          if shre_run_id entry \<noteq> run_id then Offset_Unavailable client_id run_id Offset_RunMismatch
          else Offset_Available client_id run_id
            (sm_clock_offset_micros (shre_smoothed_estimate entry))
            (sm_samples_applied (shre_smoothed_estimate entry)))"

section \<open>Results\<close>

datatype SwitcherSingleClientTargetTimeSourceMode =
    PreviewOldestIfAtOrBefore
  | PreviewLatestIfAtOrBefore
  | PreviewLatestDecodableIfAtOrBefore
  | ConsumeOldestAtOrBefore

record SwitcherSingleClientTargetTimeSourceInput =
  tti_client_id :: ClientId
  tti_run_id :: RunId
  tti_target_timestamp :: TimestampMicros
  tti_mode :: SwitcherSingleClientTargetTimeSourceMode

record SwitcherSingleClientTargetTimeSelectedFrame =
  tts_frame :: SwitcherSingleViewSelectedEncodedFrame
  tts_target_timestamp :: TimestampMicros
  tts_adjusted_capture_timestamp :: TimestampMicros
  tts_delta_from_target_micros :: i64
  tts_consumed :: bool

datatype SwitcherSingleClientTargetTimeSourceResult =
    TargetTime_Selected SwitcherSingleClientTargetTimeSelectedFrame
  | TargetTime_NoFrameAvailable ClientId RunId TimestampMicros
      SwitcherSingleClientTargetTimeSourceMode nat
  | TargetTime_WaitingForFrameAtOrBeforeTarget ClientId RunId TimestampMicros
      SwitcherSingleClientTargetTimeSourceMode u64 TimestampMicros nat

datatype SwitcherSingleClientTargetTimeHandoffSourceResult =
    TargetHandoff_Selected SwitcherSingleClientTargetTimeSelectedFrame
  | TargetHandoff_NoFrameAvailable ClientId RunId TimestampMicros
      SwitcherSingleClientTargetTimeSourceMode nat
  | TargetHandoff_WaitingForFrameAtOrBeforeTarget ClientId RunId TimestampMicros
      SwitcherSingleClientTargetTimeSourceMode u64 TimestampMicros nat
  | TargetHandoff_HandoffError ClientId RunId TimestampMicros
      SwitcherSingleClientTargetTimeSourceMode SwitcherSingleClientQueueSourceMode
      SwitcherQueuedFrameHandoffError

definition result_for_candidate ::
  "SwitcherSingleClientQueueSourceResult \<Rightarrow> TimestampMicros \<Rightarrow>
     SwitcherSingleClientTargetTimeSourceMode \<Rightarrow> bool \<Rightarrow> i64 option \<Rightarrow>
     SwitcherSingleClientTargetTimeSourceResult" where
  "result_for_candidate source_result target_timestamp mode consumed clock_offset_micros =
     (case source_result of
        Source_FrameAvailable frame _ remaining_client_queue_len \<Rightarrow>
          (let adjusted_capture_timestamp =
                 apply_offset_micros (sef_capture_timestamp frame) clock_offset_micros in
           if adjusted_capture_timestamp \<le> target_timestamp
           then TargetTime_Selected
             \<lparr> tts_frame = frame, tts_target_timestamp = target_timestamp,
               tts_adjusted_capture_timestamp = adjusted_capture_timestamp,
               tts_delta_from_target_micros = time_delta adjusted_capture_timestamp target_timestamp,
               tts_consumed = consumed \<rparr>
           else TargetTime_WaitingForFrameAtOrBeforeTarget (sef_client_id frame) (sef_run_id frame)
             target_timestamp mode (sef_frame_id frame) (sef_capture_timestamp frame)
             remaining_client_queue_len)
      | Source_NoFrameAvailable client_id run_id _ client_queue_len \<Rightarrow>
          TargetTime_NoFrameAvailable client_id run_id target_timestamp mode client_queue_len)"

section \<open>Selection from a source\<close>

text \<open>The three previews differ in the mode they read with.\<close>

definition preview_at_or_before ::
  "'s SwitcherQueuedFrameSource \<Rightarrow> SwitcherSingleClientQueueSourceMode \<Rightarrow> 's \<Rightarrow>
     SwitcherSingleClientTargetTimeSourceInput \<Rightarrow> i64 option \<Rightarrow>
     's \<times> SwitcherSingleClientTargetTimeSourceResult" where
  "preview_at_or_before read_queued_frame read_mode source input clock_offset_micros =
     (case read_queued_frame source
         \<lparr> qsi_client_id = tti_client_id input, qsi_run_id = tti_run_id input, qsi_mode = read_mode \<rparr> of
        (source, source_result) \<Rightarrow>
          (source, result_for_candidate source_result (tti_target_timestamp input) (tti_mode input)
             False clock_offset_micros))"

definition SwitcherSingleClientTargetTimeSourceBoundary_consume_oldest_at_or_before ::
  "'s SwitcherQueuedFrameSource \<Rightarrow> 's \<Rightarrow> SwitcherSingleClientTargetTimeSourceInput \<Rightarrow> i64 option \<Rightarrow>
     's \<times> SwitcherSingleClientTargetTimeSourceResult" where
  "SwitcherSingleClientTargetTimeSourceBoundary_consume_oldest_at_or_before read_queued_frame source
       input clock_offset_micros =
     (let client_id = tti_client_id input; run_id = tti_run_id input; mode = tti_mode input;
          target_timestamp = tti_target_timestamp input in
      case read_queued_frame source
          \<lparr> qsi_client_id = client_id, qsi_run_id = run_id, qsi_mode = PreviewOldest \<rparr> of
        (source, preview) \<Rightarrow>
          (case preview of
             Source_NoFrameAvailable _ _ _ _ \<Rightarrow>
               (source, result_for_candidate preview target_timestamp mode False clock_offset_micros)
           | Source_FrameAvailable frame _ remaining_client_queue_len \<Rightarrow>
               if target_timestamp
                  < apply_offset_micros (sef_capture_timestamp frame) clock_offset_micros
               then (source, TargetTime_WaitingForFrameAtOrBeforeTarget client_id run_id
                 target_timestamp mode (sef_frame_id frame) (sef_capture_timestamp frame)
                 remaining_client_queue_len)
               else
                 (case read_queued_frame source
                     \<lparr> qsi_client_id = client_id, qsi_run_id = run_id, qsi_mode = ConsumeOldest \<rparr> of
                    (source, consumed) \<Rightarrow>
                      (source, result_for_candidate consumed target_timestamp mode True
                         clock_offset_micros))))"

definition SwitcherSingleClientTargetTimeSourceBoundary_select_from_source_with_clock_offset ::
  "'s SwitcherQueuedFrameSource \<Rightarrow> 's \<Rightarrow> SwitcherSingleClientTargetTimeSourceInput \<Rightarrow> i64 option \<Rightarrow>
     's \<times> SwitcherSingleClientTargetTimeSourceResult" where
  "SwitcherSingleClientTargetTimeSourceBoundary_select_from_source_with_clock_offset read_queued_frame
       source input clock_offset_micros =
     (case tti_mode input of
        PreviewOldestIfAtOrBefore \<Rightarrow>
          preview_at_or_before read_queued_frame PreviewOldest source input clock_offset_micros
      | PreviewLatestIfAtOrBefore \<Rightarrow>
          preview_at_or_before read_queued_frame PreviewLatest source input clock_offset_micros
      | PreviewLatestDecodableIfAtOrBefore \<Rightarrow>
          preview_at_or_before read_queued_frame PreviewLatestDecodable source input clock_offset_micros
      | ConsumeOldestAtOrBefore \<Rightarrow>
          SwitcherSingleClientTargetTimeSourceBoundary_consume_oldest_at_or_before read_queued_frame
            source input clock_offset_micros)"

definition SwitcherSingleClientTargetTimeSourceBoundary_select_with_clock_offset ::
  "ServerVideoFrameQueueState \<Rightarrow> SwitcherSingleClientTargetTimeSourceInput \<Rightarrow> i64 option \<Rightarrow>
     ServerVideoFrameQueueState \<times> SwitcherSingleClientTargetTimeSourceResult" where
  "SwitcherSingleClientTargetTimeSourceBoundary_select_with_clock_offset queue_state input
       clock_offset_micros =
     SwitcherSingleClientTargetTimeSourceBoundary_select_from_source_with_clock_offset
       SwitcherInProcessServerQueueFrameSource_read_queued_frame queue_state input clock_offset_micros"

definition SwitcherSingleClientTargetTimeSourceBoundary_select ::
  "ServerVideoFrameQueueState \<Rightarrow> SwitcherSingleClientTargetTimeSourceInput \<Rightarrow>
     ServerVideoFrameQueueState \<times> SwitcherSingleClientTargetTimeSourceResult" where
  "SwitcherSingleClientTargetTimeSourceBoundary_select queue_state input =
     SwitcherSingleClientTargetTimeSourceBoundary_select_with_clock_offset queue_state input None"

section \<open>Selection over a fallible handoff\<close>

datatype SwitcherQueuedFrameHandoffConsumerResult =
    Consumer_FrameAvailable SwitcherSingleClientQueueSourceResult
  | Consumer_NoFrameAvailable SwitcherSingleClientQueueSourceResult
  | Consumer_HandoffError ClientId RunId SwitcherSingleClientQueueSourceMode
      SwitcherQueuedFrameHandoffError

fun consumer_result_of ::
  "SwitcherQueuedFrameHandoffResult \<Rightarrow> SwitcherQueuedFrameHandoffConsumerResult" where
  "consumer_result_of (Handoff_FrameRead frame mode remaining_client_queue_len) =
     Consumer_FrameAvailable (Source_FrameAvailable frame mode remaining_client_queue_len)"
| "consumer_result_of (Handoff_NoFrameAvailable client_id run_id mode client_queue_len) =
     Consumer_NoFrameAvailable (Source_NoFrameAvailable client_id run_id mode client_queue_len)"
| "consumer_result_of (Handoff_Error client_id run_id mode error) =
     Consumer_HandoffError client_id run_id mode error"

definition SwitcherQueuedFrameHandoffConsumerBoundary_read_source_result ::
  "'s SwitcherQueuedFrameHandoff \<Rightarrow> 's \<Rightarrow> SwitcherQueuedFrameHandoffInput \<Rightarrow>
     's \<times> SwitcherQueuedFrameHandoffConsumerResult" where
  "SwitcherQueuedFrameHandoffConsumerBoundary_read_source_result read_handoff_frame handoff input =
     (case read_handoff_frame handoff input of
        (handoff, result) \<Rightarrow> (handoff, consumer_result_of result))"

definition target_time_handoff_result_from_source_result ::
  "SwitcherSingleClientTargetTimeSourceResult \<Rightarrow> SwitcherSingleClientTargetTimeHandoffSourceResult" where
  "target_time_handoff_result_from_source_result result =
     (case result of
        TargetTime_Selected selected \<Rightarrow> TargetHandoff_Selected selected
      | TargetTime_NoFrameAvailable c r target mode n \<Rightarrow> TargetHandoff_NoFrameAvailable c r target mode n
      | TargetTime_WaitingForFrameAtOrBeforeTarget c r target mode frame_id capture n \<Rightarrow>
          TargetHandoff_WaitingForFrameAtOrBeforeTarget c r target mode frame_id capture n)"

definition handoff_consumer_result_for_candidate ::
  "SwitcherQueuedFrameHandoffConsumerResult \<Rightarrow> TimestampMicros \<Rightarrow>
     SwitcherSingleClientTargetTimeSourceMode \<Rightarrow> bool \<Rightarrow> i64 option \<Rightarrow>
     SwitcherSingleClientTargetTimeHandoffSourceResult" where
  "handoff_consumer_result_for_candidate consumer_result target_timestamp mode consumed
       clock_offset_micros =
     (case consumer_result of
        Consumer_FrameAvailable source_result \<Rightarrow> target_time_handoff_result_from_source_result
          (result_for_candidate source_result target_timestamp mode consumed clock_offset_micros)
      | Consumer_NoFrameAvailable source_result \<Rightarrow> target_time_handoff_result_from_source_result
          (result_for_candidate source_result target_timestamp mode consumed clock_offset_micros)
      | Consumer_HandoffError client_id run_id handoff_mode error \<Rightarrow>
          TargetHandoff_HandoffError client_id run_id target_timestamp mode handoff_mode error)"

definition handoff_preview_at_or_before ::
  "'s SwitcherQueuedFrameHandoff \<Rightarrow> SwitcherSingleClientQueueSourceMode \<Rightarrow> 's \<Rightarrow>
     SwitcherSingleClientTargetTimeSourceInput \<Rightarrow> i64 option \<Rightarrow>
     's \<times> SwitcherSingleClientTargetTimeHandoffSourceResult" where
  "handoff_preview_at_or_before read_handoff_frame read_mode handoff input clock_offset_micros =
     (case SwitcherQueuedFrameHandoffConsumerBoundary_read_source_result read_handoff_frame handoff
         \<lparr> qhi_client_id = tti_client_id input, qhi_run_id = tti_run_id input, qhi_mode = read_mode \<rparr> of
        (handoff, consumer_result) \<Rightarrow>
          (handoff, handoff_consumer_result_for_candidate consumer_result (tti_target_timestamp input)
             (tti_mode input) False clock_offset_micros))"

definition SwitcherSingleClientTargetTimeHandoffSourceBoundary_consume_oldest_at_or_before ::
  "'s SwitcherQueuedFrameHandoff \<Rightarrow> 's \<Rightarrow> SwitcherSingleClientTargetTimeSourceInput \<Rightarrow> i64 option \<Rightarrow>
     's \<times> SwitcherSingleClientTargetTimeHandoffSourceResult" where
  "SwitcherSingleClientTargetTimeHandoffSourceBoundary_consume_oldest_at_or_before read_handoff_frame
       handoff input clock_offset_micros =
     (case handoff_preview_at_or_before read_handoff_frame PreviewOldest handoff input
         clock_offset_micros of
        (handoff, preview_result) \<Rightarrow>
          (case preview_result of
             TargetHandoff_Selected _ \<Rightarrow>
               (case SwitcherQueuedFrameHandoffConsumerBoundary_read_source_result read_handoff_frame
                   handoff \<lparr> qhi_client_id = tti_client_id input, qhi_run_id = tti_run_id input,
                     qhi_mode = ConsumeOldest \<rparr> of
                  (handoff, consumed) \<Rightarrow>
                    (handoff, handoff_consumer_result_for_candidate consumed
                       (tti_target_timestamp input) (tti_mode input) True clock_offset_micros))
           | _ \<Rightarrow> (handoff, preview_result)))"

definition SwitcherSingleClientTargetTimeHandoffSourceBoundary_select_from_handoff_with_clock_offset ::
  "'s SwitcherQueuedFrameHandoff \<Rightarrow> 's \<Rightarrow> SwitcherSingleClientTargetTimeSourceInput \<Rightarrow> i64 option \<Rightarrow>
     's \<times> SwitcherSingleClientTargetTimeHandoffSourceResult" where
  "SwitcherSingleClientTargetTimeHandoffSourceBoundary_select_from_handoff_with_clock_offset
       read_handoff_frame handoff input clock_offset_micros =
     (case tti_mode input of
        PreviewOldestIfAtOrBefore \<Rightarrow>
          handoff_preview_at_or_before read_handoff_frame PreviewOldest handoff input clock_offset_micros
      | PreviewLatestIfAtOrBefore \<Rightarrow>
          handoff_preview_at_or_before read_handoff_frame PreviewLatest handoff input clock_offset_micros
      | PreviewLatestDecodableIfAtOrBefore \<Rightarrow>
          handoff_preview_at_or_before read_handoff_frame PreviewLatestDecodable handoff input
            clock_offset_micros
      | ConsumeOldestAtOrBefore \<Rightarrow>
          SwitcherSingleClientTargetTimeHandoffSourceBoundary_consume_oldest_at_or_before
            read_handoff_frame handoff input clock_offset_micros)"

definition SwitcherSingleClientTargetTimeHandoffSourceBoundary_select_from_handoff ::
  "'s SwitcherQueuedFrameHandoff \<Rightarrow> 's \<Rightarrow> SwitcherSingleClientTargetTimeSourceInput \<Rightarrow>
     's \<times> SwitcherSingleClientTargetTimeHandoffSourceResult" where
  "SwitcherSingleClientTargetTimeHandoffSourceBoundary_select_from_handoff read_handoff_frame handoff
       input =
     SwitcherSingleClientTargetTimeHandoffSourceBoundary_select_from_handoff_with_clock_offset
       read_handoff_frame handoff input None"

section \<open>Dropping late frames\<close>

definition SWITCHER_LATE_FRAME_QUEUE_MUTATION_DEFAULT_MAX_LATE_MICROS :: u64 where
  "SWITCHER_LATE_FRAME_QUEUE_MUTATION_DEFAULT_MAX_LATE_MICROS = 250000"

record SwitcherLateFrameQueueMutationPolicy =
  slp_max_late_micros :: u64

definition SwitcherLateFrameQueueMutationPolicy_default :: SwitcherLateFrameQueueMutationPolicy where
  "SwitcherLateFrameQueueMutationPolicy_default =
     \<lparr> slp_max_late_micros = SWITCHER_LATE_FRAME_QUEUE_MUTATION_DEFAULT_MAX_LATE_MICROS \<rparr>"

record SwitcherSingleClientLateFrameQueueMutationInput =
  lfi_client_id :: ClientId
  lfi_run_id :: RunId
  lfi_target_timestamp :: TimestampMicros
  lfi_clock_offset_micros :: "i64 option"
  lfi_policy :: SwitcherLateFrameQueueMutationPolicy

record SwitcherLateFrameDropRecord =
  lfd_frame :: SwitcherSingleViewSelectedEncodedFrame
  lfd_adjusted_capture_timestamp :: TimestampMicros
  lfd_late_by_micros :: u64

datatype SwitcherLateFrameQueueHeadStatus =
    Head_Retained u64 TimestampMicros TimestampMicros nat
  | Head_NoFrameAvailable nat

record SwitcherSingleClientLateFrameQueueMutationSummary =
  lfs_client_id :: ClientId
  lfs_run_id :: RunId
  lfs_target_timestamp :: TimestampMicros
  lfs_late_threshold_timestamp :: TimestampMicros
  lfs_clock_offset_micros :: "i64 option"
  lfs_dropped_late_frames :: "SwitcherLateFrameDropRecord list"
  lfs_head :: SwitcherLateFrameQueueHeadStatus

record SwitcherSingleClientLateFrameManagedSourceOutput =
  lfm_mutation :: SwitcherSingleClientLateFrameQueueMutationSummary
  lfm_selection :: SwitcherSingleClientTargetTimeSourceResult

definition late_threshold :: "SwitcherSingleClientLateFrameQueueMutationInput \<Rightarrow> u64" where
  "late_threshold input =
     u64_saturating_sub (lfi_target_timestamp input) (slp_max_late_micros (lfi_policy input))"

definition mutation_summary ::
  "SwitcherSingleClientLateFrameQueueMutationInput \<Rightarrow> SwitcherLateFrameDropRecord list \<Rightarrow>
     SwitcherLateFrameQueueHeadStatus \<Rightarrow> SwitcherSingleClientLateFrameQueueMutationSummary" where
  "mutation_summary input dropped_late_frames head =
     \<lparr> lfs_client_id = lfi_client_id input, lfs_run_id = lfi_run_id input,
       lfs_target_timestamp = lfi_target_timestamp input,
       lfs_late_threshold_timestamp = late_threshold input,
       lfs_clock_offset_micros = lfi_clock_offset_micros input,
       lfs_dropped_late_frames = dropped_late_frames, lfs_head = head \<rparr>"

definition drop_record ::
  "SwitcherSingleClientLateFrameQueueMutationInput \<Rightarrow> SwitcherSingleViewSelectedEncodedFrame \<Rightarrow>
     SwitcherLateFrameDropRecord" where
  "drop_record input frame =
     (let adjusted_capture_timestamp =
            apply_offset_micros (sef_capture_timestamp frame) (lfi_clock_offset_micros input) in
      \<lparr> lfd_frame = frame, lfd_adjusted_capture_timestamp = adjusted_capture_timestamp,
        lfd_late_by_micros =
          u64_saturating_sub (lfi_target_timestamp input) adjusted_capture_timestamp \<rparr>)"

text \<open>
  The loop ends when the source has no late frame at its head; a source that always had one
  would keep it running, so its value is an option.
\<close>

partial_function (option) mutation_loop ::
  "'s SwitcherQueuedFrameSource \<Rightarrow> SwitcherSingleClientLateFrameQueueMutationInput \<Rightarrow>
     SwitcherLateFrameDropRecord list \<Rightarrow> 's \<Rightarrow>
     ('s \<times> SwitcherSingleClientLateFrameQueueMutationSummary) option" where
  [code]: "mutation_loop read_queued_frame input dropped_late_frames source =
     (case read_queued_frame source \<lparr> qsi_client_id = lfi_client_id input,
         qsi_run_id = lfi_run_id input, qsi_mode = PreviewOldest \<rparr> of
        (source, Source_NoFrameAvailable _ _ _ client_queue_len) \<Rightarrow>
          Some (source, mutation_summary input dropped_late_frames
            (Head_NoFrameAvailable client_queue_len))
      | (source, Source_FrameAvailable frame _ remaining_client_queue_len) \<Rightarrow>
          (let adjusted_capture_timestamp =
                 apply_offset_micros (sef_capture_timestamp frame) (lfi_clock_offset_micros input) in
           if adjusted_capture_timestamp < late_threshold input
           then
             (case read_queued_frame source \<lparr> qsi_client_id = lfi_client_id input,
                 qsi_run_id = lfi_run_id input, qsi_mode = ConsumeOldest \<rparr> of
                (source, Source_FrameAvailable frame _ _) \<Rightarrow>
                  mutation_loop read_queued_frame input
                    (dropped_late_frames @ [drop_record input frame]) source
              | (source, Source_NoFrameAvailable _ _ _ client_queue_len) \<Rightarrow>
                  Some (source, mutation_summary input dropped_late_frames
                    (Head_NoFrameAvailable client_queue_len)))
           else Some (source, mutation_summary input dropped_late_frames
             (Head_Retained (sef_frame_id frame) (sef_capture_timestamp frame)
               adjusted_capture_timestamp remaining_client_queue_len))))"

definition SwitcherSingleClientLateFrameQueueMutationBoundary_mutate_from_source ::
  "'s SwitcherQueuedFrameSource \<Rightarrow> 's \<Rightarrow> SwitcherSingleClientLateFrameQueueMutationInput \<Rightarrow>
     ('s \<times> SwitcherSingleClientLateFrameQueueMutationSummary) option" where
  "SwitcherSingleClientLateFrameQueueMutationBoundary_mutate_from_source read_queued_frame source input =
     mutation_loop read_queued_frame input [] source"

definition SwitcherSingleClientLateFrameQueueMutationBoundary_mutate_queue_state ::
  "ServerVideoFrameQueueState \<Rightarrow> SwitcherSingleClientLateFrameQueueMutationInput \<Rightarrow>
     (ServerVideoFrameQueueState \<times> SwitcherSingleClientLateFrameQueueMutationSummary) option" where
  "SwitcherSingleClientLateFrameQueueMutationBoundary_mutate_queue_state queue_state input =
     SwitcherSingleClientLateFrameQueueMutationBoundary_mutate_from_source
       SwitcherInProcessServerQueueFrameSource_read_queued_frame queue_state input"

definition SwitcherSingleClientLateFrameQueueMutationBoundary_mutate_and_select_from_source ::
  "'s SwitcherQueuedFrameSource \<Rightarrow> 's \<Rightarrow> SwitcherSingleClientTargetTimeSourceInput \<Rightarrow> i64 option \<Rightarrow>
     SwitcherLateFrameQueueMutationPolicy \<Rightarrow>
     ('s \<times> SwitcherSingleClientLateFrameManagedSourceOutput) option" where
  "SwitcherSingleClientLateFrameQueueMutationBoundary_mutate_and_select_from_source read_queued_frame
       source input clock_offset_micros policy =
     (case SwitcherSingleClientLateFrameQueueMutationBoundary_mutate_from_source read_queued_frame source
         \<lparr> lfi_client_id = tti_client_id input, lfi_run_id = tti_run_id input,
           lfi_target_timestamp = tti_target_timestamp input,
           lfi_clock_offset_micros = clock_offset_micros, lfi_policy = policy \<rparr> of
        None \<Rightarrow> None
      | Some (source, mutation) \<Rightarrow>
          (case SwitcherSingleClientTargetTimeSourceBoundary_select_from_source_with_clock_offset
              read_queued_frame source input clock_offset_micros of
             (source, selection) \<Rightarrow>
               Some (source, \<lparr> lfm_mutation = mutation, lfm_selection = selection \<rparr>)))"

definition SwitcherSingleClientLateFrameQueueMutationBoundary_mutate_and_select_queue_state ::
  "ServerVideoFrameQueueState \<Rightarrow> SwitcherSingleClientTargetTimeSourceInput \<Rightarrow> i64 option \<Rightarrow>
     SwitcherLateFrameQueueMutationPolicy \<Rightarrow>
     (ServerVideoFrameQueueState \<times> SwitcherSingleClientLateFrameManagedSourceOutput) option" where
  "SwitcherSingleClientLateFrameQueueMutationBoundary_mutate_and_select_queue_state queue_state input
       clock_offset_micros policy =
     SwitcherSingleClientLateFrameQueueMutationBoundary_mutate_and_select_from_source
       SwitcherInProcessServerQueueFrameSource_read_queued_frame queue_state input clock_offset_micros
       policy"

section \<open>Times\<close>

lemma sint_i64: "sint (w :: 64 word) = (if uint w < 9223372036854775808 then uint w else uint w - 18446744073709551616)"
proof -
  have u: "0 \<le> uint w" "uint w < 18446744073709551616" using uint_lt2p [of w] by simp_all
  have "bit (uint w) 63 \<longleftrightarrow> \<not> uint w < 9223372036854775808"
  proof (cases "uint w < 9223372036854775808")
    case True
    then show ?thesis using u by (simp add: bit_iff_odd)
  next
    case False
    then have "uint w div 9223372036854775808 = 1" using u by (intro int_div_pos_eq [where r = "uint w - 9223372036854775808"]) simp_all
    with False show ?thesis by (simp add: bit_iff_odd)
  qed
  then show ?thesis
    using u by (simp add: sint_uint signed_take_bit_eq_take_bit_minus take_bit_int_eq_self)
qed

lemma uint_u64_bounds: "0 \<le> uint (w :: u64)" "uint (w :: u64) < 18446744073709551616"
  using uint_lt2p [of w] by simp_all

lemma uint_u64_minus: "uint (a - b :: u64) =
     (if uint b \<le> uint a then uint a - uint b else uint a - uint b + 18446744073709551616)"
proof (cases "uint b \<le> uint a")
  case True
  then have "(uint a - uint b) mod 18446744073709551616 = uint a - uint b"
    using uint_u64_bounds [of a] uint_u64_bounds [of b] by (intro mod_pos_pos_trivial) linarith+
  then show ?thesis using True by (simp add: uint_word_ariths)
next
  case False
  then have "(uint a - uint b + 18446744073709551616) mod 18446744073709551616 = uint a - uint b + 18446744073709551616"
    using uint_u64_bounds [of a] uint_u64_bounds [of b] by (intro mod_pos_pos_trivial) linarith+
  then show ?thesis using False by (simp add: uint_word_ariths)
qed

lemma time_delta_exact:
  assumes "uint a < 9223372036854775808" and "uint b < 9223372036854775808"
  shows "sint (time_delta a b) = uint a - uint b"
proof (cases "uint b \<le> uint a")
  case True
  then have "uint a - uint b < 9223372036854775808" using assms uint_u64_bounds [of b] by linarith
  with True show ?thesis by (simp add: time_delta_def sint_i64 uint_u64_minus)
next
  case False
  then have "\<not> uint a - uint b + 18446744073709551616 < 9223372036854775808" using assms uint_u64_bounds [of a] by linarith
  with False show ?thesis by (simp add: time_delta_def sint_i64 uint_u64_minus)
qed

lemma uint_saturating:
  "uint (u64_saturating_sub a b) = max 0 (uint a - uint b)"
  "uint (u64_saturating_add a b) = min (uint a + uint b) 18446744073709551615"
proof -
  have "int (unat (u64_saturating_sub a b)) = int (unat a - unat b)"
    by (simp only: u64_saturating_sub_unat)
  then show "uint (u64_saturating_sub a b) = max 0 (uint a - uint b)"
    by (simp add: of_nat_diff_if word_le_nat_alt [symmetric] word_le_def max_def)
  have "int (unat (u64_saturating_add a b)) = int (min (unat a + unat b) (2 ^ 64 - 1))"
    by (simp only: u64_saturating_add_unat)
  then show "uint (u64_saturating_add a b) = min (uint a + uint b) 18446744073709551615"
    by (simp add: of_nat_min)
qed

lemma apply_offset_uint:
  "uint (apply_offset_micros v None) = uint v"
  "uint (apply_offset_micros v (Some offset)) = max 0 (min (uint v + sint offset) 18446744073709551615)"
  using uint_u64_bounds [of v] uint_u64_bounds [of offset] uint_u64_minus [of 0 offset]
  by (auto simp: apply_offset_micros_def uint_saturating i64_unsigned_abs_def sint_i64)

lemma apply_offset_mono: "v \<le> w \<Longrightarrow> apply_offset_micros v offset \<le> apply_offset_micros w offset"
  by (cases offset) (auto simp: word_le_def apply_offset_uint)
section \<open>What is selected\<close>

text \<open>The frame a mode looks at, and the verdict on it.\<close>

definition candidate_mode ::
  "SwitcherSingleClientTargetTimeSourceMode \<Rightarrow> SwitcherSingleClientQueueSourceMode" where
  "candidate_mode mode =
     (case mode of
        PreviewOldestIfAtOrBefore \<Rightarrow> PreviewOldest
      | PreviewLatestIfAtOrBefore \<Rightarrow> PreviewLatest
      | PreviewLatestDecodableIfAtOrBefore \<Rightarrow> PreviewLatestDecodable
      | ConsumeOldestAtOrBefore \<Rightarrow> PreviewOldest)"

definition candidate_input ::
  "SwitcherSingleClientTargetTimeSourceInput \<Rightarrow> SwitcherSingleClientQueueSourceInput" where
  "candidate_input input = \<lparr> qsi_client_id = tti_client_id input, qsi_run_id = tti_run_id input,
     qsi_mode = candidate_mode (tti_mode input) \<rparr>"

definition consume_input ::
  "SwitcherSingleClientTargetTimeSourceInput \<Rightarrow> SwitcherSingleClientQueueSourceInput" where
  "consume_input input = \<lparr> qsi_client_id = tti_client_id input, qsi_run_id = tti_run_id input,
     qsi_mode = ConsumeOldest \<rparr>"

definition candidate ::
  "ServerVideoFrameQueueState \<Rightarrow> SwitcherSingleClientTargetTimeSourceInput \<Rightarrow>
     ServerQueuedVideoFrame option" where
  "candidate st input = selected_frame st (tti_client_id input) (tti_run_id input)
     (SwitcherSingleClientQueueSourceMode_queue_read_mode (candidate_mode (tti_mode input)))"

definition adjusted_time :: "i64 option \<Rightarrow> ServerQueuedVideoFrame \<Rightarrow> TimestampMicros" where
  "adjusted_time offset f = apply_offset_micros (vf_capture_timestamp (sqv_frame f)) offset"

definition consumes ::
  "ServerVideoFrameQueueState \<Rightarrow> SwitcherSingleClientTargetTimeSourceInput \<Rightarrow> i64 option \<Rightarrow> bool" where
  "consumes st input offset \<longleftrightarrow> tti_mode input = ConsumeOldestAtOrBefore \<and>
     (case candidate st input of
        Some f \<Rightarrow> adjusted_time offset f \<le> tti_target_timestamp input | None \<Rightarrow> False)"

definition target_time_next ::
  "ServerVideoFrameQueueState \<Rightarrow> SwitcherSingleClientTargetTimeSourceInput \<Rightarrow> i64 option \<Rightarrow>
     ServerVideoFrameQueueState" where
  "target_time_next st input offset =
     (if consumes st input offset then source_next st (consume_input input) else st)"

definition target_time_answer ::
  "ServerVideoFrameQueueState \<Rightarrow> SwitcherSingleClientTargetTimeSourceInput \<Rightarrow> i64 option \<Rightarrow>
     SwitcherSingleClientTargetTimeSourceResult" where
  "target_time_answer st input offset =
     (let target = tti_target_timestamp input; mode = tti_mode input;
          queue_len = ServerVideoFrameQueueState_client_queue_len st (tti_client_id input) in
      case candidate st input of
        None \<Rightarrow> TargetTime_NoFrameAvailable (tti_client_id input) (tti_run_id input) target mode queue_len
      | Some f \<Rightarrow>
          if adjusted_time offset f \<le> target
          then TargetTime_Selected
            \<lparr> tts_frame = SelectedEncodedFrame_from_queued f, tts_target_timestamp = target,
              tts_adjusted_capture_timestamp = adjusted_time offset f,
              tts_delta_from_target_micros = time_delta (adjusted_time offset f) target,
              tts_consumed = (mode = ConsumeOldestAtOrBefore) \<rparr>
          else TargetTime_WaitingForFrameAtOrBeforeTarget (vf_client_id (sqv_frame f))
            (vf_run_id (sqv_frame f)) target mode (vf_frame_id (sqv_frame f))
            (vf_capture_timestamp (sqv_frame f)) queue_len)"

lemma from_queued_sel [simp]:
  "sef_client_id (SelectedEncodedFrame_from_queued f) = vf_client_id (sqv_frame f)"
  "sef_run_id (SelectedEncodedFrame_from_queued f) = vf_run_id (sqv_frame f)"
  "sef_frame_id (SelectedEncodedFrame_from_queued f) = vf_frame_id (sqv_frame f)"
  "sef_capture_timestamp (SelectedEncodedFrame_from_queued f) = vf_capture_timestamp (sqv_frame f)"
  by (simp_all add: SelectedEncodedFrame_from_queued_def)

lemma preview_leaves: "qsi_mode i \<noteq> ConsumeOldest \<Longrightarrow> source_next st i = st"
  by (cases "qsi_mode i") (simp_all add: source_next_def state_after_read_def
      SwitcherSingleClientQueueSourceMode_queue_read_mode_def)

lemma candidate_mode_preview: "candidate_mode mode \<noteq> ConsumeOldest"
  by (cases mode) (simp_all add: candidate_mode_def)

text \<open>The verdict on the answer to the candidate's preview.\<close>

lemma candidate_verdict:
  "result_for_candidate (source_answer st (candidate_input input)) (tti_target_timestamp input)
     (tti_mode input) (tti_mode input = ConsumeOldestAtOrBefore) offset = target_time_answer st input offset"
  using preview_leaves [of "candidate_input input" st] candidate_mode_preview [of "tti_mode input"]
  by (auto simp: source_answer_def candidate_input_def candidate_def target_time_answer_def
      result_for_candidate_def adjusted_time_def Let_def split: option.split)

text \<open>A consume takes the frame the preview showed.\<close>

lemma consumed_verdict:
  assumes "consumes st input offset"
  shows "result_for_candidate (source_answer st (consume_input input)) (tti_target_timestamp input)
     (tti_mode input) True offset = target_time_answer st input offset"
  using assms
  by (auto simp: source_answer_def consume_input_def candidate_def target_time_answer_def
      consumes_def result_for_candidate_def adjusted_time_def Let_def candidate_mode_def selected_frame_def
      SwitcherSingleClientQueueSourceMode_queue_read_mode_def split: option.splits)

section \<open>A source selects the candidate\<close>

context queued_frame_source
begin

lemma preview_answers:
  assumes "ok s" and "candidate_mode (tti_mode input) = m" and "tti_mode input \<noteq> ConsumeOldestAtOrBefore"
  obtains s' where "preview_at_or_before read m s input offset = (s', target_time_answer (queue s) input offset)"
    "ok s'" "queue s' = queue s"
proof -
  let ?i = "candidate_input input"
  have i: "?i = \<lparr> qsi_client_id = tti_client_id input, qsi_run_id = tti_run_id input, qsi_mode = m \<rparr>"
    using assms(2) by (simp add: candidate_input_def)
  obtain s' where s': "read s ?i = (s', source_answer (queue s) ?i)" "ok s'" "queue s' = source_next (queue s) ?i"
    using read_cases [OF assms(1)] by blast
  show thesis
    using s' candidate_verdict [of "queue s" input offset] assms(3) preview_leaves [of ?i "queue s"]
      candidate_mode_preview [of "tti_mode input"]
    by (intro that [of s']) (simp_all add: preview_at_or_before_def i [symmetric] candidate_input_def)
qed

lemma consume_answers:
  assumes "ok s" and mode: "tti_mode input = ConsumeOldestAtOrBefore"
  obtains s' where
    "SwitcherSingleClientTargetTimeSourceBoundary_consume_oldest_at_or_before read s input offset
       = (s', target_time_answer (queue s) input offset)"
    "ok s'" "queue s' = target_time_next (queue s) input offset"
proof -
  let ?i = "candidate_input input" and ?j = "consume_input input"
  have i: "\<lparr> qsi_client_id = tti_client_id input, qsi_run_id = tti_run_id input, qsi_mode = PreviewOldest \<rparr> = ?i"
    by (simp add: candidate_input_def mode candidate_mode_def)
  have j: "\<lparr> qsi_client_id = tti_client_id input, qsi_run_id = tti_run_id input, qsi_mode = ConsumeOldest \<rparr> = ?j"
    by (simp add: consume_input_def)
  obtain s1 where s1: "read s ?i = (s1, source_answer (queue s) ?i)" "ok s1" "queue s1 = queue s"
    using read_cases [OF assms(1), of ?i] preview_leaves [of ?i "queue s"] candidate_mode_preview
    by (auto simp: candidate_input_def)
  obtain s2 where s2: "read s1 ?j = (s2, source_answer (queue s) ?j)" "ok s2" "queue s2 = source_next (queue s) ?j"
    using read_cases [OF s1(2), of ?j] s1(3) by metis
  note unfold = SwitcherSingleClientTargetTimeSourceBoundary_consume_oldest_at_or_before_def
  show thesis
  proof (cases "consumes (queue s) input offset")
    case True
    then obtain f where f: "candidate (queue s) input = Some f"
        "adjusted_time offset f \<le> tti_target_timestamp input"
      by (auto simp: consumes_def split: option.splits)
    then have "source_answer (queue s) ?i = Source_FrameAvailable (SelectedEncodedFrame_from_queued f) (qsi_mode ?i)
        (ServerVideoFrameQueueState_client_queue_len (source_next (queue s) ?i) (qsi_client_id ?i))"
      by (simp add: source_answer_def candidate_def candidate_input_def)
    with f leD [OF f(2)] s1 s2 True consumed_verdict [OF True] show thesis
      by (intro that [of s2])
        (simp_all add: unfold Let_def i j adjusted_time_def target_time_next_def)
  next
    case False
    have "SwitcherSingleClientTargetTimeSourceBoundary_consume_oldest_at_or_before read s input offset
       = (s1, target_time_answer (queue s) input offset)"
    proof (cases "candidate (queue s) input")
      case None
      then show ?thesis
        using s1(1) candidate_verdict [of "queue s" input offset]
        by (auto simp: unfold Let_def i source_answer_def candidate_def candidate_input_def
            target_time_answer_def result_for_candidate_def preview_leaves)
    next
      case (Some f)
      then have late: "\<not> adjusted_time offset f \<le> tti_target_timestamp input"
        using False mode by (simp add: consumes_def)
      have "vf_client_id (sqv_frame f) = tti_client_id input \<and> vf_run_id (sqv_frame f) = tti_run_id input"
        using selected_frame_scope [OF well_formed [OF assms(1)] _
            Some [unfolded candidate_def]] mode
        by (auto simp: candidate_mode_def SwitcherSingleClientQueueSourceMode_queue_read_mode_def)
      with Some late mode s1 show ?thesis
        using candidate_mode_preview [of "tti_mode input"]
        by (auto simp: unfold Let_def i source_answer_def candidate_def candidate_input_def
            target_time_answer_def adjusted_time_def preview_leaves not_le)
    qed
    with False s1 show thesis by (intro that [of s1]) (simp_all add: target_time_next_def)
  qed
qed

lemma select_answers:
  assumes "ok s"
  obtains s' where
    "SwitcherSingleClientTargetTimeSourceBoundary_select_from_source_with_clock_offset read s input offset
       = (s', target_time_answer (queue s) input offset)"
    "ok s'" "queue s' = target_time_next (queue s) input offset"
proof (cases "tti_mode input = ConsumeOldestAtOrBefore")
  case True
  then show thesis
    using consume_answers [OF assms True, of offset] that
    by (auto simp: SwitcherSingleClientTargetTimeSourceBoundary_select_from_source_with_clock_offset_def)
next
  case False
  then have "target_time_next (queue s) input offset = queue s"
    by (simp add: target_time_next_def consumes_def)
  with False show thesis
    using preview_answers [OF assms refl False, of offset] that
    by (cases "tti_mode input")
      (auto simp: SwitcherSingleClientTargetTimeSourceBoundary_select_from_source_with_clock_offset_def
        candidate_mode_def)
qed

end

section \<open>The handoff selects what the source selects\<close>

lemma handoff_of_source_candidate:
  "handoff_consumer_result_for_candidate (consumer_result_of (handoff_of_source r)) target mode consumed offset
   = target_time_handoff_result_from_source_result (result_for_candidate r target mode consumed offset)"
  by (cases r) (simp_all add: handoff_consumer_result_for_candidate_def)

lemma target_handoff_selected_iff:
  "(\<exists>selected. target_time_handoff_result_from_source_result r = TargetHandoff_Selected selected)
     \<longleftrightarrow> (\<exists>selected. r = TargetTime_Selected selected)"
  by (cases r) (simp_all add: target_time_handoff_result_from_source_result_def)

lemma answer_selected_iff:
  "(\<exists>selected. target_time_answer st input offset = TargetTime_Selected selected) \<longleftrightarrow>
     (case candidate st input of Some f \<Rightarrow> adjusted_time offset f \<le> tti_target_timestamp input | None \<Rightarrow> False)"
  by (auto simp: target_time_answer_def Let_def split: option.split)

context queued_frame_handoff
begin

lemma consumer_reads:
  assumes "ok s" and "carries (qsi_client_id i) (qsi_run_id i)" and "scope_ok (qsi_client_id i) (qsi_run_id i)"
  obtains s' where
    "SwitcherQueuedFrameHandoffConsumerBoundary_read_source_result read s
       \<lparr> qhi_client_id = qsi_client_id i, qhi_run_id = qsi_run_id i, qhi_mode = qsi_mode i \<rparr>
     = (s', consumer_result_of (handoff_of_source (source_answer (queue s) i)))"
    "ok s'" "queue s' = source_next (queue s) i"
proof -
  let ?i = "\<lparr> qhi_client_id = qsi_client_id i, qhi_run_id = qsi_run_id i, qhi_mode = qsi_mode i \<rparr>"
  have "source_input ?i = i" by (simp add: source_input_def)
  then show thesis
    using keeps_ok [OF assms(1), of ?i] answers [OF assms(1), of ?i] leaves [OF assms(1), of ?i] assms(2,3)
    by (intro that [of "fst (read s ?i)"])
      (simp_all add: SwitcherQueuedFrameHandoffConsumerBoundary_read_source_result_def handoff_answer_def
        handoff_next_def case_prod_unfold)
qed

lemma handoff_preview_answers:
  assumes "ok s" and scope: "carries (tti_client_id input) (tti_run_id input)"
    "scope_ok (tti_client_id input) (tti_run_id input)"
    and mode: "candidate_mode (tti_mode input) = m"
  obtains s' where
    "handoff_preview_at_or_before read m s input offset = (s', target_time_handoff_result_from_source_result
       (result_for_candidate (source_answer (queue s) (candidate_input input)) (tti_target_timestamp input)
          (tti_mode input) False offset))"
    "ok s'" "queue s' = queue s"
proof -
  let ?i = "candidate_input input"
  have fields: "qsi_client_id ?i = tti_client_id input" "qsi_run_id ?i = tti_run_id input" "qsi_mode ?i = m"
    by (simp_all add: candidate_input_def mode)
  have "qsi_mode ?i \<noteq> ConsumeOldest"
    using candidate_mode_preview [of "tti_mode input"] by (simp add: candidate_input_def)
  note leaves_queue = preview_leaves [OF this, of "queue s"]
  obtain s' where "SwitcherQueuedFrameHandoffConsumerBoundary_read_source_result read s
       \<lparr> qhi_client_id = tti_client_id input, qhi_run_id = tti_run_id input, qhi_mode = m \<rparr>
     = (s', consumer_result_of (handoff_of_source (source_answer (queue s) ?i)))"
      "ok s'" "queue s' = queue s"
    using consumer_reads [OF assms(1), of ?i] scope unfolding fields leaves_queue by blast
  then show thesis
    by (intro that [of s']) (simp_all add: handoff_preview_at_or_before_def handoff_of_source_candidate)
qed

lemma handoff_consume_answers:
  assumes "ok s" and "carries (tti_client_id input) (tti_run_id input)"
    and "scope_ok (tti_client_id input) (tti_run_id input)"
    and mode: "tti_mode input = ConsumeOldestAtOrBefore"
  obtains s' where
    "SwitcherSingleClientTargetTimeHandoffSourceBoundary_consume_oldest_at_or_before read s input offset
       = (s', target_time_handoff_result_from_source_result (target_time_answer (queue s) input offset))"
    "ok s'" "queue s' = target_time_next (queue s) input offset"
proof -
  let ?r = "result_for_candidate (source_answer (queue s) (candidate_input input))
      (tti_target_timestamp input) (tti_mode input) False offset"
  have j: "qsi_client_id (consume_input input) = tti_client_id input"
      "qsi_run_id (consume_input input) = tti_run_id input" "qsi_mode (consume_input input) = ConsumeOldest"
    by (simp_all add: consume_input_def)
  have preview_mode: "candidate_mode (tti_mode input) = PreviewOldest" by (simp add: mode candidate_mode_def)
  obtain s1 where s1: "handoff_preview_at_or_before read PreviewOldest s input offset =
      (s1, target_time_handoff_result_from_source_result ?r)" "ok s1" "queue s1 = queue s"
    by (rule handoff_preview_answers [OF assms(1-3) preview_mode])
  note unfold = SwitcherSingleClientTargetTimeHandoffSourceBoundary_consume_oldest_at_or_before_def
  show thesis
  proof (cases "consumes (queue s) input offset")
    case True
    then have "\<exists>selected. ?r = TargetTime_Selected selected"
      by (auto simp: consumes_def candidate_def candidate_input_def source_answer_def result_for_candidate_def
          adjusted_time_def Let_def split: option.splits)
    then obtain selected where selected: "?r = TargetTime_Selected selected" by blast
    obtain s2 where s2: "SwitcherQueuedFrameHandoffConsumerBoundary_read_source_result read s1
       \<lparr> qhi_client_id = tti_client_id input, qhi_run_id = tti_run_id input, qhi_mode = ConsumeOldest \<rparr>
       = (s2, consumer_result_of (handoff_of_source (source_answer (queue s) (consume_input input))))"
        "ok s2" "queue s2 = source_next (queue s) (consume_input input)"
      using consumer_reads [OF s1(2), of "consume_input input"] assms(2,3) unfolding j s1(3) by blast
    show thesis
      using s1 s2 selected consumed_verdict [OF True] True
      by (intro that [of s2]) (simp_all add: unfold handoff_of_source_candidate target_time_next_def
          target_time_handoff_result_from_source_result_def [of "TargetTime_Selected selected"])
  next
    case False
    then have "?r = target_time_answer (queue s) input offset \<and> (\<forall>selected. ?r \<noteq> TargetTime_Selected selected)"
      using mode candidate_mode_preview [of "tti_mode input"]
      by (auto simp: consumes_def candidate_def candidate_input_def source_answer_def result_for_candidate_def
          adjusted_time_def target_time_answer_def Let_def preview_leaves split: option.splits)
    with s1 False show thesis
      by (intro that [of s1]; cases "target_time_answer (queue s) input offset")
        (simp_all add: unfold target_time_next_def target_time_handoff_result_from_source_result_def)
  qed
qed

lemma select_from_handoff_answers:
  assumes "ok s" and "carries (tti_client_id input) (tti_run_id input)"
    and "scope_ok (tti_client_id input) (tti_run_id input)"
  obtains s' where
    "SwitcherSingleClientTargetTimeHandoffSourceBoundary_select_from_handoff_with_clock_offset read s input offset
       = (s', target_time_handoff_result_from_source_result (target_time_answer (queue s) input offset))"
    "ok s'" "queue s' = target_time_next (queue s) input offset"
proof (cases "tti_mode input = ConsumeOldestAtOrBefore")
  case True
  then show thesis
    using handoff_consume_answers [OF assms True, of offset] that
    by (auto simp: SwitcherSingleClientTargetTimeHandoffSourceBoundary_select_from_handoff_with_clock_offset_def)
next
  case False
  then have "target_time_next (queue s) input offset = queue s"
    by (simp add: target_time_next_def consumes_def)
  with False show thesis
    using handoff_preview_answers [OF assms refl, of offset] candidate_verdict [of "queue s" input offset] that
    by (cases "tti_mode input")
      (auto simp: SwitcherSingleClientTargetTimeHandoffSourceBoundary_select_from_handoff_with_clock_offset_def
        candidate_mode_def)
qed

end

section \<open>The late prefix is dropped\<close>

definition run_frames ::
  "ServerVideoFrameQueueState \<Rightarrow> SwitcherSingleClientLateFrameQueueMutationInput \<Rightarrow>
     ServerQueuedVideoFrame list" where
  "run_frames st input =
     ServerVideoFrameQueueState_frames_for_client_run st (lfi_client_id input) (lfi_run_id input)"

definition is_late ::
  "SwitcherSingleClientLateFrameQueueMutationInput \<Rightarrow> ServerQueuedVideoFrame \<Rightarrow> bool" where
  "is_late input f \<longleftrightarrow> adjusted_time (lfi_clock_offset_micros input) f < late_threshold input"

definition head_status ::
  "SwitcherSingleClientLateFrameQueueMutationInput \<Rightarrow> ServerVideoFrameQueueState \<Rightarrow>
     SwitcherLateFrameQueueHeadStatus" where
  "head_status input st =
     (let queue_len = ServerVideoFrameQueueState_client_queue_len st (lfi_client_id input) in
      case run_frames st input of
        [] \<Rightarrow> Head_NoFrameAvailable queue_len
      | f # _ \<Rightarrow> Head_Retained (vf_frame_id (sqv_frame f)) (vf_capture_timestamp (sqv_frame f))
          (adjusted_time (lfi_clock_offset_micros input) f) queue_len)"

text \<open>The state without a prefix of one run: every other run and the retained keyframes stay.\<close>

definition run_dropped ::
  "SwitcherSingleClientLateFrameQueueMutationInput \<Rightarrow> nat \<Rightarrow> ServerVideoFrameQueueState \<Rightarrow>
     ServerVideoFrameQueueState \<Rightarrow> bool" where
  "run_dropped input n st st' \<longleftrightarrow>
     (\<forall>d r. ServerVideoFrameQueueState_frames_for_client_run st' d r =
        (if d = lfi_client_id input \<and> r = lfi_run_id input
         then drop n (ServerVideoFrameQueueState_frames_for_client_run st d r)
         else ServerVideoFrameQueueState_frames_for_client_run st d r)) \<and>
     retained_keyframe_by_client_run st' = retained_keyframe_by_client_run st"

lemma run_dropped_zero: "run_dropped input 0 st st"
  by (simp add: run_dropped_def)

lemma run_dropped_Suc:
  assumes "run_dropped input 1 st st1" and "run_dropped input n st1 st2"
  shows "run_dropped input (Suc n) st st2"
  using assms by (auto simp: run_dropped_def drop_drop)

definition head_input ::
  "SwitcherSingleClientLateFrameQueueMutationInput \<Rightarrow> SwitcherSingleClientQueueSourceMode \<Rightarrow>
     SwitcherSingleClientQueueSourceInput" where
  "head_input input mode =
     \<lparr> qsi_client_id = lfi_client_id input, qsi_run_id = lfi_run_id input, qsi_mode = mode \<rparr>"

lemma head_answers:
  assumes "video_queue_ok policy st"
  shows "source_answer st (head_input input PreviewOldest) =
      (case run_frames st input of
         [] \<Rightarrow> Source_NoFrameAvailable (lfi_client_id input) (lfi_run_id input) PreviewOldest
           (ServerVideoFrameQueueState_client_queue_len st (lfi_client_id input))
       | f # _ \<Rightarrow> Source_FrameAvailable (SelectedEncodedFrame_from_queued f) PreviewOldest
           (ServerVideoFrameQueueState_client_queue_len st (lfi_client_id input)))"
    and "source_next st (head_input input PreviewOldest) = st"
    and "run_frames st input = f # fs \<Longrightarrow> \<exists>n. source_answer st (head_input input ConsumeOldest) =
      Source_FrameAvailable (SelectedEncodedFrame_from_queued f) ConsumeOldest n"
    and "run_dropped input 1 st (source_next st (head_input input ConsumeOldest))"
proof -
  obtain g st' where pop: "ServerVideoFrameQueueState_pop_front_for_client_run st (lfi_client_id input)
      (lfi_run_id input) = (g, st')" by force
  show "run_dropped input 1 st (source_next st (head_input input ConsumeOldest))"
    using pop_front_for_client_run_effect(2,3) [OF assms pop]
    by (simp add: run_dropped_def source_next_def head_input_def state_after_read_def pop drop_Suc
        SwitcherSingleClientQueueSourceMode_queue_read_mode_def)
qed (auto simp: source_answer_def source_next_def head_input_def state_after_read_def run_frames_def
    selected_frame_def first_of_def SwitcherSingleClientQueueSourceMode_queue_read_mode_def
    split: list.split)

context queued_frame_source
begin

lemma mutation_loop_drops_late_prefix:
  assumes "ok s"
  obtains s' where
    "mutation_loop read input dropped s = Some (s', mutation_summary input
       (dropped @ map (drop_record input \<circ> SelectedEncodedFrame_from_queued)
          (takeWhile (is_late input) (run_frames (queue s) input)))
       (head_status input (queue s')))"
    "ok s'"
    "run_dropped input (length (takeWhile (is_late input) (run_frames (queue s) input))) (queue s) (queue s')"
proof -
  define fs where "fs = run_frames (queue s) input"
  have "\<exists>s'. mutation_loop read input dropped s = Some (s', mutation_summary input
       (dropped @ map (drop_record input \<circ> SelectedEncodedFrame_from_queued) (takeWhile (is_late input) fs))
       (head_status input (queue s'))) \<and> ok s' \<and>
     run_dropped input (length (takeWhile (is_late input) fs)) (queue s) (queue s')"
    using assms fs_def
  proof (induction fs arbitrary: s dropped)
    case Nil
    obtain s1 where s1: "read s (head_input input PreviewOldest) =
        (s1, source_answer (queue s) (head_input input PreviewOldest))" "ok s1" "queue s1 = queue s"
      using read_cases [OF Nil.prems(1)] head_answers(2) [OF well_formed [OF Nil.prems(1)]] by metis
    then show ?case
      using Nil.prems(2) head_answers(1) [OF well_formed [OF Nil.prems(1)], of input]
      by (subst mutation_loop.simps)
        (simp add: head_input_def head_status_def run_dropped_zero)
  next
    case (Cons f fs)
    have frames: "run_frames (queue s) input = f # fs" using Cons.prems(2) by simp
    note wf = well_formed [OF Cons.prems(1)]
    obtain s1 where s1: "read s (head_input input PreviewOldest) =
        (s1, source_answer (queue s) (head_input input PreviewOldest))" "ok s1" "queue s1 = queue s"
      using read_cases [OF Cons.prems(1)] head_answers(2) [OF wf] by metis
    obtain s2 where s2: "read s1 (head_input input ConsumeOldest) =
        (s2, source_answer (queue s) (head_input input ConsumeOldest))" "ok s2"
        "queue s2 = source_next (queue s) (head_input input ConsumeOldest)"
      using read_cases [OF s1(2)] s1(3) by metis
    have next_frames: "fs = run_frames (queue s2) input"
      using head_answers(4) [OF wf, of input] frames by (simp add: s2(3) run_frames_def run_dropped_def)
    show ?case
    proof (cases "is_late input f")
      case True
      obtain n where n: "source_answer (queue s) (head_input input ConsumeOldest) =
          Source_FrameAvailable (SelectedEncodedFrame_from_queued f) ConsumeOldest n"
        using head_answers(3) [OF wf frames] by blast
      have "mutation_loop read input dropped s =
          mutation_loop read input (dropped @ [drop_record input (SelectedEncodedFrame_from_queued f)]) s2"
        using True s1 s2 n head_answers(1) [OF wf, of input]
        by (subst mutation_loop.simps)
          (simp add: head_input_def frames is_late_def adjusted_time_def)
      moreover note Cons.IH [OF s2(2) next_frames,
          of "dropped @ [drop_record input (SelectedEncodedFrame_from_queued f)]"]
      ultimately show ?thesis
        using run_dropped_Suc [OF head_answers(4) [OF wf, of input]] True by (auto simp: s2(3))
    next
      case False
      then show ?thesis
        using s1 head_answers(1) [OF wf, of input]
        by (subst mutation_loop.simps)
          (simp add: head_input_def frames is_late_def adjusted_time_def head_status_def run_dropped_zero)
    qed
  qed
  then show thesis using that by (auto simp: fs_def)
qed

end

lemma in_process_select_from_source:
  assumes "video_queue_ok policy st"
  shows "SwitcherSingleClientTargetTimeSourceBoundary_select_from_source_with_clock_offset
      SwitcherInProcessServerQueueFrameSource_read_queued_frame st input offset
    = (target_time_next st input offset, target_time_answer st input offset)"
  by (rule in_process_source.select_answers [OF assms, of input offset]) simp

lemmas in_process_select =
  in_process_select_from_source [folded SwitcherSingleClientTargetTimeSourceBoundary_select_with_clock_offset_def]

section \<open>Properties\<close>

text \<open>
  C24: A read against a target time has one of three results. The frame is selected when its
  capture time, shifted by the clock offset and cut off at the ends of the range, is not after
  the target; a consume then takes it from its run. Otherwise the read waits for it, or there is
  none, and the queue is as it was.
\<close>

theorem target_time_selection:
  assumes "video_queue_ok policy st"
  shows "\<exists>st' answer. SwitcherSingleClientTargetTimeSourceBoundary_select_with_clock_offset st input (Some offset)
      = (st', answer) \<and>
    (case candidate st input of
       None \<Rightarrow> st' = st \<and> (\<exists>n. answer = TargetTime_NoFrameAvailable (tti_client_id input) (tti_run_id input)
         (tti_target_timestamp input) (tti_mode input) n)
     | Some f \<Rightarrow>
         let shifted = max 0 (min (uint (vf_capture_timestamp (sqv_frame f)) + sint offset) (2 ^ 64 - 1)) in
         if shifted \<le> uint (tti_target_timestamp input)
         then (\<exists>selected. answer = TargetTime_Selected selected \<and>
             tts_frame selected = SelectedEncodedFrame_from_queued f \<and>
             uint (tts_adjusted_capture_timestamp selected) = shifted \<and>
             tts_consumed selected = (tti_mode input = ConsumeOldestAtOrBefore)) \<and>
           (if tti_mode input = ConsumeOldestAtOrBefore
            then ServerVideoFrameQueueState_frames_for_client_run st (tti_client_id input) (tti_run_id input)
              = f # ServerVideoFrameQueueState_frames_for_client_run st' (tti_client_id input) (tti_run_id input)
            else st' = st)
         else st' = st \<and> (\<exists>n. answer = TargetTime_WaitingForFrameAtOrBeforeTarget
           (vf_client_id (sqv_frame f)) (vf_run_id (sqv_frame f)) (tti_target_timestamp input)
           (tti_mode input) (vf_frame_id (sqv_frame f)) (vf_capture_timestamp (sqv_frame f)) n))"
proof -
  note select = in_process_select [OF assms, of input "Some offset"]
  show ?thesis
  proof (cases "candidate st input")
    case None
    then show ?thesis
      by (simp add: select target_time_next_def target_time_answer_def consumes_def Let_def)
  next
    case (Some f)
    let ?shifted = "max 0 (min (uint (vf_capture_timestamp (sqv_frame f)) + sint offset) (2 ^ 64 - 1))"
    have shifted: "uint (adjusted_time (Some offset) f) = ?shifted"
      by (simp add: adjusted_time_def apply_offset_uint)
    have due: "adjusted_time (Some offset) f \<le> tti_target_timestamp input \<longleftrightarrow>
        ?shifted \<le> uint (tti_target_timestamp input)"
      by (simp only: word_le_def shifted)
    have taken: "ServerVideoFrameQueueState_frames_for_client_run st (tti_client_id input) (tti_run_id input)
        = f # ServerVideoFrameQueueState_frames_for_client_run (source_next st (consume_input input))
            (tti_client_id input) (tti_run_id input)"
      if "tti_mode input = ConsumeOldestAtOrBefore"
    proof -
      obtain g st' where pop: "ServerVideoFrameQueueState_pop_front_for_client_run st (tti_client_id input)
          (tti_run_id input) = (g, st')" by force
      show ?thesis
        using pop_front_for_client_run_effect(2) [OF assms pop] Some that
        by (cases "ServerVideoFrameQueueState_frames_for_client_run st (tti_client_id input) (tti_run_id input)")
          (simp_all add: source_next_def consume_input_def state_after_read_def pop candidate_def
            selected_frame_def first_of_def candidate_mode_def
            SwitcherSingleClientQueueSourceMode_queue_read_mode_def)
    qed
    show ?thesis
      using Some shifted taken
      by (auto simp: select target_time_next_def target_time_answer_def consumes_def Let_def due)
  qed
qed

definition sample_target :: "TimestampMicros \<Rightarrow> SwitcherSingleClientTargetTimeSourceMode \<Rightarrow>
    SwitcherSingleClientTargetTimeSourceInput" where
  "sample_target target mode = \<lparr> tti_client_id = ''cam-1'', tti_run_id = ''run-1'',
     tti_target_timestamp = target, tti_mode = mode \<rparr>"

lemma sample_target_sel [simp]:
  "tti_client_id (sample_target target mode) = ''cam-1''" "tti_run_id (sample_target target mode) = ''run-1''"
  "tti_target_timestamp (sample_target target mode) = target" "tti_mode (sample_target target mode) = mode"
  by (simp_all add: sample_target_def)

lemma target_time_selection_witness:
  "\<exists>st' selected. SwitcherSingleClientTargetTimeSourceBoundary_select_with_clock_offset two_frames
      (sample_target 12 ConsumeOldestAtOrBefore) (Some (- 3)) = (st', TargetTime_Selected selected) \<and>
    uint (tts_adjusted_capture_timestamp selected) = 7"
proof -
  have "case candidate two_frames (sample_target 12 ConsumeOldestAtOrBefore) of
      Some f \<Rightarrow> vf_capture_timestamp (sqv_frame f) = 10 | None \<Rightarrow> False"
    by code_simp
  then obtain f where "candidate two_frames (sample_target 12 ConsumeOldestAtOrBefore) = Some f"
      "vf_capture_timestamp (sqv_frame f) = 10"
    by (auto split: option.splits)
  then show ?thesis
    using target_time_selection [OF two_frames_ok, of "sample_target 12 ConsumeOldestAtOrBefore" "- 3"]
    by (auto simp: Let_def)
qed

text \<open>
  C25: Selecting through the pipe selects what a switcher in the server's process would: for a
  pipe name whose normalisation does not panic, a queue whose frames and lengths fit the codec, and
  client and run ids that are not blank and have at most 65535 bytes, the same answer to the same
  target time and clock offset, and the same queue afterwards. (A blank id is refused as an invalid
  scope over the pipe only.)
\<close>

theorem remote_selection_is_local_selection:
  assumes "pipe_ok policy self" and "wire_scope (tti_client_id input) (tti_run_id input)"
    and "scope_ok (tti_client_id input) (tti_run_id input)"
  shows "(case SwitcherSingleClientTargetTimeHandoffSourceBoundary_select_from_handoff_with_clock_offset
        (pipe_handoff debug eof now_millis) self input offset of
      (self', answer) \<Rightarrow> (nph_runtime self', answer)) =
    (case SwitcherSingleClientTargetTimeSourceBoundary_select_with_clock_offset (nph_runtime self) input offset of
      (st', answer) \<Rightarrow> (st', target_time_handoff_result_from_source_result answer))"
proof -
  have ok: "video_queue_ok policy (nph_runtime self)"
    using assms(1) by (simp add: pipe_ok_def wire_queue_def)
  obtain self' where
    "SwitcherSingleClientTargetTimeHandoffSourceBoundary_select_from_handoff_with_clock_offset
       (pipe_handoff debug eof now_millis) self input offset
     = (self', target_time_handoff_result_from_source_result (target_time_answer (nph_runtime self) input offset))"
    "nph_runtime self' = target_time_next (nph_runtime self) input offset"
    by (rule over_pipe.select_from_handoff_answers [OF assms])
  then show ?thesis by (simp add: in_process_select [OF ok])
qed

lemma remote_selection_is_local_selection_witness:
  "case SwitcherSingleClientTargetTimeHandoffSourceBoundary_select_from_handoff_with_clock_offset
      (pipe_handoff (\<lambda>_. []) end_of_pipe tick) sample_handoff (sample_target 12 ConsumeOldestAtOrBefore) None of
    (_, TargetHandoff_Selected selected) \<Rightarrow> sef_frame_id (tts_frame selected) = 1
  | _ \<Rightarrow> False"
proof -
  have scope: "wire_scope (tti_client_id (sample_target 12 ConsumeOldestAtOrBefore))
      (tti_run_id (sample_target 12 ConsumeOldestAtOrBefore))"
    "scope_ok (tti_client_id (sample_target 12 ConsumeOldestAtOrBefore))
      (tti_run_id (sample_target 12 ConsumeOldestAtOrBefore))"
    using sample_scope(1) by simp code_simp
  have "case snd (SwitcherSingleClientTargetTimeSourceBoundary_select_with_clock_offset two_frames
      (sample_target 12 ConsumeOldestAtOrBefore) None) of
      TargetTime_Selected selected \<Rightarrow> sef_frame_id (tts_frame selected) = 1 | _ \<Rightarrow> False"
    by code_simp
  then show ?thesis
    using remote_selection_is_local_selection [OF sample_handoff_ok scope, of "\<lambda>_. []" end_of_pipe tick None]
    by (auto simp: sample_handoff_def target_time_handoff_result_from_source_result_def case_prod_unfold
        split: SwitcherSingleClientTargetTimeSourceResult.splits)
qed

text \<open>
  C26: The late-frame pass ends, and drops from the run exactly the frames before the first one
  that is not late, each recorded once and in order; what is left of the run is the rest, and
  every other run and the retained keyframes are untouched.
\<close>

theorem late_prefix_is_dropped:
  assumes "video_queue_ok policy st"
  shows "\<exists>st'. SwitcherSingleClientLateFrameQueueMutationBoundary_mutate_queue_state st input =
      Some (st', mutation_summary input
        (map (drop_record input \<circ> SelectedEncodedFrame_from_queued)
          (takeWhile (is_late input) (run_frames st input))) (head_status input st')) \<and>
    run_frames st' input = dropWhile (is_late input) (run_frames st input) \<and>
    retained_keyframe_by_client_run st' = retained_keyframe_by_client_run st \<and>
    (\<forall>c r. c = lfi_client_id input \<and> r = lfi_run_id input \<or>
       ServerVideoFrameQueueState_frames_for_client_run st' c r =
         ServerVideoFrameQueueState_frames_for_client_run st c r)"
proof -
  obtain st' where st': "mutation_loop SwitcherInProcessServerQueueFrameSource_read_queued_frame input [] st =
        Some (st', mutation_summary input (map (drop_record input \<circ> SelectedEncodedFrame_from_queued)
          (takeWhile (is_late input) (run_frames st input))) (head_status input st'))"
      "run_dropped input (length (takeWhile (is_late input) (run_frames st input))) st st'"
    using in_process_source.mutation_loop_drops_late_prefix [OF assms, of input "[]"] unfolding append_Nil by blast
  then show ?thesis
    by (intro exI [of _ st'])
      (simp add: SwitcherSingleClientLateFrameQueueMutationBoundary_mutate_queue_state_def run_dropped_def
        SwitcherSingleClientLateFrameQueueMutationBoundary_mutate_from_source_def run_frames_def
        dropWhile_eq_drop)
qed

definition sample_mutation :: SwitcherSingleClientLateFrameQueueMutationInput where
  "sample_mutation = \<lparr> lfi_client_id = ''cam-1'', lfi_run_id = ''run-1'', lfi_target_timestamp = 30,
     lfi_clock_offset_micros = Some (- 2), lfi_policy = \<lparr> slp_max_late_micros = 15 \<rparr> \<rparr>"

lemma late_prefix_is_dropped_witness:
  "\<exists>st' summary. SwitcherSingleClientLateFrameQueueMutationBoundary_mutate_queue_state two_frames sample_mutation
      = Some (st', summary) \<and>
    map (\<lambda>f. vf_frame_id (sqv_frame f)) (run_frames st' sample_mutation) = [2]"
proof -
  have "map (\<lambda>f. vf_frame_id (sqv_frame f))
      (dropWhile (is_late sample_mutation) (run_frames two_frames sample_mutation)) = [2]"
    by code_simp
  then show ?thesis using late_prefix_is_dropped [OF two_frames_ok, of sample_mutation] by metis
qed

text \<open>
  After the late-frame pass a selection of the oldest frame is in the window: at most the
  allowed lateness before the target, and not after it.
\<close>

theorem managed_selection_is_in_window:
  assumes "video_queue_ok policy st"
    and "SwitcherSingleClientLateFrameQueueMutationBoundary_mutate_and_select_queue_state st input offset late
      = Some (st', out)"
    and "lfm_selection out = TargetTime_Selected selected"
    and "tti_mode input \<in> {PreviewOldestIfAtOrBefore, ConsumeOldestAtOrBefore}"
  shows "uint (tti_target_timestamp input) - uint (slp_max_late_micros late)
      \<le> uint (tts_adjusted_capture_timestamp selected) \<and>
    uint (tts_adjusted_capture_timestamp selected) \<le> uint (tti_target_timestamp input)"
proof -
  let ?m = "\<lparr> lfi_client_id = tti_client_id input, lfi_run_id = tti_run_id input,
      lfi_target_timestamp = tti_target_timestamp input, lfi_clock_offset_micros = offset, lfi_policy = late \<rparr>"
  obtain st1 where st1: "mutation_loop SwitcherInProcessServerQueueFrameSource_read_queued_frame ?m [] st =
        Some (st1, mutation_summary ?m (map (drop_record ?m \<circ> SelectedEncodedFrame_from_queued)
          (takeWhile (is_late ?m) (run_frames st ?m))) (head_status ?m st1))"
      "video_queue_ok policy st1"
      "run_dropped ?m (length (takeWhile (is_late ?m) (run_frames st ?m))) st st1"
    using in_process_source.mutation_loop_drops_late_prefix [OF assms(1), of ?m "[]"] unfolding append_Nil by blast
  have rest: "run_frames st1 ?m = dropWhile (is_late ?m) (run_frames st ?m)"
    using st1(3) by (simp add: run_dropped_def run_frames_def dropWhile_eq_drop)
  have "target_time_answer st1 input offset = TargetTime_Selected selected"
    using assms(2,3) st1(1) in_process_select_from_source [OF st1(2), of input offset]
    by (auto simp: SwitcherSingleClientLateFrameQueueMutationBoundary_mutate_and_select_queue_state_def
        SwitcherSingleClientLateFrameQueueMutationBoundary_mutate_and_select_from_source_def
        SwitcherSingleClientLateFrameQueueMutationBoundary_mutate_from_source_def)
  then obtain f where f: "candidate st1 input = Some f" "adjusted_time offset f \<le> tti_target_timestamp input"
      "tts_adjusted_capture_timestamp selected = adjusted_time offset f"
    by (auto simp: target_time_answer_def Let_def split: option.splits if_splits)
  have "run_frames st1 ?m \<noteq> [] \<and> f = hd (run_frames st1 ?m)"
    using f(1) assms(4) by (auto simp: candidate_def candidate_mode_def selected_frame_def run_frames_def first_of_def
        SwitcherSingleClientQueueSourceMode_queue_read_mode_def split: if_splits list.splits)
  then have "\<not> is_late ?m f" unfolding rest using hd_dropWhile by blast
  then have "late_threshold ?m \<le> adjusted_time offset f" by (simp add: is_late_def)
  then have "uint (late_threshold ?m) \<le> uint (adjusted_time offset f)" by (simp only: word_le_def)
  then show ?thesis
    using f(2,3) by (simp add: late_threshold_def uint_saturating word_le_def)
qed

end
