(* ===== verification/Switcher_Jitter_Buffer.thy ===== *)
theory Switcher_Jitter_Buffer
  imports Switcher_Target_Time
begin

text \<open>
  The read-only jitter-buffer selection of apps/switcher/src/lib.rs: among a client's queued
  frames, the one whose adjusted capture time is nearest to the target time, inside a window
  around it; and the same for two clients against one target time.
\<close>

section \<open>Target time\<close>

record SwitcherTargetTimeInput =
  stt_current_switcher_time :: TimestampMicros
  stt_playout_delay_micros :: u64
  stt_clock_offset_micros :: "i64 option"

record SwitcherTargetTime =
  stt_value :: TimestampMicros

definition SwitcherTargetTimeBoundary_calculate :: "SwitcherTargetTimeInput \<Rightarrow> SwitcherTargetTime" where
  "SwitcherTargetTimeBoundary_calculate input =
     (let base = u64_saturating_sub (stt_current_switcher_time input) (stt_playout_delay_micros input) in
      \<lparr> stt_value = apply_offset_micros base (stt_clock_offset_micros input) \<rparr>)"

section \<open>One client\<close>

record SwitcherJitterBufferSelectionPolicy =
  jbp_playout_delay_micros :: u64
  jbp_clock_offset_micros :: "i64 option"
  jbp_max_late_micros :: u64
  jbp_max_early_micros :: u64
  jbp_min_buffer_frames :: nat

definition SwitcherJitterBufferSelectionPolicy_default :: SwitcherJitterBufferSelectionPolicy where
  "SwitcherJitterBufferSelectionPolicy_default =
     \<lparr> jbp_playout_delay_micros = 500000, jbp_clock_offset_micros = None,
       jbp_max_late_micros = 250000, jbp_max_early_micros = 33334, jbp_min_buffer_frames = 1 \<rparr>"

record SwitcherJitterBufferSelectionInput =
  jbi_queue_state :: ServerVideoFrameQueueState
  jbi_client_id :: ClientId
  jbi_current_switcher_time :: TimestampMicros
  jbi_policy :: SwitcherJitterBufferSelectionPolicy

record SwitcherJitterBufferSelectedFrame =
  jbs_frame :: SwitcherSingleViewSelectedEncodedFrame
  jbs_target_time :: TimestampMicros
  jbs_adjusted_capture_timestamp :: TimestampMicros
  jbs_delta_from_target_micros :: i64

datatype SwitcherJitterBufferSelectionResult =
    Jitter_Selected SwitcherJitterBufferSelectedFrame
  | Jitter_NoFrame ClientId TimestampMicros
  | Jitter_WaitingForBuffer ClientId TimestampMicros nat nat
  | Jitter_FrameTooEarly ClientId TimestampMicros TimestampMicros nat
  | Jitter_FrameTooLateDropped ClientId TimestampMicros TimestampMicros
      "SwitcherSingleViewSelectedEncodedFrame list"

text \<open>\<open>Iterator::min_by_key\<close>: the first element with the least key.\<close>

fun min_by_key :: "('a \<Rightarrow> 'k::linorder) \<Rightarrow> 'a list \<Rightarrow> 'a option" where
  "min_by_key key [] = None"
| "min_by_key key (x # xs) =
     (case min_by_key key xs of
        None \<Rightarrow> Some x
      | Some y \<Rightarrow> if key y < key x then Some y else Some x)"

text \<open>\<open>sort_by_key\<close> is stable, as \<open>sort_key\<close> is.\<close>

definition SwitcherJitterBufferSelectionBoundary_select_frame_at_target_time ::
  "SwitcherJitterBufferSelectionInput \<Rightarrow> TimestampMicros \<Rightarrow>
     (SwitcherJitterBufferSelectionResult, unit) result" where
  "SwitcherJitterBufferSelectionBoundary_select_frame_at_target_time input target_time =
     (let policy = jbi_policy input; client_id = jbi_client_id input;
          frames = map SelectedEncodedFrame_from_queued
            (ServerVideoFrameQueueState_frames_for_client (jbi_queue_state input) client_id) in
      if frames = [] then Ok (Jitter_NoFrame client_id target_time)
      else if length frames < jbp_min_buffer_frames policy
      then Ok (Jitter_WaitingForBuffer client_id target_time (length frames)
        (jbp_min_buffer_frames policy))
      else
        (let lower = u64_saturating_sub target_time (jbp_max_late_micros policy);
             upper = u64_saturating_add target_time (jbp_max_early_micros policy);
             timed_frames = sort_key snd (map (\<lambda>frame.
               (frame, apply_offset_micros (sef_capture_timestamp frame)
                 (jbp_clock_offset_micros policy))) frames) in
         case min_by_key (\<lambda>(_, adjusted). u64_abs_diff adjusted target_time)
             (filter (\<lambda>(_, adjusted). lower \<le> adjusted \<and> adjusted \<le> upper) timed_frames) of
           Some (frame, adjusted) \<Rightarrow> Ok (Jitter_Selected
             \<lparr> jbs_frame = frame, jbs_target_time = target_time,
               jbs_adjusted_capture_timestamp = adjusted,
               jbs_delta_from_target_micros = time_delta adjusted target_time \<rparr>)
         | None \<Rightarrow>
             (case (first_of timed_frames, last_of timed_frames) of
                (Some earliest, Some latest) \<Rightarrow>
                  if upper < snd earliest
                  then Ok (Jitter_FrameTooEarly client_id target_time (snd earliest)
                    (length timed_frames))
                  else Ok (Jitter_FrameTooLateDropped client_id target_time (snd latest)
                    (map fst (filter (\<lambda>(_, adjusted). adjusted < lower) timed_frames)))
              | _ \<Rightarrow> Panicked)))"

definition SwitcherJitterBufferSelectionBoundary_select_frame ::
  "SwitcherJitterBufferSelectionInput \<Rightarrow> (SwitcherJitterBufferSelectionResult, unit) result" where
  "SwitcherJitterBufferSelectionBoundary_select_frame input =
     (let target_time = stt_value (SwitcherTargetTimeBoundary_calculate
            \<lparr> stt_current_switcher_time = jbi_current_switcher_time input,
              stt_playout_delay_micros = jbp_playout_delay_micros (jbi_policy input),
              stt_clock_offset_micros = jbp_clock_offset_micros (jbi_policy input) \<rparr>) in
      SwitcherJitterBufferSelectionBoundary_select_frame_at_target_time input target_time)"

section \<open>Two clients\<close>

record SwitcherTwoViewTargetTimeSelectionPolicy =
  tvp_playout_delay_micros :: u64
  tvp_left_clock_offset_micros :: "i64 option"
  tvp_right_clock_offset_micros :: "i64 option"
  tvp_max_late_micros :: u64
  tvp_max_early_micros :: u64
  tvp_min_buffer_frames :: nat

definition SwitcherTwoViewTargetTimeSelectionPolicy_default ::
  SwitcherTwoViewTargetTimeSelectionPolicy where
  "SwitcherTwoViewTargetTimeSelectionPolicy_default =
     (let single = SwitcherJitterBufferSelectionPolicy_default in
      \<lparr> tvp_playout_delay_micros = jbp_playout_delay_micros single,
        tvp_left_clock_offset_micros = None, tvp_right_clock_offset_micros = None,
        tvp_max_late_micros = jbp_max_late_micros single,
        tvp_max_early_micros = jbp_max_early_micros single,
        tvp_min_buffer_frames = jbp_min_buffer_frames single \<rparr>)"

definition SwitcherTwoViewTargetTimeSelectionPolicy_per_client_policy ::
  "SwitcherTwoViewTargetTimeSelectionPolicy \<Rightarrow> i64 option \<Rightarrow> SwitcherJitterBufferSelectionPolicy" where
  "SwitcherTwoViewTargetTimeSelectionPolicy_per_client_policy self clock_offset_micros =
     \<lparr> jbp_playout_delay_micros = tvp_playout_delay_micros self,
       jbp_clock_offset_micros = clock_offset_micros,
       jbp_max_late_micros = tvp_max_late_micros self,
       jbp_max_early_micros = tvp_max_early_micros self,
       jbp_min_buffer_frames = tvp_min_buffer_frames self \<rparr>"

record SwitcherTwoViewTargetTimeSelectionInput =
  tvi_queue_state :: ServerVideoFrameQueueState
  tvi_left_client_id :: ClientId
  tvi_right_client_id :: ClientId
  tvi_current_switcher_time :: TimestampMicros
  tvi_policy :: SwitcherTwoViewTargetTimeSelectionPolicy

datatype SwitcherTwoViewTargetTimeSelectionResult =
    BothSelected TimestampMicros SwitcherJitterBufferSelectedFrame SwitcherJitterBufferSelectedFrame
  | Partial TimestampMicros SwitcherJitterBufferSelectionResult SwitcherJitterBufferSelectionResult
  | BothUnavailable TimestampMicros SwitcherJitterBufferSelectionResult
      SwitcherJitterBufferSelectionResult

definition SwitcherTwoViewTargetTimeSelectionBoundary_select_pair ::
  "SwitcherTwoViewTargetTimeSelectionInput \<Rightarrow>
     (SwitcherTwoViewTargetTimeSelectionResult, unit) result" where
  "SwitcherTwoViewTargetTimeSelectionBoundary_select_pair input =
     (let policy = tvi_policy input;
          shared_target_time = stt_value (SwitcherTargetTimeBoundary_calculate
            \<lparr> stt_current_switcher_time = tvi_current_switcher_time input,
              stt_playout_delay_micros = tvp_playout_delay_micros policy,
              stt_clock_offset_micros = None \<rparr>) in
      rbind (SwitcherJitterBufferSelectionBoundary_select_frame_at_target_time
        \<lparr> jbi_queue_state = tvi_queue_state input, jbi_client_id = tvi_left_client_id input,
          jbi_current_switcher_time = tvi_current_switcher_time input,
          jbi_policy = SwitcherTwoViewTargetTimeSelectionPolicy_per_client_policy policy
            (tvp_left_clock_offset_micros policy) \<rparr> shared_target_time) (\<lambda>left.
      rbind (SwitcherJitterBufferSelectionBoundary_select_frame_at_target_time
        \<lparr> jbi_queue_state = tvi_queue_state input, jbi_client_id = tvi_right_client_id input,
          jbi_current_switcher_time = tvi_current_switcher_time input,
          jbi_policy = SwitcherTwoViewTargetTimeSelectionPolicy_per_client_policy policy
            (tvp_right_clock_offset_micros policy) \<rparr> shared_target_time) (\<lambda>right.
      Ok (case (left, right) of
            (Jitter_Selected left_selected, Jitter_Selected right_selected) \<Rightarrow>
              BothSelected shared_target_time left_selected right_selected
          | (Jitter_Selected _, _) \<Rightarrow> Partial shared_target_time left right
          | (_, Jitter_Selected _) \<Rightarrow> Partial shared_target_time left right
          | _ \<Rightarrow> BothUnavailable shared_target_time left right))))"

section \<open>The selected frame\<close>

lemma min_by_key_None: "min_by_key key xs = None \<longleftrightarrow> xs = []"
  by (cases xs) (auto split: option.split)

lemma min_by_key_Some:
  "min_by_key key xs = Some x \<Longrightarrow> x \<in> set xs \<and> (\<forall>y \<in> set xs. key x \<le> key y)"
proof (induction xs arbitrary: x)
  case (Cons y ys)
  then show ?case
    by (cases "min_by_key key ys") (auto simp: min_by_key_None split: if_splits intro: less_imp_le order_trans)
qed simp

lemma min_by_key_map: "min_by_key key (map f xs) = map_option f (min_by_key (\<lambda>x. key (f x)) xs)"
  by (induction xs) (auto split: option.split)

lemma min_by_key_cong:
  "(\<And>x. x \<in> set xs \<Longrightarrow> key x = key' x) \<Longrightarrow> min_by_key key xs = min_by_key key' xs"
proof (induction xs)
  case (Cons x xs)
  then show ?case
    using min_by_key_Some [of key' xs] by (auto split: option.split)
qed simp

lemma insort_key_map: "map f (insort_key (\<lambda>x. key (f x)) x xs) = insort_key key (f x) (map f xs)"
  by (induction xs) auto

lemma sort_key_map: "sort_key key (map f xs) = map f (sort_key (\<lambda>x. key (f x)) xs)"
  by (induction xs) (simp_all add: insort_key_map)

text \<open>Sorting depends on the order of the keys only.\<close>

lemma insort_key_cong:
  "(\<And>y. y \<in> set xs \<Longrightarrow> key x \<le> key y \<longleftrightarrow> key' x \<le> key' y) \<Longrightarrow> insort_key key x xs = insort_key key' x xs"
  by (induction xs) auto

lemma sort_key_order_cong:
  "(\<And>x y. x \<in> set xs \<Longrightarrow> y \<in> set xs \<Longrightarrow> key x \<le> key y \<longleftrightarrow> key' x \<le> key' y) \<Longrightarrow>
     sort_key key xs = sort_key key' xs"
proof (induction xs)
  case (Cons x xs)
  then have "sort_key key xs = sort_key key' xs" by (intro Cons.IH) auto
  with Cons.prems show ?case by (auto intro!: insort_key_cong)
qed simp

definition client_frames :: "SwitcherJitterBufferSelectionInput \<Rightarrow> ServerQueuedVideoFrame list" where
  "client_frames input = ServerVideoFrameQueueState_frames_for_client (jbi_queue_state input) (jbi_client_id input)"

definition frame_time :: "SwitcherJitterBufferSelectionInput \<Rightarrow> ServerQueuedVideoFrame \<Rightarrow> TimestampMicros" where
  "frame_time input = adjusted_time (jbp_clock_offset_micros (jbi_policy input))"

definition window_start :: "SwitcherJitterBufferSelectionInput \<Rightarrow> TimestampMicros \<Rightarrow> TimestampMicros" where
  "window_start input target = u64_saturating_sub target (jbp_max_late_micros (jbi_policy input))"

definition window_end :: "SwitcherJitterBufferSelectionInput \<Rightarrow> TimestampMicros \<Rightarrow> TimestampMicros" where
  "window_end input target = u64_saturating_add target (jbp_max_early_micros (jbi_policy input))"

definition in_window :: "SwitcherJitterBufferSelectionInput \<Rightarrow> TimestampMicros \<Rightarrow> ServerQueuedVideoFrame \<Rightarrow> bool" where
  "in_window input target f \<longleftrightarrow>
     window_start input target \<le> frame_time input f \<and> frame_time input f \<le> window_end input target"

definition nearest :: "SwitcherJitterBufferSelectionInput \<Rightarrow> TimestampMicros \<Rightarrow> ServerQueuedVideoFrame option" where
  "nearest input target = min_by_key (\<lambda>f. u64_abs_diff (frame_time input f) target)
     (filter (in_window input target) (sort_key (frame_time input) (client_frames input)))"

definition jitter_selected ::
  "SwitcherJitterBufferSelectionInput \<Rightarrow> TimestampMicros \<Rightarrow> ServerQueuedVideoFrame \<Rightarrow>
     SwitcherJitterBufferSelectedFrame" where
  "jitter_selected input target f =
     \<lparr> jbs_frame = SelectedEncodedFrame_from_queued f, jbs_target_time = target,
       jbs_adjusted_capture_timestamp = frame_time input f,
       jbs_delta_from_target_micros = time_delta (frame_time input f) target \<rparr>"

lemma select_frame_eq:
  "SwitcherJitterBufferSelectionBoundary_select_frame_at_target_time input target = Ok
     (let fs = client_frames input; sorted_fs = sort_key (frame_time input) fs in
      if fs = [] then Jitter_NoFrame (jbi_client_id input) target
      else if length fs < jbp_min_buffer_frames (jbi_policy input)
      then Jitter_WaitingForBuffer (jbi_client_id input) target (length fs)
        (jbp_min_buffer_frames (jbi_policy input))
      else
        (case nearest input target of
           Some f \<Rightarrow> Jitter_Selected (jitter_selected input target f)
         | None \<Rightarrow>
             if window_end input target < frame_time input (hd sorted_fs)
             then Jitter_FrameTooEarly (jbi_client_id input) target (frame_time input (hd sorted_fs)) (length fs)
             else Jitter_FrameTooLateDropped (jbi_client_id input) target (frame_time input (last sorted_fs))
               (map SelectedEncodedFrame_from_queued
                 (filter (\<lambda>f. frame_time input f < window_start input target) sorted_fs))))"
proof -
  let ?timed = "\<lambda>f. (SelectedEncodedFrame_from_queued f, frame_time input f)"
  have timed: "sort_key snd (map (\<lambda>frame. (frame, apply_offset_micros (sef_capture_timestamp frame)
        (jbp_clock_offset_micros (jbi_policy input)))) (map SelectedEncodedFrame_from_queued (client_frames input)))
      = map ?timed (sort_key (frame_time input) (client_frames input))"
  proof -
    have "frame_time input = (\<lambda>f. apply_offset_micros (vf_capture_timestamp (sqv_frame f))
        (jbp_clock_offset_micros (jbi_policy input)))"
      by (simp add: fun_eq_iff frame_time_def adjusted_time_def)
    then show ?thesis by (simp add: comp_def sort_key_map)
  qed
  have window: "in_window input target = (\<lambda>f.
      u64_saturating_sub target (jbp_max_late_micros (jbi_policy input)) \<le> frame_time input f \<and>
      frame_time input f \<le> u64_saturating_add target (jbp_max_early_micros (jbi_policy input)))"
    by (simp add: fun_eq_iff in_window_def window_start_def window_end_def)
  have sorted: "sort_key (frame_time input) (client_frames input) = [] \<longleftrightarrow> client_frames input = []"
    by (metis length_0_conv length_sort)
  show ?thesis
    unfolding SwitcherJitterBufferSelectionBoundary_select_frame_at_target_time_def Let_def
      client_frames_def [symmetric] timed
    using sorted
    by (auto simp: filter_map comp_def min_by_key_map nearest_def window window_start_def
        window_end_def jitter_selected_def first_of_def last_of_def hd_map last_map list.case_eq_if
        split: option.split)
qed

lemma nearest_Some:
  assumes "nearest input target = Some f"
  shows "f \<in> set (client_frames input)" and "in_window input target f"
    and "\<And>g. g \<in> set (client_frames input) \<Longrightarrow> in_window input target g \<Longrightarrow>
      u64_abs_diff (frame_time input f) target \<le> u64_abs_diff (frame_time input g) target"
  using min_by_key_Some [OF assms [unfolded nearest_def]] by auto

lemma nearest_None: "nearest input target = None \<longleftrightarrow> (\<forall>f \<in> set (client_frames input). \<not> in_window input target f)"
  by (auto simp: nearest_def min_by_key_None filter_empty_conv)

lemma sorted_ends:
  assumes "fs \<noteq> []"
  shows "g \<in> set fs \<Longrightarrow> key (hd (sort_key key fs)) \<le> key g"
    and "g \<in> set fs \<Longrightarrow> key g \<le> key (last (sort_key key fs))"
proof -
  have ne: "sort_key key fs \<noteq> []" using assms by (metis length_0_conv length_sort)
  have s: "sorted (map key (sort_key key fs))" by simp
  have members: "set (sort_key key fs) = set fs" by simp
  obtain x xs where "sort_key key fs = x # xs" using ne by (cases "sort_key key fs") auto
  then show "g \<in> set fs \<Longrightarrow> key (hd (sort_key key fs)) \<le> key g"
    using s members by auto
  obtain ys y where "sort_key key fs = ys @ [y]" using ne by (cases "sort_key key fs" rule: rev_cases) auto
  then show "g \<in> set fs \<Longrightarrow> key g \<le> key (last (sort_key key fs))"
    using s members by (auto simp: sorted_append)
qed

lemma sorted_extremes:
  assumes "fs \<noteq> []"
  shows "key (hd (sort_key key fs)) = Min (key ` set fs)" and "key (last (sort_key key fs)) = Max (key ` set fs)"
proof -
  have "sort_key key fs \<noteq> []" using assms by (metis length_0_conv length_sort)
  then have "hd (sort_key key fs) \<in> set fs" "last (sort_key key fs) \<in> set fs"
    using hd_in_set [of "sort_key key fs"] last_in_set [of "sort_key key fs"] by simp_all
  then show "key (hd (sort_key key fs)) = Min (key ` set fs)" and "key (last (sort_key key fs)) = Max (key ` set fs)"
    using sorted_ends [OF assms, of _ key] by (auto intro!: Min_eqI [symmetric] Max_eqI [symmetric])
qed

lemma window_bounds:
  "uint (window_start input target) = max 0 (uint target - uint (jbp_max_late_micros (jbi_policy input)))"
  "uint (window_end input target) =
     min (uint target + uint (jbp_max_early_micros (jbi_policy input))) 18446744073709551615"
  by (simp_all add: window_start_def window_end_def uint_saturating)

section \<open>Shifted times\<close>

definition in_range :: "u64 \<Rightarrow> i64 \<Rightarrow> bool" where
  "in_range v offset \<longleftrightarrow> 0 \<le> uint v + sint offset \<and> uint v + sint offset < 2 ^ 64"

lemma apply_offset_in_range:
  assumes "in_range v offset"
  shows "apply_offset_micros v (Some offset) = v + offset"
    and "uint (apply_offset_micros v (Some offset)) = uint v + sint offset"
proof -
  show uint: "uint (apply_offset_micros v (Some offset)) = uint v + sint offset"
    using assms by (simp add: apply_offset_uint in_range_def)
  have "uint (v + offset) = (uint v + sint offset) mod 18446744073709551616"
    using mod_mult_self1 [of "uint v + uint offset" "- 1" 18446744073709551616]
    by (simp add: uint_word_ariths sint_i64 algebra_simps)
  then show "apply_offset_micros v (Some offset) = v + offset"
    using uint assms by (simp add: word_uint_eq_iff in_range_def)
qed

lemma shifted_order:
  assumes "in_range a offset" and "in_range b offset"
  shows "apply_offset_micros a (Some offset) \<le> apply_offset_micros b (Some offset) \<longleftrightarrow> a \<le> b"
  by (simp add: word_le_def apply_offset_in_range(2) [OF assms(1)] apply_offset_in_range(2) [OF assms(2)])

lemma shifted_distance:
  assumes "in_range a offset" and "in_range b offset"
  shows "u64_abs_diff (apply_offset_micros a (Some offset)) (apply_offset_micros b (Some offset)) = u64_abs_diff a b"
    and "time_delta (apply_offset_micros a (Some offset)) (apply_offset_micros b (Some offset)) = time_delta a b"
  using shifted_order [OF assms(2,1)] apply_offset_in_range(1) [OF assms(1)] apply_offset_in_range(1) [OF assms(2)]
  by (auto simp: u64_abs_diff_def time_delta_def not_le [symmetric])

section \<open>Properties\<close>

text \<open>
  C27: The jitter buffer answers in one of five ways, and never panics. With nothing queued for the
  client there is no frame. With fewer frames than the policy's minimum it waits, and says how many
  there are and how many are needed. Otherwise, if the adjusted time of a queued frame lies in the
  window, it selects such a frame with the least distance to the target time. If none lies in the
  window, the frames are too early when all of them are after the window, and the earliest time is
  given; when at least one is before the window they are reported as dropped too late, with the
  latest time and the frames before the window, by time and in the order of arrival.
\<close>

theorem nearest_frame_is_selected:
  "let fs = client_frames input; time = frame_time input; enough = jbp_min_buffer_frames (jbi_policy input) in
   \<exists>answer. SwitcherJitterBufferSelectionBoundary_select_frame_at_target_time input target = Ok answer \<and>
    (case answer of
       Jitter_NoFrame c t \<Rightarrow> c = jbi_client_id input \<and> t = target \<and> fs = []
     | Jitter_WaitingForBuffer c t n m \<Rightarrow> c = jbi_client_id input \<and> t = target \<and>
         fs \<noteq> [] \<and> n = length fs \<and> m = enough \<and> n < m
     | Jitter_Selected selected \<Rightarrow> enough \<le> length fs \<and> (\<exists>f \<in> set fs.
         selected = jitter_selected input target f \<and> in_window input target f \<and>
         (\<forall>g \<in> set fs. in_window input target g \<longrightarrow> u64_abs_diff (time f) target \<le> u64_abs_diff (time g) target))
     | Jitter_FrameTooEarly c t earliest n \<Rightarrow> c = jbi_client_id input \<and> t = target \<and>
         fs \<noteq> [] \<and> enough \<le> length fs \<and> n = length fs \<and> earliest = Min (time ` set fs) \<and>
         (\<forall>g \<in> set fs. window_end input target < time g)
     | Jitter_FrameTooLateDropped c t latest late \<Rightarrow> c = jbi_client_id input \<and> t = target \<and>
         enough \<le> length fs \<and> latest = Max (time ` set fs) \<and>
         (\<forall>g \<in> set fs. \<not> in_window input target g) \<and> (\<exists>g \<in> set fs. time g < window_start input target) \<and>
         late = map SelectedEncodedFrame_from_queued
           (filter (\<lambda>f. time f < window_start input target) (sort_key time fs)))"
proof -
  let ?fs = "client_frames input"
  show ?thesis
  proof (cases "?fs = [] \<or> length ?fs < jbp_min_buffer_frames (jbi_policy input)")
    case True
    then show ?thesis by (auto simp: select_frame_eq Let_def)
  next
    case False
    then have some: "?fs \<noteq> []" and enough: "jbp_min_buffer_frames (jbi_policy input) \<le> length ?fs" by auto
    show ?thesis
    proof (cases "nearest input target")
      case None
      then have outside: "\<forall>g \<in> set ?fs. \<not> in_window input target g" by (simp add: nearest_None)
      note ends = sorted_extremes [OF some, of "frame_time input"]
      show ?thesis
      proof (cases "window_end input target < Min (frame_time input ` set ?fs)")
        case True
        then have "\<forall>g \<in> set ?fs. window_end input target < frame_time input g" using some by simp
        with None some enough True show ?thesis by (simp add: select_frame_eq Let_def ends)
      next
        case False
        then obtain g where "g \<in> set ?fs" "frame_time input g \<le> window_end input target"
          using some by (auto simp: not_less)
        then have "\<exists>g \<in> set ?fs. frame_time input g < window_start input target"
          using outside by (auto simp: in_window_def not_le)
        with None some enough False outside show ?thesis by (simp add: select_frame_eq Let_def ends)
      qed
    next
      case (Some f)
      with some enough show ?thesis
        using nearest_Some [OF Some] by (auto simp: select_frame_eq Let_def)
    qed
  qed
qed

definition sample_jitter :: SwitcherJitterBufferSelectionInput where
  "sample_jitter = \<lparr> jbi_queue_state = two_frames, jbi_client_id = ''cam-1'', jbi_current_switcher_time = 112,
     jbi_policy = \<lparr> jbp_playout_delay_micros = 100, jbp_clock_offset_micros = None, jbp_max_late_micros = 5,
       jbp_max_early_micros = 50, jbp_min_buffer_frames = 2 \<rparr> \<rparr>"

lemma nearest_frame_is_selected_witness:
  "\<exists>f selected. SwitcherJitterBufferSelectionBoundary_select_frame_at_target_time sample_jitter 12
      = Ok (Jitter_Selected selected) \<and> selected = jitter_selected sample_jitter 12 f \<and> in_window sample_jitter 12 f"
proof -
  have "case SwitcherJitterBufferSelectionBoundary_select_frame_at_target_time sample_jitter 12 of
      Inr (Jitter_Selected _) \<Rightarrow> True | _ \<Rightarrow> False"
    by code_simp
  then obtain selected where
    "SwitcherJitterBufferSelectionBoundary_select_frame_at_target_time sample_jitter 12 = Ok (Jitter_Selected selected)"
    by (cases "SwitcherJitterBufferSelectionBoundary_select_frame_at_target_time sample_jitter 12")
      (auto split: SwitcherJitterBufferSelectionResult.splits)
  then show ?thesis using nearest_frame_is_selected [of sample_jitter 12] by (auto simp: Let_def)
qed

text \<open>
  Two frames selected for one shared target time are at most the allowed lateness plus the
  allowed earliness apart.
\<close>

theorem pair_skew_is_bounded:
  assumes "SwitcherTwoViewTargetTimeSelectionBoundary_select_pair input = Ok (BothSelected target left right)"
  shows "\<bar>uint (jbs_adjusted_capture_timestamp left) - uint (jbs_adjusted_capture_timestamp right)\<bar>
    \<le> uint (tvp_max_late_micros (tvi_policy input)) + uint (tvp_max_early_micros (tvi_policy input))"
proof -
  let ?input = "\<lambda>client offset. \<lparr> jbi_queue_state = tvi_queue_state input, jbi_client_id = client,
      jbi_current_switcher_time = tvi_current_switcher_time input,
      jbi_policy = SwitcherTwoViewTargetTimeSelectionPolicy_per_client_policy (tvi_policy input) offset \<rparr>"
  let ?t = "stt_value (SwitcherTargetTimeBoundary_calculate
      \<lparr> stt_current_switcher_time = tvi_current_switcher_time input,
        stt_playout_delay_micros = tvp_playout_delay_micros (tvi_policy input), stt_clock_offset_micros = None \<rparr>)"
  have selected: "SwitcherJitterBufferSelectionBoundary_select_frame_at_target_time
        (?input (tvi_left_client_id input) (tvp_left_clock_offset_micros (tvi_policy input))) target
        = Ok (Jitter_Selected left)" (is ?A)
      "SwitcherJitterBufferSelectionBoundary_select_frame_at_target_time
        (?input (tvi_right_client_id input) (tvp_right_clock_offset_micros (tvi_policy input))) target
        = Ok (Jitter_Selected right)" (is ?B)
  proof -
    obtain l r where lr: "SwitcherJitterBufferSelectionBoundary_select_frame_at_target_time
        (?input (tvi_left_client_id input) (tvp_left_clock_offset_micros (tvi_policy input))) (?t) = Ok l"
      "SwitcherJitterBufferSelectionBoundary_select_frame_at_target_time
        (?input (tvi_right_client_id input) (tvp_right_clock_offset_micros (tvi_policy input))) (?t) = Ok r"
      and pair: "(case (l, r) of
            (Jitter_Selected left_selected, Jitter_Selected right_selected) \<Rightarrow>
              BothSelected ?t left_selected right_selected
          | (Jitter_Selected _, _) \<Rightarrow> Partial ?t l r
          | (_, Jitter_Selected _) \<Rightarrow> Partial ?t l r
          | _ \<Rightarrow> BothUnavailable ?t l r) = BothSelected target left right"
      using assms
      by (auto simp: SwitcherTwoViewTargetTimeSelectionBoundary_select_pair_def Let_def rbind_eq_Inr_iff
          simp del: split_paired_All split_paired_Ex)
    from pair have "l = Jitter_Selected left \<and> r = Jitter_Selected right \<and> ?t = target"
      by (cases l; cases r) simp_all
    with lr show ?A and ?B by simp_all
  qed
  have "uint target - uint (tvp_max_late_micros (tvi_policy input)) \<le> uint (jbs_adjusted_capture_timestamp s) \<and>
      uint (jbs_adjusted_capture_timestamp s) \<le> uint target + uint (tvp_max_early_micros (tvi_policy input))"
    if answer: "SwitcherJitterBufferSelectionBoundary_select_frame_at_target_time (?input c offset) target
      = Ok (Jitter_Selected s)" for c offset s
  proof -
    obtain f where f: "nearest (?input c offset) target = Some f"
        "jbs_adjusted_capture_timestamp s = frame_time (?input c offset) f"
      using answer by (cases "nearest (?input c offset) target")
        (auto simp: select_frame_eq Let_def jitter_selected_def split: if_splits)
    have "uint (window_start (?input c offset) target) \<le> uint (frame_time (?input c offset) f)"
        "uint (frame_time (?input c offset) f) \<le> uint (window_end (?input c offset) target)"
      using nearest_Some(2) [OF f(1)] by (simp_all only: in_window_def word_le_def)
    then show ?thesis
      by (simp add: f(2) window_bounds SwitcherTwoViewTargetTimeSelectionPolicy_per_client_policy_def)
  qed
  from this [OF selected(1)] this [OF selected(2)] show ?thesis by linarith
qed

definition sample_pair :: SwitcherTwoViewTargetTimeSelectionInput where
  "sample_pair = \<lparr> tvi_queue_state = two_frames, tvi_left_client_id = ''cam-1'', tvi_right_client_id = ''cam-1'',
     tvi_current_switcher_time = 112,
     tvi_policy = \<lparr> tvp_playout_delay_micros = 100, tvp_left_clock_offset_micros = Some (- 3),
       tvp_right_clock_offset_micros = Some 20, tvp_max_late_micros = 5, tvp_max_early_micros = 50,
       tvp_min_buffer_frames = 1 \<rparr> \<rparr>"

definition chosen ::
  "(SwitcherJitterBufferSelectionResult, unit) result \<Rightarrow> (SwitcherSingleViewSelectedEncodedFrame \<times> i64) option" where
  "chosen answer =
     (case answer of Inr (Jitter_Selected s) \<Rightarrow> Some (jbs_frame s, jbs_delta_from_target_micros s) | _ \<Rightarrow> None)"

definition playout_base :: "SwitcherJitterBufferSelectionInput \<Rightarrow> TimestampMicros" where
  "playout_base input =
     u64_saturating_sub (jbi_current_switcher_time input) (jbp_playout_delay_micros (jbi_policy input))"

definition with_offset ::
  "i64 option \<Rightarrow> SwitcherJitterBufferSelectionInput \<Rightarrow> SwitcherJitterBufferSelectionInput" where
  "with_offset offset input =
     input \<lparr> jbi_policy := (jbi_policy input) \<lparr> jbp_clock_offset_micros := offset \<rparr> \<rparr>"

lemma with_offset_simps:
  "client_frames (with_offset offset input) = client_frames input"
  "frame_time (with_offset offset input) f = apply_offset_micros (vf_capture_timestamp (sqv_frame f)) offset"
  "window_start (with_offset offset input) = window_start input"
  "window_end (with_offset offset input) = window_end input"
  by (simp_all add: with_offset_def client_frames_def frame_time_def adjusted_time_def window_start_def
      window_end_def fun_eq_iff)

lemma select_with_offset:
  "chosen (SwitcherJitterBufferSelectionBoundary_select_frame (with_offset offset input)) =
    (if client_frames input = [] \<or> length (client_frames input) < jbp_min_buffer_frames (jbi_policy input) then None
     else map_option (\<lambda>f. (SelectedEncodedFrame_from_queued f,
         time_delta (frame_time (with_offset offset input) f) (apply_offset_micros (playout_base input) offset)))
       (nearest (with_offset offset input) (apply_offset_micros (playout_base input) offset)))"
proof -
  have "SwitcherJitterBufferSelectionBoundary_select_frame (with_offset offset input) =
      SwitcherJitterBufferSelectionBoundary_select_frame_at_target_time (with_offset offset input)
        (apply_offset_micros (playout_base input) offset)"
    by (simp add: SwitcherJitterBufferSelectionBoundary_select_frame_def Let_def playout_base_def
        SwitcherTargetTimeBoundary_calculate_def with_offset_def)
  moreover have "jbp_min_buffer_frames (jbi_policy (with_offset offset input)) = jbp_min_buffer_frames (jbi_policy input)"
    by (simp add: with_offset_def)
  ultimately show ?thesis
    by (simp add: select_frame_eq Let_def chosen_def with_offset_simps jitter_selected_def split: option.split)
qed

text \<open>
  The clock offset has no effect on the single-view selection: \<open>select_frame\<close> adds it to the
  target time and to every capture time, so it cancels out. With any offset that leaves the times
  in range, the same frame is selected with the same distance as without one.
\<close>

theorem clock_offset_cancels_out:
  assumes "uint (jbp_max_late_micros (jbi_policy input)) \<le> uint (playout_base input)"
    and "in_range (playout_base input - jbp_max_late_micros (jbi_policy input)) offset"
    and "in_range (playout_base input + jbp_max_early_micros (jbi_policy input)) offset"
    and "uint (playout_base input) + uint (jbp_max_early_micros (jbi_policy input)) < 2 ^ 64"
    and "in_range (playout_base input) offset"
    and "list_all (\<lambda>f. in_range (vf_capture_timestamp (sqv_frame f)) offset) (client_frames input)"
  shows "chosen (SwitcherJitterBufferSelectionBoundary_select_frame (with_offset (Some offset) input)) =
    chosen (SwitcherJitterBufferSelectionBoundary_select_frame (with_offset None input))"
proof -
  let ?b = "playout_base input" and ?late = "jbp_max_late_micros (jbi_policy input)"
    and ?early = "jbp_max_early_micros (jbi_policy input)"
    and ?shift = "\<lambda>v. apply_offset_micros v (Some offset)"
  have start: "window_start input ?b = ?b - ?late" "window_start input (?shift ?b) = ?shift (?b - ?late)"
  proof -
    have le: "?late \<le> ?b" using assms(1) by (simp add: word_le_def)
    then show start: "window_start input ?b = ?b - ?late"
      by (simp add: window_start_def u64_saturating_sub_def)
    have "uint (?b - ?late) = uint ?b - uint ?late" using assms(1) by (simp add: uint_u64_minus)
    then have "uint ?late \<le> uint (?shift ?b)"
      using assms(2) by (simp add: apply_offset_in_range(2) [OF assms(5)] in_range_def)
    then show "window_start input (?shift ?b) = ?shift (?b - ?late)"
      by (simp add: window_start_def u64_saturating_sub_def word_le_def apply_offset_in_range(1) assms(2,5))
  qed
  have finish: "window_end input ?b = ?b + ?early" "window_end input (?shift ?b) = ?shift (?b + ?early)"
  proof -
    have sum: "uint (?b + ?early) = uint ?b + uint ?early"
      using assms(4) by (simp add: uint_word_ariths)
    have add: "u64_saturating_add v ?early = v + ?early" if "uint v + uint ?early < 2 ^ 64" for v :: u64
    proof -
      have "uint (v + ?early) = uint v + uint ?early" using that by (simp add: uint_word_ariths)
      then show ?thesis using that by (simp add: word_uint_eq_iff uint_saturating)
    qed
    show "window_end input ?b = ?b + ?early" unfolding window_end_def by (rule add [OF assms(4)])
    have "uint (?shift ?b) + uint ?early < 2 ^ 64"
      using assms(3) sum by (simp add: apply_offset_in_range(2) [OF assms(5)] in_range_def algebra_simps)
    from add [OF this] show "window_end input (?shift ?b) = ?shift (?b + ?early)"
      unfolding window_end_def by (simp add: apply_offset_in_range(1) assms(3,5) algebra_simps)
  qed
  have frames: "in_range (vf_capture_timestamp (sqv_frame f)) offset" if "f \<in> set (client_frames input)" for f
    using assms(6) that by (simp add: list_all_iff)
  have sort: "sort_key (frame_time (with_offset (Some offset) input)) (client_frames input)
      = sort_key (frame_time (with_offset None input)) (client_frames input)"
    by (rule sort_key_order_cong)
      (simp add: with_offset_simps shifted_order frames apply_offset_micros_def [of _ None])
  have window: "filter (in_window (with_offset (Some offset) input) (?shift ?b))
        (sort_key (frame_time (with_offset None input)) (client_frames input))
      = filter (in_window (with_offset None input) ?b)
        (sort_key (frame_time (with_offset None input)) (client_frames input))"
    by (rule filter_cong [OF refl])
      (simp add: in_window_def with_offset_simps start finish shifted_order assms(2,3) frames
        apply_offset_micros_def [of _ None])
  have "nearest (with_offset (Some offset) input) (?shift ?b) = nearest (with_offset None input) ?b"
    unfolding nearest_def with_offset_simps(1) sort window
    by (rule min_by_key_cong)
      (simp add: with_offset_simps shifted_distance frames assms(5) apply_offset_micros_def [of _ None])
  moreover have "f \<in> set (client_frames input)" if "nearest (with_offset None input) ?b = Some f" for f
    using nearest_Some(1) [OF that] by (simp add: with_offset_simps)
  ultimately show ?thesis
    unfolding select_with_offset apply_offset_micros_def [of _ None] option.case
    by (cases "nearest (with_offset None input) ?b")
      (simp_all add: with_offset_simps shifted_distance frames assms(5) apply_offset_micros_def [of _ None])
qed

end
