(* ===== verification/Switcher_Canvas.thy ===== *)
theory Switcher_Canvas
  imports Switcher_Jitter_Buffer
begin

text \<open>
  BGRA canvases of apps/switcher/src/lib.rs: filling, copying a decoded frame to a position, and
  the side-by-side composition of two views. A slice out of range is a panic; the lemmas give
  every byte of a canvas after a copy.
\<close>

section \<open>Frames and canvases\<close>

datatype SwitcherDecodedFramePixelFormat = Bgra8

record SwitcherDecodedFrame =
  sdf_width :: u32
  sdf_height :: u32
  sdf_pixel_format :: SwitcherDecodedFramePixelFormat
  sdf_pixels :: "u8 list"

definition u32_checked_mul :: "u32 \<Rightarrow> u32 \<Rightarrow> u32 option" where
  "u32_checked_mul a b = (if unat a * unat b < 2 ^ 32 then Some (a * b) else None)"

text \<open>\<open>w.checked_mul(h)\<close>, then by the four bytes of a pixel.\<close>

definition bgra_len :: "u32 \<Rightarrow> u32 \<Rightarrow> nat option" where
  "bgra_len width height =
     map_option unat (Option.bind (u32_checked_mul width height) (\<lambda>pixels. u32_checked_mul pixels 4))"

text \<open>A colour is an array of four bytes; the last chunk is left alone when it is shorter.\<close>

fun fill_bgra :: "u8 list \<Rightarrow> u8 \<times> u8 \<times> u8 \<times> u8 \<Rightarrow> u8 list" where
  "fill_bgra (_ # _ # _ # _ # pixels) (b, g, r, a) = b # g # r # a # fill_bgra pixels (b, g, r, a)"
| "fill_bgra pixels color = pixels"

definition copy_row ::
  "u32 \<Rightarrow> SwitcherDecodedFrame \<Rightarrow> u32 \<Rightarrow> u32 \<Rightarrow> u8 list \<Rightarrow> nat \<Rightarrow> (u8 list, unit) result" where
  "copy_row canvas_width frame dst_x dst_y canvas row =
     (let src_stride = unat (sdf_width frame) * 4;
          canvas_stride = unat canvas_width * 4;
          src_start = row * src_stride;
          dst_start = (unat dst_y + row) * canvas_stride + unat dst_x * 4;
          dst_end = dst_start + src_stride in
      if length canvas < dst_end \<or> length (sdf_pixels frame) < src_start + src_stride then Panicked
      else Ok (take dst_start canvas @ take src_stride (drop src_start (sdf_pixels frame))
        @ drop dst_end canvas))"

fun copy_rows ::
  "u32 \<Rightarrow> SwitcherDecodedFrame \<Rightarrow> u32 \<Rightarrow> u32 \<Rightarrow> u8 list \<Rightarrow> nat list \<Rightarrow> (u8 list, unit) result" where
  "copy_rows canvas_width frame dst_x dst_y canvas [] = Ok canvas"
| "copy_rows canvas_width frame dst_x dst_y canvas (row # rows) =
     rbind (copy_row canvas_width frame dst_x dst_y canvas row) (\<lambda>canvas.
     copy_rows canvas_width frame dst_x dst_y canvas rows)"

definition copy_bgra_frame_into_canvas ::
  "u8 list \<Rightarrow> u32 \<Rightarrow> SwitcherDecodedFrame \<Rightarrow> u32 \<Rightarrow> u32 \<Rightarrow> (u8 list, unit) result" where
  "copy_bgra_frame_into_canvas canvas canvas_width frame dst_x dst_y =
     copy_rows canvas_width frame dst_x dst_y canvas [0..<unat (sdf_height frame)]"

section \<open>Rendering one frame\<close>

datatype SwitcherDecodedFrameRenderInputError =
    Render_UnsupportedPixelFormat SwitcherDecodedFramePixelFormat
  | Render_InvalidDimensions
  | Render_InvalidBufferLength nat nat

record SwitcherDecodedFrameRenderInput =
  sri_width :: u32
  sri_height :: u32
  sri_pixel_format :: SwitcherDecodedFramePixelFormat
  sri_pixels :: "u8 list"

text \<open>The expected length is below \<open>2 ^ 66\<close>: it is computed with the width of \<open>usize\<close>.\<close>

definition SwitcherDecodedFrameRenderInput_from_decoded_frame ::
  "SwitcherDecodedFrame \<Rightarrow> (SwitcherDecodedFrameRenderInput, SwitcherDecodedFrameRenderInputError) result"
  where
  "SwitcherDecodedFrameRenderInput_from_decoded_frame frame =
     (if sdf_pixel_format frame \<noteq> Bgra8
      then Error (Render_UnsupportedPixelFormat (sdf_pixel_format frame))
      else if sdf_width frame = 0 \<or> sdf_height frame = 0 then Error Render_InvalidDimensions
      else
        (let expected = (unat (sdf_width frame) * unat (sdf_height frame) * 4) mod usize_bound in
         if length (sdf_pixels frame) \<noteq> expected
         then Error (Render_InvalidBufferLength expected (length (sdf_pixels frame)))
         else Ok \<lparr> sri_width = sdf_width frame, sri_height = sdf_height frame,
           sri_pixel_format = sdf_pixel_format frame, sri_pixels = sdf_pixels frame \<rparr>))"

section \<open>Two views side by side\<close>

datatype SwitcherTwoViewSide = Side_Left | Side_Right

datatype SwitcherTwoViewManualDecodeRenderStatus =
    Status_Rendered
  | Status_SkippedSelectionUnavailable
  | Status_DecodeDeferred
  | Status_DecodeFailed
  | Status_RenderDeferred
  | Status_WindowBackendUnavailable
  | Status_InvalidFrame
  | Status_RenderFailed

record SwitcherTwoViewLayoutPolicy =
  tvl_placeholder_bgra :: "u8 \<times> u8 \<times> u8 \<times> u8"

datatype SwitcherTwoViewLayoutSideInput =
    Layout_Decoded SwitcherTwoViewSide "SwitcherJitterBufferSelectedFrame option" SwitcherDecodedFrame
  | Layout_Skipped SwitcherTwoViewSide SwitcherTwoViewManualDecodeRenderStatus

record SwitcherTwoViewCompositionInput =
  tvc_left :: SwitcherTwoViewLayoutSideInput
  tvc_right :: SwitcherTwoViewLayoutSideInput
  tvc_policy :: SwitcherTwoViewLayoutPolicy

record SwitcherTwoViewComposedSideMetadata =
  tvm_side :: SwitcherTwoViewSide
  tvm_selected :: "SwitcherJitterBufferSelectedFrame option"
  tvm_x :: u32
  tvm_y :: u32
  tvm_width :: u32
  tvm_height :: u32

record SwitcherTwoViewComposedFrame =
  tvf_width :: u32
  tvf_height :: u32
  tvf_pixel_format :: SwitcherDecodedFramePixelFormat
  tvf_pixels :: "u8 list"
  tvf_left :: "SwitcherTwoViewComposedSideMetadata option"
  tvf_right :: "SwitcherTwoViewComposedSideMetadata option"

datatype SwitcherTwoViewCompositionInvalidReason =
    Composition_WrongSide SwitcherTwoViewSide SwitcherTwoViewSide
  | Composition_UnsupportedPixelFormat SwitcherTwoViewSide SwitcherDecodedFramePixelFormat
  | Composition_InvalidDimensions SwitcherTwoViewSide
  | Composition_InvalidBufferLength SwitcherTwoViewSide nat nat
  | Composition_CanvasTooLarge

datatype SwitcherTwoViewCompositionResult =
    BothComposed SwitcherTwoViewComposedFrame
  | LeftOnly SwitcherTwoViewComposedFrame SwitcherTwoViewManualDecodeRenderStatus
  | RightOnly SwitcherTwoViewComposedFrame SwitcherTwoViewManualDecodeRenderStatus
  | EmptyPlaceholder SwitcherTwoViewManualDecodeRenderStatus SwitcherTwoViewManualDecodeRenderStatus
  | InvalidTwoView SwitcherTwoViewCompositionInvalidReason

record DecodedTwoViewLayoutSide =
  dts_selected :: "SwitcherJitterBufferSelectedFrame option"
  dts_frame :: SwitcherDecodedFrame

datatype ValidatedTwoViewLayoutSide =
    Validated_Decoded DecodedTwoViewLayoutSide
  | Validated_Skipped SwitcherTwoViewManualDecodeRenderStatus

definition validate_two_view_decoded_frame ::
  "SwitcherTwoViewSide \<Rightarrow> SwitcherDecodedFrame \<Rightarrow>
     (unit, SwitcherTwoViewCompositionInvalidReason) result" where
  "validate_two_view_decoded_frame side frame =
     (if sdf_pixel_format frame \<noteq> Bgra8
      then Error (Composition_UnsupportedPixelFormat side (sdf_pixel_format frame))
      else if sdf_width frame = 0 \<or> sdf_height frame = 0
      then Error (Composition_InvalidDimensions side)
      else rbind (ok_or (bgra_len (sdf_width frame) (sdf_height frame)) Composition_CanvasTooLarge)
        (\<lambda>expected.
         if length (sdf_pixels frame) \<noteq> expected
         then Error (Composition_InvalidBufferLength side expected (length (sdf_pixels frame)))
         else Ok ()))"

definition validate_two_view_layout_side ::
  "SwitcherTwoViewSide \<Rightarrow> SwitcherTwoViewLayoutSideInput \<Rightarrow>
     (ValidatedTwoViewLayoutSide, SwitcherTwoViewCompositionInvalidReason) result" where
  "validate_two_view_layout_side expected_side input =
     (case input of
        Layout_Decoded side selected frame \<Rightarrow>
          if side \<noteq> expected_side then Error (Composition_WrongSide expected_side side)
          else rbind (validate_two_view_decoded_frame side frame) (\<lambda>_.
            Ok (Validated_Decoded \<lparr> dts_selected = selected, dts_frame = frame \<rparr>))
      | Layout_Skipped side reason \<Rightarrow>
          if side \<noteq> expected_side then Error (Composition_WrongSide expected_side side)
          else Ok (Validated_Skipped reason))"

fun option_max :: "u32 option \<Rightarrow> u32 option \<Rightarrow> u32 option" where
  "option_max (Some a) (Some b) = Some (max a b)"
| "option_max (Some a) None = Some a"
| "option_max None b = b"

definition two_view_slot_size ::
  "DecodedTwoViewLayoutSide option \<Rightarrow> DecodedTwoViewLayoutSide option \<Rightarrow> (u32 \<times> u32) option" where
  "two_view_slot_size left right =
     (case (option_max (map_option (\<lambda>side. sdf_width (dts_frame side)) left)
              (map_option (\<lambda>side. sdf_width (dts_frame side)) right),
            option_max (map_option (\<lambda>side. sdf_height (dts_frame side)) left)
              (map_option (\<lambda>side. sdf_height (dts_frame side)) right)) of
        (Some width, Some height) \<Rightarrow> Some (width, height)
      | _ \<Rightarrow> None)"

text \<open>Copying one side: the canvas, and the metadata of the side when there is one.\<close>

definition place_side ::
  "u8 list \<Rightarrow> u32 \<Rightarrow> SwitcherTwoViewSide \<Rightarrow> u32 \<Rightarrow> DecodedTwoViewLayoutSide option \<Rightarrow>
     (u8 list \<times> SwitcherTwoViewComposedSideMetadata option, unit) result" where
  "place_side pixels canvas_width side_name x side =
     (case side of
        None \<Rightarrow> Ok (pixels, None)
      | Some side \<Rightarrow>
          rbind (copy_bgra_frame_into_canvas pixels canvas_width (dts_frame side) x 0) (\<lambda>pixels.
          Ok (pixels, Some \<lparr> tvm_side = side_name, tvm_selected = dts_selected side, tvm_x = x, tvm_y = 0,
            tvm_width = sdf_width (dts_frame side), tvm_height = sdf_height (dts_frame side) \<rparr>)))"

definition lift_panic :: "('a, unit) result \<Rightarrow> ('a, 'e) result" where
  "lift_panic r = (case r of Inl _ \<Rightarrow> Panicked | Inr v \<Rightarrow> Ok v)"

definition compose_two_view_canvas ::
  "DecodedTwoViewLayoutSide option \<Rightarrow> DecodedTwoViewLayoutSide option \<Rightarrow> SwitcherTwoViewLayoutPolicy \<Rightarrow>
     (SwitcherTwoViewComposedFrame, SwitcherTwoViewCompositionInvalidReason) result" where
  "compose_two_view_canvas left right policy =
     (case two_view_slot_size left right of
        None \<Rightarrow> Ok \<lparr> tvf_width = 0, tvf_height = 0, tvf_pixel_format = Bgra8, tvf_pixels = [],
          tvf_left = None, tvf_right = None \<rparr>
      | Some (slot_width, slot_height) \<Rightarrow>
          rbind (ok_or (u32_checked_mul slot_width 2) Composition_CanvasTooLarge) (\<lambda>canvas_width.
          rbind (ok_or (bgra_len canvas_width slot_height) Composition_CanvasTooLarge) (\<lambda>canvas_len.
          let pixels = fill_bgra (replicate canvas_len 0) (tvl_placeholder_bgra policy) in
          rbind (lift_panic (place_side pixels canvas_width Side_Left 0 left)) (\<lambda>(pixels, left_metadata).
          rbind (lift_panic (place_side pixels canvas_width Side_Right slot_width right)) (\<lambda>(pixels, right_metadata).
          Ok \<lparr> tvf_width = canvas_width, tvf_height = slot_height, tvf_pixel_format = Bgra8,
            tvf_pixels = pixels, tvf_left = left_metadata, tvf_right = right_metadata \<rparr>)))))"

definition composed_or_invalid ::
  "(SwitcherTwoViewComposedFrame \<Rightarrow> SwitcherTwoViewCompositionResult) \<Rightarrow>
     (SwitcherTwoViewComposedFrame, SwitcherTwoViewCompositionInvalidReason) result \<Rightarrow>
     (SwitcherTwoViewCompositionResult, unit) result" where
  "composed_or_invalid composed frame =
     (case frame of
        Inr frame \<Rightarrow> Ok (composed frame)
      | Inl (Err reason) \<Rightarrow> Ok (InvalidTwoView reason)
      | Inl Panic \<Rightarrow> Panicked)"

definition SwitcherTwoViewCompositionBoundary_compose_side_by_side ::
  "SwitcherTwoViewCompositionInput \<Rightarrow> (SwitcherTwoViewCompositionResult, unit) result" where
  "SwitcherTwoViewCompositionBoundary_compose_side_by_side input =
     (case validate_two_view_layout_side Side_Left (tvc_left input) of
        Inl (Err reason) \<Rightarrow> Ok (InvalidTwoView reason)
      | Inl Panic \<Rightarrow> Panicked
      | Inr left_side \<Rightarrow>
          (case validate_two_view_layout_side Side_Right (tvc_right input) of
             Inl (Err reason) \<Rightarrow> Ok (InvalidTwoView reason)
           | Inl Panic \<Rightarrow> Panicked
           | Inr right_side \<Rightarrow>
               (case (left_side, right_side) of
                  (Validated_Decoded left, Validated_Decoded right) \<Rightarrow>
                    composed_or_invalid BothComposed
                      (compose_two_view_canvas (Some left) (Some right) (tvc_policy input))
                | (Validated_Decoded left, Validated_Skipped right_reason) \<Rightarrow>
                    composed_or_invalid (\<lambda>frame. LeftOnly frame right_reason)
                      (compose_two_view_canvas (Some left) None (tvc_policy input))
                | (Validated_Skipped left_reason, Validated_Decoded right) \<Rightarrow>
                    composed_or_invalid (\<lambda>frame. RightOnly frame left_reason)
                      (compose_two_view_canvas None (Some right) (tvc_policy input))
                | (Validated_Skipped left_reason, Validated_Skipped right_reason) \<Rightarrow>
                    Ok (EmptyPlaceholder left_reason right_reason))))"

section \<open>Bytes of a canvas\<close>

text \<open>A canvas has rows of \<open>stride\<close> bytes; byte \<open>b\<close> of row \<open>y\<close> is at \<open>y * stride + b\<close>.\<close>

definition stride_of :: "u32 \<Rightarrow> nat" where
  "stride_of width = unat width * 4"

lemma row_cases:
  fixes stride :: nat
  assumes "b < stride" and "x + w \<le> stride"
  shows "r * stride + x \<le> y * stride + b \<and> y * stride + b < r * stride + x + w \<longleftrightarrow>
    y = r \<and> x \<le> b \<and> b < x + w"
proof (cases y r rule: linorder_cases)
  case less
  then have "Suc y * stride \<le> r * stride" by (intro mult_le_mono1) simp
  with less assms show ?thesis by simp
next
  case equal
  then show ?thesis by simp
next
  case greater
  then have "Suc r * stride \<le> y * stride" by (intro mult_le_mono1) simp
  with greater assms show ?thesis by simp
qed

lemma copy_row_length: "copy_row W f dx dy canvas row = Ok canvas' \<Longrightarrow> length canvas' = length canvas"
  by (auto simp: copy_row_def Let_def split: if_splits)

lemma copy_row_nth:
  assumes "copy_row W f dx dy canvas row = Ok canvas'"
    and b: "b < stride_of W" and fits: "unat dx * 4 + stride_of (sdf_width f) \<le> stride_of W"
    and i: "y * stride_of W + b < length canvas"
  shows "canvas' ! (y * stride_of W + b) =
    (if y = unat dy + row \<and> unat dx * 4 \<le> b \<and> b < unat dx * 4 + stride_of (sdf_width f)
     then sdf_pixels f ! (row * stride_of (sdf_width f) + (b - unat dx * 4))
     else canvas ! (y * stride_of W + b))"
proof -
  let ?s = "(unat dy + row) * stride_of W + unat dx * 4" and ?w = "stride_of (sdf_width f)"
    and ?i = "y * stride_of W + b"
  have ok: "?s + ?w \<le> length canvas" "row * ?w + ?w \<le> length (sdf_pixels f)"
    and canvas': "canvas' = take ?s canvas @ take ?w (drop (row * ?w) (sdf_pixels f)) @ drop (?s + ?w) canvas"
    using assms(1) by (auto simp: copy_row_def Let_def stride_of_def split: if_splits)
  have "canvas' ! ?i = (if ?s \<le> ?i \<and> ?i < ?s + ?w then sdf_pixels f ! (row * ?w + (?i - ?s)) else canvas ! ?i)"
    using ok i by (auto simp: canvas' nth_append)
  then show ?thesis using row_cases [OF b fits, of "unat dy + row" y] by auto
qed

lemma copy_rows_length: "copy_rows W f dx dy canvas rows = Ok canvas' \<Longrightarrow> length canvas' = length canvas"
  by (induction rows arbitrary: canvas) (auto simp: rbind_eq_Inr_iff dest: copy_row_length)

lemma copy_rows_nth:
  assumes "copy_rows W f dx dy canvas rows = Ok canvas'"
    and "b < stride_of W" and "unat dx * 4 + stride_of (sdf_width f) \<le> stride_of W"
    and "y * stride_of W + b < length canvas"
  shows "canvas' ! (y * stride_of W + b) =
    (if (\<exists>row \<in> set rows. y = unat dy + row) \<and> unat dx * 4 \<le> b \<and> b < unat dx * 4 + stride_of (sdf_width f)
     then sdf_pixels f ! ((y - unat dy) * stride_of (sdf_width f) + (b - unat dx * 4))
     else canvas ! (y * stride_of W + b))"
  using assms(1,4)
proof (induction rows arbitrary: canvas)
  case (Cons row rows)
  then obtain canvas1 where row: "copy_row W f dx dy canvas row = Ok canvas1"
      and rows: "copy_rows W f dx dy canvas1 rows = Ok canvas'"
    by (auto simp: rbind_eq_Inr_iff)
  show ?case
    using Cons.IH [OF rows] Cons.prems(2) copy_row_length [OF row] copy_row_nth [OF row assms(2,3) Cons.prems(2)]
    by auto
qed simp

lemma copy_rows_succeeds:
  assumes "\<And>row. row \<in> set rows \<Longrightarrow> (unat dy + row) * stride_of W + unat dx * 4 + stride_of (sdf_width f) \<le> n \<and>
      row * stride_of (sdf_width f) + stride_of (sdf_width f) \<le> length (sdf_pixels f)"
    and "length canvas = n"
  shows "\<exists>canvas'. copy_rows W f dx dy canvas rows = Ok canvas'"
  using assms
proof (induction rows arbitrary: canvas)
  case (Cons row rows)
  have "\<exists>canvas1. copy_row W f dx dy canvas row = Ok canvas1"
    using Cons.prems(1) [of row] Cons.prems(2) by (simp add: copy_row_def Let_def stride_of_def)
  then obtain canvas1 where row: "copy_row W f dx dy canvas row = Ok canvas1" by blast
  show ?case using Cons.IH [of canvas1] Cons.prems copy_row_length [OF row] by (auto simp: row)
qed simp

text \<open>A frame that fits its place is copied there, and nothing else changes.\<close>

definition frame_ok :: "SwitcherDecodedFrame \<Rightarrow> bool" where
  "frame_ok f \<longleftrightarrow> length (sdf_pixels f) = unat (sdf_height f) * stride_of (sdf_width f)"

lemma copy_frame:
  assumes "frame_ok f" and "length canvas = H * stride_of W"
    and "unat dx * 4 + stride_of (sdf_width f) \<le> stride_of W" and "unat dy + unat (sdf_height f) \<le> H"
  shows "\<exists>canvas'. copy_bgra_frame_into_canvas canvas W f dx dy = Ok canvas' \<and>
    length canvas' = length canvas \<and>
    (\<forall>y b. b < stride_of W \<longrightarrow> y < H \<longrightarrow> canvas' ! (y * stride_of W + b) =
      (if unat dy \<le> y \<and> y < unat dy + unat (sdf_height f) \<and>
          unat dx * 4 \<le> b \<and> b < unat dx * 4 + stride_of (sdf_width f)
       then sdf_pixels f ! ((y - unat dy) * stride_of (sdf_width f) + (b - unat dx * 4))
       else canvas ! (y * stride_of W + b)))"
proof -
  let ?rows = "[0..<unat (sdf_height f)]"
  have "(unat dy + row) * stride_of W + unat dx * 4 + stride_of (sdf_width f) \<le> length canvas \<and>
      row * stride_of (sdf_width f) + stride_of (sdf_width f) \<le> length (sdf_pixels f)"
    if "row \<in> set ?rows" for row
  proof -
    have "Suc (unat dy + row) * stride_of W \<le> H * stride_of W"
      using that assms(4) by (intro mult_le_mono1) simp
    moreover have "Suc row * stride_of (sdf_width f) \<le> unat (sdf_height f) * stride_of (sdf_width f)"
      using that by (intro mult_le_mono1) simp
    ultimately show ?thesis using assms(1-3) by (simp add: frame_ok_def)
  qed
  then obtain canvas' where rows: "copy_rows W f dx dy canvas ?rows = Ok canvas'"
    using copy_rows_succeeds [of ?rows dy W dx f "length canvas" canvas] by blast
  have "canvas' ! (y * stride_of W + b) =
      (if unat dy \<le> y \<and> y < unat dy + unat (sdf_height f) \<and>
          unat dx * 4 \<le> b \<and> b < unat dx * 4 + stride_of (sdf_width f)
       then sdf_pixels f ! ((y - unat dy) * stride_of (sdf_width f) + (b - unat dx * 4))
       else canvas ! (y * stride_of W + b))" if b: "b < stride_of W" and y: "y < H" for y b
  proof -
    have "Suc y * stride_of W \<le> H * stride_of W" using y by (intro mult_le_mono1) simp
    then have "y * stride_of W + b < length canvas" using b assms(2) by simp
    moreover have "(\<exists>row \<in> set ?rows. y = unat dy + row) \<longleftrightarrow> unat dy \<le> y \<and> y < unat dy + unat (sdf_height f)"
      by (auto simp: nat_le_iff_add)
    ultimately show ?thesis using copy_rows_nth [OF rows b assms(3)] by auto
  qed
  moreover have "copy_bgra_frame_into_canvas canvas W f dx dy = Ok canvas'"
    using rows by (simp add: copy_bgra_frame_into_canvas_def)
  moreover have "length canvas' = length canvas" by (rule copy_rows_length [OF rows])
  ultimately show ?thesis by blast
qed

definition color_bytes :: "u8 \<times> u8 \<times> u8 \<times> u8 \<Rightarrow> u8 list" where
  "color_bytes color = (case color of (b, g, r, a) \<Rightarrow> [b, g, r, a])"

lemma fill_length: "length (fill_bgra canvas color) = length canvas"
  by (induction canvas color rule: fill_bgra.induct) simp_all

lemma fill_nth: "length canvas = 4 * n \<Longrightarrow> i < 4 * n \<Longrightarrow> fill_bgra canvas color ! i = color_bytes color ! (i mod 4)"
proof (induction canvas color arbitrary: n i rule: fill_bgra.induct)
  case (1 p1 p2 p3 p4 pixels b g r a)
  consider "i = 0" | "i = 1" | "i = 2" | "i = 3" | j where "i = j + 4"
  proof (cases "4 \<le> i")
    case True
    then show thesis using le_Suc_ex [of 4 i] that(5) by (metis add.commute)
  next
    case False
    then have "i = 0 \<or> i = 1 \<or> i = 2 \<or> i = 3" by arith
    then show thesis using that by blast
  qed
  then show ?case
  proof cases
    case (5 j)
    then show ?thesis using 1 by (cases n) simp_all
  qed (simp_all add: color_bytes_def)
qed (auto, presburger+)

lemma bgra_len_Some:
  assumes "bgra_len w h = Some n"
  shows "n = unat h * stride_of w" and "n = unat w * unat h * 4" and "n < 2 ^ 32"
proof -
  have small: "unat w * unat h < 2 ^ 32" and all: "unat (w * h) * 4 < 2 ^ 32" and n: "n = unat (w * h * 4)"
    using assms by (auto simp: bgra_len_def u32_checked_mul_def bind_eq_Some_conv split: if_splits)
  have "unat (w * h) = unat w * unat h" using small by (simp add: unat_word_ariths)
  then show "n = unat w * unat h * 4" using n all by (simp add: unat_word_ariths)
  then show "n = unat h * stride_of w" by (simp add: stride_of_def)
  show "n < 2 ^ 32" using unsigned_less [of "w * h * 4"] by (simp add: n)
qed

section \<open>The side-by-side canvas\<close>

text \<open>What a frame of its own slot shows: its pixels at the slot's top left, the placeholder elsewhere.\<close>

definition slot_byte :: "SwitcherDecodedFrame option \<Rightarrow> u8 \<times> u8 \<times> u8 \<times> u8 \<Rightarrow> nat \<Rightarrow> nat \<Rightarrow> u8" where
  "slot_byte frame color y b =
     (case frame of
        Some f \<Rightarrow> if y < unat (sdf_height f) \<and> b < stride_of (sdf_width f)
          then sdf_pixels f ! (y * stride_of (sdf_width f) + b) else color_bytes color ! (b mod 4)
      | None \<Rightarrow> color_bytes color ! (b mod 4))"

definition valid_frame :: "SwitcherDecodedFrame \<Rightarrow> bool" where
  "valid_frame f \<longleftrightarrow> sdf_width f \<noteq> 0 \<and> sdf_height f \<noteq> 0 \<and>
     bgra_len (sdf_width f) (sdf_height f) = Some (length (sdf_pixels f))"

lemma valid_frame_ok: "valid_frame f \<Longrightarrow> frame_ok f"
  using bgra_len_Some(1) by (auto simp: valid_frame_def frame_ok_def)

lemma validated_frame:
  "validate_two_view_decoded_frame side f = Ok u \<longleftrightarrow> valid_frame f"
  using SwitcherDecodedFramePixelFormat.exhaust [of "sdf_pixel_format f"]
  by (auto simp: validate_two_view_decoded_frame_def valid_frame_def rbind_eq_Inr_iff ok_or_eq_Inr_iff)

lemma validate_no_panic:
  "validate_two_view_decoded_frame side f \<noteq> Panicked" "validate_two_view_layout_side side input \<noteq> Panicked"
proof -
  show no: "validate_two_view_decoded_frame side f \<noteq> Panicked" for side f
    by (cases "bgra_len (sdf_width f) (sdf_height f)") (auto simp: validate_two_view_decoded_frame_def)
  then show "validate_two_view_layout_side side input \<noteq> Panicked"
    by (auto simp: validate_two_view_layout_side_def rbind_eq_Inl_iff split: SwitcherTwoViewLayoutSideInput.split)
qed

lemma slot_size_max:
  assumes "two_view_slot_size left right = Some (w, h)" and "left = Some s \<or> right = Some s"
  shows "unat (sdf_width (dts_frame s)) \<le> unat w \<and> unat (sdf_height (dts_frame s)) \<le> unat h"
  using assms by (cases left; cases right) (auto simp: two_view_slot_size_def word_le_nat_alt max_def)

lemma place_side_result:
  assumes x: "unat x * 4 = k"
    and "\<And>s. side = Some s \<Longrightarrow> frame_ok (dts_frame s) \<and> k + stride_of (sdf_width (dts_frame s)) \<le> stride_of W \<and>
      unat (sdf_height (dts_frame s)) \<le> H"
    and "length canvas = H * stride_of W"
  obtains canvas' metadata where "place_side canvas W name x side = Ok (canvas', metadata)"
    "length canvas' = length canvas"
    "\<And>y b. b < stride_of W \<Longrightarrow> y < H \<Longrightarrow> canvas' ! (y * stride_of W + b) =
      (case side of
         Some s \<Rightarrow> if y < unat (sdf_height (dts_frame s)) \<and> k \<le> b \<and>
             b < k + stride_of (sdf_width (dts_frame s))
           then sdf_pixels (dts_frame s) ! (y * stride_of (sdf_width (dts_frame s)) + (b - k))
           else canvas ! (y * stride_of W + b)
       | None \<Rightarrow> canvas ! (y * stride_of W + b))"
proof (cases side)
  case None
  show thesis by (rule that [of canvas None]) (simp_all add: None place_side_def)
next
  case (Some s)
  from assms(2) [OF Some] have fits: "frame_ok (dts_frame s)"
      "unat x * 4 + stride_of (sdf_width (dts_frame s)) \<le> stride_of W"
      "unat (0 :: u32) + unat (sdf_height (dts_frame s)) \<le> H"
    by (auto simp: x)
  obtain canvas' where canvas': "copy_bgra_frame_into_canvas canvas W (dts_frame s) x 0 = Ok canvas'"
    "length canvas' = length canvas"
    "\<And>y b. b < stride_of W \<Longrightarrow> y < H \<Longrightarrow> canvas' ! (y * stride_of W + b) =
      (if unat (0 :: u32) \<le> y \<and> y < unat (0 :: u32) + unat (sdf_height (dts_frame s)) \<and>
          unat x * 4 \<le> b \<and> b < unat x * 4 + stride_of (sdf_width (dts_frame s))
       then sdf_pixels (dts_frame s) ! ((y - unat (0 :: u32)) * stride_of (sdf_width (dts_frame s)) + (b - unat x * 4))
       else canvas ! (y * stride_of W + b))"
    using copy_frame [OF fits(1) assms(3) fits(2,3)] by blast
  let ?metadata = "\<lparr> tvm_side = name, tvm_selected = dts_selected s, tvm_x = x, tvm_y = 0,
      tvm_width = sdf_width (dts_frame s), tvm_height = sdf_height (dts_frame s) \<rparr>"
  show thesis
    by (rule that [of canvas' "Some ?metadata"]) (use canvas' in \<open>simp_all add: Some place_side_def x\<close>)
qed

lemma composed_bytes:
  assumes size: "two_view_slot_size left right = Some (w, h)"
    and valid: "\<And>s. left = Some s \<or> right = Some s \<Longrightarrow> valid_frame (dts_frame s)"
  shows "compose_two_view_canvas left right policy = Error Composition_CanvasTooLarge \<or>
    (\<exists>frame. compose_two_view_canvas left right policy = Ok frame \<and>
       unat (tvf_width frame) = 2 * unat w \<and> tvf_height frame = h \<and>
       bgra_len (tvf_width frame) h = Some (length (tvf_pixels frame)) \<and>
       (\<forall>y < unat h. \<forall>b < stride_of w.
          tvf_pixels frame ! (y * (2 * stride_of w) + b) =
            slot_byte (map_option dts_frame left) (tvl_placeholder_bgra policy) y b \<and>
          tvf_pixels frame ! (y * (2 * stride_of w) + stride_of w + b) =
            slot_byte (map_option dts_frame right) (tvl_placeholder_bgra policy) y b))"
proof (cases "u32_checked_mul w 2")
  case None
  then show ?thesis by (simp add: compose_two_view_canvas_def size)
next
  case (Some W)
  then have W: "unat W = 2 * unat w"
    by (auto simp: u32_checked_mul_def unat_word_ariths split: if_splits)
  then have stride: "stride_of W = 2 * stride_of w" by (simp add: stride_of_def)
  show ?thesis
  proof (cases "bgra_len W h")
    case None
    with Some show ?thesis by (simp add: compose_two_view_canvas_def size)
  next
    case (Some n)
    let ?c = "tvl_placeholder_bgra policy" and ?fill = "fill_bgra (replicate n 0) (tvl_placeholder_bgra policy)"
    have n: "n = unat h * stride_of W" by (rule bgra_len_Some(1) [OF Some])
    have fits: "frame_ok (dts_frame s) \<and> stride_of (sdf_width (dts_frame s)) \<le> stride_of w \<and>
        unat (sdf_height (dts_frame s)) \<le> unat h" if "left = Some s \<or> right = Some s" for s
      using slot_size_max [OF size that] valid_frame_ok [OF valid [OF that]] by (simp add: stride_of_def)
    obtain c1 m1 where c1: "place_side ?fill W Side_Left 0 left = Ok (c1, m1)" "length c1 = n"
      "\<And>y b. b < stride_of W \<Longrightarrow> y < unat h \<Longrightarrow> c1 ! (y * stride_of W + b) =
        (case left of
           Some s \<Rightarrow> if y < unat (sdf_height (dts_frame s)) \<and> 0 \<le> b \<and> b < 0 + stride_of (sdf_width (dts_frame s))
             then sdf_pixels (dts_frame s) ! (y * stride_of (sdf_width (dts_frame s)) + (b - 0))
             else ?fill ! (y * stride_of W + b)
         | None \<Rightarrow> ?fill ! (y * stride_of W + b))"
    proof (rule place_side_result [of 0 0 left W "unat h" ?fill Side_Left])
      show "frame_ok (dts_frame s) \<and> 0 + stride_of (sdf_width (dts_frame s)) \<le> stride_of W \<and>
          unat (sdf_height (dts_frame s)) \<le> unat h" if "left = Some s" for s
        using fits [of s] that by (simp add: stride)
    qed (simp_all add: fill_length n)
    obtain c2 m2 where c2: "place_side c1 W Side_Right w right = Ok (c2, m2)" "length c2 = n"
      "\<And>y b. b < stride_of W \<Longrightarrow> y < unat h \<Longrightarrow> c2 ! (y * stride_of W + b) =
        (case right of
           Some s \<Rightarrow> if y < unat (sdf_height (dts_frame s)) \<and> stride_of w \<le> b \<and>
               b < stride_of w + stride_of (sdf_width (dts_frame s))
             then sdf_pixels (dts_frame s) ! (y * stride_of (sdf_width (dts_frame s)) + (b - stride_of w))
             else c1 ! (y * stride_of W + b)
         | None \<Rightarrow> c1 ! (y * stride_of W + b))"
    proof (rule place_side_result [of w "stride_of w" right W "unat h" c1 Side_Right])
      show "frame_ok (dts_frame s) \<and> stride_of w + stride_of (sdf_width (dts_frame s)) \<le> stride_of W \<and>
          unat (sdf_height (dts_frame s)) \<le> unat h" if "right = Some s" for s
        using fits [of s] that by (simp add: stride)
    qed (simp_all add: c1(2) n stride_of_def)
    have fill: "?fill ! (y * stride_of W + b) = color_bytes ?c ! (b mod 4)" if "y < unat h" "b < stride_of W" for y b
    proof -
      have "Suc y * stride_of W \<le> unat h * stride_of W" using that(1) by (intro mult_le_mono1) simp
      then have "y * stride_of W + b < 4 * (unat h * unat W)" using that(2) by (simp add: stride_of_def)
      moreover have "(y * stride_of W + b) mod 4 = b mod 4" by (simp add: stride_of_def mod_add_eq [symmetric])
      ultimately show ?thesis
        using fill_nth [of "replicate n 0" "unat h * unat W" "y * stride_of W + b" ?c]
        by (simp add: n stride_of_def)
    qed
    let ?frame = "\<lparr> tvf_width = W, tvf_height = h, tvf_pixel_format = Bgra8, tvf_pixels = c2,
        tvf_left = m1, tvf_right = m2 \<rparr>"
    have "compose_two_view_canvas left right policy = Ok ?frame"
      using c1(1) c2(1) Some \<open>u32_checked_mul w 2 = Some W\<close>
      by (simp add: compose_two_view_canvas_def size lift_panic_def)
    moreover have "c2 ! (y * (2 * stride_of w) + b) = slot_byte (map_option dts_frame left) ?c y b"
      if "y < unat h" "b < stride_of w" for y b
      using that c1(3) [of b y] c2(3) [of b y] fill [of y b]
      by (auto simp: stride slot_byte_def split: option.split)
    moreover have "c2 ! (y * (2 * stride_of w) + stride_of w + b) = slot_byte (map_option dts_frame right) ?c y b"
      if "y < unat h" "b < stride_of w" for y b
    proof -
      have "c1 ! (y * stride_of W + (stride_of w + b)) = color_bytes ?c ! (b mod 4)"
      proof -
        have "(stride_of w + b) mod 4 = b mod 4" by (simp add: stride_of_def mod_add_eq [symmetric])
        moreover have "\<not> stride_of w + b < stride_of (sdf_width (dts_frame s))" if "left = Some s" for s
          using fits [of s] that by simp
        ultimately show ?thesis
          using that c1(3) [of "stride_of w + b" y] fill [of y "stride_of w + b"]
          by (auto simp: stride split: option.split)
      qed
      then show ?thesis
        using that c2(3) [of "stride_of w + b" y]
        by (auto simp: stride slot_byte_def add.assoc split: option.split)
    qed
    ultimately show ?thesis using W Some c2(2) by (auto simp: stride)
  qed
qed


lemma compose_no_panic:
  assumes "pred_option (\<lambda>s. valid_frame (dts_frame s)) left"
    and "pred_option (\<lambda>s. valid_frame (dts_frame s)) right"
  shows "compose_two_view_canvas left right policy \<noteq> Panicked"
proof (cases "two_view_slot_size left right")
  case None
  then show ?thesis by (simp add: compose_two_view_canvas_def)
next
  case (Some size)
  then show ?thesis using composed_bytes [of left right "fst size" "snd size" policy] assms by fastforce
qed

lemma validated_side:
  "validate_two_view_layout_side side input = Ok (Validated_Decoded s) \<Longrightarrow> valid_frame (dts_frame s)"
  using validated_frame
  by (auto simp: validate_two_view_layout_side_def rbind_eq_Inr_iff
      split: SwitcherTwoViewLayoutSideInput.splits if_splits)

lemma composed_or_invalid_panic [simp]: "composed_or_invalid composed frame = Panicked \<longleftrightarrow> frame = Panicked"
  by (auto simp: composed_or_invalid_def split: sum.split fault.split)

lemma side_by_side_no_panic: "SwitcherTwoViewCompositionBoundary_compose_side_by_side input \<noteq> Panicked"
proof -
  let ?left = "validate_two_view_layout_side Side_Left (tvc_left input)"
    and ?right = "validate_two_view_layout_side Side_Right (tvc_right input)"
  have "?left \<noteq> Panicked" "?right \<noteq> Panicked" by (rule validate_no_panic)+
  then show ?thesis
    using validated_side [of Side_Left "tvc_left input"] validated_side [of Side_Right "tvc_right input"]
    by (cases ?left; cases ?right)
      (auto simp: SwitcherTwoViewCompositionBoundary_compose_side_by_side_def compose_no_panic
        split: fault.split ValidatedTwoViewLayoutSide.split)
qed

lemma canvas_not_too_large:
  assumes size: "two_view_slot_size left right = Some (w, h)" and "h \<noteq> 0"
    and fits: "8 * unat w * unat h < 2 ^ 32"
  shows "compose_two_view_canvas left right policy \<noteq> Error Composition_CanvasTooLarge"
proof -
  have "1 \<le> unat h" using \<open>h \<noteq> 0\<close> by (simp add: Suc_le_eq unat_gt_0)
  then have "unat w * 1 \<le> unat w * unat h" by (rule mult_le_mono2)
  then have "8 * unat w < 2 ^ 32" using fits by linarith
  then have w: "unat (w * 2) = 2 * unat w" "unat w * 2 < 2 ^ 32"
    by (auto simp: unat_word_ariths)
  moreover have "unat (w * 2 * h) = 2 * unat w * unat h"
    using fits by (subst unat_mult_lem [THEN iffD1]) (auto simp: w)
  ultimately have "u32_checked_mul w 2 = Some (w * 2)" "bgra_len (w * 2) h \<noteq> None"
    using fits by (auto simp: u32_checked_mul_def bgra_len_def)
  then show ?thesis
    by (auto simp: compose_two_view_canvas_def size Let_def lift_panic_def rbind_eq_Inl_iff
        split: sum.splits)
qed

section \<open>Properties\<close>

definition sample_pixel_row :: "nat \<Rightarrow> SwitcherDecodedFrame" where
  "sample_pixel_row n = \<lparr> sdf_width = of_nat n, sdf_height = 1, sdf_pixel_format = Bgra8,
     sdf_pixels = map of_nat [0..<4 * n] \<rparr>"

definition sample_composition :: SwitcherTwoViewCompositionInput where
  "sample_composition = \<lparr> tvc_left = Layout_Decoded Side_Left None (sample_pixel_row 1),
     tvc_right = Layout_Decoded Side_Right None (sample_pixel_row 2),
     tvc_policy = \<lparr> tvl_placeholder_bgra = (9, 9, 9, 255) \<rparr> \<rparr>"

text \<open>
  C28: composing two decoded views side by side: when both frames are well formed
  and the canvas fits 32 bits the result is a canvas of twice the larger width and the larger
  height whose left half shows the left frame at its top left corner, whose right half shows the
  right frame, and whose remaining bytes are the placeholder colour: every byte is determined.
\<close>
theorem side_by_side_shows_both_frames:
  assumes "tvc_left input = Layout_Decoded Side_Left left_selected f" and "valid_frame f"
    and "tvc_right input = Layout_Decoded Side_Right right_selected g" and "valid_frame g"
    and "w = max (sdf_width f) (sdf_width g)" and "h = max (sdf_height f) (sdf_height g)"
    and "8 * unat w * unat h < 2 ^ 32"
  shows "\<exists>frame. SwitcherTwoViewCompositionBoundary_compose_side_by_side input = Ok (BothComposed frame) \<and>
    unat (tvf_width frame) = 2 * unat w \<and> tvf_height frame = h \<and>
    length (tvf_pixels frame) = unat h * (2 * stride_of w) \<and>
    (\<forall>y < unat h. \<forall>b < stride_of w.
      tvf_pixels frame ! (y * (2 * stride_of w) + b) =
        slot_byte (Some f) (tvl_placeholder_bgra (tvc_policy input)) y b \<and>
      tvf_pixels frame ! (y * (2 * stride_of w) + stride_of w + b) =
        slot_byte (Some g) (tvl_placeholder_bgra (tvc_policy input)) y b)"
proof -
  let ?l = "\<lparr> dts_selected = left_selected, dts_frame = f \<rparr>" and ?r = "\<lparr> dts_selected = right_selected, dts_frame = g \<rparr>"
  have size: "two_view_slot_size (Some ?l) (Some ?r) = Some (w, h)"
    by (simp add: two_view_slot_size_def assms(5,6))
  have "h \<noteq> 0" using assms(2,6) max.cobounded1 [of "sdf_height f" "sdf_height g"]
    by (metis word_coorder.extremum_uniqueI valid_frame_def)
  then obtain frame where "compose_two_view_canvas (Some ?l) (Some ?r) (tvc_policy input) = Ok frame"
      and bytes: "unat (tvf_width frame) = 2 * unat w" "tvf_height frame = h"
        "bgra_len (tvf_width frame) h = Some (length (tvf_pixels frame))"
        "\<forall>y < unat h. \<forall>b < stride_of w.
          tvf_pixels frame ! (y * (2 * stride_of w) + b) =
            slot_byte (map_option dts_frame (Some ?l)) (tvl_placeholder_bgra (tvc_policy input)) y b \<and>
          tvf_pixels frame ! (y * (2 * stride_of w) + stride_of w + b) =
            slot_byte (map_option dts_frame (Some ?r)) (tvl_placeholder_bgra (tvc_policy input)) y b"
    using composed_bytes [OF size] canvas_not_too_large [OF size] assms(2,4,7) by fastforce
  moreover have "validate_two_view_layout_side Side_Left (tvc_left input) = Ok (Validated_Decoded ?l)"
      "validate_two_view_layout_side Side_Right (tvc_right input) = Ok (Validated_Decoded ?r)"
    using assms(1-4) validated_frame [of Side_Left f "()"] validated_frame [of Side_Right g "()"]
    by (simp_all add: validate_two_view_layout_side_def)
  ultimately show ?thesis
    using bgra_len_Some(1) [OF bytes(3)]
    by (auto simp: SwitcherTwoViewCompositionBoundary_compose_side_by_side_def composed_or_invalid_def stride_of_def)
qed

theorem side_by_side_shows_both_frames_witness:
  "\<exists>frame. SwitcherTwoViewCompositionBoundary_compose_side_by_side sample_composition = Ok (BothComposed frame) \<and>
    unat (tvf_width frame) = 4 \<and> length (tvf_pixels frame) = 16 \<and>
    tvf_pixels frame ! 3 = 3 \<and> tvf_pixels frame ! 7 = 255 \<and> tvf_pixels frame ! 15 = 7"
proof -
  have "valid_frame (sample_pixel_row 1)" "valid_frame (sample_pixel_row 2)"
    by (simp_all add: valid_frame_def bgra_len_def u32_checked_mul_def sample_pixel_row_def)
  moreover have "tvc_left sample_composition = Layout_Decoded Side_Left None (sample_pixel_row 1)"
    "tvc_right sample_composition = Layout_Decoded Side_Right None (sample_pixel_row 2)"
    "tvl_placeholder_bgra (tvc_policy sample_composition) = (9, 9, 9, 255)"
    by (simp_all add: sample_composition_def)
  moreover have "max (sdf_width (sample_pixel_row 1)) (sdf_width (sample_pixel_row 2)) = 2"
    "max (sdf_height (sample_pixel_row 1)) (sdf_height (sample_pixel_row 2)) = 1"
    by (simp_all add: sample_pixel_row_def max_def)
  moreover have slots: "slot_byte (Some (sample_pixel_row 1)) (9, 9, 9, 255) 0 3 = 3"
    "slot_byte (Some (sample_pixel_row 1)) (9, 9, 9, 255) 0 7 = 255"
    "slot_byte (Some (sample_pixel_row 2)) (9, 9, 9, 255) 0 7 = 7" by code_simp+
  moreover have "stride_of 2 = 8" by code_simp
  ultimately obtain frame
    where ok: "SwitcherTwoViewCompositionBoundary_compose_side_by_side sample_composition = Ok (BothComposed frame)"
      "unat (tvf_width frame) = 4" "length (tvf_pixels frame) = 16"
      and bytes: "\<forall>y < 1. \<forall>b < 8.
        tvf_pixels frame ! (y * 16 + b) = slot_byte (Some (sample_pixel_row 1)) (9, 9, 9, 255) y b \<and>
        tvf_pixels frame ! (y * 16 + 8 + b) = slot_byte (Some (sample_pixel_row 2)) (9, 9, 9, 255) y b"
    using side_by_side_shows_both_frames [of sample_composition None "sample_pixel_row 1" None "sample_pixel_row 2" 2 1]
    by auto
  have "tvf_pixels frame ! 3 = 3" "tvf_pixels frame ! 7 = 255" "tvf_pixels frame ! 15 = 7"
    using bytes [rule_format, of 0 3] bytes [rule_format, of 0 7] slots by simp_all
  with ok show ?thesis by blast
qed

end
