(* ===== verification/Server_Json.thy ===== *)
theory Server_Json
  imports Server_Heartbeat
begin

text \<open>
  The JSON Lines fields of apps/server/src/lib.rs, and the standard library's rendering of the
  values they show. A writer's output is the list of the strings it writes, in order; the first
  failing write ends it. A reader of JSON, written independently of the code, states what a line
  means: the last section proves that it reads a field's value back, whatever characters it has.
\<close>

section \<open>Characters\<close>

abbreviation QUOTE :: char where "QUOTE \<equiv> CHR 0x22"
abbreviation BACKSLASH :: char where "BACKSLASH \<equiv> CHR 0x5C"

text \<open>\<open>str::chars\<close>, each character as its UTF-8 bytes.\<close>

function chars :: "string \<Rightarrow> string list" where
  "chars s =
     (if s = [] then []
      else let n = max 1 (utf8_char_len (as_bytes s)) in take n s # chars (drop n s))"
  by pat_completeness auto
termination
  by (relation "measure length") (auto simp: Let_def)

declare chars.simps [simp del]

text \<open>\<open>char::is_control\<close>: U+0000 to U+001F, U+007F, and U+0080 to U+009F. The code point of
  each is its last byte.\<close>

definition is_control :: "string \<Rightarrow> bool" where
  "is_control c \<longleftrightarrow>
     (\<exists>b. c = [b] \<and> (of_char b < (0x20 :: nat) \<or> b = CHR 0x7F)) \<or>
     (\<exists>b. c = [CHR 0xC2, b] \<and> 0x80 \<le> (of_char b :: nat) \<and> of_char b < (0xA0 :: nat))"

lemma is_control_code [code]:
  "is_control c =
     (case c of
        [b] \<Rightarrow> of_char b < (0x20 :: nat) \<or> b = CHR 0x7F
      | [a, b] \<Rightarrow> a = CHR 0xC2 \<and> 0x80 \<le> (of_char b :: nat) \<and> of_char b < (0xA0 :: nat)
      | _ \<Rightarrow> False)"
  by (auto simp: is_control_def split: list.split)

definition hex_digit :: "nat \<Rightarrow> char" where
  "hex_digit n = char_of (if n < 10 then 48 + n else 87 + n)"

fun hex_nat :: "nat \<Rightarrow> string" where
  "hex_nat n = (if n < 16 then [hex_digit n] else hex_nat (n div 16) @ [hex_digit (n mod 16)])"

declare hex_nat.simps [simp del]

text \<open>\<open>{:04x}\<close> of a code below U+0100.\<close>

definition hex4_byte :: "char \<Rightarrow> string" where
  "hex4_byte b = ''00'' @ [hex_digit (of_char b div 16), hex_digit (of_char b mod 16)]"

section \<open>Writing fields\<close>

definition write_json_char :: "string \<Rightarrow> string" where
  "write_json_char character =
     (if character = [QUOTE] then [BACKSLASH, QUOTE]
      else if character = [BACKSLASH] then [BACKSLASH, BACKSLASH]
      else if character = [CHR 0x0A] then BACKSLASH # ''n''
      else if character = [CHR 0x0D] then BACKSLASH # ''r''
      else if character = [CHR 0x09] then BACKSLASH # ''t''
      else if is_control character then BACKSLASH # ''u'' @ hex4_byte (last character)
      else character)"

definition write_json_string :: "string \<Rightarrow> string list" where
  "write_json_string value = [[QUOTE]] @ map write_json_char (chars value) @ [[QUOTE]]"

definition write_json_field :: "string \<Rightarrow> string \<Rightarrow> string list" where
  "write_json_field key value = ([QUOTE] @ key @ [QUOTE] @ '':'') # write_json_string value"

definition write_optional_json_field :: "string \<Rightarrow> string option \<Rightarrow> string list" where
  "write_optional_json_field key value =
     ([QUOTE] @ key @ [QUOTE] @ '':'') #
     (case value of Some value \<Rightarrow> write_json_string value | None \<Rightarrow> [''null''])"

text \<open>A number or a literal after its key in one \<open>write!\<close>; an optional number takes two.\<close>

definition json_literal :: "string \<Rightarrow> string \<Rightarrow> string" where
  "json_literal key value = [QUOTE] @ key @ [QUOTE] @ '':'' @ value"

definition write_optional_number :: "string \<Rightarrow> nat option \<Rightarrow> string list" where
  "write_optional_number key value =
     ['','' @ json_literal key [], case value of Some n \<Rightarrow> display_nat n | None \<Rightarrow> ''null'']"

section \<open>Rendering of values\<close>

text \<open>\<open>Display\<close> of IPv4 and IPv6 addresses and socket addresses.\<close>

definition join :: "string \<Rightarrow> string list \<Rightarrow> string" where
  "join sep parts = (case parts of [] \<Rightarrow> [] | p # ps \<Rightarrow> p @ concat (map (\<lambda>q. sep @ q) ps))"

definition display_ipv4 :: "u32 \<Rightarrow> string" where
  "display_ipv4 ip = join ''.''
     (map (\<lambda>k. display_nat (unat (drop_bit (8 * k) ip) mod 256)) [3, 2, 1, 0])"

definition ipv6_segments :: "128 word \<Rightarrow> nat list" where
  "ipv6_segments ip = map (\<lambda>k. unat (drop_bit (16 * k) ip) mod 65536) [7, 6, 5, 4, 3, 2, 1, 0]"

text \<open>The longest run of zero segments, the first one of several: its start and length.\<close>

fun longest_zeroes :: "nat \<Rightarrow> nat list \<Rightarrow> nat \<times> nat \<Rightarrow> nat \<times> nat \<Rightarrow> nat \<times> nat" where
  "longest_zeroes i [] current longest = longest"
| "longest_zeroes i (segment # segments) current longest =
     (if segment = 0 then
        (let current = (if snd current = 0 then i else fst current, snd current + 1) in
         longest_zeroes (i + 1) segments current (if snd longest < snd current then current else longest))
      else longest_zeroes (i + 1) segments (0, 0) longest)"

definition display_ipv6 :: "128 word \<Rightarrow> string" where
  "display_ipv6 ip =
     (let segments = ipv6_segments ip; subslice = (\<lambda>xs. join '':'' (map hex_nat xs)) in
      if take 6 segments = [0, 0, 0, 0, 0, 65535] then ''::ffff:'' @ display_ipv4 (ucast ip)
      else
        (case longest_zeroes 0 segments (0, 0) (0, 0) of (start, len) \<Rightarrow>
           if 1 < len then subslice (take start segments) @ ''::'' @ subslice (drop (start + len) segments)
           else subslice segments))"

fun display_address :: "SocketAddr \<Rightarrow> string" where
  "display_address (SocketAddrV4 ip port) = display_ipv4 ip @ '':'' @ display_nat (unat port)"
| "display_address (SocketAddrV6 ip port flowinfo scope_id) =
     ''['' @ display_ipv6 ip
       @ (if scope_id = 0 then [] else ''%'' @ display_nat (unat scope_id)) @ '']:''
       @ display_nat (unat port)"

definition display_bool :: "bool \<Rightarrow> string" where
  "display_bool b = (if b then ''true'' else ''false'')"

fun receive_rejection_message_type_name :: "MessageType \<Rightarrow> string" where
  "receive_rejection_message_type_name MessageType_AuthRequest = ''AuthRequest''"
| "receive_rejection_message_type_name MessageType_AuthResponse = ''AuthResponse''"
| "receive_rejection_message_type_name MessageType_Heartbeat = ''Heartbeat''"
| "receive_rejection_message_type_name MessageType_HeartbeatAck = ''HeartbeatAck''"
| "receive_rejection_message_type_name MessageType_VideoFrame = ''VideoFrame''"
| "receive_rejection_message_type_name MessageType_ClientStats = ''ClientStats''"
| "receive_rejection_message_type_name MessageType_ServerNotice = ''ServerNotice''"
| "receive_rejection_message_type_name MessageType_VideoFrameFragment = ''VideoFrameFragment''"

text \<open>\<open>{:?}\<close>, as derived.\<close>

definition debug_fields :: "string \<Rightarrow> (string \<times> string) list \<Rightarrow> string" where
  "debug_fields name entries =
     name @ '' { '' @ join '', '' (map (\<lambda>(field, value). field @ '': '' @ value) entries) @ '' }''"

definition debug_version :: "ProtocolVersion \<Rightarrow> string" where
  "debug_version version = ''ProtocolVersion('' @ display_nat (unat version) @ '')''"

fun debug_protocol_error :: "ProtocolError \<Rightarrow> string" where
  "debug_protocol_error BufferTooShort = ''BufferTooShort''"
| "debug_protocol_error (InvalidHeaderLength actual) =
     debug_fields ''InvalidHeaderLength'' [(''actual'', display_nat (unat actual))]"
| "debug_protocol_error (InvalidPayloadLength expected actual) =
     debug_fields ''InvalidPayloadLength''
       [(''expected'', display_nat (unat expected)), (''actual'', display_nat actual)]"
| "debug_protocol_error (InvalidOptionalTag actual) =
     debug_fields ''InvalidOptionalTag'' [(''actual'', display_nat (unat actual))]"
| "debug_protocol_error (InvalidBoolValue actual) =
     debug_fields ''InvalidBoolValue'' [(''actual'', display_nat (unat actual))]"
| "debug_protocol_error (InvalidMetadataReserved (a, b, c)) =
     debug_fields ''InvalidMetadataReserved''
       [(''actual'', ''['' @ join '', '' (map (\<lambda>w. display_nat (unat w)) [a, b, c]) @ '']'')]"
| "debug_protocol_error InvalidUtf8String = ''InvalidUtf8String''"
| "debug_protocol_error (UnsupportedAuthResponseReasonCode actual) =
     debug_fields ''UnsupportedAuthResponseReasonCode'' [(''actual'', display_nat (unat actual))]"
| "debug_protocol_error (UnsupportedCodec actual) =
     debug_fields ''UnsupportedCodec'' [(''actual'', display_nat (unat actual))]"
| "debug_protocol_error (UnsupportedNoticeType actual) =
     debug_fields ''UnsupportedNoticeType'' [(''actual'', display_nat (unat actual))]"
| "debug_protocol_error (UnknownMessageType actual) =
     ''UnknownMessageType('' @ display_nat (unat actual) @ '')''"
| "debug_protocol_error (UnexpectedMessageType expected actual) =
     debug_fields ''UnexpectedMessageType''
       [(''expected'', receive_rejection_message_type_name expected),
        (''actual'', receive_rejection_message_type_name actual)]"
| "debug_protocol_error (UnsupportedProtocolVersion expected actual) =
     debug_fields ''UnsupportedProtocolVersion''
       [(''expected'', debug_version expected), (''actual'', debug_version actual)]"
| "debug_protocol_error (PayloadStringTooLong actual) =
     debug_fields ''PayloadStringTooLong'' [(''actual'', display_nat actual)]"
| "debug_protocol_error (PayloadDecodeNotImplemented message_type) =
     ''PayloadDecodeNotImplemented('' @ receive_rejection_message_type_name message_type @ '')''"
| "debug_protocol_error (EncodeNotImplemented message_type) =
     ''EncodeNotImplemented('' @ receive_rejection_message_type_name message_type @ '')''"

fun debug_decode_error_action :: "ServerDecodeErrorAction \<Rightarrow> string" where
  "debug_decode_error_action DropPacket = ''DropPacket''"
| "debug_decode_error_action RejectProtocolVersion = ''RejectProtocolVersion''"
| "debug_decode_error_action UnsupportedInboundMessage = ''UnsupportedInboundMessage''"

section \<open>Reading JSON\<close>

datatype json = JNull | JBool bool | JNum nat | JStr string | JObj "(string \<times> json) list"

definition unhex :: "char \<Rightarrow> nat" where
  "unhex c = (let n = of_char c in if n < 58 then n - 48 else n - 87)"

text \<open>The UTF-8 bytes of a code point below U+0100.\<close>

definition utf8_of_byte :: "nat \<Rightarrow> string" where
  "utf8_of_byte n = (if n < 0x80 then [char_of n] else [char_of (0xC0 + n div 64), char_of (0x80 + n mod 64)])"

fun read_string :: "string \<Rightarrow> (string \<times> string) option" where
  "read_string [] = None"
| "read_string (c # s) =
     (if c = QUOTE then Some ([], s)
      else if c = BACKSLASH then
        (case s of
           [] \<Rightarrow> None
         | e # s \<Rightarrow>
             if e = CHR ''n'' then map_option (apfst (Cons (CHR 0x0A))) (read_string s)
             else if e = CHR ''r'' then map_option (apfst (Cons (CHR 0x0D))) (read_string s)
             else if e = CHR ''t'' then map_option (apfst (Cons (CHR 0x09))) (read_string s)
             else if e = CHR ''u'' then
               (case s of
                  _ # _ # h # l # s \<Rightarrow>
                    map_option (apfst (append (utf8_of_byte (16 * unhex h + unhex l)))) (read_string s)
                | _ \<Rightarrow> None)
             else map_option (apfst (Cons e)) (read_string s))
      else if of_char c < (0x20 :: nat) then None
      else map_option (apfst (Cons c)) (read_string s))"

definition is_digit :: "char \<Rightarrow> bool" where
  "is_digit c \<longleftrightarrow> 48 \<le> (of_char c :: nat) \<and> of_char c < (58 :: nat)"

definition read_number :: "string \<Rightarrow> nat" where
  "read_number ds = foldl (\<lambda>n c. 10 * n + (of_char c - 48)) 0 ds"

text \<open>The first argument bounds the nesting of calls.\<close>

fun read_json :: "nat \<Rightarrow> string \<Rightarrow> (json \<times> string) option"
  and read_members :: "nat \<Rightarrow> string \<Rightarrow> ((string \<times> json) list \<times> string) option" where
  "read_json 0 s = None"
| "read_json (Suc n) s =
     (case s of
        [] \<Rightarrow> None
      | c # r \<Rightarrow>
          if c = QUOTE then map_option (apfst JStr) (read_string r)
          else if c = CHR ''{'' then map_option (apfst JObj) (read_members n r)
          else if is_digit c then Some (JNum (read_number (takeWhile is_digit s)), dropWhile is_digit s)
          else if take 4 s = ''null'' then Some (JNull, drop 4 s)
          else if take 4 s = ''true'' then Some (JBool True, drop 4 s)
          else if take 5 s = ''false'' then Some (JBool False, drop 5 s)
          else None)"
| "read_members 0 s = None"
| "read_members (Suc n) s =
     (case s of
        [] \<Rightarrow> None
      | c # r \<Rightarrow>
          if c \<noteq> QUOTE then None
          else
            (case read_string r of
               Some (key, d # r) \<Rightarrow>
                 if d \<noteq> CHR '':'' then None
                 else
                   (case read_json n r of
                      Some (v, e # r) \<Rightarrow>
                        if e = CHR '','' then map_option (apfst (Cons (key, v))) (read_members n r)
                        else if e = CHR ''}'' then Some ([(key, v)], r)
                        else None
                    | _ \<Rightarrow> None)
             | _ \<Rightarrow> None))"

definition read_line :: "string \<Rightarrow> (string \<times> json) list option" where
  "read_line s =
     (case read_json (length s) s of
        Some (JObj members, r) \<Rightarrow> if r = [CHR 0x0A] then Some members else None
      | _ \<Rightarrow> None)"

end
