(* ===== verification/Server_Receive_Log.thy ===== *)
theory Server_Receive_Log
  imports Server_Json Rust_Io
begin

text \<open>
  Receiving one packet and recording what happened to it, apps/server/src/lib.rs: decoding,
  routing and the acceptance gate, the operational line of every packet, and the rejection line
  of a rejected one. A writer is an argument; what it writes is the list of the JSON pieces.
\<close>

section \<open>Decoding and the gate\<close>

record ServerRejectedPacket =
  srp_source :: PacketSource
  srp_action :: ServerDecodeErrorAction
  srp_error :: ProtocolError

datatype ServerReceiveLoopOutcome =
    Loop_Routed ServerInboundRoute
  | Loop_Rejected ServerRejectedPacket

datatype ServerReceiveLoopGateRejection =
    GateRejection_Decode ServerRejectedPacket
  | GateRejection_Acceptance PacketAcceptanceRejection

datatype ServerReceiveLoopGateOutcome =
    Gate_Accepted ServerInboundRoute
  | Gate_Rejected ServerReceiveLoopGateRejection

definition ServerReceiveLoopStep_decode_and_route ::
  "ProtocolVersion \<Rightarrow> PacketSource \<Rightarrow> u8 list \<Rightarrow> (ServerInboundRoute, ServerRejectedPacket) result" where
  "ServerReceiveLoopStep_decode_and_route expected_protocol_version source packet_bytes =
     (case InboundPacketDecoder_decode
         \<lparr> dc_expected_protocol_version = expected_protocol_version \<rparr>
         \<lparr> ib_source = source, ib_bytes = packet_bytes \<rparr> of
        Inr decoded \<Rightarrow> Ok (ServerInboundRouter_route decoded)
      | Inl (Err (NetDecodeError_Protocol source error)) \<Rightarrow>
          Error \<lparr> srp_source = source, srp_action = classify_protocol_error error, srp_error = error \<rparr>
      | Inl Panic \<Rightarrow> Panicked)"

definition ServerReceiveLoopStep_handle_received_packet ::
  "ProtocolVersion \<Rightarrow> PacketSource \<Rightarrow> u8 list \<Rightarrow> (ServerReceiveLoopOutcome, unit) result" where
  "ServerReceiveLoopStep_handle_received_packet expected_protocol_version source packet_bytes =
     (case ServerReceiveLoopStep_decode_and_route expected_protocol_version source packet_bytes of
        Inr route \<Rightarrow> Ok (Loop_Routed route)
      | Inl (Err rejection) \<Rightarrow> Ok (Loop_Rejected rejection)
      | Inl Panic \<Rightarrow> Panicked)"

definition ServerReceiveLoopStep_handle_received_packet_with_gate ::
  "ProtocolVersion \<Rightarrow> AuthenticatedSenderRegistry \<Rightarrow> PacketSource \<Rightarrow> u8 list \<Rightarrow>
     (ServerReceiveLoopGateOutcome, unit) result" where
  "ServerReceiveLoopStep_handle_received_packet_with_gate expected_protocol_version registry source
       packet_bytes =
     (case ServerReceiveLoopStep_decode_and_route expected_protocol_version source packet_bytes of
        Inl (Err rejection) \<Rightarrow> Ok (Gate_Rejected (GateRejection_Decode rejection))
      | Inl Panic \<Rightarrow> Panicked
      | Inr route \<Rightarrow>
          Ok (case PacketAcceptanceGateBoundary_evaluate_route registry route of
                Packet_Accepted \<Rightarrow> Gate_Accepted route
              | Packet_Rejected rejection \<Rightarrow> Gate_Rejected (GateRejection_Acceptance rejection)))"

section \<open>The operational line\<close>

datatype ServerReceiveLoopLogOutcome = Log_Accepted | Log_DecodeRejected | Log_AcceptanceRejected

datatype ServerReceiveRejectionReason =
    Rejection_DecodeError
  | Rejection_UnauthenticatedSource
  | Rejection_UnknownClient
  | Rejection_EndpointMismatch
  | Rejection_RunIdMismatch

fun rejection_reason_of :: "PacketAcceptanceRejectReason \<Rightarrow> ServerReceiveRejectionReason" where
  "rejection_reason_of PacketReject_UnauthenticatedSource = Rejection_UnauthenticatedSource"
| "rejection_reason_of PacketReject_UnknownClient = Rejection_UnknownClient"
| "rejection_reason_of PacketReject_EndpointMismatch = Rejection_EndpointMismatch"
| "rejection_reason_of PacketReject_RunIdMismatch = Rejection_RunIdMismatch"

record InboundRouteLogMetadata =
  irlm_source :: PacketSource
  irlm_message_type :: MessageType
  irlm_client_id :: "ClientId option"

fun inbound_route_log_metadata :: "ServerInboundRoute \<Rightarrow> InboundRouteLogMetadata" where
  "inbound_route_log_metadata (Route_AuthRequest source request) =
     \<lparr> irlm_source = source, irlm_message_type = MessageType_AuthRequest,
       irlm_client_id = Some (areq_client_id request) \<rparr>"
| "inbound_route_log_metadata (Route_Heartbeat source heartbeat) =
     \<lparr> irlm_source = source, irlm_message_type = MessageType_Heartbeat,
       irlm_client_id = Some (hb_client_id heartbeat) \<rparr>"
| "inbound_route_log_metadata (Route_VideoFrame source frame) =
     \<lparr> irlm_source = source, irlm_message_type = MessageType_VideoFrame,
       irlm_client_id = Some (vf_client_id frame) \<rparr>"
| "inbound_route_log_metadata (Route_VideoFrameFragment source fragment) =
     \<lparr> irlm_source = source, irlm_message_type = MessageType_VideoFrameFragment,
       irlm_client_id = Some (vff_client_id fragment) \<rparr>"
| "inbound_route_log_metadata (Route_ClientStats source stats) =
     \<lparr> irlm_source = source, irlm_message_type = MessageType_ClientStats,
       irlm_client_id = Some (cs_client_id stats) \<rparr>"
| "inbound_route_log_metadata (Route_UnsupportedForServer source message_type message) =
     \<lparr> irlm_source = source, irlm_message_type = message_type, irlm_client_id = None \<rparr>"

record ServerReceiveLoopLogInput =
  srll_source :: PacketSource
  srll_outcome :: ServerReceiveLoopLogOutcome
  srll_packet_len :: nat
  srll_message_type :: "MessageType option"
  srll_client_id :: "ClientId option"
  srll_rejection_reason :: "ServerReceiveRejectionReason option"

fun ServerReceiveLoopLogHandoffBoundary_handoff ::
  "ServerReceiveLoopGateOutcome \<Rightarrow> nat \<Rightarrow> ServerReceiveLoopLogInput" where
  "ServerReceiveLoopLogHandoffBoundary_handoff (Gate_Accepted route) packet_len =
     (let metadata = inbound_route_log_metadata route in
      \<lparr> srll_source = irlm_source metadata, srll_outcome = Log_Accepted, srll_packet_len = packet_len,
        srll_message_type = Some (irlm_message_type metadata), srll_client_id = irlm_client_id metadata,
        srll_rejection_reason = None \<rparr>)"
| "ServerReceiveLoopLogHandoffBoundary_handoff (Gate_Rejected (GateRejection_Decode rejected)) packet_len =
     \<lparr> srll_source = srp_source rejected, srll_outcome = Log_DecodeRejected, srll_packet_len = packet_len,
       srll_message_type = None, srll_client_id = None,
       srll_rejection_reason = Some Rejection_DecodeError \<rparr>"
| "ServerReceiveLoopLogHandoffBoundary_handoff (Gate_Rejected (GateRejection_Acceptance rejected)) packet_len =
     \<lparr> srll_source = par_source rejected, srll_outcome = Log_AcceptanceRejected,
       srll_packet_len = packet_len, srll_message_type = Some (par_message_type rejected),
       srll_client_id = par_client_id rejected,
       srll_rejection_reason = Some (rejection_reason_of (par_reason rejected)) \<rparr>"

definition SERVER_RECEIVE_LOOP_JSON_LOG_EVENT_NAME :: string where
  "SERVER_RECEIVE_LOOP_JSON_LOG_EVENT_NAME = ''server.receive_loop''"

record ServerReceiveLoopJsonLogEventInput =
  srle_event_name :: string
  srle_source :: PacketSource
  srle_outcome :: ServerReceiveLoopLogOutcome
  srle_packet_len :: nat
  srle_message_type :: "MessageType option"
  srle_client_id :: "ClientId option"
  srle_rejection_reason :: "ServerReceiveRejectionReason option"
  srle_timestamp :: TimestampMicros

definition ServerReceiveLoopJsonLogEventBoundary_build_event ::
  "ServerReceiveLoopLogInput \<Rightarrow> TimestampMicros \<Rightarrow> ServerReceiveLoopJsonLogEventInput" where
  "ServerReceiveLoopJsonLogEventBoundary_build_event input timestamp =
     \<lparr> srle_event_name = SERVER_RECEIVE_LOOP_JSON_LOG_EVENT_NAME, srle_source = srll_source input,
       srle_outcome = srll_outcome input, srle_packet_len = srll_packet_len input,
       srle_message_type = srll_message_type input, srle_client_id = srll_client_id input,
       srle_rejection_reason = srll_rejection_reason input, srle_timestamp = timestamp \<rparr>"

fun receive_loop_log_outcome_name :: "ServerReceiveLoopLogOutcome \<Rightarrow> string" where
  "receive_loop_log_outcome_name Log_Accepted = ''Accepted''"
| "receive_loop_log_outcome_name Log_DecodeRejected = ''DecodeRejected''"
| "receive_loop_log_outcome_name Log_AcceptanceRejected = ''AcceptanceRejected''"

fun receive_rejection_reason_name :: "ServerReceiveRejectionReason \<Rightarrow> string" where
  "receive_rejection_reason_name Rejection_DecodeError = ''DecodeError''"
| "receive_rejection_reason_name Rejection_UnauthenticatedSource = ''UnauthenticatedSource''"
| "receive_rejection_reason_name Rejection_UnknownClient = ''UnknownClient''"
| "receive_rejection_reason_name Rejection_EndpointMismatch = ''EndpointMismatch''"
| "receive_rejection_reason_name Rejection_RunIdMismatch = ''RunIdMismatch''"

fun packet_acceptance_reject_reason_name :: "PacketAcceptanceRejectReason \<Rightarrow> string" where
  "packet_acceptance_reject_reason_name PacketReject_UnauthenticatedSource = ''UnauthenticatedSource''"
| "packet_acceptance_reject_reason_name PacketReject_UnknownClient = ''UnknownClient''"
| "packet_acceptance_reject_reason_name PacketReject_EndpointMismatch = ''EndpointMismatch''"
| "packet_acceptance_reject_reason_name PacketReject_RunIdMismatch = ''RunIdMismatch''"

definition ServerReceiveLoopJsonLineWriter_write_event ::
  "ServerReceiveLoopJsonLogEventInput \<Rightarrow> string list" where
  "ServerReceiveLoopJsonLineWriter_write_event event =
     [''{''] @ write_json_field ''event_name'' (srle_event_name event)
     @ ['',''] @ write_json_field ''source'' (display_address (src_address (srle_source event)))
     @ ['',''] @ write_json_field ''outcome'' (receive_loop_log_outcome_name (srle_outcome event))
     @ ['','' @ json_literal ''packet_len'' (display_nat (srle_packet_len event))]
     @ ['',''] @ write_optional_json_field ''message_type''
         (map_option receive_rejection_message_type_name (srle_message_type event))
     @ ['',''] @ write_optional_json_field ''client_id'' (srle_client_id event)
     @ ['',''] @ write_optional_json_field ''rejection_reason''
         (map_option receive_rejection_reason_name (srle_rejection_reason event))
     @ ['','' @ json_literal ''timestamp'' (display_u64 (srle_timestamp event))]
     @ [''}'' @ [CHR 0x0A]]"

definition ServerReceiveLoopLogOutputBoundary_write_receive_loop_event ::
  "'w Writer \<Rightarrow> ServerReceiveLoopGateOutcome \<Rightarrow> nat \<Rightarrow> TimestampMicros \<Rightarrow> 'w \<Rightarrow>
     'w \<times> (ServerReceiveLoopJsonLogEventInput, io_Error) result" where
  "ServerReceiveLoopLogOutputBoundary_write_receive_loop_event writer outcome packet_len timestamp w =
     (let input = ServerReceiveLoopLogHandoffBoundary_handoff outcome packet_len;
          event = ServerReceiveLoopJsonLogEventBoundary_build_event input timestamp in
      io_bind (write_pieces writer (ServerReceiveLoopJsonLineWriter_write_event event) w) (\<lambda>_ w.
      (w, Ok event)))"

section \<open>The rejection line\<close>

datatype ServerRejectionHandoffReason =
    Handoff_Decode ServerDecodeErrorAction ProtocolError
  | Handoff_Acceptance MessageType "ClientId option" "RunId option" PacketAcceptanceRejectReason

record ServerPacketDropInput =
  spd_source :: PacketSource
  spd_reason :: ServerRejectionHandoffReason

record ServerPacketLogInput =
  spl_source :: PacketSource
  spl_reason :: ServerRejectionHandoffReason

record ServerRejectionDropLogInput =
  srdl_drop_input :: ServerPacketDropInput
  srdl_log_input :: ServerPacketLogInput

definition ServerRejectionDropLogHandoffBoundary_handoff ::
  "ServerReceiveLoopGateRejection \<Rightarrow> ServerRejectionDropLogInput" where
  "ServerRejectionDropLogHandoffBoundary_handoff rejection =
     (let (source, reason) =
        (case rejection of
           GateRejection_Decode rejected \<Rightarrow>
             (srp_source rejected, Handoff_Decode (srp_action rejected) (srp_error rejected))
         | GateRejection_Acceptance rejected \<Rightarrow>
             (par_source rejected,
              Handoff_Acceptance (par_message_type rejected) (par_client_id rejected)
                (par_run_id rejected) (par_reason rejected))) in
      \<lparr> srdl_drop_input = \<lparr> spd_source = source, spd_reason = reason \<rparr>,
        srdl_log_input = \<lparr> spl_source = source, spl_reason = reason \<rparr> \<rparr>)"

definition SERVER_RECEIVE_REJECTION_JSON_LOG_EVENT_NAME :: string where
  "SERVER_RECEIVE_REJECTION_JSON_LOG_EVENT_NAME = ''server.receive_rejection''"

datatype ServerReceiveRejectionDetail =
    Detail_Decode ServerDecodeErrorAction ProtocolError
  | Detail_Acceptance PacketAcceptanceRejectReason

record ServerReceiveRejectionJsonLogEventInput =
  srre_event_name :: string
  srre_run_id :: "RunId option"
  srre_client_id :: "ClientId option"
  srre_source :: PacketSource
  srre_message_type :: "MessageType option"
  srre_rejection_reason :: ServerReceiveRejectionReason
  srre_detail :: ServerReceiveRejectionDetail
  srre_timestamp :: TimestampMicros

definition ServerReceiveRejectionJsonLogEventBoundary_build_event ::
  "ServerPacketLogInput \<Rightarrow> TimestampMicros \<Rightarrow> ServerReceiveRejectionJsonLogEventInput" where
  "ServerReceiveRejectionJsonLogEventBoundary_build_event input timestamp =
     (let (client_id, run_id, message_type, rejection_reason, detail) =
        (case spl_reason input of
           Handoff_Decode action error \<Rightarrow>
             (None, None, None, Rejection_DecodeError, Detail_Decode action error)
         | Handoff_Acceptance message_type client_id run_id reason \<Rightarrow>
             (client_id, run_id, Some message_type, rejection_reason_of reason,
              Detail_Acceptance reason)) in
      \<lparr> srre_event_name = SERVER_RECEIVE_REJECTION_JSON_LOG_EVENT_NAME, srre_run_id = run_id,
        srre_client_id = client_id, srre_source = spl_source input, srre_message_type = message_type,
        srre_rejection_reason = rejection_reason, srre_detail = detail, srre_timestamp = timestamp \<rparr>)"

fun write_receive_rejection_detail :: "ServerReceiveRejectionDetail \<Rightarrow> string list" where
  "write_receive_rejection_detail (Detail_Decode action error) =
     [''{''] @ write_json_field ''kind'' ''Decode''
     @ ['',''] @ write_json_field ''action'' (debug_decode_error_action action)
     @ ['',''] @ write_json_field ''error'' (debug_protocol_error error) @ [''}'']"
| "write_receive_rejection_detail (Detail_Acceptance reason) =
     [''{''] @ write_json_field ''kind'' ''Acceptance''
     @ ['',''] @ write_json_field ''reason'' (packet_acceptance_reject_reason_name reason) @ [''}'']"

definition ServerReceiveRejectionJsonLineWriter_write_event ::
  "ServerReceiveRejectionJsonLogEventInput \<Rightarrow> string list" where
  "ServerReceiveRejectionJsonLineWriter_write_event event =
     [''{''] @ write_json_field ''event_name'' (srre_event_name event)
     @ ['',''] @ write_optional_json_field ''run_id'' (srre_run_id event)
     @ ['',''] @ write_optional_json_field ''client_id'' (srre_client_id event)
     @ ['',''] @ write_json_field ''source'' (display_address (src_address (srre_source event)))
     @ ['',''] @ write_optional_json_field ''message_type''
         (map_option receive_rejection_message_type_name (srre_message_type event))
     @ ['',''] @ write_json_field ''rejection_reason''
         (receive_rejection_reason_name (srre_rejection_reason event))
     @ ['','' @ json_literal ''detail'' []] @ write_receive_rejection_detail (srre_detail event)
     @ ['','' @ json_literal ''timestamp'' (display_u64 (srre_timestamp event))]
     @ [''}'' @ [CHR 0x0A]]"

definition ServerReceiveRejectionLogOutputBoundary_write_rejection ::
  "'w Writer \<Rightarrow> ServerReceiveLoopGateRejection \<Rightarrow> TimestampMicros \<Rightarrow> 'w \<Rightarrow>
     'w \<times> (ServerReceiveRejectionJsonLogEventInput, io_Error) result" where
  "ServerReceiveRejectionLogOutputBoundary_write_rejection writer rejection timestamp w =
     (let handoff = ServerRejectionDropLogHandoffBoundary_handoff rejection;
          event = ServerReceiveRejectionJsonLogEventBoundary_build_event (srdl_log_input handoff) timestamp in
      io_bind (write_pieces writer (ServerReceiveRejectionJsonLineWriter_write_event event) w) (\<lambda>_ w.
      (w, Ok event)))"

end
