(* ===== verification/Server_Receive_Loop.thy ===== *)
theory Server_Receive_Loop
  imports Server_Receive_Log
begin

text \<open>
  One turn of the server's receive loop, apps/server/src/lib.rs: the lifecycle and tick plans,
  the log writers and the input of the handlers, the loop body and its controller, and the
  dispatch of a packet into its handler's lane. The socket's receive call and the two writers
  are arguments.
\<close>

section \<open>Lifecycle\<close>

datatype ServerContinuousReceiveLoopLifecycleState =
    Lifecycle_Stopped
  | Lifecycle_AwaitingSocketReceive
  | Lifecycle_ProcessingReceivedPacket
  | Lifecycle_DispatchingAcceptedRoute
  | Lifecycle_PreparingRejectionLogs
  | Lifecycle_SocketReceiveFailed

datatype ServerContinuousReceiveLoopAction =
    Loop_Stop
  | Loop_ReceiveOneDatagram
  | Loop_DecodeAndGateOnePacket
  | Loop_DispatchAcceptedRoute
  | Loop_PrepareRejectionLogs
  | Loop_ObserveSocketReceiveError

record ServerContinuousReceiveLoopLifecycleInput =
  rli_stop_requested :: bool

record ServerContinuousReceiveLoopLifecyclePlan =
  rlp_state :: ServerContinuousReceiveLoopLifecycleState
  rlp_action :: ServerContinuousReceiveLoopAction
  rlp_operational_log_required :: bool
  rlp_rejection_log_required :: bool
  rlp_handler_handoff_required :: bool

definition ServerContinuousReceiveLoopLifecycleBoundary_plan_next ::
  "ServerContinuousReceiveLoopLifecycleInput \<Rightarrow> ServerContinuousReceiveLoopLifecyclePlan" where
  "ServerContinuousReceiveLoopLifecycleBoundary_plan_next input =
     (if rli_stop_requested input
      then \<lparr> rlp_state = Lifecycle_Stopped, rlp_action = Loop_Stop, rlp_operational_log_required = False,
        rlp_rejection_log_required = False, rlp_handler_handoff_required = False \<rparr>
      else \<lparr> rlp_state = Lifecycle_AwaitingSocketReceive, rlp_action = Loop_ReceiveOneDatagram,
        rlp_operational_log_required = False, rlp_rejection_log_required = False,
        rlp_handler_handoff_required = False \<rparr>)"

definition ServerContinuousReceiveLoopLifecycleBoundary_plan_received_packet ::
  ServerContinuousReceiveLoopLifecyclePlan where
  "ServerContinuousReceiveLoopLifecycleBoundary_plan_received_packet =
     \<lparr> rlp_state = Lifecycle_ProcessingReceivedPacket, rlp_action = Loop_DecodeAndGateOnePacket,
       rlp_operational_log_required = False, rlp_rejection_log_required = False,
       rlp_handler_handoff_required = False \<rparr>"

definition ServerContinuousReceiveLoopLifecycleBoundary_plan_after_gate_outcome ::
  "ServerReceiveLoopGateOutcome \<Rightarrow> ServerContinuousReceiveLoopLifecyclePlan" where
  "ServerContinuousReceiveLoopLifecycleBoundary_plan_after_gate_outcome outcome =
     (case outcome of
        Gate_Accepted _ \<Rightarrow>
          \<lparr> rlp_state = Lifecycle_DispatchingAcceptedRoute, rlp_action = Loop_DispatchAcceptedRoute,
            rlp_operational_log_required = True, rlp_rejection_log_required = False,
            rlp_handler_handoff_required = True \<rparr>
      | Gate_Rejected _ \<Rightarrow>
          \<lparr> rlp_state = Lifecycle_PreparingRejectionLogs, rlp_action = Loop_PrepareRejectionLogs,
            rlp_operational_log_required = True, rlp_rejection_log_required = True,
            rlp_handler_handoff_required = False \<rparr>)"

definition ServerContinuousReceiveLoopLifecycleBoundary_plan_socket_receive_error ::
  ServerContinuousReceiveLoopLifecyclePlan where
  "ServerContinuousReceiveLoopLifecycleBoundary_plan_socket_receive_error =
     \<lparr> rlp_state = Lifecycle_SocketReceiveFailed, rlp_action = Loop_ObserveSocketReceiveError,
       rlp_operational_log_required = False, rlp_rejection_log_required = False,
       rlp_handler_handoff_required = False \<rparr>"

section \<open>One tick\<close>

datatype ServerContinuousReceiveLoopTickState =
    LoopTick_Stopped
  | LoopTick_AwaitingSocketReceive
  | LoopTick_ReceivedPacketReadyForDecode
  | LoopTick_AcceptedRouteReadyForHandoff
  | LoopTick_RejectionReadyForLogs
  | LoopTick_SocketReceiveFailed

record ServerContinuousReceiveLoopTickPlan =
  rtp_state :: ServerContinuousReceiveLoopTickState
  rtp_lifecycle :: ServerContinuousReceiveLoopLifecyclePlan
  rtp_packet_len :: "nat option"

definition ServerContinuousReceiveLoopTickBoundary_plan_next ::
  "ServerContinuousReceiveLoopLifecycleInput \<Rightarrow> ServerContinuousReceiveLoopTickPlan" where
  "ServerContinuousReceiveLoopTickBoundary_plan_next input =
     (let lifecycle = ServerContinuousReceiveLoopLifecycleBoundary_plan_next input;
          state = (case rlp_state lifecycle of
            Lifecycle_Stopped \<Rightarrow> LoopTick_Stopped
          | Lifecycle_AwaitingSocketReceive \<Rightarrow> LoopTick_AwaitingSocketReceive
          | Lifecycle_ProcessingReceivedPacket \<Rightarrow> LoopTick_ReceivedPacketReadyForDecode
          | Lifecycle_DispatchingAcceptedRoute \<Rightarrow> LoopTick_AcceptedRouteReadyForHandoff
          | Lifecycle_PreparingRejectionLogs \<Rightarrow> LoopTick_RejectionReadyForLogs
          | Lifecycle_SocketReceiveFailed \<Rightarrow> LoopTick_SocketReceiveFailed) in
      \<lparr> rtp_state = state, rtp_lifecycle = lifecycle, rtp_packet_len = None \<rparr>)"

definition ServerContinuousReceiveLoopTickBoundary_observe_received_packet ::
  "nat \<Rightarrow> ServerContinuousReceiveLoopTickPlan" where
  "ServerContinuousReceiveLoopTickBoundary_observe_received_packet packet_len =
     \<lparr> rtp_state = LoopTick_ReceivedPacketReadyForDecode,
       rtp_lifecycle = ServerContinuousReceiveLoopLifecycleBoundary_plan_received_packet,
       rtp_packet_len = Some packet_len \<rparr>"

definition ServerContinuousReceiveLoopTickBoundary_observe_gate_outcome ::
  "nat \<Rightarrow> ServerReceiveLoopGateOutcome \<Rightarrow> ServerContinuousReceiveLoopTickPlan" where
  "ServerContinuousReceiveLoopTickBoundary_observe_gate_outcome packet_len outcome =
     \<lparr> rtp_state = (case outcome of
         Gate_Accepted _ \<Rightarrow> LoopTick_AcceptedRouteReadyForHandoff
       | Gate_Rejected _ \<Rightarrow> LoopTick_RejectionReadyForLogs),
       rtp_lifecycle = ServerContinuousReceiveLoopLifecycleBoundary_plan_after_gate_outcome outcome,
       rtp_packet_len = Some packet_len \<rparr>"

definition ServerContinuousReceiveLoopTickBoundary_observe_socket_receive_error ::
  ServerContinuousReceiveLoopTickPlan where
  "ServerContinuousReceiveLoopTickBoundary_observe_socket_receive_error =
     \<lparr> rtp_state = LoopTick_SocketReceiveFailed,
       rtp_lifecycle = ServerContinuousReceiveLoopLifecycleBoundary_plan_socket_receive_error,
       rtp_packet_len = None \<rparr>"

section \<open>Writers and handler input\<close>

record ServerContinuousReceiveLoopWriterHandoffPlan =
  rwh_tick :: ServerContinuousReceiveLoopTickPlan
  rwh_operational_log :: "ServerReceiveLoopLogInput option"
  rwh_rejection_log :: "ServerReceiveLoopGateRejection option"
  rwh_handler_handoff_required :: bool

definition ServerContinuousReceiveLoopWriterHandoffBoundary_plan_after_gate_outcome ::
  "nat \<Rightarrow> ServerReceiveLoopGateOutcome \<Rightarrow> ServerContinuousReceiveLoopWriterHandoffPlan" where
  "ServerContinuousReceiveLoopWriterHandoffBoundary_plan_after_gate_outcome packet_len outcome =
     (let tick = ServerContinuousReceiveLoopTickBoundary_observe_gate_outcome packet_len outcome;
          lifecycle = rtp_lifecycle tick in
      \<lparr> rwh_tick = tick,
        rwh_operational_log =
          (if rlp_operational_log_required lifecycle
           then Some (ServerReceiveLoopLogHandoffBoundary_handoff outcome packet_len) else None),
        rwh_rejection_log =
          (case outcome of
             Gate_Rejected rejection \<Rightarrow>
               if rlp_rejection_log_required lifecycle then Some rejection else None
           | _ \<Rightarrow> None),
        rwh_handler_handoff_required = rlp_handler_handoff_required lifecycle \<rparr>)"

record ServerContinuousReceiveLoopWriterRuntimeResult =
  rwr_handoff :: ServerContinuousReceiveLoopWriterHandoffPlan
  rwr_operational_event :: "ServerReceiveLoopJsonLogEventInput option"
  rwr_rejection_event :: "ServerReceiveRejectionJsonLogEventInput option"

definition ServerContinuousReceiveLoopWriterRuntimeBoundary_write_after_gate_outcome ::
  "'w Writer \<Rightarrow> 'w Writer \<Rightarrow> nat \<Rightarrow> ServerReceiveLoopGateOutcome \<Rightarrow> TimestampMicros \<Rightarrow> 'w \<Rightarrow>
     'w \<times> (ServerContinuousReceiveLoopWriterRuntimeResult, io_Error) result" where
  "ServerContinuousReceiveLoopWriterRuntimeBoundary_write_after_gate_outcome operational_writer
       rejection_writer packet_len outcome timestamp w =
     (let handoff =
        ServerContinuousReceiveLoopWriterHandoffBoundary_plan_after_gate_outcome packet_len outcome in
      io_bind
        (if rwh_operational_log handoff \<noteq> None
         then io_bind (ServerReceiveLoopLogOutputBoundary_write_receive_loop_event operational_writer
                outcome packet_len timestamp w) (\<lambda>event w. (w, Ok (Some event)))
         else (w, Ok None)) (\<lambda>operational_event w.
      io_bind
        (case rwh_rejection_log handoff of
           Some rejection \<Rightarrow>
             io_bind (ServerReceiveRejectionLogOutputBoundary_write_rejection rejection_writer
                rejection timestamp w) (\<lambda>event w. (w, Ok (Some event)))
         | None \<Rightarrow> (w, Ok None)) (\<lambda>rejection_event w.
      (w, Ok \<lparr> rwr_handoff = handoff, rwr_operational_event = operational_event,
        rwr_rejection_event = rejection_event \<rparr>))))"

datatype ServerContinuousReceiveLoopHandlerHandoffSkipReason =
  HandoffSkip_RejectedOutcome | HandoffSkip_HandlerHandoffNotRequired

datatype ServerContinuousReceiveLoopHandlerHandoffRuntimePlan =
    HandlerPlan_Auth ServerAuthCheck
  | HandlerPlan_RegisteredClient ServerRegisteredClientPacket
  | HandlerPlan_Unsupported PacketSource MessageType
  | HandlerPlan_AuthError ServerAuthBoundaryError
  | HandlerPlan_RegisteredPacketError ServerRegisteredPacketBoundaryError
  | HandlerPlan_NotRequired ServerContinuousReceiveLoopHandlerHandoffSkipReason

record ServerContinuousReceiveLoopHandlerHandoffRuntimeResult =
  rhr_writer :: ServerContinuousReceiveLoopWriterRuntimeResult
  rhr_handler :: ServerContinuousReceiveLoopHandlerHandoffRuntimePlan

text \<open>Neither preparation panics (the model's results are shared with callers that do).\<close>

definition ServerContinuousReceiveLoopHandlerHandoffRuntimeBoundary_prepare_handler_handoff ::
  "AuthenticatedSenderRegistry \<Rightarrow> ServerInboundRoute \<Rightarrow>
     (ServerContinuousReceiveLoopHandlerHandoffRuntimePlan, unit) result" where
  "ServerContinuousReceiveLoopHandlerHandoffRuntimeBoundary_prepare_handler_handoff registry route =
     (let registered =
        (case ServerRegisteredPacketBoundary_prepare_for_handler registry route of
           Inr packet \<Rightarrow> Ok (HandlerPlan_RegisteredClient packet)
         | Inl (Err error) \<Rightarrow> Ok (HandlerPlan_RegisteredPacketError error)
         | Inl Panic \<Rightarrow> Panicked) in
      case route of
        Route_AuthRequest _ _ \<Rightarrow>
          (case ServerAuthHandlerBoundary_prepare_from_route route of
             Inr check \<Rightarrow> Ok (HandlerPlan_Auth check)
           | Inl (Err error) \<Rightarrow> Ok (HandlerPlan_AuthError error)
           | Inl Panic \<Rightarrow> Panicked)
      | Route_Heartbeat _ _ \<Rightarrow> registered
      | Route_VideoFrame _ _ \<Rightarrow> registered
      | Route_VideoFrameFragment _ _ \<Rightarrow> registered
      | Route_ClientStats _ _ \<Rightarrow> registered
      | Route_UnsupportedForServer source message_type _ \<Rightarrow>
          Ok (HandlerPlan_Unsupported source message_type))"

definition io_lift :: "('a, unit) result \<Rightarrow> 'w \<Rightarrow> 'w \<times> ('a, 'e) result" where
  "io_lift r w = (w, case r of Inr v \<Rightarrow> Ok v | Inl _ \<Rightarrow> Panicked)"

definition ServerContinuousReceiveLoopHandlerHandoffRuntimeBoundary_handoff_after_gate_outcome ::
  "'w Writer \<Rightarrow> 'w Writer \<Rightarrow> AuthenticatedSenderRegistry \<Rightarrow> nat \<Rightarrow> ServerReceiveLoopGateOutcome \<Rightarrow>
     TimestampMicros \<Rightarrow> 'w \<Rightarrow>
     'w \<times> (ServerContinuousReceiveLoopHandlerHandoffRuntimeResult, io_Error) result" where
  "ServerContinuousReceiveLoopHandlerHandoffRuntimeBoundary_handoff_after_gate_outcome
       operational_writer rejection_writer registry packet_len outcome timestamp w =
     io_bind (ServerContinuousReceiveLoopWriterRuntimeBoundary_write_after_gate_outcome
         operational_writer rejection_writer packet_len outcome timestamp w) (\<lambda>writer w.
     io_bind
       (case outcome of
          Gate_Accepted route \<Rightarrow>
            if rwh_handler_handoff_required (rwr_handoff writer)
            then io_lift (ServerContinuousReceiveLoopHandlerHandoffRuntimeBoundary_prepare_handler_handoff
              registry route) w
            else (w, Ok (HandlerPlan_NotRequired HandoffSkip_HandlerHandoffNotRequired))
        | Gate_Rejected _ \<Rightarrow> (w, Ok (HandlerPlan_NotRequired HandoffSkip_RejectedOutcome)))
       (\<lambda>handler w.
     (w, Ok \<lparr> rhr_writer = writer, rhr_handler = handler \<rparr>)))"

section \<open>The loop body\<close>

text \<open>
  The socket's receive call: from the world and the size of the buffer, the next world and the
  source and bytes of one datagram, or an error.
\<close>

type_synonym 'w UdpReceive = "'w \<Rightarrow> 'w \<times> (PacketSource \<times> u8 list, io_Error) result"

record ServerUdpSocketGateReceiveOutcome =
  sgr_packet_len :: nat
  sgr_outcome :: ServerReceiveLoopGateOutcome

definition ServerUdpSocketIoStep_receive_one_with_gate_details ::
  "'w UdpReceive \<Rightarrow> ProtocolVersion \<Rightarrow> AuthenticatedSenderRegistry \<Rightarrow> 'w \<Rightarrow>
     'w \<times> (ServerUdpSocketGateReceiveOutcome, io_Error) result" where
  "ServerUdpSocketIoStep_receive_one_with_gate_details receive expected_protocol_version registry w =
     io_bind (receive w) (\<lambda>(source, bytes) w.
     io_bind (io_lift (ServerReceiveLoopStep_handle_received_packet_with_gate
         expected_protocol_version registry source bytes) w) (\<lambda>outcome w.
     (w, Ok \<lparr> sgr_packet_len = length bytes, sgr_outcome = outcome \<rparr>)))"

definition ServerUdpSocketIoStep_receive_one_with_gate ::
  "'w UdpReceive \<Rightarrow> ProtocolVersion \<Rightarrow> AuthenticatedSenderRegistry \<Rightarrow> 'w \<Rightarrow>
     'w \<times> (ServerReceiveLoopGateOutcome, io_Error) result" where
  "ServerUdpSocketIoStep_receive_one_with_gate receive expected_protocol_version registry w =
     io_bind (ServerUdpSocketIoStep_receive_one_with_gate_details receive expected_protocol_version
       registry w) (\<lambda>details w. (w, Ok (sgr_outcome details)))"

record ServerContinuousReceiveLoopOneTickRuntimeInput =
  rot_expected_protocol_version :: ProtocolVersion
  rot_timestamp :: TimestampMicros
  rot_stop_requested :: bool

datatype ServerContinuousReceiveLoopOneTickRuntimeOutcome =
    OneTick_Stopped
  | OneTick_SocketReceiveFailed ServerContinuousReceiveLoopTickPlan io_ErrorKind
  | OneTick_Completed nat ServerContinuousReceiveLoopHandlerHandoffRuntimeResult

record ServerContinuousReceiveLoopOneTickRuntimeResult =
  ror_start_tick :: ServerContinuousReceiveLoopTickPlan
  ror_outcome :: ServerContinuousReceiveLoopOneTickRuntimeOutcome

definition ServerContinuousReceiveLoopOneTickRuntimeBoundary_execute_one_tick ::
  "'w UdpReceive \<Rightarrow> 'w Writer \<Rightarrow> 'w Writer \<Rightarrow> AuthenticatedSenderRegistry \<Rightarrow>
     ServerContinuousReceiveLoopOneTickRuntimeInput \<Rightarrow> 'w \<Rightarrow>
     'w \<times> (ServerContinuousReceiveLoopOneTickRuntimeResult, io_Error) result" where
  "ServerContinuousReceiveLoopOneTickRuntimeBoundary_execute_one_tick receive operational_writer
       rejection_writer registry input w =
     (let start_tick = ServerContinuousReceiveLoopTickBoundary_plan_next
        \<lparr> rli_stop_requested = rot_stop_requested input \<rparr> in
      if rot_stop_requested input
      then (w, Ok \<lparr> ror_start_tick = start_tick, ror_outcome = OneTick_Stopped \<rparr>)
      else
        (case ServerUdpSocketIoStep_receive_one_with_gate_details receive
            (rot_expected_protocol_version input) registry w of
           (w, Inl (Err error)) \<Rightarrow>
             (w, Ok \<lparr> ror_start_tick = start_tick,
               ror_outcome = OneTick_SocketReceiveFailed
                 ServerContinuousReceiveLoopTickBoundary_observe_socket_receive_error
                 (ioe_kind error) \<rparr>)
         | (w, Inl Panic) \<Rightarrow> (w, Panicked)
         | (w, Inr received) \<Rightarrow>
             io_bind (ServerContinuousReceiveLoopHandlerHandoffRuntimeBoundary_handoff_after_gate_outcome
                 operational_writer rejection_writer registry (sgr_packet_len received)
                 (sgr_outcome received) (rot_timestamp input) w) (\<lambda>handler w.
             (w, Ok \<lparr> ror_start_tick = start_tick,
               ror_outcome = OneTick_Completed (sgr_packet_len received) handler \<rparr>))))"

record ServerContinuousReceiveLoopBodyInput =
  rbi_expected_protocol_version :: ProtocolVersion
  rbi_timestamp :: TimestampMicros
  rbi_stop_requested :: bool

datatype ServerContinuousReceiveLoopBodyAction = Body_Stop | Body_ExecuteOneTick

record ServerContinuousReceiveLoopBodyResult =
  rbr_action :: ServerContinuousReceiveLoopBodyAction
  rbr_tick :: ServerContinuousReceiveLoopOneTickRuntimeResult

definition ServerContinuousReceiveLoopBodyBoundary_run_once ::
  "'w UdpReceive \<Rightarrow> 'w Writer \<Rightarrow> 'w Writer \<Rightarrow> AuthenticatedSenderRegistry \<Rightarrow>
     ServerContinuousReceiveLoopBodyInput \<Rightarrow> 'w \<Rightarrow>
     'w \<times> (ServerContinuousReceiveLoopBodyResult, io_Error) result" where
  "ServerContinuousReceiveLoopBodyBoundary_run_once receive operational_writer rejection_writer
       registry input w =
     (let action = (if rbi_stop_requested input then Body_Stop else Body_ExecuteOneTick) in
      io_bind (ServerContinuousReceiveLoopOneTickRuntimeBoundary_execute_one_tick receive
          operational_writer rejection_writer registry
          \<lparr> rot_expected_protocol_version = rbi_expected_protocol_version input,
            rot_timestamp = rbi_timestamp input, rot_stop_requested = rbi_stop_requested input \<rparr> w)
        (\<lambda>tick w. (w, Ok \<lparr> rbr_action = action, rbr_tick = tick \<rparr>)))"

section \<open>The controller\<close>

datatype ServerContinuousReceiveLoopControllerState =
    Controller_Stopped
  | Controller_ReadyToRunBodyOnce
  | Controller_BodyIterationCompleted
  | Controller_BodyIterationFailed

datatype ServerContinuousReceiveLoopControllerAction =
    Controller_Stop
  | Controller_RunBodyOnce
  | Controller_YieldToCaller
  | Controller_DeferErrorPolicy

record ServerContinuousReceiveLoopControllerInput =
  rci_expected_protocol_version :: ProtocolVersion
  rci_timestamp :: TimestampMicros
  rci_continue_requested :: bool

record ServerContinuousReceiveLoopControllerPlan =
  rcp_state :: ServerContinuousReceiveLoopControllerState
  rcp_action :: ServerContinuousReceiveLoopControllerAction
  rcp_body_input :: "ServerContinuousReceiveLoopBodyInput option"

record ServerContinuousReceiveLoopControllerObservation =
  rco_state :: ServerContinuousReceiveLoopControllerState
  rco_action :: ServerContinuousReceiveLoopControllerAction

definition ServerContinuousReceiveLoopControllerBoundary_plan_next_iteration ::
  "ServerContinuousReceiveLoopControllerInput \<Rightarrow> ServerContinuousReceiveLoopControllerPlan" where
  "ServerContinuousReceiveLoopControllerBoundary_plan_next_iteration input =
     (if \<not> rci_continue_requested input
      then \<lparr> rcp_state = Controller_Stopped, rcp_action = Controller_Stop, rcp_body_input = None \<rparr>
      else \<lparr> rcp_state = Controller_ReadyToRunBodyOnce, rcp_action = Controller_RunBodyOnce,
        rcp_body_input = Some \<lparr> rbi_expected_protocol_version = rci_expected_protocol_version input,
          rbi_timestamp = rci_timestamp input, rbi_stop_requested = False \<rparr> \<rparr>)"

definition ServerContinuousReceiveLoopControllerBoundary_observe_body_result ::
  "ServerContinuousReceiveLoopBodyResult \<Rightarrow> ServerContinuousReceiveLoopControllerObservation" where
  "ServerContinuousReceiveLoopControllerBoundary_observe_body_result result =
     (case ror_outcome (rbr_tick result) of
        OneTick_Stopped \<Rightarrow> \<lparr> rco_state = Controller_Stopped, rco_action = Controller_Stop \<rparr>
      | OneTick_SocketReceiveFailed _ _ \<Rightarrow>
          \<lparr> rco_state = Controller_BodyIterationFailed, rco_action = Controller_DeferErrorPolicy \<rparr>
      | OneTick_Completed _ _ \<Rightarrow>
          \<lparr> rco_state = Controller_BodyIterationCompleted, rco_action = Controller_YieldToCaller \<rparr>)"

section \<open>Dispatch to a handler's lane\<close>

datatype ServerContinuousReceiveLoopHandlerDispatchSkipReason =
    Skip_LoopStopped
  | Skip_SocketReceiveFailed
  | Skip_RejectedOutcome
  | Skip_HandlerHandoffNotRequired

datatype ServerContinuousReceiveLoopHandlerDispatchError =
    DispatchError_Auth ServerAuthBoundaryError
  | DispatchError_RegisteredPacket ServerRegisteredPacketBoundaryError

datatype ServerContinuousReceiveLoopHandlerDispatchPlan =
    Plan_Auth ServerAuthCheck
  | Plan_RegisteredClient ServerRegisteredClientPacket
  | Plan_Unsupported PacketSource MessageType
  | Plan_NotRequired ServerContinuousReceiveLoopHandlerDispatchSkipReason
  | Plan_HandoffError ServerContinuousReceiveLoopHandlerDispatchError

record ServerContinuousReceiveLoopHandlerDispatchHandoff =
  rdh_packet_len :: "nat option"
  rdh_plan :: ServerContinuousReceiveLoopHandlerDispatchPlan

fun ServerContinuousReceiveLoopHandlerDispatchBoundary_plan_from_handler_handoff ::
  "ServerContinuousReceiveLoopHandlerHandoffRuntimePlan \<Rightarrow> ServerContinuousReceiveLoopHandlerDispatchPlan"
  where
  "ServerContinuousReceiveLoopHandlerDispatchBoundary_plan_from_handler_handoff (HandlerPlan_Auth auth) =
     Plan_Auth auth"
| "ServerContinuousReceiveLoopHandlerDispatchBoundary_plan_from_handler_handoff
     (HandlerPlan_RegisteredClient packet) = Plan_RegisteredClient packet"
| "ServerContinuousReceiveLoopHandlerDispatchBoundary_plan_from_handler_handoff
     (HandlerPlan_Unsupported source message_type) = Plan_Unsupported source message_type"
| "ServerContinuousReceiveLoopHandlerDispatchBoundary_plan_from_handler_handoff
     (HandlerPlan_AuthError error) = Plan_HandoffError (DispatchError_Auth error)"
| "ServerContinuousReceiveLoopHandlerDispatchBoundary_plan_from_handler_handoff
     (HandlerPlan_RegisteredPacketError error) = Plan_HandoffError (DispatchError_RegisteredPacket error)"
| "ServerContinuousReceiveLoopHandlerDispatchBoundary_plan_from_handler_handoff
     (HandlerPlan_NotRequired reason) =
       Plan_NotRequired (case reason of
           HandoffSkip_RejectedOutcome \<Rightarrow> Skip_RejectedOutcome
         | HandoffSkip_HandlerHandoffNotRequired \<Rightarrow> Skip_HandlerHandoffNotRequired)"

definition ServerContinuousReceiveLoopHandlerDispatchBoundary_plan_from_body_result ::
  "ServerContinuousReceiveLoopBodyResult \<Rightarrow> ServerContinuousReceiveLoopHandlerDispatchHandoff" where
  "ServerContinuousReceiveLoopHandlerDispatchBoundary_plan_from_body_result result =
     (case ror_outcome (rbr_tick result) of
        OneTick_Stopped \<Rightarrow> \<lparr> rdh_packet_len = None, rdh_plan = Plan_NotRequired Skip_LoopStopped \<rparr>
      | OneTick_SocketReceiveFailed _ _ \<Rightarrow>
          \<lparr> rdh_packet_len = None, rdh_plan = Plan_NotRequired Skip_SocketReceiveFailed \<rparr>
      | OneTick_Completed packet_len handler \<Rightarrow>
          \<lparr> rdh_packet_len = Some packet_len,
            rdh_plan = ServerContinuousReceiveLoopHandlerDispatchBoundary_plan_from_handler_handoff
              (rhr_handler handler) \<rparr>)"

datatype ServerHandlerDispatchResult =
    Dispatch_Auth ServerAuthCheck
  | Dispatch_RegisteredHeartbeat ServerRegisteredHeartbeatPacket
  | Dispatch_RegisteredVideoFrame ServerRegisteredVideoFramePacket
  | Dispatch_RegisteredVideoFrameFragment ServerRegisteredVideoFrameFragmentPacket
  | Dispatch_RegisteredClientStats ServerRegisteredClientStatsPacket
  | Dispatch_Unsupported PacketSource MessageType
  | Dispatch_NotRequired ServerContinuousReceiveLoopHandlerDispatchSkipReason
  | Dispatch_HandoffError ServerContinuousReceiveLoopHandlerDispatchError

record ServerHandlerDispatchOutcome =
  shd_packet_len :: "nat option"
  shd_result :: ServerHandlerDispatchResult

fun ServerHandlerDispatchBoundary_dispatch_plan ::
  "ServerContinuousReceiveLoopHandlerDispatchPlan \<Rightarrow> ServerHandlerDispatchResult" where
  "ServerHandlerDispatchBoundary_dispatch_plan (Plan_Auth auth) = Dispatch_Auth auth"
| "ServerHandlerDispatchBoundary_dispatch_plan (Plan_RegisteredClient packet) =
     (case packet of
        Registered_Heartbeat packet \<Rightarrow> Dispatch_RegisteredHeartbeat packet
      | Registered_VideoFrame packet \<Rightarrow> Dispatch_RegisteredVideoFrame packet
      | Registered_VideoFrameFragment packet \<Rightarrow> Dispatch_RegisteredVideoFrameFragment packet
      | Registered_ClientStats packet \<Rightarrow> Dispatch_RegisteredClientStats packet)"
| "ServerHandlerDispatchBoundary_dispatch_plan (Plan_Unsupported source message_type) =
     Dispatch_Unsupported source message_type"
| "ServerHandlerDispatchBoundary_dispatch_plan (Plan_NotRequired reason) = Dispatch_NotRequired reason"
| "ServerHandlerDispatchBoundary_dispatch_plan (Plan_HandoffError error) = Dispatch_HandoffError error"

definition ServerHandlerDispatchBoundary_dispatch_handoff ::
  "ServerContinuousReceiveLoopHandlerDispatchHandoff \<Rightarrow> ServerHandlerDispatchOutcome" where
  "ServerHandlerDispatchBoundary_dispatch_handoff handoff =
     \<lparr> shd_packet_len = rdh_packet_len handoff,
       shd_result = ServerHandlerDispatchBoundary_dispatch_plan (rdh_plan handoff) \<rparr>"

end
