(* ===== verification/Server_Send_Log.thy ===== *)
theory Server_Send_Log
  imports Server_Receive_Log
begin

text \<open>
  Sending one queued message and recording it, apps/server/src/lib.rs: the send step over the
  socket's send call, the success and failure lines, the send-error line, and the line of an
  authentication result.
\<close>

section \<open>Sending one item\<close>

text \<open>The socket's send call: the number of bytes sent, or an error.\<close>

type_synonym 'w UdpSend = "EncodedOutboundPacket \<Rightarrow> 'w \<Rightarrow> 'w \<times> (nat, io_Error) result"

fun send_failure_kind_from_io_error_kind :: "io_ErrorKind \<Rightarrow> SendFailureKind" where
  "send_failure_kind_from_io_error_kind Kind_WouldBlock = SocketWouldBlock"
| "send_failure_kind_from_io_error_kind Kind_Interrupted = SocketInterrupted"
| "send_failure_kind_from_io_error_kind Kind_ConnectionRefused = ConnectionRefused"
| "send_failure_kind_from_io_error_kind Kind_NetworkUnreachable = NetworkUnreachable"
| "send_failure_kind_from_io_error_kind Kind_PermissionDenied = PermissionDenied"
| "send_failure_kind_from_io_error_kind _ = OtherSocketError"

record ServerOutboundSendOneRuntimeOutcome =
  sso_plan :: OutboundSendLoopTickPlan
  sso_encoded_packet :: EncodedOutboundPacket
  sso_encode_event :: OutboundSendLoopEvent
  sso_bytes_sent :: nat
  sso_send_event :: OutboundSendLoopEvent
  sso_final_state :: OutboundQueueItemState

datatype ServerOutboundSendOneRuntimeError =
    SendOne_Encode NetEncodeError OutboundSendLoopEvent
  | SendOne_SocketSend io_ErrorKind OutboundSendLoopEvent

definition ServerOutboundSendOneRuntimeBoundary_send_queued ::
  "'w UdpSend \<Rightarrow> QueuedOutboundItem \<Rightarrow> EncodeContext \<Rightarrow> 'w \<Rightarrow>
     'w \<times> (ServerOutboundSendOneRuntimeOutcome, ServerOutboundSendOneRuntimeError) result" where
  "ServerOutboundSendOneRuntimeBoundary_send_queued send queued context w =
     (let handoff = OutboundQueueLifecycleBoundary_handoff_to_send_layer queued;
          plan = OutboundSendLoopTickBoundary_plan_encode context handoff in
      case OutboundPacketEncoderBoundary_encode_with ProtocolMessageEncoderBoundary_encode_message
          (tick_encode_request plan) of
        Inl (Err error) \<Rightarrow>
          (w, Error (SendOne_Encode error (OutboundSendLoopTickBoundary_observe_encode_failure plan)))
      | Inl Panic \<Rightarrow> (w, Panicked)
      | Inr encoded_packet \<Rightarrow>
          (case send encoded_packet w of
             (w, Inl (Err error)) \<Rightarrow>
               (w, Error (SendOne_SocketSend (ioe_kind error)
                 (OutboundSendLoopTickBoundary_observe_socket_send_failure plan
                   (length (eop_bytes encoded_packet))
                   (send_failure_kind_from_io_error_kind (ioe_kind error)))))
           | (w, Inl Panic) \<Rightarrow> (w, Panicked)
           | (w, Inr bytes_sent) \<Rightarrow>
               (w, Ok \<lparr> sso_plan = plan, sso_encoded_packet = encoded_packet,
                 sso_encode_event = OutboundSendLoopTickBoundary_observe_encode_success plan encoded_packet,
                 sso_bytes_sent = bytes_sent,
                 sso_send_event = OutboundSendLoopTickBoundary_observe_socket_send_success,
                 sso_final_state = OutboundQueueLifecycleBoundary_mark_send_completed \<rparr>)))"

section \<open>The send line\<close>

fun send_log_stage_name :: "SendLogStage \<Rightarrow> string" where
  "send_log_stage_name Stage_Encode = ''Encode''"
| "send_log_stage_name Stage_BeforeSocketSend = ''BeforeSocketSend''"
| "send_log_stage_name Stage_SocketSend = ''SocketSend''"

fun send_failure_kind_name :: "SendFailureKind \<Rightarrow> string" where
  "send_failure_kind_name EncodeFailed = ''EncodeFailed''"
| "send_failure_kind_name DestinationUnavailable = ''DestinationUnavailable''"
| "send_failure_kind_name PacketTooLarge = ''PacketTooLarge''"
| "send_failure_kind_name SocketWouldBlock = ''SocketWouldBlock''"
| "send_failure_kind_name SocketInterrupted = ''SocketInterrupted''"
| "send_failure_kind_name ConnectionRefused = ''ConnectionRefused''"
| "send_failure_kind_name NetworkUnreachable = ''NetworkUnreachable''"
| "send_failure_kind_name PermissionDenied = ''PermissionDenied''"
| "send_failure_kind_name OtherSocketError = ''OtherSocketError''"

fun send_failure_disposition_name :: "SendFailureDisposition \<Rightarrow> string" where
  "send_failure_disposition_name RetryCandidate = ''RetryCandidate''"
| "send_failure_disposition_name DropCandidate = ''DropCandidate''"
| "send_failure_disposition_name WarningCandidate = ''WarningCandidate''"

datatype ServerSendLogOutcome = SendLog_Success | SendLog_Failure

fun send_log_outcome_name :: "ServerSendLogOutcome \<Rightarrow> string" where
  "send_log_outcome_name SendLog_Success = ''Success''"
| "send_log_outcome_name SendLog_Failure = ''Failure''"

definition SERVER_SEND_EVENT_NAME :: string where
  "SERVER_SEND_EVENT_NAME = ''server.send''"

definition SERVER_SEND_ERROR_EVENT_NAME :: string where
  "SERVER_SEND_ERROR_EVENT_NAME = ''server.send_error''"

record ServerSendJsonLogEventInput =
  sse_event_name :: string
  sse_outcome :: ServerSendLogOutcome
  sse_run_id :: "RunId option"
  sse_client_id :: "ClientId option"
  sse_destination :: PacketDestination
  sse_message_type :: MessageType
  sse_stage :: SendLogStage
  sse_encoded_len :: "nat option"
  sse_bytes_sent :: "nat option"
  sse_failure :: "SendFailureKind option"
  sse_disposition :: "SendFailureDisposition option"
  sse_timestamp :: TimestampMicros

definition ServerSendJsonLogEventBoundary_build_success_event ::
  "ServerOutboundSendOneRuntimeOutcome \<Rightarrow> TimestampMicros \<Rightarrow> ServerSendJsonLogEventInput" where
  "ServerSendJsonLogEventBoundary_build_success_event outcome timestamp =
     (let log_context = tick_log_context (sso_plan outcome) in
      \<lparr> sse_event_name = SERVER_SEND_EVENT_NAME, sse_outcome = SendLog_Success,
        sse_run_id = oslc_run_id log_context, sse_client_id = oslc_client_id log_context,
        sse_destination = oslc_destination log_context, sse_message_type = oslc_message_type log_context,
        sse_stage = Stage_SocketSend,
        sse_encoded_len = Some (length (eop_bytes (sso_encoded_packet outcome))),
        sse_bytes_sent = Some (sso_bytes_sent outcome), sse_failure = None, sse_disposition = None,
        sse_timestamp = timestamp \<rparr>)"

fun send_error_event :: "ServerOutboundSendOneRuntimeError \<Rightarrow> OutboundSendLoopEvent" where
  "send_error_event (SendOne_Encode _ event) = event"
| "send_error_event (SendOne_SocketSend _ event) = event"

definition disposition_of :: "SendFailureDisposition option \<Rightarrow> SendFailureKind \<Rightarrow> SendFailureDisposition" where
  "disposition_of disposition failure =
     (case disposition of Some disposition \<Rightarrow> disposition | None \<Rightarrow> SendFailureKind_disposition failure)"

definition ServerSendJsonLogEventBoundary_build_failure_event ::
  "ServerOutboundSendOneRuntimeError \<Rightarrow> TimestampMicros \<Rightarrow> ServerSendJsonLogEventInput option" where
  "ServerSendJsonLogEventBoundary_build_failure_event error timestamp =
     Option.bind (ose_log_event (send_error_event error)) (\<lambda>send_event.
     Option.bind (sle_failure send_event) (\<lambda>failure.
     Some \<lparr> sse_event_name = SERVER_SEND_EVENT_NAME, sse_outcome = SendLog_Failure,
        sse_run_id = oslc_run_id (sle_context send_event),
        sse_client_id = oslc_client_id (sle_context send_event),
        sse_destination = oslc_destination (sle_context send_event),
        sse_message_type = oslc_message_type (sle_context send_event),
        sse_stage = sle_stage send_event, sse_encoded_len = sle_encoded_len send_event,
        sse_bytes_sent = None, sse_failure = Some failure,
        sse_disposition = Some (disposition_of (sle_disposition send_event) failure),
        sse_timestamp = timestamp \<rparr>))"

definition ServerSendJsonLineWriter_write_event :: "ServerSendJsonLogEventInput \<Rightarrow> string list" where
  "ServerSendJsonLineWriter_write_event event =
     [''{''] @ write_json_field ''event_name'' (sse_event_name event)
     @ ['',''] @ write_json_field ''outcome'' (send_log_outcome_name (sse_outcome event))
     @ ['',''] @ write_optional_json_field ''run_id'' (sse_run_id event)
     @ ['',''] @ write_optional_json_field ''client_id'' (sse_client_id event)
     @ ['',''] @ write_json_field ''destination'' (display_address (dst_address (sse_destination event)))
     @ ['',''] @ write_json_field ''message_type''
         (receive_rejection_message_type_name (sse_message_type event))
     @ ['',''] @ write_json_field ''stage'' (send_log_stage_name (sse_stage event))
     @ write_optional_number ''encoded_len'' (sse_encoded_len event)
     @ write_optional_number ''bytes_sent'' (sse_bytes_sent event)
     @ ['',''] @ write_optional_json_field ''failure'' (map_option send_failure_kind_name (sse_failure event))
     @ ['',''] @ write_optional_json_field ''disposition''
         (map_option send_failure_disposition_name (sse_disposition event))
     @ ['','' @ json_literal ''timestamp'' (display_u64 (sse_timestamp event))]
     @ [''}'' @ [CHR 0x0A]]"

definition ServerSendLogOutputBoundary_write_send_success ::
  "'w Writer \<Rightarrow> ServerOutboundSendOneRuntimeOutcome \<Rightarrow> TimestampMicros \<Rightarrow> 'w \<Rightarrow>
     'w \<times> (ServerSendJsonLogEventInput, io_Error) result" where
  "ServerSendLogOutputBoundary_write_send_success writer outcome timestamp w =
     (let event = ServerSendJsonLogEventBoundary_build_success_event outcome timestamp in
      io_bind (write_pieces writer (ServerSendJsonLineWriter_write_event event) w) (\<lambda>_ w. (w, Ok event)))"

definition ServerSendLogOutputBoundary_write_send_failure ::
  "'w Writer \<Rightarrow> ServerOutboundSendOneRuntimeError \<Rightarrow> TimestampMicros \<Rightarrow> 'w \<Rightarrow>
     'w \<times> (ServerSendJsonLogEventInput option, io_Error) result" where
  "ServerSendLogOutputBoundary_write_send_failure writer error timestamp w =
     (case ServerSendJsonLogEventBoundary_build_failure_event error timestamp of
        None \<Rightarrow> (w, Ok None)
      | Some event \<Rightarrow>
          io_bind (write_pieces writer (ServerSendJsonLineWriter_write_event event) w) (\<lambda>_ w.
          (w, Ok (Some event))))"

section \<open>The send-error line\<close>

record ServerSendErrorLogInput =
  ssl_context :: OutboundSendLogContext
  ssl_stage :: SendLogStage
  ssl_encoded_len :: "nat option"
  ssl_failure :: SendFailureKind
  ssl_disposition :: SendFailureDisposition

definition ServerSendErrorLogHandoffBoundary_handoff :: "SendLogEvent \<Rightarrow> ServerSendErrorLogInput option" where
  "ServerSendErrorLogHandoffBoundary_handoff event =
     Option.bind (sle_failure event) (\<lambda>failure.
     Some \<lparr> ssl_context = sle_context event, ssl_stage = sle_stage event,
       ssl_encoded_len = sle_encoded_len event, ssl_failure = failure,
       ssl_disposition = disposition_of (sle_disposition event) failure \<rparr>)"

record ServerSendErrorJsonLogEventInput =
  seje_event_name :: string
  seje_run_id :: "RunId option"
  seje_client_id :: "ClientId option"
  seje_destination :: PacketDestination
  seje_message_type :: MessageType
  seje_stage :: SendLogStage
  seje_encoded_len :: "nat option"
  seje_failure :: SendFailureKind
  seje_disposition :: SendFailureDisposition
  seje_timestamp :: TimestampMicros

definition ServerSendErrorJsonLogEventBoundary_build_event ::
  "ServerSendErrorLogInput \<Rightarrow> TimestampMicros \<Rightarrow> ServerSendErrorJsonLogEventInput" where
  "ServerSendErrorJsonLogEventBoundary_build_event input timestamp =
     \<lparr> seje_event_name = SERVER_SEND_ERROR_EVENT_NAME, seje_run_id = oslc_run_id (ssl_context input),
       seje_client_id = oslc_client_id (ssl_context input),
       seje_destination = oslc_destination (ssl_context input),
       seje_message_type = oslc_message_type (ssl_context input), seje_stage = ssl_stage input,
       seje_encoded_len = ssl_encoded_len input, seje_failure = ssl_failure input,
       seje_disposition = ssl_disposition input, seje_timestamp = timestamp \<rparr>"

definition ServerSendErrorJsonLineWriter_write_event ::
  "ServerSendErrorJsonLogEventInput \<Rightarrow> string list" where
  "ServerSendErrorJsonLineWriter_write_event event =
     [''{''] @ write_json_field ''event_name'' (seje_event_name event)
     @ ['',''] @ write_optional_json_field ''run_id'' (seje_run_id event)
     @ ['',''] @ write_optional_json_field ''client_id'' (seje_client_id event)
     @ ['',''] @ write_json_field ''destination'' (display_address (dst_address (seje_destination event)))
     @ ['',''] @ write_json_field ''message_type''
         (receive_rejection_message_type_name (seje_message_type event))
     @ ['',''] @ write_json_field ''stage'' (send_log_stage_name (seje_stage event))
     @ write_optional_number ''encoded_len'' (seje_encoded_len event)
     @ ['',''] @ write_json_field ''failure'' (send_failure_kind_name (seje_failure event))
     @ ['',''] @ write_json_field ''disposition'' (send_failure_disposition_name (seje_disposition event))
     @ ['','' @ json_literal ''timestamp'' (display_u64 (seje_timestamp event))]
     @ [''}'' @ [CHR 0x0A]]"

definition ServerSendErrorLogOutputBoundary_write_send_error ::
  "'w Writer \<Rightarrow> SendLogEvent \<Rightarrow> TimestampMicros \<Rightarrow> 'w \<Rightarrow>
     'w \<times> (ServerSendErrorJsonLogEventInput option, io_Error) result" where
  "ServerSendErrorLogOutputBoundary_write_send_error writer send_event timestamp w =
     (case ServerSendErrorLogHandoffBoundary_handoff send_event of
        None \<Rightarrow> (w, Ok None)
      | Some input \<Rightarrow>
          (let event = ServerSendErrorJsonLogEventBoundary_build_event input timestamp in
           io_bind (write_pieces writer (ServerSendErrorJsonLineWriter_write_event event) w) (\<lambda>_ w.
           (w, Ok (Some event)))))"

section \<open>The authentication line\<close>

definition SERVER_AUTH_JSON_LOG_EVENT_NAME :: string where
  "SERVER_AUTH_JSON_LOG_EVENT_NAME = ''server.auth_result''"

fun auth_response_reason_code_name :: "AuthResponseReasonCode \<Rightarrow> string" where
  "auth_response_reason_code_name ReasonCode_Ok = ''Ok''"
| "auth_response_reason_code_name InvalidToken = ''InvalidToken''"
| "auth_response_reason_code_name UnknownClient = ''UnknownClient''"
| "auth_response_reason_code_name ProtocolMismatch = ''ProtocolMismatch''"
| "auth_response_reason_code_name AlreadyConnected = ''AlreadyConnected''"
| "auth_response_reason_code_name InternalError = ''InternalError''"

record ServerAuthJsonLogEventInput =
  saje_event_name :: string
  saje_run_id :: RunId
  saje_client_id :: ClientId
  saje_source :: PacketSource
  saje_accepted :: bool
  saje_reason_code :: AuthResponseReasonCode
  saje_message :: "string option"
  saje_app_version :: "AppVersion option"
  saje_protocol_version :: ProtocolVersion
  saje_timestamp :: TimestampMicros
  saje_expected_protocol_version :: "ProtocolVersion option"

definition ServerAuthJsonLogEventBoundary_build_event ::
  "ServerAuthLogInput \<Rightarrow> TimestampMicros \<Rightarrow> ServerAuthJsonLogEventInput" where
  "ServerAuthJsonLogEventBoundary_build_event input timestamp =
     \<lparr> saje_event_name = SERVER_AUTH_JSON_LOG_EVENT_NAME, saje_run_id = sali_run_id input,
       saje_client_id = sali_client_id input, saje_source = sali_source input,
       saje_accepted = (sali_outcome input = AuthLog_Success),
       saje_reason_code = sali_reason_code input, saje_message = sali_message input,
       saje_app_version = sali_app_version input, saje_protocol_version = sali_protocol_version input,
       saje_timestamp = timestamp,
       saje_expected_protocol_version = sali_expected_protocol_version input \<rparr>"

definition ServerAuthJsonLineWriter_write_event :: "ServerAuthJsonLogEventInput \<Rightarrow> string list" where
  "ServerAuthJsonLineWriter_write_event event =
     [''{''] @ write_json_field ''event_name'' (saje_event_name event)
     @ ['',''] @ write_json_field ''run_id'' (saje_run_id event)
     @ ['',''] @ write_json_field ''client_id'' (saje_client_id event)
     @ ['',''] @ write_json_field ''source'' (display_address (src_address (saje_source event)))
     @ ['','' @ json_literal ''accepted'' (display_bool (saje_accepted event))]
     @ ['',''] @ write_json_field ''reason_code'' (auth_response_reason_code_name (saje_reason_code event))
     @ ['',''] @ write_optional_json_field ''message'' (saje_message event)
     @ ['',''] @ write_optional_json_field ''app_version'' (saje_app_version event)
     @ ['','' @ json_literal ''protocol_version'' (display_nat (unat (saje_protocol_version event)))]
     @ ['','' @ json_literal ''timestamp'' (display_u64 (saje_timestamp event))]
     @ write_optional_number ''expected_protocol_version''
         (map_option unat (saje_expected_protocol_version event))
     @ [''}'' @ [CHR 0x0A]]"

definition ServerAuthLogOutputBoundary_write_auth_result ::
  "'w Writer \<Rightarrow> ServerAuthLogInput \<Rightarrow> TimestampMicros \<Rightarrow> 'w \<Rightarrow>
     'w \<times> (ServerAuthJsonLogEventInput, io_Error) result" where
  "ServerAuthLogOutputBoundary_write_auth_result writer input timestamp w =
     (let event = ServerAuthJsonLogEventBoundary_build_event input timestamp in
      io_bind (write_pieces writer (ServerAuthJsonLineWriter_write_event event) w) (\<lambda>_ w. (w, Ok event)))"

end
