(* ===== verification/Server_Dispatch.thy ===== *)
theory Server_Dispatch
  imports Server_Receive_Loop Server_Send_Log Server_Rtt Server_Video_Queue
begin

text \<open>
  What the server does with one turn of the receive loop, apps/server/src/lib.rs: the handlers'
  runtimes, the effects on the registry, the logs, the outbound queue and the video queue, and
  the iteration that receives one datagram and sends at most one.
\<close>

section \<open>Handler runtimes\<close>

datatype ServerAuthDispatchRuntimeResult =
    AuthRuntime_Dispatched ServerAuthFlowOutcome
  | AuthRuntime_NotAuth ServerHandlerDispatchResult

record ServerAuthDispatchRuntimeOutcome =
  sado_packet_len :: "nat option"
  sado_result :: ServerAuthDispatchRuntimeResult

definition ServerAuthDispatchRuntimeBoundary_dispatch_outcome ::
  "(string \<Rightarrow> string + VarError) \<Rightarrow> ServerHandlerDispatchOutcome \<Rightarrow> ServerAuthConfig \<Rightarrow>
     (ServerAuthDispatchRuntimeOutcome, unit) result" where
  "ServerAuthDispatchRuntimeBoundary_dispatch_outcome env_var outcome config =
     rbind (case shd_result outcome of
         Dispatch_Auth check \<Rightarrow>
           rbind (ServerAuthFlowStep_handle_auth_check env_var check config) (\<lambda>flow.
           Ok (AuthRuntime_Dispatched flow))
       | other \<Rightarrow> Ok (AuthRuntime_NotAuth other)) (\<lambda>result.
     Ok \<lparr> sado_packet_len = shd_packet_len outcome, sado_result = result \<rparr>)"

datatype ServerRegisteredPacketDispatchRuntimeResult =
    RegisteredRuntime_HeartbeatAck ServerHeartbeatAckHandoff
  | RegisteredRuntime_FutureVideoFrame ServerRegisteredVideoFramePacket
  | RegisteredRuntime_FutureVideoFrameFragment ServerRegisteredVideoFrameFragmentPacket
  | RegisteredRuntime_FutureClientStats ServerRegisteredClientStatsPacket
  | RegisteredRuntime_NotRegistered ServerHandlerDispatchResult

record ServerRegisteredPacketDispatchRuntimeOutcome =
  srdo_packet_len :: "nat option"
  srdo_result :: ServerRegisteredPacketDispatchRuntimeResult

definition ServerRegisteredPacketDispatchRuntimeBoundary_dispatch_outcome ::
  "ServerHandlerDispatchOutcome \<Rightarrow> ServerHeartbeatAckTiming \<Rightarrow>
     ServerRegisteredPacketDispatchRuntimeOutcome" where
  "ServerRegisteredPacketDispatchRuntimeBoundary_dispatch_outcome outcome heartbeat_timing =
     \<lparr> srdo_packet_len = shd_packet_len outcome,
       srdo_result = (case shd_result outcome of
           Dispatch_RegisteredHeartbeat packet \<Rightarrow>
             RegisteredRuntime_HeartbeatAck
               (ServerHeartbeatHandlerBoundary_handoff_ack packet heartbeat_timing)
         | Dispatch_RegisteredVideoFrame packet \<Rightarrow> RegisteredRuntime_FutureVideoFrame packet
         | Dispatch_RegisteredVideoFrameFragment packet \<Rightarrow>
             RegisteredRuntime_FutureVideoFrameFragment packet
         | Dispatch_RegisteredClientStats packet \<Rightarrow> RegisteredRuntime_FutureClientStats packet
         | other \<Rightarrow> RegisteredRuntime_NotRegistered other) \<rparr>"

datatype ServerVideoStatsHandlerRuntimeResult =
    VideoStats_VideoFrame ServerVideoFrameHandlerInput
  | VideoStats_ClientStats ServerClientStatsHandlerInput
  | VideoStats_NotVideoOrStats ServerRegisteredPacketDispatchRuntimeResult

record ServerVideoStatsHandlerRuntimeOutcome =
  svso_packet_len :: "nat option"
  svso_result :: ServerVideoStatsHandlerRuntimeResult

definition ServerVideoStatsHandlerRuntimeBoundary_dispatch_outcome ::
  "ServerRegisteredPacketDispatchRuntimeOutcome \<Rightarrow> ServerVideoStatsHandlerRuntimeOutcome" where
  "ServerVideoStatsHandlerRuntimeBoundary_dispatch_outcome outcome =
     \<lparr> svso_packet_len = srdo_packet_len outcome,
       svso_result = (case srdo_result outcome of
           RegisteredRuntime_FutureVideoFrame packet \<Rightarrow>
             VideoStats_VideoFrame (ServerVideoFrameHandlerBoundary_prepare_input packet)
         | RegisteredRuntime_FutureClientStats packet \<Rightarrow>
             VideoStats_ClientStats (ServerClientStatsHandlerBoundary_prepare_input packet)
         | other \<Rightarrow> VideoStats_NotVideoOrStats other) \<rparr>"

datatype ServerContinuousReceiveLoopBodyDispatchRuntimeResult =
    BodyDispatch_Auth ServerAuthDispatchRuntimeOutcome
  | BodyDispatch_Registered ServerRegisteredPacketDispatchRuntimeOutcome
  | BodyDispatch_VideoStats ServerVideoStatsHandlerRuntimeOutcome
  | BodyDispatch_NoDispatch ServerHandlerDispatchOutcome

record ServerContinuousReceiveLoopBodyDispatchRuntimeOutcome =
  sbdo_result :: ServerContinuousReceiveLoopBodyDispatchRuntimeResult

definition ServerContinuousReceiveLoopBodyDispatchRuntimeBoundary_dispatch_body_result ::
  "(string \<Rightarrow> string + VarError) \<Rightarrow> ServerContinuousReceiveLoopBodyResult \<Rightarrow> ServerAuthConfig \<Rightarrow>
     ServerHeartbeatAckTiming \<Rightarrow> (ServerContinuousReceiveLoopBodyDispatchRuntimeOutcome, unit) result" where
  "ServerContinuousReceiveLoopBodyDispatchRuntimeBoundary_dispatch_body_result env_var body
       auth_config heartbeat_timing =
     (let handoff = ServerContinuousReceiveLoopHandlerDispatchBoundary_plan_from_body_result body;
          handler = ServerHandlerDispatchBoundary_dispatch_handoff handoff;
          registered = ServerRegisteredPacketDispatchRuntimeBoundary_dispatch_outcome handler
            heartbeat_timing;
          registered_result = (case srdo_result registered of
              RegisteredRuntime_FutureVideoFrame _ \<Rightarrow> BodyDispatch_VideoStats
                (ServerVideoStatsHandlerRuntimeBoundary_dispatch_outcome registered)
            | RegisteredRuntime_FutureClientStats _ \<Rightarrow> BodyDispatch_VideoStats
                (ServerVideoStatsHandlerRuntimeBoundary_dispatch_outcome registered)
            | _ \<Rightarrow> BodyDispatch_Registered registered) in
      rbind
        (case shd_result handler of
           Dispatch_Auth _ \<Rightarrow>
             rbind (ServerAuthDispatchRuntimeBoundary_dispatch_outcome env_var handler auth_config)
               (\<lambda>auth. Ok (BodyDispatch_Auth auth))
         | Dispatch_RegisteredHeartbeat _ \<Rightarrow> Ok registered_result
         | Dispatch_RegisteredVideoFrame _ \<Rightarrow> Ok registered_result
         | Dispatch_RegisteredVideoFrameFragment _ \<Rightarrow> Ok registered_result
         | Dispatch_RegisteredClientStats _ \<Rightarrow> Ok registered_result
         | _ \<Rightarrow> Ok (BodyDispatch_NoDispatch handler)) (\<lambda>result.
      Ok \<lparr> sbdo_result = result \<rparr>))"

section \<open>Effects on the registry\<close>

datatype ServerDispatchRuntimeSideEffectApplyResult =
    SideEffect_Auth ServerAuthFlowOutcome "AuthenticatedSenderEntry option"
      "AuthenticatedSenderRegistrationSummary option"
  | SideEffect_HeartbeatAck ServerHeartbeatAckHandoff
  | SideEffect_VideoFrame ServerVideoFrameHandlerInput
  | SideEffect_ClientStats ServerClientStatsHandlerInput
  | SideEffect_NoDispatch ServerHandlerDispatchOutcome
  | SideEffect_UnappliedRegistered ServerRegisteredPacketDispatchRuntimeOutcome
  | SideEffect_UnappliedVideoStats ServerVideoStatsHandlerRuntimeOutcome

record ServerDispatchRuntimeSideEffectApplyOutcome =
  ssea_result :: ServerDispatchRuntimeSideEffectApplyResult

definition ServerDispatchRuntimeSideEffectApplyBoundary_apply_auth ::
  "AuthenticatedSenderRegistry \<Rightarrow> ServerAuthDispatchRuntimeOutcome \<Rightarrow>
     AuthenticatedSenderRegistry \<times> ServerDispatchRuntimeSideEffectApplyResult" where
  "ServerDispatchRuntimeSideEffectApplyBoundary_apply_auth registry outcome =
     (case sado_result outcome of
        AuthRuntime_Dispatched flow \<Rightarrow>
          (case safo_registry_registration flow of
             Some registration \<Rightarrow>
               (case AuthenticatedSenderRegistryBoundary_register_with_summary registry registration of
                  (registry, summary) \<Rightarrow>
                    (registry, SideEffect_Auth flow (Some (asrs_entry summary)) (Some summary)))
           | None \<Rightarrow> (registry, SideEffect_Auth flow None None))
      | AuthRuntime_NotAuth result \<Rightarrow>
          (registry, SideEffect_NoDispatch
            \<lparr> shd_packet_len = sado_packet_len outcome, shd_result = result \<rparr>))"

definition ServerDispatchRuntimeSideEffectApplyBoundary_apply_registered ::
  "ServerRegisteredPacketDispatchRuntimeOutcome \<Rightarrow> ServerDispatchRuntimeSideEffectApplyResult" where
  "ServerDispatchRuntimeSideEffectApplyBoundary_apply_registered outcome =
     (case srdo_result outcome of
        RegisteredRuntime_HeartbeatAck handoff \<Rightarrow> SideEffect_HeartbeatAck handoff
      | RegisteredRuntime_NotRegistered result \<Rightarrow> SideEffect_NoDispatch
          \<lparr> shd_packet_len = srdo_packet_len outcome, shd_result = result \<rparr>
      | result \<Rightarrow> SideEffect_UnappliedRegistered
          \<lparr> srdo_packet_len = srdo_packet_len outcome, srdo_result = result \<rparr>)"

definition ServerDispatchRuntimeSideEffectApplyBoundary_apply_video_stats ::
  "ServerVideoStatsHandlerRuntimeOutcome \<Rightarrow> ServerDispatchRuntimeSideEffectApplyResult" where
  "ServerDispatchRuntimeSideEffectApplyBoundary_apply_video_stats outcome =
     (case svso_result outcome of
        VideoStats_VideoFrame input \<Rightarrow> SideEffect_VideoFrame input
      | VideoStats_ClientStats input \<Rightarrow> SideEffect_ClientStats input
      | result \<Rightarrow> SideEffect_UnappliedVideoStats
          \<lparr> svso_packet_len = svso_packet_len outcome, svso_result = result \<rparr>)"

definition ServerDispatchRuntimeSideEffectApplyBoundary_apply_body_dispatch_outcome ::
  "AuthenticatedSenderRegistry \<Rightarrow> ServerContinuousReceiveLoopBodyDispatchRuntimeOutcome \<Rightarrow>
     AuthenticatedSenderRegistry \<times> ServerDispatchRuntimeSideEffectApplyOutcome" where
  "ServerDispatchRuntimeSideEffectApplyBoundary_apply_body_dispatch_outcome registry outcome =
     (let (registry, result) = (case sbdo_result outcome of
          BodyDispatch_Auth auth \<Rightarrow> ServerDispatchRuntimeSideEffectApplyBoundary_apply_auth registry auth
        | BodyDispatch_Registered registered \<Rightarrow>
            (registry, ServerDispatchRuntimeSideEffectApplyBoundary_apply_registered registered)
        | BodyDispatch_VideoStats video_stats \<Rightarrow>
            (registry, ServerDispatchRuntimeSideEffectApplyBoundary_apply_video_stats video_stats)
        | BodyDispatch_NoDispatch handler \<Rightarrow> (registry, SideEffect_NoDispatch handler)) in
      (registry, \<lparr> ssea_result = result \<rparr>))"

section \<open>Logs and the outbound queue\<close>

record ServerOutboundQueueStorageApplyResult =
  soq_decision :: OutboundQueueStorageDecision
  soq_queued_item :: "QueuedOutboundItem option"

datatype ServerDispatchRuntimeOutputApplyResult =
    Output_Auth ServerAuthFlowOutcome "AuthenticatedSenderEntry option"
      "AuthenticatedSenderRegistrationSummary option" ServerAuthJsonLogEventInput
      "ServerOutboundQueueStorageApplyResult option"
  | Output_Preserved ServerDispatchRuntimeSideEffectApplyResult

record ServerDispatchRuntimeOutputApplyOutcome =
  sroa_result :: ServerDispatchRuntimeOutputApplyResult

definition ServerDispatchRuntimeOutputApplyBoundary_plan_auth_response_storage ::
  "nat \<Rightarrow> OutboundQueueItem \<Rightarrow> ServerOutboundQueueStorageApplyResult" where
  "ServerDispatchRuntimeOutputApplyBoundary_plan_auth_response_storage current_queue_len item =
     (let decision = ServerOutboundQueueBoundary_evaluate_storage_push current_queue_len item in
      \<lparr> soq_decision = decision,
        soq_queued_item = (if OutboundQueueStorageDecision_accepts_candidate decision
          then Some (OutboundQueueLifecycleBoundary_hold_for_send item) else None) \<rparr>)"

definition ServerDispatchRuntimeOutputApplyBoundary_apply_outputs ::
  "'w Writer \<Rightarrow> ServerDispatchRuntimeSideEffectApplyOutcome \<Rightarrow> nat \<Rightarrow> TimestampMicros \<Rightarrow> 'w \<Rightarrow>
     'w \<times> (ServerDispatchRuntimeOutputApplyOutcome, io_Error) result" where
  "ServerDispatchRuntimeOutputApplyBoundary_apply_outputs auth_log_writer outcome current_queue_len
       log_timestamp w =
     (case ssea_result outcome of
        SideEffect_Auth flow registered_sender registration_summary \<Rightarrow>
          io_bind (ServerAuthLogOutputBoundary_write_auth_result auth_log_writer
              (safo_auth_log_input flow) log_timestamp w) (\<lambda>auth_log_event w.
          let auth_response_storage =
            (if sad_accepted (safo_decision flow)
             then Some (ServerDispatchRuntimeOutputApplyBoundary_plan_auth_response_storage
               current_queue_len (safo_queue_item flow)) else None) in
          (w, Ok \<lparr> sroa_result = Output_Auth flow registered_sender registration_summary
            auth_log_event auth_response_storage \<rparr>))
      | other \<Rightarrow> (w, Ok \<lparr> sroa_result = Output_Preserved other \<rparr>))"

record ServerOutboundQueueCollectionPushOutcome =
  sqpo_queued :: bool
  sqpo_queue_len :: nat

definition ServerOutboundQueueCollectionBoundary_push_from_output_apply ::
  "ServerOutboundQueueCollection \<Rightarrow> ServerDispatchRuntimeOutputApplyOutcome \<Rightarrow>
     ServerOutboundQueueCollection \<times> ServerOutboundQueueCollectionPushOutcome" where
  "ServerOutboundQueueCollectionBoundary_push_from_output_apply collection outcome =
     (let queued_item = (case sroa_result outcome of
          Output_Auth _ _ _ _ (Some storage) \<Rightarrow> soq_queued_item storage
        | Output_Preserved (SideEffect_HeartbeatAck handoff) \<Rightarrow>
            (let decision = ServerOutboundQueueBoundary_evaluate_storage_push
               (length (soqc_items collection)) (shah_queue_item handoff) in
             if OutboundQueueStorageDecision_accepts_candidate decision
             then Some (OutboundQueueLifecycleBoundary_hold_for_send (shah_queue_item handoff))
             else None)
        | _ \<Rightarrow> None);
        (collection, queued) = (case queued_item of
          Some item \<Rightarrow> (collection \<lparr> soqc_items := soqc_items collection @ [item] \<rparr>, True)
        | None \<Rightarrow> (collection, False)) in
      (collection, \<lparr> sqpo_queued = queued, sqpo_queue_len = length (soqc_items collection) \<rparr>))"

section \<open>The video queue\<close>

definition rejected_video_frame_from_body ::
  "ServerContinuousReceiveLoopBodyResult \<Rightarrow> ServerReceiveLoopGateRejection option" where
  "rejected_video_frame_from_body body =
     (case ror_outcome (rbr_tick body) of
        OneTick_Completed _ handler \<Rightarrow>
          Option.bind (rwh_rejection_log (rwr_handoff (rhr_writer handler))) (\<lambda>rejection.
          case rejection of
            GateRejection_Acceptance packet \<Rightarrow>
              if par_message_type packet = MessageType_VideoFrame then Some rejection else None
          | _ \<Rightarrow> None)
      | _ \<Rightarrow> None)"

datatype ServerVideoFrameQueueRuntimeSkipReason =
  VideoSkip_RejectedVideoFrame ServerReceiveLoopGateRejection | VideoSkip_NoAcceptedVideoFrame

datatype ServerVideoFrameQueueRuntimeResult =
    VideoRuntime_Queued ServerVideoFrameQueueStorageResult
  | VideoRuntime_NotQueued ServerVideoFrameQueueRuntimeSkipReason
      ServerDispatchRuntimeSideEffectApplyResult

definition ServerVideoFrameQueueRuntimeBoundary_store_from_receive_side_effect ::
  "ServerVideoFrameQueueState \<Rightarrow> ServerContinuousReceiveLoopBodyResult \<Rightarrow>
     ServerDispatchRuntimeSideEffectApplyOutcome \<Rightarrow> TimestampMicros \<Rightarrow> ServerVideoFrameQueuePolicy \<Rightarrow>
     ServerVideoFrameQueueState \<times> ServerVideoFrameQueueRuntimeResult" where
  "ServerVideoFrameQueueRuntimeBoundary_store_from_receive_side_effect st body side_effect queued_at policy =
     (case ssea_result side_effect of
        SideEffect_VideoFrame input \<Rightarrow>
          (case ServerVideoFrameQueueStorageBoundary_store_frame st input queued_at policy of
             (st, stored) \<Rightarrow> (st, VideoRuntime_Queued stored))
      | other \<Rightarrow>
          (let reason = (case rejected_video_frame_from_body body of
               Some rejection \<Rightarrow> VideoSkip_RejectedVideoFrame rejection
             | None \<Rightarrow> VideoSkip_NoAcceptedVideoFrame) in
           (st, VideoRuntime_NotQueued reason other)))"

section \<open>One iteration\<close>

text \<open>The calls the iteration makes to the outside.\<close>

record 'w ServerIo =
  sio_receive :: "'w UdpReceive"
  sio_send :: "'w UdpSend"
  sio_operational_writer :: "'w Writer"
  sio_rejection_writer :: "'w Writer"
  sio_auth_log_writer :: "'w Writer"
  sio_send_log_writer :: "'w Writer"

record ServerReceiveSendOneIterationRuntimeInput =
  rsi_body :: ServerContinuousReceiveLoopBodyInput
  rsi_heartbeat_timing :: ServerHeartbeatAckTiming
  rsi_encode_context :: EncodeContext
  rsi_auth_log_timestamp :: TimestampMicros
  rsi_send_log_timestamp :: TimestampMicros

record ServerReceiveSendOneIterationRuntimeOutcome =
  rso_body :: ServerContinuousReceiveLoopBodyResult
  rso_dispatch :: ServerContinuousReceiveLoopBodyDispatchRuntimeOutcome
  rso_side_effect :: ServerDispatchRuntimeSideEffectApplyOutcome
  rso_output :: ServerDispatchRuntimeOutputApplyOutcome
  rso_queue_push :: ServerOutboundQueueCollectionPushOutcome
  rso_dequeue :: ServerOutboundQueueDequeueRuntimeResult
  rso_send :: "ServerOutboundSendOneRuntimeOutcome option"
  rso_send_log :: "ServerSendJsonLogEventInput option"

datatype ServerReceiveSendOneIterationRuntimeError =
    Iteration_ReceiveBody io_ErrorKind
  | Iteration_OutputApply io_ErrorKind
  | Iteration_SendLog io_ErrorKind
  | Iteration_Send ServerOutboundSendOneRuntimeError

text \<open>Sending the dequeued item, if there is one, and logging the outcome.\<close>

definition send_dequeued ::
  "'w UdpSend \<Rightarrow> 'w Writer \<Rightarrow> ServerOutboundQueueDequeueRuntimeResult \<Rightarrow> EncodeContext \<Rightarrow>
     TimestampMicros \<Rightarrow> 'w \<Rightarrow>
     'w \<times> (ServerOutboundSendOneRuntimeOutcome option \<times> ServerSendJsonLogEventInput option,
       ServerReceiveSendOneIterationRuntimeError) result" where
  "send_dequeued send send_log_writer dequeue encode_context send_log_timestamp w =
     (case dequeue of
        Dequeue_Ready queued \<Rightarrow>
          (case ServerOutboundSendOneRuntimeBoundary_send_queued send queued encode_context w of
             (w, Inr sent) \<Rightarrow>
               io_bind (io_map_err (\<lambda>error. Iteration_SendLog (ioe_kind error))
                 (ServerSendLogOutputBoundary_write_send_success send_log_writer sent
                   send_log_timestamp w)) (\<lambda>send_log w.
               (w, Ok (Some sent, Some send_log)))
           | (w, Inl (Err error)) \<Rightarrow>
               io_bind (io_map_err (\<lambda>log_error. Iteration_SendLog (ioe_kind log_error))
                 (ServerSendLogOutputBoundary_write_send_failure send_log_writer error
                   send_log_timestamp w)) (\<lambda>_ w.
               (w, Error (Iteration_Send error)))
           | (w, Inl Panic) \<Rightarrow> (w, Panicked))
      | Dequeue_Empty \<Rightarrow> (w, Ok (None, None)))"

text \<open>
  The registry and the queue are borrowed mutably: they keep what was done to them also when a
  later step fails, so they are components of the state of every outcome.
\<close>

definition ServerReceiveSendOneIterationRuntimeBoundary_run_once ::
  "'w ServerIo \<Rightarrow> (string \<Rightarrow> string + VarError) \<Rightarrow> ServerAuthConfig \<Rightarrow>
     ServerReceiveSendOneIterationRuntimeInput \<Rightarrow>
     AuthenticatedSenderRegistry \<Rightarrow> ServerOutboundQueueCollection \<Rightarrow> 'w \<Rightarrow>
     (AuthenticatedSenderRegistry \<times> ServerOutboundQueueCollection \<times> 'w) \<times>
       (ServerReceiveSendOneIterationRuntimeOutcome, ServerReceiveSendOneIterationRuntimeError) result" where
  "ServerReceiveSendOneIterationRuntimeBoundary_run_once io env_var auth_config input registry queue w =
     (case ServerContinuousReceiveLoopBodyBoundary_run_once (sio_receive io)
         (sio_operational_writer io) (sio_rejection_writer io) registry (rsi_body input) w of
        (w, Inl (Err error)) \<Rightarrow>
          ((registry, queue, w), Error (Iteration_ReceiveBody (ioe_kind error)))
      | (w, Inl Panic) \<Rightarrow> ((registry, queue, w), Panicked)
      | (w, Inr body) \<Rightarrow>
     (case ServerContinuousReceiveLoopBodyDispatchRuntimeBoundary_dispatch_body_result env_var body
         auth_config (rsi_heartbeat_timing input) of
        Inl _ \<Rightarrow> ((registry, queue, w), Panicked)
      | Inr dispatch \<Rightarrow>
     (case ServerDispatchRuntimeSideEffectApplyBoundary_apply_body_dispatch_outcome registry dispatch of
        (registry, side_effect) \<Rightarrow>
     (case ServerDispatchRuntimeOutputApplyBoundary_apply_outputs (sio_auth_log_writer io) side_effect
         (length (soqc_items queue)) (rsi_auth_log_timestamp input) w of
        (w, Inl (Err error)) \<Rightarrow>
          ((registry, queue, w), Error (Iteration_OutputApply (ioe_kind error)))
      | (w, Inl Panic) \<Rightarrow> ((registry, queue, w), Panicked)
      | (w, Inr out) \<Rightarrow>
     (case ServerOutboundQueueCollectionBoundary_push_from_output_apply queue out of
        (queue, queue_push) \<Rightarrow>
     (case ServerOutboundQueueCollectionBoundary_dequeue_one queue of
        (queue, dequeue) \<Rightarrow>
     (case send_dequeued (sio_send io) (sio_send_log_writer io) dequeue (rsi_encode_context input)
         (rsi_send_log_timestamp input) w of
        (w, Inl failure) \<Rightarrow> ((registry, queue, w), Inl failure)
      | (w, Inr (sent, send_log)) \<Rightarrow>
          ((registry, queue, w), Ok
            \<lparr> rso_body = body, rso_dispatch = dispatch, rso_side_effect = side_effect,
              rso_output = out, rso_queue_push = queue_push, rso_dequeue = dequeue,
              rso_send = sent, rso_send_log = send_log \<rparr>))))))))"

record ServerControllerReceiveSendRuntimeInput =
  crs_controller :: ServerContinuousReceiveLoopControllerInput
  crs_heartbeat_timing :: ServerHeartbeatAckTiming
  crs_encode_context :: EncodeContext
  crs_auth_log_timestamp :: TimestampMicros
  crs_send_log_timestamp :: TimestampMicros

datatype ServerControllerReceiveSendRuntimeResult =
    ControllerRuntime_Stopped ServerContinuousReceiveLoopControllerPlan
  | ControllerRuntime_Iteration ServerContinuousReceiveLoopControllerPlan
      ServerReceiveSendOneIterationRuntimeOutcome ServerContinuousReceiveLoopControllerObservation

datatype ServerControllerReceiveSendRuntimeError =
    ControllerRuntime_MissingBodyInput ServerContinuousReceiveLoopControllerPlan
  | ControllerRuntime_IterationFailed ServerReceiveSendOneIterationRuntimeError

definition ServerControllerReceiveSendRuntimeBoundary_run_once ::
  "'w ServerIo \<Rightarrow> (string \<Rightarrow> string + VarError) \<Rightarrow> ServerAuthConfig \<Rightarrow>
     ServerControllerReceiveSendRuntimeInput \<Rightarrow>
     AuthenticatedSenderRegistry \<Rightarrow> ServerOutboundQueueCollection \<Rightarrow> 'w \<Rightarrow>
     (AuthenticatedSenderRegistry \<times> ServerOutboundQueueCollection \<times> 'w) \<times>
       (ServerControllerReceiveSendRuntimeResult, ServerControllerReceiveSendRuntimeError) result" where
  "ServerControllerReceiveSendRuntimeBoundary_run_once io env_var auth_config input registry queue w =
     (let plan = ServerContinuousReceiveLoopControllerBoundary_plan_next_iteration (crs_controller input) in
      if rcp_action plan = Controller_Stop
      then ((registry, queue, w), Ok (ControllerRuntime_Stopped plan))
      else
        (case rcp_body_input plan of
           None \<Rightarrow> ((registry, queue, w), Error (ControllerRuntime_MissingBodyInput plan))
         | Some body_input \<Rightarrow>
             io_bind (io_map_err ControllerRuntime_IterationFailed
                (ServerReceiveSendOneIterationRuntimeBoundary_run_once io env_var auth_config
                  \<lparr> rsi_body = body_input, rsi_heartbeat_timing = crs_heartbeat_timing input,
                    rsi_encode_context = crs_encode_context input,
                    rsi_auth_log_timestamp = crs_auth_log_timestamp input,
                    rsi_send_log_timestamp = crs_send_log_timestamp input \<rparr> registry queue w))
               (\<lambda>iteration st.
             (st, Ok (ControllerRuntime_Iteration plan iteration
               (ServerContinuousReceiveLoopControllerBoundary_observe_body_result
                 (rso_body iteration)))))))"

end
