(* ===== verification/Server_Turn.thy ===== *)
theory Server_Turn
  imports Server_Dispatch
begin

text \<open>
  What one turn of the server amounts to. The specification \<open>reaction\<close> says, for the route of a
  datagram, which registry the server has afterwards and which message it owes; the theorems show
  that the composed receive loop, handlers, queue and sender of apps/server/src/lib.rs do that.
\<close>

section \<open>The specification\<close>

definition accepted_response :: "PacketSource \<Rightarrow> AuthRequest \<Rightarrow> OutboundQueueItem" where
  "accepted_response source request =
     \<lparr> oqi_packet = \<lparr> op_destination = \<lparr> dst_address = src_address source \<rparr>,
       op_message = Message_AuthResponse
         \<lparr> aresp_message_type = MessageType_AuthResponse,
           aresp_protocol_version = areq_protocol_version request,
           aresp_client_id = areq_client_id request, aresp_run_id = areq_run_id request,
           aresp_accepted = True, aresp_reason_code = ReasonCode_Ok, aresp_message = None,
           aresp_server_time = None, aresp_expected_protocol_version = None \<rparr> \<rparr> \<rparr>"

definition acknowledgement :: "ServerHeartbeatAckTiming \<Rightarrow> PacketSource \<Rightarrow> Heartbeat \<Rightarrow> OutboundQueueItem" where
  "acknowledgement timing source heartbeat =
     \<lparr> oqi_packet = \<lparr> op_destination = \<lparr> dst_address = src_address source \<rparr>,
       op_message = Message_HeartbeatAck
         \<lparr> hba_message_type = MessageType_HeartbeatAck,
           hba_protocol_version = hb_protocol_version heartbeat,
           hba_client_id = hb_client_id heartbeat, hba_run_id = hb_run_id heartbeat,
           hba_echoed_sent_at = hb_sent_at heartbeat,
           hba_server_received_at = shat_server_received_at timing,
           hba_server_sent_at = shat_server_sent_at timing \<rparr> \<rparr> \<rparr>"

definition granted :: "(string \<Rightarrow> string + VarError) \<Rightarrow> ServerAuthConfig \<Rightarrow> AuthRequest \<Rightarrow> bool" where
  "granted env_var config request \<longleftrightarrow> resolvable env_var config \<and>
     expected_token env_var config (areq_client_id request) = Some (areq_shared_token request)"

definition registration_of :: "PacketSource \<Rightarrow> AuthRequest \<Rightarrow> AuthenticatedSenderRegistration" where
  "registration_of source request =
     \<lparr> reg_client_id = areq_client_id request, reg_source = source, reg_run_id = areq_run_id request,
       reg_protocol_version = areq_protocol_version request, reg_registered_at = None \<rparr>"

definition registered :: "AuthenticatedSenderRegistry \<Rightarrow> ClientId \<Rightarrow> RunId \<Rightarrow> PacketSource \<Rightarrow> bool" where
  "registered registry client_id run_id source \<longleftrightarrow>
     (\<exists>entry. AuthenticatedSenderRegistry_get registry client_id = Some entry \<and>
        ase_source entry = source \<and> ase_run_id entry = run_id)"

fun reaction ::
  "(string \<Rightarrow> string + VarError) \<Rightarrow> ServerAuthConfig \<Rightarrow> ServerHeartbeatAckTiming \<Rightarrow>
     AuthenticatedSenderRegistry \<Rightarrow> ServerInboundRoute \<Rightarrow>
     AuthenticatedSenderRegistry \<times> OutboundQueueItem option" where
  "reaction env_var config timing registry (Route_AuthRequest source request) =
     (if granted env_var config request
      then (fst (AuthenticatedSenderRegistryBoundary_register_with_summary registry
              (registration_of source request)), Some (accepted_response source request))
      else (registry, None))"
| "reaction env_var config timing registry (Route_Heartbeat source heartbeat) =
     (registry,
      if registered registry (hb_client_id heartbeat) (hb_run_id heartbeat) source
      then Some (acknowledgement timing source heartbeat) else None)"
| "reaction env_var config timing registry _ = (registry, None)"

text \<open>A reply waits behind the queue, unless the queue is full.\<close>

definition enqueue_reply :: "OutboundQueueItem option \<Rightarrow> QueuedOutboundItem list \<Rightarrow> QueuedOutboundItem list" where
  "enqueue_reply reply items =
     (case reply of
        Some item \<Rightarrow> if length items < 64 then items @ [OutboundQueueLifecycleBoundary_hold_for_send item] else items
      | None \<Rightarrow> items)"

text \<open>The reaction to the bytes of a datagram: none to bytes that are not a packet.\<close>

definition datagram_reaction ::
  "(string \<Rightarrow> string + VarError) \<Rightarrow> ServerAuthConfig \<Rightarrow> ServerHeartbeatAckTiming \<Rightarrow> ProtocolVersion \<Rightarrow>
     AuthenticatedSenderRegistry \<Rightarrow> PacketSource \<Rightarrow> u8 list \<Rightarrow>
     AuthenticatedSenderRegistry \<times> OutboundQueueItem option" where
  "datagram_reaction env_var config timing version registry source bytes =
     (case InboundPacketDecoder_decode \<lparr> dc_expected_protocol_version = version \<rparr>
         \<lparr> ib_source = source, ib_bytes = bytes \<rparr> of
        Inr decoded \<Rightarrow> reaction env_var config timing registry (ServerInboundRouter_route decoded)
      | Inl _ \<Rightarrow> (registry, None))"

section \<open>Writers that accept everything\<close>

definition writes :: "'w Writer \<Rightarrow> bool" where
  "writes writer \<longleftrightarrow> (\<forall>piece w. \<exists>w'. writer piece w = (w', Ok ()))"

text \<open>Writers that also leave a part of the world alone.\<close>

definition keeps :: "('w \<Rightarrow> 'a) \<Rightarrow> 'w Writer \<Rightarrow> bool" where
  "keeps f writer \<longleftrightarrow> (\<forall>piece w. \<exists>w'. writer piece w = (w', Ok ()) \<and> f w' = f w)"

lemma writes_keeps: "writes writer \<longleftrightarrow> keeps (\<lambda>_. ()) writer"
  by (simp add: writes_def keeps_def)

lemma write_pieces_keeps:
  "keeps f writer \<Longrightarrow> \<exists>w'. write_pieces writer pieces w = (w', Ok ()) \<and> f w' = f w"
proof (induction pieces arbitrary: w)
  case (Cons piece pieces)
  obtain w' where "writer piece w = (w', Ok ())" "f w' = f w"
    using Cons.prems by (auto simp: keeps_def)
  with Cons show ?case by force
qed simp

lemma log_lines_written:
  assumes "keeps f writer"
  shows "\<exists>w' e. ServerReceiveLoopLogOutputBoundary_write_receive_loop_event writer outcome n t w = (w', Ok e) \<and> f w' = f w"
    and "\<exists>w' e. ServerReceiveRejectionLogOutputBoundary_write_rejection writer rejection t w = (w', Ok e) \<and> f w' = f w"
    and "\<exists>w'. ServerAuthLogOutputBoundary_write_auth_result writer input t w =
      (w', Ok (ServerAuthJsonLogEventBoundary_build_event input t)) \<and> f w' = f w"
    and "\<exists>w' e. ServerSendLogOutputBoundary_write_send_success writer sent t w = (w', Ok e) \<and> f w' = f w"
    and "\<exists>w' e. ServerSendLogOutputBoundary_write_send_failure writer error t w = (w', Ok e) \<and> f w' = f w"
proof -
  note step = write_pieces_keeps [OF assms]
  show "\<exists>w' e. ServerReceiveLoopLogOutputBoundary_write_receive_loop_event writer outcome n t w = (w', Ok e) \<and> f w' = f w"
    using step [of "ServerReceiveLoopJsonLineWriter_write_event (ServerReceiveLoopJsonLogEventBoundary_build_event
        (ServerReceiveLoopLogHandoffBoundary_handoff outcome n) t)" w]
    by (auto simp: ServerReceiveLoopLogOutputBoundary_write_receive_loop_event_def Let_def)
  show "\<exists>w' e. ServerReceiveRejectionLogOutputBoundary_write_rejection writer rejection t w = (w', Ok e) \<and> f w' = f w"
    using step [of "ServerReceiveRejectionJsonLineWriter_write_event
        (ServerReceiveRejectionJsonLogEventBoundary_build_event
          (srdl_log_input (ServerRejectionDropLogHandoffBoundary_handoff rejection)) t)" w]
    by (auto simp: ServerReceiveRejectionLogOutputBoundary_write_rejection_def Let_def)
  show "\<exists>w'. ServerAuthLogOutputBoundary_write_auth_result writer input t w =
      (w', Ok (ServerAuthJsonLogEventBoundary_build_event input t)) \<and> f w' = f w"
    using step [of "ServerAuthJsonLineWriter_write_event (ServerAuthJsonLogEventBoundary_build_event input t)" w]
    by (auto simp: ServerAuthLogOutputBoundary_write_auth_result_def Let_def)
  show "\<exists>w' e. ServerSendLogOutputBoundary_write_send_success writer sent t w = (w', Ok e) \<and> f w' = f w"
    using step [of "ServerSendJsonLineWriter_write_event (ServerSendJsonLogEventBoundary_build_success_event sent t)" w]
    by (auto simp: ServerSendLogOutputBoundary_write_send_success_def Let_def)
  show "\<exists>w' e. ServerSendLogOutputBoundary_write_send_failure writer error t w = (w', Ok e) \<and> f w' = f w"
  proof (cases "ServerSendJsonLogEventBoundary_build_failure_event error t")
    case None
    then show ?thesis by (simp add: ServerSendLogOutputBoundary_write_send_failure_def)
  next
    case (Some event)
    then show ?thesis
      using step [of "ServerSendJsonLineWriter_write_event event" w]
      by (auto simp: ServerSendLogOutputBoundary_write_send_failure_def)
  qed
qed

section \<open>The loop body\<close>

lemmas handoff_defs =
  ServerContinuousReceiveLoopHandlerHandoffRuntimeBoundary_handoff_after_gate_outcome_def
  ServerContinuousReceiveLoopWriterRuntimeBoundary_write_after_gate_outcome_def
  ServerContinuousReceiveLoopWriterHandoffBoundary_plan_after_gate_outcome_def
  ServerContinuousReceiveLoopTickBoundary_observe_gate_outcome_def
  ServerContinuousReceiveLoopLifecycleBoundary_plan_after_gate_outcome_def Let_def

lemma result_cases [case_names Ok Error Panicked]:
  fixes r :: "('a, 'e) result"
  obtains v where "r = Ok v" | e where "r = Error e" | "r = Panicked"
  by (cases r; cases "projl r") auto

text \<open>The plan a route is dispatched to, and the plan of a datagram.\<close>

definition plan_of :: "AuthenticatedSenderRegistry \<Rightarrow> ServerInboundRoute \<Rightarrow>
    ServerContinuousReceiveLoopHandlerDispatchPlan" where
  "plan_of registry route =
     (case route of
        Route_AuthRequest source request \<Rightarrow> Plan_Auth \<lparr> sach_source = source, sach_request = request \<rparr>
      | Route_UnsupportedForServer source message_type _ \<Rightarrow> Plan_Unsupported source message_type
      | _ \<Rightarrow>
          (case ServerRegisteredPacketBoundary_attach_sender registry route of
             Inr packet \<Rightarrow> Plan_RegisteredClient packet
           | Inl _ \<Rightarrow> Plan_NotRequired Skip_RejectedOutcome))"

definition datagram_plan :: "ProtocolVersion \<Rightarrow> AuthenticatedSenderRegistry \<Rightarrow> PacketSource \<Rightarrow> u8 list \<Rightarrow>
    ServerContinuousReceiveLoopHandlerDispatchPlan" where
  "datagram_plan version registry source bytes =
     (case InboundPacketDecoder_decode \<lparr> dc_expected_protocol_version = version \<rparr>
         \<lparr> ib_source = source, ib_bytes = bytes \<rparr> of
        Inr decoded \<Rightarrow> plan_of registry (ServerInboundRouter_route decoded)
      | Inl _ \<Rightarrow> Plan_NotRequired Skip_RejectedOutcome)"

lemmas preparation_defs =
  PacketAcceptanceGateBoundary_evaluate_route_def plan_of_def prepare_is_attach
  ServerContinuousReceiveLoopHandlerHandoffRuntimeBoundary_prepare_handler_handoff_def
  ServerRegisteredPacketBoundary_attach_sender_def ServerAuthHandlerBoundary_prepare_from_route_def
  ServerAuthHandlerBoundary_prepare_auth_check_def Let_def

lemma require_sender_cases:
  obtains entry where "ServerRegisteredPacketBoundary_require_sender r c run s t = Ok entry"
      and "PacketAcceptanceGateBoundary_evaluate_client_packet r s c run t = Packet_Accepted"
  | rejection where "ServerRegisteredPacketBoundary_require_sender r c run s t = Error (NotAccepted rejection)"
      and "PacketAcceptanceGateBoundary_evaluate_client_packet r s c run t = Packet_Rejected rejection"
proof (cases "PacketAcceptanceGateBoundary_evaluate_client_packet r s c run t")
  case Packet_Accepted
  then obtain entry where "ServerRegisteredPacketBoundary_require_sender r c run s t = Ok entry"
    unfolding gate_client_packet_iff require_sender_Ok_iff by blast
  with Packet_Accepted show ?thesis by (rule that(1) [rotated])
next
  case (Packet_Rejected rejection)
  then show ?thesis using that(2) by (simp add: gate_and_require_agree)
qed

text \<open>The gate and the preparation of the handler's input, together, are \<open>plan_of\<close>.\<close>

lemma gate_and_preparation:
  "(PacketAcceptanceGateBoundary_evaluate_route registry route = Packet_Accepted \<longrightarrow>
     (\<exists>handler. ServerContinuousReceiveLoopHandlerHandoffRuntimeBoundary_prepare_handler_handoff registry route
         = Ok handler \<and>
       ServerContinuousReceiveLoopHandlerDispatchBoundary_plan_from_handler_handoff handler
         = plan_of registry route)) \<and>
   (\<forall>rejection. PacketAcceptanceGateBoundary_evaluate_route registry route = Packet_Rejected rejection \<longrightarrow>
     plan_of registry route = Plan_NotRequired Skip_RejectedOutcome)"
proof (cases route)
  case (Route_Heartbeat source m)
  then show ?thesis
    by (cases rule: require_sender_cases [of registry "hb_client_id m" "hb_run_id m" source MessageType_Heartbeat])
      (simp_all add: preparation_defs)
next
  case (Route_VideoFrame source m)
  then show ?thesis
    by (cases rule: require_sender_cases [of registry "vf_client_id m" "vf_run_id m" source MessageType_VideoFrame])
      (simp_all add: preparation_defs)
next
  case (Route_VideoFrameFragment source m)
  then show ?thesis
    by (cases rule: require_sender_cases [of registry "vff_client_id m" "vff_run_id m" source
          MessageType_VideoFrameFragment])
      (simp_all add: preparation_defs)
next
  case (Route_ClientStats source m)
  then show ?thesis
    by (cases rule: require_sender_cases [of registry "cs_client_id m" "cs_run_id m" source MessageType_ClientStats])
      (simp_all add: preparation_defs)
qed (simp_all add: preparation_defs)

lemma handoff_written:
  assumes "keeps f operational" and "keeps f rejection_writer"
    and "case outcome of
        Gate_Accepted route \<Rightarrow> PacketAcceptanceGateBoundary_evaluate_route registry route = Packet_Accepted
      | Gate_Rejected _ \<Rightarrow> True"
  shows "\<exists>w' result. ServerContinuousReceiveLoopHandlerHandoffRuntimeBoundary_handoff_after_gate_outcome
      operational rejection_writer registry n outcome t w = (w', Ok result) \<and> f w' = f w \<and>
    ServerContinuousReceiveLoopHandlerDispatchBoundary_plan_from_handler_handoff (rhr_handler result) =
      (case outcome of
         Gate_Accepted route \<Rightarrow> plan_of registry route
       | Gate_Rejected _ \<Rightarrow> Plan_NotRequired Skip_RejectedOutcome)"
proof (cases outcome)
  case (Gate_Accepted route)
  obtain w' e where "ServerReceiveLoopLogOutputBoundary_write_receive_loop_event operational outcome n t w = (w', Ok e)" "f w' = f w"
    using log_lines_written(1) [OF assms(1)] by blast
  moreover obtain handler where
    "ServerContinuousReceiveLoopHandlerHandoffRuntimeBoundary_prepare_handler_handoff registry route = Ok handler"
    "ServerContinuousReceiveLoopHandlerDispatchBoundary_plan_from_handler_handoff handler = plan_of registry route"
    using gate_and_preparation [of registry route] assms(3) Gate_Accepted by auto
  ultimately show ?thesis
    by (simp add: Gate_Accepted handoff_defs io_lift_def)
next
  case (Gate_Rejected rejection)
  obtain w1 e1 where one: "ServerReceiveLoopLogOutputBoundary_write_receive_loop_event operational outcome n t w = (w1, Ok e1)" "f w1 = f w"
    using log_lines_written(1) [OF assms(1)] by blast
  obtain w2 e2 where "ServerReceiveRejectionLogOutputBoundary_write_rejection rejection_writer rejection t w1 = (w2, Ok e2)" "f w2 = f w1"
    using log_lines_written(2) [OF assms(2)] by blast
  then show ?thesis
    using one by (simp add: Gate_Rejected handoff_defs)
qed

lemma gate_of_datagram:
  assumes "length bytes < usize_bound"
  shows "\<exists>outcome.
    ServerReceiveLoopStep_handle_received_packet_with_gate version registry source bytes = Ok outcome \<and>
    (case outcome of
       Gate_Accepted route \<Rightarrow> PacketAcceptanceGateBoundary_evaluate_route registry route = Packet_Accepted
     | Gate_Rejected _ \<Rightarrow> True) \<and>
    datagram_plan version registry source bytes =
      (case outcome of
         Gate_Accepted route \<Rightarrow> plan_of registry route
       | Gate_Rejected _ \<Rightarrow> Plan_NotRequired Skip_RejectedOutcome)"
proof (cases "InboundPacketDecoder_decode \<lparr> dc_expected_protocol_version = version \<rparr>
    \<lparr> ib_source = source, ib_bytes = bytes \<rparr>" rule: result_cases)
  case (Ok decoded)
  then show ?thesis
    using gate_and_preparation [of registry "ServerInboundRouter_route decoded"]
    by (cases "PacketAcceptanceGateBoundary_evaluate_route registry (ServerInboundRouter_route decoded)")
      (simp_all add: ServerReceiveLoopStep_handle_received_packet_with_gate_def datagram_plan_def
        ServerReceiveLoopStep_decode_and_route_def)
next
  case (Error e)
  then show ?thesis
    by (cases e) (simp add: ServerReceiveLoopStep_handle_received_packet_with_gate_def datagram_plan_def
        ServerReceiveLoopStep_decode_and_route_def)
next
  case Panicked
  then show ?thesis using inbound_decode_no_panic [of "\<lparr> ib_source = source, ib_bytes = bytes \<rparr>"] assms by simp
qed

lemma body_of_datagram:
  assumes "receive w = (w1, Ok (source, bytes))" and "length bytes < usize_bound"
    and "keeps f operational" and "keeps f rejection_writer" and "\<not> rbi_stop_requested input"
  shows "\<exists>w' body. ServerContinuousReceiveLoopBodyBoundary_run_once receive operational rejection_writer
      registry input w = (w', Ok body) \<and> f w' = f w1 \<and>
    (\<exists>handler. ror_outcome (rbr_tick body) = OneTick_Completed (length bytes) handler) \<and>
    ServerContinuousReceiveLoopHandlerDispatchBoundary_plan_from_body_result body =
      \<lparr> rdh_packet_len = Some (length bytes),
        rdh_plan = datagram_plan (rbi_expected_protocol_version input) registry source bytes \<rparr>"
proof -
  let ?version = "rbi_expected_protocol_version input"
  obtain outcome where
      gate: "ServerReceiveLoopStep_handle_received_packet_with_gate ?version registry source bytes = Ok outcome"
    and accepted: "case outcome of
        Gate_Accepted route \<Rightarrow> PacketAcceptanceGateBoundary_evaluate_route registry route = Packet_Accepted
      | Gate_Rejected _ \<Rightarrow> True"
    and plan: "datagram_plan ?version registry source bytes =
      (case outcome of
         Gate_Accepted route \<Rightarrow> plan_of registry route
       | Gate_Rejected _ \<Rightarrow> Plan_NotRequired Skip_RejectedOutcome)"
    using gate_of_datagram [OF assms(2)] by blast
  obtain w' handler where
    "ServerContinuousReceiveLoopHandlerHandoffRuntimeBoundary_handoff_after_gate_outcome
      operational rejection_writer registry (length bytes) outcome (rbi_timestamp input) w1 = (w', Ok handler)" "f w' = f w1"
    "ServerContinuousReceiveLoopHandlerDispatchBoundary_plan_from_handler_handoff (rhr_handler handler) =
      datagram_plan ?version registry source bytes"
    using handoff_written [OF assms(3,4) accepted] unfolding plan by blast
  then show ?thesis
    using assms(1,5) gate
    by (simp add: ServerContinuousReceiveLoopBodyBoundary_run_once_def Let_def io_lift_def
        ServerContinuousReceiveLoopOneTickRuntimeBoundary_execute_one_tick_def
        ServerUdpSocketIoStep_receive_one_with_gate_details_def
        ServerContinuousReceiveLoopHandlerDispatchBoundary_plan_from_body_result_def)
qed

section \<open>Dispatch\<close>

lemmas effect_defs =
  ServerContinuousReceiveLoopBodyDispatchRuntimeBoundary_dispatch_body_result_def
  ServerRegisteredPacketDispatchRuntimeBoundary_dispatch_outcome_def
  ServerVideoStatsHandlerRuntimeBoundary_dispatch_outcome_def
  ServerAuthDispatchRuntimeBoundary_dispatch_outcome_def
  ServerHandlerDispatchBoundary_dispatch_handoff_def
  ServerDispatchRuntimeSideEffectApplyBoundary_apply_body_dispatch_outcome_def
  ServerDispatchRuntimeSideEffectApplyBoundary_apply_auth_def
  ServerDispatchRuntimeSideEffectApplyBoundary_apply_registered_def
  ServerDispatchRuntimeSideEffectApplyBoundary_apply_video_stats_def
  ServerDispatchRuntimeOutputApplyBoundary_apply_outputs_def
  ServerDispatchRuntimeOutputApplyBoundary_plan_auth_response_storage_def
  ServerOutboundQueueCollectionBoundary_push_from_output_apply_def Let_def

text \<open>What the plan of a datagram hands on, besides its effect on the registry.\<close>

definition side_effect_of ::
  "ServerHeartbeatAckTiming \<Rightarrow> ServerContinuousReceiveLoopHandlerDispatchPlan \<Rightarrow>
     ServerDispatchRuntimeSideEffectApplyResult \<Rightarrow> bool" where
  "side_effect_of timing plan result \<longleftrightarrow>
     (case plan of
        Plan_Auth _ \<Rightarrow> \<exists>flow entry summary. result = SideEffect_Auth flow entry summary
      | Plan_RegisteredClient (Registered_Heartbeat p) \<Rightarrow>
          result = SideEffect_HeartbeatAck (ServerHeartbeatHandlerBoundary_handoff_ack p timing)
      | Plan_RegisteredClient (Registered_VideoFrame p) \<Rightarrow>
          result = SideEffect_VideoFrame (ServerVideoFrameHandlerBoundary_prepare_input p)
      | Plan_RegisteredClient (Registered_VideoFrameFragment p) \<Rightarrow>
          \<exists>n. result = SideEffect_UnappliedRegistered
            \<lparr> srdo_packet_len = n, srdo_result = RegisteredRuntime_FutureVideoFrameFragment p \<rparr>
      | Plan_RegisteredClient (Registered_ClientStats p) \<Rightarrow>
          result = SideEffect_ClientStats (ServerClientStatsHandlerBoundary_prepare_input p)
      | _ \<Rightarrow> \<exists>handler. result = SideEffect_NoDispatch handler)"

text \<open>What dispatching a body's result does to the registry, the log and the queue.\<close>

definition effects ::
  "('w \<Rightarrow> 'a) \<Rightarrow> (string \<Rightarrow> string + VarError) \<Rightarrow> ServerAuthConfig \<Rightarrow> ServerHeartbeatAckTiming \<Rightarrow> 'w Writer \<Rightarrow>
     TimestampMicros \<Rightarrow> ServerContinuousReceiveLoopBodyResult \<Rightarrow> AuthenticatedSenderRegistry \<Rightarrow>
     ServerOutboundQueueCollection \<Rightarrow> 'w \<Rightarrow>
     AuthenticatedSenderRegistry \<times> OutboundQueueItem option \<Rightarrow> bool" where
  "effects f env_var config timing auth_writer t body registry queue w result \<longleftrightarrow>
     (\<exists>dispatch side_effect w' out.
        ServerContinuousReceiveLoopBodyDispatchRuntimeBoundary_dispatch_body_result env_var body config
          timing = Ok dispatch \<and>
        ServerDispatchRuntimeSideEffectApplyBoundary_apply_body_dispatch_outcome registry dispatch
          = (fst result, side_effect) \<and>
        side_effect_of timing (rdh_plan (ServerContinuousReceiveLoopHandlerDispatchBoundary_plan_from_body_result body))
          (ssea_result side_effect) \<and> f w' = f w \<and>
        ServerDispatchRuntimeOutputApplyBoundary_apply_outputs auth_writer side_effect
          (length (soqc_items queue)) t w = (w', Ok out) \<and>
        fst (ServerOutboundQueueCollectionBoundary_push_from_output_apply queue out)
          = queue \<lparr> soqc_items := enqueue_reply (snd result) (soqc_items queue) \<rparr>)"

lemma control_admission:
  "outbound_queue_item_class (op_message (oqi_packet item)) = Class_Control \<Longrightarrow>
     OutboundQueueStorageDecision_accepts_candidate
       (ServerOutboundQueueBoundary_evaluate_storage_push n item) \<longleftrightarrow> n < 64"
  by (simp add: ServerOutboundQueueBoundary_evaluate_storage_push_def admission_defs
      OutboundQueueStorageDecision_accepts_candidate_def OutboundQueueCapacityPolicy_default_def)

text \<open>A decision carries no server time and no expected version.\<close>

lemma handle_auth_check_times:
  assumes "ServerAuthFlowStep_handle_auth_check env check config = Ok outcome"
  shows "sad_server_time (safo_decision outcome) = None"
    and "sad_expected_protocol_version (safo_decision outcome) = None"
  using assms
  by (auto simp: ServerAuthFlowStep_handle_auth_check_def Let_def decision_defs
      ServerAuthDecisionBoundary_decide_resolved_def
      ServerAuthDecisionBoundary_reject_secret_resolution_error_def rbind_eq_Inr_iff
      split: sum.splits fault.splits option.splits if_splits)

lemma effects_of_auth:
  assumes "rdh_plan (ServerContinuousReceiveLoopHandlerDispatchBoundary_plan_from_body_result body)
      = Plan_Auth \<lparr> sach_source = source, sach_request = request \<rparr>"
    and "keeps f auth_writer"
  shows "effects f env_var config timing auth_writer t body registry queue w
    (reaction env_var config timing registry (Route_AuthRequest source request))"
proof -
  let ?check = "\<lparr> sach_source = source, sach_request = request \<rparr>"
  obtain flow where flow: "ServerAuthFlowStep_handle_auth_check env_var ?check config = Ok flow"
    using handle_auth_check_total by blast
  then have decided: "sad_accepted (safo_decision flow) \<longleftrightarrow> granted env_var config request"
    using handle_auth_check_accepts_iff by (fastforce simp: granted_def)
  have item: "safo_queue_item flow = ServerOutboundQueueBoundary_handoff_auth_response
      (ServerAuthResponseBoundary_build_for_send (safo_decision flow))"
    using flow by (auto simp: ServerAuthFlowStep_handle_auth_check_def Let_def rbind_eq_Inr_iff)
  note decision = handle_auth_check_consistent [OF flow]
  have accepted: "safo_queue_item flow = accepted_response source request"
      "safo_registry_registration flow = Some (registration_of source request)"
    if "granted env_var config request"
  proof -
    have plain: "sad_server_time (safo_decision flow) = None"
        "sad_expected_protocol_version (safo_decision flow) = None"
      using handle_auth_check_times [OF flow] by simp_all
    show "safo_queue_item flow = accepted_response source request"
      using decision plain that decided
      by (simp add: item decision_consistent_def accepted_response_def PacketDestination_from_source_def
          ServerOutboundQueueBoundary_handoff_auth_response_def OutboundPacketQueueBoundary_handoff_def
          ServerOutboundAuthResponse_into_outbound_packet_def ServerAuthResponseBoundary_build_for_send_def)
    show "safo_registry_registration flow = Some (registration_of source request)"
      using decision plain that decided
      by (simp add: flow_registration [OF flow] decision_consistent_def registration_of_def
          AuthenticatedSenderRegistryBoundary_registration_from_decision_def)
  qed
  have refused: "safo_registry_registration flow = None" if "\<not> granted env_var config request"
    using that decided
    by (simp add: flow_registration [OF flow] AuthenticatedSenderRegistryBoundary_registration_from_decision_def)
  obtain w' where "ServerAuthLogOutputBoundary_write_auth_result auth_writer (safo_auth_log_input flow) t w
      = (w', Ok (ServerAuthJsonLogEventBoundary_build_event (safo_auth_log_input flow) t))" "f w' = f w"
    using log_lines_written(3) [OF assms(2)] by blast
  note written = this
  show ?thesis
  proof (cases "granted env_var config request")
    case True
    obtain registry' summary where "AuthenticatedSenderRegistryBoundary_register_with_summary registry
        (registration_of source request) = (registry', summary)"
      by (cases "AuthenticatedSenderRegistryBoundary_register_with_summary registry (registration_of source request)")
    moreover have "outbound_queue_item_class (op_message (oqi_packet (accepted_response source request))) = Class_Control"
      by (simp add: accepted_response_def)
    ultimately show ?thesis
      using assms(1) flow written True decided accepted
      by (simp add: effects_def effect_defs side_effect_of_def control_admission enqueue_reply_def)
  next
    case False
    then show ?thesis
      using assms(1) flow written decided refused
      by (simp add: effects_def effect_defs side_effect_of_def enqueue_reply_def)
  qed
qed

lemma effects_of_packet:
  assumes "rdh_plan (ServerContinuousReceiveLoopHandlerDispatchBoundary_plan_from_body_result body)
      = Plan_RegisteredClient packet"
  shows "effects f env_var config timing auth_writer t body registry queue w
    (registry, case packet of Registered_Heartbeat p \<Rightarrow> Some (acknowledgement timing (srh_source p) (srh_heartbeat p))
       | _ \<Rightarrow> None)"
proof (cases packet)
  case (Registered_Heartbeat p)
  have item: "shah_queue_item (ServerHeartbeatHandlerBoundary_handoff_ack p timing)
      = acknowledgement timing (srh_source p) (srh_heartbeat p)"
    by (simp add: ServerHeartbeatHandlerBoundary_handoff_ack_def Let_def acknowledgement_def
        ServerOutboundQueueBoundary_handoff_heartbeat_ack_def OutboundPacketQueueBoundary_handoff_def
        PacketDestination_from_source_def ServerHeartbeatAckBoundary_build_for_send_def)
  have "outbound_queue_item_class (op_message (oqi_packet (acknowledgement timing (srh_source p) (srh_heartbeat p))))
      = Class_Control"
    by (simp add: acknowledgement_def)
  then show ?thesis
    using assms Registered_Heartbeat
    by (simp add: effects_def effect_defs side_effect_of_def item control_admission enqueue_reply_def)
qed (use assms in \<open>simp_all add: effects_def effect_defs side_effect_of_def enqueue_reply_def\<close>)

lemma effects_of_none:
  assumes "rdh_plan (ServerContinuousReceiveLoopHandlerDispatchBoundary_plan_from_body_result body) = plan"
    and "(\<exists>source message_type. plan = Plan_Unsupported source message_type) \<or> (\<exists>reason. plan = Plan_NotRequired reason)"
  shows "effects f env_var config timing auth_writer t body registry queue w (registry, None)"
  using assms by (auto simp: effects_def effect_defs side_effect_of_def enqueue_reply_def)

lemma registered_iff:
  "registered r c run s \<longleftrightarrow> (\<exists>entry. ServerRegisteredPacketBoundary_require_sender r c run s t = Ok entry)"
  by (simp add: registered_def require_sender_Ok_iff)

lemma effects_of_plan:
  assumes "rdh_plan (ServerContinuousReceiveLoopHandlerDispatchBoundary_plan_from_body_result body)
      = plan_of registry route"
    and "keeps f auth_writer"
  shows "effects f env_var config timing auth_writer t body registry queue w
    (reaction env_var config timing registry route)"
proof (cases "\<exists>packet. plan_of registry route = Plan_RegisteredClient packet")
  case True
  then obtain packet where packet: "plan_of registry route = Plan_RegisteredClient packet" by blast
  then have "ServerRegisteredPacketBoundary_attach_sender registry route = Ok packet"
    by (auto simp: plan_of_def split: ServerInboundRoute.splits sum.splits)
  then have "ServerRegisteredPacketBoundary_prepare_for_handler registry route = Ok packet"
    by (simp add: prepare_is_attach)
  then have "reaction env_var config timing registry route =
      (registry, case packet of Registered_Heartbeat p \<Rightarrow> Some (acknowledgement timing (srh_source p) (srh_heartbeat p))
         | _ \<Rightarrow> None)"
    unfolding prepare_for_handler_Ok_iff by (cases packet) (auto simp: registered_def)
  then show ?thesis using effects_of_packet [of body packet] assms(1) packet by simp
next
  case False
  show ?thesis
  proof (cases "\<exists>source request. route = Route_AuthRequest source request")
    case True
    then show ?thesis using effects_of_auth assms by (fastforce simp: plan_of_def)
  next
    case no_auth: False
    have "reaction env_var config timing registry route = (registry, None)"
      using False no_auth
      by (cases route) (auto simp: plan_of_def registered_iff [where t = MessageType_Heartbeat]
          ServerRegisteredPacketBoundary_attach_sender_def)
    moreover have "(\<exists>source message_type. plan_of registry route = Plan_Unsupported source message_type) \<or>
        (\<exists>reason. plan_of registry route = Plan_NotRequired reason)"
      using False no_auth by (cases route) (auto simp: plan_of_def split: sum.splits)
    ultimately show ?thesis using effects_of_none [OF assms(1)] by simp
  qed
qed

lemma effects_of_datagram:
  assumes "rdh_plan (ServerContinuousReceiveLoopHandlerDispatchBoundary_plan_from_body_result body)
      = datagram_plan version registry source bytes"
    and "keeps f auth_writer"
  shows "effects f env_var config timing auth_writer t body registry queue w
    (datagram_reaction env_var config timing version registry source bytes)"
  using assms effects_of_plan effects_of_none
  by (fastforce simp: datagram_plan_def datagram_reaction_def split: sum.splits)

section \<open>One turn\<close>

lemma dequeue_one_state:
  "ServerOutboundQueueCollectionBoundary_dequeue_one queue =
     (queue \<lparr> soqc_items := tl (soqc_items queue) \<rparr>,
      case soqc_items queue of [] \<Rightarrow> Dequeue_Empty | item # _ \<Rightarrow> Dequeue_Ready item)"
  by (cases queue) (simp add: ServerOutboundQueueCollectionBoundary_dequeue_one_def split: list.split)

text \<open>
  The state after a turn that received a datagram, and what is left of it: sending the head of
  the queue.
\<close>

lemma turn_of_datagram:
  fixes io :: "'w ServerIo" and env_var config registry queue
  assumes "sio_receive io w = (w1, Ok (source, bytes))" and "length bytes < usize_bound"
    and "keeps f (sio_operational_writer io)" and "keeps f (sio_rejection_writer io)"
    and "keeps f (sio_auth_log_writer io)" and "\<not> rbi_stop_requested (rsi_body input)"
  defines "after \<equiv> datagram_reaction env_var config (rsi_heartbeat_timing input)
      (rbi_expected_protocol_version (rsi_body input)) registry source bytes"
  defines "items \<equiv> enqueue_reply (snd after) (soqc_items queue)"
  defines "plan \<equiv> datagram_plan (rbi_expected_protocol_version (rsi_body input)) registry source bytes"
  shows "\<exists>w2 w3 result. f w2 = f w1 \<and>
    send_dequeued (sio_send io) (sio_send_log_writer io)
      (case items of [] \<Rightarrow> Dequeue_Empty | item # _ \<Rightarrow> Dequeue_Ready item)
      (rsi_encode_context input) (rsi_send_log_timestamp input) w2 = (w3, result) \<and>
    (\<exists>outcome. side_effect_of (rsi_heartbeat_timing input) plan (ssea_result (rso_side_effect outcome)) \<and>
      (\<exists>handler. ror_outcome (rbr_tick (rso_body outcome)) = OneTick_Completed (length bytes) handler) \<and>
      ServerReceiveSendOneIterationRuntimeBoundary_run_once io env_var config input registry queue w =
      ((fst after, queue \<lparr> soqc_items := tl items \<rparr>, w3),
       rmap (\<lambda>(sent, send_log). outcome \<lparr> rso_send := sent, rso_send_log := send_log \<rparr>) result))"
proof -
  obtain wb body handler where body: "ServerContinuousReceiveLoopBodyBoundary_run_once (sio_receive io)
      (sio_operational_writer io) (sio_rejection_writer io) registry (rsi_body input) w = (wb, Ok body)"
    and kept: "f wb = f w1" and tick: "ror_outcome (rbr_tick body) = OneTick_Completed (length bytes) handler"
    and plan: "rdh_plan (ServerContinuousReceiveLoopHandlerDispatchBoundary_plan_from_body_result body) = plan"
    using body_of_datagram [where receive = "sio_receive io" and w = w, OF assms(1,2,3,4,6), of registry] unfolding plan_def by auto
  obtain dispatch side_effect w2 out where
    dispatch: "ServerContinuousReceiveLoopBodyDispatchRuntimeBoundary_dispatch_body_result env_var body config
        (rsi_heartbeat_timing input) = Ok dispatch"
    and side: "ServerDispatchRuntimeSideEffectApplyBoundary_apply_body_dispatch_outcome registry dispatch
        = (fst after, side_effect)"
    and out: "ServerDispatchRuntimeOutputApplyBoundary_apply_outputs (sio_auth_log_writer io) side_effect
        (length (soqc_items queue)) (rsi_auth_log_timestamp input) wb = (w2, Ok out)" and kept2: "f w2 = f wb"
    and effect: "side_effect_of (rsi_heartbeat_timing input) plan (ssea_result side_effect)"
    and push: "fst (ServerOutboundQueueCollectionBoundary_push_from_output_apply queue out)
        = queue \<lparr> soqc_items := items \<rparr>"
    using effects_of_datagram [OF plan [unfolded plan_def] assms(5), of env_var config "rsi_heartbeat_timing input"
        "rsi_auth_log_timestamp input" queue wb]
    unfolding effects_def after_def items_def plan by blast
  obtain queue_push where push': "ServerOutboundQueueCollectionBoundary_push_from_output_apply queue out
      = (queue \<lparr> soqc_items := items \<rparr>, queue_push)"
    using push by (metis prod.collapse)
  obtain w3 result where sent: "send_dequeued (sio_send io) (sio_send_log_writer io)
      (case items of [] \<Rightarrow> Dequeue_Empty | item # _ \<Rightarrow> Dequeue_Ready item)
      (rsi_encode_context input) (rsi_send_log_timestamp input) w2 = (w3, result)"
    by fastforce
  have "\<exists>outcome. side_effect_of (rsi_heartbeat_timing input) plan (ssea_result (rso_side_effect outcome)) \<and>
      (\<exists>handler. ror_outcome (rbr_tick (rso_body outcome)) = OneTick_Completed (length bytes) handler) \<and>
      ServerReceiveSendOneIterationRuntimeBoundary_run_once io env_var config input registry queue w =
      ((fst after, queue \<lparr> soqc_items := tl items \<rparr>, w3),
       rmap (\<lambda>(sent, send_log). outcome \<lparr> rso_send := sent, rso_send_log := send_log \<rparr>) result)"
    using body dispatch side out push' sent tick effect
    by (cases result; intro exI [where x = "\<lparr> rso_body = body, rso_dispatch = dispatch,
          rso_side_effect = side_effect, rso_output = out, rso_queue_push = queue_push,
          rso_dequeue = (case items of [] \<Rightarrow> Dequeue_Empty | item # _ \<Rightarrow> Dequeue_Ready item),
          rso_send = None, rso_send_log = None \<rparr>"])
      (auto simp: ServerReceiveSendOneIterationRuntimeBoundary_run_once_def dequeue_one_state split: prod.split)
  with sent kept kept2 show ?thesis by metis
qed

lemma send_dequeued_no_panic:
  assumes "\<And>packet w. snd (send packet w) \<noteq> Panicked" and "writes send_log"
  shows "snd (send_dequeued send send_log dequeue context t w) \<noteq> Panicked"
proof (cases dequeue)
  case (Dequeue_Ready queued)
  obtain w1 r where r: "ServerOutboundSendOneRuntimeBoundary_send_queued send queued context w = (w1, r)"
    by fastforce
  let ?encoded = "OutboundPacketEncoderBoundary_encode_with ProtocolMessageEncoderBoundary_encode_message
      (tick_encode_request (OutboundSendLoopTickBoundary_plan_encode context
        (OutboundQueueLifecycleBoundary_handoff_to_send_layer queued)))"
  have "r \<noteq> Panicked"
  proof (cases ?encoded rule: result_cases)
    case (Ok packet)
    then show ?thesis
      using r assms(1) [of packet w]
      by (cases "send packet w"; cases "snd (send packet w)" rule: result_cases)
        (auto simp: ServerOutboundSendOneRuntimeBoundary_send_queued_def Let_def)
  qed (use r boundary.encode_with_no_panic in
      \<open>auto simp: ServerOutboundSendOneRuntimeBoundary_send_queued_def Let_def\<close>)
  show ?thesis
  proof (cases r rule: result_cases)
    case (Ok sent)
    then show ?thesis
      using r log_lines_written(4) [OF assms(2) [unfolded writes_keeps], of sent t w1]
      by (auto simp: send_dequeued_def Dequeue_Ready)
  next
    case (Error e)
    then show ?thesis
      using r log_lines_written(5) [OF assms(2) [unfolded writes_keeps], of e t w1]
      by (auto simp: send_dequeued_def Dequeue_Ready)
  qed (use \<open>r \<noteq> Panicked\<close> in simp)
qed (simp add: send_dequeued_def)

text \<open>A message in range at the head of the queue leaves as one datagram that decodes to it.\<close>

lemma send_dequeued_delivers:
  assumes "message_wf (ec_protocol_version ec) (op_message (oqi_packet (qoi_item queued)))"
    and "length (message_bytes (op_message (oqi_packet (qoi_item queued)))) < 2 ^ 32"
    and "\<forall>packet w. \<exists>w' n. send packet w = (w', Ok n) \<and> f w' = f w" and "keeps f send_log"
  shows "\<exists>w' sent log. send_dequeued send send_log (Dequeue_Ready queued) ec t w = (w', Ok (Some sent, log)) \<and>
    f w' = f w \<and>
    eop_destination (sso_encoded_packet sent) = op_destination (oqi_packet (qoi_item queued)) \<and>
    (\<forall>source. InboundPacketDecoder_decode \<lparr> dc_expected_protocol_version = ec_protocol_version ec \<rparr>
       \<lparr> ib_source = source, ib_bytes = eop_bytes (sso_encoded_packet sent) \<rparr>
     = Ok \<lparr> dip_source = source, dip_message = op_message (oqi_packet (qoi_item queued)) \<rparr>)"
proof -
  let ?request = "OutboundPacketEncoderBoundary_prepare_encode ec (qoi_item queued)"
  obtain packet where packet: "OutboundPacketEncoderBoundary_encode_with
      ProtocolMessageEncoderBoundary_encode_message ?request = Ok packet"
    and to: "eop_destination packet = op_destination (oqi_packet (qoi_item queued))"
    and decodes: "\<forall>source. InboundPacketDecoder_decode
       \<lparr> dc_expected_protocol_version = ec_protocol_version ec \<rparr>
       \<lparr> ib_source = source, ib_bytes = eop_bytes packet \<rparr>
     = Ok \<lparr> dip_source = source, dip_message = op_message (oqi_packet (qoi_item queued)) \<rparr>"
    using boundary.encode_with_delivers [of ?request] assms(1,2)
    by (auto simp: OutboundPacketEncoderBoundary_prepare_encode_def)
  obtain w1 n where "send packet w = (w1, Ok n)" "f w1 = f w" using assms(3) by blast
  then have "\<exists>w' sent. ServerOutboundSendOneRuntimeBoundary_send_queued send queued ec w = (w', Ok sent) \<and>
      sso_encoded_packet sent = packet \<and> f w' = f w"
    using packet
    by (simp add: ServerOutboundSendOneRuntimeBoundary_send_queued_def Let_def
        OutboundSendLoopTickBoundary_plan_encode_def OutboundQueueLifecycleBoundary_handoff_to_send_layer_def)
  then obtain w2 sent where
    "ServerOutboundSendOneRuntimeBoundary_send_queued send queued ec w = (w2, Ok sent)"
    "sso_encoded_packet sent = packet" "f w2 = f w" by blast
  then show ?thesis
    using log_lines_written(4) [OF assms(4), of sent t w2] to decodes
    by (auto simp: send_dequeued_def)
qed

lemma length_control_reply: "length (message_bytes (op_message (oqi_packet (accepted_response source request)))) < 2 ^ 32"
  if "string_fits (areq_client_id request)" "string_fits (areq_run_id request)"
  using that
  by (simp add: accepted_response_def auth_response_bytes_def string_bytes_def string_fits_def
      option_bytes_def bool_bytes_def)

section \<open>A writer that fails\<close>

text \<open>The same writer, with every failure hidden.\<close>

definition forced :: "'w Writer \<Rightarrow> 'w Writer" where
  "forced writer = (\<lambda>piece w. (fst (writer piece w), Ok ()))"

lemma writes_forced [simp]: "writes (forced writer)"
  by (simp add: writes_def forced_def)

lemma write_pieces_forced:
  "write_pieces writer pieces w = (w', Ok ()) \<Longrightarrow> write_pieces (forced writer) pieces w = (w', Ok ())"
proof (induction pieces arbitrary: w)
  case (Cons piece pieces)
  then obtain w1 where "writer piece w = (w1, Ok ())" "write_pieces writer pieces w1 = (w', Ok ())"
    by (auto simp: io_bind_eq_Ok_iff)
  with Cons.IH show ?case by (simp add: forced_def)
qed simp

lemma write_pieces_no_panic:
  "\<forall>piece w. snd (writer piece w) \<noteq> Panicked \<Longrightarrow> snd (write_pieces writer pieces w) \<noteq> Panicked"
proof (induction pieces arbitrary: w)
  case (Cons piece pieces)
  obtain w1 r where one: "writer piece w = (w1, r)" by fastforce
  then have "r \<noteq> Panicked" using Cons.prems by (metis snd_conv)
  with Cons one show ?case by (cases r rule: result_cases) simp_all
qed simp

text \<open>
  Only the log of auth results is written after the registry has changed: when that fails the turn
  is as it would be with a writer that accepts everything up to this line, and then ends.
\<close>

lemma turn_auth_log_cases:
  fixes io :: "'w ServerIo"
  defines "io' \<equiv> io \<lparr> sio_auth_log_writer := forced (sio_auth_log_writer io) \<rparr>"
  assumes "\<forall>piece w. snd (sio_auth_log_writer io piece w) \<noteq> Panicked"
    and "ServerReceiveSendOneIterationRuntimeBoundary_run_once io' env_var config input registry queue w
      = ((registry', queue', w'), result')"
  obtains "ServerReceiveSendOneIterationRuntimeBoundary_run_once io env_var config input registry queue w
      = ((registry', queue', w'), result')"
  | w'' kind where "\<not> writes (sio_auth_log_writer io)"
      and "ServerReceiveSendOneIterationRuntimeBoundary_run_once io env_var config input registry queue w
        = ((registry', queue, w''), Error (Iteration_OutputApply kind))"
proof -
  let ?auth = "sio_auth_log_writer io"
  let ?apply = "ServerDispatchRuntimeOutputApplyBoundary_apply_outputs"
  have fields: "sio_receive io' = sio_receive io" "sio_send io' = sio_send io"
      "sio_operational_writer io' = sio_operational_writer io" "sio_rejection_writer io' = sio_rejection_writer io"
      "sio_auth_log_writer io' = forced ?auth" "sio_send_log_writer io' = sio_send_log_writer io"
    by (simp_all add: io'_def)
  have same: "?apply ?auth outcome n t w0 = ?apply (forced ?auth) outcome n t w0 \<or>
      \<not> writes ?auth \<and> (\<exists>w1 e. ?apply ?auth outcome n t w0 = (w1, Error e))" for outcome n t w0
  proof (cases "ssea_result outcome")
    case (SideEffect_Auth flow sender summary)
    let ?pieces = "ServerAuthJsonLineWriter_write_event
      (ServerAuthJsonLogEventBoundary_build_event (safo_auth_log_input flow) t)"
    obtain w1 r where pieces: "write_pieces ?auth ?pieces w0 = (w1, r)" by fastforce
    show ?thesis
    proof (cases r rule: result_cases)
      case (Ok u)
      then show ?thesis
        using pieces write_pieces_forced [of ?auth ?pieces w0 w1] SideEffect_Auth
        by (simp add: ServerDispatchRuntimeOutputApplyBoundary_apply_outputs_def
            ServerAuthLogOutputBoundary_write_auth_result_def Let_def)
    next
      case (Error e)
      then have "\<not> writes ?auth"
        using write_pieces_keeps [of "\<lambda>_. ()" ?auth ?pieces w0] pieces by (auto simp: writes_keeps)
      with Error pieces SideEffect_Auth show ?thesis
        by (simp add: ServerDispatchRuntimeOutputApplyBoundary_apply_outputs_def
            ServerAuthLogOutputBoundary_write_auth_result_def Let_def)
    next
      case Panicked
      then show ?thesis using pieces write_pieces_no_panic [OF assms(2), of ?pieces w0] by simp
    qed
  qed (simp_all add: ServerDispatchRuntimeOutputApplyBoundary_apply_outputs_def)
  obtain wb body where body: "ServerContinuousReceiveLoopBodyBoundary_run_once (sio_receive io)
      (sio_operational_writer io) (sio_rejection_writer io) registry (rsi_body input) w = (wb, body)" by fastforce
  note unfolded = ServerReceiveSendOneIterationRuntimeBoundary_run_once_def body
  show ?thesis
  proof (cases "\<exists>b dispatch. body = Ok b \<and>
      ServerContinuousReceiveLoopBodyDispatchRuntimeBoundary_dispatch_body_result env_var b config
        (rsi_heartbeat_timing input) = Ok dispatch")
    case False
    then show ?thesis
      using assms(3) fields
      by (intro that(1)) (auto simp: unfolded split: sum.splits fault.splits)
  next
    case True
    then obtain b dispatch where ok: "body = Ok b" "ServerContinuousReceiveLoopBodyDispatchRuntimeBoundary_dispatch_body_result
        env_var b config (rsi_heartbeat_timing input) = Ok dispatch" by blast
    obtain registry1 effect where side: "ServerDispatchRuntimeSideEffectApplyBoundary_apply_body_dispatch_outcome
        registry dispatch = (registry1, effect)" by fastforce
    consider "?apply ?auth effect (length (soqc_items queue)) (rsi_auth_log_timestamp input) wb =
          ?apply (forced ?auth) effect (length (soqc_items queue)) (rsi_auth_log_timestamp input) wb"
      | w1 e where "\<not> writes ?auth"
          "?apply ?auth effect (length (soqc_items queue)) (rsi_auth_log_timestamp input) wb = (w1, Error e)"
      using same by blast
    then show ?thesis
    proof cases
      case 1
      then show ?thesis using assms(3) fields ok side by (intro that(1)) (simp add: unfolded)
    next
      case (2 w1 e)
      have "registry1 = registry'"
        using assms(3) fields ok side
        by (auto simp: unfolded split: prod.splits sum.splits fault.splits)
      then show ?thesis
        using 2 ok side by (intro that(2) [of w1 "ioe_kind e"]) (simp_all add: unfolded)
    qed
  qed
qed

section \<open>A sample world\<close>

text \<open>A world that records what is sent, and a datagram of one auth request in it.\<close>

definition recording_io :: "PacketSource \<Rightarrow> u8 list \<Rightarrow> EncodedOutboundPacket list ServerIo" where
  "recording_io source bytes =
     \<lparr> sio_receive = (\<lambda>w. (w, Ok (source, bytes))),
       sio_send = (\<lambda>packet w. (w @ [packet], Ok (length (eop_bytes packet)))),
       sio_operational_writer = (\<lambda>_ w. (w, Ok ())), sio_rejection_writer = (\<lambda>_ w. (w, Ok ())),
       sio_auth_log_writer = (\<lambda>_ w. (w, Ok ())), sio_send_log_writer = (\<lambda>_ w. (w, Ok ())) \<rparr>"

definition camera :: PacketSource where
  "camera = \<lparr> src_address = SocketAddrV4 0x0A000001 40000 \<rparr>"

definition camera_request :: AuthRequest where
  "camera_request = \<lparr> areq_message_type = MessageType_AuthRequest, areq_protocol_version = 1,
     areq_client_id = ''cam-1'', areq_run_id = ''run-1'', areq_app_version = ''0.1.0'',
     areq_shared_token = ''t1'', areq_display_name = None, areq_capabilities = [],
     areq_requested_video_profile = None \<rparr>"

definition camera_config :: ServerAuthConfig where
  "camera_config = \<lparr> sac_allowed_clients = [\<lparr> acc_client_id = ''cam-1'', acc_shared_token_id = ''t'' \<rparr>],
     sac_shared_tokens = [\<lparr> stc_token_id = ''t'', stc_secret_ref = EnvironmentVariable ''CAM_1_TOKEN'' \<rparr>] \<rparr>"

definition camera_datagram :: "u8 list" where
  "camera_datagram = packet_of 1 (Message_AuthRequest camera_request) 0 0"

definition turn_input :: ServerReceiveSendOneIterationRuntimeInput where
  "turn_input = \<lparr> rsi_body = \<lparr> rbi_expected_protocol_version = 1, rbi_timestamp = 10, rbi_stop_requested = False \<rparr>,
     rsi_heartbeat_timing = \<lparr> shat_server_received_at = 10, shat_server_sent_at = 11 \<rparr>,
     rsi_encode_context = \<lparr> ec_protocol_version = 1 \<rparr>, rsi_auth_log_timestamp = 12,
     rsi_send_log_timestamp = 13 \<rparr>"

lemma recording_io_ok:
  "sio_receive (recording_io source bytes) w = (w, Ok (source, bytes))"
  "writes (sio_operational_writer (recording_io source bytes))"
  "writes (sio_rejection_writer (recording_io source bytes))"
  "writes (sio_auth_log_writer (recording_io source bytes))"
  "writes (sio_send_log_writer (recording_io source bytes))"
  "\<forall>packet w. snd (sio_send (recording_io source bytes) packet w) \<noteq> Panicked"
  "\<forall>packet w. \<exists>w' n. sio_send (recording_io source bytes) packet w = (w', Ok n)"
  by (simp_all add: recording_io_def writes_def)

lemma camera_decodes:
  "InboundPacketDecoder_decode \<lparr> dc_expected_protocol_version = 1 \<rparr>
     \<lparr> ib_source = camera, ib_bytes = camera_datagram \<rparr>
   = Ok \<lparr> dip_source = camera, dip_message = Message_AuthRequest camera_request \<rparr>"
  "length camera_datagram < usize_bound"
proof -
  have wf: "message_wf 1 (Message_AuthRequest camera_request)"
  proof -
    have "utf8_string (areq_client_id camera_request)" "utf8_string (areq_run_id camera_request)"
      "utf8_string (areq_app_version camera_request)" "utf8_string (areq_shared_token camera_request)"
      by code_simp+
    then show ?thesis
      by (simp add: auth_request_wf_def camera_request_def string_fits_def option_fits_def)
  qed
  have length_request: "length (message_bytes (Message_AuthRequest camera_request)) < 2 ^ 32"
    by (simp add: camera_request_def auth_request_bytes_def string_bytes_def option_bytes_def)
  then show small: "length camera_datagram < usize_bound"
    by (simp add: camera_datagram_def usize_bound_def)
  show "InboundPacketDecoder_decode \<lparr> dc_expected_protocol_version = 1 \<rparr>
     \<lparr> ib_source = camera, ib_bytes = camera_datagram \<rparr>
   = Ok \<lparr> dip_source = camera, dip_message = Message_AuthRequest camera_request \<rparr>"
    using wf small length_request
    by (subst inbound_decode_Ok_iff) (auto simp: camera_datagram_def)
qed

lemma camera_granted: "granted (\<lambda>_. Inl ''t1'') camera_config camera_request"
  unfolding granted_def by code_simp

section \<open>Properties\<close>

text \<open>
  C6: As long as the four log writers accept what is written and no stop is requested, a turn that
  receives a datagram does to the registry and the queue what the specification says, whether or
  not the send that ends the turn succeeds: the registry changes only by a granted auth request,
  and then by its registration; the reply, if one is owed and there is room, goes behind the queue
  and the head of the queue leaves it. Nothing in such a turn panics unless the send itself does.
\<close>

theorem turn_refines_reaction:
  assumes "sio_receive io w = (w1, Ok (source, bytes))" and "length bytes < usize_bound"
    and "writes (sio_operational_writer io)" and "writes (sio_rejection_writer io)"
    and "writes (sio_auth_log_writer io)" and "writes (sio_send_log_writer io)"
    and "\<forall>packet w. snd (sio_send io packet w) \<noteq> Panicked"
    and "\<not> rbi_stop_requested (rsi_body input)"
  shows "\<exists>w' result.
    ServerReceiveSendOneIterationRuntimeBoundary_run_once io env_var config input registry queue w =
      (case datagram_reaction env_var config (rsi_heartbeat_timing input)
          (rbi_expected_protocol_version (rsi_body input)) registry source bytes of
         (registry', reply) \<Rightarrow>
           ((registry', queue \<lparr> soqc_items := tl (enqueue_reply reply (soqc_items queue)) \<rparr>, w'), result)) \<and>
    result \<noteq> Panicked"
proof -
  note turn = turn_of_datagram [where io = io and f = "\<lambda>_. ()", OF assms(1,2) assms(3-5) [unfolded writes_keeps] assms(8), of env_var config registry queue]
  show ?thesis
    using turn send_dequeued_no_panic [where send = "sio_send io" and send_log = "sio_send_log_writer io"] assms(6,7)
    by (fastforce simp: case_prod_unfold rmap_eq_Inl_iff dest: arg_cong [where f = snd])
qed

lemma turn_refines_reaction_witness:
  "\<exists>w' result. ServerReceiveSendOneIterationRuntimeBoundary_run_once
      (recording_io camera camera_datagram) (\<lambda>_. Inl ''t1'') camera_config turn_input
      AuthenticatedSenderRegistry_default \<lparr> soqc_items = [] \<rparr> []
    = ((fst (AuthenticatedSenderRegistryBoundary_register_with_summary AuthenticatedSenderRegistry_default
          (registration_of camera camera_request)), \<lparr> soqc_items = [] \<rparr>, w'), result)"
proof -
  note turn = turn_refines_reaction [where io = "recording_io camera camera_datagram" and w = "[]",
      OF recording_io_ok(1) camera_decodes(2) recording_io_ok(2-6), of turn_input "\<lambda>_. Inl ''t1''" camera_config
      AuthenticatedSenderRegistry_default "\<lparr> soqc_items = [] \<rparr>"]
  show ?thesis
    using turn
    by (auto simp: turn_input_def datagram_reaction_def camera_decodes(1) ServerInboundRouter_route_def
        camera_granted enqueue_reply_def)
qed

text \<open>
  A granted request while every writer accepts what is written.
\<close>

lemma granted_request_answered:
  assumes "sio_receive io w = (w1, Ok (source, bytes))" and "length bytes < usize_bound"
    and "writes (sio_operational_writer io)" and "writes (sio_rejection_writer io)"
    and "writes (sio_auth_log_writer io)" and "writes (sio_send_log_writer io)"
    and "\<forall>packet w. \<exists>w' n. sio_send io packet w = (w', Ok n)"
    and "\<not> rbi_stop_requested (rsi_body input)"
    and "rsi_encode_context input = \<lparr> ec_protocol_version = rbi_expected_protocol_version (rsi_body input) \<rparr>"
    and "InboundPacketDecoder_decode \<lparr> dc_expected_protocol_version = rbi_expected_protocol_version (rsi_body input) \<rparr>
        \<lparr> ib_source = source, ib_bytes = bytes \<rparr>
      = Ok \<lparr> dip_source = source, dip_message = Message_AuthRequest request \<rparr>"
    and "granted env_var config request" and "registry_ok registry" and "soqc_items queue = []"
  shows "\<exists>registry' w' out sent response.
    ServerReceiveSendOneIterationRuntimeBoundary_run_once io env_var config input registry queue w
      = ((registry', queue, w'), Ok out) \<and>
    registered registry' (areq_client_id request) (areq_run_id request) source \<and>
    rso_send out = Some sent \<and>
    eop_destination (sso_encoded_packet sent) = \<lparr> dst_address = src_address source \<rparr> \<and>
    (\<forall>server. InboundPacketDecoder_decode
        \<lparr> dc_expected_protocol_version = rbi_expected_protocol_version (rsi_body input) \<rparr>
        \<lparr> ib_source = server, ib_bytes = eop_bytes (sso_encoded_packet sent) \<rparr>
      = Ok \<lparr> dip_source = server, dip_message = Message_AuthResponse response \<rparr>) \<and>
    aresp_accepted response \<and> aresp_reason_code response = ReasonCode_Ok \<and>
    aresp_client_id response = areq_client_id request \<and> aresp_run_id response = areq_run_id request"
proof -
  let ?version = "rbi_expected_protocol_version (rsi_body input)"
  let ?item = "OutboundQueueLifecycleBoundary_hold_for_send (accepted_response source request)"
  have reaction: "datagram_reaction env_var config (rsi_heartbeat_timing input) ?version registry source bytes
      = (fst (AuthenticatedSenderRegistryBoundary_register_with_summary registry (registration_of source request)),
         Some (accepted_response source request))"
    using assms(10,11) by (simp add: datagram_reaction_def ServerInboundRouter_route_def)
  have "message_wf ?version (Message_AuthRequest request)"
    using assms(2,10) inbound_decode_Ok_iff [of "\<lparr> ib_source = source, ib_bytes = bytes \<rparr>"] by simp
  then have fits: "areq_protocol_version request = ?version" "string_fits (areq_client_id request)"
      "string_fits (areq_run_id request)"
    by (simp_all add: auth_request_wf_def)
  have item: "qoi_item ?item = accepted_response source request"
    by (simp add: OutboundQueueLifecycleBoundary_hold_for_send_def)
  have wf: "message_wf ?version (op_message (oqi_packet (accepted_response source request)))"
    using fits by (simp add: accepted_response_def auth_response_wf_def option_fits_def)
  have sending: "\<exists>w' sent log. send_dequeued (sio_send io) (sio_send_log_writer io) (Dequeue_Ready ?item)
      (rsi_encode_context input) t w = (w', Ok (Some sent, log)) \<and>
    eop_destination (sso_encoded_packet sent) = \<lparr> dst_address = src_address source \<rparr> \<and>
    (\<forall>server. InboundPacketDecoder_decode \<lparr> dc_expected_protocol_version = ?version \<rparr>
       \<lparr> ib_source = server, ib_bytes = eop_bytes (sso_encoded_packet sent) \<rparr>
     = Ok \<lparr> dip_source = server, dip_message = op_message (oqi_packet (accepted_response source request)) \<rparr>)" for t w
    using send_dequeued_delivers [where f = "\<lambda>_. ()" and queued = "?item" and ec = "rsi_encode_context input"
        and send = "sio_send io" and send_log = "sio_send_log_writer io" and t = t and w = w]
      wf length_control_reply [OF fits(2,3)] assms(6) [unfolded writes_keeps] assms(7,9)
    by (simp add: item) (simp add: accepted_response_def)
  have "registered (fst (AuthenticatedSenderRegistryBoundary_register_with_summary registry
      (registration_of source request))) (areq_client_id request) (areq_run_id request) source"
    by (simp add: registered_def registry.get_register [OF assms(12)] registration_of_def
        AuthenticatedSenderRegistration_into_entry_def)
  moreover obtain w2 w3 result outcome where
      sent: "send_dequeued (sio_send io) (sio_send_log_writer io) (Dequeue_Ready ?item)
        (rsi_encode_context input) (rsi_send_log_timestamp input) w2 = (w3, result)"
    and run: "ServerReceiveSendOneIterationRuntimeBoundary_run_once io env_var config input registry queue w =
      ((fst (AuthenticatedSenderRegistryBoundary_register_with_summary registry (registration_of source request)),
        queue, w3), rmap (\<lambda>(sent, send_log). outcome \<lparr> rso_send := sent, rso_send_log := send_log \<rparr>) result)"
    using turn_of_datagram [where io = io and f = "\<lambda>_. ()", OF assms(1,2) assms(3-5) [unfolded writes_keeps] assms(8), of env_var config registry queue] assms(13)
    by (auto simp: reaction enqueue_reply_def)
  moreover obtain packet log where "result = Ok (Some packet, log)"
    and "eop_destination (sso_encoded_packet packet) = \<lparr> dst_address = src_address source \<rparr>"
    and "\<forall>server. InboundPacketDecoder_decode \<lparr> dc_expected_protocol_version = ?version \<rparr>
        \<lparr> ib_source = server, ib_bytes = eop_bytes (sso_encoded_packet packet) \<rparr>
      = Ok \<lparr> dip_source = server, dip_message = op_message (oqi_packet (accepted_response source request)) \<rparr>"
    using sending [of "rsi_send_log_timestamp input" w2] sent by auto
  ultimately show ?thesis
    by (auto simp: accepted_response_def)
qed

text \<open>
  C7: A client whose auth request is granted is registered in the same turn, with the address and
  run of the request, and gets its answer when nothing waits before it: one datagram goes to the
  address the request came from and decodes to an accepting response for the client and run of the
  request. The operational, rejection and send logs and the send are taken not to fail. The auth
  log may: the turn fails only if it does, and then the client is registered all the same, but its
  answer is not queued.
\<close>

theorem granted_request_is_answered:
  assumes "sio_receive io w = (w1, Ok (source, bytes))" and "length bytes < usize_bound"
    and "writes (sio_operational_writer io)" and "writes (sio_rejection_writer io)"
    and "\<forall>piece w. snd (sio_auth_log_writer io piece w) \<noteq> Panicked" and "writes (sio_send_log_writer io)"
    and "\<forall>packet w. \<exists>w' n. sio_send io packet w = (w', Ok n)"
    and "\<not> rbi_stop_requested (rsi_body input)"
    and "rsi_encode_context input = \<lparr> ec_protocol_version = rbi_expected_protocol_version (rsi_body input) \<rparr>"
    and "InboundPacketDecoder_decode \<lparr> dc_expected_protocol_version = rbi_expected_protocol_version (rsi_body input) \<rparr>
        \<lparr> ib_source = source, ib_bytes = bytes \<rparr>
      = Ok \<lparr> dip_source = source, dip_message = Message_AuthRequest request \<rparr>"
    and "granted env_var config request" and "registry_ok registry" and "soqc_items queue = []"
  shows "\<exists>registry' w' result.
    ServerReceiveSendOneIterationRuntimeBoundary_run_once io env_var config input registry queue w
      = ((registry', queue, w'), result) \<and>
    registered registry' (areq_client_id request) (areq_run_id request) source \<and>
    (case result of
       Inr out \<Rightarrow> \<exists>sent response. rso_send out = Some sent \<and>
         eop_destination (sso_encoded_packet sent) = \<lparr> dst_address = src_address source \<rparr> \<and>
         (\<forall>server. InboundPacketDecoder_decode
             \<lparr> dc_expected_protocol_version = rbi_expected_protocol_version (rsi_body input) \<rparr>
             \<lparr> ib_source = server, ib_bytes = eop_bytes (sso_encoded_packet sent) \<rparr>
           = Ok \<lparr> dip_source = server, dip_message = Message_AuthResponse response \<rparr>) \<and>
         aresp_accepted response \<and> aresp_reason_code response = ReasonCode_Ok \<and>
         aresp_client_id response = areq_client_id request \<and> aresp_run_id response = areq_run_id request
     | Inl failure \<Rightarrow> \<not> writes (sio_auth_log_writer io) \<and> (\<exists>kind. failure = Err (Iteration_OutputApply kind)))"
proof -
  let ?io = "io \<lparr> sio_auth_log_writer := forced (sio_auth_log_writer io) \<rparr>"
  obtain registry' w' out sent response where
    run: "ServerReceiveSendOneIterationRuntimeBoundary_run_once ?io env_var config input registry queue w
      = ((registry', queue, w'), Ok out)"
    and rest: "registered registry' (areq_client_id request) (areq_run_id request) source" "rso_send out = Some sent"
    "eop_destination (sso_encoded_packet sent) = \<lparr> dst_address = src_address source \<rparr>"
    "\<forall>server. InboundPacketDecoder_decode
        \<lparr> dc_expected_protocol_version = rbi_expected_protocol_version (rsi_body input) \<rparr>
        \<lparr> ib_source = server, ib_bytes = eop_bytes (sso_encoded_packet sent) \<rparr>
      = Ok \<lparr> dip_source = server, dip_message = Message_AuthResponse response \<rparr>"
    "aresp_accepted response" "aresp_reason_code response = ReasonCode_Ok"
    "aresp_client_id response = areq_client_id request" "aresp_run_id response = areq_run_id request"
    using granted_request_answered [of ?io w w1 source bytes input request env_var config registry queue] assms
    by auto
  show ?thesis
    by (rule turn_auth_log_cases [OF assms(5) run]) (use rest in auto)
qed

text \<open>A writer that never accepts anything: the client is registered, and not answered.\<close>

definition closed_log_io :: "EncodedOutboundPacket list ServerIo" where
  "closed_log_io = (recording_io camera camera_datagram) \<lparr> sio_auth_log_writer :=
     (\<lambda>_ w. (w, Error \<lparr> ioe_kind = Kind_BrokenPipe, ioe_message = ''closed'' \<rparr>)) \<rparr>"

lemma granted_request_is_answered_witness:
  "\<exists>registry' w' result. ServerReceiveSendOneIterationRuntimeBoundary_run_once closed_log_io
      (\<lambda>_. Inl ''t1'') camera_config turn_input
      AuthenticatedSenderRegistry_default \<lparr> soqc_items = [] \<rparr> [] = ((registry', \<lparr> soqc_items = [] \<rparr>, w'), result) \<and>
    registered registry' ''cam-1'' ''run-1'' camera"
proof -
  have io: "sio_receive closed_log_io [] = ([], Ok (camera, camera_datagram))"
    "writes (sio_operational_writer closed_log_io)" "writes (sio_rejection_writer closed_log_io)"
    "\<forall>piece w. snd (sio_auth_log_writer closed_log_io piece w) \<noteq> Panicked"
    "writes (sio_send_log_writer closed_log_io)"
    "\<forall>packet w. \<exists>w' n. sio_send closed_log_io packet w = (w', Ok n)"
    using recording_io_ok [of camera camera_datagram] by (simp_all add: closed_log_io_def)
  have input: "\<not> rbi_stop_requested (rsi_body turn_input)"
    "rsi_encode_context turn_input = \<lparr> ec_protocol_version = rbi_expected_protocol_version (rsi_body turn_input) \<rparr>"
    "rbi_expected_protocol_version (rsi_body turn_input) = 1"
    by (simp_all add: turn_input_def)
  have ids: "areq_client_id camera_request = ''cam-1''" "areq_run_id camera_request = ''run-1''"
    by (simp_all add: camera_request_def)
  show ?thesis
    using granted_request_is_answered [OF io(1) camera_decodes(2) io(2-6) input(1,2) camera_decodes(1) [folded input(3)]
        camera_granted registry_ok_default, of "\<lparr> soqc_items = [] \<rparr>"]
    unfolding ids by auto
qed

end
