(* ===== verification/Json_Roundtrip.thy ===== *)
theory Json_Roundtrip
  imports Server_Json
begin

text \<open>
  The reader of JSON reads back what the writers of fields write: strings with any characters,
  numbers, and objects of them. So a value in a log line can not end its field, and a line can
  not be split by a line feed in a value.
\<close>

section \<open>Characters of valid strings\<close>

lemma utf8_string_Nil [simp]: "utf8_string []"
  by (simp add: utf8_string_def as_bytes_def)

lemma as_bytes_drop: "as_bytes (drop n s) = drop n (as_bytes s)"
  by (simp add: as_bytes_def drop_map)

lemma utf8_string_step:
  "s \<noteq> [] \<Longrightarrow> utf8_string s \<longleftrightarrow>
     utf8_char_len (as_bytes s) \<noteq> 0 \<and> utf8_string (drop (utf8_char_len (as_bytes s)) s)"
  unfolding utf8_string_def as_bytes_drop
  by (subst utf8_valid.simps) (simp add: as_bytes_def)

lemma byte_le_char: "word_of_nat n \<le> (word_of_nat (of_char c) :: u8) \<longleftrightarrow> n \<le> of_char c" if "n < 256"
  using that by (simp add: word_le_nat_alt unat_of_nat)

text \<open>A character of more than one byte has only bytes above the ASCII range.\<close>

lemma wide_char_bytes:
  assumes "utf8_char_len (as_bytes s) = n" and "2 \<le> n"
  shows "n \<le> length s" and "list_all (\<lambda>c. 0x80 \<le> (of_char c :: nat)) (take n s)"
proof -
  obtain c cs where s: "s = c # cs" using assms by (cases s) (auto simp: as_bytes_def)
  let ?b = "word_of_nat (of_char c) :: u8"
  have width: "utf8_width ?b = n" "n \<le> length s" "utf8_second_ok ?b (hd (as_bytes cs))"
      "list_all utf8_cont (take (n - 2) (tl (as_bytes cs)))"
    using assms by (auto simp: s as_bytes_def split: if_splits)
  then show "n \<le> length s" by simp
  obtain d ds where cs: "cs = d # ds" using width(2) assms(2) by (cases cs) (auto simp: s)
  have first: "0x80 \<le> (of_char c :: nat)"
    using width(1) assms(2) by (auto simp: utf8_width_def word_less_nat_alt unat_of_nat split: if_splits)
  have "(0x80 :: u8) \<le> word_of_nat (of_char d)"
    using width(3) by (auto simp: cs as_bytes_def utf8_second_ok_def utf8_cont_def split: if_splits
        elim: order_trans [rotated])
  then have second: "0x80 \<le> (of_char d :: nat)" by (simp add: word_le_nat_alt unat_of_nat)
  have rest: "list_all (\<lambda>c. 0x80 \<le> (of_char c :: nat)) (take (n - 2) ds)"
    using width(4) by (auto simp: cs as_bytes_def utf8_cont_def list_all_iff take_map word_le_nat_alt unat_of_nat)
  show "list_all (\<lambda>c. 0x80 \<le> (of_char c :: nat)) (take n s)"
    using first second rest assms(2) by (simp add: s cs take_Cons' numeral_2_eq_2)
qed

section \<open>Strings\<close>

lemma append_Cons_fun: "(@) [x] = Cons x"
  by (rule ext) simp

lemma read_plain:
  "list_all (\<lambda>c. 0x20 \<le> (of_char c :: nat) \<and> c \<noteq> QUOTE \<and> c \<noteq> BACKSLASH) ps \<Longrightarrow>
     read_string (ps @ s) = map_option (apfst (append ps)) (read_string s)"
  by (induction ps) (auto simp: option.map_comp comp_def apfst_def map_prod_def case_prod_unfold option.map_ident)

lemma of_char_hex_digit: "n < 16 \<Longrightarrow> unhex (hex_digit n) = n"
  by (simp add: unhex_def hex_digit_def Let_def)

lemma read_escaped:
  assumes "b < 256"
  shows "read_string (BACKSLASH # ''u'' @ hex4_byte (char_of b) @ s) =
    map_option (apfst (append (utf8_of_byte b))) (read_string s)"
  using assms by (simp add: hex4_byte_def of_char_hex_digit)

lemma read_character:
  assumes "utf8_char_len (as_bytes s) = n" and "0 < n"
  shows "read_string (write_json_char (take n s) @ r) = map_option (apfst (append (take n s))) (read_string r)"
proof (cases "n = 1")
  case True
  obtain c cs where s: "s = c # cs" using assms by (cases s) (auto simp: as_bytes_def)
  have ascii: "of_char c < (128 :: nat)"
  proof -
    have "utf8_char_len (word_of_nat (of_char c) # as_bytes cs) = 1"
      using assms(1) unfolding True s by (simp add: as_bytes_def)
    then have "utf8_width (word_of_nat (of_char c)) = 1"
      unfolding utf8_char_len.simps by presburger
    then show ?thesis
      by (simp add: utf8_width_def word_less_nat_alt unat_of_nat split: if_splits)
  qed
  show ?thesis
  proof (cases "c \<in> {QUOTE, BACKSLASH, CHR 0x0A, CHR 0x0D, CHR 0x09}")
    case True
    then show ?thesis
      using \<open>n = 1\<close> by (auto simp: s write_json_char_def is_control_def apfst_def append_Cons_fun)
  next
    case False
    show ?thesis
    proof (cases "is_control [c]")
      case True
      have "utf8_of_byte (of_char c) = [c]" using ascii by (simp add: utf8_of_byte_def)
      then show ?thesis
        using False True \<open>n = 1\<close> read_escaped [of "of_char c" r] ascii
        by (simp add: s write_json_char_def)
    next
      case plain: False
      then have "32 \<le> (of_char c :: nat)" by (auto simp: is_control_def not_less)
      then show ?thesis
        using False plain \<open>n = 1\<close> read_plain [of "[c]" r] by (simp add: s write_json_char_def)
    qed
  qed
next
  case False
  then have n: "2 \<le> n" using assms(2) by simp
  note wide = wide_char_bytes [OF assms(1) n]
  have many: "take n s \<noteq> [c]" for c
  proof
    assume "take n s = [c]"
    then have "length (take n s) = 1" by simp
    then show False using wide(1) n by simp
  qed
  have high: "list_all (\<lambda>c. 0x20 \<le> (of_char c :: nat) \<and> c \<noteq> QUOTE \<and> c \<noteq> BACKSLASH) (take n s)"
    using wide(2) by (auto simp: list_all_iff)
  show ?thesis
  proof (cases "is_control (take n s)")
    case True
    then obtain d where d: "take n s = [CHR 0xC2, d]" "0x80 \<le> (of_char d :: nat)" "of_char d < (0xA0 :: nat)"
      using many by (auto simp: is_control_def)
    have "utf8_of_byte (of_char d) = take n s"
    proof -
      have two: "(of_char d :: nat) div 64 = 2" by (rule div_nat_eqI) (use d(2,3) in simp_all)
      then have "0x80 + (of_char d :: nat) mod 64 = of_char d"
        using div_mult_mod_eq [of "of_char d :: nat" 64] by simp
      moreover note char_of_194
      ultimately show ?thesis using d two by (simp add: utf8_of_byte_def)
    qed
    then show ?thesis
      using True d(1) read_escaped [of "of_char d" r] d(3) by (simp add: write_json_char_def)
  next
    case False
    then have "write_json_char (take n s) = take n s"
      using many by (auto simp: write_json_char_def)
    then show ?thesis using read_plain [OF high] by simp
  qed
qed

lemma read_written_string:
  "utf8_string s \<Longrightarrow> read_string (concat (map write_json_char (chars s)) @ QUOTE # r) = Some (s, r)"
proof (induction s rule: chars.induct)
  case (1 s)
  show ?case
  proof (cases "s = []")
    case True
    then show ?thesis by (simp add: chars.simps)
  next
    case False
    let ?n = "utf8_char_len (as_bytes s)"
    have n: "0 < ?n" "utf8_string (drop ?n s)" using 1(2) utf8_string_step [OF False] by auto
    have "chars s = take ?n s # chars (drop ?n s)"
      using False n(1) by (subst chars.simps) (simp add: Let_def max_def)
    then show ?thesis
      using read_character [OF refl n(1)] 1(1) [OF False refl] n False by (simp add: max_def)
  qed
qed

section \<open>Numbers\<close>

lemma digits_of_display: "list_all is_digit (display_nat n)" "display_nat n \<noteq> []"
proof -
  have digit: "is_digit (char_of (48 + k))" if "k < 10" for k :: nat
    using that by (simp add: is_digit_def)
  show "list_all is_digit (display_nat n)"
    by (induction n rule: display_nat.induct) (subst display_nat.simps, simp add: digit)
  show "display_nat n \<noteq> []" by (subst display_nat.simps) simp
qed

lemma read_display: "read_number (display_nat n) = n"
proof (induction n rule: display_nat.induct)
  case (1 n)
  then show ?case
    by (subst display_nat.simps) (auto simp: read_number_def)
qed

section \<open>Values\<close>

text \<open>
  How the writers spell a value: the strings are theirs, a number and a literal are what
  \<open>write!\<close> shows, members are separated by commas.
\<close>

definition print_string :: "string \<Rightarrow> string" where
  "print_string s = concat (write_json_string s)"

fun json_print :: "json \<Rightarrow> string" and members_print :: "(string \<times> json) list \<Rightarrow> string" where
  "json_print JNull = ''null''"
| "json_print (JBool b) = display_bool b"
| "json_print (JNum n) = display_nat n"
| "json_print (JStr s) = print_string s"
| "json_print (JObj ms) = ''{'' @ members_print ms @ ''}''"
| "members_print [] = []"
| "members_print ((k, v) # ms) =
     [QUOTE] @ k @ [QUOTE] @ '':'' @ json_print v @ (if ms = [] then [] else '','' @ members_print ms)"

text \<open>A key that needs no escape, and values made of UTF-8 strings and objects with members.\<close>

definition plain_key :: "string \<Rightarrow> bool" where
  "plain_key k \<longleftrightarrow> list_all (\<lambda>c. 0x20 \<le> (of_char c :: nat) \<and> c \<noteq> QUOTE \<and> c \<noteq> BACKSLASH) k"

fun json_ok :: "json \<Rightarrow> bool" and members_ok :: "(string \<times> json) list \<Rightarrow> bool" where
  "json_ok (JStr s) \<longleftrightarrow> utf8_string s"
| "json_ok (JObj ms) \<longleftrightarrow> ms \<noteq> [] \<and> members_ok ms"
| "json_ok _ \<longleftrightarrow> True"
| "members_ok [] \<longleftrightarrow> True"
| "members_ok ((k, v) # ms) \<longleftrightarrow> plain_key k \<and> json_ok v \<and> members_ok ms"

lemma read_print_string:
  "utf8_string s \<Longrightarrow> \<exists>t. print_string s = QUOTE # t \<and> (\<forall>r. read_string (t @ r) = Some (s, r))"
  by (simp add: print_string_def write_json_string_def read_written_string)

lemma read_key: "plain_key k \<Longrightarrow> read_string (k @ QUOTE # r) = Some (k, r)"
  unfolding plain_key_def by (simp add: read_plain)

definition stops :: "string \<Rightarrow> bool" where
  "stops r \<longleftrightarrow> (case r of [] \<Rightarrow> True | c # _ \<Rightarrow> \<not> is_digit c)"

lemma read_print:
  "json_ok v \<Longrightarrow> stops r \<Longrightarrow> length (json_print v) \<le> n \<Longrightarrow>
     read_json n (json_print v @ r) = Some (v, r)"
  "members_ok ms \<Longrightarrow> ms \<noteq> [] \<Longrightarrow> length (members_print ms) \<le> n \<Longrightarrow>
     read_members n (members_print ms @ ''}'' @ r) = Some (ms, r)"
proof (induction v and ms arbitrary: n r and n r rule: json_print_members_print.induct)
  case 1
  then show ?case by (cases n) (simp_all add: is_digit_def)
next
  case (2 b)
  then show ?case by (cases n; cases b) (auto simp: is_digit_def display_bool_def)
next
  case (3 k)
  obtain c cs where c: "display_nat k = c # cs" "is_digit c" "list_all is_digit cs"
    using digits_of_display [of k] by (cases "display_nat k") auto
  then have "c \<noteq> QUOTE" "c \<noteq> CHR ''{''" by (auto simp: is_digit_def)
  moreover have "takeWhile is_digit (display_nat k @ r) = display_nat k"
      "dropWhile is_digit (display_nat k @ r) = r"
    using digits_of_display(1) [of k] 3(2)
    by (auto simp: list_all_iff stops_def takeWhile_append dropWhile_append split: list.splits)
  ultimately show ?case
    using 3(3) c read_display [of k] by (cases n) simp_all
next
  case (4 s)
  then obtain t where "print_string s = QUOTE # t" "read_string (t @ r) = Some (s, r)"
    using read_print_string [of s] by auto
  with 4 show ?case by (cases n) simp_all
next
  case (5 ms)
  then show ?case by (cases n) (auto simp: is_digit_def)
next
  case (7 k v ms)
  then show ?case
    by (cases n) (auto simp: read_key stops_def is_digit_def)
qed simp

section \<open>Lines\<close>

lemma read_printed_line:
  assumes "members_ok ms" and "ms \<noteq> []"
  shows "read_line (json_print (JObj ms) @ [CHR 0x0A]) = Some ms"
  using read_print(1) [of "JObj ms" "[CHR 0x0A]" "length (json_print (JObj ms) @ [CHR 0x0A])"] assms
  by (simp add: read_line_def stops_def is_digit_def)

lemma no_line_feed_char:
  assumes "utf8_char_len (as_bytes s) = n" and "0 < n"
  shows "CHR 0x0A \<notin> set (write_json_char (take n s))"
proof -
  have digit: "hex_digit k \<noteq> CHR 0x0A" if "k < 16" for k
    using that by (auto simp: hex_digit_def dest!: arg_cong [where f = "of_char :: char \<Rightarrow> nat"])
  have escape: "CHR 0x0A \<notin> set (hex4_byte b)" for b
  proof -
    have "(of_char b :: nat) div 16 < 16"
      by (rule less_mult_imp_div_less) simp
    then show ?thesis using digit [of "of_char b div 16"] digit [of "of_char b mod 16"] by (auto simp: hex4_byte_def)
  qed
  show ?thesis
  proof (cases "n = 1")
    case True
    obtain c cs where "s = c # cs" using assms by (cases s) (auto simp: as_bytes_def)
    with True show ?thesis using escape by (auto simp: write_json_char_def)
  next
    case False
    then have "list_all (\<lambda>c. 0x80 \<le> (of_char c :: nat)) (take n s)"
      using wide_char_bytes(2) [OF assms(1)] assms(2) by simp
    then have "CHR 0x0A \<notin> set (take n s)" by (auto simp: list_all_iff)
    then show ?thesis using escape by (auto simp: write_json_char_def)
  qed
qed

lemma no_line_feed_string: "utf8_string s \<Longrightarrow> CHR 0x0A \<notin> set (print_string s)"
proof -
  have "utf8_string s \<Longrightarrow> CHR 0x0A \<notin> set (concat (map write_json_char (chars s)))"
  proof (induction s rule: chars.induct)
    case (1 s)
    show ?case
    proof (cases "s = []")
      case True
      then show ?thesis by (simp add: chars.simps)
    next
      case False
      let ?n = "utf8_char_len (as_bytes s)"
      have n: "0 < ?n" "utf8_string (drop ?n s)" using 1(2) utf8_string_step [OF False] by auto
      have "chars s = take ?n s # chars (drop ?n s)"
        using False n(1) by (subst chars.simps) (simp add: Let_def max_def)
      then show ?thesis
        using no_line_feed_char [OF refl n(1)] 1(1) [OF False refl] n False by (simp add: max_def)
    qed
  qed
  then show "utf8_string s \<Longrightarrow> CHR 0x0A \<notin> set (print_string s)"
    by (auto simp: print_string_def write_json_string_def)
qed

lemma no_line_feed:
  "json_ok v \<Longrightarrow> CHR 0x0A \<notin> set (json_print v)"
  "members_ok ms \<Longrightarrow> CHR 0x0A \<notin> set (members_print ms)"
proof (induction v and ms rule: json_print_members_print.induct)
  case (2 b)
  then show ?case by (simp add: display_bool_def)
next
  case (3 n)
  have "\<not> is_digit (CHR 0x0A)" by (simp add: is_digit_def)
  moreover have "\<forall>c \<in> set (display_nat n). is_digit c"
    using digits_of_display(1) unfolding list_all_iff .
  ultimately show ?case by auto
next
  case (4 s)
  then show ?case by (simp add: no_line_feed_string)
next
  case (7 k v ms)
  have ok: "plain_key k" "json_ok v" "members_ok ms" using 7(3) by simp_all
  have "CHR 0x0A \<notin> set k"
  proof
    assume "CHR 0x0A \<in> set k"
    then have "0x20 \<le> (of_char (CHR 0x0A) :: nat)" using ok(1) unfolding plain_key_def list_all_iff by blast
    then show False by simp
  qed
  moreover have "CHR 0x0A \<notin> set (json_print v)" by (rule 7(1) [OF ok(2)])
  moreover have "CHR 0x0A \<notin> set (members_print ms)" using 7(2) ok(3) by (cases "ms = []") simp_all
  ultimately show ?case by simp
qed simp_all

section \<open>What the field writers print\<close>

definition optional_string :: "string option \<Rightarrow> json" where
  "optional_string value = (case value of Some s \<Rightarrow> JStr s | None \<Rightarrow> JNull)"

definition optional_number :: "nat option \<Rightarrow> json" where
  "optional_number value = (case value of Some n \<Rightarrow> JNum n | None \<Rightarrow> JNull)"

named_theorems field_prints \<open>the text of each field writer\<close>

lemma print_of_fields [field_prints]:
  "concat (write_json_field k v) = [QUOTE] @ k @ [QUOTE] @ '':'' @ json_print (JStr v)"
  "concat (write_optional_json_field k x) = [QUOTE] @ k @ [QUOTE] @ '':'' @ json_print (optional_string x)"
  "json_literal k t = [QUOTE] @ k @ [QUOTE] @ '':'' @ t"
  "concat (write_optional_number k n) = '','' @ [QUOTE] @ k @ [QUOTE] @ '':'' @ json_print (optional_number n)"
  by (simp_all add: write_json_field_def write_optional_json_field_def json_literal_def print_string_def
      write_optional_number_def optional_string_def optional_number_def split: option.split)

lemma optional_ok [simp]:
  "json_ok (optional_string x) \<longleftrightarrow> (case x of Some s \<Rightarrow> utf8_string s | None \<Rightarrow> True)"
  "json_ok (optional_number n)"
  by (simp_all add: optional_string_def optional_number_def split: option.split)

definition ascii :: "string \<Rightarrow> bool" where
  "ascii s \<longleftrightarrow> list_all (\<lambda>c. (of_char c :: nat) < 0x80) s"

lemma ascii_utf8: "ascii s \<Longrightarrow> utf8_string s"
  unfolding ascii_def by (rule utf8_string_ascii)

lemma ascii_simps [simp]:
  "ascii []" "ascii (c # s) \<longleftrightarrow> (of_char c :: nat) < 0x80 \<and> ascii s" "ascii (s @ t) \<longleftrightarrow> ascii s \<and> ascii t"
  by (simp_all add: ascii_def)

lemma ascii_digits: "ascii (display_nat n)" "ascii (display_u64 w)"
proof -
  have "ascii (display_nat n)" for n
    using digits_of_display(1) [of n] by (auto simp: ascii_def is_digit_def list_all_iff)
  then show "ascii (display_nat n)" "ascii (display_u64 w)" by (simp_all add: display_u64_def)
qed

lemma ascii_join: "ascii sep \<Longrightarrow> list_all ascii parts \<Longrightarrow> ascii (join sep parts)"
proof -
  have "ascii sep \<Longrightarrow> list_all ascii ps \<Longrightarrow> ascii (concat (map (\<lambda>q. sep @ q) ps))" for ps
    by (induction ps) simp_all
  then show "ascii sep \<Longrightarrow> list_all ascii parts \<Longrightarrow> ascii (join sep parts)"
    by (cases parts) (simp_all add: join_def)
qed

lemma ascii_hex: "ascii (hex_nat n)"
proof (induction n rule: hex_nat.induct)
  case (1 n)
  have "(of_char (hex_digit k) :: nat) < 0x80" if "k < 16" for k
    using that by (simp add: hex_digit_def)
  then show ?case using 1 by (subst hex_nat.simps) simp
qed

lemma ascii_address: "ascii (display_address a)"
proof (cases a)
  case (SocketAddrV4 ip port)
  then show ?thesis by (simp add: display_ipv4_def ascii_join ascii_digits list_all_iff)
next
  case (SocketAddrV6 ip port flowinfo scope_id)
  have "ascii (join '':'' (map hex_nat xs))" for xs
    by (rule ascii_join) (simp_all add: list_all_iff ascii_hex)
  then show ?thesis
    by (simp add: SocketAddrV6 display_ipv6_def display_ipv4_def Let_def ascii_join ascii_digits list_all_iff
        case_prod_unfold)
qed

end
