(* ===== verification/Server_Log_Lines.thy ===== *)
theory Server_Log_Lines
  imports Json_Roundtrip Server_Send_Log
begin

text \<open>
  Each line of the server's logs, apps/server/src/lib.rs, as the JSON object it is meant to be,
  and the proof that a reader of the line finds exactly the members of that object, whatever ids
  and messages clients send.
\<close>

section \<open>The objects\<close>

abbreviation text_member :: "string \<Rightarrow> string \<Rightarrow> string \<times> json" where
  "text_member k s \<equiv> (k, JStr s)"

definition receive_members :: "ServerReceiveLoopJsonLogEventInput \<Rightarrow> (string \<times> json) list" where
  "receive_members event =
     [(''event_name'', JStr (srle_event_name event)),
      (''source'', JStr (display_address (src_address (srle_source event)))),
      (''outcome'', JStr (receive_loop_log_outcome_name (srle_outcome event))),
      (''packet_len'', JNum (srle_packet_len event)),
      (''message_type'', optional_string (map_option receive_rejection_message_type_name (srle_message_type event))),
      (''client_id'', optional_string (srle_client_id event)),
      (''rejection_reason'', optional_string (map_option receive_rejection_reason_name (srle_rejection_reason event))),
      (''timestamp'', JNum (unat (srle_timestamp event)))]"

fun detail_members :: "ServerReceiveRejectionDetail \<Rightarrow> (string \<times> json) list" where
  "detail_members (Detail_Decode action error) =
     [(''kind'', JStr ''Decode''), (''action'', JStr (debug_decode_error_action action)),
      (''error'', JStr (debug_protocol_error error))]"
| "detail_members (Detail_Acceptance reason) =
     [(''kind'', JStr ''Acceptance''), (''reason'', JStr (packet_acceptance_reject_reason_name reason))]"

definition rejection_members :: "ServerReceiveRejectionJsonLogEventInput \<Rightarrow> (string \<times> json) list" where
  "rejection_members event =
     [(''event_name'', JStr (srre_event_name event)),
      (''run_id'', optional_string (srre_run_id event)),
      (''client_id'', optional_string (srre_client_id event)),
      (''source'', JStr (display_address (src_address (srre_source event)))),
      (''message_type'', optional_string (map_option receive_rejection_message_type_name (srre_message_type event))),
      (''rejection_reason'', JStr (receive_rejection_reason_name (srre_rejection_reason event))),
      (''detail'', JObj (detail_members (srre_detail event))),
      (''timestamp'', JNum (unat (srre_timestamp event)))]"

definition send_members :: "ServerSendJsonLogEventInput \<Rightarrow> (string \<times> json) list" where
  "send_members event =
     [(''event_name'', JStr (sse_event_name event)),
      (''outcome'', JStr (send_log_outcome_name (sse_outcome event))),
      (''run_id'', optional_string (sse_run_id event)),
      (''client_id'', optional_string (sse_client_id event)),
      (''destination'', JStr (display_address (dst_address (sse_destination event)))),
      (''message_type'', JStr (receive_rejection_message_type_name (sse_message_type event))),
      (''stage'', JStr (send_log_stage_name (sse_stage event))),
      (''encoded_len'', optional_number (sse_encoded_len event)),
      (''bytes_sent'', optional_number (sse_bytes_sent event)),
      (''failure'', optional_string (map_option send_failure_kind_name (sse_failure event))),
      (''disposition'', optional_string (map_option send_failure_disposition_name (sse_disposition event))),
      (''timestamp'', JNum (unat (sse_timestamp event)))]"

definition send_error_members :: "ServerSendErrorJsonLogEventInput \<Rightarrow> (string \<times> json) list" where
  "send_error_members event =
     [(''event_name'', JStr (seje_event_name event)),
      (''run_id'', optional_string (seje_run_id event)),
      (''client_id'', optional_string (seje_client_id event)),
      (''destination'', JStr (display_address (dst_address (seje_destination event)))),
      (''message_type'', JStr (receive_rejection_message_type_name (seje_message_type event))),
      (''stage'', JStr (send_log_stage_name (seje_stage event))),
      (''encoded_len'', optional_number (seje_encoded_len event)),
      (''failure'', JStr (send_failure_kind_name (seje_failure event))),
      (''disposition'', JStr (send_failure_disposition_name (seje_disposition event))),
      (''timestamp'', JNum (unat (seje_timestamp event)))]"

definition auth_members :: "ServerAuthJsonLogEventInput \<Rightarrow> (string \<times> json) list" where
  "auth_members event =
     [(''event_name'', JStr (saje_event_name event)),
      (''run_id'', JStr (saje_run_id event)),
      (''client_id'', JStr (saje_client_id event)),
      (''source'', JStr (display_address (src_address (saje_source event)))),
      (''accepted'', JBool (saje_accepted event)),
      (''reason_code'', JStr (auth_response_reason_code_name (saje_reason_code event))),
      (''message'', optional_string (saje_message event)),
      (''app_version'', optional_string (saje_app_version event)),
      (''protocol_version'', JNum (unat (saje_protocol_version event))),
      (''timestamp'', JNum (unat (saje_timestamp event))),
      (''expected_protocol_version'',
       optional_number (map_option unat (saje_expected_protocol_version event)))]"

section \<open>Each line is its object\<close>

lemma detail_is_object:
  "concat (write_receive_rejection_detail detail) = json_print (JObj (detail_members detail))"
  by (cases detail) (simp_all add: field_prints)

lemma lines_are_objects:
  "concat (ServerReceiveLoopJsonLineWriter_write_event receive) =
     json_print (JObj (receive_members receive)) @ [CHR 0x0A]"
  "concat (ServerReceiveRejectionJsonLineWriter_write_event rejection) =
     json_print (JObj (rejection_members rejection)) @ [CHR 0x0A]"
  "concat (ServerSendJsonLineWriter_write_event send) = json_print (JObj (send_members send)) @ [CHR 0x0A]"
  "concat (ServerSendErrorJsonLineWriter_write_event send_error) =
     json_print (JObj (send_error_members send_error)) @ [CHR 0x0A]"
  "concat (ServerAuthJsonLineWriter_write_event auth) = json_print (JObj (auth_members auth)) @ [CHR 0x0A]"
  by (simp_all add: ServerReceiveLoopJsonLineWriter_write_event_def receive_members_def
      ServerReceiveRejectionJsonLineWriter_write_event_def rejection_members_def detail_is_object
      ServerSendJsonLineWriter_write_event_def send_members_def
      ServerSendErrorJsonLineWriter_write_event_def send_error_members_def
      ServerAuthJsonLineWriter_write_event_def auth_members_def field_prints display_u64_def
      del: json_print.simps(5) add: json_print.simps(5) [where ms = "x # xs" for x xs])

lemma names_are_ascii:
  "ascii (receive_loop_log_outcome_name a)" "ascii (receive_rejection_message_type_name b)"
  "ascii (receive_rejection_reason_name c)" "ascii (packet_acceptance_reject_reason_name d)"
  "ascii (debug_decode_error_action e)" "ascii (send_log_outcome_name f)" "ascii (send_log_stage_name g)"
  "ascii (send_failure_kind_name h)" "ascii (send_failure_disposition_name i)"
  "ascii (auth_response_reason_code_name j)"
proof -
  show "ascii (receive_loop_log_outcome_name a)" by (cases a) simp_all
  show "ascii (receive_rejection_message_type_name b)" by (cases b) simp_all
  show "ascii (receive_rejection_reason_name c)" by (cases c) simp_all
  show "ascii (packet_acceptance_reject_reason_name d)" by (cases d) simp_all
  show "ascii (debug_decode_error_action e)" by (cases e) simp_all
  show "ascii (send_log_outcome_name f)" by (cases f) simp_all
  show "ascii (send_log_stage_name g)" by (cases g) simp_all
  show "ascii (send_failure_kind_name h)" by (cases h) simp_all
  show "ascii (send_failure_disposition_name i)" by (cases i) simp_all
  show "ascii (auth_response_reason_code_name j)" by (cases j) simp_all
qed

lemma ascii_debug_fields:
  "ascii name \<Longrightarrow> list_all (\<lambda>(k, v). ascii k \<and> ascii v) entries \<Longrightarrow> ascii (debug_fields name entries)"
  by (fastforce simp: debug_fields_def list_all_iff intro!: ascii_join)

lemma ascii_protocol_error: "ascii (debug_protocol_error error)"
  by (cases error rule: debug_protocol_error.cases)
    (simp_all add: ascii_debug_fields ascii_digits names_are_ascii debug_version_def ascii_join)

section \<open>Every line is well formed\<close>

definition strings_ok :: "string option list \<Rightarrow> bool" where
  "strings_ok xs \<longleftrightarrow> list_all (\<lambda>x. case x of Some s \<Rightarrow> utf8_string s | None \<Rightarrow> True) xs"

lemmas names_are_utf8 = names_are_ascii [THEN ascii_utf8] ascii_address [THEN ascii_utf8]
  ascii_protocol_error [THEN ascii_utf8]

lemma optional_name_ok:
  "(\<And>x. utf8_string (f x)) \<Longrightarrow> json_ok (optional_string (map_option f x))"
  by (simp split: option.split)

lemma keys_plain:
  "list_all plain_key [''event_name'', ''source'', ''outcome'', ''packet_len'', ''message_type'', ''client_id'',
     ''rejection_reason'', ''timestamp'', ''kind'', ''action'', ''error'', ''reason'', ''run_id'', ''detail'',
     ''destination'', ''stage'', ''encoded_len'', ''bytes_sent'', ''failure'', ''disposition'', ''accepted'',
     ''reason_code'', ''message'', ''app_version'', ''protocol_version'', ''expected_protocol_version'']"
  by (simp add: plain_key_def)

lemma detail_ok: "members_ok (detail_members detail)" "detail_members detail \<noteq> []"
proof -
  have "utf8_string ''Decode''" "utf8_string ''Acceptance''" by code_simp+
  then show "members_ok (detail_members detail)" "detail_members detail \<noteq> []"
    using keys_plain by (cases detail; simp add: names_are_utf8)+
qed

lemma members_are_ok:
  "strings_ok [Some (srle_event_name receive), srle_client_id receive] \<Longrightarrow> members_ok (receive_members receive)"
  "strings_ok [Some (srre_event_name rejection), srre_run_id rejection, srre_client_id rejection] \<Longrightarrow>
     members_ok (rejection_members rejection)"
  "strings_ok [Some (sse_event_name send), sse_run_id send, sse_client_id send] \<Longrightarrow> members_ok (send_members send)"
  "strings_ok [Some (seje_event_name send_error), seje_run_id send_error, seje_client_id send_error] \<Longrightarrow>
     members_ok (send_error_members send_error)"
  "strings_ok [Some (saje_event_name auth), Some (saje_run_id auth), Some (saje_client_id auth),
       saje_message auth, saje_app_version auth] \<Longrightarrow> members_ok (auth_members auth)"
proof -
  note simps = strings_ok_def names_are_utf8 optional_name_ok detail_ok
  show "strings_ok [Some (srle_event_name receive), srle_client_id receive] \<Longrightarrow> members_ok (receive_members receive)"
    using keys_plain by (simp add: receive_members_def simps del: optional_ok(1)) (simp add: simps)
  show "strings_ok [Some (srre_event_name rejection), srre_run_id rejection, srre_client_id rejection] \<Longrightarrow>
     members_ok (rejection_members rejection)"
    using keys_plain by (simp add: rejection_members_def simps del: optional_ok(1)) (simp add: simps)
  show "strings_ok [Some (sse_event_name send), sse_run_id send, sse_client_id send] \<Longrightarrow> members_ok (send_members send)"
    using keys_plain by (simp add: send_members_def simps del: optional_ok(1)) (simp add: simps)
  show "strings_ok [Some (seje_event_name send_error), seje_run_id send_error, seje_client_id send_error] \<Longrightarrow>
     members_ok (send_error_members send_error)"
    using keys_plain by (simp add: send_error_members_def simps)
  show "strings_ok [Some (saje_event_name auth), Some (saje_run_id auth), Some (saje_client_id auth),
       saje_message auth, saje_app_version auth] \<Longrightarrow> members_ok (auth_members auth)"
    using keys_plain by (simp add: auth_members_def simps)
qed

definition one_line :: "string list \<Rightarrow> (string \<times> json) list \<Rightarrow> bool" where
  "one_line pieces ms \<longleftrightarrow> read_line (concat pieces) = Some ms \<and>
     (\<exists>line. concat pieces = line @ [CHR 0x0A] \<and> CHR 0x0A \<notin> set line)"

lemma object_is_one_line:
  assumes "concat pieces = json_print (JObj ms) @ [CHR 0x0A]" and "members_ok ms" and "ms \<noteq> []"
  shows "one_line pieces ms"
  using assms read_printed_line [OF assms(2,3)] no_line_feed(1) [of "JObj ms"] by (simp add: one_line_def)

section \<open>Properties\<close>

text \<open>
  C13: Whatever characters the ids and messages in it have, each line of the server's receive,
  rejection, send, send-error and auth logs is one line, ended by its only line feed, and a
  reader of JSON finds in it exactly the members the event has.
\<close>

theorem log_lines_read_back:
  assumes "strings_ok [Some (srle_event_name receive), srle_client_id receive]"
    and "strings_ok [Some (srre_event_name rejection), srre_run_id rejection, srre_client_id rejection]"
    and "strings_ok [Some (sse_event_name send), sse_run_id send, sse_client_id send]"
    and "strings_ok [Some (seje_event_name send_error), seje_run_id send_error, seje_client_id send_error]"
    and "strings_ok [Some (saje_event_name auth), Some (saje_run_id auth), Some (saje_client_id auth),
      saje_message auth, saje_app_version auth]"
  shows "one_line (ServerReceiveLoopJsonLineWriter_write_event receive) (receive_members receive) \<and>
    one_line (ServerReceiveRejectionJsonLineWriter_write_event rejection) (rejection_members rejection) \<and>
    one_line (ServerSendJsonLineWriter_write_event send) (send_members send) \<and>
    one_line (ServerSendErrorJsonLineWriter_write_event send_error) (send_error_members send_error) \<and>
    one_line (ServerAuthJsonLineWriter_write_event auth) (auth_members auth)"
  using members_are_ok(1) [OF assms(1)] members_are_ok(2) [OF assms(2)] members_are_ok(3) [OF assms(3)]
    members_are_ok(4) [OF assms(4)] members_are_ok(5) [OF assms(5)]
  by (intro conjI object_is_one_line lines_are_objects)
    (simp_all add: receive_members_def rejection_members_def send_members_def send_error_members_def auth_members_def)

text \<open>A client id that tries to close its field, the object and the line.\<close>

definition hostile_id :: string where
  "hostile_id = ''cam'' @ [QUOTE] @ ''}'' @ [CHR 0x0A, BACKSLASH]"

definition hostile_receive :: ServerReceiveLoopJsonLogEventInput where
  "hostile_receive = \<lparr> srle_event_name = ''server.receive_loop'',
     srle_source = \<lparr> src_address = SocketAddrV4 0x0A000001 40000 \<rparr>, srle_outcome = Log_Accepted,
     srle_packet_len = 40, srle_message_type = Some MessageType_Heartbeat, srle_client_id = Some hostile_id,
     srle_rejection_reason = None, srle_timestamp = 7 \<rparr>"

definition hostile_rejection :: ServerReceiveRejectionJsonLogEventInput where
  "hostile_rejection = \<lparr> srre_event_name = ''server.receive_rejection'', srre_run_id = Some hostile_id,
     srre_client_id = Some hostile_id, srre_source = \<lparr> src_address = SocketAddrV4 0x0A000001 40000 \<rparr>,
     srre_message_type = Some MessageType_Heartbeat, srre_rejection_reason = Rejection_UnknownClient,
     srre_detail = Detail_Acceptance PacketReject_UnknownClient, srre_timestamp = 7 \<rparr>"

definition hostile_send :: ServerSendJsonLogEventInput where
  "hostile_send = \<lparr> sse_event_name = ''server.send'', sse_outcome = SendLog_Success,
     sse_run_id = Some hostile_id, sse_client_id = Some hostile_id,
     sse_destination = \<lparr> dst_address = SocketAddrV4 0x0A000001 40000 \<rparr>,
     sse_message_type = MessageType_HeartbeatAck, sse_stage = Stage_SocketSend, sse_encoded_len = Some 60,
     sse_bytes_sent = Some 60, sse_failure = None, sse_disposition = None, sse_timestamp = 7 \<rparr>"

definition hostile_send_error :: ServerSendErrorJsonLogEventInput where
  "hostile_send_error = \<lparr> seje_event_name = ''server.send_error'', seje_run_id = None,
     seje_client_id = Some hostile_id, seje_destination = \<lparr> dst_address = SocketAddrV4 0x0A000001 40000 \<rparr>,
     seje_message_type = MessageType_HeartbeatAck, seje_stage = Stage_SocketSend, seje_encoded_len = None,
     seje_failure = ConnectionRefused, seje_disposition = WarningCandidate, seje_timestamp = 7 \<rparr>"

definition hostile_auth :: ServerAuthJsonLogEventInput where
  "hostile_auth = \<lparr> saje_event_name = ''server.auth_result'', saje_run_id = hostile_id,
     saje_client_id = hostile_id, saje_source = \<lparr> src_address = SocketAddrV4 0x0A000001 40000 \<rparr>,
     saje_accepted = False, saje_reason_code = UnknownClient, saje_message = Some ''unknown client_id'',
     saje_app_version = Some hostile_id, saje_protocol_version = 1, saje_timestamp = 7,
     saje_expected_protocol_version = None \<rparr>"

lemma log_lines_read_back_witness:
  "one_line (ServerReceiveLoopJsonLineWriter_write_event hostile_receive) (receive_members hostile_receive) \<and>
   one_line (ServerAuthJsonLineWriter_write_event hostile_auth) (auth_members hostile_auth)"
proof -
  have "strings_ok [Some (srle_event_name hostile_receive), srle_client_id hostile_receive]"
    and "strings_ok [Some (srre_event_name hostile_rejection), srre_run_id hostile_rejection,
      srre_client_id hostile_rejection]"
    and "strings_ok [Some (sse_event_name hostile_send), sse_run_id hostile_send, sse_client_id hostile_send]"
    and "strings_ok [Some (seje_event_name hostile_send_error), seje_run_id hostile_send_error,
      seje_client_id hostile_send_error]"
    and "strings_ok [Some (saje_event_name hostile_auth), Some (saje_run_id hostile_auth),
      Some (saje_client_id hostile_auth), saje_message hostile_auth, saje_app_version hostile_auth]"
    by code_simp+
  from log_lines_read_back [OF this] show ?thesis by simp
qed

end
