(* ===== verification/Server_Settings.thy ===== *)
theory Server_Settings
  imports Config_Roundtrip Json_Roundtrip Rust_Io
begin

text \<open>
  The settings the server's launchers read, apps/server/src/lib.rs: the bind address and protocol
  version, the destination of the iteration log, the plans of the JSON Lines sinks
  (crates/logging/src/lib.rs), and the startup configuration made of them and the auth section.
  Resolving a host name is the operating system's: it is an argument, as are the contents of files.
\<close>

section \<open>Numbers\<close>

text \<open>\<open>str::parse\<close> for an unsigned type: an optional plus sign, then digits, within the range.\<close>

fun read_digits :: "nat \<Rightarrow> string \<Rightarrow> nat option" where
  "read_digits n [] = Some n"
| "read_digits n (c # cs) = (if is_digit c then read_digits (10 * n + (of_char c - 48)) cs else None)"

definition parse_unsigned :: "nat \<Rightarrow> string \<Rightarrow> nat option" where
  "parse_unsigned bound s =
     (let digits = (case s of c # cs \<Rightarrow> if c = CHR ''+'' then cs else s | [] \<Rightarrow> []) in
      if digits = [] then None
      else Option.bind (read_digits 0 digits) (\<lambda>n. if n < bound then Some n else None))"

section \<open>Sinks of the JSON Lines logs\<close>

datatype JsonLinesFileOpenMode = AppendCreate

record JsonLinesFileSinkConfig =
  jlf_path :: string
  jlf_open_mode :: JsonLinesFileOpenMode
  jlf_create_parent_dirs :: bool

datatype JsonLinesSinkDestination = Sink_Stderr | Sink_File JsonLinesFileSinkConfig

record JsonLinesSinkConfig =
  jls_destination :: JsonLinesSinkDestination

definition JsonLinesSinkConfig_stderr :: JsonLinesSinkConfig where
  "JsonLinesSinkConfig_stderr = \<lparr> jls_destination = Sink_Stderr \<rparr>"

definition JsonLinesSinkConfig_file :: "string \<Rightarrow> JsonLinesSinkConfig" where
  "JsonLinesSinkConfig_file path =
     \<lparr> jls_destination = Sink_File \<lparr> jlf_path = path, jlf_open_mode = AppendCreate,
       jlf_create_parent_dirs = False \<rparr> \<rparr>"

datatype JsonLinesBufferingPolicy = CallerOwnedWrite

datatype JsonLinesRotationPolicy = NotImplemented

record JsonLinesSinkPlan =
  jlp_destination :: JsonLinesSinkDestination
  jlp_buffering :: JsonLinesBufferingPolicy
  jlp_rotation :: JsonLinesRotationPolicy

definition JsonLinesSinkPlan_is_file_sink :: "JsonLinesSinkPlan \<Rightarrow> bool" where
  "JsonLinesSinkPlan_is_file_sink plan = (case jlp_destination plan of Sink_File _ \<Rightarrow> True | _ \<Rightarrow> False)"

definition JsonLinesSinkPlanBoundary_plan :: "JsonLinesSinkConfig \<Rightarrow> JsonLinesSinkPlan" where
  "JsonLinesSinkPlanBoundary_plan config =
     \<lparr> jlp_destination = jls_destination config, jlp_buffering = CallerOwnedWrite,
       jlp_rotation = NotImplemented \<rparr>"

record ServerReceiveSendIterationJsonLinesSinkConfig =
  rsi_receive_send_iteration :: JsonLinesSinkConfig

definition ServerReceiveSendIterationJsonLinesSinkConfig_stderr_default ::
  ServerReceiveSendIterationJsonLinesSinkConfig where
  "ServerReceiveSendIterationJsonLinesSinkConfig_stderr_default =
     \<lparr> rsi_receive_send_iteration = JsonLinesSinkConfig_stderr \<rparr>"

definition ServerReceiveSendIterationJsonLinesSinkConfig_disabled ::
  ServerReceiveSendIterationJsonLinesSinkConfig where
  "ServerReceiveSendIterationJsonLinesSinkConfig_disabled =
     \<lparr> rsi_receive_send_iteration = JsonLinesSinkConfig_stderr \<rparr>"

definition ServerReceiveSendIterationJsonLinesSinkConfig_file_sink ::
  "string \<Rightarrow> ServerReceiveSendIterationJsonLinesSinkConfig" where
  "ServerReceiveSendIterationJsonLinesSinkConfig_file_sink path =
     \<lparr> rsi_receive_send_iteration = JsonLinesSinkConfig_file path \<rparr>"

record ServerReceiveSendIterationJsonLinesSinkPlan =
  rsip_receive_send_iteration :: JsonLinesSinkPlan
  rsip_disabled :: bool

definition ServerReceiveSendIterationJsonLinesSinkBoundary_plan ::
  "ServerReceiveSendIterationJsonLinesSinkConfig \<Rightarrow> bool \<Rightarrow> ServerReceiveSendIterationJsonLinesSinkPlan" where
  "ServerReceiveSendIterationJsonLinesSinkBoundary_plan config disabled =
     \<lparr> rsip_receive_send_iteration = JsonLinesSinkPlanBoundary_plan (rsi_receive_send_iteration config),
       rsip_disabled = disabled \<rparr>"

datatype ServerReceiveSendIterationJsonLinesSinkSelection = Selection_Stderr | Selection_Disabled

datatype ServerReceiveSendIterationJsonLinesSinkSelectionError = FileDestinationDeferred string

definition ServerReceiveSendIterationJsonLinesSinkSelectionBoundary_select ::
  "ServerReceiveSendIterationJsonLinesSinkPlan \<Rightarrow>
     (ServerReceiveSendIterationJsonLinesSinkSelection,
      ServerReceiveSendIterationJsonLinesSinkSelectionError) result" where
  "ServerReceiveSendIterationJsonLinesSinkSelectionBoundary_select plan =
     (if rsip_disabled plan then Ok Selection_Disabled
      else (case jlp_destination (rsip_receive_send_iteration plan) of
        Sink_Stderr \<Rightarrow> Ok Selection_Stderr
      | Sink_File file \<Rightarrow> Error (FileDestinationDeferred (jlf_path file))))"

section \<open>Errors\<close>

datatype ServerAuthResponsePocConfigError =
    PocConfig_InvalidTomlLine nat string
  | PocConfig_InvalidTomlString nat string
  | PocConfig_InvalidNumber nat string
  | PocConfig_InvalidBoolean nat string
  | PocConfig_InvalidValue nat string string
  | PocConfig_MissingField string string
  | PocConfig_InvalidBindAddress string string

section \<open>Lines\<close>

definition strip_toml_comment :: "string \<Rightarrow> string" where
  "strip_toml_comment line = (case split_once (CHR ''#'') line of
     Some (before_comment, _) \<Rightarrow> before_comment | None \<Rightarrow> line)"

definition find_toml_key_line :: "string \<Rightarrow> string \<Rightarrow> nat option" where
  "find_toml_key_line input key =
     map_option (\<lambda>(index, _). index + 1)
       (find (\<lambda>(index, raw_line). prefix (key @ '' ='') (trim (strip_toml_comment raw_line)))
         (enumerate 0 (lines input)))"

definition parse_poc_toml_string ::
  "string \<Rightarrow> nat \<Rightarrow> string \<Rightarrow> (string, ServerAuthResponsePocConfigError) result" where
  "parse_poc_toml_string text line key =
     ok_or (Option.bind (strip_prefix_char (CHR 0x22) text) (strip_suffix_char (CHR 0x22)))
       (PocConfig_InvalidTomlString line key)"

definition parse_poc_u16 :: "string \<Rightarrow> nat \<Rightarrow> string \<Rightarrow> (u16, ServerAuthResponsePocConfigError) result" where
  "parse_poc_u16 text line key =
     ok_or (map_option of_nat (parse_unsigned (2 ^ 16) text)) (PocConfig_InvalidNumber line key)"

definition parse_poc_u32 :: "string \<Rightarrow> nat \<Rightarrow> string \<Rightarrow> (u32, ServerAuthResponsePocConfigError) result" where
  "parse_poc_u32 text line key =
     ok_or (map_option of_nat (parse_unsigned (2 ^ 32) text)) (PocConfig_InvalidNumber line key)"

definition parse_poc_bool :: "string \<Rightarrow> nat \<Rightarrow> string \<Rightarrow> (bool, ServerAuthResponsePocConfigError) result" where
  "parse_poc_bool text line key =
     (if text = ''true'' then Ok True else if text = ''false'' then Ok False
      else Error (PocConfig_InvalidBoolean line key))"

text \<open>The header of a table, when the line is one.\<close>

definition section_header :: "string \<Rightarrow> string option" where
  "section_header line = Option.bind (strip_prefix_char (CHR ''['') line) (strip_suffix_char (CHR '']''))"

section \<open>Server settings\<close>

record ServerPocSettings =
  sps_bind_host :: string
  sps_bind_port :: u16
  sps_protocol_version :: u32

record PartialServerPocSettings =
  psps_bind_host :: "string option"
  psps_bind_port :: "u16 option"
  psps_protocol_version :: "u32 option"

definition parse_server_setting ::
  "nat \<Rightarrow> string \<Rightarrow> string \<Rightarrow> string \<Rightarrow> PartialServerPocSettings \<Rightarrow>
     (PartialServerPocSettings, ServerAuthResponsePocConfigError) result" where
  "parse_server_setting line_number section_name key text parsed =
     (if section_name = ''server'' \<and> key = ''bind_host'' then
        rbind (parse_poc_toml_string text line_number key) (\<lambda>v. Ok (parsed \<lparr> psps_bind_host := Some v \<rparr>))
      else if section_name = ''server'' \<and> key = ''bind_port'' then
        rbind (parse_poc_u16 text line_number key) (\<lambda>v. Ok (parsed \<lparr> psps_bind_port := Some v \<rparr>))
      else if section_name = ''session'' \<and> key = ''protocol_version'' then
        rbind (parse_poc_u32 text line_number key) (\<lambda>v. Ok (parsed \<lparr> psps_protocol_version := Some v \<rparr>))
      else Ok parsed)"

fun parse_server_lines ::
  "nat \<Rightarrow> string list \<Rightarrow> string option \<Rightarrow> PartialServerPocSettings \<Rightarrow>
     (PartialServerPocSettings, ServerAuthResponsePocConfigError) result" where
  "parse_server_lines line_number [] current_section parsed = Ok parsed"
| "parse_server_lines line_number (raw_line # rest) current_section parsed =
     (let line = trim (strip_toml_comment raw_line) in
      if line = [] then parse_server_lines (line_number + 1) rest current_section parsed
      else (case section_header line of
        Some section_name \<Rightarrow>
          parse_server_lines (line_number + 1) rest
            (if section_name = ''server'' \<or> section_name = ''session'' then Some section_name else None) parsed
      | None \<Rightarrow>
      (case current_section of
        None \<Rightarrow> parse_server_lines (line_number + 1) rest current_section parsed
      | Some section_name \<Rightarrow>
      (case split_once (CHR ''='') line of
        None \<Rightarrow> Error (PocConfig_InvalidTomlLine line_number ''expected key = value'')
      | Some (key, raw_value) \<Rightarrow>
          rbind (parse_server_setting line_number section_name (trim key) (trim raw_value) parsed) (\<lambda>parsed.
          parse_server_lines (line_number + 1) rest current_section parsed)))))"

definition parse_server_poc_settings ::
  "string \<Rightarrow> (ServerPocSettings, ServerAuthResponsePocConfigError) result" where
  "parse_server_poc_settings input =
     rbind (parse_server_lines 1 (lines input) None
         \<lparr> psps_bind_host = None, psps_bind_port = None, psps_protocol_version = None \<rparr>) (\<lambda>parsed.
     rbind (ok_or (psps_bind_host parsed) (PocConfig_MissingField ''server'' ''bind_host'')) (\<lambda>bind_host.
     rbind (ok_or (psps_bind_port parsed) (PocConfig_MissingField ''server'' ''bind_port'')) (\<lambda>bind_port.
     rbind (ok_or (psps_protocol_version parsed) (PocConfig_MissingField ''session'' ''protocol_version''))
       (\<lambda>protocol_version.
     Ok \<lparr> sps_bind_host = bind_host, sps_bind_port = bind_port,
       sps_protocol_version = protocol_version \<rparr>))))"

section \<open>Settings of the iteration log\<close>

record PartialReceiveSendIterationJsonLinesSinkSettings =
  prs_enabled :: "bool option"
  prs_destination :: "string option"
  prs_file_path :: "string option"

abbreviation ITERATION_SECTION :: string where
  "ITERATION_SECTION \<equiv> ''logging.receive_send_iteration''"

definition parse_sink_setting ::
  "nat \<Rightarrow> string \<Rightarrow> string \<Rightarrow> PartialReceiveSendIterationJsonLinesSinkSettings \<Rightarrow>
     (PartialReceiveSendIterationJsonLinesSinkSettings, ServerAuthResponsePocConfigError) result" where
  "parse_sink_setting line_number key text parsed =
     (if key = ''enabled'' then
        rbind (parse_poc_bool text line_number key) (\<lambda>v. Ok (parsed \<lparr> prs_enabled := Some v \<rparr>))
      else if key = ''destination'' then
        rbind (parse_poc_toml_string text line_number key) (\<lambda>v. Ok (parsed \<lparr> prs_destination := Some v \<rparr>))
      else if key = ''file_path'' then
        rbind (parse_poc_toml_string text line_number key) (\<lambda>v. Ok (parsed \<lparr> prs_file_path := Some v \<rparr>))
      else Ok parsed)"

fun parse_sink_lines ::
  "nat \<Rightarrow> string list \<Rightarrow> string option \<Rightarrow> PartialReceiveSendIterationJsonLinesSinkSettings \<Rightarrow>
     (PartialReceiveSendIterationJsonLinesSinkSettings, ServerAuthResponsePocConfigError) result" where
  "parse_sink_lines line_number [] current_section parsed = Ok parsed"
| "parse_sink_lines line_number (raw_line # rest) current_section parsed =
     (let line = trim (strip_toml_comment raw_line) in
      if line = [] then parse_sink_lines (line_number + 1) rest current_section parsed
      else (case section_header line of
        Some section_name \<Rightarrow>
          parse_sink_lines (line_number + 1) rest
            (if section_name = ITERATION_SECTION then Some section_name else None) parsed
      | None \<Rightarrow>
      (case current_section of
        None \<Rightarrow> parse_sink_lines (line_number + 1) rest current_section parsed
      | Some _ \<Rightarrow>
      (case split_once (CHR ''='') line of
        None \<Rightarrow> Error (PocConfig_InvalidTomlLine line_number ''expected key = value'')
      | Some (key, raw_value) \<Rightarrow>
          rbind (parse_sink_setting line_number (trim key) (trim raw_value) parsed) (\<lambda>parsed.
          parse_sink_lines (line_number + 1) rest current_section parsed)))))"

record ServerReceiveSendIterationJsonLinesSinkParsedConfig =
  rspc_config :: ServerReceiveSendIterationJsonLinesSinkConfig
  rspc_disabled :: bool

definition parse_receive_send_iteration_json_lines_sink_config ::
  "string \<Rightarrow> (ServerReceiveSendIterationJsonLinesSinkParsedConfig, ServerAuthResponsePocConfigError) result" where
  "parse_receive_send_iteration_json_lines_sink_config input =
     rbind (parse_sink_lines 1 (lines input) None
         \<lparr> prs_enabled = None, prs_destination = None, prs_file_path = None \<rparr>) (\<lambda>parsed.
     let enabled = (case prs_enabled parsed of Some v \<Rightarrow> v | None \<Rightarrow> True) in
     if \<not> enabled
     then Ok \<lparr> rspc_config = ServerReceiveSendIterationJsonLinesSinkConfig_disabled, rspc_disabled = True \<rparr>
     else
       (let destination = (case prs_destination parsed of Some v \<Rightarrow> v | None \<Rightarrow> ''stderr'') in
        rbind
          (if destination = ''stderr'' then Ok ServerReceiveSendIterationJsonLinesSinkConfig_stderr_default
           else if destination = ''disabled'' then Ok ServerReceiveSendIterationJsonLinesSinkConfig_disabled
           else if destination = ''file'' then
             rbind (ok_or (prs_file_path parsed) (PocConfig_MissingField ITERATION_SECTION ''file_path''))
               (\<lambda>file_path.
             if trim file_path = [] then Error (PocConfig_MissingField ITERATION_SECTION ''file_path'')
             else Ok (ServerReceiveSendIterationJsonLinesSinkConfig_file_sink file_path))
           else Error (PocConfig_InvalidValue
             (case find_toml_key_line input ''destination'' of Some line \<Rightarrow> line | None \<Rightarrow> 0)
             ''destination'' destination)) (\<lambda>config.
        Ok \<lparr> rspc_config = config, rspc_disabled = (destination = ''disabled'') \<rparr>)))"

section \<open>Startup configuration\<close>

text \<open>\<open>to_socket_addrs\<close> of the operating system: the addresses of a host and a port.\<close>

type_synonym Resolver = "string \<Rightarrow> u16 \<Rightarrow> SocketAddr list + io_Error"

definition resolve_bind_address ::
  "Resolver \<Rightarrow> string \<Rightarrow> u16 \<Rightarrow> (SocketAddr, ServerAuthResponsePocConfigError) result" where
  "resolve_bind_address resolver host port =
     (let value = host @ '':'' @ display_nat (unat port) in
      case resolver host port of
        Inr error \<Rightarrow> Error (PocConfig_InvalidBindAddress value (ioe_message error))
      | Inl [] \<Rightarrow> Error (PocConfig_InvalidBindAddress value ''address resolved to no socket addresses'')
      | Inl (address # _) \<Rightarrow> Ok address)"

record ServerAuthResponsePocStartupConfig =
  sapc_bind_address :: SocketAddr
  sapc_expected_protocol_version :: ProtocolVersion
  sapc_auth_config :: ServerAuthConfig

end
