(* ===== verification/Server_Launch.thy ===== *)
theory Server_Launch
  imports Server_Settings Server_Dispatch
begin

text \<open>
  The server's launchers, apps/server/src/lib.rs: loading the startup configuration, the step
  that answers one auth request, and the launchers that bind a socket and run that step once, one
  turn, or two turns. The socket's calls and the system's clock are arguments.
\<close>

section \<open>Errors\<close>

datatype ServerAuthResponsePocError =
    Poc_Receive io_ErrorKind
  | Poc_Rejected ServerReceiveLoopGateRejection
  | Poc_Auth ServerAuthBoundaryError
  | Poc_Encode NetEncodeError
  | Poc_Send io_ErrorKind

datatype ServerAuthResponsePocStartupError =
    PocStartup_Io string string
  | PocStartup_Config ServerAuthResponsePocConfigError
  | PocStartup_AuthConfig ConfigLoadError
  | PocStartup_Bind SocketAddr io_ErrorKind
  | PocStartup_Poc ServerAuthResponsePocError

section \<open>Startup configuration\<close>

definition ServerAuthResponsePocLauncher_load_startup_config_from_str ::
  "Resolver \<Rightarrow> string \<Rightarrow> (ServerAuthResponsePocStartupConfig, ServerAuthResponsePocStartupError) result" where
  "ServerAuthResponsePocLauncher_load_startup_config_from_str resolver input =
     rbind (rmap_err PocStartup_Config (parse_server_poc_settings input)) (\<lambda>server_settings.
     rbind (rmap_err PocStartup_AuthConfig (load_from_str input)) (\<lambda>auth_config.
     rbind (rmap_err PocStartup_Config (resolve_bind_address resolver
         (sps_bind_host server_settings) (sps_bind_port server_settings))) (\<lambda>bind_address.
     Ok \<lparr> sapc_bind_address = bind_address,
       sapc_expected_protocol_version = sps_protocol_version server_settings,
       sapc_auth_config = auth_config \<rparr>)))"

text \<open>The file is read by the standard library; its content or its error is the argument.\<close>

definition ServerAuthResponsePocLauncher_load_startup_config_from_path ::
  "Resolver \<Rightarrow> string \<Rightarrow> (string, string) result \<Rightarrow>
     (ServerAuthResponsePocStartupConfig, ServerAuthResponsePocStartupError) result" where
  "ServerAuthResponsePocLauncher_load_startup_config_from_path resolver path content =
     rbind (rmap_err (\<lambda>message. PocStartup_Io path message) content)
       (ServerAuthResponsePocLauncher_load_startup_config_from_str resolver)"

definition ServerAuthResponsePocLauncher_load_receive_send_iteration_json_lines_sink_config_from_path ::
  "string \<Rightarrow> (string, string) result \<Rightarrow>
     (ServerReceiveSendIterationJsonLinesSinkParsedConfig, ServerAuthResponsePocStartupError) result" where
  "ServerAuthResponsePocLauncher_load_receive_send_iteration_json_lines_sink_config_from_path path content =
     rbind (rmap_err (\<lambda>message. PocStartup_Io path message) content)
       (\<lambda>input. rmap_err PocStartup_Config (parse_receive_send_iteration_json_lines_sink_config input))"

section \<open>The socket and the clock\<close>

text \<open>A duration in nanoseconds; it is only handed to the socket.\<close>

type_synonym Duration = nat

text \<open>The system time is the microseconds since the epoch, or nothing when it is before it.\<close>

record 'w ServerSocketIo =
  ssk_bind :: "SocketAddr \<Rightarrow> 'w \<Rightarrow> 'w \<times> (unit, io_Error) result"
  ssk_set_recv_buffer_size :: "nat \<Rightarrow> 'w \<Rightarrow> 'w \<times> io_Error option"
  ssk_recv_buffer_size :: "'w \<Rightarrow> 'w \<times> (nat + io_Error)"
  ssk_set_read_timeout :: "Duration option \<Rightarrow> 'w \<Rightarrow> 'w \<times> (unit, io_Error) result"
  ssk_set_nonblocking :: "bool \<Rightarrow> 'w \<Rightarrow> 'w \<times> (unit, io_Error) result"
  ssk_system_time :: "'w \<Rightarrow> 'w \<times> nat option"
  ssk_io :: "'w ServerIo"

definition current_system_timestamp_micros :: "'w ServerSocketIo \<Rightarrow> 'w \<Rightarrow> 'w \<times> TimestampMicros" where
  "current_system_timestamp_micros socket_io w =
     (case ssk_system_time socket_io w of
        (w, since_epoch) \<Rightarrow>
          (let micros = (case since_epoch of Some duration \<Rightarrow> duration | None \<Rightarrow> 0) in
           (w, if micros < 2 ^ 64 then of_nat micros else - 1)))"

definition bind_socket ::
  "'w ServerSocketIo \<Rightarrow> (SocketAddr \<Rightarrow> io_ErrorKind \<Rightarrow> 'e) \<Rightarrow> SocketAddr \<Rightarrow> 'w \<Rightarrow> 'w \<times> (unit, 'e) result" where
  "bind_socket socket_io bind_error address w =
     io_map_err (\<lambda>error. bind_error address (ioe_kind error)) (ssk_bind socket_io address w)"

abbreviation EMPTY_QUEUE :: ServerOutboundQueueCollection where
  "EMPTY_QUEUE \<equiv> \<lparr> soqc_items = [] \<rparr>"

abbreviation EMPTY_LIVENESS :: ServerHeartbeatLivenessState where
  "EMPTY_LIVENESS \<equiv> \<lparr> liveness_entries = [] \<rparr>"

section \<open>One auth request\<close>

record ServerAuthResponsePocOutcome =
  sapo_auth_flow :: ServerAuthFlowOutcome
  sapo_registered_sender :: "AuthenticatedSenderEntry option"
  sapo_registration_summary :: "AuthenticatedSenderRegistrationSummary option"
  sapo_encoded_packet :: EncodedOutboundPacket
  sapo_bytes_sent :: nat

definition ServerAuthResponsePocStep_handle_route ::
  "'w UdpSend \<Rightarrow> (string \<Rightarrow> string + VarError) \<Rightarrow> ProtocolVersion \<Rightarrow> ServerAuthConfig \<Rightarrow>
     AuthenticatedSenderRegistry \<Rightarrow> ServerInboundRoute \<Rightarrow> 'w \<Rightarrow>
     (AuthenticatedSenderRegistry \<times> 'w) \<times> (ServerAuthResponsePocOutcome, ServerAuthResponsePocError) result" where
  "ServerAuthResponsePocStep_handle_route send env_var expected_protocol_version config registry route w =
     (case ServerAuthFlowStep_handle_auth_route env_var route config of
        Inl (Err error) \<Rightarrow> ((registry, w), Error (Poc_Auth error))
      | Inl Panic \<Rightarrow> ((registry, w), Panicked)
      | Inr auth_flow \<Rightarrow>
     (case (case safo_registry_registration auth_flow of
          Some registration \<Rightarrow>
            (case AuthenticatedSenderRegistryBoundary_register_with_summary registry registration of
               (registry, summary) \<Rightarrow> (registry, Some (asrs_entry summary), Some summary))
        | None \<Rightarrow> (registry, None, None)) of
        (registry, registered_sender, registration_summary) \<Rightarrow>
     (case OutboundPacketEncoderBoundary_encode_with ProtocolMessageEncoderBoundary_encode_message
         (OutboundPacketEncoderBoundary_prepare_encode
           \<lparr> ec_protocol_version = expected_protocol_version \<rparr> (safo_queue_item auth_flow)) of
        Inl (Err error) \<Rightarrow> ((registry, w), Error (Poc_Encode error))
      | Inl Panic \<Rightarrow> ((registry, w), Panicked)
      | Inr encoded_packet \<Rightarrow>
     (case send encoded_packet w of
        (w, Inl (Err error)) \<Rightarrow> ((registry, w), Error (Poc_Send (ioe_kind error)))
      | (w, Inl Panic) \<Rightarrow> ((registry, w), Panicked)
      | (w, Inr bytes_sent) \<Rightarrow>
          ((registry, w), Ok
            \<lparr> sapo_auth_flow = auth_flow, sapo_registered_sender = registered_sender,
              sapo_registration_summary = registration_summary, sapo_encoded_packet = encoded_packet,
              sapo_bytes_sent = bytes_sent \<rparr>)))))"

definition ServerAuthResponsePocStep_run_one ::
  "'w UdpReceive \<Rightarrow> 'w UdpSend \<Rightarrow> (string \<Rightarrow> string + VarError) \<Rightarrow> ProtocolVersion \<Rightarrow> ServerAuthConfig \<Rightarrow>
     AuthenticatedSenderRegistry \<Rightarrow> 'w \<Rightarrow>
     (AuthenticatedSenderRegistry \<times> 'w) \<times> (ServerAuthResponsePocOutcome, ServerAuthResponsePocError) result" where
  "ServerAuthResponsePocStep_run_one receive send env_var expected_protocol_version config registry w =
     (case ServerUdpSocketIoStep_receive_one_with_gate receive expected_protocol_version registry w of
        (w, Inl (Err error)) \<Rightarrow> ((registry, w), Error (Poc_Receive (ioe_kind error)))
      | (w, Inl Panic) \<Rightarrow> ((registry, w), Panicked)
      | (w, Inr (Gate_Rejected rejection)) \<Rightarrow> ((registry, w), Error (Poc_Rejected rejection))
      | (w, Inr (Gate_Accepted route)) \<Rightarrow>
          ServerAuthResponsePocStep_handle_route send env_var expected_protocol_version config registry route w)"

record ServerAuthResponsePocStartupOutcome =
  saps_bind_address :: SocketAddr
  saps_registry :: AuthenticatedSenderRegistry
  saps_outcome :: ServerAuthResponsePocOutcome

definition ServerAuthResponsePocLauncher_run_once ::
  "'w ServerSocketIo \<Rightarrow> (string \<Rightarrow> string + VarError) \<Rightarrow> ServerAuthResponsePocStartupConfig \<Rightarrow> 'w \<Rightarrow>
     'w \<times> (ServerAuthResponsePocStartupOutcome, ServerAuthResponsePocStartupError) result" where
  "ServerAuthResponsePocLauncher_run_once socket_io env_var startup_config w =
     io_bind (bind_socket socket_io PocStartup_Bind (sapc_bind_address startup_config) w) (\<lambda>_ w.
     case ServerAuthResponsePocStep_run_one (sio_receive (ssk_io socket_io)) (sio_send (ssk_io socket_io))
         env_var (sapc_expected_protocol_version startup_config) (sapc_auth_config startup_config)
         AuthenticatedSenderRegistry_default w of
       ((registry, w), result) \<Rightarrow>
         (w, rmap (\<lambda>outcome. \<lparr> saps_bind_address = sapc_bind_address startup_config,
           saps_registry = registry, saps_outcome = outcome \<rparr>) (rmap_err PocStartup_Poc result)))"

definition ServerAuthResponsePocLauncher_run_once_from_path ::
  "'w ServerSocketIo \<Rightarrow> Resolver \<Rightarrow> (string \<Rightarrow> string + VarError) \<Rightarrow> string \<Rightarrow> (string, string) result \<Rightarrow> 'w \<Rightarrow>
     'w \<times> (ServerAuthResponsePocStartupOutcome, ServerAuthResponsePocStartupError) result" where
  "ServerAuthResponsePocLauncher_run_once_from_path socket_io resolver env_var path content w =
     io_bind (w, ServerAuthResponsePocLauncher_load_startup_config_from_path resolver path content)
       (ServerAuthResponsePocLauncher_run_once socket_io env_var)"

section \<open>One turn and two turns\<close>

datatype ServerReceiveSendOneIterationStartupError =
    IterationStartup_StartupConfig ServerAuthResponsePocStartupError
  | IterationStartup_Bind SocketAddr io_ErrorKind
  | IterationStartup_Runtime ServerControllerReceiveSendRuntimeError

definition ServerReceiveSendOneIterationLauncher_load_startup_config_from_path ::
  "Resolver \<Rightarrow> string \<Rightarrow> (string, string) result \<Rightarrow>
     (ServerAuthResponsePocStartupConfig, ServerReceiveSendOneIterationStartupError) result" where
  "ServerReceiveSendOneIterationLauncher_load_startup_config_from_path resolver path content =
     rmap_err IterationStartup_StartupConfig
       (ServerAuthResponsePocLauncher_load_startup_config_from_path resolver path content)"

text \<open>What every launcher hands to a turn: one timestamp serves for all of them.\<close>

definition turn_input_at ::
  "ServerAuthResponsePocStartupConfig \<Rightarrow> TimestampMicros \<Rightarrow> ServerControllerReceiveSendRuntimeInput" where
  "turn_input_at startup_config timestamp =
     \<lparr> crs_controller =
         \<lparr> rci_expected_protocol_version = sapc_expected_protocol_version startup_config,
           rci_timestamp = timestamp, rci_continue_requested = True \<rparr>,
       crs_heartbeat_timing = \<lparr> shat_server_received_at = timestamp, shat_server_sent_at = timestamp \<rparr>,
       crs_encode_context = \<lparr> ec_protocol_version = sapc_expected_protocol_version startup_config \<rparr>,
       crs_auth_log_timestamp = timestamp, crs_send_log_timestamp = timestamp \<rparr>"

text \<open>A turn at the present time.\<close>

definition run_turn ::
  "'w ServerSocketIo \<Rightarrow> (string \<Rightarrow> string + VarError) \<Rightarrow> ServerAuthResponsePocStartupConfig \<Rightarrow>
     AuthenticatedSenderRegistry \<Rightarrow> ServerOutboundQueueCollection \<Rightarrow> TimestampMicros \<Rightarrow> 'w \<Rightarrow>
     (AuthenticatedSenderRegistry \<times> ServerOutboundQueueCollection \<times> 'w) \<times>
       (ServerControllerReceiveSendRuntimeResult, ServerControllerReceiveSendRuntimeError) result" where
  "run_turn socket_io env_var startup_config registry queue timestamp w =
     ServerControllerReceiveSendRuntimeBoundary_run_once (ssk_io socket_io) env_var
       (sapc_auth_config startup_config) (turn_input_at startup_config timestamp) registry queue w"

record ServerReceiveSendOneIterationStartupOutcome =
  sois_bind_address :: SocketAddr
  sois_registry :: AuthenticatedSenderRegistry
  sois_queue_collection :: ServerOutboundQueueCollection
  sois_outcome :: ServerControllerReceiveSendRuntimeResult

definition ServerReceiveSendOneIterationLauncher_run_once_with_writers ::
  "'w ServerSocketIo \<Rightarrow> (string \<Rightarrow> string + VarError) \<Rightarrow> ServerAuthResponsePocStartupConfig \<Rightarrow> 'w \<Rightarrow>
     'w \<times> (ServerReceiveSendOneIterationStartupOutcome, ServerReceiveSendOneIterationStartupError) result" where
  "ServerReceiveSendOneIterationLauncher_run_once_with_writers socket_io env_var startup_config w =
     io_bind (bind_socket socket_io IterationStartup_Bind (sapc_bind_address startup_config) w) (\<lambda>_ w.
     case current_system_timestamp_micros socket_io w of
       (w, timestamp) \<Rightarrow>
     (case run_turn socket_io env_var startup_config AuthenticatedSenderRegistry_default
         EMPTY_QUEUE timestamp w of
       ((registry, queue, w), result) \<Rightarrow>
         (w, rmap (\<lambda>outcome. \<lparr> sois_bind_address = sapc_bind_address startup_config,
           sois_registry = registry, sois_queue_collection = queue, sois_outcome = outcome \<rparr>)
           (rmap_err IterationStartup_Runtime result))))"

definition heartbeat_handoff_from_controller_result ::
  "ServerControllerReceiveSendRuntimeResult \<Rightarrow> ServerHeartbeatAckHandoff option" where
  "heartbeat_handoff_from_controller_result result =
     (case result of
        ControllerRuntime_Iteration _ iteration _ \<Rightarrow>
          (case ssea_result (rso_side_effect iteration) of
             SideEffect_HeartbeatAck handoff \<Rightarrow> Some handoff | _ \<Rightarrow> None)
      | _ \<Rightarrow> None)"

definition client_stats_input_from_controller_result ::
  "ServerControllerReceiveSendRuntimeResult \<Rightarrow> ServerClientStatsHandlerInput option" where
  "client_stats_input_from_controller_result result =
     (case result of
        ControllerRuntime_Iteration _ iteration _ \<Rightarrow>
          (case ssea_result (rso_side_effect iteration) of
             SideEffect_ClientStats input \<Rightarrow> Some input | _ \<Rightarrow> None)
      | _ \<Rightarrow> None)"

record ServerReceiveSendTwoIterationStartupOutcome =
  stis_bind_address :: SocketAddr
  stis_registry :: AuthenticatedSenderRegistry
  stis_queue_collection :: ServerOutboundQueueCollection
  stis_first :: ServerControllerReceiveSendRuntimeResult
  stis_second :: ServerControllerReceiveSendRuntimeResult
  stis_heartbeat_liveness_state :: ServerHeartbeatLivenessState
  stis_heartbeat_liveness_commit :: "ServerHeartbeatLivenessCommitOutcome option"

definition ServerReceiveSendTwoIterationLauncher_run_two_with_writers ::
  "'w ServerSocketIo \<Rightarrow> (string \<Rightarrow> string + VarError) \<Rightarrow> ServerAuthResponsePocStartupConfig \<Rightarrow> 'w \<Rightarrow>
     'w \<times> (ServerReceiveSendTwoIterationStartupOutcome, ServerReceiveSendOneIterationStartupError) result" where
  "ServerReceiveSendTwoIterationLauncher_run_two_with_writers socket_io env_var startup_config w =
     io_bind (bind_socket socket_io IterationStartup_Bind (sapc_bind_address startup_config) w) (\<lambda>_ w.
     case current_system_timestamp_micros socket_io w of
       (w, first_timestamp) \<Rightarrow>
     (case run_turn socket_io env_var startup_config AuthenticatedSenderRegistry_default
         EMPTY_QUEUE first_timestamp w of
       ((registry, queue, w), first_result) \<Rightarrow>
     io_bind (w, rmap_err IterationStartup_Runtime first_result) (\<lambda>first w.
     case current_system_timestamp_micros socket_io w of
       (w, second_timestamp) \<Rightarrow>
     (case run_turn socket_io env_var startup_config registry queue second_timestamp w of
       ((registry, queue, w), second_result) \<Rightarrow>
     io_bind (w, rmap_err IterationStartup_Runtime second_result) (\<lambda>second w.
     case (case heartbeat_handoff_from_controller_result second of
         Some handoff \<Rightarrow>
           (case ServerHeartbeatLivenessCommitBoundary_commit EMPTY_LIVENESS
               (shpi_state (shah_processing_inputs handoff)) of
              (liveness, commit) \<Rightarrow> (liveness, Some commit))
       | None \<Rightarrow> (EMPTY_LIVENESS, None)) of
       (liveness, commit) \<Rightarrow>
     (w, Ok \<lparr> stis_bind_address = sapc_bind_address startup_config, stis_registry = registry,
       stis_queue_collection = queue, stis_first = first, stis_second = second,
       stis_heartbeat_liveness_state = liveness, stis_heartbeat_liveness_commit = commit \<rparr>))))))"

end
