(* ===== verification/Server_Startup.thy ===== *)
theory Server_Startup
  imports Server_Launch
begin

text \<open>
  What the server reads from its startup file, apps/server/src/lib.rs and crates/config/src/lib.rs:
  two parsers read the same text, the one of the server's settings and the one of the whitelist.
  A file written in the layout of the repository's example is loaded back by both.
\<close>

section \<open>Rendering\<close>

definition assignment :: "string \<Rightarrow> string \<Rightarrow> string" where
  "assignment key v = key @ '' = '' @ v"

definition quoted :: "string \<Rightarrow> string" where
  "quoted s = CHR 0x22 # s @ [CHR 0x22]"

definition settings_lines :: "ServerPocSettings \<Rightarrow> string list" where
  "settings_lines s =
     [''[server]'', assignment ''bind_host'' (quoted (sps_bind_host s)),
      assignment ''bind_port'' (display_nat (unat (sps_bind_port s))),
      ''[session]'', assignment ''protocol_version'' (display_nat (unat (sps_protocol_version s)))]"

definition render_startup :: "ServerPocSettings \<Rightarrow> (string \<times> SharedTokenSecretRef) list \<Rightarrow> string" where
  "render_startup s clients = foldr (\<lambda>l rest. l @ NEWLINE # rest) (settings_lines s) (render_config clients)"

section \<open>Numbers\<close>

lemma read_digits_number:
  "list_all is_digit cs \<Longrightarrow> read_digits n cs = Some (foldl (\<lambda>n c. 10 * n + (of_char c - 48)) n cs)"
  by (induction cs arbitrary: n) simp_all

lemma parse_unsigned_display: "parse_unsigned bound (display_nat n) = (if n < bound then Some n else None)"
proof -
  obtain c cs where c: "display_nat n = c # cs" "is_digit c" "list_all is_digit cs"
    using digits_of_display [of n] by (cases "display_nat n") auto
  then have "c \<noteq> CHR ''+''" by (auto simp: is_digit_def)
  moreover have "read_digits 0 (display_nat n) = Some n"
    using read_digits_number [of "display_nat n" 0] digits_of_display(1) [of n] read_display [of n]
    by (simp add: read_number_def)
  ultimately show ?thesis using c by (simp add: parse_unsigned_def)
qed

section \<open>Lines\<close>

lemma digit_printable: "is_digit c \<Longrightarrow> printable c \<and> c \<noteq> CHR ''#'' \<and> c \<noteq> NEWLINE \<and> c \<noteq> CARRIAGE_RETURN"
  by (auto simp: is_digit_def printable_def)

lemma display_line: "NEWLINE \<notin> set (display_nat n)" "last (display_nat n) \<noteq> CARRIAGE_RETURN"
  using digits_of_display [of n] digit_printable last_in_set [of "display_nat n"]
  unfolding list_all_iff by metis+

text \<open>A value that begins and ends with something to keep.\<close>

definition solid :: "string \<Rightarrow> bool" where
  "solid v \<longleftrightarrow> v \<noteq> [] \<and> printable (hd v) \<and> printable (last v) \<and> CHR ''#'' \<notin> set v"

lemma solid_display: "solid (display_nat n)"
  using digits_of_display [of n] digit_printable
  by (auto simp: solid_def list_all_iff dest: hd_in_set last_in_set)

lemma solid_quoted: "CHR ''#'' \<notin> set s \<Longrightarrow> solid (quoted s)"
  by (simp add: solid_def quoted_def printable_def)

lemma solid_trim: "solid v \<Longrightarrow> trim v = v"
proof -
  assume v: "solid v"
  show ?thesis
  proof (cases "v = [hd v]")
    case True
    then show ?thesis
      using v no_ws_prefix_printable [of "hd v" "[]"] no_ws_suffix_printable [of "hd v" "[]"]
      by (metis append_Nil solid_def trim_def trim_end_no_ws trim_start_no_ws)
  next
    case False
    then have "v = hd v # butlast (tl v) @ [last v]"
      using v by (cases v) (auto simp: solid_def)
    then show ?thesis
      using v trim_printable_ends [of "hd v" "last v" "butlast (tl v)"] by (simp add: solid_def)
  qed
qed

lemma assignment_line:
  assumes "key = c # k @ [d]" and "printable c" and "printable d" and "c \<noteq> CHR ''[''"
    and "CHR ''='' \<notin> set key" and "CHR ''#'' \<notin> set key" and v: "solid v"
  shows "strip_toml_comment (assignment key v) = assignment key v"
    and "trim (assignment key v) = assignment key v"
    and "section_header (assignment key v) = None" and "assignment key v \<noteq> []"
    and "split_once (CHR ''='') (assignment key v) = Some (key @ '' '', CHR 0x20 # v)"
    and "trim (key @ '' '') = key" and "trim (CHR 0x20 # v) = v"
proof -
  have all: "solid (assignment key v)"
    using assms by (auto simp: solid_def assignment_def)
  then show "trim (assignment key v) = assignment key v" by (rule solid_trim)
  show "strip_toml_comment (assignment key v) = assignment key v"
    using all by (simp add: solid_def strip_toml_comment_def split_once_None)
  show "section_header (assignment key v) = None" "assignment key v \<noteq> []"
    using assms(1,4) by (simp_all add: assignment_def section_header_def strip_prefix_char_def)
  show "split_once (CHR ''='') (assignment key v) = Some (key @ '' '', CHR 0x20 # v)"
    using assms(5) split_once_append [of "CHR ''=''" "key @ '' ''"] by (simp add: assignment_def)
  show "trim (key @ '' '') = key"
    using trim_trailing_space [OF assms(2,3), of k] by (simp add: assms(1))
  show "trim (CHR 0x20 # v) = v"
    using solid_trim [OF v] by (simp add: trim_def trim_start_space)
qed

text \<open>The header of a table.\<close>

lemma header_line:
  assumes "CHR ''#'' \<notin> set name"
  shows "strip_toml_comment (CHR ''['' # name @ '']'') = CHR ''['' # name @ '']''"
    and "trim (CHR ''['' # name @ '']'') = CHR ''['' # name @ '']''"
    and "section_header (CHR ''['' # name @ '']'') = Some name"
proof -
  have "solid (CHR ''['' # name @ '']'')" using assms by (simp add: solid_def printable_def)
  then show "trim (CHR ''['' # name @ '']'') = CHR ''['' # name @ '']''" by (rule solid_trim)
  show "strip_toml_comment (CHR ''['' # name @ '']'') = CHR ''['' # name @ '']''"
    using assms by (simp add: strip_toml_comment_def split_once_None)
  show "section_header (CHR ''['' # name @ '']'') = Some name"
    by (simp add: section_header_def strip_prefix_char_def strip_suffix_char_def)
qed

lemma strip_comments_agree: "strip_comment = strip_toml_comment"
  by (simp add: fun_eq_iff strip_comment_def strip_toml_comment_def)

section \<open>The parser of the settings\<close>

lemma parse_header:
  assumes "CHR ''#'' \<notin> set name"
  shows "parse_server_lines n ((CHR ''['' # name @ '']'') # rest) current parsed =
    parse_server_lines (n + 1) rest
      (if name = ''server'' \<or> name = ''session'' then Some name else None) parsed"
  by (simp add: header_line [OF assms] Let_def)

lemma parse_assignment:
  assumes "key = c # k @ [d]" and "printable c" and "printable d" and "c \<noteq> CHR ''[''"
    and "CHR ''='' \<notin> set key" and "CHR ''#'' \<notin> set key" and "solid v"
  shows "parse_server_lines n (assignment key v # rest) (Some name) parsed =
      rbind (parse_server_setting n name key v parsed) (\<lambda>parsed.
        parse_server_lines (n + 1) rest (Some name) parsed)"
    and "parse_server_lines n (assignment key v # rest) None parsed = parse_server_lines (n + 1) rest None parsed"
  by (simp_all add: assignment_line [OF assms])

lemma server_keys:
  "''bind_host'' = CHR ''b'' # ''ind_hos'' @ [CHR ''t'']" "''bind_port'' = CHR ''b'' # ''ind_por'' @ [CHR ''t'']"
  "''protocol_version'' = CHR ''p'' # ''rotocol_versio'' @ [CHR ''n'']"
  by simp_all

lemma parse_settings:
  assumes "CHR ''#'' \<notin> set (sps_bind_host s)"
  shows "parse_server_lines n (settings_lines s @ rest) None
      \<lparr> psps_bind_host = None, psps_bind_port = None, psps_protocol_version = None \<rparr> =
    parse_server_lines (n + 5) rest (Some ''session'')
      \<lparr> psps_bind_host = Some (sps_bind_host s), psps_bind_port = Some (sps_bind_port s),
        psps_protocol_version = Some (sps_protocol_version s) \<rparr>"
proof -
  have host: "parse_poc_toml_string (quoted (sps_bind_host s)) l k = Ok (sps_bind_host s)" for l k
    by (simp add: parse_poc_toml_string_def quoted_def strip_prefix_char_def strip_suffix_char_def)
  have port: "parse_poc_u16 (display_nat (unat (sps_bind_port s))) l k = Ok (sps_bind_port s)" for l k
    using unsigned_less [where 'a = nat, of "sps_bind_port s"] by (simp add: parse_poc_u16_def parse_unsigned_display)
  have version: "parse_poc_u32 (display_nat (unat (sps_protocol_version s))) l k = Ok (sps_protocol_version s)" for l k
    using unsigned_less [where 'a = nat, of "sps_protocol_version s"] by (simp add: parse_poc_u32_def parse_unsigned_display)
  have header: "parse_server_lines n (''[server]'' # rest) cur parsed = parse_server_lines (n + 1) rest (Some ''server'') parsed"
    "parse_server_lines n (''[session]'' # rest) cur parsed = parse_server_lines (n + 1) rest (Some ''session'') parsed"
    for n rest cur parsed
    using parse_header [of "''server''"] parse_header [of "''session''"] by (simp_all del: parse_server_lines.simps(2))
  note line = header parse_assignment(1) [OF server_keys(1)] parse_assignment(1) [OF server_keys(2)] parse_assignment(1) [OF server_keys(3)]
  show ?thesis
    by (simp add: settings_lines_def line solid_quoted [OF assms] solid_display printable_def
        parse_server_setting_def host port version eval_nat_numeral del: parse_server_lines.simps(2))
qed

text \<open>The lines of the whitelist do not concern it.\<close>

lemma skip_clients:
  assumes "list_all renderable cs"
  shows "parse_server_lines n (lines (render_clients cs)) None parsed = Ok parsed"
  using assms
proof (induction cs arbitrary: n)
  case (Cons c cs)
  obtain k r where c: "c = (k, r)" by (cases c)
  have ok: "renderable (k, r)" using Cons.prems c by simp
  have header: "section_line k = CHR ''['' # (''auth.clients.'' @ k) @ '']''" by (simp add: section_line_def)
  have "CHR ''#'' \<notin> set (''auth.clients.'' @ k)" using ok by (simp add: renderable_def plain_def)
  note one = parse_header [OF this, folded header]
  obtain ks d where key: "secret_key r = CHR ''s'' # ks @ [d]" "printable d" "CHR ''='' \<notin> set (secret_key r)"
      "CHR ''#'' \<notin> set (secret_key r)"
  proof -
    have "secret_key r = ''shared_token'' \<or> secret_key r = ''shared_token_env''"
      by (simp add: secret_key_def split: SharedTokenSecretRef.split)
    then show ?thesis
      using that [of "''hared_toke''" "CHR ''n''"] that [of "''hared_token_en''" "CHR ''v''"]
      by (elim disjE) (simp_all add: printable_def)
  qed
  have line: "secret_line r = assignment (secret_key r) (quoted (secret_text r))"
    by (simp add: secret_line_def assignment_def quoted_def)
  have solid: "solid (quoted (secret_text r))" using ok by (simp add: renderable_def plain_def solid_quoted)
  have two: "parse_server_lines n (secret_line r # rest) None parsed = parse_server_lines (n + 1) rest None parsed"
    for n rest
    unfolding line by (rule parse_assignment(2) [OF key(1) _ key(2) _ key(3,4) solid]) (simp_all add: printable_def)
  show ?case
    using Cons unfolding c lines_render_client [OF ok] one by (simp add: two del: parse_server_lines.simps(2))
qed simp

lemma lines_startup:
  assumes "plain (sps_bind_host s)"
  shows "lines (render_startup s cs) = settings_lines s @ ''[auth]'' # lines (render_clients cs)"
proof -
  have line: "NEWLINE \<notin> set l \<and> (l = [] \<or> last l \<noteq> CARRIAGE_RETURN)" if "l \<in> set (settings_lines s)" for l
    using that assms digits_of_display(2)
    by (auto simp: settings_lines_def assignment_def quoted_def plain_def display_line)
  have "lines (foldr (\<lambda>l rest. l @ NEWLINE # rest) ls rest) = ls @ lines rest"
    if "\<forall>l \<in> set ls. NEWLINE \<notin> set l \<and> (l = [] \<or> last l \<noteq> CARRIAGE_RETURN)" for ls rest
    using that by (induction ls) (simp_all add: lines_append)
  then show ?thesis
    using line lines_append [of "''[auth]''" "render_clients cs"] by (simp add: render_startup_def render_config_def)
qed

section \<open>The parser of the whitelist\<close>

text \<open>The lines of the settings do not concern it.\<close>

lemma parse_line_header:
  assumes "CHR ''#'' \<notin> set name" and "name \<noteq> ''auth''" and "name \<noteq> ''auth.clients''"
    and "strip_prefix_str ''auth.clients.'' name = None"
  shows "parse_line n (CHR ''['' # name @ '']'') p cur = Ok (p, None)"
  using header_line [OF assms(1)] assms(2-4)
  by (simp add: parse_line_def strip_comments_agree section_header_def parse_section_def)

lemma parse_line_assignment:
  assumes "key = c # k @ [d]" and "printable c" and "printable d" and "c \<noteq> CHR ''[''"
    and "CHR ''='' \<notin> set key" and "CHR ''#'' \<notin> set key" and "solid v"
  shows "parse_line n (assignment key v) p None = Ok (p, None)"
  using assignment_line [OF assms]
  by (simp add: parse_line_def strip_comments_agree section_header_def parse_key_value_def Let_def)

lemma skip_settings:
  assumes "CHR ''#'' \<notin> set (sps_bind_host s)"
  shows "parse_lines n (settings_lines s @ rest) p None = parse_lines (n + 5) rest p None"
proof -
  have "strip_prefix_str ''auth.clients.'' ''server'' = None" "strip_prefix_str ''auth.clients.'' ''session'' = None"
    by (simp_all add: strip_prefix_str_def)
  then have header: "parse_line n ''[server]'' p cur = Ok (p, None)" "parse_line n ''[session]'' p cur = Ok (p, None)"
    for n p cur
    using parse_line_header [of "''server''"] parse_line_header [of "''session''"] by simp_all
  note line = parse_line_assignment [OF server_keys(1)] parse_line_assignment [OF server_keys(2)]
    parse_line_assignment [OF server_keys(3)]
  show ?thesis
    by (simp add: settings_lines_def header line solid_quoted [OF assms] solid_display printable_def
        eval_nat_numeral)
qed

section \<open>The whole file\<close>

lemma load_startup:
  assumes "plain (sps_bind_host s)" and "cs \<noteq> []" and "list_all renderable cs" and "sorted_wrt (<) (map fst cs)"
    and "resolver (sps_bind_host s) (sps_bind_port s) = Inl (address # addresses)"
  shows "ServerAuthResponsePocLauncher_load_startup_config_from_str resolver (render_startup s cs) =
    Ok \<lparr> sapc_bind_address = address, sapc_expected_protocol_version = sps_protocol_version s,
         sapc_auth_config = config_of cs \<rparr>"
proof -
  have host: "CHR ''#'' \<notin> set (sps_bind_host s)" using assms(1) by (simp add: plain_def)
  have auth: "parse_server_lines n (''[auth]'' # rest) current parsed = parse_server_lines (n + 1) rest None parsed"
    for n rest current parsed
    using parse_header [of "''auth''"] by (simp del: parse_server_lines.simps(2))
  have "parse_server_poc_settings (render_startup s cs) = Ok s"
    by (simp add: parse_server_poc_settings_def lines_startup [OF assms(1)] parse_settings [OF host] auth
        skip_clients [OF assms(3)] ok_or_def del: parse_server_lines.simps(2))
  moreover have "load_from_str (render_startup s cs) = Ok (config_of cs)"
  proof -
    let ?p = "ParsedAuthToml_default \<lparr> pat_saw_auth_section := True \<rparr>"
    have "parse_auth_clients (render_startup s cs)
        = Ok (?p \<lparr> pat_clients := map (\<lambda>(k, r). (k, parsed_client r)) cs \<rparr>)"
      using parse_rendered_clients [OF assms(3,4), of ?p]
      by (simp add: parse_auth_clients_def lines_startup [OF assms(1)] skip_settings [OF host] parse_auth_line
          ParsedAuthToml_default_def)
    then show ?thesis
      using assms(2,3) by (simp add: load_from_str_def load_parsed_clients)
  qed
  moreover have "resolve_bind_address resolver (sps_bind_host s) (sps_bind_port s) = Ok address"
    using assms(5) by (simp add: resolve_bind_address_def)
  ultimately show ?thesis
    by (simp add: ServerAuthResponsePocLauncher_load_startup_config_from_str_def)
qed

section \<open>Properties\<close>

text \<open>
  C39: A startup file in the layout of the repository's example, settings first and then the
  whitelist, is loaded back exactly, provided the host, the ids and the secrets have no number sign
  and no line break, the ids are trimmed and not empty, the secrets are not blank and are literal
  tokens or environment variables, and the clients are listed in strictly ascending order and are
  at least one: both parsers skip what is meant for the other, the port and the protocol version
  are read at their width, and the bind address is the first one the host name resolves to.
\<close>

theorem startup_file_loads_back:
  assumes "plain (sps_bind_host settings)" and "clients \<noteq> []" and "list_all renderable clients"
    and "sorted_wrt (<) (map fst clients)"
    and "resolver (sps_bind_host settings) (sps_bind_port settings) = Inl (address # addresses)"
  shows "ServerAuthResponsePocLauncher_load_startup_config_from_str resolver (render_startup settings clients) =
    Ok \<lparr> sapc_bind_address = address, sapc_expected_protocol_version = sps_protocol_version settings,
         sapc_auth_config = config_of clients \<rparr>"
  using assms by (rule load_startup)

lemma startup_file_loads_back_witness:
  "ServerAuthResponsePocLauncher_load_startup_config_from_str (\<lambda>_ port. Inl [SocketAddrV4 0x7F000001 port])
     (render_startup \<lparr> sps_bind_host = ''localhost'', sps_bind_port = 5000, sps_protocol_version = 1 \<rparr>
       [(''cam-1'', EnvironmentVariable ''CAM_1_TOKEN'')]) =
   Ok \<lparr> sapc_bind_address = SocketAddrV4 0x7F000001 5000, sapc_expected_protocol_version = 1,
     sapc_auth_config = config_of [(''cam-1'', EnvironmentVariable ''CAM_1_TOKEN'')] \<rparr>"
proof -
  show ?thesis
    using sample_trim startup_file_loads_back [of "\<lparr> sps_bind_host = ''localhost'', sps_bind_port = 5000, sps_protocol_version = 1 \<rparr>"
        "[(''cam-1'', EnvironmentVariable ''CAM_1_TOKEN'')]" "\<lambda>_ port. Inl [SocketAddrV4 0x7F000001 port]"]
    by (simp add: plain_def renderable_def)
qed

text \<open>
  The line of an unknown destination is only found when the file has a space before the equals
  sign: without it the error names line 0.
\<close>

theorem unknown_destination_line:
  "parse_receive_send_iteration_json_lines_sink_config (''[logging.receive_send_iteration]'' @ NEWLINE
     # ''destination='' @ quoted ''x'') = Error (PocConfig_InvalidValue 0 ''destination'' ''x'') \<and>
   parse_receive_send_iteration_json_lines_sink_config (''[logging.receive_send_iteration]'' @ NEWLINE
     # ''destination ='' @ quoted ''x'') = Error (PocConfig_InvalidValue 2 ''destination'' ''x'')"
  by code_simp

end
