(* ===== verification/Server_Runtime.thy ===== *)
theory Server_Runtime
  imports Server_Launch Server_Reassembly "HOL-Library.Product_Lexorder"
begin

text \<open>
  The server's continuous run, apps/server/src/lib.rs: the launcher that keeps one socket and one
  set of states over all turns, drains the socket in cycles, commits heartbeats, clock
  observations and video frames after each turn, and counts what it sees. The socket's options,
  its receive and send calls, the clock and the writers are arguments.
\<close>

section \<open>Policy and summary\<close>

definition SERVER_DEFAULT_RECEIVE_BUFFER_BYTES :: nat where
  "SERVER_DEFAULT_RECEIVE_BUFFER_BYTES = 8388608"

record ServerReceiveSendContinuousRuntimePolicy =
  srcp_receive_timeout :: Duration
  srcp_max_iterations :: "nat option"
  srcp_heartbeat_timeout :: "ServerHeartbeatTimeoutPolicy option"
  srcp_receive_buffer_bytes :: nat
  srcp_max_packets_per_drain_cycle :: nat
  srcp_video_queue_policy :: ServerVideoFrameQueuePolicy
  srcp_rtt_offset_candidate_policy :: ServerHeartbeatRttOffsetCandidatePolicy

definition ServerHeartbeatRttOffsetCandidatePolicy_default :: ServerHeartbeatRttOffsetCandidatePolicy where
  "ServerHeartbeatRttOffsetCandidatePolicy_default =
     \<lparr> shcp_smoothing = SmoothingMode_Deferred,
       shcp_outlier = \<lparr> max_rtt_delta_micros = None, max_clock_offset_delta_micros = None \<rparr> \<rparr>"

definition ServerReceiveSendContinuousRuntimePolicy_default :: ServerReceiveSendContinuousRuntimePolicy where
  "ServerReceiveSendContinuousRuntimePolicy_default =
     \<lparr> srcp_receive_timeout = 1000 * 1000000, srcp_max_iterations = None, srcp_heartbeat_timeout = None,
       srcp_receive_buffer_bytes = SERVER_DEFAULT_RECEIVE_BUFFER_BYTES,
       srcp_max_packets_per_drain_cycle = 64,
       srcp_video_queue_policy = ServerVideoFrameQueuePolicy_default,
       srcp_rtt_offset_candidate_policy = ServerHeartbeatRttOffsetCandidatePolicy_default \<rparr>"

datatype ServerReceiveSendContinuousRuntimeStopReason =
    ContinuousStop_MaxIterationsReached
  | ContinuousStop_ReceiveTimedOut
  | ContinuousStop_ControllerStopped
  | ContinuousStop_SocketReceiveFailed io_ErrorKind

datatype ServerReceiveSendContinuousRuntimeContinuationReason =
    Continue_AcceptedPacket
  | Continue_RejectedPacket
  | Continue_PacketProcessedWithoutClassification

record ServerHeartbeatTimeoutSweepSummary =
  hsw_status :: ServerOperationalConditionStatus
  hsw_clients_evaluated :: nat
  hsw_timed_out_clients :: nat
  hsw_most_severe_client_summary :: "ServerHeartbeatOperationalSummary option"

record ServerReceiveSendContinuousRuntimeIterationSummary =
  crit_iteration_index :: nat
  crit_continuation_reason :: ServerReceiveSendContinuousRuntimeContinuationReason
  crit_auth_summary :: "ServerAuthOperationalSummary option"
  crit_registration_summary :: "AuthenticatedSenderRegistrationSummary option"
  crit_runtime_rejection_summary :: "ServerRuntimePacketOperationalSummary option"
  crit_heartbeat_timeout_summary :: "ServerHeartbeatTimeoutSweepSummary option"
  crit_outbound_queue_len :: nat
  crit_video_queue_len :: nat

record ServerUdpReceiveBufferTuningResult =
  rbt_requested_bytes :: nat
  rbt_effective_bytes :: "nat option"
  rbt_set_error :: "string option"
  rbt_read_error :: "string option"

record ServerReceiveSendContinuousRuntimeSummary =
  crsum_receive_timeout :: Duration
  crsum_max_iterations :: "nat option"
  crsum_max_packets_per_drain_cycle :: nat
  crsum_receive_buffer :: ServerUdpReceiveBufferTuningResult
  crsum_drain_cycles :: nat
  crsum_last_packets_drained_in_cycle :: nat
  crsum_max_packets_drained_in_cycle :: nat
  crsum_receive_would_block_count :: nat
  crsum_iterations_attempted :: nat
  crsum_iterations_completed :: nat
  crsum_packets_received :: nat
  crsum_accepted_packets :: nat
  crsum_rejected_packets :: nat
  crsum_decode_errors :: nat
  crsum_auth_requests_received :: nat
  crsum_auth_responses_sent :: nat
  crsum_heartbeats_received :: nat
  crsum_heartbeat_acks_sent :: nat
  crsum_client_stats_received :: nat
  crsum_heartbeat_observations_committed :: nat
  crsum_frames_reassembled :: u64
  crsum_frames_queued :: u64
  crsum_direct_frames_queued :: u64
  crsum_outbound_queue_len :: nat
  crsum_video_queue_len :: nat
  crsum_incomplete_reassembly_frames :: nat
  crsum_registered_clients :: nat
  crsum_heartbeat_liveness_clients :: nat
  crsum_heartbeat_rtt_offset_clients :: nat
  crsum_last_receive_error :: "io_ErrorKind option"
  crsum_last_send_error :: "string option"
  crsum_last_rejected_reason :: "string option"
  crsum_last_auth_summary :: "ServerAuthOperationalSummary option"
  crsum_last_registration_summary :: "AuthenticatedSenderRegistrationSummary option"
  crsum_last_runtime_rejection_summary :: "ServerRuntimePacketOperationalSummary option"
  crsum_last_heartbeat_timeout_summary :: "ServerHeartbeatTimeoutSweepSummary option"
  crsum_stop_reason :: ServerReceiveSendContinuousRuntimeStopReason

abbreviation usize_inc :: "nat \<Rightarrow> nat" where
  "usize_inc n \<equiv> usize_saturating_add n 1"

abbreviation u64_inc :: "u64 \<Rightarrow> u64" where
  "u64_inc n \<equiv> u64_saturating_add n 1"

section \<open>The states a run keeps\<close>

record ContinuousStates =
  cst_handoffs :: "(string \<times> string, ServerHeartbeatAckHandoff) btree_map"
  cst_liveness :: ServerHeartbeatLivenessState
  cst_rtt_offset :: ServerHeartbeatRttOffsetState
  cst_video_queue :: ServerVideoFrameQueueState
  cst_reassembly :: ServerVideoFrameReassemblyState
  cst_summary :: ServerReceiveSendContinuousRuntimeSummary
  cst_iteration_summaries :: "ServerReceiveSendContinuousRuntimeIterationSummary list"

section \<open>The heartbeat sweep\<close>

fun operational_status_rank :: "ServerOperationalConditionStatus \<Rightarrow> nat" where
  "operational_status_rank Status_Continue = 0"
| "operational_status_rank Status_Reject = 1"
| "operational_status_rank Status_ReconnectRequired = 2"
| "operational_status_rank Status_InvestigationRequired = 3"

fun sweep_clients ::
  "ServerHeartbeatLivenessState \<Rightarrow> TimestampMicros \<Rightarrow> ServerHeartbeatTimeoutPolicy \<Rightarrow> ClientId list \<Rightarrow>
     nat \<Rightarrow> ServerHeartbeatOperationalSummary option \<Rightarrow> nat \<times> ServerHeartbeatOperationalSummary option" where
  "sweep_clients liveness evaluated_at policy [] timed_out_clients most_severe =
     (timed_out_clients, most_severe)"
| "sweep_clients liveness evaluated_at policy (client_id # rest) timed_out_clients most_severe =
     (let evaluation = ServerHeartbeatLivenessCommitBoundary_evaluate_timeout liveness client_id
            evaluated_at policy;
          summary = heartbeat_operational_summary_from_evaluation evaluation;
          timed_out_clients = (if shos_status summary = Status_ReconnectRequired
            then usize_inc timed_out_clients else timed_out_clients);
          most_severe = (if (case most_severe of
                Some existing \<Rightarrow> operational_status_rank (shos_status existing)
                  < operational_status_rank (shos_status summary)
              | None \<Rightarrow> True)
            then Some summary else most_severe) in
      sweep_clients liveness evaluated_at policy rest timed_out_clients most_severe)"

definition summarize_heartbeat_timeouts ::
  "ServerHeartbeatLivenessState \<Rightarrow> AuthenticatedSenderRegistry \<Rightarrow> TimestampMicros \<Rightarrow>
     ServerHeartbeatTimeoutPolicy option \<Rightarrow> ServerHeartbeatTimeoutSweepSummary option" where
  "summarize_heartbeat_timeouts liveness registry evaluated_at policy =
     Option.bind policy (\<lambda>policy.
     let client_ids = map ase_client_id (AuthenticatedSenderRegistry_entries registry) in
     if client_ids = [] then Some \<lparr> hsw_status = Status_Continue, hsw_clients_evaluated = 0,
       hsw_timed_out_clients = 0, hsw_most_severe_client_summary = None \<rparr>
     else
       (case sweep_clients liveness evaluated_at policy client_ids 0 None of
          (timed_out_clients, most_severe) \<Rightarrow>
            Some \<lparr> hsw_status = (if 0 < timed_out_clients then Status_ReconnectRequired else Status_Continue),
              hsw_clients_evaluated = length (AuthenticatedSenderRegistry_entries registry),
              hsw_timed_out_clients = timed_out_clients,
              hsw_most_severe_client_summary = most_severe \<rparr>))"

section \<open>Observing one turn\<close>

text \<open>How the summary counts a packet: its class, and why it was rejected.\<close>

definition observe_packet ::
  "ServerContinuousReceiveLoopHandlerHandoffRuntimeResult \<Rightarrow> ServerReceiveSendContinuousRuntimeSummary \<Rightarrow>
     ServerReceiveSendContinuousRuntimeSummary \<times> ServerReceiveSendContinuousRuntimeContinuationReason
       \<times> ServerRuntimePacketOperationalSummary option" where
  "observe_packet handler summary =
     (let summary = crsum_packets_received_update usize_inc summary;
          outcome = map_option srle_outcome (rwr_operational_event (rhr_writer handler));
          (summary, continuation_reason) =
            (if outcome = Some Log_Accepted
             then (crsum_accepted_packets_update usize_inc summary, Continue_AcceptedPacket)
             else if rwr_rejection_event (rhr_writer handler) \<noteq> None
               \<or> outcome = Some Log_DecodeRejected \<or> outcome = Some Log_AcceptanceRejected
             then (crsum_rejected_packets_update usize_inc summary, Continue_RejectedPacket)
             else (summary, Continue_PacketProcessedWithoutClassification));
          summary =
            (case rwr_rejection_event (rhr_writer handler) of
               Some rejection \<Rightarrow>
                 (let summary = summary \<lparr> crsum_last_rejected_reason :=
                        Some (receive_rejection_reason_name (srre_rejection_reason rejection)) \<rparr> in
                  if srre_rejection_reason rejection = Rejection_DecodeError
                  then crsum_decode_errors_update usize_inc summary else summary)
             | None \<Rightarrow> summary) in
      case rwh_rejection_log (rwr_handoff (rhr_writer handler)) of
        Some (GateRejection_Acceptance rejection) \<Rightarrow>
          (let packet_summary = packet_operational_summary_from_rejection rejection in
           (summary \<lparr> crsum_last_runtime_rejection_summary := Some packet_summary \<rparr>,
            continuation_reason, Some packet_summary))
      | _ \<Rightarrow> (summary, continuation_reason, None))"

definition is_stored :: "ServerVideoFrameQueueStorageResult \<Rightarrow> bool" where
  "is_stored r = (case r of Video_Stored _ _ _ _ \<Rightarrow> True | Video_Dropped _ _ \<Rightarrow> False)"

text \<open>What the run keeps of the effect of a turn.\<close>

definition commit_heartbeat :: "ServerHeartbeatAckHandoff \<Rightarrow> ContinuousStates \<Rightarrow> ContinuousStates" where
  "commit_heartbeat handoff st =
     (let heartbeat = srh_heartbeat (shah_registered_packet handoff);
          st = st \<lparr> cst_summary := crsum_heartbeats_received_update usize_inc (cst_summary st),
            cst_handoffs := btree_insert (hb_client_id heartbeat, hb_run_id heartbeat) handoff
              (cst_handoffs st) \<rparr> in
      st \<lparr> cst_liveness := fst (ServerHeartbeatLivenessCommitBoundary_commit (cst_liveness st)
        (shpi_state (shah_processing_inputs handoff))) \<rparr>)"

definition commit_client_stats ::
  "ServerReceiveSendContinuousRuntimePolicy \<Rightarrow> TimestampMicros \<Rightarrow> ServerClientStatsHandlerInput \<Rightarrow>
     ContinuousStates \<Rightarrow> (ContinuousStates, unit) result" where
  "commit_client_stats policy timestamp input st =
     (let st = st \<lparr> cst_summary := crsum_client_stats_received_update usize_inc (cst_summary st) \<rparr>;
          key = (scss_client_id (scsh_state input), scss_run_id (scsh_state input)) in
      case btree_get (cst_handoffs st) key of
        None \<Rightarrow> Ok st
      | Some handoff \<Rightarrow>
          (case ServerHeartbeatObservationReturnBoundary_calculate_from_client_stats handoff input of
             Inl (Err _) \<Rightarrow> Ok st
           | Inl Panic \<Rightarrow> Panicked
           | Inr calculation \<Rightarrow>
               (let (rtt, outcome) = ServerHeartbeatRttOffsetPolicyCommitBoundary_evaluate_and_commit
                      (cst_rtt_offset st) calculation (srcp_rtt_offset_candidate_policy policy)
                      (Some timestamp);
                    st = st \<lparr> cst_rtt_offset := rtt \<rparr> in
                Ok (case shpc_result outcome of
                      PolicyCommit_Committed _ \<Rightarrow>
                        st \<lparr> cst_summary := crsum_heartbeat_observations_committed_update usize_inc
                          (cst_summary st) \<rparr>
                    | PolicyCommit_Skipped _ \<Rightarrow> st))))"

definition commit_video_frame ::
  "ServerReceiveSendContinuousRuntimePolicy \<Rightarrow> TimestampMicros \<Rightarrow> ServerVideoFrameHandlerInput \<Rightarrow>
     ContinuousStates \<Rightarrow> ContinuousStates" where
  "commit_video_frame policy timestamp input st =
     (case ServerVideoFrameQueueStorageBoundary_store_frame (cst_video_queue st) input timestamp
         (srcp_video_queue_policy policy) of
        (video, stored) \<Rightarrow>
          (let st = st \<lparr> cst_video_queue := video \<rparr> in
           if is_stored stored
           then st \<lparr> cst_summary := crsum_frames_queued_update u64_inc
             (crsum_direct_frames_queued_update u64_inc (cst_summary st)) \<rparr>
           else st))"

definition commit_fragment ::
  "ServerReceiveSendContinuousRuntimePolicy \<Rightarrow> TimestampMicros \<Rightarrow>
     ServerRegisteredVideoFrameFragmentPacket \<Rightarrow> ContinuousStates \<Rightarrow> (ContinuousStates, unit) result" where
  "commit_fragment policy timestamp packet st =
     (case apply_fragment (cst_reassembly st) (cst_video_queue st) packet timestamp
         (srcp_video_queue_policy policy) of
        (_, _, Inl _) \<Rightarrow> Panicked
      | (reassembly, video, Inr applied) \<Rightarrow>
          (let st = st \<lparr> cst_reassembly := reassembly, cst_video_queue := video \<rparr> in
           Ok (case applied of
                 FrameComplete _ _ queue_result \<Rightarrow>
                   (let summary = crsum_frames_reassembled_update u64_inc (cst_summary st) in
                    st \<lparr> cst_summary := (if is_stored queue_result
                      then crsum_frames_queued_update u64_inc summary else summary) \<rparr>)
               | _ \<Rightarrow> st)))"

definition observe_side_effect ::
  "ServerReceiveSendContinuousRuntimePolicy \<Rightarrow> TimestampMicros \<Rightarrow>
     ServerDispatchRuntimeSideEffectApplyResult \<Rightarrow> ContinuousStates \<Rightarrow>
     (ContinuousStates \<times> ServerAuthOperationalSummary option
       \<times> AuthenticatedSenderRegistrationSummary option, unit) result" where
  "observe_side_effect policy timestamp side_effect st =
     (case side_effect of
        SideEffect_Auth flow _ registration \<Rightarrow>
          (let summary = (crsum_auth_requests_received_update usize_inc (cst_summary st))
                 \<lparr> crsum_last_auth_summary := Some (safo_operational_summary flow),
                   crsum_last_registration_summary := registration \<rparr>;
               summary = (if sad_accepted (safo_decision flow) then summary
                 else summary \<lparr> crsum_last_rejected_reason :=
                   Some (''Auth:'' @ auth_response_reason_code_name (sad_reason_code (safo_decision flow))) \<rparr>) in
           Ok (st \<lparr> cst_summary := summary \<rparr>, Some (safo_operational_summary flow), registration))
      | SideEffect_HeartbeatAck handoff \<Rightarrow> Ok (commit_heartbeat handoff st, None, None)
      | SideEffect_ClientStats input \<Rightarrow>
          rbind (commit_client_stats policy timestamp input st) (\<lambda>st. Ok (st, None, None))
      | SideEffect_VideoFrame input \<Rightarrow> Ok (commit_video_frame policy timestamp input st, None, None)
      | SideEffect_UnappliedRegistered registered \<Rightarrow>
          (case srdo_result registered of
             RegisteredRuntime_FutureVideoFrameFragment packet \<Rightarrow>
               rbind (commit_fragment policy timestamp packet st) (\<lambda>st. Ok (st, None, None))
           | _ \<Rightarrow> Ok (st, None, None))
      | SideEffect_NoDispatch _ \<Rightarrow> Ok (st, None, None)
      | SideEffect_UnappliedVideoStats _ \<Rightarrow> Ok (st, None, None))"

definition queue_collection_len_from_result :: "ServerControllerReceiveSendRuntimeResult \<Rightarrow> nat" where
  "queue_collection_len_from_result result =
     (case result of
        ControllerRuntime_Iteration _ iteration _ \<Rightarrow>
          (case rso_dequeue iteration of
             Dequeue_Ready _ \<Rightarrow> 0
           | Dequeue_Empty \<Rightarrow> sqpo_queue_len (rso_queue_push iteration))
      | ControllerRuntime_Stopped _ \<Rightarrow> 0)"

text \<open>The sizes of the states, as the summary shows them.\<close>

definition observe_sizes ::
  "AuthenticatedSenderRegistry \<Rightarrow> nat \<Rightarrow> ContinuousStates \<Rightarrow> ServerReceiveSendContinuousRuntimeSummary \<Rightarrow>
     ServerReceiveSendContinuousRuntimeSummary" where
  "observe_sizes registry outbound_queue_len st summary =
     summary \<lparr> crsum_outbound_queue_len := outbound_queue_len,
       crsum_video_queue_len := ServerVideoFrameQueueState_total_len (cst_video_queue st),
       crsum_incomplete_reassembly_frames :=
         ServerVideoFrameReassemblyState_tracked_frame_count (cst_reassembly st),
       crsum_registered_clients := length (AuthenticatedSenderRegistry_entries registry),
       crsum_heartbeat_liveness_clients := length (liveness_entries (cst_liveness st)),
       crsum_heartbeat_rtt_offset_clients := length (rtt_entries (cst_rtt_offset st)) \<rparr>"

definition observe_continuous_iteration ::
  "ServerReceiveSendContinuousRuntimePolicy \<Rightarrow> nat \<Rightarrow> TimestampMicros \<Rightarrow> AuthenticatedSenderRegistry \<Rightarrow>
     ServerControllerReceiveSendRuntimeResult \<Rightarrow> ContinuousStates \<Rightarrow>
     (ContinuousStates \<times> ServerReceiveSendContinuousRuntimeStopReason option, unit) result" where
  "observe_continuous_iteration policy iteration_index timestamp registry result st =
     (case result of
        ControllerRuntime_Stopped _ \<Rightarrow> Ok (st, Some ContinuousStop_ControllerStopped)
      | ControllerRuntime_Iteration _ iteration _ \<Rightarrow>
          (case ror_outcome (rbr_tick (rso_body iteration)) of
             OneTick_SocketReceiveFailed _ error_kind \<Rightarrow>
               Ok (st \<lparr> cst_summary := cst_summary st
                 \<lparr> crsum_last_receive_error := Some error_kind,
                   crsum_last_heartbeat_timeout_summary := summarize_heartbeat_timeouts (cst_liveness st)
                     registry timestamp (srcp_heartbeat_timeout policy) \<rparr> \<rparr>,
                 Some (if error_kind = Kind_TimedOut \<or> error_kind = Kind_WouldBlock
                   then ContinuousStop_ReceiveTimedOut else ContinuousStop_SocketReceiveFailed error_kind))
           | OneTick_Stopped \<Rightarrow> Ok (st, Some ContinuousStop_ControllerStopped)
           | OneTick_Completed _ handler \<Rightarrow>
               (case observe_packet handler (cst_summary st) of
                  (summary, continuation_reason, runtime_rejection_summary) \<Rightarrow>
               rbind (observe_side_effect policy timestamp (ssea_result (rso_side_effect iteration))
                   (st \<lparr> cst_summary := summary \<rparr>)) (\<lambda>(st, auth_summary, registration_summary).
               let summary = (case rso_send_log iteration of
                       Some send_log \<Rightarrow>
                         (case sse_message_type send_log of
                            MessageType_AuthResponse \<Rightarrow>
                              crsum_auth_responses_sent_update usize_inc (cst_summary st)
                          | MessageType_HeartbeatAck \<Rightarrow>
                              crsum_heartbeat_acks_sent_update usize_inc (cst_summary st)
                          | _ \<Rightarrow> cst_summary st)
                     | None \<Rightarrow> cst_summary st);
                   heartbeat_timeout_summary = summarize_heartbeat_timeouts (cst_liveness st) registry
                     timestamp (srcp_heartbeat_timeout policy) in
               Ok (st \<lparr> cst_summary := (observe_sizes registry 0 st summary)
                     \<lparr> crsum_last_heartbeat_timeout_summary := heartbeat_timeout_summary \<rparr>,
                   cst_iteration_summaries := cst_iteration_summaries st @
                     [\<lparr> crit_iteration_index = iteration_index,
                        crit_continuation_reason = continuation_reason,
                        crit_auth_summary = auth_summary,
                        crit_registration_summary = registration_summary,
                        crit_runtime_rejection_summary = runtime_rejection_summary,
                        crit_heartbeat_timeout_summary = heartbeat_timeout_summary,
                        crit_outbound_queue_len = queue_collection_len_from_result result,
                        crit_video_queue_len =
                          ServerVideoFrameQueueState_total_len (cst_video_queue st) \<rparr>] \<rparr>, None)))))"

text \<open>What a failed turn leaves in the summary.\<close>

fun debug_error_kind :: "io_ErrorKind \<Rightarrow> string" where
  "debug_error_kind Kind_TimedOut = ''TimedOut''"
| "debug_error_kind Kind_WouldBlock = ''WouldBlock''"
| "debug_error_kind Kind_Interrupted = ''Interrupted''"
| "debug_error_kind Kind_ConnectionRefused = ''ConnectionRefused''"
| "debug_error_kind Kind_NetworkUnreachable = ''NetworkUnreachable''"
| "debug_error_kind Kind_PermissionDenied = ''PermissionDenied''"
| "debug_error_kind Kind_BrokenPipe = ''BrokenPipe''"
| "debug_error_kind Kind_ConnectionAborted = ''ConnectionAborted''"
| "debug_error_kind Kind_UnexpectedEof = ''UnexpectedEof''"
| "debug_error_kind (Kind_Other name) = name"

fun debug_encode_error :: "NetEncodeError \<Rightarrow> string" where
  "debug_encode_error (NetEncodeError_Protocol destination error) =
     debug_fields ''Protocol''
       [(''destination'', debug_fields ''PacketDestination'' [(''address'', display_address (dst_address destination))]),
        (''error'', debug_protocol_error error)]"

definition observe_continuous_runtime_error ::
  "ServerControllerReceiveSendRuntimeError \<Rightarrow> ServerReceiveSendContinuousRuntimeSummary \<Rightarrow>
     ServerReceiveSendContinuousRuntimeSummary" where
  "observe_continuous_runtime_error error summary =
     (case error of
        ControllerRuntime_IterationFailed (Iteration_ReceiveBody kind) \<Rightarrow>
          summary \<lparr> crsum_last_receive_error := Some kind \<rparr>
      | ControllerRuntime_IterationFailed (Iteration_Send (SendOne_Encode error _)) \<Rightarrow>
          summary \<lparr> crsum_last_send_error := Some (''Encode:'' @ debug_encode_error error) \<rparr>
      | ControllerRuntime_IterationFailed (Iteration_Send (SendOne_SocketSend kind _)) \<Rightarrow>
          summary \<lparr> crsum_last_send_error := Some (''SocketSend('' @ debug_error_kind kind @ '')'') \<rparr>
      | _ \<Rightarrow> summary)"

section \<open>The run\<close>

definition apply_receive_buffer_bytes ::
  "'w ServerSocketIo \<Rightarrow> nat \<Rightarrow> 'w \<Rightarrow> 'w \<times> ServerUdpReceiveBufferTuningResult" where
  "apply_receive_buffer_bytes socket_io requested_bytes w =
     (case ssk_set_recv_buffer_size socket_io requested_bytes w of
        (w, set_error) \<Rightarrow>
     (case ssk_recv_buffer_size socket_io w of
        (w, read_result) \<Rightarrow>
          (let text = (\<lambda>error. debug_error_kind (ioe_kind error) @ '': '' @ ioe_message error) in
           (w, \<lparr> rbt_requested_bytes = requested_bytes,
              rbt_effective_bytes = (case read_result of Inl bytes \<Rightarrow> Some bytes | Inr _ \<Rightarrow> None),
              rbt_set_error = map_option text set_error,
              rbt_read_error = (case read_result of Inl _ \<Rightarrow> None | Inr error \<Rightarrow> Some (text error)) \<rparr>))))"

datatype ServerReceiveSendContinuousRuntimeError =
    Continuous_OneIterationStartup ServerReceiveSendOneIterationStartupError
  | Continuous_Bind SocketAddr io_ErrorKind
  | Continuous_SetReceiveTimeout SocketAddr io_ErrorKind
  | Continuous_SetNonblocking SocketAddr bool io_ErrorKind
  | Continuous_Runtime nat ServerControllerReceiveSendRuntimeError ServerReceiveSendContinuousRuntimeSummary

text \<open>Everything the launcher keeps while it runs, and the world.\<close>

record 'w ContinuousRun =
  run_registry :: AuthenticatedSenderRegistry
  run_queue :: ServerOutboundQueueCollection
  run_states :: ContinuousStates
  run_iterations :: "ServerControllerReceiveSendRuntimeResult list"
  run_iteration_index :: nat
  run_world :: 'w

abbreviation run_summary :: "'w ContinuousRun \<Rightarrow> ServerReceiveSendContinuousRuntimeSummary" where
  "run_summary run \<equiv> cst_summary (run_states run)"

definition update_summary ::
  "(ServerReceiveSendContinuousRuntimeSummary \<Rightarrow> ServerReceiveSendContinuousRuntimeSummary) \<Rightarrow>
     'w ContinuousRun \<Rightarrow> 'w ContinuousRun" where
  "update_summary f run =
     run \<lparr> run_states := run_states run \<lparr> cst_summary := f (run_summary run) \<rparr> \<rparr>"

definition limit_reached :: "ServerReceiveSendContinuousRuntimePolicy \<Rightarrow> nat \<Rightarrow> bool" where
  "limit_reached policy iteration_index =
     (case srcp_max_iterations policy of Some limit \<Rightarrow> limit \<le> iteration_index | None \<Rightarrow> False)"

definition set_nonblocking ::
  "'w ServerSocketIo \<Rightarrow> SocketAddr \<Rightarrow> bool \<Rightarrow> 'w ContinuousRun \<Rightarrow>
     'w ContinuousRun \<times> (unit, ServerReceiveSendContinuousRuntimeError) result" where
  "set_nonblocking socket_io address nonblocking run =
     (case ssk_set_nonblocking socket_io nonblocking (run_world run) of
        (w, result) \<Rightarrow> (run \<lparr> run_world := w \<rparr>,
          rmap_err (\<lambda>error. Continuous_SetNonblocking address nonblocking (ioe_kind error)) result))"

definition would_block :: "ServerControllerReceiveSendRuntimeResult \<Rightarrow> bool" where
  "would_block result =
     (case result of
        ControllerRuntime_Iteration _ iteration _ \<Rightarrow>
          (case ror_outcome (rbr_tick (rso_body iteration)) of
             OneTick_SocketReceiveFailed _ error_kind \<Rightarrow>
               error_kind = Kind_WouldBlock \<or> error_kind = Kind_TimedOut
           | _ \<Rightarrow> False)
      | _ \<Rightarrow> False)"

definition turn_completed :: "ServerControllerReceiveSendRuntimeResult \<Rightarrow> bool" where
  "turn_completed result =
     (case result of
        ControllerRuntime_Iteration _ iteration _ \<Rightarrow>
          (case ror_outcome (rbr_tick (rso_body iteration)) of OneTick_Completed _ _ \<Rightarrow> True | _ \<Rightarrow> False)
      | _ \<Rightarrow> False)"

definition final_sizes :: "'w ContinuousRun \<Rightarrow> 'w ContinuousRun" where
  "final_sizes run =
     update_summary (observe_sizes (run_registry run) (length (soqc_items (run_queue run))) (run_states run)) run"

text \<open>
  One turn of a drain cycle: the first waits for the receive timeout, the others do not. A turn
  after the first that finds nothing ends the cycle and is not counted as an iteration.
\<close>

datatype DrainOutcome =
    Drain_Next
  | Drain_Empty
  | Drain_Stopped ServerReceiveSendContinuousRuntimeStopReason

definition drain_turn ::
  "'w ServerSocketIo \<Rightarrow> (string \<Rightarrow> string + VarError) \<Rightarrow> ServerAuthResponsePocStartupConfig \<Rightarrow>
     ServerReceiveSendContinuousRuntimePolicy \<Rightarrow> nat \<Rightarrow> nat \<Rightarrow> 'w ContinuousRun \<Rightarrow>
     'w ContinuousRun \<times> (nat \<times> DrainOutcome, ServerReceiveSendContinuousRuntimeError) result" where
  "drain_turn socket_io env_var startup_config policy drain_index packets run =
     (if limit_reached policy (run_iteration_index run)
      then (run, Ok (packets, Drain_Stopped ContinuousStop_MaxIterationsReached))
      else
        io_bind (if drain_index = 1 then set_nonblocking socket_io (sapc_bind_address startup_config) True run
          else (run, Ok ())) (\<lambda>_ run.
        let run = update_summary (crsum_iterations_attempted_update usize_inc) run in
        case current_system_timestamp_micros socket_io (run_world run) of
          (w, timestamp) \<Rightarrow>
        (case run_turn socket_io env_var startup_config (run_registry run) (run_queue run) timestamp w of
          ((registry, queue, w), turn) \<Rightarrow>
            (let run = run \<lparr> run_registry := registry, run_queue := queue, run_world := w \<rparr> in
             case turn of
               Inl (Err error) \<Rightarrow>
                 (run, Error (Continuous_Runtime (run_iteration_index run) error
                   (run_summary (final_sizes (update_summary (observe_continuous_runtime_error error) run)))))
             | Inl Panic \<Rightarrow> (run, Panicked)
             | Inr result \<Rightarrow>
                 (let run = update_summary (crsum_iterations_completed_update usize_inc) run in
                  if 0 < drain_index \<and> would_block result
                  then (update_summary (crsum_receive_would_block_count_update usize_inc) run,
                    Ok (packets, Drain_Empty))
                  else
                    (case observe_continuous_iteration policy (run_iteration_index run) timestamp registry
                        result (run_states run) of
                       Inl _ \<Rightarrow> (run, Panicked)
                     | Inr (states, stop_reason) \<Rightarrow>
                         (run \<lparr> run_states := states, run_iterations := run_iterations run @ [result],
                            run_iteration_index := usize_inc (run_iteration_index run) \<rparr>,
                          Ok (if turn_completed result then usize_inc packets else packets,
                            case stop_reason of Some reason \<Rightarrow> Drain_Stopped reason | None \<Rightarrow> Drain_Next))))))))"

text \<open>A drain cycle: at most \<open>remaining\<close> turns; the packets it drained and why the run stops, if it does.\<close>

fun drain_cycle ::
  "'w ServerSocketIo \<Rightarrow> (string \<Rightarrow> string + VarError) \<Rightarrow> ServerAuthResponsePocStartupConfig \<Rightarrow>
     ServerReceiveSendContinuousRuntimePolicy \<Rightarrow> nat \<Rightarrow> nat \<Rightarrow> nat \<Rightarrow> 'w ContinuousRun \<Rightarrow>
     'w ContinuousRun \<times> (nat \<times> ServerReceiveSendContinuousRuntimeStopReason option,
       ServerReceiveSendContinuousRuntimeError) result" where
  "drain_cycle socket_io env_var startup_config policy 0 drain_index packets run = (run, Ok (packets, None))"
| "drain_cycle socket_io env_var startup_config policy (Suc remaining) drain_index packets run =
     io_bind (drain_turn socket_io env_var startup_config policy drain_index packets run)
       (\<lambda>(packets, outcome) run.
     case outcome of
       Drain_Next \<Rightarrow> drain_cycle socket_io env_var startup_config policy remaining (drain_index + 1) packets run
     | Drain_Empty \<Rightarrow> (run, Ok (packets, None))
     | Drain_Stopped reason \<Rightarrow> (run, Ok (packets, Some reason)))"

text \<open>Drain cycles until one of them stops the run.\<close>

partial_function (option) drain_cycles ::
  "'w ServerSocketIo \<Rightarrow> (string \<Rightarrow> string + VarError) \<Rightarrow> ServerAuthResponsePocStartupConfig \<Rightarrow>
     ServerReceiveSendContinuousRuntimePolicy \<Rightarrow> 'w ContinuousRun \<Rightarrow>
     ('w ContinuousRun \<times> (unit, ServerReceiveSendContinuousRuntimeError) result) option" where
  "drain_cycles socket_io env_var startup_config policy run =
     (if limit_reached policy (run_iteration_index run)
      then Some (update_summary (\<lambda>s. s \<lparr> crsum_stop_reason := ContinuousStop_MaxIterationsReached \<rparr>) run, Ok ())
      else
        (case io_bind (drain_cycle socket_io env_var startup_config policy
              (max (srcp_max_packets_per_drain_cycle policy) 1) 0 0
              (update_summary (crsum_drain_cycles_update usize_inc) run)) (\<lambda>(packets, stop_reason) run.
            io_bind (if 1 < srcp_max_packets_per_drain_cycle policy
                then set_nonblocking socket_io (sapc_bind_address startup_config) False run
                else (run, Ok ())) (\<lambda>_ run.
            (update_summary (\<lambda>s. s \<lparr> crsum_last_packets_drained_in_cycle := packets,
               crsum_max_packets_drained_in_cycle := max (crsum_max_packets_drained_in_cycle s) packets \<rparr>) run,
             Ok stop_reason))) of
           (run, Inl failure) \<Rightarrow> Some (run, Inl failure)
         | (run, Inr (Some reason)) \<Rightarrow> Some (update_summary (\<lambda>s. s \<lparr> crsum_stop_reason := reason \<rparr>) run, Ok ())
         | (run, Inr None) \<Rightarrow> drain_cycles socket_io env_var startup_config policy run))"

definition initial_summary ::
  "ServerReceiveSendContinuousRuntimePolicy \<Rightarrow> ServerUdpReceiveBufferTuningResult \<Rightarrow>
     ServerReceiveSendContinuousRuntimeSummary" where
  "initial_summary policy receive_buffer =
     \<lparr> crsum_receive_timeout = srcp_receive_timeout policy,
       crsum_max_iterations = srcp_max_iterations policy,
       crsum_max_packets_per_drain_cycle = max (srcp_max_packets_per_drain_cycle policy) 1,
       crsum_receive_buffer = receive_buffer, crsum_drain_cycles = 0,
       crsum_last_packets_drained_in_cycle = 0, crsum_max_packets_drained_in_cycle = 0,
       crsum_receive_would_block_count = 0, crsum_iterations_attempted = 0,
       crsum_iterations_completed = 0, crsum_packets_received = 0, crsum_accepted_packets = 0,
       crsum_rejected_packets = 0, crsum_decode_errors = 0, crsum_auth_requests_received = 0,
       crsum_auth_responses_sent = 0, crsum_heartbeats_received = 0, crsum_heartbeat_acks_sent = 0,
       crsum_client_stats_received = 0, crsum_heartbeat_observations_committed = 0,
       crsum_frames_reassembled = 0, crsum_frames_queued = 0, crsum_direct_frames_queued = 0,
       crsum_outbound_queue_len = 0, crsum_video_queue_len = 0,
       crsum_incomplete_reassembly_frames = 0, crsum_registered_clients = 0,
       crsum_heartbeat_liveness_clients = 0, crsum_heartbeat_rtt_offset_clients = 0,
       crsum_last_receive_error = None, crsum_last_send_error = None,
       crsum_last_rejected_reason = None, crsum_last_auth_summary = None,
       crsum_last_registration_summary = None, crsum_last_runtime_rejection_summary = None,
       crsum_last_heartbeat_timeout_summary = None,
       crsum_stop_reason = ContinuousStop_MaxIterationsReached \<rparr>"

definition initial_run ::
  "ServerReceiveSendContinuousRuntimePolicy \<Rightarrow> ServerUdpReceiveBufferTuningResult \<Rightarrow> 'w \<Rightarrow> 'w ContinuousRun" where
  "initial_run policy receive_buffer w =
     \<lparr> run_registry = AuthenticatedSenderRegistry_default, run_queue = EMPTY_QUEUE,
       run_states = \<lparr> cst_handoffs = [], cst_liveness = EMPTY_LIVENESS, cst_rtt_offset = \<lparr> rtt_entries = [] \<rparr>,
         cst_video_queue = ServerVideoFrameQueueState_default,
         cst_reassembly = \<lparr> reassembly_frames = [] \<rparr>,
         cst_summary = initial_summary policy receive_buffer, cst_iteration_summaries = [] \<rparr>,
       run_iterations = [], run_iteration_index = 0, run_world = w \<rparr>"

record ServerReceiveSendContinuousRuntimeOutcome =
  crout_bind_address :: SocketAddr
  crout_receive_buffer :: ServerUdpReceiveBufferTuningResult
  crout_registry :: AuthenticatedSenderRegistry
  crout_queue_collection :: ServerOutboundQueueCollection
  crout_video_queue_state :: ServerVideoFrameQueueState
  crout_reassembly_state :: ServerVideoFrameReassemblyState
  crout_heartbeat_liveness_state :: ServerHeartbeatLivenessState
  crout_heartbeat_rtt_offset_state :: ServerHeartbeatRttOffsetState
  crout_iterations :: "ServerControllerReceiveSendRuntimeResult list"
  crout_iteration_summaries :: "ServerReceiveSendContinuousRuntimeIterationSummary list"
  crout_summary :: ServerReceiveSendContinuousRuntimeSummary

text \<open>\<open>None\<close> when the run never ends.\<close>

definition ServerReceiveSendContinuousRuntimeLauncher_run_with_writers_and_policy ::
  "'w ServerSocketIo \<Rightarrow> (string \<Rightarrow> string + VarError) \<Rightarrow> ServerAuthResponsePocStartupConfig \<Rightarrow>
     ServerReceiveSendContinuousRuntimePolicy \<Rightarrow> 'w \<Rightarrow>
     ('w \<times> (ServerReceiveSendContinuousRuntimeOutcome, ServerReceiveSendContinuousRuntimeError) result) option" where
  "ServerReceiveSendContinuousRuntimeLauncher_run_with_writers_and_policy socket_io env_var startup_config policy w =
     (let address = sapc_bind_address startup_config in
      case bind_socket socket_io Continuous_Bind address w of
        (w, Inl failure) \<Rightarrow> Some (w, Inl failure)
      | (w, Inr _) \<Rightarrow>
     (case apply_receive_buffer_bytes socket_io (srcp_receive_buffer_bytes policy) w of
        (w, receive_buffer) \<Rightarrow>
     (case io_map_err (\<lambda>error. Continuous_SetReceiveTimeout address (ioe_kind error))
         (ssk_set_read_timeout socket_io (Some (srcp_receive_timeout policy)) w) of
        (w, Inl failure) \<Rightarrow> Some (w, Inl failure)
      | (w, Inr _) \<Rightarrow>
          map_option (\<lambda>(run, result).
            (run_world run, rmap (\<lambda>_.
              let run = final_sizes run in
              \<lparr> crout_bind_address = address, crout_receive_buffer = receive_buffer,
                crout_registry = run_registry run, crout_queue_collection = run_queue run,
                crout_video_queue_state = cst_video_queue (run_states run),
                crout_reassembly_state = cst_reassembly (run_states run),
                crout_heartbeat_liveness_state = cst_liveness (run_states run),
                crout_heartbeat_rtt_offset_state = cst_rtt_offset (run_states run),
                crout_iterations = run_iterations run,
                crout_iteration_summaries = cst_iteration_summaries (run_states run),
                crout_summary = run_summary run \<rparr>) result))
            (drain_cycles socket_io env_var startup_config policy (initial_run policy receive_buffer w)))))"

definition ServerReceiveSendContinuousRuntimeLauncher_run_from_path_with_writers_and_policy ::
  "'w ServerSocketIo \<Rightarrow> Resolver \<Rightarrow> (string \<Rightarrow> string + VarError) \<Rightarrow> string \<Rightarrow> (string, string) result \<Rightarrow>
     ServerReceiveSendContinuousRuntimePolicy \<Rightarrow> 'w \<Rightarrow>
     ('w \<times> (ServerReceiveSendContinuousRuntimeOutcome, ServerReceiveSendContinuousRuntimeError) result) option" where
  "ServerReceiveSendContinuousRuntimeLauncher_run_from_path_with_writers_and_policy
       socket_io resolver env_var path content policy w =
     (case rmap_err Continuous_OneIterationStartup
         (ServerReceiveSendOneIterationLauncher_load_startup_config_from_path resolver path content) of
        Inl failure \<Rightarrow> Some (w, Inl failure)
      | Inr startup_config \<Rightarrow>
          ServerReceiveSendContinuousRuntimeLauncher_run_with_writers_and_policy
            socket_io env_var startup_config policy w)"

end
