(* ===== verification/Server_Run.thy ===== *)
theory Server_Run
  imports Server_Runtime Server_Turn Video_Path
begin

text \<open>
  What the continuous run of apps/server/src/lib.rs amounts to. The specification \<open>server_step\<close>
  says what one datagram does to the registry, the liveness state and the video states; the run
  over everything a socket holds is the iteration of that step, in the order of arrival.
\<close>

section \<open>One datagram\<close>

type_synonym ServerView = "AuthenticatedSenderRegistry \<times> ServerHeartbeatLivenessState \<times>
  (ServerVideoFrameReassemblyState \<times> ServerVideoFrameQueueState)"

definition step_timing :: "TimestampMicros \<Rightarrow> ServerHeartbeatAckTiming" where
  "step_timing t = \<lparr> shat_server_received_at = t, shat_server_sent_at = t \<rparr>"

text \<open>What a packet from a registered client does, at a time.\<close>

fun packet_step ::
  "ServerReceiveSendContinuousRuntimePolicy \<Rightarrow> TimestampMicros \<Rightarrow> ServerRegisteredClientPacket \<Rightarrow>
     ServerHeartbeatLivenessState \<times> (ServerVideoFrameReassemblyState \<times> ServerVideoFrameQueueState) \<Rightarrow>
     ServerHeartbeatLivenessState \<times> (ServerVideoFrameReassemblyState \<times> ServerVideoFrameQueueState)" where
  "packet_step policy t (Registered_Heartbeat p) (liveness, video) =
     (fst (ServerHeartbeatLivenessCommitBoundary_commit liveness
        (shpi_state (shah_processing_inputs (ServerHeartbeatHandlerBoundary_handoff_ack p (step_timing t))))),
      video)"
| "packet_step policy t (Registered_VideoFrame p) (liveness, reassembly, queue) =
     (liveness, reassembly, fst (ServerVideoFrameQueueStorageBoundary_store_frame queue
        (ServerVideoFrameHandlerBoundary_prepare_input p) t (srcp_video_queue_policy policy)))"
| "packet_step policy t (Registered_VideoFrameFragment p) (liveness, video) =
     (liveness, apply_step (srcp_video_queue_policy policy) video (p, t))"
| "packet_step policy t (Registered_ClientStats p) (liveness, video) = (liveness, video)"

definition server_step ::
  "(string \<Rightarrow> string + VarError) \<Rightarrow> ServerAuthResponsePocStartupConfig \<Rightarrow>
     ServerReceiveSendContinuousRuntimePolicy \<Rightarrow> ServerView \<Rightarrow>
     TimestampMicros \<times> PacketSource \<times> u8 list \<Rightarrow> ServerView" where
  "server_step env_var startup_config policy view i =
     (case (view, i) of ((registry, states), (t, source, bytes)) \<Rightarrow>
       (let version = sapc_expected_protocol_version startup_config in
        (fst (datagram_reaction env_var (sapc_auth_config startup_config) (step_timing t) version
           registry source bytes),
         case datagram_plan version registry source bytes of
           Plan_RegisteredClient packet \<Rightarrow> packet_step policy t packet states
         | _ \<Rightarrow> states)))"

text \<open>The datagrams were served one by one, each at some time.\<close>

definition served ::
  "(string \<Rightarrow> string + VarError) \<Rightarrow> ServerAuthResponsePocStartupConfig \<Rightarrow>
     ServerReceiveSendContinuousRuntimePolicy \<Rightarrow> (PacketSource \<times> u8 list) list \<Rightarrow> ServerView \<Rightarrow> ServerView \<Rightarrow> bool" where
  "served env_var startup_config policy datagrams view view' \<longleftrightarrow>
     (\<exists>ts. length ts = length datagrams \<and>
        view' = foldl (server_step env_var startup_config policy) view (zip ts datagrams))"

lemma served_Nil [simp]: "served env cfg policy [] v v' \<longleftrightarrow> v' = v"
  by (simp add: served_def)

lemma served_Cons:
  assumes "served env cfg policy ds (server_step env cfg policy v (t, d)) v'"
  shows "served env cfg policy (d # ds) v v'"
proof -
  obtain ts where "length ts = length ds"
    "v' = foldl (server_step env cfg policy) (server_step env cfg policy v (t, d)) (zip ts ds)"
    using assms by (auto simp: served_def)
  then show ?thesis by (auto simp: served_def intro!: exI [where x = "t # ts"])
qed

lemma served_append:
  assumes "served env cfg policy ds v v'" and "served env cfg policy ds' v' v''"
  shows "served env cfg policy (ds @ ds') v v''"
proof -
  obtain ts ts' where "length ts = length ds" "length ts' = length ds'"
    "v' = foldl (server_step env cfg policy) v (zip ts ds)"
    "v'' = foldl (server_step env cfg policy) v' (zip ts' ds')"
    using assms by (auto simp: served_def)
  then show ?thesis by (auto simp: served_def intro!: exI [where x = "ts @ ts'"])
qed

definition view_of :: "'w ContinuousRun \<Rightarrow> ServerView" where
  "view_of run = (run_registry run, cst_liveness (run_states run),
     (cst_reassembly (run_states run), cst_video_queue (run_states run)))"

section \<open>What the run keeps of a turn\<close>

definition states_view :: "ContinuousStates \<Rightarrow>
    ServerHeartbeatLivenessState \<times> (ServerVideoFrameReassemblyState \<times> ServerVideoFrameQueueState)" where
  "states_view st = (cst_liveness st, (cst_reassembly st, cst_video_queue st))"

lemma states_view_simps [simp]:
  "states_view (st \<lparr> cst_summary := s \<rparr>) = states_view st"
  "states_view (st \<lparr> cst_handoffs := h \<rparr>) = states_view st"
  "states_view (st \<lparr> cst_rtt_offset := r \<rparr>) = states_view st"
  "states_view (st \<lparr> cst_iteration_summaries := i \<rparr>) = states_view st"
  by (simp_all add: states_view_def)

lemma calculate_from_stats_no_panic:
  "ServerHeartbeatObservationReturnBoundary_calculate_from_client_stats handoff input \<noteq> Panicked"
  by (auto simp: ServerHeartbeatObservationReturnBoundary_calculate_from_client_stats_def rbind_eq_Inl_iff
      ServerHeartbeatRttOffsetCalculationBoundary_calculate_def Let_def rmap_err_eq_Panic_iff calculate_no_panic
      ok_or_def split: option.splits if_splits)

lemma commit_client_stats_view:
  "\<exists>st'. commit_client_stats policy t input st = Ok st' \<and> states_view st' = states_view st"
  using calculate_from_stats_no_panic
  by (auto simp: commit_client_stats_def Let_def split: option.splits sum.splits fault.splits prod.splits
      ServerHeartbeatRttOffsetPolicyCommitResult.splits)

lemma commit_fragment_view:
  assumes "reassembly_ok (cst_reassembly st)"
  shows "\<exists>st'. commit_fragment policy t packet st = Ok st' \<and>
    states_view st' = packet_step policy t (Registered_VideoFrameFragment packet) (states_view st)"
proof -
  have "\<exists>result. snd (snd (apply_fragment (cst_reassembly st) (cst_video_queue st) packet t
      (srcp_video_queue_policy policy))) = Ok result"
    by (rule apply_fragment_cases [OF assms, of packet "cst_video_queue st" t "srcp_video_queue_policy policy"])
      simp_all
  then obtain reassembly queue result where "apply_fragment (cst_reassembly st) (cst_video_queue st)
      packet t (srcp_video_queue_policy policy) = (reassembly, queue, Ok result)"
    by (metis prod.collapse)
  then show ?thesis
    by (auto simp: commit_fragment_def states_view_def apply_step_def Let_def
        split: ServerVideoFrameReassemblyApplyResult.splits)
qed

lemma observe_side_effect_view:
  assumes "side_effect_of (step_timing t) plan result" and "reassembly_ok (cst_reassembly st)"
  shows "\<exists>st' auth registration. observe_side_effect policy t result st = Ok (st', auth, registration) \<and>
    states_view st' = (case plan of
        Plan_RegisteredClient packet \<Rightarrow> packet_step policy t packet (states_view st)
      | _ \<Rightarrow> states_view st)"
proof (cases plan)
  case (Plan_RegisteredClient packet)
  show ?thesis
  proof (cases packet)
    case (Registered_Heartbeat p)
    then show ?thesis
      using assms(1) Plan_RegisteredClient
      by (simp add: side_effect_of_def observe_side_effect_def commit_heartbeat_def Let_def)
        (simp add: states_view_def)
  next
    case (Registered_VideoFrame p)
    then show ?thesis
      using assms(1) Plan_RegisteredClient
      by (simp add: side_effect_of_def observe_side_effect_def commit_video_frame_def Let_def case_prod_unfold)
        (simp add: states_view_def)
  next
    case (Registered_VideoFrameFragment p)
    then show ?thesis
      using assms Plan_RegisteredClient commit_fragment_view [of st policy t p]
      by (auto simp: side_effect_of_def observe_side_effect_def)
  next
    case (Registered_ClientStats p)
    then show ?thesis
      using assms Plan_RegisteredClient
        commit_client_stats_view [of policy t "ServerClientStatsHandlerBoundary_prepare_input p" st]
      by (auto simp: side_effect_of_def observe_side_effect_def states_view_def)
  qed
qed (use assms(1) in \<open>auto simp: side_effect_of_def observe_side_effect_def Let_def\<close>)

lemma observe_packet_total: "\<exists>s c r. observe_packet handler summary = (s, c, r)"
  by (cases "observe_packet handler summary") auto

lemma observe_iteration_view:
  assumes "ror_outcome (rbr_tick (rso_body iteration)) = OneTick_Completed n handler"
    and "side_effect_of (step_timing t) plan (ssea_result (rso_side_effect iteration))"
    and "reassembly_ok (cst_reassembly st)"
  shows "\<exists>st'. observe_continuous_iteration policy index t registry
      (ControllerRuntime_Iteration p iteration observation) st = Ok (st', None) \<and>
    states_view st' = (case plan of
        Plan_RegisteredClient packet \<Rightarrow> packet_step policy t packet (states_view st)
      | _ \<Rightarrow> states_view st)"
proof -
  obtain s c r where packet: "observe_packet handler (cst_summary st) = (s, c, r)"
    using observe_packet_total by blast
  obtain st' auth registration where
    "observe_side_effect policy t (ssea_result (rso_side_effect iteration)) (st \<lparr> cst_summary := s \<rparr>)
      = Ok (st', auth, registration)"
    "states_view st' = (case plan of
        Plan_RegisteredClient packet \<Rightarrow> packet_step policy t packet (states_view st)
      | _ \<Rightarrow> states_view st)"
    using observe_side_effect_view [OF assms(2), of "st \<lparr> cst_summary := s \<rparr>" policy, unfolded states_view_simps]
      assms(3) by auto
  then show ?thesis
    using assms(1) packet by (simp add: observe_continuous_iteration_def Let_def)
qed

section \<open>A socket and what it holds\<close>

text \<open>
  A world whose socket works: what it holds is received in order and then nothing more, sending
  and writing succeed and leave it alone. The datagrams are shorter than an address space, as the
  receive buffer makes them.
\<close>

definition inbox_world :: "'w ServerSocketIo \<Rightarrow> ('w \<Rightarrow> (PacketSource \<times> u8 list) list) \<Rightarrow> bool" where
  "inbox_world socket_io pending \<longleftrightarrow>
     keeps pending (sio_operational_writer (ssk_io socket_io)) \<and>
     keeps pending (sio_rejection_writer (ssk_io socket_io)) \<and>
     keeps pending (sio_auth_log_writer (ssk_io socket_io)) \<and>
     keeps pending (sio_send_log_writer (ssk_io socket_io)) \<and>
     (\<forall>packet w. \<exists>w' n. sio_send (ssk_io socket_io) packet w = (w', Ok n) \<and> pending w' = pending w) \<and>
     (\<forall>w d ds. pending w = d # ds \<longrightarrow>
        (\<exists>w'. sio_receive (ssk_io socket_io) w = (w', Ok d) \<and> pending w' = ds) \<and> length (snd d) < usize_bound) \<and>
     (\<forall>w. pending w = [] \<longrightarrow>
        (\<exists>w' e. sio_receive (ssk_io socket_io) w = (w', Error e) \<and> pending w' = [] \<and>
           (ioe_kind e = Kind_WouldBlock \<or> ioe_kind e = Kind_TimedOut))) \<and>
     (\<forall>address w. \<exists>w'. ssk_bind socket_io address w = (w', Ok ()) \<and> pending w' = pending w) \<and>
     (\<forall>n w. pending (fst (ssk_set_recv_buffer_size socket_io n w)) = pending w) \<and>
     (\<forall>w. pending (fst (ssk_recv_buffer_size socket_io w)) = pending w) \<and>
     (\<forall>t w. \<exists>w'. ssk_set_read_timeout socket_io t w = (w', Ok ()) \<and> pending w' = pending w) \<and>
     (\<forall>b w. \<exists>w'. ssk_set_nonblocking socket_io b w = (w', Ok ()) \<and> pending w' = pending w) \<and>
     (\<forall>w. pending (fst (ssk_system_time socket_io w)) = pending w)"

lemma inbox_receive:
  assumes "inbox_world socket_io pending"
  shows "pending w = d # ds \<Longrightarrow> \<exists>w'. sio_receive (ssk_io socket_io) w = (w', Ok d) \<and> pending w' = ds"
    and "pending w = d # ds \<Longrightarrow> length (snd d) < usize_bound"
    and "pending w = [] \<Longrightarrow> \<exists>w' e. sio_receive (ssk_io socket_io) w = (w', Error e) \<and> pending w' = [] \<and>
      (ioe_kind e = Kind_WouldBlock \<or> ioe_kind e = Kind_TimedOut)"
    and "\<exists>w'. ssk_set_nonblocking socket_io b w = (w', Ok ()) \<and> pending w' = pending w"
  using assms unfolding inbox_world_def by blast+

lemma timestamp_keeps:
  "inbox_world socket_io pending \<Longrightarrow>
     \<exists>w' t. current_system_timestamp_micros socket_io w = (w', t) \<and> pending w' = pending w"
  by (auto simp: inbox_world_def current_system_timestamp_micros_def Let_def split: prod.split)
    (metis fst_conv)

text \<open>A reply to a message in range is in range.\<close>

lemma reply_sendable:
  assumes "datagram_reaction env_var config timing version registry source bytes = (registry', Some item)"
    and "length bytes < usize_bound"
  shows "message_wf version (op_message (oqi_packet item)) \<and>
    length (message_bytes (op_message (oqi_packet item))) < 2 ^ 32"
proof -
  obtain decoded where decoded: "InboundPacketDecoder_decode \<lparr> dc_expected_protocol_version = version \<rparr>
      \<lparr> ib_source = source, ib_bytes = bytes \<rparr> = Ok decoded"
    and reply: "snd (reaction env_var config timing registry (ServerInboundRouter_route decoded)) = Some item"
    using assms(1) by (auto simp: datagram_reaction_def split: sum.splits)
  then have wf: "message_wf version (dip_message decoded)"
    using assms(2) inbound_decode_Ok_iff [of "\<lparr> ib_source = source, ib_bytes = bytes \<rparr>"] by simp
  show ?thesis
  proof (cases "dip_message decoded")
    case (Message_AuthRequest request)
    with reply have item: "item = accepted_response (dip_source decoded) request"
      by (simp add: ServerInboundRouter_route_def split: if_splits)
    have fits: "areq_protocol_version request = version" "string_fits (areq_client_id request)"
        "string_fits (areq_run_id request)"
      using wf Message_AuthRequest by (simp_all add: auth_request_wf_def)
    show ?thesis
      using length_control_reply [OF fits(2,3)] fits
      by (simp add: item) (simp add: accepted_response_def auth_response_wf_def option_fits_def)
  next
    case (Message_Heartbeat heartbeat)
    with reply have item: "item = acknowledgement timing (dip_source decoded) heartbeat"
      by (simp add: ServerInboundRouter_route_def split: if_splits)
    show ?thesis
      using wf Message_Heartbeat
      by (simp add: item acknowledgement_def heartbeat_wf_def heartbeat_ack_wf_def heartbeat_ack_bytes_def
          string_bytes_def string_fits_def)
  qed (use reply in \<open>simp_all add: ServerInboundRouter_route_def\<close>)
qed

lemma turn_serves:
  fixes input registry source bytes
  defines "version \<equiv> rbi_expected_protocol_version (rsi_body input)"
  assumes world: "inbox_world socket_io pending" and "pending w = (source, bytes) # rest"
    and "soqc_items queue = []" and "\<not> rbi_stop_requested (rsi_body input)"
    and "rsi_encode_context input = \<lparr> ec_protocol_version = version \<rparr>"
  shows "\<exists>w' outcome handler.
    ServerReceiveSendOneIterationRuntimeBoundary_run_once (ssk_io socket_io) env_var config input registry queue w
      = ((fst (datagram_reaction env_var config (rsi_heartbeat_timing input) version registry source bytes),
          queue, w'), Ok outcome) \<and>
    pending w' = rest \<and>
    side_effect_of (rsi_heartbeat_timing input) (datagram_plan version registry source bytes)
      (ssea_result (rso_side_effect outcome)) \<and>
    ror_outcome (rbr_tick (rso_body outcome)) = OneTick_Completed (length bytes) handler"
proof -
  obtain w1 where receive: "sio_receive (ssk_io socket_io) w = (w1, Ok (source, bytes))" "pending w1 = rest"
    and small: "length bytes < usize_bound"
    using inbox_receive(1,2) [OF world assms(3)] by auto
  obtain registry' reply where reaction: "datagram_reaction env_var config (rsi_heartbeat_timing input)
      version registry source bytes = (registry', reply)"
    by fastforce
  have keeps: "keeps pending (sio_operational_writer (ssk_io socket_io))"
    "keeps pending (sio_rejection_writer (ssk_io socket_io))"
    "keeps pending (sio_auth_log_writer (ssk_io socket_io))"
    "keeps pending (sio_send_log_writer (ssk_io socket_io))"
    using world by (simp_all add: inbox_world_def)
  let ?items = "enqueue_reply reply (soqc_items queue)"
  have sent: "\<exists>w' v. send_dequeued (sio_send (ssk_io socket_io)) (sio_send_log_writer (ssk_io socket_io))
      (case ?items of [] \<Rightarrow> Dequeue_Empty | item # _ \<Rightarrow> Dequeue_Ready item)
      (rsi_encode_context input) (rsi_send_log_timestamp input) v0 = (w', Ok v) \<and> pending w' = pending v0" for v0
  proof (cases reply)
    case None
    then show ?thesis using assms(4) by (simp add: enqueue_reply_def send_dequeued_def)
  next
    case (Some item)
    then show ?thesis
      using send_dequeued_delivers [where f = pending and ec = "rsi_encode_context input" and w = v0
          and queued = "OutboundQueueLifecycleBoundary_hold_for_send item" and t = "rsi_send_log_timestamp input"
          and send = "sio_send (ssk_io socket_io)" and send_log = "sio_send_log_writer (ssk_io socket_io)"]
        reply_sendable [OF reaction [unfolded Some] small] keeps(4) assms(4,6) world
      by (fastforce simp: enqueue_reply_def OutboundQueueLifecycleBoundary_hold_for_send_def inbox_world_def)
  qed
  have empty: "queue \<lparr> soqc_items := tl ?items \<rparr> = queue"
    using assms(4) by (cases queue) (simp add: enqueue_reply_def split: option.split)
  obtain w2 w3 result outcome handler where kept: "pending w2 = pending w1"
    and send: "send_dequeued (sio_send (ssk_io socket_io)) (sio_send_log_writer (ssk_io socket_io))
      (case ?items of [] \<Rightarrow> Dequeue_Empty | item # _ \<Rightarrow> Dequeue_Ready item)
      (rsi_encode_context input) (rsi_send_log_timestamp input) w2 = (w3, result)"
    and effect: "side_effect_of (rsi_heartbeat_timing input) (datagram_plan version registry source bytes)
      (ssea_result (rso_side_effect outcome))"
    and tick: "ror_outcome (rbr_tick (rso_body outcome)) = OneTick_Completed (length bytes) handler"
    and turn: "ServerReceiveSendOneIterationRuntimeBoundary_run_once (ssk_io socket_io) env_var config input
      registry queue w = ((registry', queue, w3),
        rmap (\<lambda>(sent, send_log). outcome \<lparr> rso_send := sent, rso_send_log := send_log \<rparr>) result)"
    using turn_of_datagram [where io = "ssk_io socket_io" and f = pending, OF receive(1) small keeps(1-3) assms(5),
        of env_var config registry queue]
    unfolding version_def [symmetric] reaction fst_conv snd_conv empty by blast
  obtain sent send_log where "result = Ok (sent, send_log)" "pending w3 = pending w2"
    using sent [of w2] send by auto
  with kept effect tick turn receive(2) reaction show ?thesis by simp
qed

section \<open>Turns of the run\<close>

lemmas run_turn_defs = run_turn_def turn_input_at_def
  ServerControllerReceiveSendRuntimeBoundary_run_once_def
  ServerContinuousReceiveLoopControllerBoundary_plan_next_iteration_def Let_def

lemma run_turn_serves:
  fixes startup_config timing
  defines "version \<equiv> sapc_expected_protocol_version startup_config"
  assumes world: "inbox_world socket_io pending" and "pending w = (source, bytes) # rest"
  shows "\<exists>w' plan outcome observation handler.
    run_turn socket_io env_var startup_config registry EMPTY_QUEUE t w
      = ((fst (datagram_reaction env_var (sapc_auth_config startup_config) (step_timing t) version registry
            source bytes), EMPTY_QUEUE, w'), Ok (ControllerRuntime_Iteration plan outcome observation)) \<and>
    pending w' = rest \<and>
    side_effect_of (step_timing t) (datagram_plan version registry source bytes)
      (ssea_result (rso_side_effect outcome)) \<and>
    ror_outcome (rbr_tick (rso_body outcome)) = OneTick_Completed (length bytes) handler"
  using turn_serves [OF world assms(3), of EMPTY_QUEUE
      "\<lparr> rsi_body = \<lparr> rbi_expected_protocol_version = version, rbi_timestamp = t, rbi_stop_requested = False \<rparr>,
         rsi_heartbeat_timing = step_timing t, rsi_encode_context = \<lparr> ec_protocol_version = version \<rparr>,
         rsi_auth_log_timestamp = t, rsi_send_log_timestamp = t \<rparr>" env_var "sapc_auth_config startup_config" registry]
  by (auto simp: run_turn_defs version_def step_timing_def)

lemma run_turn_silent:
  assumes world: "inbox_world socket_io pending" and "pending w = []"
  shows "\<exists>w' plan outcome observation tick kind.
    run_turn socket_io env_var startup_config registry EMPTY_QUEUE t w
      = ((registry, EMPTY_QUEUE, w'), Ok (ControllerRuntime_Iteration plan outcome observation)) \<and>
    pending w' = [] \<and>
    ror_outcome (rbr_tick (rso_body outcome)) = OneTick_SocketReceiveFailed tick kind \<and>
    (kind = Kind_WouldBlock \<or> kind = Kind_TimedOut)"
proof -
  obtain w' e where "sio_receive (ssk_io socket_io) w = (w', Error e)" "pending w' = []"
    "ioe_kind e = Kind_WouldBlock \<or> ioe_kind e = Kind_TimedOut"
    using inbox_receive(3) [OF assms] by blast
  then show ?thesis
    by (auto simp: run_turn_defs ServerReceiveSendOneIterationRuntimeBoundary_run_once_def
        ServerContinuousReceiveLoopBodyBoundary_run_once_def
        ServerContinuousReceiveLoopOneTickRuntimeBoundary_execute_one_tick_def
        ServerUdpSocketIoStep_receive_one_with_gate_details_def effect_defs
        ServerContinuousReceiveLoopHandlerDispatchBoundary_plan_from_body_result_def
        dequeue_one_state send_dequeued_def)
qed

lemma view_of_simps [simp]:
  "view_of (update_summary f run) = view_of run"
  "view_of (run \<lparr> run_world := w \<rparr>) = view_of run"
  "view_of (run \<lparr> run_iterations := is, run_iteration_index := n \<rparr>) = view_of run"
  "run_world (update_summary f run) = run_world run"
  "run_queue (update_summary f run) = run_queue run"
  "run_registry (update_summary f run) = run_registry run"
  "run_iteration_index (update_summary f run) = run_iteration_index run"
  "run_iterations (update_summary f run) = run_iterations run"
  "states_view (run_states (update_summary f run)) = states_view (run_states run)"
  by (simp_all add: view_of_def update_summary_def states_view_def)

lemma run_summary_update [simp]: "run_summary (update_summary f run) = f (run_summary run)"
  by (simp add: update_summary_def)

lemma view_of_states: "view_of run = (run_registry run, states_view (run_states run))"
  by (simp add: view_of_def states_view_def)

lemma set_nonblocking_world:
  assumes "inbox_world socket_io pending"
  shows "\<exists>w'. set_nonblocking socket_io address b run = (run \<lparr> run_world := w' \<rparr>, Ok ()) \<and>
    pending w' = pending (run_world run)"
  using inbox_receive(4) [OF assms, of b "run_world run"] by (auto simp: set_nonblocking_def)

lemma set_nonblocking_if:
  assumes "inbox_world socket_io pending"
  shows "\<exists>w'. (if c then set_nonblocking socket_io address b run else (run, Ok ()))
      = (run \<lparr> run_world := w' \<rparr>, Ok ()) \<and> pending w' = pending (run_world run)"
proof (cases c)
  case False
  then show ?thesis by (intro exI [where x = "run_world run"]) simp
qed (use set_nonblocking_world [OF assms, of address b run] in simp)

text \<open>A run between turns: nothing waits to be sent, and the frames in progress are well formed.\<close>

definition idle :: "'w ContinuousRun \<Rightarrow> bool" where
  "idle run \<longleftrightarrow> run_queue run = EMPTY_QUEUE \<and> reassembly_ok (cst_reassembly (run_states run))"

lemma idle_simps [simp]:
  "idle (update_summary f run) = idle run"
  "idle (run \<lparr> run_world := w \<rparr>) = idle run"
  by (simp_all add: idle_def update_summary_def)

lemma packet_step_reassembly_ok:
  "reassembly_ok (fst (snd states)) \<Longrightarrow> reassembly_ok (fst (snd (packet_step policy t packet states)))"
  using apply_all_ok [of "snd states" "srcp_video_queue_policy policy" "[(p, t)]" for p]
  by (cases packet; cases states) auto

lemma server_step_reassembly_ok:
  "reassembly_ok (fst (snd (snd view))) \<Longrightarrow> reassembly_ok (fst (snd (snd (server_step env cfg policy view i))))"
  by (auto simp: server_step_def Let_def packet_step_reassembly_ok case_prod_unfold
      split: ServerContinuousReceiveLoopHandlerDispatchPlan.split)

lemma drain_turn_serves:
  assumes world: "inbox_world socket_io pending" and unlimited: "srcp_max_iterations policy = None"
    and inbox: "pending (run_world run) = d # rest" and idle: "idle run"
  shows "\<exists>run' packets'. drain_turn socket_io env_var startup_config policy drain_index packets run
      = (run', Ok (packets', Drain_Next)) \<and>
    pending (run_world run') = rest \<and> idle run' \<and>
    served env_var startup_config policy [d] (view_of run) (view_of run')"
proof -
  obtain source bytes where d: "d = (source, bytes)" by (cases d)
  let ?before = "if drain_index = 1 then set_nonblocking socket_io (sapc_bind_address startup_config) True run
    else (run, Ok ())"
  obtain w1 where before: "?before = (run \<lparr> run_world := w1 \<rparr>, Ok ())" "pending w1 = pending (run_world run)"
    using set_nonblocking_if [OF world] by blast
  obtain w2 t where clock: "current_system_timestamp_micros socket_io w1 = (w2, t)" "pending w2 = pending w1"
    using timestamp_keeps [OF world] by blast
  let ?version = "sapc_expected_protocol_version startup_config"
  obtain w3 plan outcome observation handler where turn:
    "run_turn socket_io env_var startup_config (run_registry run) EMPTY_QUEUE t w2
      = ((fst (datagram_reaction env_var (sapc_auth_config startup_config) (step_timing t) ?version
            (run_registry run) source bytes), EMPTY_QUEUE, w3),
         Ok (ControllerRuntime_Iteration plan outcome observation))" "pending w3 = rest"
    and effect: "side_effect_of (step_timing t) (datagram_plan ?version (run_registry run) source bytes)
      (ssea_result (rso_side_effect outcome))"
    and tick: "ror_outcome (rbr_tick (rso_body outcome)) = OneTick_Completed (length bytes) handler"
    using run_turn_serves [OF world, of w2 source bytes rest env_var startup_config "run_registry run" t]
      clock before inbox d by auto
  let ?registry = "fst (datagram_reaction env_var (sapc_auth_config startup_config) (step_timing t) ?version
    (run_registry run) source bytes)"
  let ?states = "\<lambda>s. run_states run \<lparr> cst_summary := s \<rparr>"
  have ok: "reassembly_ok (cst_reassembly (?states s))" for s
    using idle by (simp add: idle_def)
  have observed: "\<exists>st'. observe_continuous_iteration policy (run_iteration_index run) t ?registry
        (ControllerRuntime_Iteration plan outcome observation) (?states s) = Ok (st', None) \<and>
      (?registry, states_view st') = server_step env_var startup_config policy (view_of run) (t, d)" for s
    using observe_iteration_view [OF tick effect ok, of policy "run_iteration_index run" ?registry plan observation s,
        unfolded states_view_simps]
    by (auto simp: server_step_def view_of_states d Let_def)
  have no_block: "\<not> would_block (ControllerRuntime_Iteration plan outcome observation)"
    using tick by (simp add: would_block_def)
  show ?thesis
  proof -
    define s where "s = crsum_iterations_completed_update usize_inc
      (crsum_iterations_attempted_update usize_inc (run_summary run))"
    obtain st' where st': "observe_continuous_iteration policy (run_iteration_index run) t ?registry
        (ControllerRuntime_Iteration plan outcome observation) (?states s) = Ok (st', None)"
      "(?registry, states_view st') = server_step env_var startup_config policy (view_of run) (t, d)"
      using observed [of s] by blast
    let ?run = "run \<lparr> run_registry := ?registry, run_queue := EMPTY_QUEUE, run_states := st',
      run_iterations := run_iterations run @ [ControllerRuntime_Iteration plan outcome observation],
      run_iteration_index := usize_inc (run_iteration_index run), run_world := w3 \<rparr>"
    have "\<exists>packets'. drain_turn socket_io env_var startup_config policy drain_index packets run
        = (?run, Ok (packets', Drain_Next))"
      using before(1) clock(1) turn(1) st'(1) no_block unlimited idle
      by (simp add: drain_turn_def limit_reached_def Let_def update_summary_def idle_def s_def)
    moreover have "served env_var startup_config policy [d] (view_of run) (view_of ?run)"
      using st'(2) by (intro served_Cons [where t = t]) (simp add: view_of_states)
    moreover have "reassembly_ok (fst (snd (snd (server_step env_var startup_config policy (view_of run) (t, d)))))"
      using idle by (intro server_step_reassembly_ok) (simp add: view_of_def idle_def)
    then have "idle ?run"
      using st'(2) [symmetric] by (simp add: idle_def states_view_def)
    ultimately show ?thesis using turn(2) by fastforce
  qed
qed

lemma drain_turn_silent:
  assumes world: "inbox_world socket_io pending" and unlimited: "srcp_max_iterations policy = None"
    and inbox: "pending (run_world run) = []" and idle: "idle run"
  shows "\<exists>run' packets'. drain_turn socket_io env_var startup_config policy drain_index packets run
      = (run', Ok (packets', if drain_index = 0 then Drain_Stopped ContinuousStop_ReceiveTimedOut else Drain_Empty)) \<and>
    pending (run_world run') = [] \<and> idle run' \<and> view_of run' = view_of run"
proof -
  let ?before = "if drain_index = 1 then set_nonblocking socket_io (sapc_bind_address startup_config) True run
    else (run, Ok ())"
  obtain w1 where before: "?before = (run \<lparr> run_world := w1 \<rparr>, Ok ())" "pending w1 = pending (run_world run)"
    using set_nonblocking_if [OF world] by blast
  obtain w2 t where clock: "current_system_timestamp_micros socket_io w1 = (w2, t)" "pending w2 = pending w1"
    using timestamp_keeps [OF world] by blast
  obtain w3 plan outcome observation tick kind where turn:
    "run_turn socket_io env_var startup_config (run_registry run) EMPTY_QUEUE t w2
      = ((run_registry run, EMPTY_QUEUE, w3), Ok (ControllerRuntime_Iteration plan outcome observation))"
    "pending w3 = []"
    and tick: "ror_outcome (rbr_tick (rso_body outcome)) = OneTick_SocketReceiveFailed tick kind"
      "kind = Kind_WouldBlock \<or> kind = Kind_TimedOut"
    using run_turn_silent [OF world, of w2 env_var startup_config "run_registry run" t] clock before inbox by auto
  have "would_block (ControllerRuntime_Iteration plan outcome observation)"
    using tick by (auto simp: would_block_def)
  with before(1) clock(1) turn tick unlimited idle show ?thesis
    by (auto simp: drain_turn_def limit_reached_def Let_def update_summary_def idle_def view_of_def
        observe_continuous_iteration_def)
qed

section \<open>Drain cycles\<close>

lemma drain_cycle_serves:
  assumes world: "inbox_world socket_io pending" and unlimited: "srcp_max_iterations policy = None"
  shows "idle run \<Longrightarrow> pending (run_world run) = ds \<Longrightarrow> \<exists>run' packets' stop ds1 ds2.
    drain_cycle socket_io env_var startup_config policy remaining drain_index packets run
      = (run', Ok (packets', stop)) \<and>
    ds = ds1 @ ds2 \<and> pending (run_world run') = ds2 \<and> idle run' \<and>
    served env_var startup_config policy ds1 (view_of run) (view_of run') \<and>
    stop = (if drain_index = 0 \<and> 0 < remaining \<and> ds = [] then Some ContinuousStop_ReceiveTimedOut else None) \<and>
    (0 < remaining \<and> ds \<noteq> [] \<longrightarrow> ds1 \<noteq> [])"
proof (induction remaining arbitrary: drain_index packets run ds)
  case 0
  then show ?case by simp
next
  case (Suc remaining)
  show ?case
  proof (cases ds)
    case Nil
    then show ?thesis
      using drain_turn_silent [OF world unlimited, of run env_var startup_config drain_index packets] Suc.prems
      by (cases "drain_index = 0") auto
  next
    case (Cons d rest)
    obtain run1 packets1 where turn: "drain_turn socket_io env_var startup_config policy drain_index packets run
        = (run1, Ok (packets1, Drain_Next))"
      and run1: "pending (run_world run1) = rest" "idle run1"
        "served env_var startup_config policy [d] (view_of run) (view_of run1)"
      using drain_turn_serves [OF world unlimited _ Suc.prems(1), of d rest env_var startup_config drain_index packets]
        Suc.prems(2) Cons by auto
    obtain run' packets' ds1 ds2 where
      "drain_cycle socket_io env_var startup_config policy remaining (drain_index + 1) packets1 run1
        = (run', Ok (packets', None))"
      "rest = ds1 @ ds2" "pending (run_world run') = ds2" "idle run'"
      "served env_var startup_config policy ds1 (view_of run1) (view_of run')"
      using Suc.IH [OF run1(2,1), of "drain_index + 1" packets1] by auto
    then show ?thesis
      using turn served_append [OF run1(3), of ds1 "view_of run'"] Cons
      by (intro exI [where x = run'] exI [where x = packets'] exI [where x = None] exI [where x = "d # ds1"]
          exI [where x = ds2]) simp
  qed
qed

lemma drain_cycles_serve:
  assumes world: "inbox_world socket_io pending" and unlimited: "srcp_max_iterations policy = None"
  shows "idle run \<Longrightarrow> pending (run_world run) = ds \<Longrightarrow> \<exists>run'.
    drain_cycles socket_io env_var startup_config policy run = Some (run', Ok ()) \<and>
    pending (run_world run') = [] \<and> idle run' \<and>
    served env_var startup_config policy ds (view_of run) (view_of run') \<and>
    crsum_stop_reason (run_summary run') = ContinuousStop_ReceiveTimedOut"
proof (induction "length ds" arbitrary: ds run rule: less_induct)
  case less
  let ?start = "update_summary (crsum_drain_cycles_update usize_inc) run"
  have "idle ?start" "pending (run_world ?start) = ds" using less.prems by simp_all
  from drain_cycle_serves [OF world unlimited this, of env_var startup_config
      "max (srcp_max_packets_per_drain_cycle policy) 1" 0 0]
  obtain run1 packets stop ds1 ds2 where
    cycle: "drain_cycle socket_io env_var startup_config policy (max (srcp_max_packets_per_drain_cycle policy) 1)
        0 0 ?start = (run1, Ok (packets, stop))"
    and ds: "ds = ds1 @ ds2" and pending: "pending (run_world run1) = ds2" and idle: "idle run1"
    and served: "served env_var startup_config policy ds1 (view_of ?start) (view_of run1)"
    and stop0: "stop = (if 0 = (0::nat) \<and> 0 < max (srcp_max_packets_per_drain_cycle policy) 1 \<and> ds = []
        then Some ContinuousStop_ReceiveTimedOut else None)"
      "0 < max (srcp_max_packets_per_drain_cycle policy) 1 \<and> ds \<noteq> [] \<longrightarrow> ds1 \<noteq> []"
    by blast
  have stop: "stop = (if ds = [] then Some ContinuousStop_ReceiveTimedOut else None)" "ds \<noteq> [] \<Longrightarrow> ds1 \<noteq> []"
    using stop0 by simp_all
  note run1 = pending idle served [unfolded view_of_simps]
  obtain w' where blocking: "(if 1 < srcp_max_packets_per_drain_cycle policy
      then set_nonblocking socket_io (sapc_bind_address startup_config) False run1 else (run1, Ok ()))
      = (run1 \<lparr> run_world := w' \<rparr>, Ok ())" "pending w' = pending (run_world run1)"
    using set_nonblocking_if [OF world] by blast
  let ?run2 = "update_summary (\<lambda>s. s \<lparr> crsum_last_packets_drained_in_cycle := packets,
      crsum_max_packets_drained_in_cycle := max (crsum_max_packets_drained_in_cycle s) packets \<rparr>)
    (run1 \<lparr> run_world := w' \<rparr>)"
  have step: "drain_cycles socket_io env_var startup_config policy run =
    (case stop of Some reason \<Rightarrow> Some (update_summary (\<lambda>s. s \<lparr> crsum_stop_reason := reason \<rparr>) ?run2, Ok ())
     | None \<Rightarrow> drain_cycles socket_io env_var startup_config policy ?run2)"
    unfolding drain_cycles.simps [of socket_io env_var startup_config policy run] cycle io_bind_simps
      prod.case blocking(1) limit_reached_def unlimited option.case if_False sum.case
    by (cases stop) (simp_all only: option.case sum.case prod.case)
  show ?case
  proof (cases "ds = []")
    case True
    then have "ds1 = []" "ds2 = []" "stop = Some ContinuousStop_ReceiveTimedOut"
      using ds stop(1) by simp_all
    then have "drain_cycles socket_io env_var startup_config policy run = Some (update_summary
        (\<lambda>s. s \<lparr> crsum_stop_reason := ContinuousStop_ReceiveTimedOut \<rparr>) ?run2, Ok ())"
      and "view_of run1 = view_of run" and "pending w' = []"
      using step run1 blocking(2) by simp_all
    then show ?thesis
      using idle True by simp
  next
    case False
    then have "length ds2 < length ds" using ds stop(2) by (cases ds1) auto
    from less.hyps [OF this, of ?run2] obtain run' where
      "drain_cycles socket_io env_var startup_config policy ?run2 = Some (run', Ok ())"
      "pending (run_world run') = []" "idle run'"
      "served env_var startup_config policy ds2 (view_of run1) (view_of run')"
      "crsum_stop_reason (run_summary run') = ContinuousStop_ReceiveTimedOut"
      using run1 blocking(2) by auto
    moreover have "stop = None" using False stop(1) by simp
    ultimately show ?thesis
      using served_append [OF run1(3), of ds2 "view_of run'"] unfolding step ds by simp
  qed
qed

section \<open>The launcher\<close>

definition initial_view :: ServerView where
  "initial_view = (AuthenticatedSenderRegistry_default, EMPTY_LIVENESS,
     (\<lparr> reassembly_frames = [] \<rparr>, ServerVideoFrameQueueState_default))"

definition outcome_view :: "ServerReceiveSendContinuousRuntimeOutcome \<Rightarrow> ServerView" where
  "outcome_view outcome = (crout_registry outcome, crout_heartbeat_liveness_state outcome,
     (crout_reassembly_state outcome, crout_video_queue_state outcome))"

lemma initial_run_simps:
  "view_of (initial_run policy buffer w) = initial_view"
  "run_world (initial_run policy buffer w) = w"
  "idle (initial_run policy buffer w)"
  by (simp_all add: view_of_def initial_run_def initial_view_def idle_def reassembly_ok_def
      btree.inv_empty btree.lookup_empty)

lemma run_serves:
  assumes world: "inbox_world socket_io pending" and unlimited: "srcp_max_iterations policy = None"
    and inbox: "pending w = datagrams"
  shows "\<exists>w' outcome. ServerReceiveSendContinuousRuntimeLauncher_run_with_writers_and_policy socket_io env_var
      startup_config policy w = Some (w', Ok outcome) \<and>
    pending w' = [] \<and>
    served env_var startup_config policy datagrams initial_view (outcome_view outcome) \<and>
    crout_queue_collection outcome = EMPTY_QUEUE \<and>
    crsum_stop_reason (crout_summary outcome) = ContinuousStop_ReceiveTimedOut"
proof -
  let ?address = "sapc_bind_address startup_config"
  obtain w1 where bound: "ssk_bind socket_io ?address w = (w1, Ok ())" "pending w1 = pending w"
    using world unfolding inbox_world_def by blast
  obtain w2 buffer where buffer: "apply_receive_buffer_bytes socket_io (srcp_receive_buffer_bytes policy) w1 = (w2, buffer)"
    "pending w2 = pending w1"
  proof -
    have "pending (fst (ssk_set_recv_buffer_size socket_io n v)) = pending v"
      "pending (fst (ssk_recv_buffer_size socket_io v)) = pending v" for n v
      using world by (simp_all add: inbox_world_def)
    then have "pending (fst (apply_receive_buffer_bytes socket_io (srcp_receive_buffer_bytes policy) w1)) = pending w1"
      by (simp add: apply_receive_buffer_bytes_def case_prod_unfold Let_def)
    then show ?thesis using that by (metis prod.collapse)
  qed
  obtain w3 where timeout: "ssk_set_read_timeout socket_io (Some (srcp_receive_timeout policy)) w2 = (w3, Ok ())"
    "pending w3 = pending w2"
    using world unfolding inbox_world_def by blast
  obtain run where run: "drain_cycles socket_io env_var startup_config policy (initial_run policy buffer w3)
      = Some (run, Ok ())" "pending (run_world run) = []" "idle run"
    "served env_var startup_config policy datagrams initial_view (view_of run)"
    "crsum_stop_reason (run_summary run) = ContinuousStop_ReceiveTimedOut"
    using drain_cycles_serve [OF world unlimited initial_run_simps(3), of policy buffer w3 datagrams env_var startup_config]
      inbox bound(2) buffer(2) timeout(2)
    by (auto simp: initial_run_simps)
  then show ?thesis
    using bound(1) buffer(1) timeout(1)
    by (simp add: ServerReceiveSendContinuousRuntimeLauncher_run_with_writers_and_policy_def bind_socket_def
        outcome_view_def view_of_def final_sizes_def idle_def observe_sizes_def)
      (simp add: update_summary_def)
qed

section \<open>What every run keeps\<close>

text \<open>An auth request with the right token arrived from this source, for this client and run.\<close>

definition authorised ::
  "(string \<Rightarrow> string + VarError) \<Rightarrow> ServerAuthResponsePocStartupConfig \<Rightarrow> (PacketSource \<times> u8 list) set \<Rightarrow>
     PacketSource \<Rightarrow> ClientId \<Rightarrow> RunId \<Rightarrow> bool" where
  "authorised env_var startup_config datagrams source client_id run_id \<longleftrightarrow>
     (\<exists>bytes request. (source, bytes) \<in> datagrams \<and>
        InboundPacketDecoder_decode
          \<lparr> dc_expected_protocol_version = sapc_expected_protocol_version startup_config \<rparr>
          \<lparr> ib_source = source, ib_bytes = bytes \<rparr>
        = Ok \<lparr> dip_source = source, dip_message = Message_AuthRequest request \<rparr> \<and>
        granted env_var (sapc_auth_config startup_config) request \<and>
        areq_client_id request = client_id \<and> areq_run_id request = run_id)"

definition view_ok ::
  "(string \<Rightarrow> string + VarError) \<Rightarrow> ServerAuthResponsePocStartupConfig \<Rightarrow>
     ServerReceiveSendContinuousRuntimePolicy \<Rightarrow> (PacketSource \<times> u8 list) set \<Rightarrow> ServerView \<Rightarrow> bool" where
  "view_ok env_var startup_config policy datagrams view \<longleftrightarrow>
     (case view of (registry, liveness, reassembly, queue) \<Rightarrow>
        registry_ok registry \<and>
        (\<forall>c e. AuthenticatedSenderRegistry_get registry c = Some e \<longrightarrow>
           authorised env_var startup_config datagrams (ase_source e) c (ase_run_id e)) \<and>
        reassembly_ok reassembly \<and> video_queue_ok (srcp_video_queue_policy policy) queue \<and>
        every_stored (\<lambda>f. authorised env_var startup_config datagrams (sqv_source f)
          (vf_client_id (sqv_frame f)) (vf_run_id (sqv_frame f))) queue)"

lemma authorised_mono:
  "authorised env cfg ds s c r \<Longrightarrow> ds \<subseteq> ds' \<Longrightarrow> authorised env cfg ds' s c r"
  by (auto simp: authorised_def)

lemma view_ok_mono: "view_ok env cfg policy ds view \<Longrightarrow> ds \<subseteq> ds' \<Longrightarrow> view_ok env cfg policy ds' view"
  by (auto simp: view_ok_def intro: authorised_mono elim: every_stored_mono)

lemma initial_view_ok: "view_ok env cfg policy ds initial_view"
  by (simp add: view_ok_def initial_view_def registry_ok_default video_queue_default_ok every_stored_default
      reassembly_ok_def btree.inv_empty btree.lookup_empty)
    (simp add: AuthenticatedSenderRegistry_default_def AuthenticatedSenderRegistry_get_def)

lemma apply_step_queue:
  assumes "reassembly_ok reassembly"
    and "apply_step policy (reassembly, queue) (packet, t) = (reassembly', queue')"
  obtains "queue' = queue"
  | frame where "queue' = store_packet policy queue (completed_packet packet frame, t)"
      "vf_client_id frame = vff_client_id (srf_fragment packet)" "vf_run_id frame = vff_run_id (srf_fragment packet)"
proof -
  obtain r where r: "apply_fragment reassembly queue packet t policy = (reassembly', queue', r)"
    using assms(2) by (auto simp: apply_step_def split: prod.splits)
  moreover obtain result where "r = Ok result"
    using r by - (rule apply_fragment_cases [OF assms(1), of packet queue t policy], auto)
  ultimately show ?thesis
    using apply_fragment_queue [OF assms(1), of queue packet t policy reassembly' queue' result] that
    by (cases result) auto
qed

lemma inbound_decode_source: "InboundPacketDecoder_decode ctx p = Ok decoded \<Longrightarrow> dip_source decoded = ib_source p"
  by (auto simp: InboundPacketDecoder_decode_def rbind_eq_Inr_iff rmap_err_eq_Inr_iff split: if_splits)

text \<open>A packet that reaches a handler has a registration, with its source, client and run.\<close>

lemma planned_packet:
  assumes "datagram_plan version registry source bytes = Plan_RegisteredClient packet"
  obtains c run where "packet_scope packet = (c, run, source)"
    and "AuthenticatedSenderRegistry_get registry c = Some (packet_sender packet)"
    and "ase_source (packet_sender packet) = source" and "ase_run_id (packet_sender packet) = run"
proof -
  obtain decoded where decoded: "InboundPacketDecoder_decode \<lparr> dc_expected_protocol_version = version \<rparr>
      \<lparr> ib_source = source, ib_bytes = bytes \<rparr> = Ok decoded"
    and plan: "plan_of registry (ServerInboundRouter_route decoded) = Plan_RegisteredClient packet"
    using assms by (auto simp: datagram_plan_def split: sum.splits)
  have "dip_source decoded = source" using inbound_decode_source [OF decoded] by simp
  from plan have "ServerRegisteredPacketBoundary_attach_sender registry (ServerInboundRouter_route decoded) = Ok packet"
    by (auto simp: plan_of_def split: ServerInboundRoute.splits sum.splits)
  then have "ServerInboundRouter_route decoded = packet_route packet"
    and scope: "case packet_scope packet of (c, run, s) \<Rightarrow>
        AuthenticatedSenderRegistry_get registry c = Some (packet_sender packet) \<and>
        ase_source (packet_sender packet) = s \<and> ase_run_id (packet_sender packet) = run"
    using prepare_for_handler_Ok_iff [of registry _ packet] by (simp_all add: prepare_is_attach)
  then have "snd (snd (packet_scope packet)) = source"
    using \<open>dip_source decoded = source\<close>
    by (cases packet; cases "dip_message decoded") (simp_all add: ServerInboundRouter_route_def)
  with scope show ?thesis by (auto intro: that)
qed

text \<open>Only a granted request changes the registry.\<close>

lemma datagram_reaction_registry:
  obtains "fst (datagram_reaction env_var config timing version registry source bytes) = registry"
  | request where "InboundPacketDecoder_decode \<lparr> dc_expected_protocol_version = version \<rparr>
        \<lparr> ib_source = source, ib_bytes = bytes \<rparr>
      = Ok \<lparr> dip_source = source, dip_message = Message_AuthRequest request \<rparr>"
      "granted env_var config request"
      "fst (datagram_reaction env_var config timing version registry source bytes) =
        fst (AuthenticatedSenderRegistryBoundary_register_with_summary registry (registration_of source request))"
proof (cases "InboundPacketDecoder_decode \<lparr> dc_expected_protocol_version = version \<rparr>
    \<lparr> ib_source = source, ib_bytes = bytes \<rparr>" rule: result_cases)
  case (Ok decoded)
  then have "dip_source decoded = source" using inbound_decode_source by fastforce
  note source = this
  show ?thesis
  proof (cases "\<exists>request. dip_message decoded = Message_AuthRequest request \<and> granted env_var config request")
    case True
    then obtain request where "decoded = \<lparr> dip_source = source, dip_message = Message_AuthRequest request \<rparr>"
        "granted env_var config request"
      using source by (cases decoded) auto
    then show ?thesis
      using Ok by (intro that(2)) (simp_all add: datagram_reaction_def ServerInboundRouter_route_def)
  next
    case False
    then have "fst (reaction env_var config timing registry (ServerInboundRouter_route decoded)) = registry"
      by (cases "dip_message decoded") (auto simp: ServerInboundRouter_route_def)
    then show ?thesis using Ok by (intro that(1)) (simp add: datagram_reaction_def)
  qed
qed (use that in \<open>simp_all add: datagram_reaction_def\<close>)

lemma registry_of_reaction_ok:
  fixes startup_config timing
  defines "version \<equiv> sapc_expected_protocol_version startup_config"
  assumes ok: "registry_ok registry"
    and "\<forall>c e. AuthenticatedSenderRegistry_get registry c = Some e \<longrightarrow>
      authorised env_var startup_config ds (ase_source e) c (ase_run_id e)"
    and "(source, bytes) \<in> ds"
  defines "registry' \<equiv> fst (datagram_reaction env_var (sapc_auth_config startup_config) timing version registry source bytes)"
  shows "registry_ok registry' \<and>
    (\<forall>c e. AuthenticatedSenderRegistry_get registry' c = Some e \<longrightarrow>
       authorised env_var startup_config ds (ase_source e) c (ase_run_id e))"
proof (cases rule: datagram_reaction_registry [of env_var "sapc_auth_config startup_config" timing version registry
      source bytes])
  case 1
  then show ?thesis using assms by simp
next
  case (2 request)
  then have "authorised env_var startup_config ds source (areq_client_id request) (areq_run_id request)"
    using assms(4) by (auto simp: authorised_def version_def)
  then show ?thesis
    using 2(3) assms(3)
    by (auto simp: registry'_def registry.ok_register [OF ok] registry.get_register [OF ok] registration_of_def
        AuthenticatedSenderRegistration_into_entry_def)
qed

lemma store_authorised:
  assumes "video_queue_ok policy queue" and "every_stored (\<lambda>f. A (sqv_source f) (vf_client_id (sqv_frame f))
      (vf_run_id (sqv_frame f))) queue"
    and "A (srv_source packet) (vf_client_id (srv_frame packet)) (vf_run_id (srv_frame packet))"
  shows "video_queue_ok policy (store_packet policy queue (packet, t)) \<and>
    every_stored (\<lambda>f. A (sqv_source f) (vf_client_id (sqv_frame f)) (vf_run_id (sqv_frame f)))
      (store_packet policy queue (packet, t))"
  using store_packet_ok [OF assms(1)] every_stored_store [OF assms(1,2), of "(packet, t)"] assms(3)
  by (simp add: queued_of_def)

lemma server_step_ok:
  assumes ok: "view_ok env_var startup_config policy ds view" and arrived: "(source, bytes) \<in> ds"
  shows "view_ok env_var startup_config policy ds (server_step env_var startup_config policy view (t, source, bytes))"
proof -
  let ?qp = "srcp_video_queue_policy policy"
  let ?version = "sapc_expected_protocol_version startup_config"
  obtain registry liveness reassembly queue where view: "view = (registry, liveness, reassembly, queue)"
    by (metis prod_cases4)
  have inv: "registry_ok registry" "reassembly_ok reassembly" "video_queue_ok ?qp queue"
    and known: "\<forall>c e. AuthenticatedSenderRegistry_get registry c = Some e \<longrightarrow>
        authorised env_var startup_config ds (ase_source e) c (ase_run_id e)"
    and stored: "every_stored (\<lambda>f. authorised env_var startup_config ds (sqv_source f)
        (vf_client_id (sqv_frame f)) (vf_run_id (sqv_frame f))) queue"
    using ok by (simp_all add: view_ok_def view)
  note registry = registry_of_reaction_ok [OF inv(1) known arrived, of "step_timing t"]
  show ?thesis
  proof (cases "\<exists>packet. datagram_plan ?version registry source bytes = Plan_RegisteredClient packet")
    case False
    then have "server_step env_var startup_config policy view (t, source, bytes) =
        (fst (datagram_reaction env_var (sapc_auth_config startup_config) (step_timing t) ?version registry source bytes),
         liveness, reassembly, queue)"
      by (auto simp: server_step_def view Let_def split: ServerContinuousReceiveLoopHandlerDispatchPlan.split)
    then show ?thesis using registry inv stored by (simp add: view_ok_def)
  next
    case True
    then obtain packet where packet: "datagram_plan ?version registry source bytes = Plan_RegisteredClient packet" by blast
    obtain c run where scope: "packet_scope packet = (c, run, source)"
      and "AuthenticatedSenderRegistry_get registry c = Some (packet_sender packet)"
      and "ase_source (packet_sender packet) = source" "ase_run_id (packet_sender packet) = run"
      using planned_packet [OF packet] by blast
    then have sender: "authorised env_var startup_config ds source c run" using known by blast
    have step: "server_step env_var startup_config policy view (t, source, bytes) =
        (fst (datagram_reaction env_var (sapc_auth_config startup_config) (step_timing t) ?version registry source bytes),
         packet_step policy t packet (liveness, reassembly, queue))"
      by (simp add: server_step_def view Let_def packet)
    show ?thesis
    proof (cases packet)
      case (Registered_VideoFrame p)
      then have "packet_step policy t packet (liveness, reassembly, queue) =
          (liveness, reassembly, store_packet ?qp queue (p, t))"
        by (simp add: store_packet_def)
      then show ?thesis
        using registry inv step scope sender Registered_VideoFrame
          store_authorised [OF inv(3) stored, of p t]
        by (simp add: view_ok_def)
    next
      case (Registered_VideoFrameFragment p)
      obtain reassembly' queue' where applied: "apply_step ?qp (reassembly, queue) (p, t) = (reassembly', queue')"
        by fastforce
      have "video_queue_ok ?qp queue' \<and> every_stored (\<lambda>f. authorised env_var startup_config ds (sqv_source f)
          (vf_client_id (sqv_frame f)) (vf_run_id (sqv_frame f))) queue'"
      proof (cases rule: apply_step_queue [OF inv(2) applied])
        case 1
        then show ?thesis using inv(3) stored by simp
      next
        case (2 frame)
        then show ?thesis
          using store_authorised [OF inv(3) stored, of "completed_packet p frame" t] scope sender Registered_VideoFrameFragment
          by (simp add: completed_packet_def)
      qed
      moreover have "reassembly_ok reassembly'"
        using apply_all_ok [of "(reassembly, queue)" ?qp "[(p, t)]"] applied inv(2) by simp
      ultimately show ?thesis
        using registry step Registered_VideoFrameFragment applied by (simp add: view_ok_def)
    qed (use registry inv stored step in \<open>simp_all add: view_ok_def\<close>)
  qed
qed

lemma served_ok:
  assumes "served env_var startup_config policy datagrams view view'"
    and "view_ok env_var startup_config policy ds view" and "set datagrams \<subseteq> ds"
  shows "view_ok env_var startup_config policy ds view'"
proof -
  have "view_ok env_var startup_config policy ds (foldl (server_step env_var startup_config policy) view (zip ts datagrams))"
    if "length ts = length datagrams" for ts
    using that assms(2,3)
  proof (induction ts datagrams arbitrary: view rule: list_induct2)
    case (Cons t ts d ds')
    then show ?case using server_step_ok [of env_var startup_config policy ds view "fst d" "snd d" t] by simp
  qed simp
  then show ?thesis using assms(1) by (auto simp: served_def)
qed

section \<open>A camera's frame\<close>

text \<open>The fragments of a registered client are applied in the order in which they arrive.\<close>

lemma fragment_served:
  fixes startup_config
  defines "v \<equiv> sapc_expected_protocol_version startup_config"
  assumes "InboundPacketDecoder_decode \<lparr> dc_expected_protocol_version = v \<rparr> \<lparr> ib_source = source, ib_bytes = bytes \<rparr>
      = Ok \<lparr> dip_source = source, dip_message = Message_VideoFrameFragment f \<rparr>"
    and "AuthenticatedSenderRegistry_get registry (vff_client_id f) = Some e"
    and "ase_source e = source" and "ase_run_id e = vff_run_id f"
  shows "server_step env_var startup_config policy (registry, liveness, video) (t, source, bytes) =
    (registry, liveness, apply_step (srcp_video_queue_policy policy) video
       (\<lparr> srf_source = source, srf_authenticated_sender = e, srf_fragment = f \<rparr>, t))"
proof -
  have "ServerRegisteredPacketBoundary_require_sender registry (vff_client_id f) (vff_run_id f) source
      MessageType_VideoFrameFragment = Ok e"
    using assms(3-5) by (simp add: require_sender_Ok_iff)
  then show ?thesis
    using assms(2)
    by (simp add: server_step_def v_def datagram_reaction_def datagram_plan_def plan_of_def
        ServerInboundRouter_route_def ServerRegisteredPacketBoundary_attach_sender_def)
qed

text \<open>A datagram and the packet it arrives as.\<close>

definition arrives_as ::
  "ProtocolVersion \<Rightarrow> PacketSource \<times> u8 list \<Rightarrow> ServerRegisteredVideoFrameFragmentPacket \<times> TimestampMicros \<Rightarrow> bool" where
  "arrives_as v d i \<longleftrightarrow> fst d = srf_source (fst i) \<and> received v (snd d) (fst i)"

lemma fragments_served:
  fixes startup_config
  defines "v \<equiv> sapc_expected_protocol_version startup_config"
  assumes "length ts = length datagrams"
    and "\<forall>d \<in> set datagrams. fst d = source \<and>
      (\<exists>f. vff_client_id f = client_id \<and> vff_run_id f = run_id \<and>
        InboundPacketDecoder_decode \<lparr> dc_expected_protocol_version = v \<rparr> \<lparr> ib_source = source, ib_bytes = snd d \<rparr>
          = Ok \<lparr> dip_source = source, dip_message = Message_VideoFrameFragment f \<rparr>)"
    and "AuthenticatedSenderRegistry_get registry client_id = Some e"
    and "ase_source e = source" and "ase_run_id e = run_id"
  shows "\<exists>inputs. list_all2 (arrives_as v) datagrams inputs \<and>
    foldl (server_step env_var startup_config policy) (registry, liveness, video) (zip ts datagrams) =
      (registry, liveness, apply_all (srcp_video_queue_policy policy) video inputs)"
  using assms(2,3)
proof (induction ts datagrams arbitrary: video rule: list_induct2)
  case (Cons t ts d ds)
  obtain f where f: "fst d = source" "vff_client_id f = client_id" "vff_run_id f = run_id"
      "InboundPacketDecoder_decode \<lparr> dc_expected_protocol_version = v \<rparr> \<lparr> ib_source = source, ib_bytes = snd d \<rparr>
        = Ok \<lparr> dip_source = source, dip_message = Message_VideoFrameFragment f \<rparr>"
    using Cons.prems by auto
  let ?i = "(\<lparr> srf_source = source, srf_authenticated_sender = e, srf_fragment = f \<rparr>, t)"
  have step: "server_step env_var startup_config policy (registry, liveness, video) (t, d) =
      (registry, liveness, apply_step (srcp_video_queue_policy policy) video ?i)"
    using fragment_served [of startup_config source "snd d" f registry e env_var policy liveness video t] f
      assms(4-6) by (cases d) (simp add: v_def)
  have "arrives_as v d ?i" using f by (simp add: arrives_as_def received_def)
  then show ?case
    using Cons.IH [of "apply_step (srcp_video_queue_policy policy) video ?i"] Cons.prems step
    by (fastforce intro: exI [where x = "?i # is" for "is"])
qed simp

lemma auth_served:
  fixes startup_config
  defines "v \<equiv> sapc_expected_protocol_version startup_config"
  assumes "InboundPacketDecoder_decode \<lparr> dc_expected_protocol_version = v \<rparr> \<lparr> ib_source = source, ib_bytes = bytes \<rparr>
      = Ok \<lparr> dip_source = source, dip_message = Message_AuthRequest request \<rparr>"
    and "granted env_var (sapc_auth_config startup_config) request"
  shows "server_step env_var startup_config policy (registry, states) (t, source, bytes) =
    (fst (AuthenticatedSenderRegistryBoundary_register_with_summary registry (registration_of source request)), states)"
  using assms
  by (simp add: server_step_def v_def datagram_reaction_def datagram_plan_def plan_of_def
      ServerInboundRouter_route_def Let_def)

lemma list_all2_sets:
  assumes "list_all2 P xs ys"
  shows "y \<in> set ys \<Longrightarrow> \<exists>x \<in> set xs. P x y" and "x \<in> set xs \<Longrightarrow> \<exists>y \<in> set ys. P x y"
  using assms by (induction rule: list_all2_induct) auto

lemma apply_all_queue_ok:
  "reassembly_ok (fst s) \<Longrightarrow> video_queue_ok policy (snd s) \<Longrightarrow> video_queue_ok policy (snd (apply_all policy s inputs))"
proof (induction inputs arbitrary: s)
  case (Cons i inputs)
  obtain packet t where i: "i = (packet, t)" by (cases i)
  have "video_queue_ok policy (snd (apply_step policy s i))"
    by (rule apply_step_queue [of "fst s" policy "snd s" packet t "fst (apply_step policy s i)" "snd (apply_step policy s i)"])
      (use Cons.prems in \<open>simp_all add: i store_packet_ok\<close>)
  moreover have "reassembly_ok (fst (apply_step policy s i))"
    using apply_all_ok [of s policy "[i]"] Cons.prems(1) by simp
  ultimately show ?case using Cons.IH by simp
qed simp

lemma camera_frame_served:
  fixes startup_config
  defines "v \<equiv> sapc_expected_protocol_version startup_config"
  assumes auth: "InboundPacketDecoder_decode \<lparr> dc_expected_protocol_version = v \<rparr>
        \<lparr> ib_source = source, ib_bytes = auth_bytes \<rparr>
      = Ok \<lparr> dip_source = source, dip_message = Message_AuthRequest request \<rparr>"
      "granted env_var (sapc_auth_config startup_config) request"
    and p: "policy_ok client_policy" and wf: "video_frame_wf v (vsi_frame input)"
    and codec: "vf_codec (vsi_frame input) = H264"
    and ids: "vf_client_id (vsi_frame input) = areq_client_id request" "vf_run_id (vsi_frame input) = areq_run_id request"
    and sent: "ClientVideoFrameEncodeSendBoundary_send_one_detailed_with_fragment_pacing client_policy socket
      elapsed input pacing = Ok r" and fragmented: "vsr_handoff r = None"
    and datagrams: "set (datagrams @ [(source, final)]) = (\<lambda>h. (source, fsh_encoded_bytes h)) ` set (vsr_fragment_handoffs r)"
      "(source, final) \<notin> set datagrams"
    and capacity: "0 < max_frames_per_client (srcp_video_queue_policy policy)"
    and served: "served env_var startup_config policy ((source, auth_bytes) # datagrams @ [(source, final)]) initial_view view"
  shows "\<exists>queued. last_of (ServerVideoFrameQueueState_frames_for_client (snd (snd (snd view)))
      (vf_client_id (vsi_frame input))) = Some queued \<and>
    sqv_frame queued = (vsi_frame input) \<lparr> vf_send_timestamp := vf_capture_timestamp (vsi_frame input) \<rparr> \<and>
    sqv_source queued = source"
proof -
  let ?qp = "srcp_video_queue_policy policy"
  let ?frame = "vsi_frame input"
  let ?registry = "fst (AuthenticatedSenderRegistryBoundary_register_with_summary
    AuthenticatedSenderRegistry_default (registration_of source request))"
  let ?empty = "(\<lparr> reassembly_frames = [] \<rparr>, ServerVideoFrameQueueState_default)"
  let ?step = "server_step env_var startup_config policy"
  have frame_v: "vf_protocol_version ?frame = v" using wf by (simp add: video_frame_wf_def)
  obtain t0 ts where ts: "length ts = length (datagrams @ [(source, final)])"
    and view: "view = foldl ?step initial_view ((t0, source, auth_bytes) # zip ts (datagrams @ [(source, final)]))"
  proof -
    obtain us where us: "length us = length ((source, auth_bytes) # datagrams @ [(source, final)])"
      "view = foldl ?step initial_view (zip us ((source, auth_bytes) # datagrams @ [(source, final)]))"
      using served unfolding served_def by blast
    then show ?thesis by (cases us) (auto intro: that)
  qed
  have start: "?step initial_view (t0, source, auth_bytes) = (?registry, EMPTY_LIVENESS, ?empty)"
    unfolding initial_view_def using auth by (simp add: auth_served v_def)
  define e where "e = AuthenticatedSenderRegistration_into_entry (registration_of source request)"
  have entry: "AuthenticatedSenderRegistry_get ?registry (vf_client_id ?frame) = Some e"
      "ase_source e = source" "ase_run_id e = vf_run_id ?frame"
    using registry.get_register [OF registry_ok_default, of "registration_of source request"] ids
    by (simp_all add: e_def registration_of_def AuthenticatedSenderRegistration_into_entry_def)
  show ?thesis
  proof (rule send_one_Ok [OF p _ sent])
    show "video_frame_wf (vf_protocol_version ?frame) ?frame" using wf frame_v by simp
  next
    fix n
    let ?chunks = "frame_chunks client_policy ?frame"
    assume room: "room_for_chunks client_policy ?frame"
      and hs: "vsr_fragment_handoffs r = List.map (\<lambda>i. encoded_fragment (vsi_destination input)
         (fragment_at ?frame ?chunks i)) [0..<length ?chunks]"
    have decodes: "\<exists>f. vff_client_id f = vf_client_id ?frame \<and> vff_run_id f = vf_run_id ?frame \<and>
        InboundPacketDecoder_decode \<lparr> dc_expected_protocol_version = v \<rparr>
          \<lparr> ib_source = source, ib_bytes = fsh_encoded_bytes h \<rparr>
        = Ok \<lparr> dip_source = source, dip_message = Message_VideoFrameFragment f \<rparr>"
      if h: "h \<in> set (vsr_fragment_handoffs r)" for h
    proof -
      obtain i where i: "i < length ?chunks" "h = encoded_fragment (vsi_destination input) (fragment_at ?frame ?chunks i)"
        using h by (auto simp: hs)
      then show ?thesis
        using received_fragment [OF wf room p i(1), of "vsi_destination input"
            "\<lparr> srf_source = source, srf_authenticated_sender = e, srf_fragment = fragment_at ?frame ?chunks i \<rparr>"]
        by (intro exI [where x = "fragment_at ?frame ?chunks i"]) (simp add: received_def fragment_at_def)
    qed
    have all: "\<forall>d \<in> set (datagrams @ [(source, final)]). fst d = source \<and>
        (\<exists>f. vff_client_id f = vf_client_id ?frame \<and> vff_run_id f = vf_run_id ?frame \<and>
          InboundPacketDecoder_decode \<lparr> dc_expected_protocol_version = v \<rparr>
            \<lparr> ib_source = source, ib_bytes = snd d \<rparr>
          = Ok \<lparr> dip_source = source, dip_message = Message_VideoFrameFragment f \<rparr>)"
      unfolding datagrams(1) using decodes by auto
    obtain inputs0 where inputs0: "list_all2 (arrives_as v) (datagrams @ [(source, final)]) inputs0"
      and run: "view = (?registry, EMPTY_LIVENESS, apply_all ?qp ?empty inputs0)"
      using fragments_served [of ts "datagrams @ [(source, final)]" source "vf_client_id ?frame" "vf_run_id ?frame"
          startup_config ?registry e env_var policy EMPTY_LIVENESS ?empty] ts all entry
      unfolding view by (auto simp: start v_def)
    then obtain inputs packet t where inputs: "inputs0 = inputs @ [(packet, t)]"
        "list_all2 (arrives_as v) datagrams inputs" "arrives_as v (source, final) (packet, t)"
      by (auto simp: list_all2_append1 list_all2_Cons1)
    let ?D = "(\<lambda>i. fsh_encoded_bytes (encoded_fragment (vsi_destination input)
      (fragment_at ?frame ?chunks i))) ` {..<length ?chunks}"
    have D: "?D = fsh_encoded_bytes ` set (vsr_fragment_handoffs r)"
      by (simp add: hs image_image atLeast0LessThan)
    have in_D: "snd d \<in> ?D" and from_source: "fst d = source" if "d \<in> set (datagrams @ [(source, final)])" for d
      using that unfolding D datagrams(1) by auto
    have carried: "\<exists>d \<in> set (datagrams @ [(source, final)]). snd d = bs" if "bs \<in> ?D" for bs
      using that unfolding D datagrams(1) by force
    have one: "bs' = bs" if both: "bs \<in> ?D" "bs' \<in> ?D" "received v bs q" "received v bs' q" for bs bs' q
    proof -
      obtain i j where "i < length ?chunks" "j < length ?chunks"
          "bs = fsh_encoded_bytes (encoded_fragment (vsi_destination input) (fragment_at ?frame ?chunks i))"
          "bs' = fsh_encoded_bytes (encoded_fragment (vsi_destination input) (fragment_at ?frame ?chunks j))"
        using both(1,2) by auto
      then show ?thesis using both(3,4) received_fragment [OF wf room p] by simp
    qed
    have first: "\<not> received v final (fst i)" if i: "i \<in> set inputs" for i
    proof
      assume final: "received v final (fst i)"
      obtain d where d: "d \<in> set datagrams" "arrives_as v d i"
        using list_all2_sets(1) [OF inputs(2) i] by blast
      then have "snd d = final"
        using one [of final "snd d" "fst i"] in_D [of d] in_D [of "(source, final)"] final
        by (simp add: arrives_as_def)
      then show False using d(1) datagrams(2) from_source [of d] by (cases d) auto
    qed
    have ok: "reassembly_ok (fst ?empty)" by (simp add: reassembly_ok_def btree.inv_empty btree.lookup_empty)
    obtain st q where applied: "apply_all ?qp ?empty inputs = (st, q)"
      and step: "snd (apply_step ?qp (st, q) (packet, t)) = store_packet ?qp q (completed_packet packet
        (?frame \<lparr> vf_send_timestamp := vf_capture_timestamp ?frame \<rparr>), t)"
    proof (rule datagrams_complete_frame [OF wf codec room p ok, where inputs = inputs and packet = packet
          and t = t and d = "vsi_destination input" and bs = final and qp = ?qp])
      show "btree_get (reassembly_frames (fst ?empty)) (frame_key ?frame) = None" by (simp add: btree.lookup_empty)
      show "\<exists>bs \<in> ?D. received v bs (fst i)" if "i \<in> set (inputs @ [(packet, t)])" for i
        using list_all2_sets(1) [OF inputs0 that [folded inputs(1)]] in_D by (auto simp only: arrives_as_def)
      show "\<exists>i \<in> set (inputs @ [(packet, t)]). received v bs (fst i)" if bs: "bs \<in> ?D" for bs
      proof -
        obtain d where "d \<in> set (datagrams @ [(source, final)])" "snd d = bs" using carried [OF bs] by blast
        then show ?thesis using list_all2_sets(2) [OF inputs0, of d] unfolding inputs(1) arrives_as_def by blast
      qed
      show "final \<in> ?D" using in_D [of "(source, final)"] by simp
      show "received v final packet" using inputs(3) by (simp add: arrives_as_def)
      show "\<And>i. i \<in> set inputs \<Longrightarrow> \<not> received v final (fst i)" by (rule first)
    next
      fix st' q' sm qr
      assume "apply_all ?qp ?empty inputs = (st', q')"
        "apply_step ?qp (st', q') (packet, t) = (fst (apply_fragment st' q' packet t ?qp),
           store_packet ?qp q' (completed_packet packet
             (?frame \<lparr> vf_send_timestamp := vf_capture_timestamp ?frame \<rparr>), t))"
      then show thesis by (intro that) (assumption, simp only: snd_conv)
    qed
    have "video_queue_ok ?qp q"
      using apply_all_queue_ok [OF ok, of ?qp inputs] by (simp add: applied video_queue_default_ok)
    then show ?thesis
      using capacity inputs(3)
      unfolding run inputs(1) foldl_append applied foldl.simps snd_conv step
      by (simp add: video_store.contents_store keep_last_def last_of_def queued_of_def completed_packet_def arrives_as_def)
  qed (use fragmented in auto)
qed

section \<open>A limited run\<close>

text \<open>The index counts the iterations, and does not pass the limit.\<close>

definition within_limit :: "nat \<Rightarrow> 'w ContinuousRun \<Rightarrow> bool" where
  "within_limit limit run \<longleftrightarrow>
     run_iteration_index run = length (run_iterations run) \<and> length (run_iterations run) \<le> limit"

lemma within_limit_simps [simp]:
  "within_limit limit (update_summary f run) = within_limit limit run"
  "within_limit limit (run \<lparr> run_world := w \<rparr>) = within_limit limit run"
  "within_limit limit (run \<lparr> run_registry := registry, run_queue := queue, run_world := w \<rparr>) = within_limit limit run"
  by (simp_all add: within_limit_def update_summary_def)

lemma set_nonblocking_run:
  "(if c then set_nonblocking socket_io address b run else (run, Ok ())) = (run', r) \<Longrightarrow>
     \<exists>w. run' = run \<lparr> run_world := w \<rparr>"
  by (auto simp: set_nonblocking_def split: if_splits prod.splits intro: exI [where x = "run_world run"])

lemma drain_turn_Ok:
  assumes "drain_turn socket_io env_var startup_config policy drain_index packets run = (run', Ok (packets', out))"
  obtains "limit_reached policy (run_iteration_index run)" and "run' = run"
      and "out = Drain_Stopped ContinuousStop_MaxIterationsReached"
  | "\<not> limit_reached policy (run_iteration_index run)" and "out = Drain_Empty" and "0 < drain_index"
      and "run_iterations run' = run_iterations run" and "run_iteration_index run' = run_iteration_index run"
  | result where "\<not> limit_reached policy (run_iteration_index run)" and "out \<noteq> Drain_Empty"
      and "run_iterations run' = run_iterations run @ [result]"
      and "run_iteration_index run' = usize_inc (run_iteration_index run)"
proof (cases "limit_reached policy (run_iteration_index run)")
  case True
  then show ?thesis using assms by (intro that(1)) (simp_all add: drain_turn_def)
next
  case False
  note free = this
  obtain run0 r0 where before: "(if drain_index = 1 then set_nonblocking socket_io
      (sapc_bind_address startup_config) True run else (run, Ok ())) = (run0, r0)" by fastforce
  then obtain v where run0: "run0 = run \<lparr> run_world := v \<rparr>" using set_nonblocking_run by blast
  note body = assms [unfolded drain_turn_def before if_not_P [OF free]]
  then have r0: "r0 = Ok ()" by (cases r0) (auto simp: io_bind_def)
  obtain w t where clock: "current_system_timestamp_micros socket_io v = (w, t)" by fastforce
  obtain registry queue w' turn where turn: "run_turn socket_io env_var startup_config
      (run_registry run) (run_queue run) t w = ((registry, queue, w'), turn)"
    by (metis prod.collapse)
  note body = body [unfolded r0 io_bind_simps Let_def view_of_simps run0 ContinuousRun.select_convs ContinuousRun.update_convs clock prod.case turn]
  obtain result where result: "turn = Ok result"
    using body turn by (cases turn rule: result_cases) (auto simp: update_summary_def clock)
  show ?thesis
  proof (cases "0 < drain_index \<and> would_block result")
    case True
    then show ?thesis
      using body turn free by (intro that(2)) (auto simp: clock result update_summary_def)
  next
    case False
    then show ?thesis
      using body turn free by (intro that(3) [of result])
        (auto simp: clock result update_summary_def split: sum.splits option.splits)
  qed
qed

lemma drain_turn_within:
  assumes policy: "srcp_max_iterations policy = Some limit" and "limit < usize_bound" and "within_limit limit run"
    and turn: "drain_turn socket_io env_var startup_config policy drain_index packets run = (run', Ok (packets', out))"
  shows "within_limit limit run' \<and> run_iteration_index run \<le> run_iteration_index run' \<and>
    (out = Drain_Next \<longrightarrow> run_iteration_index run < run_iteration_index run') \<and>
    (out = Drain_Empty \<longrightarrow> 0 < drain_index)"
  using turn
proof (cases rule: drain_turn_Ok)
  case (3 result)
  then have "run_iteration_index run < limit" using policy by (simp add: limit_reached_def)
  then show ?thesis
    using 3 assms(2,3) by (simp add: within_limit_def usize_saturating_add_def)
qed (use assms(3) in \<open>simp_all add: within_limit_def\<close>)

lemma drain_cycle_within:
  assumes policy: "srcp_max_iterations policy = Some limit" "limit < usize_bound"
  shows "within_limit limit run \<Longrightarrow> drain_cycle socket_io env_var startup_config policy remaining drain_index packets run
      = (run', Ok (packets', stop)) \<Longrightarrow>
    within_limit limit run' \<and> run_iteration_index run \<le> run_iteration_index run' \<and>
    (drain_index = 0 \<and> 0 < remaining \<and> stop = None \<longrightarrow> run_iteration_index run < run_iteration_index run')"
proof (induction remaining arbitrary: drain_index packets run)
  case (Suc remaining)
  then obtain run1 packets1 out where turn: "drain_turn socket_io env_var startup_config policy drain_index packets run
        = (run1, Ok (packets1, out))"
    and rest: "(case out of
       Drain_Next \<Rightarrow> drain_cycle socket_io env_var startup_config policy remaining (drain_index + 1) packets1 run1
     | Drain_Empty \<Rightarrow> (run1, Ok (packets1, None))
     | Drain_Stopped reason \<Rightarrow> (run1, Ok (packets1, Some reason))) = (run', Ok (packets', stop))"
    by (auto simp: io_bind_eq_Ok_iff)
  note one = drain_turn_within [OF policy Suc.prems(1) turn]
  show ?case
  proof (cases out)
    case Drain_Next
    then show ?thesis using Suc.IH [of run1 "drain_index + 1" packets1] one rest by auto
  qed (use one rest in auto)
qed simp

lemma drain_cycles_end:
  assumes policy: "srcp_max_iterations policy = Some limit" "limit < usize_bound"
  shows "within_limit limit run \<Longrightarrow> \<exists>run' r.
    drain_cycles socket_io env_var startup_config policy run = Some (run', r) \<and> (r = Ok () \<longrightarrow> within_limit limit run')"
proof (induction "limit - run_iteration_index run" arbitrary: run rule: less_induct)
  case less
  show ?case
  proof (cases "limit_reached policy (run_iteration_index run)")
    case True
    then show ?thesis using less.prems by (subst drain_cycles.simps) simp
  next
    case False
    let ?start = "update_summary (crsum_drain_cycles_update usize_inc) run"
    obtain run1 r1 where cycle: "drain_cycle socket_io env_var startup_config policy
        (max (srcp_max_packets_per_drain_cycle policy) 1) 0 0 ?start = (run1, r1)" by fastforce
    obtain run2 r2 where blocking: "(if 1 < srcp_max_packets_per_drain_cycle policy
      then set_nonblocking socket_io (sapc_bind_address startup_config) False run1 else (run1, Ok ()))
      = (run2, r2)" by fastforce
    then obtain v where run2: "run2 = run1 \<lparr> run_world := v \<rparr>" using set_nonblocking_run by blast
    note step = drain_cycles.simps [of socket_io env_var startup_config policy run, unfolded cycle]
    show ?thesis
    proof (cases "\<exists>packets. r1 = Ok (packets, None) \<and> r2 = Ok ()")
      case True
      then obtain packets where r: "r1 = Ok (packets, None)" "r2 = Ok ()" by blast
      let ?run3 = "update_summary (\<lambda>s. s \<lparr> crsum_last_packets_drained_in_cycle := packets,
        crsum_max_packets_drained_in_cycle := max (crsum_max_packets_drained_in_cycle s) packets \<rparr>) run2"
      have within: "within_limit limit run1" "run_iteration_index run < run_iteration_index run1"
        using drain_cycle_within [OF policy, of ?start socket_io env_var startup_config
            "max (srcp_max_packets_per_drain_cycle policy) 1" 0 0 run1 packets None] cycle r(1) less.prems
        by auto
      have "run_iteration_index run < limit"
        using False policy(1) by (simp add: limit_reached_def)
      then have "limit - run_iteration_index ?run3 < limit - run_iteration_index run"
        using within(2) by (simp add: run2)
      moreover have "within_limit limit ?run3" using within(1) by (simp add: run2)
      ultimately show ?thesis
        using less.hyps [of ?run3] unfolding step r io_bind_simps prod.case blocking
        by (simp only: False if_False sum.case prod.case option.case)
    next
      case stopped: False
      have "within_limit limit run2" if "r1 = Ok (packets, stop)" for packets stop
        using drain_cycle_within [OF policy, of ?start socket_io env_var startup_config
            "max (srcp_max_packets_per_drain_cycle policy) 1" 0 0 run1 packets stop] cycle that less.prems
        by (simp add: run2)
      note ended = this
      show ?thesis
      proof (cases r1)
        case (Inl a)
        then show ?thesis unfolding step by (simp add: io_bind_def False)
      next
        case (Inr v)
        obtain packets stop where v: "v = (packets, stop)" by (cases v)
        have within: "within_limit limit run2" using ended Inr v by blast
        show ?thesis
        proof (cases r2)
          case r2: (Inl a)
          then show ?thesis unfolding step Inr v io_bind_simps prod.case blocking by (simp add: io_bind_def False)
        next
          case r2: (Inr u)
          obtain reason where "stop = Some reason" using stopped Inr v r2 by (cases stop) auto
          then show ?thesis
            using within unfolding step Inr v io_bind_simps prod.case blocking r2
            by (simp only: False if_False sum.case prod.case option.case option.inject prod.inject ex_simps) simp
        qed
      qed
    qed
  qed
qed

lemma limited_run_returns:
  assumes "srcp_max_iterations policy = Some limit" and "limit < usize_bound"
  shows "\<exists>w' result. ServerReceiveSendContinuousRuntimeLauncher_run_with_writers_and_policy socket_io env_var
      startup_config policy w = Some (w', result) \<and>
    (case result of Ok outcome \<Rightarrow> length (crout_iterations outcome) \<le> limit | _ \<Rightarrow> True)"
proof -
  have within: "within_limit limit (initial_run policy buffer v)" for buffer v
    by (simp add: within_limit_def initial_run_def)
  show ?thesis
  proof -
    obtain w1 r1 where bound: "bind_socket socket_io Continuous_Bind (sapc_bind_address startup_config) w = (w1, r1)"
      by (rule prod.exhaust)
    obtain w2 buffer where buffer: "apply_receive_buffer_bytes socket_io (srcp_receive_buffer_bytes policy) w1 = (w2, buffer)"
      by (rule prod.exhaust)
    obtain w3 r3 where timeout: "io_map_err (\<lambda>error. Continuous_SetReceiveTimeout (sapc_bind_address startup_config)
        (ioe_kind error)) (ssk_set_read_timeout socket_io (Some (srcp_receive_timeout policy)) w2) = (w3, r3)"
      by (rule prod.exhaust)
    obtain run r where run: "drain_cycles socket_io env_var startup_config policy (initial_run policy buffer w3) = Some (run, r)"
      "r = Ok () \<longrightarrow> within_limit limit run"
      using drain_cycles_end [OF assms within, of socket_io env_var startup_config buffer w3]
      by (elim exE conjE) (rule that)
    note launcher = ServerReceiveSendContinuousRuntimeLauncher_run_with_writers_and_policy_def
      [of socket_io env_var startup_config policy w, unfolded Let_def bound prod.case buffer timeout run(1)]
    show ?thesis
    proof (cases r1; cases r3; cases r)
      fix u v x
      assume "r1 = Inr u" "r3 = Inr v" "r = Inr x"
      then show ?thesis
        unfolding launcher using run(2) by (simp add: within_limit_def final_sizes_def update_summary_def)
    qed (unfold launcher, simp_all)
  qed
qed

section \<open>A sample inbox\<close>

text \<open>A world that holds a list of datagrams, cut to what a UDP datagram can carry.\<close>

definition inbox_of :: "(PacketSource \<times> u8 list) list \<Rightarrow> (PacketSource \<times> u8 list) list" where
  "inbox_of w = List.map (apsnd (take 65507)) w"

definition inbox_io :: "(PacketSource \<times> u8 list) list ServerSocketIo" where
  "inbox_io =
     \<lparr> ssk_bind = (\<lambda>_ w. (w, Ok ())), ssk_set_recv_buffer_size = (\<lambda>_ w. (w, None)),
       ssk_recv_buffer_size = (\<lambda>w. (w, Inl 212992)), ssk_set_read_timeout = (\<lambda>_ w. (w, Ok ())),
       ssk_set_nonblocking = (\<lambda>_ w. (w, Ok ())), ssk_system_time = (\<lambda>w. (w, Some 5000)),
       ssk_io =
         \<lparr> sio_receive = (\<lambda>w. case w of
              [] \<Rightarrow> (w, Error \<lparr> ioe_kind = Kind_WouldBlock, ioe_message = ''would block'' \<rparr>)
            | (source, bytes) # rest \<Rightarrow> (rest, Ok (source, take 65507 bytes))),
           sio_send = (\<lambda>packet w. (w, Ok (length (eop_bytes packet)))),
           sio_operational_writer = (\<lambda>_ w. (w, Ok ())), sio_rejection_writer = (\<lambda>_ w. (w, Ok ())),
           sio_auth_log_writer = (\<lambda>_ w. (w, Ok ())), sio_send_log_writer = (\<lambda>_ w. (w, Ok ())) \<rparr> \<rparr>"

lemma inbox_io_ok: "inbox_world inbox_io inbox_of"
proof -
  have "\<exists>w'. sio_receive (ssk_io inbox_io) w = (w', Ok d) \<and> inbox_of w' = ds" and "length (snd d) < usize_bound"
    if "inbox_of w = d # ds" for w d ds
    using that by (auto simp: inbox_of_def inbox_io_def usize_bound_def)
  moreover have "\<exists>w' e. sio_receive (ssk_io inbox_io) w = (w', Error e) \<and> inbox_of w' = [] \<and>
      (ioe_kind e = Kind_WouldBlock \<or> ioe_kind e = Kind_TimedOut)" if "inbox_of w = []" for w
    using that by (auto simp: inbox_of_def inbox_io_def)
  ultimately show ?thesis
    unfolding inbox_world_def keeps_def by (intro conjI) (simp_all add: inbox_io_def)
qed

definition camera_startup :: ServerAuthResponsePocStartupConfig where
  "camera_startup = \<lparr> sapc_bind_address = SocketAddrV4 0x0A000002 5000, sapc_expected_protocol_version = 1,
     sapc_auth_config = camera_config \<rparr>"

abbreviation serve_inbox where
  "serve_inbox \<equiv> ServerReceiveSendContinuousRuntimeLauncher_run_with_writers_and_policy inbox_io (\<lambda>_. Inl ''t1'')
     camera_startup ServerReceiveSendContinuousRuntimePolicy_default"

lemma camera_inbox: "inbox_of [(camera, camera_datagram)] = [(camera, camera_datagram)]"
proof -
  have "length camera_datagram \<le> 65507"
    by (simp add: camera_datagram_def camera_request_def auth_request_bytes_def string_bytes_def option_bytes_def)
  then show ?thesis by (simp add: inbox_of_def)
qed

lemma default_unlimited: "srcp_max_iterations ServerReceiveSendContinuousRuntimePolicy_default = None"
  by (simp add: ServerReceiveSendContinuousRuntimePolicy_default_def)

section \<open>Properties\<close>

text \<open>
  C2: A run without an iteration limit over a working socket ends once the socket holds nothing,
  and what it leaves is the specification iterated over the datagrams in the order in which they
  arrived: registry, liveness state, frames in progress and video queue. No reply is left unsent,
  and the reason it gives is the receive timeout.
\<close>

theorem run_serves_inbox:
  assumes "inbox_world socket_io pending" and "srcp_max_iterations policy = None"
    and "pending w = datagrams"
  shows "\<exists>w' outcome. ServerReceiveSendContinuousRuntimeLauncher_run_with_writers_and_policy socket_io env_var
      startup_config policy w = Some (w', Ok outcome) \<and>
    pending w' = [] \<and>
    served env_var startup_config policy datagrams initial_view (outcome_view outcome) \<and>
    crout_queue_collection outcome = EMPTY_QUEUE \<and>
    crsum_stop_reason (crout_summary outcome) = ContinuousStop_ReceiveTimedOut"
  by (rule run_serves [OF assms])

lemma run_serves_inbox_witness:
  "\<exists>outcome. serve_inbox [(camera, camera_datagram)] = Some ([], Ok outcome) \<and>
     AuthenticatedSenderRegistry_get (crout_registry outcome) ''cam-1'' =
       Some (AuthenticatedSenderRegistration_into_entry (registration_of camera camera_request))"
proof -
  obtain w' outcome where run: "serve_inbox [(camera, camera_datagram)] = Some (w', Ok outcome)" "inbox_of w' = []"
      "served (\<lambda>_. Inl ''t1'') camera_startup ServerReceiveSendContinuousRuntimePolicy_default
         [(camera, camera_datagram)] initial_view (outcome_view outcome)"
    using run_serves_inbox [OF inbox_io_ok default_unlimited camera_inbox, of "\<lambda>_. Inl ''t1''" camera_startup]
    by blast
  have "crout_registry outcome = fst (AuthenticatedSenderRegistryBoundary_register_with_summary
      AuthenticatedSenderRegistry_default (registration_of camera camera_request))"
    using run(3) camera_decodes(1) camera_granted
    by (auto simp: served_def length_Suc_conv initial_view_def auth_served camera_startup_def outcome_view_def)
  then show ?thesis
    using run(1,2) by (simp add: inbox_of_def registry.get_register [OF registry_ok_default])
      (simp add: registration_of_def camera_request_def)
qed

text \<open>
  C1: A camera's frame reaches the queue. Take a run without an iteration limit, over a socket and
  writers that do not fail, with room for at least one frame per client in its queue policy. When
  the socket holds an auth request that is granted, with the client's token and every token of the
  configuration resolvable, and then the datagrams of one successful fragmented attempt of an H.264
  frame of that client and run, in any order and with repetitions, the last of them for the first
  time, the run leaves the client's frame as the newest of its queue, with the address it came
  from. Only the send timestamp is lost.
\<close>

theorem camera_frame_reaches_queue:
  assumes "inbox_world socket_io pending" and "srcp_max_iterations policy = None"
    and "pending w = (source, auth_bytes) # datagrams @ [(source, final)]"
    and "InboundPacketDecoder_decode
        \<lparr> dc_expected_protocol_version = sapc_expected_protocol_version startup_config \<rparr>
        \<lparr> ib_source = source, ib_bytes = auth_bytes \<rparr>
      = Ok \<lparr> dip_source = source, dip_message = Message_AuthRequest request \<rparr>"
    and "granted env_var (sapc_auth_config startup_config) request"
    and "policy_ok client_policy"
    and "video_frame_wf (sapc_expected_protocol_version startup_config) (vsi_frame input)"
    and "vf_codec (vsi_frame input) = H264"
    and "vf_client_id (vsi_frame input) = areq_client_id request"
    and "vf_run_id (vsi_frame input) = areq_run_id request"
    and "ClientVideoFrameEncodeSendBoundary_send_one_detailed_with_fragment_pacing client_policy socket
      elapsed input pacing = Ok r" and "vsr_handoff r = None"
    and "set (datagrams @ [(source, final)]) = (\<lambda>h. (source, fsh_encoded_bytes h)) ` set (vsr_fragment_handoffs r)"
    and "(source, final) \<notin> set datagrams"
    and "0 < max_frames_per_client (srcp_video_queue_policy policy)"
  shows "\<exists>w' outcome queued. ServerReceiveSendContinuousRuntimeLauncher_run_with_writers_and_policy socket_io env_var
      startup_config policy w = Some (w', Ok outcome) \<and>
    last_of (ServerVideoFrameQueueState_frames_for_client (crout_video_queue_state outcome)
      (vf_client_id (vsi_frame input))) = Some queued \<and>
    sqv_frame queued = (vsi_frame input) \<lparr> vf_send_timestamp := vf_capture_timestamp (vsi_frame input) \<rparr> \<and>
    sqv_source queued = source"
proof -
  obtain w' outcome where run: "ServerReceiveSendContinuousRuntimeLauncher_run_with_writers_and_policy socket_io env_var
      startup_config policy w = Some (w', Ok outcome)"
    and "served env_var startup_config policy ((source, auth_bytes) # datagrams @ [(source, final)]) initial_view
      (outcome_view outcome)"
    using run_serves [OF assms(1-3)] by blast
  from camera_frame_served [OF assms(4-15) this(2)] run show ?thesis
    by (auto simp: outcome_view_def)
qed

lemma camera_fields:
  "sapc_expected_protocol_version camera_startup = 1" "sapc_auth_config camera_startup = camera_config"
  "vsi_frame camera_input = camera_frame" "vf_codec camera_frame = H264"
  "vf_client_id camera_frame = ''cam-1''" "vf_run_id camera_frame = ''run-1''"
  "vf_capture_timestamp camera_frame = 1000"
  "areq_client_id camera_request = ''cam-1''" "areq_run_id camera_request = ''run-1''"
  "0 < max_frames_per_client (srcp_video_queue_policy ServerReceiveSendContinuousRuntimePolicy_default)"
  by (simp_all add: camera_startup_def camera_input_def camera_frame_def camera_request_def
      ServerReceiveSendContinuousRuntimePolicy_default_def ServerVideoFrameQueuePolicy_default_def)

lemma camera_frame_reaches_queue_witness:
  "\<exists>r h0 h1 w' outcome queued. camera_attempt = Ok r \<and> vsr_fragment_handoffs r = [h0, h1] \<and>
     serve_inbox [(camera, camera_datagram), (camera, fsh_encoded_bytes h1), (camera, fsh_encoded_bytes h1),
       (camera, fsh_encoded_bytes h0)] = Some (w', Ok outcome) \<and>
     last_of (ServerVideoFrameQueueState_frames_for_client (crout_video_queue_state outcome) ''cam-1'') = Some queued \<and>
     sqv_frame queued = camera_frame \<lparr> vf_send_timestamp := 1000 \<rparr> \<and> sqv_source queued = camera"
proof -
  obtain r where r: "camera_attempt = Ok r" "vsr_handoff r = None" using camera_attempt_Ok by blast
  let ?h = "\<lambda>i. encoded_fragment (SocketAddrV4 0x0A000002 5000)
    (fragment_at camera_frame (frame_chunks small_policy camera_frame) i)"
  have wf: "video_frame_wf (vf_protocol_version (vsi_frame camera_input)) (vsi_frame camera_input)"
    using camera_frame_wf by (simp add: camera_input_def camera_frame_def)
  have two: "[0..<2] = [0, Suc 0]" by (simp add: upt_rec)
  have hs: "vsr_fragment_handoffs r = [?h 0, ?h 1]"
    by (rule send_one_Ok [OF small_policy_ok wf r(1)])
      (use r(2) in \<open>simp_all add: camera_input_def camera_chunks two\<close>)
  have short: "\<forall>h \<in> set (vsr_fragment_handoffs r). length (fsh_encoded_bytes h) \<le> 90"
    by (rule send_one_Ok [OF small_policy_ok wf r(1)]) (use r(2) in \<open>simp_all add: small_policy_def\<close>)
  have distinct: "fsh_encoded_bytes (?h 0) \<noteq> fsh_encoded_bytes (?h 1)"
  proof
    assume "fsh_encoded_bytes (?h 0) = fsh_encoded_bytes (?h 1)"
    then have "fragment_at camera_frame (frame_chunks small_policy camera_frame) 0 =
        fragment_at camera_frame (frame_chunks small_policy camera_frame) 1"
      using camera_received [of 0 "SocketAddrV4 0x0A000002 5000" 0] camera_received [of 1 "SocketAddrV4 0x0A000002 5000" 0]
      by simp
    then show False by (simp add: fragment_at_def)
  qed
  let ?datagrams = "[(camera, fsh_encoded_bytes (?h 1)), (camera, fsh_encoded_bytes (?h 1))]"
  have inbox: "inbox_of ((camera, camera_datagram) # ?datagrams @ [(camera, fsh_encoded_bytes (?h 0))])
      = (camera, camera_datagram) # ?datagrams @ [(camera, fsh_encoded_bytes (?h 0))]"
    using camera_inbox short by (simp add: inbox_of_def hs)
  have sent: "set (?datagrams @ [(camera, fsh_encoded_bytes (?h 0))])
      = (\<lambda>h. (camera, fsh_encoded_bytes h)) ` set (vsr_fragment_handoffs r)"
    by (auto simp: hs)
  have "\<exists>w' outcome queued. serve_inbox ((camera, camera_datagram) # ?datagrams @ [(camera, fsh_encoded_bytes (?h 0))])
      = Some (w', Ok outcome) \<and>
    last_of (ServerVideoFrameQueueState_frames_for_client (crout_video_queue_state outcome)
      (vf_client_id (vsi_frame camera_input))) = Some queued \<and>
    sqv_frame queued = (vsi_frame camera_input) \<lparr> vf_send_timestamp := vf_capture_timestamp (vsi_frame camera_input) \<rparr> \<and>
    sqv_source queued = camera"
    by (rule camera_frame_reaches_queue [where request = camera_request, OF inbox_io_ok default_unlimited inbox _ _ small_policy_ok _ _ _ _ r sent])
      (use camera_decodes(1) camera_granted camera_frame_wf distinct in \<open>simp_all add: camera_fields\<close>)
  then show ?thesis using r(1) hs by (simp add: camera_fields)
qed

text \<open>
  C4: A run with an iteration limit returns whatever the socket, the clock and the writers do, and
  keeps at most that many iterations.
\<close>

theorem limited_run_ends:
  assumes "srcp_max_iterations policy = Some limit" and "limit < usize_bound"
  shows "\<exists>w' result. ServerReceiveSendContinuousRuntimeLauncher_run_with_writers_and_policy socket_io env_var
      startup_config policy w = Some (w', result) \<and>
    (case result of Ok outcome \<Rightarrow> length (crout_iterations outcome) \<le> limit | _ \<Rightarrow> True)"
  by (rule limited_run_returns [OF assms])

lemma limited_run_ends_witness:
  "\<exists>w' result. ServerReceiveSendContinuousRuntimeLauncher_run_with_writers_and_policy inbox_io (\<lambda>_. Inl ''t1'')
     camera_startup (ServerReceiveSendContinuousRuntimePolicy_default \<lparr> srcp_max_iterations := Some 3 \<rparr>)
     [(camera, [])] = Some (w', result)"
  using limited_run_ends [of "ServerReceiveSendContinuousRuntimePolicy_default \<lparr> srcp_max_iterations := Some 3 \<rparr>" 3]
  by (fastforce simp: usize_bound_def)

end
