(* ===== verification/Server_Arrivals.thy ===== *)
theory Server_Arrivals
  imports Server_Run
begin

text \<open>
  The continuous run of apps/server/src/lib.rs over any socket, clock and writers, with or without
  a limit: whatever fails on the way, a run that ends well has let nobody in without a token.
\<close>

section \<open>Writers whose failures are hidden\<close>

text \<open>
  A step that ends well has seen no writer fail, so hiding the failures does not change what it
  does. The relation says so of two results, the second with the failures hidden.
\<close>

definition kept_if_ok :: "'w \<times> ('a, 'e) result \<Rightarrow> 'w \<times> ('a, 'e) result \<Rightarrow> bool" where
  "kept_if_ok r r' \<longleftrightarrow> (\<forall>w v. r = (w, Ok v) \<longrightarrow> r' = (w, Ok v))"

lemma kept_if_okD: "kept_if_ok r r' \<Longrightarrow> r = (w, Ok v) \<Longrightarrow> r' = (w, Ok v)"
  by (simp add: kept_if_ok_def)

lemma kept_refl: "kept_if_ok r r"
  by (simp add: kept_if_ok_def)

lemma kept_bind:
  "kept_if_ok r r' \<Longrightarrow> (\<And>v w. kept_if_ok (f v w) (f' v w)) \<Longrightarrow> kept_if_ok (io_bind r f) (io_bind r' f')"
  by (auto simp: kept_if_ok_def io_bind_eq_Ok_iff)

lemma kept_if:
  "(c \<Longrightarrow> kept_if_ok a a') \<Longrightarrow> (\<not> c \<Longrightarrow> kept_if_ok b b') \<Longrightarrow>
     kept_if_ok (if c then a else b) (if c then a' else b')"
  by simp

lemma kept_option:
  "kept_if_ok a a' \<Longrightarrow> (\<And>x. kept_if_ok (f x) (f' x)) \<Longrightarrow>
     kept_if_ok (case v of None \<Rightarrow> a | Some x \<Rightarrow> f x) (case v of None \<Rightarrow> a' | Some x \<Rightarrow> f' x)"
  by (cases v) simp_all

lemma kept_map_err: "kept_if_ok r r' \<Longrightarrow> kept_if_ok (io_map_err f r) (io_map_err f r')"
  by (auto simp: kept_if_ok_def)

lemma kept_pieces: "kept_if_ok (write_pieces writer pieces w) (write_pieces (forced writer) pieces w)"
  using write_pieces_forced by (fastforce simp: kept_if_ok_def)

lemma log_lines_kept:
  "kept_if_ok (ServerReceiveLoopLogOutputBoundary_write_receive_loop_event writer outcome n t w)
     (ServerReceiveLoopLogOutputBoundary_write_receive_loop_event (forced writer) outcome n t w)"
  "kept_if_ok (ServerReceiveRejectionLogOutputBoundary_write_rejection writer rejection t w)
     (ServerReceiveRejectionLogOutputBoundary_write_rejection (forced writer) rejection t w)"
  "kept_if_ok (ServerAuthLogOutputBoundary_write_auth_result writer input t w)
     (ServerAuthLogOutputBoundary_write_auth_result (forced writer) input t w)"
  "kept_if_ok (ServerSendLogOutputBoundary_write_send_success writer sent t w)
     (ServerSendLogOutputBoundary_write_send_success (forced writer) sent t w)"
  unfolding ServerReceiveLoopLogOutputBoundary_write_receive_loop_event_def Let_def
    ServerReceiveRejectionLogOutputBoundary_write_rejection_def ServerAuthLogOutputBoundary_write_auth_result_def
    ServerSendLogOutputBoundary_write_send_success_def
  by (rule kept_refl kept_pieces kept_bind)+

lemma handoff_kept:
  "kept_if_ok
     (ServerContinuousReceiveLoopHandlerHandoffRuntimeBoundary_handoff_after_gate_outcome
        operational rejection_writer registry n outcome t w)
     (ServerContinuousReceiveLoopHandlerHandoffRuntimeBoundary_handoff_after_gate_outcome
        (forced operational) (forced rejection_writer) registry n outcome t w)"
proof -
  have "kept_if_ok
     (ServerContinuousReceiveLoopWriterRuntimeBoundary_write_after_gate_outcome operational rejection_writer n outcome t w)
     (ServerContinuousReceiveLoopWriterRuntimeBoundary_write_after_gate_outcome
       (forced operational) (forced rejection_writer) n outcome t w)" for w
    unfolding ServerContinuousReceiveLoopWriterRuntimeBoundary_write_after_gate_outcome_def Let_def
    by (rule kept_refl log_lines_kept kept_if kept_option kept_bind)+
  then show ?thesis
    unfolding ServerContinuousReceiveLoopHandlerHandoffRuntimeBoundary_handoff_after_gate_outcome_def
    by (rule kept_bind) (rule kept_refl)
qed

lemma body_kept:
  "kept_if_ok (ServerContinuousReceiveLoopBodyBoundary_run_once receive operational rejection_writer registry input w)
     (ServerContinuousReceiveLoopBodyBoundary_run_once receive (forced operational) (forced rejection_writer)
        registry input w)"
proof -
  have "kept_if_ok
     (ServerContinuousReceiveLoopOneTickRuntimeBoundary_execute_one_tick receive operational rejection_writer registry i w)
     (ServerContinuousReceiveLoopOneTickRuntimeBoundary_execute_one_tick receive (forced operational)
       (forced rejection_writer) registry i w)" for i
    by (auto simp: ServerContinuousReceiveLoopOneTickRuntimeBoundary_execute_one_tick_def Let_def
        split: prod.split sum.split fault.split intro!: kept_refl kept_bind handoff_kept)
  then show ?thesis
    unfolding ServerContinuousReceiveLoopBodyBoundary_run_once_def Let_def by (rule kept_bind) (rule kept_refl)
qed

lemma outputs_kept:
  "kept_if_ok (ServerDispatchRuntimeOutputApplyBoundary_apply_outputs writer outcome n t w)
     (ServerDispatchRuntimeOutputApplyBoundary_apply_outputs (forced writer) outcome n t w)"
  unfolding ServerDispatchRuntimeOutputApplyBoundary_apply_outputs_def
  by (cases "ssea_result outcome")
    (simp_all only: ServerDispatchRuntimeSideEffectApplyResult.case kept_refl kept_bind log_lines_kept)

lemma send_kept:
  "kept_if_ok (send_dequeued send writer dequeue ec t w) (send_dequeued send (forced writer) dequeue ec t w)"
proof (cases dequeue)
  case (Dequeue_Ready queued)
  obtain w1 r where sent: "ServerOutboundSendOneRuntimeBoundary_send_queued send queued ec w = (w1, r)" by fastforce
  show ?thesis
  proof (cases r rule: result_cases)
    case (Ok v)
    then show ?thesis
      by (simp add: send_dequeued_def Dequeue_Ready sent kept_bind kept_map_err kept_refl log_lines_kept)
  next
    case (Error e)
    then have "send_dequeued send writer dequeue ec t w \<noteq> (w', Ok v)" for w' v
      by (auto simp: send_dequeued_def Dequeue_Ready sent io_bind_eq_Ok_iff)
    then show ?thesis by (simp add: kept_if_ok_def)
  qed (simp add: send_dequeued_def Dequeue_Ready sent kept_refl)
qed (simp add: send_dequeued_def kept_refl)

definition forced_io :: "'w ServerIo \<Rightarrow> 'w ServerIo" where
  "forced_io io = io \<lparr> sio_operational_writer := forced (sio_operational_writer io),
     sio_rejection_writer := forced (sio_rejection_writer io),
     sio_auth_log_writer := forced (sio_auth_log_writer io), sio_send_log_writer := forced (sio_send_log_writer io) \<rparr>"

lemma forced_io_simps [simp]:
  "sio_receive (forced_io io) = sio_receive io" "sio_send (forced_io io) = sio_send io"
  "sio_operational_writer (forced_io io) = forced (sio_operational_writer io)"
  "sio_rejection_writer (forced_io io) = forced (sio_rejection_writer io)"
  "sio_auth_log_writer (forced_io io) = forced (sio_auth_log_writer io)"
  "sio_send_log_writer (forced_io io) = forced (sio_send_log_writer io)"
  by (simp_all add: forced_io_def)

lemma turn_kept:
  assumes "ServerReceiveSendOneIterationRuntimeBoundary_run_once io env_var config input registry queue w = (s, Ok out)"
  shows "ServerReceiveSendOneIterationRuntimeBoundary_run_once (forced_io io) env_var config input registry queue w
    = (s, Ok out)"
proof -
  note run = assms [unfolded ServerReceiveSendOneIterationRuntimeBoundary_run_once_def]
  obtain wb body where body: "ServerContinuousReceiveLoopBodyBoundary_run_once (sio_receive io)
      (sio_operational_writer io) (sio_rejection_writer io) registry (rsi_body input) w = (wb, Ok body)"
    using run by (auto split: prod.splits sum.splits fault.splits)
  note run = run [unfolded body prod.case sum.case]
  obtain dispatch where dispatch: "ServerContinuousReceiveLoopBodyDispatchRuntimeBoundary_dispatch_body_result env_var
      body config (rsi_heartbeat_timing input) = Ok dispatch"
    using run by (auto split: sum.splits)
  obtain registry1 effect where side: "ServerDispatchRuntimeSideEffectApplyBoundary_apply_body_dispatch_outcome
      registry dispatch = (registry1, effect)" by fastforce
  note run = run [unfolded dispatch side prod.case sum.case]
  obtain wo outp where outp: "ServerDispatchRuntimeOutputApplyBoundary_apply_outputs (sio_auth_log_writer io) effect
      (length (soqc_items queue)) (rsi_auth_log_timestamp input) wb = (wo, Ok outp)"
    using run by (auto split: prod.splits sum.splits fault.splits)
  obtain queue1 push where push: "ServerOutboundQueueCollectionBoundary_push_from_output_apply queue outp = (queue1, push)"
    by fastforce
  obtain queue2 dequeue where dequeue: "ServerOutboundQueueCollectionBoundary_dequeue_one queue1 = (queue2, dequeue)"
    by fastforce
  note run = run [unfolded outp push dequeue prod.case sum.case]
  obtain ws sent where sent: "send_dequeued (sio_send io) (sio_send_log_writer io) dequeue (rsi_encode_context input)
      (rsi_send_log_timestamp input) wo = (ws, Ok sent)"
    using run by (auto split: prod.splits sum.splits)
  show ?thesis
    using run kept_if_okD [OF body_kept body] kept_if_okD [OF outputs_kept outp] kept_if_okD [OF send_kept sent]
      dispatch side push dequeue sent
    by (simp add: ServerReceiveSendOneIterationRuntimeBoundary_run_once_def)
qed

section \<open>What may still arrive\<close>

text \<open>
  A set of datagrams for each world, of which a receive that yields anything yields one, and which
  no call enlarges. Every call may fail, and the clock may say anything. The datagrams are shorter
  than an address space.
\<close>

definition arrivals_within :: "'w ServerSocketIo \<Rightarrow> ('w \<Rightarrow> (PacketSource \<times> u8 list) set) \<Rightarrow> bool" where
  "arrivals_within socket_io pending \<longleftrightarrow>
     (\<forall>piece w. pending (fst (sio_operational_writer (ssk_io socket_io) piece w)) = pending w \<and>
        pending (fst (sio_rejection_writer (ssk_io socket_io) piece w)) = pending w \<and>
        pending (fst (sio_auth_log_writer (ssk_io socket_io) piece w)) = pending w \<and>
        pending (fst (sio_send_log_writer (ssk_io socket_io) piece w)) = pending w) \<and>
     (\<forall>packet w. pending (fst (sio_send (ssk_io socket_io) packet w)) = pending w) \<and>
     (\<forall>w w' r. sio_receive (ssk_io socket_io) w = (w', r) \<longrightarrow> pending w' \<subseteq> pending w \<and>
        (\<forall>d. r = Ok d \<longrightarrow> d \<in> pending w \<and> length (snd d) < usize_bound)) \<and>
     (\<forall>address w. pending (fst (ssk_bind socket_io address w)) = pending w) \<and>
     (\<forall>n w. pending (fst (ssk_set_recv_buffer_size socket_io n w)) = pending w) \<and>
     (\<forall>w. pending (fst (ssk_recv_buffer_size socket_io w)) = pending w) \<and>
     (\<forall>t w. pending (fst (ssk_set_read_timeout socket_io t w)) = pending w) \<and>
     (\<forall>b w. pending (fst (ssk_set_nonblocking socket_io b w)) = pending w) \<and>
     (\<forall>w. pending (fst (ssk_system_time socket_io w)) = pending w)"

lemma forced_keeps:
  assumes "arrivals_within socket_io pending"
  shows "keeps pending (forced (sio_operational_writer (ssk_io socket_io)))"
    and "keeps pending (forced (sio_rejection_writer (ssk_io socket_io)))"
    and "keeps pending (forced (sio_auth_log_writer (ssk_io socket_io)))"
    and "keeps pending (forced (sio_send_log_writer (ssk_io socket_io)))"
  using assms by (simp_all add: arrivals_within_def keeps_def forced_def)

lemma arrivals_receive:
  assumes "arrivals_within socket_io pending" and "sio_receive (ssk_io socket_io) w = (w', r)"
  shows "pending w' \<subseteq> pending w" and "r = Ok d \<Longrightarrow> d \<in> pending w \<and> length (snd d) < usize_bound"
proof -
  have "\<forall>w w' r. sio_receive (ssk_io socket_io) w = (w', r) \<longrightarrow> pending w' \<subseteq> pending w \<and>
      (\<forall>d. r = Ok d \<longrightarrow> d \<in> pending w \<and> length (snd d) < usize_bound)"
    using assms(1) unfolding arrivals_within_def by (elim conjE)
  then show "pending w' \<subseteq> pending w" and "r = Ok d \<Longrightarrow> d \<in> pending w \<and> length (snd d) < usize_bound"
    using assms(2) by metis+
qed

lemma sent_keeps:
  assumes "arrivals_within socket_io pending"
    and "send_dequeued (sio_send (ssk_io socket_io)) (forced (sio_send_log_writer (ssk_io socket_io))) dequeue ec t w
      = (w', Ok v)"
  shows "pending w' = pending w"
proof (cases dequeue)
  case (Dequeue_Ready queued)
  have send: "pending (fst (sio_send (ssk_io socket_io) packet w)) = pending w" for packet w
    using assms(1) by (simp add: arrivals_within_def)
  obtain w1 r where sent: "ServerOutboundSendOneRuntimeBoundary_send_queued (sio_send (ssk_io socket_io)) queued ec w
      = (w1, r)" by fastforce
  show ?thesis
  proof (cases r rule: result_cases)
    case (Ok outcome)
    then have "pending w1 = pending w"
      using sent send
      by (auto simp: ServerOutboundSendOneRuntimeBoundary_send_queued_def Let_def
          split: sum.splits fault.splits prod.splits) (metis fst_conv)+
    then show ?thesis
      using assms(2) log_lines_written(4) [OF forced_keeps(4) [OF assms(1)], of outcome t w1]
      by (auto simp: send_dequeued_def Dequeue_Ready sent Ok)
  qed (use assms(2) in \<open>auto simp: send_dequeued_def Dequeue_Ready sent io_bind_eq_Ok_iff\<close>)
qed (use assms(2) in \<open>simp add: send_dequeued_def\<close>)

text \<open>A turn that ends well has served a datagram that arrived, or has found none.\<close>

lemma turn_of_arrival:
  fixes input registry
  defines "version \<equiv> rbi_expected_protocol_version (rsi_body input)"
  assumes within: "arrivals_within socket_io pending"
    and run: "ServerReceiveSendOneIterationRuntimeBoundary_run_once (ssk_io socket_io) env_var config input registry
      EMPTY_QUEUE w = ((registry', queue', w'), Ok out)"
    and "\<not> rbi_stop_requested (rsi_body input)"
  shows "queue' = EMPTY_QUEUE \<and> pending w' \<subseteq> pending w \<and>
     ((\<exists>source bytes handler. (source, bytes) \<in> pending w \<and>
        registry' = fst (datagram_reaction env_var config (rsi_heartbeat_timing input) version registry source bytes) \<and>
        side_effect_of (rsi_heartbeat_timing input) (datagram_plan version registry source bytes)
          (ssea_result (rso_side_effect out)) \<and>
        ror_outcome (rbr_tick (rso_body out)) = OneTick_Completed (length bytes) handler) \<or>
      registry' = registry \<and> (\<exists>tick kind. ror_outcome (rbr_tick (rso_body out)) = OneTick_SocketReceiveFailed tick kind))"
proof -
  let ?io = "forced_io (ssk_io socket_io)"
  note forced = turn_kept [OF run]
  obtain w1 r where receive: "sio_receive (ssk_io socket_io) w = (w1, r)" by fastforce
  note less = arrivals_receive(1) [OF within receive] and arrived = arrivals_receive(2) [OF within receive]
  show ?thesis
  proof (cases r rule: result_cases)
    case (Ok d)
    obtain source bytes where d: "d = (source, bytes)" by (cases d)
    have io: "sio_receive ?io w = (w1, Ok (source, bytes))" "length bytes < usize_bound"
        "keeps pending (sio_operational_writer ?io)" "keeps pending (sio_rejection_writer ?io)"
        "keeps pending (sio_auth_log_writer ?io)"
      using receive Ok d arrived forced_keeps [OF within] by auto
    let ?after = "datagram_reaction env_var config (rsi_heartbeat_timing input) version registry source bytes"
    obtain w2 w3 result outcome handler where
      kept: "pending w2 = pending w1"
      and sent: "send_dequeued (sio_send ?io) (sio_send_log_writer ?io)
        (case enqueue_reply (snd ?after) [] of [] \<Rightarrow> Dequeue_Empty | item # _ \<Rightarrow> Dequeue_Ready item)
        (rsi_encode_context input) (rsi_send_log_timestamp input) w2 = (w3, result)"
      and effect: "side_effect_of (rsi_heartbeat_timing input) (datagram_plan version registry source bytes)
        (ssea_result (rso_side_effect outcome))"
      and tick: "ror_outcome (rbr_tick (rso_body outcome)) = OneTick_Completed (length bytes) handler"
      and turn: "ServerReceiveSendOneIterationRuntimeBoundary_run_once ?io env_var config input registry EMPTY_QUEUE w =
        ((fst ?after, EMPTY_QUEUE \<lparr> soqc_items := tl (enqueue_reply (snd ?after) []) \<rparr>, w3),
         rmap (\<lambda>(sent, send_log). outcome \<lparr> rso_send := sent, rso_send_log := send_log \<rparr>) result)"
      using turn_of_datagram [where io = ?io and f = pending, OF io assms(4), of env_var config registry EMPTY_QUEUE]
      unfolding version_def [symmetric] by auto
    have "tl (enqueue_reply (snd ?after) []) = []" by (simp add: enqueue_reply_def split: option.split)
    then have after: "registry' = fst ?after" "queue' = EMPTY_QUEUE" "w3 = w'"
      and out: "rmap (\<lambda>(sent, send_log). outcome \<lparr> rso_send := sent, rso_send_log := send_log \<rparr>) result = Ok out"
      using turn forced by simp_all
    obtain packet log where result: "result = Ok (packet, log)"
        and out: "out = outcome \<lparr> rso_send := packet, rso_send_log := log \<rparr>"
      using out by (auto simp: rmap_eq_Inr_iff)
    have "pending w' = pending w2"
      using sent sent_keeps [OF within] by (simp add: after(3) result)
    then show ?thesis
      using kept less tick effect arrived [OF Ok] d after(1,2) out by auto
  next
    case (Error e)
    then show ?thesis
      using forced receive less assms(4)
      by (auto simp: ServerReceiveSendOneIterationRuntimeBoundary_run_once_def
        ServerContinuousReceiveLoopBodyBoundary_run_once_def
        ServerContinuousReceiveLoopOneTickRuntimeBoundary_execute_one_tick_def
        ServerUdpSocketIoStep_receive_one_with_gate_details_def effect_defs
        ServerContinuousReceiveLoopHandlerDispatchBoundary_plan_from_body_result_def
        dequeue_one_state send_dequeued_def)
  next
    case Panicked
    then show ?thesis
      using forced receive assms(4)
      by (auto simp: ServerReceiveSendOneIterationRuntimeBoundary_run_once_def
        ServerContinuousReceiveLoopBodyBoundary_run_once_def
        ServerContinuousReceiveLoopOneTickRuntimeBoundary_execute_one_tick_def
        ServerUdpSocketIoStep_receive_one_with_gate_details_def Let_def)
  qed
qed

section \<open>The run\<close>

text \<open>
  What every turn keeps: nothing waits to be sent, no more may arrive than at the start, and what
  is registered and stored was authorised by a datagram that could arrive.
\<close>

definition authorised_run ::
  "(string \<Rightarrow> string + VarError) \<Rightarrow> ServerAuthResponsePocStartupConfig \<Rightarrow>
     ServerReceiveSendContinuousRuntimePolicy \<Rightarrow> ('w \<Rightarrow> (PacketSource \<times> u8 list) set) \<Rightarrow>
     (PacketSource \<times> u8 list) set \<Rightarrow> 'w ContinuousRun \<Rightarrow> bool" where
  "authorised_run env_var startup_config policy pending ds run \<longleftrightarrow>
     run_queue run = EMPTY_QUEUE \<and> pending (run_world run) \<subseteq> ds \<and>
     view_ok env_var startup_config policy ds (view_of run)"

lemma authorised_run_simps [simp]:
  "authorised_run env cfg policy pending ds (update_summary f run) = authorised_run env cfg policy pending ds run"
  by (simp add: authorised_run_def)

lemma authorised_run_world:
  "authorised_run env cfg policy pending ds run \<Longrightarrow> pending w = pending (run_world run) \<Longrightarrow>
     authorised_run env cfg policy pending ds (run \<lparr> run_world := w \<rparr>)"
  by (simp add: authorised_run_def)

lemma set_nonblocking_authorised:
  assumes "arrivals_within socket_io pending" and "authorised_run env cfg policy pending ds run"
    and "(if c then set_nonblocking socket_io address b run else (run, Ok ())) = (run', Ok u)"
  shows "authorised_run env cfg policy pending ds run'"
proof (cases c)
  case True
  obtain w r where "ssk_set_nonblocking socket_io b (run_world run) = (w, r)" by fastforce
  moreover have "pending (fst (ssk_set_nonblocking socket_io b (run_world run))) = pending (run_world run)"
    using assms(1) by (simp add: arrivals_within_def)
  ultimately show ?thesis
    using assms(2,3) True by (auto simp: set_nonblocking_def intro: authorised_run_world)
qed (use assms(2,3) in simp)

lemma timestamp_arrivals:
  assumes "arrivals_within socket_io pending" and "current_system_timestamp_micros socket_io w = (w', t)"
  shows "pending w' = pending w"
proof -
  have "pending (fst (ssk_system_time socket_io w)) = pending w"
    using assms(1) by (simp add: arrivals_within_def)
  then show ?thesis using assms(2) by (auto simp: current_system_timestamp_micros_def Let_def split: prod.splits)
qed

text \<open>One turn of the run, as it is called.\<close>

lemma run_turn_arrival:
  fixes startup_config
  defines "version \<equiv> sapc_expected_protocol_version startup_config"
  assumes within: "arrivals_within socket_io pending"
    and run: "run_turn socket_io env_var startup_config registry EMPTY_QUEUE t w = ((registry', queue', w'), Ok result)"
  obtains plan outcome observation where "result = ControllerRuntime_Iteration plan outcome observation"
    and "queue' = EMPTY_QUEUE" and "pending w' \<subseteq> pending w"
    and "(\<exists>source bytes handler. (source, bytes) \<in> pending w \<and>
        registry' = fst (datagram_reaction env_var (sapc_auth_config startup_config) (step_timing t) version registry
          source bytes) \<and>
        side_effect_of (step_timing t) (datagram_plan version registry source bytes)
          (ssea_result (rso_side_effect outcome)) \<and>
        ror_outcome (rbr_tick (rso_body outcome)) = OneTick_Completed (length bytes) handler) \<or>
      registry' = registry \<and>
      (\<exists>tick kind. ror_outcome (rbr_tick (rso_body outcome)) = OneTick_SocketReceiveFailed tick kind)"
proof -
  let ?input = "\<lparr> rsi_body = \<lparr> rbi_expected_protocol_version = version, rbi_timestamp = t, rbi_stop_requested = False \<rparr>,
    rsi_heartbeat_timing = step_timing t, rsi_encode_context = \<lparr> ec_protocol_version = version \<rparr>,
    rsi_auth_log_timestamp = t, rsi_send_log_timestamp = t \<rparr>"
  obtain plan outcome observation where "result = ControllerRuntime_Iteration plan outcome observation"
    and "ServerReceiveSendOneIterationRuntimeBoundary_run_once (ssk_io socket_io) env_var
      (sapc_auth_config startup_config) ?input registry EMPTY_QUEUE w = ((registry', queue', w'), Ok outcome)"
    using run by (auto simp: run_turn_defs version_def step_timing_def io_bind_eq_Ok_iff)
  then show ?thesis
    using turn_of_arrival [OF within, of env_var "sapc_auth_config startup_config" ?input registry w registry' queue' w' outcome]
    by (intro that) auto
qed

lemma drain_turn_authorised:
  assumes within: "arrivals_within socket_io pending"
    and ok: "authorised_run env_var startup_config policy pending ds run"
    and turn: "drain_turn socket_io env_var startup_config policy drain_index packets run = (run', Ok (packets', out))"
  shows "authorised_run env_var startup_config policy pending ds run'"
proof (cases "limit_reached policy (run_iteration_index run)")
  case True
  then show ?thesis using turn ok by (simp add: drain_turn_def)
next
  case False
  let ?before = "if drain_index = 1 then set_nonblocking socket_io (sapc_bind_address startup_config) True run
    else (run, Ok ())"
  obtain run0 r0 where before: "?before = (run0, r0)" by fastforce
  note turn = turn [unfolded drain_turn_def before if_not_P [OF False]]
  have r0: "r0 = Ok ()" using turn by (cases r0) (auto simp: io_bind_def)
  have run0: "authorised_run env_var startup_config policy pending ds run0"
    using set_nonblocking_authorised [OF within ok] before r0 by simp
  let ?run1 = "update_summary (crsum_iterations_attempted_update usize_inc) run0"
  obtain w t where clock: "current_system_timestamp_micros socket_io (run_world run0) = (w, t)" by fastforce
  have w: "pending w = pending (run_world run0)" by (rule timestamp_arrivals [OF within clock])
  have queue: "run_queue run0 = EMPTY_QUEUE" using run0 by (simp add: authorised_run_def)
  obtain registry queue' w' r where served: "run_turn socket_io env_var startup_config (run_registry run0) EMPTY_QUEUE t w
      = ((registry, queue', w'), r)" by (metis prod.collapse)
  note turn = turn [unfolded r0 io_bind_simps Let_def view_of_simps clock prod.case queue served]
  obtain result where result: "r = Ok result"
    using turn by (cases r rule: result_cases) auto
  obtain plan outcome observation where iteration: "result = ControllerRuntime_Iteration plan outcome observation"
    and kept: "queue' = EMPTY_QUEUE" "pending w' \<subseteq> pending w"
    and effect: "(\<exists>source bytes handler. (source, bytes) \<in> pending w \<and>
        registry = fst (datagram_reaction env_var (sapc_auth_config startup_config) (step_timing t)
          (sapc_expected_protocol_version startup_config) (run_registry run0) source bytes) \<and>
        side_effect_of (step_timing t) (datagram_plan (sapc_expected_protocol_version startup_config)
          (run_registry run0) source bytes) (ssea_result (rso_side_effect outcome)) \<and>
        ror_outcome (rbr_tick (rso_body outcome)) = OneTick_Completed (length bytes) handler) \<or>
      registry = run_registry run0 \<and>
      (\<exists>tick kind. ror_outcome (rbr_tick (rso_body outcome)) = OneTick_SocketReceiveFailed tick kind)"
    using run_turn_arrival [OF within served [unfolded result]] by blast
  define before_view where "before_view = view_of run0"
  have view: "view_ok env_var startup_config policy ds before_view" and less: "pending w' \<subseteq> ds"
    using run0 kept(2) w by (auto simp: authorised_run_def before_view_def)
  have reassembly: "reassembly_ok (cst_reassembly (run_states run0))"
    using view by (simp add: before_view_def view_ok_def view_of_def)
  define run2 where "run2 = update_summary (crsum_iterations_completed_update usize_inc)
    (?run1 \<lparr> run_registry := registry, run_queue := queue', run_world := w' \<rparr>)"
  have run2: "run_queue run2 = EMPTY_QUEUE" "run_world run2 = w'" "run_registry run2 = registry"
    "states_view (run_states run2) = states_view (run_states run0)"
    "cst_reassembly (run_states run2) = cst_reassembly (run_states run0)"
    using kept(1) by (simp_all add: run2_def update_summary_def states_view_def)
  note turn = turn [unfolded result sum.case run2_def [symmetric]]
  show ?thesis
    using effect
  proof (elim disjE exE conjE)
    fix source bytes handler
    assume arrived: "(source, bytes) \<in> pending w"
      and registry: "registry = fst (datagram_reaction env_var (sapc_auth_config startup_config) (step_timing t)
          (sapc_expected_protocol_version startup_config) (run_registry run0) source bytes)"
      and side: "side_effect_of (step_timing t) (datagram_plan (sapc_expected_protocol_version startup_config)
          (run_registry run0) source bytes) (ssea_result (rso_side_effect outcome))"
      and tick: "ror_outcome (rbr_tick (rso_body outcome)) = OneTick_Completed (length bytes) handler"
    have "reassembly_ok (cst_reassembly (run_states run2))" using reassembly by (simp only: run2(5))
    from observe_iteration_view [OF tick side this, of policy "run_iteration_index run0" registry plan observation]
    obtain st' where st': "observe_continuous_iteration policy (run_iteration_index run0) t registry
        (ControllerRuntime_Iteration plan outcome observation) (run_states run2) = Ok (st', None)"
      and after: "states_view st' = (case datagram_plan (sapc_expected_protocol_version startup_config)
          (run_registry run0) source bytes of
        Plan_RegisteredClient packet \<Rightarrow> packet_step policy t packet (states_view (run_states run0))
      | _ \<Rightarrow> states_view (run_states run0))"
      unfolding run2(4) by blast
    have "(registry, states_view st') = server_step env_var startup_config policy before_view (t, source, bytes)"
      unfolding after registry by (simp add: server_step_def before_view_def view_of_states Let_def)
    moreover have "(source, bytes) \<in> ds"
      using arrived w run0 by (auto simp: authorised_run_def)
    ultimately have "view_ok env_var startup_config policy ds (registry, states_view st')"
      using server_step_ok [OF view, of source bytes t] by simp
    moreover have "\<not> would_block (ControllerRuntime_Iteration plan outcome observation)"
      using tick by (simp add: would_block_def)
    ultimately show ?thesis
      using turn st' less run2(1-3) by (auto simp: iteration authorised_run_def view_of_states)
  next
    fix tick kind
    assume registry: "registry = run_registry run0"
      and tick: "ror_outcome (rbr_tick (rso_body outcome)) = OneTick_SocketReceiveFailed tick kind"
    have "view_ok env_var startup_config policy ds (registry, states_view (run_states run2))"
      using view registry by (simp add: run2 before_view_def view_of_states)
    then show ?thesis
      using turn less run2 tick
      by (auto simp: iteration authorised_run_def view_of_states observe_continuous_iteration_def
          split: if_splits)
  qed
qed

lemma drain_cycle_authorised:
  assumes within: "arrivals_within socket_io pending"
  shows "authorised_run env_var startup_config policy pending ds run \<Longrightarrow>
    drain_cycle socket_io env_var startup_config policy remaining drain_index packets run = (run', Ok v) \<Longrightarrow>
    authorised_run env_var startup_config policy pending ds run'"
proof (induction remaining arbitrary: drain_index packets run)
  case (Suc remaining)
  then obtain run1 packets1 out where turn: "drain_turn socket_io env_var startup_config policy drain_index packets run
        = (run1, Ok (packets1, out))"
    and rest: "(case out of
       Drain_Next \<Rightarrow> drain_cycle socket_io env_var startup_config policy remaining (drain_index + 1) packets1 run1
     | Drain_Empty \<Rightarrow> (run1, Ok (packets1, None))
     | Drain_Stopped reason \<Rightarrow> (run1, Ok (packets1, Some reason))) = (run', Ok v)"
    by (auto simp: io_bind_eq_Ok_iff)
  note one = drain_turn_authorised [OF within Suc.prems(1) turn]
  show ?case
  proof (cases out)
    case Drain_Next
    then show ?thesis using Suc.IH [OF one] rest by simp
  qed (use one rest in auto)
qed simp

lemma drain_cycles_authorised:
  assumes within: "arrivals_within socket_io pending"
    and "drain_cycles socket_io env_var startup_config policy run = Some (run', Ok ())"
    and "authorised_run env_var startup_config policy pending ds run"
  shows "authorised_run env_var startup_config policy pending ds run'"
proof -
  define kept where "kept socket_io env_var startup_config policy run result \<longleftrightarrow>
      arrivals_within socket_io pending \<longrightarrow> authorised_run env_var startup_config policy pending ds run \<longrightarrow>
      snd result = Ok () \<longrightarrow> authorised_run env_var startup_config policy pending ds (fst result)"
    for socket_io env_var startup_config policy run and
      result :: "'a ContinuousRun \<times> (unit, ServerReceiveSendContinuousRuntimeError) result"
  have "kept socket_io env_var startup_config policy run (run', Ok ())"
  proof (rule drain_cycles.raw_induct [OF _ assms(2), of kept], goal_cases)
    case (1 drain_cycles socket_io env_var startup_config policy run result)
    note IH = 1(1) and result = 1(2)
    let ?ok = "authorised_run env_var startup_config policy pending ds"
    let ?start = "update_summary (crsum_drain_cycles_update usize_inc) run"
    show ?case
      unfolding kept_def
    proof (intro impI)
      assume world: "arrivals_within socket_io pending" and ok: "?ok run" and ended: "snd result = Ok ()"
      show "?ok (fst result)"
      proof (cases "limit_reached policy (run_iteration_index run)")
        case True
        then show ?thesis using result ok by auto
      next
        case False
        obtain run1 r1 where cycle: "drain_cycle socket_io env_var startup_config policy
            (max (srcp_max_packets_per_drain_cycle policy) 1) 0 0 ?start = (run1, r1)" by fastforce
        obtain run2 r2 where blocking: "(if 1 < srcp_max_packets_per_drain_cycle policy
            then set_nonblocking socket_io (sapc_bind_address startup_config) False run1 else (run1, Ok ()))
            = (run2, r2)" by fastforce
        note step = result [unfolded cycle if_not_P [OF False]]
        obtain packets stop where r1: "r1 = Ok (packets, stop)"
          using step ended by (cases r1) (auto simp: io_bind_def)
        note step = step [unfolded r1 io_bind_simps prod.case blocking]
        have r2: "r2 = Ok ()" using step ended by (cases r2) (auto simp: io_bind_def)
        have "?ok run1"
          using drain_cycle_authorised [OF world _ cycle [unfolded r1]] ok by simp
        then have run2: "?ok run2"
          using set_nonblocking_authorised [OF world] blocking r2 by blast
        show ?thesis
        proof (cases stop)
          case None
          let ?run3 = "update_summary (\<lambda>s. s \<lparr> crsum_last_packets_drained_in_cycle := packets,
            crsum_max_packets_drained_in_cycle := max (crsum_max_packets_drained_in_cycle s) packets \<rparr>) run2"
          have "drain_cycles socket_io env_var startup_config policy ?run3 = Some result"
            using step by (simp add: r2 None)
          moreover have "?ok ?run3" using run2 by simp
          ultimately show ?thesis using IH world ended unfolding kept_def by blast
        next
          case (Some reason)
          then show ?thesis using step run2 by (auto simp: r2)
        qed
      qed
    qed
  qed
  with assms show ?thesis by (simp add: kept_def)
qed

lemma io_map_err_fst: "fst (io_map_err f r) = fst r"
  by (simp add: io_map_err_def)

lemma prepared_socket_keeps:
  assumes within: "arrivals_within socket_io pending"
  shows "pending (fst (bind_socket socket_io f address w)) = pending w"
    and "pending (fst (apply_receive_buffer_bytes socket_io n w)) = pending w"
    and "pending (fst (ssk_set_read_timeout socket_io t w)) = pending w"
proof -
  have "pending (fst (ssk_bind socket_io address v)) = pending v"
    "pending (fst (ssk_set_recv_buffer_size socket_io n v)) = pending v"
    "pending (fst (ssk_recv_buffer_size socket_io v)) = pending v"
    "pending (fst (ssk_set_read_timeout socket_io t v)) = pending v" for v
    using within by (simp_all add: arrivals_within_def)
  then show "pending (fst (bind_socket socket_io f address w)) = pending w"
    and "pending (fst (apply_receive_buffer_bytes socket_io n w)) = pending w"
    and "pending (fst (ssk_set_read_timeout socket_io t w)) = pending w"
    by (simp_all add: bind_socket_def apply_receive_buffer_bytes_def io_map_err_fst case_prod_unfold Let_def)
qed

lemma run_authorised:
  assumes within: "arrivals_within socket_io pending"
    and run: "ServerReceiveSendContinuousRuntimeLauncher_run_with_writers_and_policy socket_io env_var
      startup_config policy w = Some (w', Ok outcome)"
  shows "view_ok env_var startup_config policy (pending w) (outcome_view outcome)"
proof -
  obtain w1 r1 where bound: "bind_socket socket_io Continuous_Bind (sapc_bind_address startup_config) w = (w1, r1)"
    by (rule prod.exhaust)
  obtain w2 buffer where buffer: "apply_receive_buffer_bytes socket_io (srcp_receive_buffer_bytes policy) w1 = (w2, buffer)"
    by (rule prod.exhaust)
  obtain w3 r3 where timeout: "ssk_set_read_timeout socket_io (Some (srcp_receive_timeout policy)) w2 = (w3, r3)"
    by (rule prod.exhaust)
  note run = run [unfolded ServerReceiveSendContinuousRuntimeLauncher_run_with_writers_and_policy_def Let_def bound
      prod.case buffer timeout]
  have kept: "pending w3 = pending w"
    using prepared_socket_keeps(1) [OF within, of Continuous_Bind "sapc_bind_address startup_config" w]
      prepared_socket_keeps(2) [OF within, of "srcp_receive_buffer_bytes policy" w1]
      prepared_socket_keeps(3) [OF within, of "Some (srcp_receive_timeout policy)" w2]
    by (simp add: bound buffer timeout)
  obtain final where drained: "drain_cycles socket_io env_var startup_config policy (initial_run policy buffer w3)
      = Some (final, Ok ())" and outcome: "outcome_view outcome = view_of final"
    using run by (cases r1; cases r3 rule: result_cases)
      (auto simp: rmap_eq_Inr_iff outcome_view_def view_of_def final_sizes_def observe_sizes_def update_summary_def)
  have "run_queue (initial_run policy buffer w3) = EMPTY_QUEUE"
    using initial_run_simps(3) [of policy buffer w3] by (simp add: idle_def)
  then have "authorised_run env_var startup_config policy pending (pending w) (initial_run policy buffer w3)"
    using kept by (simp add: authorised_run_def initial_run_simps initial_view_ok)
  from drain_cycles_authorised [OF within drained this] show ?thesis
    by (simp add: authorised_run_def outcome)
qed

section \<open>What later datagrams leave of a heartbeat\<close>









section \<open>Properties\<close>

text \<open>
  C3: Take a run with or without an iteration limit, over a socket, a clock and log writers of which
  any call may fail at any time, as long as no call but the receiving of a datagram changes what
  may still arrive. If the run ends without an error, then whatever arrived, a client is registered,
  and a frame stands in the video queue, only if an auth request that is granted was among what
  could arrive, from the same address for the same client and run; the queue keeps within its
  capacity for each client, and the frames in progress are consistent. A run with a limit does
  return, with an outcome or an error.
\<close>

theorem only_authorised_frames_are_queued:
  assumes "arrivals_within socket_io pending"
  shows "case ServerReceiveSendContinuousRuntimeLauncher_run_with_writers_and_policy socket_io env_var
      startup_config policy w of
    None \<Rightarrow> \<not> (\<exists>limit. srcp_max_iterations policy = Some limit \<and> limit < usize_bound)
  | Some (w', result) \<Rightarrow> (case result of
      Ok outcome \<Rightarrow>
        (\<forall>c e. AuthenticatedSenderRegistry_get (crout_registry outcome) c = Some e \<longrightarrow>
           authorised env_var startup_config (pending w) (ase_source e) c (ase_run_id e)) \<and>
        every_stored (\<lambda>f. authorised env_var startup_config (pending w) (sqv_source f)
          (vf_client_id (sqv_frame f)) (vf_run_id (sqv_frame f))) (crout_video_queue_state outcome) \<and>
        video_queue_ok (srcp_video_queue_policy policy) (crout_video_queue_state outcome) \<and>
        reassembly_ok (crout_reassembly_state outcome)
    | _ \<Rightarrow> True)"
proof (cases "ServerReceiveSendContinuousRuntimeLauncher_run_with_writers_and_policy socket_io env_var
      startup_config policy w")
  case None
  then show ?thesis using limited_run_returns [of policy _ socket_io env_var startup_config w] by fastforce
next
  case (Some final)
  obtain w' result where run: "final = (w', result)" by (cases final)
  show ?thesis
  proof (cases result)
    case (Inr outcome)
    then have "view_ok env_var startup_config policy (pending w) (outcome_view outcome)"
      using run_authorised [OF assms] Some run by blast
    then show ?thesis using Some run Inr by (simp add: view_ok_def outcome_view_def)
  qed (use Some run in simp)
qed

lemma inbox_io_arrivals: "arrivals_within inbox_io (\<lambda>w. set (inbox_of w))"
  by (auto simp: arrivals_within_def inbox_io_def inbox_of_def usize_bound_def split: list.splits prod.splits)

lemma only_authorised_frames_are_queued_witness:
  "\<exists>w' outcome. serve_inbox [(camera, camera_datagram)] = Some (w', Ok outcome) \<and>
     reassembly_ok (crout_reassembly_state outcome) \<and>
     (\<forall>c e. AuthenticatedSenderRegistry_get (crout_registry outcome) c = Some e \<longrightarrow> ase_source e = camera)"
proof -
  obtain w' outcome where run: "serve_inbox [(camera, camera_datagram)] = Some (w', Ok outcome)"
    using run_serves [OF inbox_io_ok default_unlimited camera_inbox, of "\<lambda>_. Inl ''t1''" camera_startup] by blast
  moreover have "set (inbox_of [(camera, camera_datagram)]) = {(camera, camera_datagram)}"
    by (simp add: camera_inbox)
  ultimately show ?thesis
    using only_authorised_frames_are_queued [OF inbox_io_arrivals, where env_var = "\<lambda>_. Inl ''t1''"
        and startup_config = camera_startup and policy = ServerReceiveSendContinuousRuntimePolicy_default
        and w = "[(camera, camera_datagram)]"]
    by (fastforce simp: authorised_def)
qed







end
