(* ===== verification/Client_Annex_B.thy ===== *)
theory Client_Annex_B
  imports Byte_Parser Rust_Io
begin

text \<open>
  The client's reader of the encoder's output, apps/client/src/lib.rs: an H.264 byte stream in
  Annex B form arrives in arbitrary pieces, is split into NAL units at its start codes, and the
  NAL units are grouped into access units, one coded picture each.
\<close>

section \<open>NAL units and access units\<close>

datatype ClientAnnexBNalUnitKind =
    Nal_NonIdrSlice
  | Nal_IdrSlice
  | Nal_Sei
  | Nal_Sps
  | Nal_Pps
  | Nal_Aud
  | Nal_Other u8

definition ClientAnnexBNalUnitKind_from_nal_unit_type :: "u8 \<Rightarrow> ClientAnnexBNalUnitKind" where
  "ClientAnnexBNalUnitKind_from_nal_unit_type nal_unit_type =
     (if 1 \<le> nal_unit_type \<and> nal_unit_type \<le> 4 then Nal_NonIdrSlice
      else if nal_unit_type = 5 then Nal_IdrSlice
      else if nal_unit_type = 6 then Nal_Sei
      else if nal_unit_type = 7 then Nal_Sps
      else if nal_unit_type = 8 then Nal_Pps
      else if nal_unit_type = 9 then Nal_Aud
      else Nal_Other nal_unit_type)"

definition ClientAnnexBNalUnitKind_is_vcl :: "ClientAnnexBNalUnitKind \<Rightarrow> bool" where
  "ClientAnnexBNalUnitKind_is_vcl kind \<longleftrightarrow> kind = Nal_NonIdrSlice \<or> kind = Nal_IdrSlice"

record ClientAnnexBNalUnit =
  nal_bytes :: "u8 list"
  nal_start_code_len :: nat
  nal_kind :: ClientAnnexBNalUnitKind
  nal_unit_type :: u8
  nal_first_mb_in_slice :: "u64 option"

record ClientAnnexBAccessUnit =
  au_bytes :: "u8 list"
  au_nal_units :: "ClientAnnexBNalUnit list"
  au_contains_idr :: bool
  au_contains_sps :: bool
  au_contains_pps :: bool

datatype ClientAnnexBAccessUnitReaderMalformedReason =
    Malformed_MissingStartCode
  | Malformed_ZeroLengthNalUnit
  | Malformed_InvalidNalHeader
  | Malformed_InvalidSliceHeader

datatype ClientAnnexBAccessUnitReaderIncompleteReason =
    Incomplete_NoCompleteAccessUnitYet
  | Incomplete_TrailingStartCodeWithoutNalHeader
  | Incomplete_AccessUnitMissingVcl

section \<open>Bits of a slice header\<close>

fun remove_loop :: "nat \<Rightarrow> u8 list \<Rightarrow> u8 list" where
  "remove_loop zero_run [] = []"
| "remove_loop zero_run (byte # payload) =
     (if 2 \<le> zero_run \<and> byte = 3 then remove_loop 0 payload
      else byte # remove_loop (if byte = 0 then zero_run + 1 else 0) payload)"

definition remove_h264_emulation_prevention_bytes :: "u8 list \<Rightarrow> u8 list" where
  "remove_h264_emulation_prevention_bytes payload = remove_loop 0 payload"

definition read_bit :: "u8 list \<Rightarrow> nat \<Rightarrow> (bool, ClientAnnexBAccessUnitReaderMalformedReason) result" where
  "read_bit bytes bit_index =
     rmap (\<lambda>byte. bit byte (7 - bit_index mod 8)) (byte_at bytes (bit_index div 8))"

text \<open>The zero bits from an index on, up to the end.\<close>

function count_leading_zero_bits :: "u8 list \<Rightarrow> nat \<Rightarrow> nat \<Rightarrow> nat \<Rightarrow>
     (nat \<times> nat, ClientAnnexBAccessUnitReaderMalformedReason) result" where
  "count_leading_zero_bits bytes total_bits bit_index leading_zero_bits =
     (if bit_index < total_bits
      then rbind (read_bit bytes bit_index) (\<lambda>b.
        if b then Ok (leading_zero_bits, bit_index)
        else count_leading_zero_bits bytes total_bits (bit_index + 1) (leading_zero_bits + 1))
      else Ok (leading_zero_bits, bit_index))"
  by auto
termination by (relation "measure (\<lambda>(_, total, i, _). total - i)") auto

fun read_suffix_bits ::
  "u8 list \<Rightarrow> nat \<Rightarrow> nat \<Rightarrow> nat \<Rightarrow> u64 \<Rightarrow> (u64, ClientAnnexBAccessUnitReaderMalformedReason) result" where
  "read_suffix_bits bytes total_bits 0 bit_index acc = Ok acc"
| "read_suffix_bits bytes total_bits (Suc n) bit_index acc =
     (if total_bits \<le> bit_index then Error Malformed_InvalidSliceHeader
      else rbind (read_bit bytes bit_index) (\<lambda>b.
        read_suffix_bits bytes total_bits n (bit_index + 1) (push_bit 1 acc OR of_bool b)))"

definition usize_saturating_mul :: "nat \<Rightarrow> nat \<Rightarrow> nat" where
  "usize_saturating_mul a b = min (a * b) (usize_bound - 1)"

lemma usize_saturating_mul_code [code]:
  "usize_saturating_mul a b =
     (if int a * int b < 18446744073709551616 then a * b else nat 18446744073709551615)"
proof -
  have "int a * int b < 18446744073709551616 \<longleftrightarrow> a * b < usize_bound"
    by (simp add: usize_bound_def flip: of_nat_mult)
  then show ?thesis by (auto simp: usize_saturating_mul_def usize_bound_def)
qed

text \<open>The shift by 64 or more wraps, as in a release build.\<close>

definition parse_unsigned_exp_golomb ::
  "u8 list \<Rightarrow> (u64, ClientAnnexBAccessUnitReaderMalformedReason) result" where
  "parse_unsigned_exp_golomb bytes =
     (let total_bits = usize_saturating_mul (length bytes) 8 in
      rbind (count_leading_zero_bits bytes total_bits 0 0) (\<lambda>(leading_zero_bits, bit_index).
      if total_bits \<le> bit_index then Error Malformed_InvalidSliceHeader
      else
        rbind (read_suffix_bits bytes total_bits leading_zero_bits (bit_index + 1) 0) (\<lambda>suffix.
        Ok (u64_saturating_add (push_bit (leading_zero_bits mod 64) 1 - 1) suffix))))"

definition parse_h264_first_mb_in_slice ::
  "u8 list \<Rightarrow> (u64, ClientAnnexBAccessUnitReaderMalformedReason) result" where
  "parse_h264_first_mb_in_slice payload =
     parse_unsigned_exp_golomb (remove_h264_emulation_prevention_bytes payload)"

section \<open>Start codes\<close>

function find_start_code_from :: "u8 list \<Rightarrow> nat \<Rightarrow> (nat \<times> nat) option" where
  "find_start_code_from bytes index =
     (if index + 3 \<le> length bytes
      then
        if index + 4 \<le> length bytes \<and> bytes ! index = 0 \<and> bytes ! (index + 1) = 0
          \<and> bytes ! (index + 2) = 0 \<and> bytes ! (index + 3) = 1
        then Some (index, 4)
        else if bytes ! index = 0 \<and> bytes ! (index + 1) = 0 \<and> bytes ! (index + 2) = 1
        then Some (index, 3)
        else find_start_code_from bytes (index + 1)
      else None)"
  by auto
termination by (relation "measure (\<lambda>(bytes, index). length bytes - index)") auto

definition find_annex_b_start_code :: "u8 list \<Rightarrow> nat \<Rightarrow> (nat \<times> nat) option" where
  "find_annex_b_start_code bytes from =
     (if length bytes < 3 \<or> length bytes \<le> from then None else find_start_code_from bytes from)"

declare count_leading_zero_bits.simps [simp del] find_start_code_from.simps [simp del]

section \<open>NAL units of a buffer\<close>

record ClientAnnexBNalDescriptor =
  nd_start :: nat
  nd_end :: nat
  nd_nal_unit :: ClientAnnexBNalUnit

definition parse_annex_b_nal_descriptor ::
  "u8 list \<Rightarrow> nat \<Rightarrow> nat \<Rightarrow> nat \<Rightarrow>
     (ClientAnnexBNalDescriptor, ClientAnnexBAccessUnitReaderMalformedReason) result" where
  "parse_annex_b_nal_descriptor buffer start start_code_len nal_end =
     (if nal_end \<le> start + start_code_len then Error Malformed_ZeroLengthNalUnit
      else
        rbind (byte_at buffer (start + start_code_len)) (\<lambda>nal_header.
        if nal_header AND 0x80 \<noteq> 0 \<or> nal_header AND 0x1F = 0 then Error Malformed_InvalidNalHeader
        else
          (let nal_unit_type = nal_header AND 0x1F;
               kind = ClientAnnexBNalUnitKind_from_nal_unit_type nal_unit_type in
           rbind (if ClientAnnexBNalUnitKind_is_vcl kind
             then rbind (slice_range buffer (start + start_code_len + 1) nal_end) (\<lambda>payload.
               rmap Some (rmap_err (\<lambda>_. Malformed_InvalidSliceHeader) (parse_h264_first_mb_in_slice payload)))
             else Ok None) (\<lambda>first_mb_in_slice.
           rmap (\<lambda>bytes. \<lparr> nd_start = start, nd_end = nal_end, nd_nal_unit =
               \<lparr> nal_bytes = bytes, nal_start_code_len = start_code_len, nal_kind = kind,
                 nal_unit_type = nal_unit_type, nal_first_mb_in_slice = first_mb_in_slice \<rparr> \<rparr>)
             (slice_range buffer start nal_end)))))"

text \<open>
  The loop over start codes: the NAL units that end at a start code, and the start code of the one
  that has no end yet. A start code is searched behind the last one, so the buffer left shrinks.
\<close>

lemma find_start_code_from_bounds:
  "find_start_code_from bytes i = Some (s, n) \<Longrightarrow> i \<le> s \<and> s + n \<le> length bytes \<and> 3 \<le> n"
proof (induction bytes i rule: find_start_code_from.induct)
  case (1 bytes index)
  then show ?case
    by (subst (asm) find_start_code_from.simps) (fastforce split: if_splits)
qed

function nal_descriptor_loop ::
  "u8 list \<Rightarrow> nat \<Rightarrow> nat \<Rightarrow> ClientAnnexBNalDescriptor list \<Rightarrow>
     (ClientAnnexBNalDescriptor list \<times> nat \<times> nat, ClientAnnexBAccessUnitReaderMalformedReason) result" where
  "nal_descriptor_loop buffer current_start current_start_code_len descriptors =
     (case find_annex_b_start_code buffer (current_start + current_start_code_len) of
        None \<Rightarrow> Ok (descriptors, current_start, current_start_code_len)
      | Some (next_start, next_start_code_len) \<Rightarrow>
          rbind (parse_annex_b_nal_descriptor buffer current_start current_start_code_len next_start) (\<lambda>descriptor.
          nal_descriptor_loop buffer next_start next_start_code_len (descriptors @ [descriptor])))"
  by auto
termination
proof (relation "measure (\<lambda>(buffer, start, len, _). length buffer - (start + len))")
  show "((buffer, s', n', ds @ [d]), (buffer, s, n, ds)) \<in> measure (\<lambda>(buffer, start, len, _). length buffer - (start + len))"
    if "find_annex_b_start_code buffer (s + n) = Some x" and "(s', n') = x" for buffer s n ds d x s' n'
    using that find_start_code_from_bounds [of buffer "s + n" s' n']
    by (auto simp: find_annex_b_start_code_def split: if_splits)
qed simp

declare nal_descriptor_loop.simps [simp del]

definition parse_annex_b_nal_descriptors ::
  "u8 list \<Rightarrow> bool \<Rightarrow> (ClientAnnexBNalDescriptor list, ClientAnnexBAccessUnitReaderMalformedReason) result" where
  "parse_annex_b_nal_descriptors buffer eof =
     (if buffer = [] then Ok []
      else (case find_annex_b_start_code buffer 0 of
        None \<Rightarrow> Error Malformed_MissingStartCode
      | Some (first_start, first_start_code_len) \<Rightarrow>
          if first_start \<noteq> 0 then Error Malformed_MissingStartCode
          else
            rbind (nal_descriptor_loop buffer first_start first_start_code_len [])
              (\<lambda>(descriptors, current_start, current_start_code_len).
            if eof
            then
              if length buffer \<le> current_start + current_start_code_len then Ok descriptors
              else rmap (\<lambda>descriptor. descriptors @ [descriptor])
                (parse_annex_b_nal_descriptor buffer current_start current_start_code_len (length buffer))
            else Ok descriptors)))"

section \<open>Access units of a buffer\<close>

record ClientAnnexBAccessUnitReaderState =
  buffered_bytes :: "u8 list"

definition ClientAnnexBAccessUnitReaderState_default :: ClientAnnexBAccessUnitReaderState where
  "ClientAnnexBAccessUnitReaderState_default = \<lparr> buffered_bytes = [] \<rparr>"

definition ClientAnnexBAccessUnitReaderState_buffered_len :: "ClientAnnexBAccessUnitReaderState \<Rightarrow> nat" where
  "ClientAnnexBAccessUnitReaderState_buffered_len st = length (buffered_bytes st)"

definition ClientAnnexBAccessUnitReaderState_append_bytes ::
  "ClientAnnexBAccessUnitReaderState \<Rightarrow> u8 list \<Rightarrow> ClientAnnexBAccessUnitReaderState \<times> nat" where
  "ClientAnnexBAccessUnitReaderState_append_bytes st bytes =
     (st \<lparr> buffered_bytes := buffered_bytes st @ bytes \<rparr>, length bytes)"

definition annex_b_nal_begins_new_access_unit :: "ClientAnnexBNalUnit \<Rightarrow> bool" where
  "annex_b_nal_begins_new_access_unit nal_unit =
     (case nal_kind nal_unit of
        Nal_Aud \<Rightarrow> True | Nal_Sei \<Rightarrow> True | Nal_Sps \<Rightarrow> True | Nal_Pps \<Rightarrow> True
      | Nal_NonIdrSlice \<Rightarrow> nal_first_mb_in_slice nal_unit = Some 0
      | Nal_IdrSlice \<Rightarrow> nal_first_mb_in_slice nal_unit = Some 0
      | Nal_Other _ \<Rightarrow> False)"

definition consume_access_unit_from_state ::
  "ClientAnnexBAccessUnitReaderState \<Rightarrow> ClientAnnexBNalDescriptor list \<Rightarrow> nat \<Rightarrow>
     ClientAnnexBAccessUnitReaderState \<times>
       (ClientAnnexBAccessUnit, ClientAnnexBAccessUnitReaderMalformedReason) result" where
  "consume_access_unit_from_state st descriptors consumed_end =
     (case slice_range (buffered_bytes st) 0 consumed_end of
        Inl e \<Rightarrow> (st, Inl e)
      | Inr bytes \<Rightarrow>
          (let nal_units = map nd_nal_unit descriptors in
           (st \<lparr> buffered_bytes := drop consumed_end (buffered_bytes st) \<rparr>,
            Ok \<lparr> au_bytes = bytes, au_nal_units = nal_units,
              au_contains_idr = list_ex (\<lambda>u. nal_kind u = Nal_IdrSlice) nal_units,
              au_contains_sps = list_ex (\<lambda>u. nal_kind u = Nal_Sps) nal_units,
              au_contains_pps = list_ex (\<lambda>u. nal_kind u = Nal_Pps) nal_units \<rparr>)))"

text \<open>
  The scan for the NAL unit that begins the next access unit: its index and start, if there is
  one, and whether a picture has been seen.
\<close>

fun scan_descriptors :: "nat \<Rightarrow> bool \<Rightarrow> ClientAnnexBNalDescriptor list \<Rightarrow> (nat \<times> nat) option \<times> bool" where
  "scan_descriptors index current_has_vcl [] = (None, current_has_vcl)"
| "scan_descriptors index current_has_vcl (descriptor # rest) =
     (if 0 < index \<and> current_has_vcl \<and> annex_b_nal_begins_new_access_unit (nd_nal_unit descriptor)
      then (Some (index, nd_start descriptor), current_has_vcl)
      else scan_descriptors (index + 1)
        (current_has_vcl \<or> ClientAnnexBNalUnitKind_is_vcl (nal_kind (nd_nal_unit descriptor))) rest)"

definition try_extract_annex_b_access_unit ::
  "ClientAnnexBAccessUnitReaderState \<Rightarrow> bool \<Rightarrow>
     ClientAnnexBAccessUnitReaderState \<times>
       (ClientAnnexBAccessUnit option, ClientAnnexBAccessUnitReaderMalformedReason) result" where
  "try_extract_annex_b_access_unit st eof =
     (case parse_annex_b_nal_descriptors (buffered_bytes st) eof of
        Inl e \<Rightarrow> (st, Inl e)
      | Inr descriptors \<Rightarrow>
          if descriptors = [] then (st, Ok None)
          else (case scan_descriptors 0 False descriptors of
            (Some (index, consumed_end), _) \<Rightarrow>
              apsnd (rmap Some) (consume_access_unit_from_state st (take index descriptors) consumed_end)
          | (None, current_has_vcl) \<Rightarrow>
              if eof \<and> current_has_vcl
              then apsnd (rmap Some) (consume_access_unit_from_state st descriptors (nd_end (last descriptors)))
              else (st, Ok None)))"

section \<open>The reader\<close>

datatype ClientAnnexBAccessUnitReaderPollResult =
    Poll_AccessUnit ClientAnnexBAccessUnit
  | Poll_NoCompleteAccessUnitYet nat
  | Poll_MalformedStream ClientAnnexBAccessUnitReaderMalformedReason nat

datatype ClientAnnexBAccessUnitReaderFinishResult =
    Finish_AccessUnit ClientAnnexBAccessUnit
  | Finish_EofNoBufferedData
  | Finish_EofWithIncompleteData ClientAnnexBAccessUnitReaderIncompleteReason "u8 list"
  | Finish_MalformedStream ClientAnnexBAccessUnitReaderMalformedReason "u8 list"

definition ClientAnnexBAccessUnitReaderBoundary_poll_access_unit ::
  "ClientAnnexBAccessUnitReaderState \<Rightarrow>
     ClientAnnexBAccessUnitReaderState \<times> (ClientAnnexBAccessUnitReaderPollResult, unit) result" where
  "ClientAnnexBAccessUnitReaderBoundary_poll_access_unit st =
     (case try_extract_annex_b_access_unit st False of
        (st, Inr (Some access_unit)) \<Rightarrow> (st, Ok (Poll_AccessUnit access_unit))
      | (st, Inr None) \<Rightarrow>
          (st, Ok (Poll_NoCompleteAccessUnitYet (ClientAnnexBAccessUnitReaderState_buffered_len st)))
      | (st, Inl (Err reason)) \<Rightarrow>
          (st, Ok (Poll_MalformedStream reason (ClientAnnexBAccessUnitReaderState_buffered_len st)))
      | (st, Inl Panic) \<Rightarrow> (st, Panicked))"

definition detect_annex_b_incomplete_reason :: "u8 list \<Rightarrow> ClientAnnexBAccessUnitReaderIncompleteReason" where
  "detect_annex_b_incomplete_reason buffer =
     (case find_annex_b_start_code buffer 0 of
        None \<Rightarrow> Incomplete_NoCompleteAccessUnitYet
      | Some (start, start_code_len) \<Rightarrow>
          if start \<noteq> 0 then Incomplete_NoCompleteAccessUnitYet
          else if length buffer \<le> start + start_code_len then Incomplete_TrailingStartCodeWithoutNalHeader
          else Incomplete_AccessUnitMissingVcl)"

definition ClientAnnexBAccessUnitReaderBoundary_finish ::
  "ClientAnnexBAccessUnitReaderState \<Rightarrow>
     ClientAnnexBAccessUnitReaderState \<times> (ClientAnnexBAccessUnitReaderFinishResult, unit) result" where
  "ClientAnnexBAccessUnitReaderBoundary_finish st =
     (let take_bytes = (\<lambda>st. st \<lparr> buffered_bytes := [] \<rparr>) in
      case try_extract_annex_b_access_unit st False of
        (st, Inr (Some access_unit)) \<Rightarrow> (st, Ok (Finish_AccessUnit access_unit))
      | (st, Inl (Err reason)) \<Rightarrow> (take_bytes st, Ok (Finish_MalformedStream reason (buffered_bytes st)))
      | (st, Inl Panic) \<Rightarrow> (st, Panicked)
      | (st, Inr None) \<Rightarrow>
          if buffered_bytes st = [] then (st, Ok Finish_EofNoBufferedData)
          else (case try_extract_annex_b_access_unit st True of
            (st, Inr (Some access_unit)) \<Rightarrow> (st, Ok (Finish_AccessUnit access_unit))
          | (st, Inr None) \<Rightarrow>
              (take_bytes st, Ok (Finish_EofWithIncompleteData
                (detect_annex_b_incomplete_reason (buffered_bytes st)) (buffered_bytes st)))
          | (st, Inl (Err reason)) \<Rightarrow> (take_bytes st, Ok (Finish_MalformedStream reason (buffered_bytes st)))
          | (st, Inl Panic) \<Rightarrow> (st, Panicked)))"

end
