(* ===== verification/Annex_B_Stream.thy ===== *)
theory Annex_B_Stream
  imports Client_Annex_B
begin

text \<open>
  What the reader of apps/client/src/lib.rs makes of a byte stream: the NAL units it finds tile
  the buffer, an access unit that is visible stays visible whatever arrives after it, and so the
  pieces in which the stream arrives do not matter.
\<close>

section \<open>Where start codes are\<close>

definition start_code_at :: "u8 list \<Rightarrow> nat \<Rightarrow> nat \<Rightarrow> bool" where
  "start_code_at bs s n \<longleftrightarrow> s + n \<le> length bs \<and> bs ! s = 0 \<and> bs ! (s + 1) = 0 \<and>
     (n = 3 \<and> bs ! (s + 2) = 1 \<or> n = 4 \<and> bs ! (s + 2) = 0 \<and> bs ! (s + 3) = 1)"

lemma start_code_at_length: "start_code_at bs s n \<Longrightarrow> s + n \<le> length bs \<and> (n = 3 \<or> n = 4)"
  by (auto simp: start_code_at_def)

lemma start_code_at_unique: "start_code_at bs s n \<Longrightarrow> start_code_at bs s m \<Longrightarrow> n = m"
  by (auto simp: start_code_at_def)

lemma find_start_code_from_Some:
  "find_start_code_from bs i = Some (s, n) \<Longrightarrow>
     i \<le> s \<and> start_code_at bs s n \<and> (\<forall>j m. i \<le> j \<and> j < s \<longrightarrow> \<not> start_code_at bs j m)"
proof (induction bs i rule: find_start_code_from.induct)
  case (1 bs i)
  show ?case
  proof (cases "\<exists>m. start_code_at bs i m")
    case True
    then have "s = i \<and> start_code_at bs i n"
      using "1.prems" by (subst (asm) find_start_code_from.simps) (auto simp: start_code_at_def split: if_splits)
    then show ?thesis by auto
  next
    case False
    then have more: "\<not> start_code_at bs i 3" "\<not> start_code_at bs i 4" by blast+
    then have "i + 3 \<le> length bs" "find_start_code_from bs (i + 1) = Some (s, n)"
      using "1.prems" by (subst (asm) find_start_code_from.simps; auto simp: start_code_at_def split: if_splits)+
    then have "i + 1 \<le> s \<and> start_code_at bs s n \<and> (\<forall>j m. i + 1 \<le> j \<and> j < s \<longrightarrow> \<not> start_code_at bs j m)"
      using "1.IH" more by (auto simp: start_code_at_def)
    then show ?thesis using False by (metis Suc_eq_plus1 Suc_leD le_antisym not_less_eq_eq)
  qed
qed

lemma find_start_code_from_None:
  "find_start_code_from bs i = None \<Longrightarrow> i \<le> j \<Longrightarrow> \<not> start_code_at bs j m"
proof (induction bs i rule: find_start_code_from.induct)
  case (1 bs i)
  show ?case
  proof (cases "i + 3 \<le> length bs")
    case True
    then have no: "\<not> start_code_at bs i m" and rest: "find_start_code_from bs (i + 1) = None"
      using "1.prems"(1) by (subst (asm) find_start_code_from.simps; auto simp: start_code_at_def split: if_splits)+
    have "\<not> start_code_at bs j m" if "i + 1 \<le> j"
      using "1.IH" True "1.prems"(1) rest that
      by (subst (asm) (2) find_start_code_from.simps) (auto split: if_splits)
    then show ?thesis using no "1.prems"(2) by (cases "i = j") auto
  qed (use "1.prems"(2) in \<open>auto simp: start_code_at_def\<close>)
qed

lemma find_annex_b_start_code_Some_iff:
  "find_annex_b_start_code bs i = Some (s, n) \<longleftrightarrow>
     i \<le> s \<and> start_code_at bs s n \<and> (\<forall>j m. i \<le> j \<and> j < s \<longrightarrow> \<not> start_code_at bs j m)"
  (is "?l \<longleftrightarrow> ?r")
proof
  show "?l \<Longrightarrow> ?r" using find_start_code_from_Some by (auto simp: find_annex_b_start_code_def split: if_splits)
next
  assume r: ?r
  show ?l
  proof (cases "find_start_code_from bs i")
    case None
    then show ?thesis using r find_start_code_from_None by blast
  next
    case (Some p)
    obtain s' n' where "p = (s', n')" by (cases p)
    with Some find_start_code_from_Some have f: "i \<le> s'" "start_code_at bs s' n'"
        "\<forall>j m. i \<le> j \<and> j < s' \<longrightarrow> \<not> start_code_at bs j m" by blast+
    then have "s' = s" using r by (metis linorder_neqE_nat)
    moreover have "n' = n" using f(2) r start_code_at_unique \<open>s' = s\<close> by blast
    moreover have "\<not> (length bs < 3 \<or> length bs \<le> i)"
      using r start_code_at_length [of bs s n] by auto
    ultimately show ?thesis using Some \<open>p = (s', n')\<close> by (simp add: find_annex_b_start_code_def)
  qed
qed

lemma find_annex_b_start_code_None_iff:
  "find_annex_b_start_code bs i = None \<longleftrightarrow> (\<forall>j m. i \<le> j \<longrightarrow> \<not> start_code_at bs j m)"
proof
  show "find_annex_b_start_code bs i = None \<Longrightarrow> \<forall>j m. i \<le> j \<longrightarrow> \<not> start_code_at bs j m"
    using find_start_code_from_None start_code_at_length
    by (fastforce simp: find_annex_b_start_code_def split: if_splits)
next
  assume none: "\<forall>j m. i \<le> j \<longrightarrow> \<not> start_code_at bs j m"
  show "find_annex_b_start_code bs i = None"
  proof (rule ccontr)
    assume "find_annex_b_start_code bs i \<noteq> None"
    then obtain s n where "find_annex_b_start_code bs i = Some (s, n)" by auto
    then show False using none unfolding find_annex_b_start_code_Some_iff by blast
  qed
qed

text \<open>A start code stays where it is when more bytes arrive, and moves with what is cut off before it.\<close>

lemma start_code_at_append:
  "s + n \<le> length bs \<Longrightarrow> start_code_at (bs @ cs) s n \<longleftrightarrow> start_code_at bs s n"
  by (auto simp: start_code_at_def nth_append)

lemma start_code_at_drop: "start_code_at (drop k bs) s n \<longleftrightarrow> start_code_at bs (k + s) n"
  by (cases "k \<le> length bs") (auto simp: start_code_at_def add.assoc)

lemma find_append:
  assumes "find_annex_b_start_code bs i = Some (s, n)"
  shows "find_annex_b_start_code (bs @ cs) i = Some (s, n)"
proof -
  have f: "i \<le> s" "start_code_at bs s n" and first: "\<And>j m. i \<le> j \<Longrightarrow> j < s \<Longrightarrow> \<not> start_code_at bs j m"
    using assms by (auto simp: find_annex_b_start_code_Some_iff)
  have len: "s + n \<le> length bs" "n = 3 \<or> n = 4" using start_code_at_length [OF f(2)] by auto
  have "\<not> start_code_at (bs @ cs) j m" if "i \<le> j" "j < s" for j m
  proof
    assume at: "start_code_at (bs @ cs) j m"
    then have "m = 3 \<or> m = 4" using start_code_at_length by blast
    show False
    proof (cases "j + m \<le> length bs")
      case True
      then show False using at first [OF that] start_code_at_append by blast
    next
      case False
      then show False using len that(2) \<open>m = 3 \<or> m = 4\<close> by auto
    qed
  qed
  then show ?thesis
    using f len(1) by (auto simp: find_annex_b_start_code_Some_iff start_code_at_append)
qed

lemma find_drop:
  "find_annex_b_start_code (drop k bs) i = map_option (\<lambda>(s, n). (s - k, n)) (find_annex_b_start_code bs (k + i))"
proof (cases "find_annex_b_start_code bs (k + i)")
  case None
  then have "find_annex_b_start_code (drop k bs) i = None"
    unfolding find_annex_b_start_code_None_iff start_code_at_drop by simp
  then show ?thesis by (simp add: None)
next
  case (Some p)
  obtain s n where p: "p = (s, n)" by (cases p)
  then have "k + i \<le> s" "start_code_at bs s n" "\<forall>j m. k + i \<le> j \<and> j < s \<longrightarrow> \<not> start_code_at bs j m"
    using Some by (auto simp: find_annex_b_start_code_Some_iff)
  then have "find_annex_b_start_code (drop k bs) i = Some (s - k, n)"
    by (auto simp: find_annex_b_start_code_Some_iff start_code_at_drop)
  then show ?thesis using Some p by simp
qed

section \<open>Reading one NAL unit\<close>

lemma count_leading_zero_bits_Ok:
  assumes "total_bits \<le> length bytes * 8"
  shows "\<exists>k. count_leading_zero_bits bytes total_bits i z = Ok (z + k, i + k)"
proof (induction "total_bits - i" arbitrary: i z)
  case 0
  then show ?case by (subst count_leading_zero_bits.simps) (simp add: exI [where x = 0])
next
  case (Suc n)
  then have i: "i < total_bits" "i div 8 < length bytes" using assms by auto
  show ?case
  proof (cases "bit (bytes ! (i div 8)) (7 - i mod 8)")
    case True
    then show ?thesis using i by (subst count_leading_zero_bits.simps) (simp add: read_bit_def exI [where x = 0])
  next
    case False
    have "n = total_bits - (i + 1)" using Suc(2) by simp
    from Suc(1) [OF this, of "z + 1"] obtain k where
      "count_leading_zero_bits bytes total_bits (i + 1) (z + 1) = Ok (z + 1 + k, i + 1 + k)" by blast
    then show ?thesis
      using i False by (subst count_leading_zero_bits.simps) (auto simp: read_bit_def intro: exI [where x = "Suc k"])
  qed
qed

lemma read_suffix_bits_no_panic:
  "total_bits \<le> length bytes * 8 \<Longrightarrow> read_suffix_bits bytes total_bits n i acc \<noteq> Panicked"
  by (induction n arbitrary: i acc) (auto simp: read_bit_def rbind_eq_Inl_iff)

lemma parse_unsigned_exp_golomb_no_panic: "parse_unsigned_exp_golomb bytes \<noteq> Panicked"
proof -
  let ?total_bits = "usize_saturating_mul (length bytes) 8"
  have total: "?total_bits \<le> length bytes * 8" by (simp add: usize_saturating_mul_def)
  obtain k where "count_leading_zero_bits bytes ?total_bits 0 0 = Ok (k, k)"
    using total count_leading_zero_bits_Ok [of ?total_bits bytes 0 0] by auto
  then show ?thesis
    using total read_suffix_bits_no_panic [of ?total_bits bytes]
    by (auto simp: parse_unsigned_exp_golomb_def Let_def rbind_eq_Inl_iff)
qed

lemma parse_descriptor_append:
  assumes "e \<le> length bs"
  shows "parse_annex_b_nal_descriptor (bs @ cs) s n e = parse_annex_b_nal_descriptor bs s n e"
  using assms by (auto simp: parse_annex_b_nal_descriptor_def Let_def nth_append intro!: arg_cong2 [where f = rbind])

definition shift_back :: "nat \<Rightarrow> ClientAnnexBNalDescriptor \<Rightarrow> ClientAnnexBNalDescriptor" where
  "shift_back k d = d \<lparr> nd_start := nd_start d - k, nd_end := nd_end d - k \<rparr>"

lemma rmap_rbind: "rmap f (rbind r g) = rbind r (\<lambda>v. rmap f (g v))"
  by (cases r) simp_all

lemma rmap_rmap: "rmap f (rmap g r) = rmap (\<lambda>v. f (g v)) r"
  by (cases r) simp_all

lemma parse_descriptor_drop:
  assumes "k \<le> s" and "e \<le> length bs"
  shows "parse_annex_b_nal_descriptor (drop k bs) (s - k) n (e - k)
    = rmap (shift_back k) (parse_annex_b_nal_descriptor bs s n e)"
proof (cases "e \<le> s + n")
  case False
  have at: "k + (s - k + n) = s + n" "k + (s - k) = s" "k + Suc (s - k + n) = Suc (s + n)" using assms(1) by auto
  show ?thesis
    using False assms
    by (auto simp: parse_annex_b_nal_descriptor_def Let_def at rmap_rbind rmap_rmap shift_back_def
        intro!: arg_cong2 [where f = rbind])
qed (use assms in \<open>auto simp: parse_annex_b_nal_descriptor_def\<close>)

lemma parse_descriptor_Ok:
  assumes "parse_annex_b_nal_descriptor bs s n e = Ok d" and "e \<le> length bs"
  shows "nd_start d = s" "nd_end d = e" "s + n < e" "nal_bytes (nd_nal_unit d) = take (e - s) (drop s bs)"
    "nal_start_code_len (nd_nal_unit d) = n"
  using assms by (auto simp: parse_annex_b_nal_descriptor_def Let_def rbind_eq_Inr_iff split: if_splits)

lemma parse_descriptor_no_panic:
  assumes "e \<le> length bs"
  shows "parse_annex_b_nal_descriptor bs s n e \<noteq> Panicked"
  using assms parse_unsigned_exp_golomb_no_panic
  by (auto simp: parse_annex_b_nal_descriptor_def Let_def rbind_eq_Inl_iff rmap_eq_Inl_iff rmap_err_eq_Panic_iff
      parse_h264_first_mb_in_slice_def)

section \<open>The NAL units of a buffer\<close>

abbreviation nals_from where
  "nals_from bs s n \<equiv> nal_descriptor_loop bs s n []"

lemma nal_descriptor_loop_acc:
  "nal_descriptor_loop bs s n ds = rmap (apfst (\<lambda>es. ds @ es)) (nals_from bs s n)"
proof (induction "length bs - (s + n)" arbitrary: s n ds rule: less_induct)
  case less
  show ?case
  proof (cases "find_annex_b_start_code bs (s + n)")
    case None
    then show ?thesis by (simp add: nal_descriptor_loop.simps [of bs s n])
  next
    case (Some p)
    obtain s' n' where p: "p = (s', n')" by (cases p)
    have "length bs - (s' + n') < length bs - (s + n)"
      using Some p start_code_at_length [of bs s' n'] by (auto simp: find_annex_b_start_code_Some_iff)
    note IH = less [OF this]
    show ?thesis
      using Some p IH [of "ds @ [d]" for d] IH [of "[d]" for d]
      by (cases "parse_annex_b_nal_descriptor bs s n s'"; simp add: nal_descriptor_loop.simps [of bs s n] rmap_rmap)
        (simp add: rmap_def split: sum.split)
  qed
qed

lemma nals_from_simps:
  "nals_from bs s n =
    (case find_annex_b_start_code bs (s + n) of
       None \<Rightarrow> Ok ([], s, n)
     | Some (s', n') \<Rightarrow>
         rbind (parse_annex_b_nal_descriptor bs s n s') (\<lambda>d. rmap (apfst (Cons d)) (nals_from bs s' n')))"
  using nal_descriptor_loop_acc [of bs _ _ "[d]" for d]
  by (subst nal_descriptor_loop.simps) (auto split: option.split intro!: arg_cong2 [where f = rbind])

text \<open>Induction along the start codes of a buffer.\<close>

lemma nals_induct:
  assumes "\<And>s n. (\<And>s' n'. find_annex_b_start_code bs (s + n) = Some (s', n') \<Longrightarrow> P s' n') \<Longrightarrow> P s n"
  shows "P s n"
proof (induction "length bs - (s + n)" arbitrary: s n rule: less_induct)
  case less
  have "length bs - (s' + n') < length bs - (s + n)" if "find_annex_b_start_code bs (s + n) = Some (s', n')" for s' n'
    using that start_code_at_length [of bs s' n'] by (auto simp: find_annex_b_start_code_Some_iff)
  then show ?case using assms less by blast
qed

lemma found_in_range: "find_annex_b_start_code bs i = Some (s, n) \<Longrightarrow> s \<le> length bs \<and> i \<le> s"
  using start_code_at_length by (fastforce simp: find_annex_b_start_code_Some_iff)

lemma apfst_twice: "apfst f (apfst g p) = apfst (\<lambda>v. f (g v)) p"
  by (cases p) simp

lemma nals_append:
  "nals_from bs s n = Ok (ds, s', n') \<Longrightarrow>
     nals_from (bs @ cs) s n = rmap (apfst (\<lambda>es. ds @ es)) (nals_from (bs @ cs) s' n')"
proof (induction s n arbitrary: ds rule: nals_induct [of bs])
  case (1 s n)
  show ?case
  proof (cases "find_annex_b_start_code bs (s + n)")
    case None
    then show ?thesis using "1.prems" nals_from_simps [of bs s n] by (auto simp: rmap_def split: sum.split)
  next
    case (Some p)
    obtain s1 n1 where p: "p = (s1, n1)" by (cases p)
    obtain d es where d: "parse_annex_b_nal_descriptor bs s n s1 = Ok d" "nals_from bs s1 n1 = Ok (es, s', n')" "ds = d # es"
      using "1.prems" Some p nals_from_simps [of bs s n] by (auto simp: rbind_eq_Inr_iff rmap_eq_Inr_iff)
    have "parse_annex_b_nal_descriptor (bs @ cs) s n s1 = Ok d"
      using d(1) parse_descriptor_append found_in_range Some p by metis
    then show ?thesis
      using "1.IH" [OF _ d(2)] Some p find_append [of bs "s + n" s1 n1 cs] d(3) nals_from_simps [of "bs @ cs" s n]
      by (simp add: rmap_rmap apfst_twice)
  qed
qed

lemma nals_append_error:
  "nals_from bs s n = Inl e \<Longrightarrow> nals_from (bs @ cs) s n = Inl e"
proof (induction s n rule: nals_induct [of bs])
  case (1 s n)
  then obtain s1 n1 where some: "find_annex_b_start_code bs (s + n) = Some (s1, n1)"
    using nals_from_simps [of bs s n] by (cases "find_annex_b_start_code bs (s + n)") auto
  then have "parse_annex_b_nal_descriptor (bs @ cs) s n s1 = parse_annex_b_nal_descriptor bs s n s1"
    using parse_descriptor_append found_in_range by metis
  then show ?case
    using "1.IH" [OF some] "1.prems" some find_append [OF some] nals_from_simps [of bs s n] nals_from_simps [of "bs @ cs" s n]
    by (auto simp: rbind_eq_Inl_iff rmap_eq_Inl_iff)
qed

lemma nals_drop:
  "k \<le> s \<Longrightarrow> nals_from (drop k bs) (s - k) n =
     rmap (\<lambda>(ds, s', n'). (map (shift_back k) ds, s' - k, n')) (nals_from bs s n)"
proof (induction s n rule: nals_induct [of bs])
  case (1 s n)
  have at: "k + (s - k + n) = s + n" using "1.prems" by simp
  show ?case
  proof (cases "find_annex_b_start_code bs (s + n)")
    case None
    then show ?thesis by (simp add: nals_from_simps [of bs s n] nals_from_simps [of "drop k bs"] find_drop at)
  next
    case (Some p)
    obtain s1 n1 where p: "p = (s1, n1)" by (cases p)
    have range: "s1 \<le> length bs" "k \<le> s1" using found_in_range [of bs "s + n" s1 n1] Some p "1.prems" by auto
    show ?thesis
      using "1.IH" [of s1 n1] Some p range parse_descriptor_drop [OF "1.prems" range(1), of n]
      by (cases "parse_annex_b_nal_descriptor bs s n s1")
        (auto simp: nals_from_simps [of bs s n] nals_from_simps [of "drop k bs"] find_drop at rmap_rmap
          intro!: arg_cong2 [where f = rmap])
  qed
qed

end
