(* ===== verification/Annex_B_Syntax.thy ===== *)
theory Annex_B_Syntax
  imports Annex_B_Stream
begin

text \<open>
  The syntax the reader of apps/client/src/lib.rs decodes, from the writer's side: Exp-Golomb
  codes, the escaping of a payload, and a stream of NAL units.
\<close>

section \<open>Exp-Golomb codes\<close>

definition bits_of_byte :: "u8 \<Rightarrow> bool list" where
  "bits_of_byte b = map (\<lambda>k. bit b (7 - k)) [0..<8]"

definition bits_of :: "u8 list \<Rightarrow> bool list" where
  "bits_of bytes = concat (map bits_of_byte bytes)"

lemma length_bits_of_byte [simp]: "length (bits_of_byte b) = 8"
  by (simp add: bits_of_byte_def)

lemma length_bits_of [simp]: "length (bits_of bytes) = length bytes * 8"
  by (induction bytes) (simp_all add: bits_of_def)

lemma nth_bits_of:
  "i < length bytes * 8 \<Longrightarrow> bits_of bytes ! i = bit (bytes ! (i div 8)) (7 - i mod 8)"
proof (induction bytes arbitrary: i)
  case (Cons b bytes)
  show ?case
  proof (cases "i < 8")
    case True
    then show ?thesis by (simp add: bits_of_def nth_append bits_of_byte_def)
  next
    case False
    then obtain j where j: "i = j + 8" using le_Suc_ex [of 8 i] by (auto simp: add.commute)
    have "(j + 8) div 8 = Suc (j div 8)" by simp
    then show ?thesis using Cons j by (simp add: bits_of_def nth_append)
  qed
qed simp

lemma read_bit_bits_of: "i < length bytes * 8 \<Longrightarrow> read_bit bytes i = Ok (bits_of bytes ! i)"
  by (simp add: read_bit_def nth_bits_of)

lemma count_leading_zero_bits_takeWhile:
  "count_leading_zero_bits bytes (length bytes * 8) i z =
    (let m = length (takeWhile Not (drop i (bits_of bytes))) in Ok (z + m, i + m))"
proof (induction "length bytes * 8 - i" arbitrary: i z)
  case 0
  then show ?case by (subst count_leading_zero_bits.simps) simp
next
  case (Suc n)
  then have i: "i < length bytes * 8" by simp
  then have "drop i (bits_of bytes) = bits_of bytes ! i # drop (i + 1) (bits_of bytes)" by (simp add: Cons_nth_drop_Suc)
  then show ?case
    using i Suc(1) [of "i + 1" "z + 1"] Suc(2) by (subst count_leading_zero_bits.simps) (simp add: read_bit_bits_of Let_def)
qed

definition shift_in :: "u64 \<Rightarrow> bool \<Rightarrow> u64" where
  "shift_in acc b = push_bit 1 acc OR of_bool b"

lemma read_suffix_bits_take:
  "read_suffix_bits bytes (length bytes * 8) n i acc =
    (if i + n \<le> length bytes * 8 then Ok (foldl shift_in acc (take n (drop i (bits_of bytes))))
     else if n = 0 then Ok acc else Error Malformed_InvalidSliceHeader)"
proof (induction n arbitrary: i acc)
  case (Suc n)
  show ?case
  proof (cases "i < length bytes * 8")
    case True
    then have "drop i (bits_of bytes) = bits_of bytes ! i # drop (i + 1) (bits_of bytes)" by (simp add: Cons_nth_drop_Suc)
    then show ?thesis using True Suc.IH [of "i + 1"] by (simp add: read_bit_bits_of shift_in_def [abs_def])
  qed simp
qed simp

definition bits_value :: "bool list \<Rightarrow> nat" where
  "bits_value bs = foldl (\<lambda>v b. 2 * v + of_bool b) 0 bs"

lemma shift_in_of_nat: "shift_in (word_of_nat v) b = word_of_nat (2 * v + of_bool b)"
proof -
  have "push_bit 1 x OR of_bool b = 2 * x + of_bool b" for x :: u64
    by (cases b) (simp_all add: or_one_eq mult.commute)
  then show ?thesis by (simp add: shift_in_def)
qed

lemma foldl_shift_in: "foldl shift_in (word_of_nat v) bs = word_of_nat (foldl (\<lambda>v b. 2 * v + of_bool b) v bs)"
  by (induction bs arbitrary: v) (simp_all add: shift_in_of_nat del: of_nat_add of_nat_mult)

lemma bits_value_bound: "bits_value bs < 2 ^ length bs"
proof -
  have "foldl (\<lambda>v b. 2 * v + of_bool b) v bs < (v + 1) * 2 ^ length bs" for v :: nat
  proof (induction bs arbitrary: v)
    case (Cons b bs)
    have "(2 * v + of_bool b + 1) * 2 ^ length bs \<le> (v + 1) * 2 ^ length (b # bs)" by (cases b) simp_all
    then show ?case using Cons [of "2 * v + of_bool b"] by (simp only: foldl.simps)
  qed simp
  from this [of 0] show ?thesis by (simp add: bits_value_def)
qed

text \<open>What an Exp-Golomb code says: the zeros before the first one, and as many bits behind it.\<close>

definition exp_golomb :: "bool list \<Rightarrow> nat option" where
  "exp_golomb bs =
     (let k = length (takeWhile Not bs) in
      if length bs < 2 * k + 1 then None else Some (2 ^ k - 1 + bits_value (take k (drop (k + 1) bs))))"

lemma power_sum_of_nat:
  assumes "k < 64" and "v < 2 ^ k"
  shows "u64_saturating_add (push_bit k 1 - 1) (word_of_nat v) = word_of_nat (2 ^ k - 1 + v)"
proof -
  have less: "2 ^ k \<le> (2 ^ 63 :: nat)" using assms(1) by (intro power_increasing) simp_all
  have unat_small: "unat (word_of_nat n :: u64) = n" if "n < 2 ^ 64" for n using that by (simp add: unat_of_nat)
  define m where "m = (2 ^ k - 1 :: nat)"
  have "(push_bit k 1 :: u64) - 1 = word_of_nat m" by (simp add: m_def push_bit_eq_mult of_nat_diff)
  moreover have "m + v < 2 ^ 64" using less assms(2) by (simp add: m_def)
  ultimately show ?thesis unfolding m_def [symmetric] by (simp add: u64_saturating_add_def unat_small)
qed

lemma parse_unsigned_exp_golomb_decodes:
  assumes "length bytes * 8 < usize_bound" and "length (takeWhile Not (bits_of bytes)) < 64"
  shows "parse_unsigned_exp_golomb bytes =
    (case exp_golomb (bits_of bytes) of Some v \<Rightarrow> Ok (word_of_nat v) | None \<Rightarrow> Error Malformed_InvalidSliceHeader)"
proof -
  let ?bits = "bits_of bytes"
  define k where "k = length (takeWhile Not ?bits)"
  have bound: "usize_saturating_mul (length bytes) 8 = length bytes * 8" using assms(1) by (simp add: usize_saturating_mul_def)
  have value_k: "u64_saturating_add (2 ^ k - 1) (word_of_nat (bits_value bs)) = word_of_nat (2 ^ k + bits_value bs - Suc 0)"
    if "length bs = k" for bs
    using power_sum_of_nat [of k "bits_value bs"] bits_value_bound [of bs] that assms(2) k_def by simp
  have "foldl shift_in 0 bs = word_of_nat (bits_value bs)" for bs
    using foldl_shift_in [of 0 bs] by (simp add: bits_value_def)
  note parts = this bound k_def [symmetric] value_k
  have count: "count_leading_zero_bits bytes (length bytes * 8) 0 0 = Ok (k, k)"
    using count_leading_zero_bits_takeWhile [of bytes 0 0] by (simp add: k_def Let_def)
  have "k \<le> length bytes * 8" using length_takeWhile_le [of Not ?bits] by (simp add: k_def)
  then show ?thesis
    using assms(2) by (auto simp: parse_unsigned_exp_golomb_def exp_golomb_def Let_def parts count read_suffix_bits_take)
qed

section \<open>Escaped payloads\<close>

fun escape_loop :: "nat \<Rightarrow> u8 list \<Rightarrow> u8 list" where
  "escape_loop zero_run [] = []"
| "escape_loop zero_run (b # bs) =
     (if 2 \<le> zero_run \<and> b \<le> 3 then 3 # b # escape_loop (if b = 0 then 1 else 0) bs
      else b # escape_loop (if b = 0 then zero_run + 1 else 0) bs)"

definition escape_payload :: "u8 list \<Rightarrow> u8 list" where
  "escape_payload payload = escape_loop 0 payload"

lemma remove_escape_loop: "remove_loop z (escape_loop z bs) = bs"
  by (induction z bs rule: escape_loop.induct) auto

text \<open>No two zero bytes are followed by a byte below three.\<close>

fun escaped :: "nat \<Rightarrow> u8 list \<Rightarrow> bool" where
  "escaped z [] = True"
| "escaped z (b # bs) = (\<not> (2 \<le> z \<and> b \<le> 2) \<and> escaped (if b = 0 then z + 1 else 0) bs)"

lemma escaped_escape_loop: "escaped z (escape_loop z bs)"
  by (induction z bs rule: escape_loop.induct) (auto dest: order_trans [of _ 2 3])

lemma escaped_nth:
  "escaped z bs \<Longrightarrow> i + 2 < length bs \<Longrightarrow> bs ! i = 0 \<Longrightarrow> bs ! (i + 1) = 0 \<Longrightarrow> \<not> bs ! (i + 2) \<le> 2"
proof (induction z bs arbitrary: i rule: escaped.induct)
  case (2 z b bs)
  show ?case
  proof (cases i)
    case 0
    then obtain c d rest where "bs = c # d # rest" using "2.prems"(2) by (cases bs; cases "tl bs") auto
    then show ?thesis using "2.prems" 0 by simp
  qed (use 2 in auto)
qed simp

lemma last_escape_loop: "bs \<noteq> [] \<Longrightarrow> escape_loop z bs \<noteq> [] \<and> last (escape_loop z bs) = last bs"
proof (induction z bs rule: escape_loop.induct)
  case (2 z b bs)
  then show ?case by (cases bs) auto
qed simp

section \<open>A written stream\<close>

text \<open>
  A NAL unit as a writer has it: the length of its start code, its header byte and its raw payload.
  The written form is the start code, the header and the escaped payload.
\<close>

type_synonym raw_nal = "nat \<times> u8 \<times> u8 list"

definition start_code :: "nat \<Rightarrow> u8 list" where
  "start_code n = (if n = 4 then [0, 0, 0, 1] else [0, 0, 1])"

fun written_nal :: "raw_nal \<Rightarrow> u8 list" where
  "written_nal (n, header, payload) = start_code n @ header # escape_payload payload"

definition written_stream :: "raw_nal list \<Rightarrow> u8 list" where
  "written_stream nals = concat (map written_nal nals)"

definition raw_kind :: "u8 \<Rightarrow> ClientAnnexBNalUnitKind" where
  "raw_kind header = ClientAnnexBNalUnitKind_from_nal_unit_type (header AND 0x1F)"

text \<open>A payload ends in a byte that is not zero, and a slice begins with an Exp-Golomb code.\<close>

fun raw_nal_ok :: "raw_nal \<Rightarrow> bool" where
  "raw_nal_ok (n, header, payload) \<longleftrightarrow> (n = 3 \<or> n = 4) \<and> header AND 0x80 = 0 \<and> header AND 0x1F \<noteq> 0 \<and>
     (payload = [] \<or> last payload \<noteq> 0) \<and>
     (ClientAnnexBNalUnitKind_is_vcl (raw_kind header) \<longrightarrow> (\<exists>v. parse_unsigned_exp_golomb payload = Ok v))"

fun read_nal :: "raw_nal \<Rightarrow> ClientAnnexBNalUnit" where
  "read_nal (n, header, payload) =
     \<lparr> nal_bytes = written_nal (n, header, payload), nal_start_code_len = n, nal_kind = raw_kind header,
       nal_unit_type = header AND 0x1F,
       nal_first_mb_in_slice = (if ClientAnnexBNalUnitKind_is_vcl (raw_kind header)
         then (case parse_unsigned_exp_golomb payload of Inr v \<Rightarrow> Some v | Inl _ \<Rightarrow> None) else None) \<rparr>"

lemma length_start_code: "n = 3 \<or> n = 4 \<Longrightarrow> length (start_code n) = n"
  by (auto simp: start_code_def)

lemma start_code_at_start_code: "n = 3 \<or> n = 4 \<Longrightarrow> start_code_at (start_code n @ xs) 0 n"
  by (auto simp: start_code_def start_code_at_def)

lemma start_code_at_prefix: "start_code_at (pre @ xs) (length pre + j) n \<longleftrightarrow> start_code_at xs j n"
  using start_code_at_drop [of "length pre" "pre @ xs" j n] by simp

text \<open>No start code begins in what is written behind one.\<close>

lemma written_nal_tail:
  assumes "raw_nal_ok (n, header, payload)"
  shows "escaped 0 (header # escape_payload payload)" and "last (header # escape_payload payload) \<noteq> 0"
proof -
  have "header \<noteq> 0" using assms by auto
  then show "escaped 0 (header # escape_payload payload)" by (simp add: escape_payload_def escaped_escape_loop)
  show "last (header # escape_payload payload) \<noteq> 0"
    using assms \<open>header \<noteq> 0\<close> last_escape_loop [of payload 0] by (cases "payload = []") (auto simp: escape_payload_def)
qed

lemma no_start_code_inside:
  assumes "escaped 0 xs" and "xs \<noteq> []" and "last xs \<noteq> 0" and "j < length xs"
  shows "\<not> start_code_at (xs @ ys) j n"
proof
  assume at: "start_code_at (xs @ ys) j n"
  have "j \<noteq> length xs - 1" "j + 1 \<noteq> length xs - 1"
    using at assms(2-4) by (auto simp: start_code_at_def nth_append last_conv_nth)
  then have "j + 2 < length xs" using assms(4) by linarith
  then show False
    using at escaped_nth [OF assms(1), of j] by (auto simp: start_code_at_def nth_append)
qed

lemma find_behind_nal:
  assumes ok: "raw_nal_ok nal" and tail: "ys = [] \<or> start_code_at ys 0 m"
  shows "find_annex_b_start_code (pre @ written_nal nal @ ys) (length pre + fst nal) =
    (if ys = [] then None else Some (length (pre @ written_nal nal), m))"
proof -
  obtain n header payload where nal: "nal = (n, header, payload)" by (cases nal)
  let ?xs = "header # escape_payload payload" and ?pre = "pre @ start_code n"
  have len: "length ?pre = length pre + n" using ok nal length_start_code by simp
  have whole: "pre @ written_nal nal @ ys = ?pre @ ?xs @ ys" by (simp add: nal)
  have inside: "\<not> start_code_at (?pre @ ?xs @ ys) (length ?pre + j) m" if "j < length ?xs" for j m
    unfolding start_code_at_prefix
    using no_start_code_inside written_nal_tail ok that unfolding nal by blast
  have before: "\<not> start_code_at (?pre @ ?xs @ ys) i m" if "length ?pre \<le> i" "i < length ?pre + length ?xs" for i m
    using inside [of "i - length ?pre"] that by simp
  show ?thesis
  proof (cases "ys = []")
    case True
    have "\<not> start_code_at (?pre @ ?xs @ ys) i m" if "length ?pre \<le> i" for i m
      using before [OF that, of m] True start_code_at_length [of "?pre @ ?xs @ ys" i m] by (cases "i < length ?pre + length ?xs") auto
    then show ?thesis unfolding whole using len nal True by (simp add: find_annex_b_start_code_None_iff)
  next
    case False
    then have m: "start_code_at ys 0 m" using tail by blast
    then have "start_code_at (?pre @ ?xs @ ys) (length ?pre + length ?xs) m"
      using m start_code_at_prefix [of "?pre @ ?xs" ys 0 m] by (simp add: add.assoc)
    then show ?thesis
      unfolding whole using len nal False before by (auto simp: find_annex_b_start_code_Some_iff add.assoc)
  qed
qed

lemma parse_written_nal:
  assumes "raw_nal_ok nal"
  shows "parse_annex_b_nal_descriptor (pre @ written_nal nal @ ys) (length pre) (fst nal) (length (pre @ written_nal nal)) =
    Ok \<lparr> nd_start = length pre, nd_end = length (pre @ written_nal nal), nd_nal_unit = read_nal nal \<rparr>"
proof -
  obtain n header payload where nal: "nal = (n, header, payload)" by (cases nal)
  have len: "length (start_code n) = n" using assms nal length_start_code by simp
  have unescape: "remove_h264_emulation_prevention_bytes (escape_payload payload) = payload"
    by (simp add: remove_h264_emulation_prevention_bytes_def escape_payload_def remove_escape_loop)
  have header_at: "(pre @ written_nal nal @ ys) ! (length pre + n) = header"
    using nth_append_length [of "pre @ start_code n" header "escape_payload payload @ ys"] len nal by simp
  have payload_at: "drop (length pre + n + 1) (pre @ written_nal nal @ ys) = escape_payload payload @ ys"
    using append_eq_conv_conj [of "pre @ start_code n @ [header]" "escape_payload payload @ ys" "pre @ written_nal nal @ ys"] len nal
    by simp
  show ?thesis
    using assms len header_at payload_at
    by (auto simp: nal parse_annex_b_nal_descriptor_def Let_def raw_kind_def parse_h264_first_mb_in_slice_def unescape)
qed

lemma written_stream_starts: "list_all raw_nal_ok nals \<Longrightarrow> nals \<noteq> [] \<Longrightarrow> start_code_at (written_stream nals @ ys) 0 (fst (hd nals))"
  by (cases nals; cases "hd nals") (auto simp: written_stream_def intro: start_code_at_start_code)

lemma nals_written:
  "list_all raw_nal_ok nals \<Longrightarrow> nals \<noteq> [] \<Longrightarrow>
    \<exists>ds. nals_from (pre @ written_stream nals) (length pre) (fst (hd nals)) =
        Ok (ds, length (pre @ written_stream (butlast nals)), fst (last nals)) \<and>
      map nd_nal_unit ds = map read_nal (butlast nals)"
proof (induction nals arbitrary: pre)
  case (Cons nal nals)
  show ?case
  proof (cases "nals = []")
    case True
    then have "find_annex_b_start_code (pre @ written_stream [nal]) (length pre + fst nal) = None"
      using find_behind_nal [of nal "[]" 0 pre] Cons.prems(1) by (simp add: written_stream_def)
    then show ?thesis
      using True nals_from_simps [of "pre @ written_stream [nal]" "length pre" "fst nal"] by (simp add: written_stream_def)
  next
    case False
    let ?pre = "pre @ written_nal nal"
    have at: "start_code_at (written_stream nals) 0 (fst (hd nals))"
      using written_stream_starts [of nals "[]"] False Cons.prems(1) by simp
    have whole: "pre @ written_stream (nal # nals) = ?pre @ written_stream nals"
        "pre @ written_nal nal @ written_stream nals = ?pre @ written_stream nals"
      by (simp_all add: written_stream_def)
    have "written_stream nals \<noteq> []" using at by (auto simp: start_code_at_def)
    then have found: "find_annex_b_start_code (?pre @ written_stream nals) (length pre + fst nal) = Some (length ?pre, fst (hd nals))"
      using find_behind_nal [of nal "written_stream nals" "fst (hd nals)" pre] at Cons.prems(1) unfolding whole by auto
    obtain ds where ds: "nals_from (?pre @ written_stream nals) (length ?pre) (fst (hd nals)) =
        Ok (ds, length (?pre @ written_stream (butlast nals)), fst (last nals))" "map nd_nal_unit ds = map read_nal (butlast nals)"
      using Cons.IH [OF _ False, of ?pre] Cons.prems(1) by auto
    have "parse_annex_b_nal_descriptor (?pre @ written_stream nals) (length pre) (fst nal) (length ?pre) =
        Ok \<lparr> nd_start = length pre, nd_end = length ?pre, nd_nal_unit = read_nal nal \<rparr>"
      using parse_written_nal [of nal pre "written_stream nals"] Cons.prems(1) unfolding whole by simp
    then show ?thesis
      unfolding whole using False found ds nals_from_simps [of "?pre @ written_stream nals" "length pre" "fst nal"]
      by (simp add: written_stream_def)
  qed
qed simp

section \<open>Properties\<close>

text \<open>
  C11: A stream that is written as the standard says, start code, header and escaped payload of one
  NAL unit behind the other, is read back at its end as exactly those NAL units: their bytes, their
  kinds and, for slices, the macroblock address their payloads begin with.
\<close>

theorem written_stream_reads_back:
  assumes "list_all raw_nal_ok nals"
  shows "\<exists>ds. parse_annex_b_nal_descriptors (written_stream nals) True = Ok ds \<and> map nd_nal_unit ds = map read_nal nals"
proof (cases "nals = []")
  case True
  then show ?thesis by (simp add: written_stream_def parse_annex_b_nal_descriptors_def)
next
  case False
  let ?bs = "written_stream nals" and ?pre = "written_stream (butlast nals)"
  have split: "?bs = ?pre @ written_nal (last nals)"
  proof -
    have "written_stream (xs @ [x]) = written_stream xs @ written_nal x" for xs x by (simp add: written_stream_def)
    from this [of "butlast nals" "last nals"] show ?thesis using False by simp
  qed
  have "raw_nal_ok (last nals)" using assms False by (simp add: list_all_iff)
  note d = parse_written_nal [OF this, of ?pre "[]", unfolded append_Nil2, folded split]
  have "length (written_nal (last nals)) > fst (last nals)"
    using \<open>raw_nal_ok (last nals)\<close> length_start_code by (cases "last nals") auto
  then have room: "length ?pre + fst (last nals) < length ?bs" by (simp add: split)
  obtain ds where ds: "nals_from ?bs 0 (fst (hd nals)) = Ok (ds, length ?pre, fst (last nals))"
      "map nd_nal_unit ds = map read_nal (butlast nals)"
    using nals_written [OF assms False, of "[]"] by auto
  have "find_annex_b_start_code ?bs 0 = Some (0, fst (hd nals))" "?bs \<noteq> []"
    using written_stream_starts [OF assms False, of "[]"] by (auto simp: find_annex_b_start_code_Some_iff start_code_at_def)
  then have "parse_annex_b_nal_descriptors ?bs True =
      Ok (ds @ [\<lparr> nd_start = length ?pre, nd_end = length ?bs, nd_nal_unit = read_nal (last nals) \<rparr>])"
    using ds(1) room d by (simp add: parse_annex_b_nal_descriptors_def)
  moreover have "map read_nal nals = map read_nal (butlast nals) @ [read_nal (last nals)]"
    using append_butlast_last_id [OF False] by (metis list.simps(8,9) map_append)
  ultimately show ?thesis using ds(2) by simp
qed

text \<open>A picture with its parameter sets: the slice's payload holds an escaped zero run.\<close>

definition sample_nals :: "raw_nal list" where
  "sample_nals = [(4, 0x67, [0x42]), (3, 0x68, [0xCE]), (3, 0x65, [0x88, 0, 0, 1])]"

lemma written_stream_reads_back_witness:
  "written_stream sample_nals = [0, 0, 0, 1, 0x67, 0x42, 0, 0, 1, 0x68, 0xCE, 0, 0, 1, 0x65, 0x88, 0, 0, 3, 1] \<and>
   (\<exists>ds. parse_annex_b_nal_descriptors (written_stream sample_nals) True = Ok ds \<and> map nd_nal_unit ds = map read_nal sample_nals)"
proof
  show "written_stream sample_nals = [0, 0, 0, 1, 0x67, 0x42, 0, 0, 1, 0x68, 0xCE, 0, 0, 1, 0x65, 0x88, 0, 0, 3, 1]"
    by code_simp
  have "list_all raw_nal_ok sample_nals"
    by (simp add: sample_nals_def parse_unsigned_exp_golomb_decodes bits_of_def bits_of_byte_def upt_rec usize_bound_def exp_golomb_def)
  then show "\<exists>ds. parse_annex_b_nal_descriptors (written_stream sample_nals) True = Ok ds \<and> map nd_nal_unit ds = map read_nal sample_nals"
    by (rule written_stream_reads_back)
qed

text \<open>
  C12: The macroblock address of a slice is decoded as the Exp-Golomb code says, from any payload
  and whatever follows the code, as long as the code's zero run is shorter than the 64 bits of the
  result: zeros, a one, and as many bits again; a payload that ends before is refused.
\<close>

theorem slice_address_is_decoded:
  assumes "length payload * 8 < usize_bound" and "length (takeWhile Not (bits_of payload)) < 64"
  shows "parse_h264_first_mb_in_slice (escape_payload payload) =
    (case exp_golomb (bits_of payload) of Some v \<Rightarrow> Ok (word_of_nat v) | None \<Rightarrow> Error Malformed_InvalidSliceHeader)"
  using parse_unsigned_exp_golomb_decodes [OF assms]
  by (simp add: parse_h264_first_mb_in_slice_def remove_h264_emulation_prevention_bytes_def escape_payload_def remove_escape_loop)

lemma slice_address_is_decoded_witness:
  "parse_h264_first_mb_in_slice (escape_payload [0x26]) = Ok 3 \<and> parse_h264_first_mb_in_slice (escape_payload [0x08]) =
    Error Malformed_InvalidSliceHeader"
proof -
  have bits: "bits_of [0x26] = [False, False, True, False, False, True, True, False]"
      "bits_of [0x08] = [False, False, False, False, True, False, False, False]"
    by code_simp+
  show ?thesis
    using slice_address_is_decoded [of "[0x26]"] slice_address_is_decoded [of "[0x08]"]
    by (simp add: bits usize_bound_def exp_golomb_def bits_value_def Let_def)
qed

end
