(* ===== verification/Annex_B_Access_Units.thy ===== *)
theory Annex_B_Access_Units
  imports Annex_B_Stream
begin

text \<open>
  Access units of a buffer: what is extracted is a prefix of the buffer, made of whole NAL units,
  and an access unit that is visible is the same one however many bytes have arrived behind it.
\<close>

section \<open>NAL units tile the buffer\<close>

fun tiles :: "u8 list \<Rightarrow> nat \<Rightarrow> ClientAnnexBNalDescriptor list \<Rightarrow> nat \<Rightarrow> bool" where
  "tiles bs s [] e \<longleftrightarrow> s = e"
| "tiles bs s (d # ds) e \<longleftrightarrow> nd_start d = s \<and> s < nd_end d \<and> nd_end d \<le> length bs \<and>
     nal_bytes (nd_nal_unit d) = take (nd_end d - s) (drop s bs) \<and> tiles bs (nd_end d) ds e"

lemma tiles_le: "tiles bs s ds e \<Longrightarrow> s \<le> e"
  by (induction bs s ds e rule: tiles.induct) auto

lemma tiles_append: "tiles bs s (ds @ es) e \<longleftrightarrow> (\<exists>m. tiles bs s ds m \<and> tiles bs m es e)"
  by (induction ds arbitrary: s) auto

lemma take_drop_join:
  "s \<le> m \<Longrightarrow> m \<le> e \<Longrightarrow> take (m - s) (drop s bs) @ take (e - m) (drop m bs) = take (e - s) (drop s bs)"
  using take_add [of "m - s" "e - m" "drop s bs"] by simp

lemma tiles_bytes: "tiles bs s ds e \<Longrightarrow> concat (map (nal_bytes \<circ> nd_nal_unit) ds) = take (e - s) (drop s bs)"
proof (induction bs s ds e rule: tiles.induct)
  case (2 bs s d ds e)
  then show ?case using tiles_le [of bs "nd_end d" ds e] take_drop_join [of s "nd_end d" e bs] by simp
qed simp

text \<open>The NAL units found behind a start code tile the bytes up to the last start code.\<close>

lemma nals_tile:
  "nals_from bs s n = Ok (ds, s', n') \<Longrightarrow> start_code_at bs s n \<Longrightarrow> tiles bs s ds s' \<and> start_code_at bs s' n'"
proof (induction s n arbitrary: ds rule: nals_induct [of bs])
  case (1 s n)
  show ?case
  proof (cases "find_annex_b_start_code bs (s + n)")
    case None
    then show ?thesis using "1.prems" nals_from_simps [of bs s n] by simp
  next
    case (Some p)
    obtain s1 n1 where p: "p = (s1, n1)" by (cases p)
    obtain d es where d: "parse_annex_b_nal_descriptor bs s n s1 = Ok d" "nals_from bs s1 n1 = Ok (es, s', n')" "ds = d # es"
      using "1.prems"(1) Some p nals_from_simps [of bs s n] by (auto simp: rbind_eq_Inr_iff rmap_eq_Inr_iff)
    have "start_code_at bs s1 n1" "s1 \<le> length bs"
      using Some p found_in_range [of bs "s + n" s1 n1] by (auto simp: find_annex_b_start_code_Some_iff)
    then show ?thesis
      using "1.IH" [OF _ d(2)] Some p d(3) parse_descriptor_Ok [OF d(1)] by auto
  qed
qed

text \<open>A NAL unit found behind the first one is where the search could have begun.\<close>

lemma nals_suffix:
  "nals_from bs s n = Ok (ds, s', n') \<Longrightarrow> start_code_at bs s n \<Longrightarrow> i < length ds \<Longrightarrow>
     \<exists>m. start_code_at bs (nd_start (ds ! i)) m \<and> nals_from bs (nd_start (ds ! i)) m = Ok (drop i ds, s', n')"
proof (induction s n arbitrary: ds i rule: nals_induct [of bs])
  case (1 s n)
  obtain s1 n1 where some: "find_annex_b_start_code bs (s + n) = Some (s1, n1)"
    using "1.prems"(1,3) nals_from_simps [of bs s n] by (cases "find_annex_b_start_code bs (s + n)") auto
  obtain d es where d: "parse_annex_b_nal_descriptor bs s n s1 = Ok d" "nals_from bs s1 n1 = Ok (es, s', n')" "ds = d # es"
    using "1.prems"(1) some nals_from_simps [of bs s n] by (auto simp: rbind_eq_Inr_iff rmap_eq_Inr_iff)
  have at: "start_code_at bs s1 n1" "s1 \<le> length bs"
    using some found_in_range [of bs "s + n" s1 n1] by (auto simp: find_annex_b_start_code_Some_iff)
  show ?case
  proof (cases i)
    case 0
    then show ?thesis using "1.prems"(1,2) d(3) parse_descriptor_Ok(1) [OF d(1) at(2)] by auto
  next
    case (Suc k)
    then show ?thesis using "1.IH" [OF some d(2) at(1), of k] "1.prems"(3) d(3) by simp
  qed
qed

section \<open>The scan for the end of an access unit\<close>

abbreviation nd_is_vcl :: "ClientAnnexBNalDescriptor \<Rightarrow> bool" where
  "nd_is_vcl d \<equiv> ClientAnnexBNalUnitKind_is_vcl (nal_kind (nd_nal_unit d))"

lemma scan_Some:
  "scan_descriptors i v ds = (Some (j, e), w) \<Longrightarrow>
     i \<le> j \<and> j < i + length ds \<and> 0 < j \<and> e = nd_start (ds ! (j - i)) \<and> w \<and> (v \<or> list_ex nd_is_vcl (take (j - i) ds))
     \<and> annex_b_nal_begins_new_access_unit (nd_nal_unit (ds ! (j - i)))"
proof (induction i v ds rule: scan_descriptors.induct)
  case (2 i v d ds)
  show ?case
  proof (cases "0 < i \<and> v \<and> annex_b_nal_begins_new_access_unit (nd_nal_unit d)")
    case False
    then have IH: "i + 1 \<le> j \<and> j < i + 1 + length ds \<and> 0 < j \<and> e = nd_start (ds ! (j - (i + 1))) \<and> w \<and>
        ((v \<or> nd_is_vcl d) \<or> list_ex nd_is_vcl (take (j - (i + 1)) ds))
        \<and> annex_b_nal_begins_new_access_unit (nd_nal_unit (ds ! (j - (i + 1))))"
      using 2 by auto
    obtain k where "j - i = Suc k" "j - (i + 1) = k" using IH by (cases "j - i") auto
    then show ?thesis using IH by auto
  qed (use 2 in auto)
qed simp

lemma scan_append:
  "scan_descriptors i v ds = (Some p, w) \<Longrightarrow> scan_descriptors i v (ds @ es) = (Some p, w)"
  by (induction i v ds rule: scan_descriptors.induct) (auto split: if_splits)

lemma scan_None: "scan_descriptors i v ds = (None, w) \<Longrightarrow> w \<longleftrightarrow> v \<or> list_ex nd_is_vcl ds"
  by (induction i v ds rule: scan_descriptors.induct) (auto split: if_splits)

section \<open>Extraction\<close>

definition access_unit_of :: "u8 list \<Rightarrow> ClientAnnexBNalUnit list \<Rightarrow> ClientAnnexBAccessUnit" where
  "access_unit_of bytes us = \<lparr> au_bytes = bytes, au_nal_units = us,
     au_contains_idr = list_ex (\<lambda>u. nal_kind u = Nal_IdrSlice) us,
     au_contains_sps = list_ex (\<lambda>u. nal_kind u = Nal_Sps) us,
     au_contains_pps = list_ex (\<lambda>u. nal_kind u = Nal_Pps) us \<rparr>"

lemma consume_access_unit:
  "e \<le> length (buffered_bytes st) \<Longrightarrow> consume_access_unit_from_state st ds e =
     (st \<lparr> buffered_bytes := drop e (buffered_bytes st) \<rparr>,
      Ok (access_unit_of (take e (buffered_bytes st)) (map nd_nal_unit ds)))"
  by (simp add: consume_access_unit_from_state_def access_unit_of_def Let_def)

lemma first_start_code:
  "start_code_at bs 0 n \<Longrightarrow> find_annex_b_start_code bs 0 = Some (0, n) \<and> bs \<noteq> []"
  by (auto simp: find_annex_b_start_code_Some_iff start_code_at_def)

lemma parse_descriptors_False:
  "start_code_at bs 0 n \<Longrightarrow> parse_annex_b_nal_descriptors bs False = rmap fst (nals_from bs 0 n)"
  using first_start_code [of bs n]
  by (cases "nals_from bs 0 n") (auto simp: parse_annex_b_nal_descriptors_def)

lemma parse_descriptors_misplaced:
  assumes "bs \<noteq> []" and "\<And>n. \<not> start_code_at bs 0 n"
  shows "parse_annex_b_nal_descriptors bs eof = Error Malformed_MissingStartCode"
proof (cases "find_annex_b_start_code bs 0")
  case (Some p)
  obtain s n where p: "p = (s, n)" by (cases p)
  then have "start_code_at bs s n" using Some by (simp add: find_annex_b_start_code_Some_iff)
  then have "s \<noteq> 0" using assms(2) by (cases "s = 0") auto
  then show ?thesis using Some p assms(1) by (simp add: parse_annex_b_nal_descriptors_def)
qed (use assms in \<open>simp add: parse_annex_b_nal_descriptors_def\<close>)

text \<open>The outcome of one extraction before the end of the stream.\<close>

lemma extract_False:
  assumes "start_code_at bs 0 n" and "nals_from bs 0 n = Ok (ds, s', n')"
  shows "try_extract_annex_b_access_unit \<lparr> buffered_bytes = bs \<rparr> False =
    (case fst (scan_descriptors 0 False ds) of
       None \<Rightarrow> (\<lparr> buffered_bytes = bs \<rparr>, Ok None)
     | Some (j, e) \<Rightarrow> (\<lparr> buffered_bytes = drop e bs \<rparr>,
         Ok (Some (access_unit_of (take e bs) (map nd_nal_unit (take j ds))))))"
proof -
  have "e \<le> length bs" if "scan_descriptors 0 False ds = (Some (j, e), w)" for j e w
    using scan_Some [OF that] nals_suffix [OF assms(2,1), of j] by (auto simp: start_code_at_def)
  then show ?thesis
    using assms parse_descriptors_False [OF assms(1)]
    by (auto simp: try_extract_annex_b_access_unit_def consume_access_unit split: option.split prod.split)
qed

lemma extract_error:
  assumes "start_code_at bs 0 n" and "nals_from bs 0 n = Inl e"
  shows "try_extract_annex_b_access_unit \<lparr> buffered_bytes = bs \<rparr> False = (\<lparr> buffered_bytes = bs \<rparr>, Inl e)"
  using assms parse_descriptors_False [OF assms(1)] by (simp add: try_extract_annex_b_access_unit_def)

text \<open>The descriptors of a buffer tile a prefix of it, at the end of the stream too.\<close>

lemma parse_descriptors_cases:
  obtains (empty) "bs = []" "parse_annex_b_nal_descriptors bs eof = Ok []"
  | (misplaced) "bs \<noteq> []" "parse_annex_b_nal_descriptors bs eof = Error Malformed_MissingStartCode"
  | (placed) n where "start_code_at bs 0 n"
proof (cases "bs = []")
  case True
  then show ?thesis using empty by (simp add: parse_annex_b_nal_descriptors_def)
next
  case False
  then show ?thesis using misplaced placed parse_descriptors_misplaced by blast
qed

lemma nals_from_no_panic: "nals_from bs s n \<noteq> Panicked"
proof (induction s n rule: nals_induct [of bs])
  case (1 s n)
  show ?case
  proof (cases "find_annex_b_start_code bs (s + n)")
    case (Some p)
    obtain s1 n1 where "p = (s1, n1)" by (cases p)
    then show ?thesis
      using Some "1.IH" [of s1 n1] found_in_range [of bs "s + n" s1 n1] parse_descriptor_no_panic [of s1 bs s n]
        nals_from_simps [of bs s n]
      by (auto simp: rbind_eq_Inl_iff rmap_eq_Inl_iff)
  qed (use nals_from_simps [of bs s n] in simp)
qed

lemma parse_descriptors_placed:
  assumes "start_code_at bs 0 n"
  shows "parse_annex_b_nal_descriptors bs eof =
    rbind (nals_from bs 0 n) (\<lambda>(ds, s', n').
      if eof \<and> s' + n' < length bs then rmap (\<lambda>d. ds @ [d]) (parse_annex_b_nal_descriptor bs s' n' (length bs))
      else Ok ds)"
  using first_start_code [OF assms] by (cases "nals_from bs 0 n") (auto simp: parse_annex_b_nal_descriptors_def)

lemma parse_descriptors_tile:
  assumes "parse_annex_b_nal_descriptors bs eof = Ok ds"
  shows "\<exists>e \<le> length bs. tiles bs 0 ds e"
proof (cases rule: parse_descriptors_cases [of bs eof])
  case (placed n)
  obtain es s' n' where ns: "nals_from bs 0 n = Ok (es, s', n')"
    using assms parse_descriptors_placed [OF placed, of eof] by (auto simp: rbind_eq_Inr_iff)
  then have t: "tiles bs 0 es s'" "s' + n' \<le> length bs"
    using nals_tile [OF ns placed] by (auto simp: start_code_at_def)
  show ?thesis
  proof (cases "eof \<and> s' + n' < length bs")
    case True
    then obtain d where d: "parse_annex_b_nal_descriptor bs s' n' (length bs) = Ok d" "ds = es @ [d]"
      using assms parse_descriptors_placed [OF placed, of eof] ns
      by (cases "parse_annex_b_nal_descriptor bs s' n' (length bs)") auto
    have "tiles bs s' [d] (length bs)" using parse_descriptor_Ok [OF d(1)] t(2) True by simp
    then show ?thesis using t(1) d(2) by (auto simp: tiles_append)
  next
    case False
    then have "ds = es" using assms parse_descriptors_placed [OF placed, of eof] ns by auto
    then show ?thesis using t by (intro exI [where x = s']) auto
  qed
qed (use assms in auto)

lemma parse_descriptors_no_panic: "parse_annex_b_nal_descriptors bs eof \<noteq> Panicked"
proof (cases rule: parse_descriptors_cases [of bs eof])
  case (placed n)
  then show ?thesis
    using parse_descriptors_placed [OF placed, of eof] nals_from_no_panic [of bs 0 n]
      parse_descriptor_no_panic [of "length bs" bs]
    by (auto simp: rbind_eq_Inl_iff rmap_eq_Inl_iff)
qed auto

text \<open>What an extracted access unit is, and what is left of the buffer.\<close>

definition access_unit_ok :: "ClientAnnexBAccessUnit \<Rightarrow> bool" where
  "access_unit_ok au \<longleftrightarrow> au_bytes au \<noteq> [] \<and> au_bytes au = concat (map nal_bytes (au_nal_units au))
     \<and> list_ex (\<lambda>u. ClientAnnexBNalUnitKind_is_vcl (nal_kind u)) (au_nal_units au)
     \<and> au_contains_idr au = list_ex (\<lambda>u. nal_kind u = Nal_IdrSlice) (au_nal_units au)
     \<and> au_contains_sps au = list_ex (\<lambda>u. nal_kind u = Nal_Sps) (au_nal_units au)
     \<and> au_contains_pps au = list_ex (\<lambda>u. nal_kind u = Nal_Pps) (au_nal_units au)"

lemma access_unit_of_ok:
  assumes "tiles bs 0 ds e" and "list_ex nd_is_vcl ds"
  shows "access_unit_ok (access_unit_of (take e bs) (map nd_nal_unit ds))"
proof -
  obtain d ds' where "ds = d # ds'" using assms(2) by (cases ds) auto
  then have "0 < e" "bs \<noteq> []" using assms(1) tiles_le [of bs "nd_end d" ds' e] by auto
  then show ?thesis
    using assms(2) tiles_bytes [OF assms(1)]
    by (auto simp: access_unit_ok_def access_unit_of_def list_ex_iff)
qed

lemma extract_cases:
  obtains (none) "try_extract_annex_b_access_unit st eof = (st, Ok None)"
  | (failed) reason where "try_extract_annex_b_access_unit st eof = (st, Error reason)"
  | (some) e us where "e \<le> length (buffered_bytes st)"
      "access_unit_ok (access_unit_of (take e (buffered_bytes st)) us)"
      "try_extract_annex_b_access_unit st eof =
         (st \<lparr> buffered_bytes := drop e (buffered_bytes st) \<rparr>,
          Ok (Some (access_unit_of (take e (buffered_bytes st)) us)))"
proof (cases "parse_annex_b_nal_descriptors (buffered_bytes st) eof")
  case (Inl err)
  then show ?thesis
    using failed parse_descriptors_no_panic [of "buffered_bytes st" eof]
    by (cases err) (auto simp: try_extract_annex_b_access_unit_def)
next
  case (Inr ds)
  let ?bs = "buffered_bytes st"
  obtain m where t: "m \<le> length ?bs" "tiles ?bs 0 ds m" using parse_descriptors_tile [OF Inr] by blast
  obtain found v where scan: "scan_descriptors 0 False ds = (found, v)" by (cases "scan_descriptors 0 False ds")
  note def = try_extract_annex_b_access_unit_def
  show ?thesis
  proof (cases found)
    case None
    show ?thesis
    proof (cases "eof \<and> v \<and> ds \<noteq> []")
      case True
      then have vcl: "list_ex nd_is_vcl ds" using scan None scan_None [of 0 False ds v] by simp
      have last: "nd_end (last ds) = m"
        using t(2) True tiles_append [of ?bs 0 "butlast ds" "[last ds]" m] by auto
      show ?thesis
        by (rule some [OF t(1) access_unit_of_ok [OF t(2) vcl]])
          (use Inr scan None True last t(1) in \<open>simp add: def consume_access_unit\<close>)
    qed (use none Inr scan None in \<open>auto simp: def\<close>)
  next
    case (Some p)
    obtain j e where p: "p = (j, e)" by (cases p)
    have j: "j < length ds" "e = nd_start (ds ! j)" "list_ex nd_is_vcl (take j ds)"
      using scan_Some [of 0 False ds j e v] scan Some p by auto
    have "tiles ?bs 0 (take j ds @ ds ! j # drop (Suc j) ds) m" using t(2) j(1) by (simp add: id_take_nth_drop [symmetric])
    then have pre: "tiles ?bs 0 (take j ds) e" "e \<le> m"
      using j(2) tiles_le by (auto simp: tiles_append) (meson le_trans less_imp_le tiles_le)+
    have "e \<le> length ?bs" using pre(2) t(1) by simp
    then show ?thesis
      by (rule some [OF _ access_unit_of_ok [OF pre(1) j(3)]])
        (use Inr scan Some p j \<open>e \<le> length ?bs\<close> in \<open>auto simp: def consume_access_unit\<close>)
  qed
qed

section \<open>More bytes behind a visible access unit\<close>

text \<open>A stream is sound when it is on a start code and every NAL unit complete in it is well formed.\<close>

definition sound_stream :: "u8 list \<Rightarrow> bool" where
  "sound_stream bs \<longleftrightarrow> (\<exists>n ds s' n'. start_code_at bs 0 n \<and> nals_from bs 0 n = Ok (ds, s', n'))"

lemma sound_stream_iff:
  "sound_stream bs \<longleftrightarrow> bs \<noteq> [] \<and> (\<exists>ds. parse_annex_b_nal_descriptors bs False = Ok ds)"
proof (cases rule: parse_descriptors_cases [of bs False])
  case (placed n)
  then have "start_code_at bs 0 m \<longleftrightarrow> m = n" for m using start_code_at_unique by blast
  then have "sound_stream bs \<longleftrightarrow> (\<exists>q. nals_from bs 0 n = Ok q)" by (simp add: sound_stream_def)
  then show ?thesis
    using first_start_code [OF placed] parse_descriptors_False [OF placed] by (cases "nals_from bs 0 n") auto
next
  case misplaced
  then have "nals_from bs 0 n \<noteq> Ok q" if "start_code_at bs 0 n" for n q using parse_descriptors_False [OF that] by auto
  then show ?thesis using misplaced(2) by (auto simp: sound_stream_def)
qed (auto simp: sound_stream_def start_code_at_def)

lemma extract_append:
  assumes at: "start_code_at bs 0 n" and sound: "sound_stream (bs @ cs)"
  obtains (none) "try_extract_annex_b_access_unit \<lparr> buffered_bytes = bs \<rparr> False = (\<lparr> buffered_bytes = bs \<rparr>, Ok None)"
  | (some) au rest m where
      "try_extract_annex_b_access_unit \<lparr> buffered_bytes = bs \<rparr> False = (\<lparr> buffered_bytes = rest \<rparr>, Ok (Some au))"
      "try_extract_annex_b_access_unit \<lparr> buffered_bytes = bs @ cs \<rparr> False = (\<lparr> buffered_bytes = rest @ cs \<rparr>, Ok (Some au))"
      "start_code_at rest 0 m" "sound_stream (rest @ cs)"
proof -
  have n: "n \<le> length bs" "start_code_at (bs @ cs) 0 n"
    using at start_code_at_length [OF at] start_code_at_append [of 0 n bs cs] by auto
  obtain ds' s2 n2 where whole: "nals_from (bs @ cs) 0 n = Ok (ds', s2, n2)"
    using sound n(2) start_code_at_unique unfolding sound_stream_def by blast
  obtain ds s1 n1 where part: "nals_from bs 0 n = Ok (ds, s1, n1)"
    using whole nals_append_error [of bs 0 n _ cs] by (cases "nals_from bs 0 n") auto
  obtain es where es: "ds' = ds @ es"
    using nals_append [OF part, of cs] whole by (cases "nals_from (bs @ cs) s1 n1") auto
  show ?thesis
  proof (cases "scan_descriptors 0 False ds")
    case (Pair found v)
    show ?thesis
    proof (cases found)
      case None
      then show ?thesis using extract_False [OF at part] Pair none by simp
    next
      case (Some p)
      obtain j e where p: "p = (j, e)" by (cases p)
      have j: "j < length ds" "e = nd_start (ds ! j)" using scan_Some [of 0 False ds j e v] Pair Some p by auto
      have scan: "scan_descriptors 0 False ds' = (Some (j, e), v)"
        using scan_append [of 0 False ds "(j, e)" v es] Pair Some p es by simp
      obtain k where k: "start_code_at bs e k" "nals_from bs e k = Ok (drop j ds, s1, n1)"
        using nals_suffix [OF part at j(1)] j(2) by auto
      have e: "e + k \<le> length bs" "start_code_at (bs @ cs) e k"
        using k(1) start_code_at_length [OF k(1)] start_code_at_append [of e k bs cs] by auto
      have "\<exists>q. nals_from (bs @ cs) e k = Ok q"
        using nals_suffix [OF whole n(2), of j] j es e(2) start_code_at_unique
        by (auto simp: nth_append) blast
      then obtain q where "nals_from (drop e (bs @ cs)) 0 k = Ok q"
        using nals_drop [of e e "bs @ cs" k] by auto
      then have "sound_stream (drop e (bs @ cs))"
        using e(2) by (cases q) (auto simp: sound_stream_def start_code_at_drop simp del: drop_append)
      then show ?thesis
        using some [of "drop e bs" "access_unit_of (take e bs) (map nd_nal_unit (take j ds))" k]
          extract_False [OF at part] extract_False [OF n(2) whole] Pair Some p scan j(1) es e(1) k(1)
        by (simp add: start_code_at_drop)
    qed
  qed
qed

end
