(* ===== verification/Client_Encoder_Session.thy ===== *)
theory Client_Encoder_Session
  imports Client_Annex_B Rust_Str
begin

text \<open>
  The client's session with a persistent encoder process, apps/client/src/lib.rs: raw frames are
  written to the process, the H.264 stream it prints is read in pieces and handed to the access-unit
  reader, and the parameter sets seen are kept for the pictures that come without them. The process
  is the environment: what its pipes and its exit do is a record of functions.
\<close>

section \<open>The encoder process\<close>

datatype ClientVideoEncoderBackend = FfmpegLibx264

record ClientVideoEncoderConfig =
  enc_backend :: ClientVideoEncoderBackend
  enc_ffmpeg_path :: string
  enc_width :: "u32 option"
  enc_height :: "u32 option"
  enc_fps :: u32
  enc_bitrate_kbps :: "u32 option"
  enc_gop_frames :: "u32 option"
  enc_preset :: string
  enc_tune :: string
  enc_pixel_format :: string
  enc_profile :: "string option"
  enc_level :: "string option"

definition ClientVideoEncoderConfig_default :: ClientVideoEncoderConfig where
  "ClientVideoEncoderConfig_default = \<lparr>
     enc_backend = FfmpegLibx264, enc_ffmpeg_path = ''ffmpeg'', enc_width = None, enc_height = None,
     enc_fps = 30, enc_bitrate_kbps = None, enc_gop_frames = None, enc_preset = ''ultrafast'',
     enc_tune = ''zerolatency'', enc_pixel_format = ''yuv420p'', enc_profile = None, enc_level = None \<rparr>"

definition ClientVideoEncoderConfig_effective_width :: "ClientVideoEncoderConfig \<Rightarrow> u32 \<Rightarrow> u32" where
  "ClientVideoEncoderConfig_effective_width config captured_width =
     (case enc_width config of Some width \<Rightarrow> width | None \<Rightarrow> captured_width)"

definition ClientVideoEncoderConfig_effective_height :: "ClientVideoEncoderConfig \<Rightarrow> u32 \<Rightarrow> u32" where
  "ClientVideoEncoderConfig_effective_height config captured_height =
     (case enc_height config of Some height \<Rightarrow> height | None \<Rightarrow> captured_height)"

definition ClientVideoEncoderConfig_effective_fps :: "ClientVideoEncoderConfig \<Rightarrow> u32 \<Rightarrow> u32" where
  "ClientVideoEncoderConfig_effective_fps config captured_fps =
     (if enc_fps config = 0 then captured_fps else enc_fps config)"

record ClientFfmpegSoftwareH264EncoderConfig =
  sw_ffmpeg_path :: string
  sw_preset :: string
  sw_tune :: string

definition ClientFfmpegSoftwareH264EncoderConfig_from_video_encoder_config ::
  "ClientVideoEncoderConfig \<Rightarrow> ClientFfmpegSoftwareH264EncoderConfig" where
  "ClientFfmpegSoftwareH264EncoderConfig_from_video_encoder_config config =
     \<lparr> sw_ffmpeg_path = enc_ffmpeg_path config, sw_preset = enc_preset config, sw_tune = enc_tune config \<rparr>"

record ClientPersistentFfmpegH264EncoderStartupConfig =
  start_input_width :: u32
  start_input_height :: u32
  start_input_fps_nominal :: u32
  start_encoder_config :: ClientVideoEncoderConfig

definition usize_checked_mul :: "nat \<Rightarrow> nat \<Rightarrow> nat option" where
  "usize_checked_mul a b = (if a * b < usize_bound then Some (a * b) else None)"

definition expected_bgra_frame_len :: "ClientPersistentFfmpegH264EncoderStartupConfig \<Rightarrow> nat option" where
  "expected_bgra_frame_len config =
     (case usize_checked_mul (unat (start_input_width config)) (unat (start_input_height config)) of
        None \<Rightarrow> None
      | Some pixels \<Rightarrow> usize_checked_mul pixels 4)"

abbreviation display_u32 :: "u32 \<Rightarrow> string" where
  "display_u32 v \<equiv> display_nat (unat v)"

definition build_ffmpeg_args ::
  "ClientFfmpegSoftwareH264EncoderConfig \<Rightarrow> ClientPersistentFfmpegH264EncoderStartupConfig \<Rightarrow> string list" where
  "build_ffmpeg_args runtime_config startup_config =
     (let config = start_encoder_config startup_config in
      [''-hide_banner'', ''-loglevel'', ''error'', ''-f'', ''rawvideo'', ''-pixel_format'', ''bgra'', ''-video_size'',
       display_u32 (start_input_width startup_config) @ ''x'' @ display_u32 (start_input_height startup_config),
       ''-framerate'',
       display_u32 (ClientVideoEncoderConfig_effective_fps config (start_input_fps_nominal startup_config)),
       ''-i'', ''pipe:0'', ''-an'', ''-c:v'', ''libx264'', ''-preset'', sw_preset runtime_config, ''-tune'', sw_tune runtime_config]
      @ (case (enc_width config, enc_height config) of
           (Some width, Some height) \<Rightarrow> [''-vf'', ''scale='' @ display_u32 width @ '':'' @ display_u32 height]
         | _ \<Rightarrow> [])
      @ (case enc_bitrate_kbps config of
           Some bitrate_kbps \<Rightarrow> [''-b:v'', display_u32 bitrate_kbps @ ''k''] | None \<Rightarrow> [])
      @ (case enc_gop_frames config of
           Some gop_frames \<Rightarrow> [''-g'', display_u32 gop_frames, ''-keyint_min'', display_u32 gop_frames,
             ''-sc_threshold'', ''0'']
         | None \<Rightarrow> [])
      @ [''-pix_fmt'', enc_pixel_format config]
      @ (case enc_profile config of Some profile \<Rightarrow> [''-profile:v'', profile] | None \<Rightarrow> [])
      @ (case enc_level config of Some level \<Rightarrow> [''-level:v'', level] | None \<Rightarrow> [])
      @ [''-f'', ''h264'', ''pipe:1''])"

type_synonym i32 = "32 word"

text \<open>A child process and the pipes to it that are still open.\<close>

record 'p Child =
  child_stdin :: bool
  child_stdout :: bool
  child_stderr :: bool
  child_process :: 'p

text \<open>
  What the pipes and the process do. A read yields at most the requested bytes and no byte at the
  end of the stream; waiting yields whether the exit was a success, and its code. A pipe that has
  been read to its end, or could not be, is dropped without an event of its own.
\<close>

record 'p ProcessIo =
  spawn :: "string \<Rightarrow> string list \<Rightarrow> ('p Child, io_Error) result"
  stdin_write_all :: "u8 list \<Rightarrow> 'p \<Rightarrow> 'p \<times> (unit, io_Error) result"
  stdin_flush :: "'p \<Rightarrow> 'p \<times> (unit, io_Error) result"
  stdin_close :: "'p \<Rightarrow> 'p"
  stdout_read :: "nat \<Rightarrow> 'p \<Rightarrow> 'p \<times> (u8 list, io_Error) result"
  stdout_read_to_end :: "'p \<Rightarrow> 'p \<times> (u8 list, io_Error) result"
  stdout_close :: "'p \<Rightarrow> 'p"
  stderr_read_to_end :: "'p \<Rightarrow> 'p \<times> (u8 list, io_Error) result"
  process_wait :: "'p \<Rightarrow> 'p \<times> (bool \<times> i32 option, io_Error) result"

datatype ClientPersistentFfmpegH264EncoderStartErrorKind =
    Start_InvalidStartupConfig
  | Start_EncoderUnavailable
  | Start_SpawnFailed
  | Start_StdinUnavailable
  | Start_StdoutUnavailable
  | Start_StderrUnavailable

record 'p ClientPersistentFfmpegH264EncoderRuntime =
  rt_startup_config :: ClientPersistentFfmpegH264EncoderStartupConfig
  rt_expected_frame_len :: nat
  rt_child :: "'p Child"

datatype 'p ClientPersistentFfmpegH264EncoderStartResult =
    Start_Started "'p ClientPersistentFfmpegH264EncoderRuntime"
  | Start_Failed ClientPersistentFfmpegH264EncoderStartErrorKind string

datatype ClientPersistentFfmpegH264EncoderWriteResult =
    Write_FrameAccepted nat
  | Write_InvalidFrameBytes nat nat
  | Write_StdinClosed
  | Write_StdinWriteFailed io_ErrorKind string
  | Write_StdinFlushFailed io_ErrorKind string

datatype ClientPersistentFfmpegH264EncoderReadResult =
    Read_AnnexBBytes "u8 list"
  | Read_StdoutClosed
  | Read_StdoutReadFailed io_ErrorKind string
  | Read_InvalidReadRequest nat

datatype ClientPersistentFfmpegH264EncoderShutdownResult =
    Shutdown_ExitedCleanly "i32 option" "u8 list" string
  | Shutdown_ExitedNonZero "i32 option" "u8 list" string
  | Shutdown_StdoutDrainFailed io_ErrorKind string string
  | Shutdown_StderrDrainFailed io_ErrorKind string "u8 list"
  | Shutdown_WaitFailed string "u8 list" string

definition start_with_command ::
  "'p ProcessIo \<Rightarrow> ClientPersistentFfmpegH264EncoderStartupConfig \<Rightarrow> string \<Rightarrow> string list \<Rightarrow>
     ('p ClientPersistentFfmpegH264EncoderStartResult, unit) result" where
  "start_with_command io startup_config command_path command_args =
     (if start_input_width startup_config = 0 \<or> start_input_height startup_config = 0
        \<or> start_input_fps_nominal startup_config = 0
      then Ok (Start_Failed Start_InvalidStartupConfig ''persistent encoder requires non-zero width/height/fps'')
      else (case expected_bgra_frame_len startup_config of
        None \<Rightarrow> Ok (Start_Failed Start_InvalidStartupConfig
          ''persistent encoder could not derive expected BGRA frame length'')
      | Some expected_frame_len \<Rightarrow>
          (case spawn io command_path command_args of
             Inl Panic \<Rightarrow> Panicked
           | Inl (Err error) \<Rightarrow>
               Ok (Start_Failed
                 (if ioe_kind error = Kind_Other ''NotFound'' then Start_EncoderUnavailable else Start_SpawnFailed)
                 (ioe_message error))
           | Inr child \<Rightarrow>
               Ok (if \<not> child_stdin child
                 then Start_Failed Start_StdinUnavailable ''persistent encoder stdin pipe was not available''
                 else if \<not> child_stdout child
                 then Start_Failed Start_StdoutUnavailable ''persistent encoder stdout pipe was not available''
                 else if \<not> child_stderr child
                 then Start_Failed Start_StderrUnavailable ''persistent encoder stderr pipe was not available''
                 else Start_Started \<lparr> rt_startup_config = startup_config,
                   rt_expected_frame_len = expected_frame_len, rt_child = child \<rparr>))))"

definition ClientPersistentFfmpegH264EncoderBoundary_start ::
  "'p ProcessIo \<Rightarrow> ClientPersistentFfmpegH264EncoderStartupConfig \<Rightarrow> ClientFfmpegSoftwareH264EncoderConfig \<Rightarrow>
     ('p ClientPersistentFfmpegH264EncoderStartResult, unit) result" where
  "ClientPersistentFfmpegH264EncoderBoundary_start io startup_config runtime_config =
     start_with_command io startup_config (sw_ffmpeg_path runtime_config)
       (build_ffmpeg_args runtime_config startup_config)"

section \<open>Frames in, bytes out\<close>

type_synonym 'p encoder_runtime = "'p ClientPersistentFfmpegH264EncoderRuntime"

definition with_process :: "'p encoder_runtime \<Rightarrow> 'p \<Rightarrow> 'p encoder_runtime" where
  "with_process runtime p = runtime \<lparr> rt_child := rt_child runtime \<lparr> child_process := p \<rparr> \<rparr>"

definition write_bgra_frame_bytes ::
  "'p ProcessIo \<Rightarrow> 'p encoder_runtime \<Rightarrow> u8 list \<Rightarrow>
     'p encoder_runtime \<times> (ClientPersistentFfmpegH264EncoderWriteResult, unit) result" where
  "write_bgra_frame_bytes io runtime frame_bytes =
     (if length frame_bytes \<noteq> rt_expected_frame_len runtime
      then (runtime, Ok (Write_InvalidFrameBytes (rt_expected_frame_len runtime) (length frame_bytes)))
      else if \<not> child_stdin (rt_child runtime) then (runtime, Ok Write_StdinClosed)
      else (case stdin_write_all io frame_bytes (child_process (rt_child runtime)) of
        (p, Inl Panic) \<Rightarrow> (with_process runtime p, Panicked)
      | (p, Inl (Err error)) \<Rightarrow>
          (with_process runtime p, Ok (Write_StdinWriteFailed (ioe_kind error) (ioe_message error)))
      | (p, Inr _) \<Rightarrow>
          (case stdin_flush io p of
             (p, Inl Panic) \<Rightarrow> (with_process runtime p, Panicked)
           | (p, Inl (Err error)) \<Rightarrow>
               (with_process runtime p, Ok (Write_StdinFlushFailed (ioe_kind error) (ioe_message error)))
           | (p, Inr _) \<Rightarrow> (with_process runtime p, Ok (Write_FrameAccepted (length frame_bytes))))))"

definition read_annex_b_bytes ::
  "'p ProcessIo \<Rightarrow> 'p encoder_runtime \<Rightarrow> nat \<Rightarrow>
     'p encoder_runtime \<times> (ClientPersistentFfmpegH264EncoderReadResult, unit) result" where
  "read_annex_b_bytes io runtime requested_len =
     (if requested_len = 0 then (runtime, Ok (Read_InvalidReadRequest requested_len))
      else if \<not> child_stdout (rt_child runtime) then (runtime, Ok Read_StdoutClosed)
      else (case stdout_read io requested_len (child_process (rt_child runtime)) of
        (p, Inl Panic) \<Rightarrow> (with_process runtime p, Panicked)
      | (p, Inl (Err error)) \<Rightarrow>
          (with_process runtime p, Ok (Read_StdoutReadFailed (ioe_kind error) (ioe_message error)))
      | (p, Inr bytes) \<Rightarrow>
          if bytes = []
          then (runtime \<lparr> rt_child := (rt_child runtime) \<lparr> child_stdout := False, child_process := stdout_close io p \<rparr> \<rparr>,
            Ok Read_StdoutClosed)
          else (with_process runtime p, Ok (Read_AnnexBBytes bytes))))"

text \<open>\<open>String::from_utf8_lossy\<close>: a part that is no character becomes one replacement character.\<close>

definition utf8_bad_len :: "u8 list \<Rightarrow> nat" where
  "utf8_bad_len bs =
     (case bs of
        b # c # rest \<Rightarrow>
          if 2 < utf8_width b \<and> utf8_second_ok b c
          then 2 + length (takeWhile utf8_cont (take (utf8_width b - 3) rest)) else 1
      | _ \<Rightarrow> 1)"

function utf8_lossy :: "u8 list \<Rightarrow> u8 list" where
  "utf8_lossy bs =
     (if bs = [] then []
      else if utf8_char_len bs = 0 then [0xEF, 0xBF, 0xBD] @ utf8_lossy (drop (utf8_bad_len bs) bs)
      else take (utf8_char_len bs) bs @ utf8_lossy (drop (utf8_char_len bs) bs))"
  by pat_completeness auto
termination
  by (relation "measure length") (auto simp: utf8_bad_len_def split: list.split)

declare utf8_lossy.simps [simp del]

definition drain_child_stderr ::
  "'p ProcessIo \<Rightarrow> 'p Child \<Rightarrow> 'p Child \<times> (string, io_Error) result" where
  "drain_child_stderr io child =
     (if \<not> child_stderr child then (child, Ok '''')
      else (case stderr_read_to_end io (child_process child) of
        (p, r) \<Rightarrow> (child \<lparr> child_stderr := False, child_process := p \<rparr>,
          rmap (\<lambda>stderr_bytes. trim (of_bytes (utf8_lossy stderr_bytes))) r)))"

definition shutdown_wait ::
  "'p ProcessIo \<Rightarrow> 'p Child \<Rightarrow> u8 list \<Rightarrow> string \<Rightarrow>
     'p Child \<times> (ClientPersistentFfmpegH264EncoderShutdownResult, unit) result" where
  "shutdown_wait io child remaining_annex_b_bytes stderr =
     (case process_wait io (child_process child) of
        (p, r) \<Rightarrow> (child \<lparr> child_process := p \<rparr>,
          case r of
            Inl Panic \<Rightarrow> Panicked
          | Inl (Err error) \<Rightarrow> Ok (Shutdown_WaitFailed (ioe_message error) remaining_annex_b_bytes stderr)
          | Inr (success, code) \<Rightarrow>
              Ok (if success then Shutdown_ExitedCleanly code remaining_annex_b_bytes stderr
                  else Shutdown_ExitedNonZero code remaining_annex_b_bytes stderr)))"

definition shutdown_stderr ::
  "'p ProcessIo \<Rightarrow> 'p Child \<Rightarrow> u8 list \<Rightarrow>
     'p Child \<times> (ClientPersistentFfmpegH264EncoderShutdownResult, unit) result" where
  "shutdown_stderr io child remaining_annex_b_bytes =
     (case drain_child_stderr io child of
        (child, Inl Panic) \<Rightarrow> (child, Panicked)
      | (child, Inl (Err error)) \<Rightarrow>
          (child, Ok (Shutdown_StderrDrainFailed (ioe_kind error) (ioe_message error) remaining_annex_b_bytes))
      | (child, Inr stderr) \<Rightarrow> shutdown_wait io child remaining_annex_b_bytes stderr)"

definition ClientPersistentFfmpegH264EncoderRuntime_shutdown ::
  "'p ProcessIo \<Rightarrow> 'p encoder_runtime \<Rightarrow>
     'p Child \<times> (ClientPersistentFfmpegH264EncoderShutdownResult, unit) result" where
  "ClientPersistentFfmpegH264EncoderRuntime_shutdown io runtime =
     (let child = rt_child runtime;
          child = (if child_stdin child
            then child \<lparr> child_stdin := False, child_process := stdin_close io (child_process child) \<rparr> else child) in
      if child_stdout child
      then (case stdout_read_to_end io (child_process child) of
        (p, r) \<Rightarrow>
          (let child = child \<lparr> child_stdout := False, child_process := p \<rparr> in
           case r of
             Inl Panic \<Rightarrow> (child, Panicked)
           | Inl (Err error) \<Rightarrow>
               (case drain_child_stderr io child of
                  (child, Inl Panic) \<Rightarrow> (child, Panicked)
                | (child, Inl (Err _)) \<Rightarrow>
                    (child, Ok (Shutdown_StdoutDrainFailed (ioe_kind error) (ioe_message error) ''''))
                | (child, Inr stderr) \<Rightarrow>
                    (child, Ok (Shutdown_StdoutDrainFailed (ioe_kind error) (ioe_message error) stderr)))
           | Inr remaining_annex_b_bytes \<Rightarrow> shutdown_stderr io child remaining_annex_b_bytes))
      else shutdown_stderr io child [])"

section \<open>The session\<close>

datatype ClientPersistentFfmpegH264AccessUnitReadStepResult =
    ReadStep_AccessUnit ClientAnnexBAccessUnit
  | ReadStep_NoCompleteAccessUnitYet nat
  | ReadStep_StdoutClosed
  | ReadStep_StdoutReadFailed io_ErrorKind string
  | ReadStep_InvalidReadRequest nat
  | ReadStep_MalformedStream ClientAnnexBAccessUnitReaderMalformedReason nat

datatype ClientPersistentFfmpegH264AccessUnitSessionStepResult =
    Session_AccessUnit ClientAnnexBAccessUnit
  | Session_NoCompleteAccessUnitYet nat
  | Session_InvalidFrameBytes nat nat
  | Session_StdinClosed
  | Session_StdinWriteFailed io_ErrorKind string
  | Session_StdinFlushFailed io_ErrorKind string
  | Session_StdoutReadFailed io_ErrorKind string
  | Session_InvalidReadRequest nat
  | Session_MalformedStream ClientAnnexBAccessUnitReaderMalformedReason nat
  | Session_StreamEnded ClientAnnexBAccessUnitReaderFinishResult ClientPersistentFfmpegH264EncoderShutdownResult
  | Session_RuntimeClosed

definition feed_stdout_read_result ::
  "ClientAnnexBAccessUnitReaderState \<Rightarrow> ClientPersistentFfmpegH264EncoderReadResult \<Rightarrow>
     ClientAnnexBAccessUnitReaderState \<times> (ClientPersistentFfmpegH264AccessUnitReadStepResult, unit) result" where
  "feed_stdout_read_result st read_result =
     (case read_result of
        Read_AnnexBBytes bytes \<Rightarrow>
          (let (st, _) = ClientAnnexBAccessUnitReaderState_append_bytes st bytes in
           apsnd (rmap (\<lambda>poll. case poll of
                Poll_AccessUnit access_unit \<Rightarrow> ReadStep_AccessUnit access_unit
              | Poll_NoCompleteAccessUnitYet n \<Rightarrow> ReadStep_NoCompleteAccessUnitYet n
              | Poll_MalformedStream reason n \<Rightarrow> ReadStep_MalformedStream reason n))
             (ClientAnnexBAccessUnitReaderBoundary_poll_access_unit st))
      | Read_StdoutClosed \<Rightarrow> (st, Ok ReadStep_StdoutClosed)
      | Read_StdoutReadFailed kind message \<Rightarrow> (st, Ok (ReadStep_StdoutReadFailed kind message))
      | Read_InvalidReadRequest requested_len \<Rightarrow> (st, Ok (ReadStep_InvalidReadRequest requested_len)))"

definition map_read_step_to_session_result ::
  "ClientPersistentFfmpegH264AccessUnitReadStepResult \<Rightarrow> ClientPersistentFfmpegH264AccessUnitSessionStepResult" where
  "map_read_step_to_session_result step =
     (case step of
        ReadStep_AccessUnit access_unit \<Rightarrow> Session_AccessUnit access_unit
      | ReadStep_NoCompleteAccessUnitYet n \<Rightarrow> Session_NoCompleteAccessUnitYet n
      | ReadStep_StdoutClosed \<Rightarrow> Session_RuntimeClosed
      | ReadStep_StdoutReadFailed kind message \<Rightarrow> Session_StdoutReadFailed kind message
      | ReadStep_InvalidReadRequest requested_len \<Rightarrow> Session_InvalidReadRequest requested_len
      | ReadStep_MalformedStream reason n \<Rightarrow> Session_MalformedStream reason n)"

record 'p ClientPersistentFfmpegH264AccessUnitSession =
  ses_runtime :: "'p encoder_runtime option"
  ses_reader_state :: ClientAnnexBAccessUnitReaderState
  ses_stdout_read_len :: nat

type_synonym 'p encoder_session = "'p ClientPersistentFfmpegH264AccessUnitSession"

definition ClientPersistentFfmpegH264AccessUnitBoundary_new_session ::
  "'p encoder_runtime \<Rightarrow> nat \<Rightarrow> 'p encoder_session" where
  "ClientPersistentFfmpegH264AccessUnitBoundary_new_session runtime stdout_read_len =
     \<lparr> ses_runtime = Some runtime, ses_reader_state = ClientAnnexBAccessUnitReaderState_default,
       ses_stdout_read_len = stdout_read_len \<rparr>"

definition shutdown_result_remaining_annex_b_bytes ::
  "ClientPersistentFfmpegH264EncoderShutdownResult \<Rightarrow> u8 list option" where
  "shutdown_result_remaining_annex_b_bytes r =
     (case r of
        Shutdown_ExitedCleanly _ remaining _ \<Rightarrow> Some remaining
      | Shutdown_ExitedNonZero _ remaining _ \<Rightarrow> Some remaining
      | Shutdown_StderrDrainFailed _ _ remaining \<Rightarrow> Some remaining
      | Shutdown_WaitFailed _ remaining _ \<Rightarrow> Some remaining
      | Shutdown_StdoutDrainFailed _ _ _ \<Rightarrow> None)"

definition finish_runtime_after_close ::
  "'p ProcessIo \<Rightarrow> 'p encoder_session \<Rightarrow>
     'p encoder_session \<times> (ClientPersistentFfmpegH264AccessUnitSessionStepResult, unit) result" where
  "finish_runtime_after_close io session =
     (case ses_runtime session of
        None \<Rightarrow> (session, Ok Session_RuntimeClosed)
      | Some runtime \<Rightarrow>
          (let session = session \<lparr> ses_runtime := None \<rparr> in
           case snd (ClientPersistentFfmpegH264EncoderRuntime_shutdown io runtime) of
             Inl e \<Rightarrow> (session, Inl e)
           | Inr shutdown_result \<Rightarrow>
               (let st = (case shutdown_result_remaining_annex_b_bytes shutdown_result of
                      Some remaining_bytes \<Rightarrow>
                        fst (ClientAnnexBAccessUnitReaderState_append_bytes (ses_reader_state session) remaining_bytes)
                    | None \<Rightarrow> ses_reader_state session);
                    (st, finish_result) = ClientAnnexBAccessUnitReaderBoundary_finish st in
                (session \<lparr> ses_reader_state := st \<rparr>,
                 rmap (\<lambda>finish_result. Session_StreamEnded finish_result shutdown_result) finish_result))))"

definition poll_stdout_once ::
  "'p ProcessIo \<Rightarrow> 'p encoder_session \<Rightarrow>
     'p encoder_session \<times> (ClientPersistentFfmpegH264AccessUnitSessionStepResult, unit) result" where
  "poll_stdout_once io session =
     (case ses_runtime session of
        None \<Rightarrow> (session, Ok Session_RuntimeClosed)
      | Some runtime \<Rightarrow>
          (case read_annex_b_bytes io runtime (ses_stdout_read_len session) of
             (runtime, Inl e) \<Rightarrow> (session \<lparr> ses_runtime := Some runtime \<rparr>, Inl e)
           | (runtime, Inr read_result) \<Rightarrow>
               (let (st, fed) = feed_stdout_read_result (ses_reader_state session) read_result;
                    session = session \<lparr> ses_runtime := Some runtime, ses_reader_state := st \<rparr> in
                case fed of
                  Inl e \<Rightarrow> (session, Inl e)
                | Inr ReadStep_StdoutClosed \<Rightarrow> finish_runtime_after_close io session
                | Inr step \<Rightarrow> (session, Ok (map_read_step_to_session_result step)))))"

definition submit_frame_and_poll_access_unit ::
  "'p ProcessIo \<Rightarrow> 'p encoder_session \<Rightarrow> u8 list \<Rightarrow>
     'p encoder_session \<times> (ClientPersistentFfmpegH264AccessUnitSessionStepResult, unit) result" where
  "submit_frame_and_poll_access_unit io session frame_bytes =
     (case ses_runtime session of
        None \<Rightarrow> (session, Ok Session_RuntimeClosed)
      | Some runtime \<Rightarrow>
          (case write_bgra_frame_bytes io runtime frame_bytes of
             (runtime, r) \<Rightarrow>
               (let session = session \<lparr> ses_runtime := Some runtime \<rparr> in
                case r of
                  Inl e \<Rightarrow> (session, Inl e)
                | Inr (Write_FrameAccepted _) \<Rightarrow> poll_stdout_once io session
                | Inr (Write_InvalidFrameBytes expected_len actual_len) \<Rightarrow>
                    (session, Ok (Session_InvalidFrameBytes expected_len actual_len))
                | Inr Write_StdinClosed \<Rightarrow> (session, Ok Session_StdinClosed)
                | Inr (Write_StdinWriteFailed kind message) \<Rightarrow> (session, Ok (Session_StdinWriteFailed kind message))
                | Inr (Write_StdinFlushFailed kind message) \<Rightarrow> (session, Ok (Session_StdinFlushFailed kind message)))))"

definition ClientPersistentFfmpegH264AccessUnitSession_shutdown ::
  "'p ProcessIo \<Rightarrow> 'p encoder_session \<Rightarrow> (ClientPersistentFfmpegH264AccessUnitSessionStepResult, unit) result" where
  "ClientPersistentFfmpegH264AccessUnitSession_shutdown io session = snd (finish_runtime_after_close io session)"

datatype 'p ClientPersistentFfmpegH264AccessUnitSessionStartResult =
    SessionStart_Started "'p encoder_session"
  | SessionStart_Failed ClientPersistentFfmpegH264EncoderStartErrorKind string

record ClientPersistentFfmpegH264AccessUnitSessionFactory =
  factory_runtime_config :: ClientFfmpegSoftwareH264EncoderConfig
  factory_stdout_read_len :: nat

definition CLIENT_PERSISTENT_FFMPEG_STDOUT_READ_LEN :: nat where
  "CLIENT_PERSISTENT_FFMPEG_STDOUT_READ_LEN = 64 * 1024"

definition ClientPersistentFfmpegH264AccessUnitSessionFactory_from_video_encoder_config ::
  "ClientVideoEncoderConfig \<Rightarrow> ClientPersistentFfmpegH264AccessUnitSessionFactory" where
  "ClientPersistentFfmpegH264AccessUnitSessionFactory_from_video_encoder_config encoder_config =
     \<lparr> factory_runtime_config =
         ClientFfmpegSoftwareH264EncoderConfig_from_video_encoder_config encoder_config,
       factory_stdout_read_len = CLIENT_PERSISTENT_FFMPEG_STDOUT_READ_LEN \<rparr>"

text \<open>Of the captured frame a session start reads the width, the height and the nominal frame rate.\<close>

definition start_session ::
  "'p ProcessIo \<Rightarrow> ClientPersistentFfmpegH264AccessUnitSessionFactory \<Rightarrow> u32 \<Rightarrow> u32 \<Rightarrow> u32 \<Rightarrow>
     ClientVideoEncoderConfig \<Rightarrow> ('p ClientPersistentFfmpegH264AccessUnitSessionStartResult, unit) result" where
  "start_session io factory width height fps_nominal encoder_config =
     rmap (\<lambda>r. case r of
         Start_Started runtime \<Rightarrow>
           SessionStart_Started (ClientPersistentFfmpegH264AccessUnitBoundary_new_session runtime
             (factory_stdout_read_len factory))
       | Start_Failed kind message \<Rightarrow> SessionStart_Failed kind message)
       (ClientPersistentFfmpegH264EncoderBoundary_start io
         \<lparr> start_input_width = width, start_input_height = height, start_input_fps_nominal = fps_nominal,
           start_encoder_config = encoder_config \<rparr>
         (factory_runtime_config factory))"

section \<open>Parameter sets\<close>

record ClientPersistentH264ParameterSetCache =
  sps_nal_units :: "u8 list list"
  pps_nal_units :: "u8 list list"

definition ClientPersistentH264ParameterSetCache_default :: ClientPersistentH264ParameterSetCache where
  "ClientPersistentH264ParameterSetCache_default = \<lparr> sps_nal_units = [], pps_nal_units = [] \<rparr>"

datatype ClientPersistentH264PreparedPayloadResult =
    Payload_Prepared "u8 list" bool bool
  | Payload_MissingParameterSets

definition observe_access_unit ::
  "ClientPersistentH264ParameterSetCache \<Rightarrow> ClientAnnexBAccessUnit \<Rightarrow> ClientPersistentH264ParameterSetCache" where
  "observe_access_unit cache access_unit =
     (let sps = map nal_bytes (filter (\<lambda>u. nal_kind u = Nal_Sps) (au_nal_units access_unit));
          cache = (if sps \<noteq> [] then cache \<lparr> sps_nal_units := sps \<rparr> else cache);
          pps = map nal_bytes (filter (\<lambda>u. nal_kind u = Nal_Pps) (au_nal_units access_unit)) in
      if pps \<noteq> [] then cache \<lparr> pps_nal_units := pps \<rparr> else cache)"

definition has_parameter_sets :: "ClientPersistentH264ParameterSetCache \<Rightarrow> bool" where
  "has_parameter_sets cache \<longleftrightarrow> sps_nal_units cache \<noteq> [] \<and> pps_nal_units cache \<noteq> []"

definition sps_count :: "ClientPersistentH264ParameterSetCache \<Rightarrow> u64" where
  "sps_count cache = word_of_nat (length (sps_nal_units cache))"

definition pps_count :: "ClientPersistentH264ParameterSetCache \<Rightarrow> u64" where
  "pps_count cache = word_of_nat (length (pps_nal_units cache))"

definition prepare_payload ::
  "ClientPersistentH264ParameterSetCache \<Rightarrow> ClientAnnexBAccessUnit \<Rightarrow> ClientPersistentH264PreparedPayloadResult" where
  "prepare_payload cache access_unit =
     (if au_contains_sps access_unit \<and> au_contains_pps access_unit
      then Payload_Prepared (au_bytes access_unit) False True
      else if \<not> list_ex (\<lambda>u. ClientAnnexBNalUnitKind_is_vcl (nal_kind u)) (au_nal_units access_unit)
      then Payload_Prepared (au_bytes access_unit) False (au_contains_sps access_unit \<or> au_contains_pps access_unit)
      else if \<not> has_parameter_sets cache then Payload_MissingParameterSets
      else
        (let of_kind = (\<lambda>kind. concat (map nal_bytes (filter (\<lambda>u. nal_kind u = kind) (au_nal_units access_unit))));
             sps = (if au_contains_sps access_unit then of_kind Nal_Sps else concat (sps_nal_units cache));
             pps = (if au_contains_pps access_unit then of_kind Nal_Pps else concat (pps_nal_units cache));
             others = concat (map nal_bytes
               (filter (\<lambda>u. nal_kind u \<noteq> Nal_Sps \<and> nal_kind u \<noteq> Nal_Pps) (au_nal_units access_unit))) in
         Payload_Prepared (sps @ pps @ others)
           (\<not> au_contains_sps access_unit \<or> \<not> au_contains_pps access_unit) True))"

end
