(* ===== verification/Annex_B_Feeding.thy ===== *)
theory Annex_B_Feeding
  imports Annex_B_Access_Units Client_Encoder_Session
begin

text \<open>
  The reader fed in pieces, as the session does it: no byte is lost or reordered, and the access
  units do not depend on where the stream was cut.
\<close>

section \<open>Polling and feeding\<close>

lemma au_bytes_access_unit_of [simp]: "au_bytes (access_unit_of bytes us) = bytes"
  by (simp add: access_unit_of_def)

lemma access_unit_ok_bytes: "access_unit_ok au \<Longrightarrow> au_bytes au \<noteq> []"
  unfolding access_unit_ok_def by (rule conjunct1)

lemma extract_bytes_cases:
  obtains (unchanged) r where "try_extract_annex_b_access_unit \<lparr> buffered_bytes = bs \<rparr> eof = (\<lparr> buffered_bytes = bs \<rparr>, r)"
      "r = Ok None \<or> (\<exists>e. r = Inl e)"
  | (found) au rest where
      "try_extract_annex_b_access_unit \<lparr> buffered_bytes = bs \<rparr> eof = (\<lparr> buffered_bytes = rest \<rparr>, Ok (Some au))"
      "bs = au_bytes au @ rest" "access_unit_ok au"
proof (cases rule: extract_cases [of "\<lparr> buffered_bytes = bs \<rparr>" eof])
  case (some e us)
  show ?thesis by (rule found [of "drop e bs"]) (use some in auto)
qed (use unchanged in auto)

lemma extract_shorter:
  "(st, Ok (Some au)) = try_extract_annex_b_access_unit \<lparr> buffered_bytes = bs \<rparr> eof \<Longrightarrow>
     length (buffered_bytes st) < length bs"
  by (cases rule: extract_bytes_cases [of bs eof]) (auto dest: access_unit_ok_bytes)

text \<open>The access units an unlimited number of polls finds in a buffer, and what they leave.\<close>

function access_units :: "u8 list \<Rightarrow> ClientAnnexBAccessUnit list \<times> u8 list" where
  "access_units bs =
     (case try_extract_annex_b_access_unit \<lparr> buffered_bytes = bs \<rparr> False of
        (st, Inr (Some au)) \<Rightarrow> apfst (Cons au) (access_units (buffered_bytes st))
      | _ \<Rightarrow> ([], bs))"
  by auto
termination by (relation "measure length") (auto dest: extract_shorter)

declare access_units.simps [simp del]

fun feed_chunks ::
  "ClientAnnexBAccessUnitReaderState \<Rightarrow> u8 list list \<Rightarrow> ClientAnnexBAccessUnit list \<times> ClientAnnexBAccessUnitReaderState" where
  "feed_chunks st [] = ([], st)"
| "feed_chunks st (bytes # chunks) =
     (case feed_stdout_read_result st (Read_AnnexBBytes bytes) of
        (st, Inr (ReadStep_AccessUnit au)) \<Rightarrow> apfst (Cons au) (feed_chunks st chunks)
      | (st, _) \<Rightarrow> feed_chunks st chunks)"

lemma feed_chunks_Cons:
  "feed_chunks st (bytes # chunks) =
    (case try_extract_annex_b_access_unit \<lparr> buffered_bytes = buffered_bytes st @ bytes \<rparr> False of
       (st, Inr (Some au)) \<Rightarrow> apfst (Cons au) (feed_chunks st chunks)
     | (st, _) \<Rightarrow> feed_chunks st chunks)"
proof -
  have eq: "st \<lparr> buffered_bytes := bs \<rparr> = \<lparr> buffered_bytes = bs \<rparr>" for bs by (cases st) simp
  show ?thesis
    by (simp add: eq feed_stdout_read_result_def ClientAnnexBAccessUnitReaderState_append_bytes_def
        ClientAnnexBAccessUnitReaderBoundary_poll_access_unit_def
        split: prod.split sum.split option.split fault.split)
qed

lemma feed_chunks_conserve:
  "feed_chunks st chunks = (aus, st') \<Longrightarrow>
     buffered_bytes st @ concat chunks = concat (map au_bytes aus) @ buffered_bytes st' \<and> list_all access_unit_ok aus"
proof (induction chunks arbitrary: st aus)
  case (Cons bytes chunks)
  show ?case
  proof (cases rule: extract_bytes_cases [of "buffered_bytes st @ bytes" False])
    case (unchanged r)
    have "feed_chunks \<lparr> buffered_bytes = buffered_bytes st @ bytes \<rparr> chunks = (aus, st')"
      using Cons.prems unchanged(2) by (auto simp: feed_chunks_Cons unchanged(1) simp del: feed_chunks.simps)
    then show ?thesis using Cons.IH by fastforce
  next
    case (found au rest)
    obtain aus' where aus': "feed_chunks \<lparr> buffered_bytes = rest \<rparr> chunks = (aus', st')" "aus = au # aus'"
      using Cons.prems found(1)
      by (cases "feed_chunks \<lparr> buffered_bytes = rest \<rparr> chunks") (simp add: feed_chunks_Cons del: feed_chunks.simps)
    have whole: "buffered_bytes st @ concat (bytes # chunks) = au_bytes au @ rest @ concat chunks"
      using found(2) by (metis append.assoc concat.simps(2))
    show ?thesis unfolding whole using Cons.IH [OF aus'(1)] aus'(2) found(3) by simp
  qed
qed simp

text \<open>A piece more does not change what is found, and what is left is again on a start code.\<close>

lemma feed_chunks_access_units:
  "chunks \<noteq> [] \<longrightarrow> (\<exists>n. start_code_at (buffered_bytes st @ hd chunks) 0 n) \<Longrightarrow>
   chunks \<noteq> [] \<longrightarrow> sound_stream (buffered_bytes st @ concat chunks) \<Longrightarrow>
   feed_chunks st chunks = (aus, st') \<Longrightarrow>
   access_units (buffered_bytes st @ concat chunks) = apfst ((@) aus) (access_units (buffered_bytes st'))"
proof (induction chunks arbitrary: st aus)
  case (Cons bytes chunks)
  obtain n where at: "start_code_at (buffered_bytes st @ bytes) 0 n" using Cons.prems(1) by auto
  have sound: "sound_stream ((buffered_bytes st @ bytes) @ concat chunks)" using Cons.prems(2) by simp
  have next_at: "\<exists>m. start_code_at (bs @ cs) 0 m" if "start_code_at bs 0 m" for bs cs m
    using that start_code_at_length [OF that] start_code_at_append [of 0 m bs cs] by auto
  show ?case
  proof (cases rule: extract_append [OF at sound])
    case 1
    then show ?thesis
      using Cons.IH [of "\<lparr> buffered_bytes = buffered_bytes st @ bytes \<rparr>" aus] next_at [OF at] sound Cons.prems(3)
      by (simp add: feed_chunks_Cons del: feed_chunks.simps)
  next
    case (2 au rest m)
    let ?rest = "\<lparr> buffered_bytes = rest \<rparr> :: ClientAnnexBAccessUnitReaderState"
    obtain aus' where aus': "feed_chunks ?rest chunks = (aus', st')" "aus = au # aus'"
      using Cons.prems(3) 2(1) by (cases "feed_chunks ?rest chunks") (simp add: feed_chunks_Cons del: feed_chunks.simps)
    have "access_units (buffered_bytes st @ bytes @ concat chunks) = apfst (Cons au) (access_units (rest @ concat chunks))"
      using 2(2) by (subst access_units.simps) simp
    then show ?thesis
      using Cons.IH [of ?rest aus'] next_at [OF 2(3)] 2(4) aus' by (simp add: apfst_twice)
  qed
qed (simp add: apfst_def map_prod_def case_prod_beta)

section \<open>Parameter sets\<close>

definition of_kind :: "ClientAnnexBNalUnitKind \<Rightarrow> ClientAnnexBNalUnit list \<Rightarrow> ClientAnnexBNalUnit list" where
  "of_kind kind us = filter (\<lambda>u. nal_kind u = kind) us"

text \<open>
  The parameter sets in force after a row of access units: those of the last one that has any of
  the kind.
\<close>

definition sets_in_force ::
  "ClientAnnexBNalUnitKind \<Rightarrow> ClientAnnexBAccessUnit list \<Rightarrow> ClientAnnexBNalUnit list" where
  "sets_in_force kind aus =
     (case filter (\<lambda>us. us \<noteq> []) (map (\<lambda>au. of_kind kind (au_nal_units au)) (rev aus)) of
        [] \<Rightarrow> []
      | latest # _ \<Rightarrow> latest)"

lemma sets_in_force_snoc:
  "sets_in_force kind (aus @ [au]) =
     (if of_kind kind (au_nal_units au) = [] then sets_in_force kind aus else of_kind kind (au_nal_units au))"
  by (simp add: sets_in_force_def)

lemma sets_in_force_Nil [simp]: "sets_in_force kind [] = []"
  by (simp add: sets_in_force_def)

text \<open>They are what the cache holds.\<close>

lemma observe_access_unit_sets:
  "sps_nal_units (observe_access_unit cache au) = (if of_kind Nal_Sps (au_nal_units au) = []
     then sps_nal_units cache else map nal_bytes (of_kind Nal_Sps (au_nal_units au)))"
  "pps_nal_units (observe_access_unit cache au) = (if of_kind Nal_Pps (au_nal_units au) = []
     then pps_nal_units cache else map nal_bytes (of_kind Nal_Pps (au_nal_units au)))"
  by (simp_all add: observe_access_unit_def of_kind_def Let_def)

lemma observed_cache:
  fixes aus
  defines "cache \<equiv> foldl observe_access_unit ClientPersistentH264ParameterSetCache_default aus"
  shows "sps_nal_units cache = map nal_bytes (sets_in_force Nal_Sps aus)"
    and "pps_nal_units cache = map nal_bytes (sets_in_force Nal_Pps aus)"
proof -
  have "sps_nal_units (foldl observe_access_unit ClientPersistentH264ParameterSetCache_default aus)
      = map nal_bytes (sets_in_force Nal_Sps aus) \<and>
    pps_nal_units (foldl observe_access_unit ClientPersistentH264ParameterSetCache_default aus)
      = map nal_bytes (sets_in_force Nal_Pps aus)"
  proof (induction aus rule: rev_induct)
    case Nil
    show ?case by (simp add: ClientPersistentH264ParameterSetCache_default_def)
  next
    case (snoc au aus)
    then show ?case by (simp add: sets_in_force_snoc observe_access_unit_sets)
  qed
  then show "sps_nal_units cache = map nal_bytes (sets_in_force Nal_Sps aus)"
    and "pps_nal_units cache = map nal_bytes (sets_in_force Nal_Pps aus)"
    by (simp_all add: cache_def)
qed

section \<open>Properties\<close>

text \<open>
  C9: However the encoder's output is cut, no byte of it is lost, repeated or moved: the bytes fed
  are the bytes of the access units read, one behind the other, and what the reader still holds.
  Every access unit read is made of whole NAL units, has a picture slice, and its flags say what
  parameter sets and slices it has. Well-formedness of the stream plays no part.
\<close>

theorem feeding_is_lossless:
  "let (aus, st') = feed_chunks st chunks in
     buffered_bytes st @ concat chunks = concat (map au_bytes aus) @ buffered_bytes st' \<and> list_all access_unit_ok aus"
  using feed_chunks_conserve [of st chunks] by (simp add: Let_def split: prod.split)

text \<open>
  C8: The pieces in which the encoder's output arrives do not matter. When every NAL unit complete
  in the stream is well formed and the first piece holds at least the four bytes of a start code,
  feeding the pieces yields the access units that polling the whole stream would find, in the same
  order; those not yet read are the ones visible in what the reader still holds.
\<close>

theorem pieces_do_not_matter:
  assumes "4 \<le> length bytes"
    and "parse_annex_b_nal_descriptors (concat (bytes # chunks)) False = Ok ds"
    and "feed_chunks ClientAnnexBAccessUnitReaderState_default (bytes # chunks) = (aus, st')"
  shows "access_units (concat (bytes # chunks)) =
    (aus @ fst (access_units (buffered_bytes st')), snd (access_units (buffered_bytes st')))"
proof -
  have whole: "sound_stream (concat (bytes # chunks))" using assms(1,2) by (auto simp: sound_stream_iff)
  then obtain n where at: "start_code_at (concat (bytes # chunks)) 0 n" by (auto simp: sound_stream_def)
  then have "start_code_at bytes 0 n"
    using start_code_at_length [OF at] assms(1) start_code_at_append [of 0 n bytes "concat chunks"] by auto
  then show ?thesis
    using feed_chunks_access_units [of "bytes # chunks" ClientAnnexBAccessUnitReaderState_default aus st'] whole assms(3)
    by (auto simp: ClientAnnexBAccessUnitReaderState_default_def apfst_def map_prod_def case_prod_beta simp del: feed_chunks.simps)
qed

lemma pieces_do_not_matter_witness:
  "map au_bytes (fst (access_units (concat [[0, 0, 1, 0x65, 0x88, 0], [0, 1, 0x41, 0x9A, 0, 0, 1]]))) = [[0, 0, 1, 0x65, 0x88]]"
proof -
  let ?first = "[0, 0, 1, 0x65, 0x88, 0] :: u8 list" and ?second = "[0, 1, 0x41, 0x9A, 0, 0, 1] :: u8 list"
  let ?rest = "[0, 0, 1, 0x41, 0x9A, 0, 0, 1] :: u8 list"
  have one: "try_extract_annex_b_access_unit \<lparr> buffered_bytes = ?first \<rparr> False = (\<lparr> buffered_bytes = ?first \<rparr>, Ok None)"
    "try_extract_annex_b_access_unit \<lparr> buffered_bytes = ?rest \<rparr> False = (\<lparr> buffered_bytes = ?rest \<rparr>, Ok None)"
    by code_simp+
  have "case try_extract_annex_b_access_unit \<lparr> buffered_bytes = ?first @ ?second \<rparr> False of
      (st, Inr (Some au)) \<Rightarrow> st = \<lparr> buffered_bytes = ?rest \<rparr> \<and> au_bytes au = [0, 0, 1, 0x65, 0x88] | _ \<Rightarrow> False"
    by code_simp
  then obtain au where two: "try_extract_annex_b_access_unit \<lparr> buffered_bytes = ?first @ ?second \<rparr> False =
      (\<lparr> buffered_bytes = ?rest \<rparr>, Ok (Some au))" "au_bytes au = [0, 0, 1, 0x65, 0x88]"
    by (auto split: prod.splits sum.splits option.splits)
  have fed: "feed_chunks ClientAnnexBAccessUnitReaderState_default [?first, ?second] = ([au], \<lparr> buffered_bytes = ?rest \<rparr>)"
    using one two(1) by (simp add: feed_chunks_Cons ClientAnnexBAccessUnitReaderState_default_def del: feed_chunks.simps(2))
  have rest: "fst (access_units ?rest) = []" by (subst access_units.simps) (simp add: one)
  have "case parse_annex_b_nal_descriptors (concat [?first, ?second]) False of Inr _ \<Rightarrow> True | Inl _ \<Rightarrow> False" by code_simp
  then obtain ds where "parse_annex_b_nal_descriptors (concat [?first, ?second]) False = Ok ds" by (auto split: sum.splits)
  from pieces_do_not_matter [OF _ this fed] show ?thesis using rest two(2) by simp
qed

text \<open>
  C10: Every payload that is prepared carries the parameter sets in force: those of the last access
  unit, up to and including the one to be sent, in which the encoder wrote any of the kind. An
  access unit that has sequence and picture parameter sets of its own is sent unchanged. Any other
  is sent as the sequence parameter sets in force, the picture parameter sets in force, and then all
  its other NAL units in order, so the sets stand before the slices; it is withheld exactly when
  there are none of one kind.
\<close>

theorem payloads_carry_sets_in_force:
  assumes "access_unit_ok au"
  shows "let cache = foldl observe_access_unit ClientPersistentH264ParameterSetCache_default (aus @ [au]);
      sps = sets_in_force Nal_Sps (aus @ [au]); pps = sets_in_force Nal_Pps (aus @ [au]);
      own = (\<lambda>kind. of_kind kind (au_nal_units au) \<noteq> []);
      others = filter (\<lambda>u. nal_kind u \<noteq> Nal_Sps \<and> nal_kind u \<noteq> Nal_Pps) (au_nal_units au) in
    prepare_payload cache au =
      (if sps = [] \<or> pps = [] then Payload_MissingParameterSets
       else if own Nal_Sps \<and> own Nal_Pps
       then Payload_Prepared (concat (map nal_bytes (au_nal_units au))) False True
       else Payload_Prepared (concat (map nal_bytes (sps @ pps @ others))) True True)"
proof -
  let ?us = "au_nal_units au"
  have flags: "au_contains_sps au \<longleftrightarrow> of_kind Nal_Sps ?us \<noteq> []" "au_contains_pps au \<longleftrightarrow> of_kind Nal_Pps ?us \<noteq> []"
    and vcl: "list_ex (\<lambda>u. ClientAnnexBNalUnitKind_is_vcl (nal_kind u)) ?us" and bytes: "au_bytes au = concat (map nal_bytes ?us)"
    using assms by (auto simp: access_unit_ok_def of_kind_def filter_empty_conv list_ex_iff)
  show ?thesis
    unfolding Let_def prepare_payload_def has_parameter_sets_def observed_cache flags of_kind_def [symmetric]
    using vcl by (auto simp: bytes sets_in_force_snoc)
qed

definition sample_nal :: "u8 \<Rightarrow> u8 list \<Rightarrow> ClientAnnexBNalUnit" where
  "sample_nal header payload = \<lparr> nal_bytes = [0, 0, 1, header] @ payload, nal_start_code_len = 3,
     nal_kind = ClientAnnexBNalUnitKind_from_nal_unit_type (header AND 0x1F), nal_unit_type = header AND 0x1F,
     nal_first_mb_in_slice = None \<rparr>"

lemma payloads_carry_sets_in_force_witness:
  "let stale = access_unit_of [] (map (\<lambda>h. sample_nal h [7]) [0x67, 0x68, 0x65]);
       keyframe = access_unit_of [] (map (\<lambda>h. sample_nal h [1]) [0x67, 0x68, 0x65]);
       delta = access_unit_of [0, 0, 1, 0x41, 0x9A] [sample_nal 0x41 [0x9A]] in
   prepare_payload (foldl observe_access_unit ClientPersistentH264ParameterSetCache_default [stale, keyframe, delta]) delta =
     Payload_Prepared [0, 0, 1, 0x67, 1, 0, 0, 1, 0x68, 1, 0, 0, 1, 0x41, 0x9A] True True"
proof -
  let ?stale = "access_unit_of [] (map (\<lambda>h. sample_nal h [7]) [0x67, 0x68, 0x65])"
    and ?keyframe = "access_unit_of [] (map (\<lambda>h. sample_nal h [1]) [0x67, 0x68, 0x65])"
    and ?delta = "access_unit_of [0, 0, 1, 0x41, 0x9A] [sample_nal 0x41 [0x9A]]"
  have "access_unit_ok ?delta" by code_simp
  moreover have "sets_in_force Nal_Sps [?stale, ?keyframe, ?delta] = [sample_nal 0x67 [1]]"
    "sets_in_force Nal_Pps [?stale, ?keyframe, ?delta] = [sample_nal 0x68 [1]]"
    "of_kind Nal_Sps (au_nal_units ?delta) = []" "au_nal_units ?delta = [sample_nal 0x41 [0x9A]]"
    "filter (\<lambda>u. nal_kind u \<noteq> Nal_Sps \<and> nal_kind u \<noteq> Nal_Pps) [sample_nal 0x41 [0x9A]] = [sample_nal 0x41 [0x9A]]"
    by code_simp+
  ultimately show ?thesis
    using payloads_carry_sets_in_force [of ?delta "[?stale, ?keyframe]"] unfolding Let_def by (simp add: sample_nal_def)
qed

text \<open>
  At the end of the stream only one access unit is read, though the buffer holds two; and a first
  piece of three bytes is refused, though it is the beginning of a start code.
\<close>

theorem finish_reads_one_access_unit:
  "case ClientAnnexBAccessUnitReaderBoundary_finish
      \<lparr> buffered_bytes = [0, 0, 1, 0x65, 0x88, 0, 0, 1, 0x41, 0x9A, 0, 0, 1, 0x41, 0x9A] \<rparr> of
     (st, Inr (Finish_AccessUnit au)) \<Rightarrow> au_bytes au = [0, 0, 1, 0x65, 0x88] \<and> buffered_bytes st \<noteq> []
   | _ \<Rightarrow> False"
  by code_simp

theorem short_first_read_is_malformed:
  "feed_stdout_read_result ClientAnnexBAccessUnitReaderState_default (Read_AnnexBBytes [0, 0, 0]) =
     (\<lparr> buffered_bytes = [0, 0, 0] \<rparr>, Ok (ReadStep_MalformedStream Malformed_MissingStartCode 3))"
  by code_simp

end
