(* ===== verification/Spec2Isabelle.thy ===== *)
theory Spec2Isabelle
  imports Net_Outbound Timebase Config_Roundtrip Server_Auth Server_Registry Server_Heartbeat Server_Rtt
    Server_Video_Queue Server_Reassembly Client_Video Video_Path
    Switcher_Canvas Server_Turn Server_Log_Lines Server_Startup Server_Run Server_Arrivals
    Annex_B_Syntax Annex_B_Feeding
begin

text \<open>
  StreamSync sends camera video from clients to a server, which hands the queued frames to a
  switcher. This development models the Rust crates of the repository that carry that path and
  its control traffic, and proves what they promise each other.

  \<^bold>\<open>The program.\<close> A client authenticates, then sends heartbeats, statistics and H.264 frames as
  UDP packets (crates/protocol: a 16-byte header and a payload per message type). A frame that
  does not fit a datagram is cut into fragments (apps/client/src/lib.rs). The server decodes
  each packet (crates/net-core), routes it, checks the token of an authentication request
  against its TOML configuration (crates/config), binds the client to its endpoint and run, and
  lets only registered packets reach the handlers. It reassembles fragments, keeps a bounded
  queue of frames per client and the newest keyframe per client and run, answers the switcher's
  requests for queued frames over a framed byte stream, tracks heartbeats, removes clients that
  have timed out, and estimates the round trip and clock offset of each client (crates/timebase).

  \<^bold>\<open>Theories and sources.\<close>
  Prelude: results with panics as values, machine sizes, little-endian bytes, UTF-8.
  Rust\_Str, Ordered\_Map: the string operations and the BTreeMap the code uses.
  Byte\_Parser: readers over a byte slice and the two facts every codec proof needs, that a
  reader inverts its encoding (parses) and accepts nothing else without panic (sound).
  Protocol\_Types, \_Reader, \_Header, \_Control, \_Media, \_Dispatch: crates/protocol/src/lib.rs.
  Net\_Packets, Net\_Outbound, Handoff\_Codec, Handoff\_Frames: crates/net-core/src/lib.rs.
  Timebase: crates/timebase/src/lib.rs. Config\_Toml, Config\_Roundtrip: crates/config/src/lib.rs
  and the pipe name check of crates/net-core.
  Server\_Auth, Server\_Registry, Server\_Heartbeat, Server\_Rtt, Server\_Video\_Queue,
  Server\_Reassembly: the parts of apps/server/src/lib.rs they are named after.
  Client\_Video: the video send path of apps/client/src/lib.rs. Client\_Annex\_B: its reader of the
  encoder's H.264 stream. Client\_Encoder\_Session: the session with the encoder process and the
  parameter-set cache. Annex\_B\_Stream, \_Access\_Units: where start codes, NAL units and access
  units of a buffer are. Annex\_B\_Syntax: what a writer's stream reads back as.
  Annex\_B\_Feeding: the reader fed in pieces.
  Server\_Json, Server\_Receive\_Log, Server\_Receive\_Loop, Server\_Send\_Log, Server\_Dispatch: one
  turn of the server, apps/server/src/lib.rs: receiving, gating, logging, dispatching and sending
  one datagram. Server\_Turn: what the turn amounts to. Json\_Roundtrip, Server\_Log\_Lines: what a
  reader of JSON finds in the log lines. Rust\_Io: errors and writers of the standard library.
  Server\_Settings, Server\_Launch: the startup file, the sinks of the JSON logs
  (crates/logging/src/lib.rs) and the launchers of one request, one turn and two turns.
  Server\_Startup: a startup file loads back. Server\_Runtime: the continuous run, its drain
  cycles, what it commits and counts after each turn. Server\_Run: what such a run amounts to.
  Server\_Arrivals: the same run when any call of the socket, the clock or the writers may fail,
  and what it leaves of a client's last heartbeat.
  Server\_Handoff\_Pipe: serving handoff requests over a pipe, apps/server/src/lib.rs.
  Switcher\_Source, Switcher\_Pipe, Switcher\_Target\_Time, Switcher\_Jitter\_Buffer,
  Switcher\_Canvas: the parts of apps/switcher/src/lib.rs they are named after. Handoff\_Path: the
  two contracts a reader of queued frames may rely on, and that the pipe keeps them.
  Video\_Path: the way of a frame through client, server and switcher. This root theory: the
  properties of packets and handoff frames as a whole.

  \<^bold>\<open>How code is modelled.\<close> A struct is a record (with a field prefix of its own), an enum a
  datatype, an integer a word of its width, usize a natural number with the checked and
  narrowing conversions written out, a string the list of its UTF-8 bytes. A method
  \<open>T::m\<close> is the definition \<open>T_m\<close>; state that a method changes is an argument and a
  component of the result. An operation that can fail returns a sum whose left side is an error
  of the code or \<open>Panicked\<close>, so each early return and each index, slice or conversion that can
  panic is a branch. Sockets, clocks, the environment and log writers are arguments.

  \<^bold>\<open>What the lemmas show.\<close> The codecs: encoding and decoding are inverse, the decoder
  accepts only canonical bytes and never panics (locales \<open>wire_enum\<close>, \<open>payload_codec\<close>,
  \<open>message_encoder\<close>, \<open>framed_codec\<close>). The stores: the registry follows the last event of a
  client (\<open>sender_registry\<close>), a queue holds the newest frames (\<open>frame_store\<close>), maps behave as
  maps (\<open>ordered_map\<close>). The handlers: authentication accepts exactly a listed client with its
  token, handlers see only packets of the registered endpoint and run, a timeout pass removes
  exactly the clients whose time is up, the switcher handler answers every request. A turn of the
  server refines the specification \<open>reaction\<close>: which registry it leaves and which reply it owes.
  A continuous run over a socket is that specification iterated over the datagrams the socket
  holds (\<open>server_step\<close>, \<open>served\<close>), so a camera's frame reaches the queue; whatever fails, a run that
  ends well has registered and queued for nobody without a token, and a run with a limit ends
  whatever the socket does. Each log line reads back as the object it is meant to be. The video
  path: fragments of a frame, in any order and with repetitions, complete it. The encoder's
  stream: no byte is lost between its output and the access units, the cuts between reads do not
  matter, a stream written as the standard says reads back, and what is sent begins with the
  parameter sets in force. The switcher: what
  it reads over the pipe is what it would read in process (locales \<open>queued_frame_handoff\<close> and
  \<open>queued_frame_source\<close>, interpreted on the in-process queue and on the pipe), the target-time
  and jitter-buffer selections are characterised by the frames in the queue, and every byte of a
  composed canvas is known. Where the code falls short, a theorem shows it at an input.

  \<^bold>\<open>Bounds and fuel.\<close> Functions are total; loops recurse on a list or on the length of the
  rest. The two loops whose end depends on their source are partial functions into option: the
  late-frame pass ends with the queue it reads (\<open>late_prefix_is_dropped\<close>), the drain cycles of a
  run end with the socket's datagrams or at the iteration limit (\<open>run_serves_inbox\<close>,
  \<open>limited_run_ends\<close>). The difference of
  two times \<open>as i64\<close> wraps here as in a release build; a debug build panics where it overflows. A received packet is shorter than \<open>2 ^ 64\<close> bytes, a payload shorter than \<open>2 ^ 32\<close>: the
  bounds of a length in memory and of the header's length field.

  \<^bold>\<open>Not modelled.\<close> UDP and pipe I/O themselves, the server's bounded and auth-video-queue
  launchers (further loops over the same turn), command lines, the summary lines the binaries
  print, video capture, what the encoder and decoder processes do, windows and GPU output, the live
  runtimes that connect them, and the client's control loop.
\<close>

section \<open>Packets\<close>

text \<open>
  C14: A message in range that is sent through the encoder boundary arrives at a receiver of the
  same protocol version as the message that was sent.
\<close>

theorem sent_message_arrives:
  assumes "message_wf (ec_protocol_version (oer_context r)) (oer_message r)"
    and "length (message_bytes (oer_message r)) < 2 ^ 32"
  shows "\<exists>packet. OutboundPacketEncoderBoundary_encode_with
        ProtocolMessageEncoderBoundary_encode_message r = Ok packet \<and>
    eop_destination packet = oer_destination r \<and>
    (\<forall>source. InboundPacketDecoder_decode
       \<lparr> dc_expected_protocol_version = ec_protocol_version (oer_context r) \<rparr>
       \<lparr> ib_source = source, ib_bytes = eop_bytes packet \<rparr>
     = Ok \<lparr> dip_source = source, dip_message = oer_message r \<rparr>)"
  by (rule boundary.encode_with_delivers [OF assms])

definition sample_fragment :: VideoFrameFragment where
  "sample_fragment = \<lparr> vff_message_type = MessageType_VideoFrameFragment, vff_protocol_version = 1,
     vff_client_id = ''cam-1'', vff_run_id = ''run-1'', vff_frame_id = 7,
     vff_capture_timestamp = 1000, vff_is_keyframe = True, vff_width = 640, vff_height = 360,
     vff_fps_nominal = 30, vff_total_payload_len = 3, vff_chunk_index = 0, vff_chunk_count = 2,
     vff_chunk_payload_len = 2, vff_chunk_payload = [1, 2] \<rparr>"

lemma sent_message_arrives_witness:
  "\<exists>packet. OutboundPacketEncoderBoundary_encode_with ProtocolMessageEncoderBoundary_encode_message
      \<lparr> oer_destination = \<lparr> dst_address = SocketAddrV4 0x0A000001 5000 \<rparr>, oer_context = \<lparr> ec_protocol_version = 1 \<rparr>,
        oer_message = Message_VideoFrameFragment sample_fragment \<rparr> = Ok packet"
  using sent_message_arrives [of "\<lparr> oer_destination = \<lparr> dst_address = SocketAddrV4 0x0A000001 5000 \<rparr>,
      oer_context = \<lparr> ec_protocol_version = 1 \<rparr>,
      oer_message = Message_VideoFrameFragment sample_fragment \<rparr>"]
  by (auto simp: sample_fragment_def video_frame_fragment_wf_def string_fits_def sample_utf8
      video_frame_fragment_bytes_def string_bytes_def bool_bytes_def)

text \<open>
  C15: The receive path accepts exactly the packets of well-formed messages of the expected
  version: the bytes of an accepted packet are the header and the encoding of the message it is
  decoded to, with any flags and reserved field.
\<close>

theorem accepted_bytes_are_canonical:
  assumes "length (ib_bytes p) < usize_bound"
  shows "InboundPacketDecoder_decode ctx p = Ok d \<longleftrightarrow>
    dip_source d = ib_source p \<and> length (message_bytes (dip_message d)) < 2 ^ 32 \<and>
    message_wf (dc_expected_protocol_version ctx) (dip_message d) \<and>
    (\<exists>flags reserved. ib_bytes p =
       packet_of (dc_expected_protocol_version ctx) (dip_message d) flags reserved)"
  by (rule inbound_decode_Ok_iff [OF assms])

lemma accepted_bytes_are_canonical_witness:
  "InboundPacketDecoder_decode \<lparr> dc_expected_protocol_version = 1 \<rparr>
     \<lparr> ib_source = \<lparr> src_address = SocketAddrV4 0x0A000001 5000 \<rparr>,
       ib_bytes = packet_of 1 (Message_VideoFrameFragment sample_fragment) 5 6 \<rparr>
   = Ok \<lparr> dip_source = \<lparr> src_address = SocketAddrV4 0x0A000001 5000 \<rparr>,
          dip_message = Message_VideoFrameFragment sample_fragment \<rparr>"
  by (subst accepted_bytes_are_canonical)
    (auto simp: sample_fragment_def video_frame_fragment_wf_def string_fits_def sample_utf8 usize_bound_def
      video_frame_fragment_bytes_def string_bytes_def bool_bytes_def)

text \<open>
  C29: Whatever bytes arrive, the receive path returns a message or an error: it never panics.
\<close>

theorem receiving_never_panics:
  assumes "length (ib_bytes p) < usize_bound"
  shows "InboundPacketDecoder_decode ctx p \<noteq> Panicked"
  by (rule inbound_decode_no_panic [OF assms])

lemma receiving_never_panics_witness:
  "InboundPacketDecoder_decode \<lparr> dc_expected_protocol_version = 1 \<rparr>
     \<lparr> ib_source = \<lparr> src_address = SocketAddrV4 0x0A000001 5000 \<rparr>, ib_bytes = [1, 2, 3] \<rparr> \<noteq> Panicked"
  by (rule receiving_never_panics) (simp add: usize_bound_def)

section \<open>Handoff frames\<close>

text \<open>
  C16: What the switcher asks and what the server answers arrives unchanged: a request in range
  is encoded to a frame that decodes to it, and a response in range likewise.
\<close>

theorem handoff_frames_roundtrip:
  assumes "request_wf request" and "length (request_body request) < 2 ^ 32"
    and "response_wf response" and "length (response_body response) < 2 ^ 32"
  shows "\<exists>rq rs. encode_request_frame request = Ok rq \<and> decode_request_frame rq = Ok request \<and>
    encode_response_frame response = Ok rs \<and> decode_response_frame rs = Ok response"
  using request.encode_wf_succeeds [OF assms(1,2)] response.encode_wf_succeeds [OF assms(3,4)]
    request.roundtrip [OF assms(1)] response.roundtrip [OF assms(3)] by blast

definition sample_request :: HandoffRequest where
  "sample_request = \<lparr> hreq_handoff_version = 1, hreq_request_id = 7, hreq_client_id = ''cam-1'',
     hreq_run_id = ''run-1'', hreq_read_mode = DequeueOldest \<rparr>"

lemma handoff_frames_roundtrip_witness:
  "\<exists>rq rs. encode_request_frame sample_request = Ok rq \<and>
     encode_response_frame (HandoffError 7 InvalidScope) = Ok rs \<and>
     decode_response_frame rs = Ok (HandoffError 7 InvalidScope)"
  using handoff_frames_roundtrip [of sample_request "HandoffError 7 InvalidScope"]
  by (auto simp: request_wf_def sample_request_def string_fits_def sample_utf8 request_body_def string_bytes_def)

text \<open>
  Decoding a handoff frame never panics, and a request or response that was decoded is
  encoded to a frame of the same length that decodes to the same message.
\<close>

theorem handoff_decoding_is_total:
  "decode_request_frame bytes \<noteq> Panicked \<and> decode_response_frame bytes \<noteq> Panicked \<and>
   (case decode_request_frame bytes of
      Inr request \<Rightarrow> \<exists>bytes'. encode_request_frame request = Ok bytes' \<and>
        length bytes' = length bytes \<and> decode_request_frame bytes' = Ok request
    | Inl _ \<Rightarrow> True) \<and>
   (case decode_response_frame bytes of
      Inr response \<Rightarrow> \<exists>bytes'. encode_response_frame response = Ok bytes' \<and>
        length bytes' = length bytes \<and> decode_response_frame bytes' = Ok response
    | Inl _ \<Rightarrow> True)"
  using request.decode_no_panic [of bytes] response.decode_no_panic [of bytes]
    request.decode_reencodes [of bytes] response.decode_reencodes [of bytes]
  by (auto split: sum.split)


end
